(* ===== verification/Prelude.thy ===== *)
theory Prelude
  imports Complex_Main
begin

text \<open>
  What every component shares: the primitives of the JavaScript and SQL fragments the
  sources use (\<open>split\<close>, \<open>trim\<close>, \<open>new Set\<close>, decimal printing, \<open>update .. where\<close>,
  \<open>delete .. where\<close>, a stable comparator sort), and the generic lemmas on them.

  Strings are lists of 8-bit characters; the sources only ever inspect ASCII in the
  routines modelled here. Instants (\<open>Date\<close>, \<open>timestamptz\<close>) are integers in milliseconds.
\<close>

type_synonym instant = int

named_theorems sql_simps "facts about the SQL statement primitives"

section \<open>Strings\<close>

fun split_on :: "char \<Rightarrow> string \<Rightarrow> string list" where
  "split_on c [] = [[]]"
| "split_on c (x # xs) =
     (if x = c then [] # split_on c xs
      else (case split_on c xs of [] \<Rightarrow> [[x]] | p # ps \<Rightarrow> (x # p) # ps))"

fun join_with :: "char \<Rightarrow> string list \<Rightarrow> string" where
  "join_with c [] = []"
| "join_with c [p] = p"
| "join_with c (p # q # ps) = p @ c # join_with c (q # ps)"

definition js_space :: "char \<Rightarrow> bool" where
  "js_space c \<longleftrightarrow> c \<in> set [CHR '' '', CHR 0x09, CHR 0x0A, CHR 0x0B, CHR 0x0C, CHR 0x0D,
     CHR 0xA0]"

definition trim :: "string \<Rightarrow> string" where
  "trim s = rev (dropWhile js_space (rev (dropWhile js_space s)))"

definition starts_with :: "string \<Rightarrow> string \<Rightarrow> bool" where
  "starts_with p s \<longleftrightarrow> take (length p) s = p"

definition ends_with :: "string \<Rightarrow> string \<Rightarrow> bool" where
  "ends_with p s \<longleftrightarrow> length p \<le> length s \<and> drop (length s - length p) s = p"

definition contains_text :: "string \<Rightarrow> string \<Rightarrow> bool" where
  "contains_text needle s \<longleftrightarrow> list_ex (\<lambda>i. starts_with needle (drop i s)) [0..<Suc (length s)]"

text \<open>\<open>s.indexOf(needle)\<close>, and \<open>/x|y/.test(s)\<close> for plain alternatives.\<close>

fun index_of :: "string \<Rightarrow> string \<Rightarrow> nat option" where
  "index_of needle [] = (if needle = [] then Some 0 else None)"
| "index_of needle (c # s) =
     (if starts_with needle (c # s) then Some 0 else map_option Suc (index_of needle s))"

definition contains_any :: "string list \<Rightarrow> string \<Rightarrow> bool" where
  "contains_any needles s \<longleftrightarrow> list_ex (\<lambda>needle. contains_text needle s) needles"

definition lower_char :: "char \<Rightarrow> char" where
  "lower_char c =
     (let n = (of_char c :: nat) in if 65 \<le> n \<and> n \<le> 90 then char_of (n + 32) else c)"

definition to_lower :: "string \<Rightarrow> string" where
  "to_lower s = map lower_char s"

definition is_digit :: "char \<Rightarrow> bool" where
  "is_digit c \<longleftrightarrow> (let n = (of_char c :: nat) in 48 \<le> n \<and> n \<le> 57)"

definition is_lower :: "char \<Rightarrow> bool" where
  "is_lower c \<longleftrightarrow> (let n = (of_char c :: nat) in 97 \<le> n \<and> n \<le> 122)"

definition is_upper :: "char \<Rightarrow> bool" where
  "is_upper c \<longleftrightarrow> (let n = (of_char c :: nat) in 65 \<le> n \<and> n \<le> 90)"

definition is_lower_hex :: "char \<Rightarrow> bool" where
  "is_lower_hex c \<longleftrightarrow>
     is_digit c \<or> (let n = (of_char c :: nat) in 97 \<le> n \<and> n \<le> 102)"

definition digit_value :: "char \<Rightarrow> nat" where
  "digit_value c = of_char c - 48"

definition number_of :: "string \<Rightarrow> nat" where
  "number_of s = foldl (\<lambda>n c. n * 10 + digit_value c) 0 s"

fun decimal :: "nat \<Rightarrow> string" where
  "decimal n =
     (if n < 10 then [char_of (48 + n)]
      else decimal (n div 10) @ [char_of (48 + n mod 10)])"

declare decimal.simps [simp del]

lemma split_on_nonempty [simp]: "split_on c s \<noteq> []"
  by (cases s) (auto split: list.splits)

lemma split_on_no_sep: "p \<in> set (split_on c s) \<Longrightarrow> c \<notin> set p"
proof (induction s arbitrary: p)
  case Nil
  then show ?case by simp
next
  case (Cons x s)
  obtain q qs where "split_on c s = q # qs"
    by (cases "split_on c s") auto
  with Cons show ?case by (auto split: if_splits)
qed

lemma split_on_plain: "c \<notin> set s \<Longrightarrow> split_on c s = [s]"
  by (induction s) auto

lemma split_on_append_sep: "c \<notin> set p \<Longrightarrow> split_on c (p @ c # s) = p # split_on c s"
  by (induction p) auto

lemma split_on_join:
  "ps \<noteq> [] \<Longrightarrow> (\<forall>p \<in> set ps. c \<notin> set p) \<Longrightarrow> split_on c (join_with c ps) = ps"
  by (induction c ps rule: join_with.induct) (auto simp: split_on_plain split_on_append_sep)

lemma join_split [simp]: "join_with c (split_on c s) = s"
proof (induction s)
  case Nil
  then show ?case by simp
next
  case (Cons x xs)
  obtain p ps where ps: "split_on c xs = p # ps"
    by (cases "split_on c xs") auto
  with Cons show ?case by (cases ps) auto
qed

subsection \<open>Decimal numbers\<close>

lemma digit_char [simp]:
  "d < 10 \<Longrightarrow> digit_value (char_of (48 + d)) = d" "d < 10 \<Longrightarrow> is_digit (char_of (48 + d))"
  by (simp_all add: digit_value_def is_digit_def)

lemma number_of_snoc [simp]: "number_of (s @ [c]) = number_of s * 10 + digit_value c"
  by (simp add: number_of_def)

lemma number_of_decimal [simp]: "number_of (decimal n) = n"
proof (induction n rule: decimal.induct)
  case (1 n)
  show ?case
  proof (cases "n < 10")
    case True
    then show ?thesis by (subst decimal.simps) (simp add: number_of_def)
  next
    case False
    with 1 show ?thesis by (subst decimal.simps) (simp add: mult.commute)
  qed
qed

lemma decimal_digits: "c \<in> set (decimal n) \<Longrightarrow> is_digit c"
proof (induction n rule: decimal.induct)
  case (1 n)
  show ?case
  proof (cases "n < 10")
    case True
    with 1 show ?thesis by (simp add: decimal.simps [of n])
  next
    case False
    have "n mod 10 < 10" by simp
    with 1 False show ?thesis by (auto simp: decimal.simps [of n])
  qed
qed

lemma decimal_inject: "decimal m = decimal n \<longleftrightarrow> m = n"
  by (metis number_of_decimal)

section \<open>Sets and sorting as JavaScript has them\<close>

text \<open>\<open>[...new Set(xs)]\<close>: insertion order, the first of equal elements kept.\<close>

fun js_set_from :: "'a list \<Rightarrow> 'a list \<Rightarrow> 'a list" where
  "js_set_from seen [] = []"
| "js_set_from seen (x # xs) =
     (if x \<in> set seen then js_set_from seen xs else x # js_set_from (x # seen) xs)"

definition js_set :: "'a list \<Rightarrow> 'a list" where
  "js_set xs = js_set_from [] xs"

lemma set_js_set_from: "set (js_set_from seen xs) = set xs - set seen"
  by (induction seen xs rule: js_set_from.induct) auto

lemma distinct_js_set_from: "distinct (js_set_from seen xs)"
  by (induction seen xs rule: js_set_from.induct) (auto simp: set_js_set_from)

lemma set_js_set [simp]: "set (js_set xs) = set xs"
  by (simp add: js_set_def set_js_set_from)

lemma distinct_js_set [simp]: "distinct (js_set xs)"
  by (simp add: js_set_def distinct_js_set_from)

text \<open>\<open>xs.sort(cmp)\<close>: stable, by a comparator whose negative result means "before".\<close>

fun cmp_insert :: "('a \<Rightarrow> 'a \<Rightarrow> int) \<Rightarrow> 'a \<Rightarrow> 'a list \<Rightarrow> 'a list" where
  "cmp_insert cmp x [] = [x]"
| "cmp_insert cmp x (y # ys) = (if cmp y x < 0 then y # cmp_insert cmp x ys else x # y # ys)"

definition js_sort :: "('a \<Rightarrow> 'a \<Rightarrow> int) \<Rightarrow> 'a list \<Rightarrow> 'a list" where
  "js_sort cmp xs = foldr (cmp_insert cmp) xs []"

lemma set_cmp_insert [simp]: "set (cmp_insert cmp x ys) = insert x (set ys)"
  by (induction ys) auto

lemma set_js_sort [simp]: "set (js_sort cmp xs) = set xs"
  by (induction xs) (auto simp: js_sort_def)

lemma length_cmp_insert [simp]: "length (cmp_insert cmp x ys) = Suc (length ys)"
  by (induction ys) auto

lemma length_js_sort [simp]: "length (js_sort cmp xs) = length xs"
  by (induction xs) (auto simp: js_sort_def)

lemma js_sort_Nil_iff [simp]: "js_sort cmp xs = [] \<longleftrightarrow> xs = []"
  by (metis length_0_conv length_js_sort)

text \<open>Where a comparator agrees with a key, it sorts as the library's \<open>sort_key\<close> does.\<close>

lemma cmp_insert_insort_key:
  "\<forall>y \<in> set ys. cmp y x < 0 \<longleftrightarrow> f y < f x \<Longrightarrow> cmp_insert cmp x ys = insort_key f x ys"
  for f :: "'a \<Rightarrow> 'b::linorder"
  by (induction ys) auto

lemma js_sort_key:
  fixes f :: "'a \<Rightarrow> 'b::linorder"
  assumes "\<forall>a \<in> set xs. \<forall>b \<in> set xs. cmp a b < 0 \<longleftrightarrow> f a < f b"
  shows "js_sort cmp xs = sort_key f xs"
  using assms
proof (induction xs)
  case Nil
  then show ?case by (simp add: js_sort_def)
next
  case (Cons x xs)
  then have "js_sort cmp xs = sort_key f xs" by simp
  moreover have "\<forall>y \<in> set (sort_key f xs). cmp y x < 0 \<longleftrightarrow> f y < f x"
    using Cons.prems by simp
  ultimately show ?case
    by (simp add: js_sort_def cmp_insert_insort_key)
qed

lemma sort_key_hd_least:
  fixes f :: "'a \<Rightarrow> 'b::linorder"
  assumes "b \<in> set xs"
  shows "f (hd (sort_key f xs)) \<le> f b"
proof -
  have "sorted (map f (sort_key f xs))" by simp
  moreover have "b \<in> set (sort_key f xs)" using assms by simp
  ultimately show ?thesis
    by (cases "sort_key f xs") auto
qed

section \<open>Objects and maps\<close>

text \<open>A plain object or a \<open>Map\<close> is the list of its entries in insertion order.\<close>

text \<open>\<open>result[name] = value\<close>: in place when the property exists, else at the end.\<close>

definition obj_set :: "'k \<Rightarrow> 'v \<Rightarrow> ('k \<times> 'v) list \<Rightarrow> ('k \<times> 'v) list" where
  "obj_set name v obj =
     (if name \<in> fst ` set obj then map (\<lambda>(k, x). if k = name then (k, v) else (k, x)) obj
      else obj @ [(name, v)])"

definition obj_delete :: "'k \<Rightarrow> ('k \<times> 'v) list \<Rightarrow> ('k \<times> 'v) list" where
  "obj_delete name obj = filter (\<lambda>(k, _). k \<noteq> name) obj"

lemma map_of_obj_set [simp]: "map_of (obj_set n v obj) = (map_of obj)(n \<mapsto> v)"
proof
  fix k
  have "map_of (map (\<lambda>(k, x). if k = n then (k, v) else (k, x)) obj) k =
    map_option (\<lambda>x. if k = n then v else x) (map_of obj k)"
    by (induction obj) (simp_all add: case_prod_beta)
  moreover have "map_of (obj @ [(n, v)]) k = (case map_of obj k of None \<Rightarrow> map_of [(n, v)] k | y \<Rightarrow> y)"
    by (induction obj) auto
  moreover have "n \<notin> fst ` set obj \<Longrightarrow> map_of obj n = None" by (simp add: map_of_eq_None_iff)
  moreover have "n \<in> fst ` set obj \<Longrightarrow> map_of obj n \<noteq> None" by (simp add: map_of_eq_None_iff)
  ultimately show "map_of (obj_set n v obj) k = ((map_of obj)(n \<mapsto> v)) k"
    by (cases "n \<in> fst ` set obj"; cases "map_of obj k"; cases "k = n") (simp_all add: obj_set_def)
qed

lemma map_of_obj_delete [simp]: "map_of (obj_delete n obj) = (map_of obj)(n := None)"
  by (induction obj) (auto simp: obj_delete_def fun_eq_iff)

lemma obj_set_distinct: "distinct (map fst obj) \<Longrightarrow> distinct (map fst (obj_set n v obj))"
proof -
  have "map fst (map (\<lambda>(k, x). if k = n then (k, v) else (k, x)) obj) = map fst obj"
    by (induction obj) (simp_all add: case_prod_beta)
  moreover assume "distinct (map fst obj)"
  ultimately show ?thesis
    by (cases "n \<in> fst ` set obj") (simp_all only: obj_set_def if_True if_False, simp)
qed

section \<open>Tables and statements\<close>

text \<open>
  A table is the list of its rows. \<open>update .. set .. where\<close> maps the rows the condition
  selects, \<open>delete .. where\<close> drops them, and \<open>returning\<close> yields the new rows.
\<close>

definition update_where :: "('r \<Rightarrow> bool) \<Rightarrow> ('r \<Rightarrow> 'r) \<Rightarrow> 'r list \<Rightarrow> 'r list" where
  "update_where p f rows = map (\<lambda>r. if p r then f r else r) rows"

definition delete_where :: "('r \<Rightarrow> bool) \<Rightarrow> 'r list \<Rightarrow> 'r list" where
  "delete_where p rows = filter (\<lambda>r. \<not> p r) rows"

definition returning :: "('r \<Rightarrow> bool) \<Rightarrow> ('r \<Rightarrow> 'r) \<Rightarrow> 'r list \<Rightarrow> 'r list" where
  "returning p f rows = map f (filter p rows)"

fun first_row :: "'r list \<Rightarrow> 'r option" where
  "first_row [] = None"
| "first_row (r # rs) = Some r"

lemma length_update_where [simp]: "length (update_where p f rs) = length rs"
  by (simp add: update_where_def)

lemma map_update_where [sql_simps]:
  "(\<And>r. p r \<Longrightarrow> g (f r) = g r) \<Longrightarrow> map g (update_where p f rs) = map g rs"
  by (simp add: update_where_def)

lemma set_update_where [sql_simps]:
  "set (update_where p f rs) = f ` {r \<in> set rs. p r} \<union> {r \<in> set rs. \<not> p r}"
  by (auto simp: update_where_def)

lemma set_delete_where [sql_simps]: "set (delete_where p rs) = {r \<in> set rs. \<not> p r}"
  by (auto simp: delete_where_def)

lemma in_update_where:
  "x \<in> set (update_where p f rs) \<Longrightarrow> (\<exists>r \<in> set rs. p r \<and> x = f r) \<or> (x \<in> set rs \<and> \<not> p x)"
  by (auto simp: update_where_def)

lemma first_row_None [simp]: "first_row rs = None \<longleftrightarrow> rs = []"
  by (cases rs) auto

lemma first_row_in: "first_row rs = Some r \<Longrightarrow> r \<in> set rs"
  by (cases rs) auto

lemma first_row_filter: "first_row (filter p rs) = Some r \<Longrightarrow> r \<in> set rs \<and> p r"
  by (auto dest: first_row_in)

lemma returning_Nil [simp]: "returning p f rs = [] \<longleftrightarrow> (\<forall>r \<in> set rs. \<not> p r)"
  by (simp add: returning_def filter_empty_conv)

lemma update_where_none: "\<forall>r \<in> set rs. \<not> p r \<Longrightarrow> update_where p f rs = rs"
  by (simp add: update_where_def map_idI)

lemma distinct_map_inj:
  "distinct (map g rs) \<Longrightarrow> r \<in> set rs \<Longrightarrow> s \<in> set rs \<Longrightarrow> g r = g s \<Longrightarrow> r = s"
  by (metis distinct_map inj_on_eq_iff)

lemma distinct_map_filter': "distinct (map g rs) \<Longrightarrow> distinct (map g (filter p rs))"
  by (induction rs) auto

lemma filter_key_length:
  "distinct (map g rs) \<Longrightarrow> \<forall>r \<in> set rs. p r \<longrightarrow> g r = k \<Longrightarrow> length (filter p rs) \<le> 1"
proof (induction rs)
  case Nil
  then show ?case by simp
next
  case (Cons r rs)
  show ?case
  proof (cases "p r")
    case True
    with Cons.prems have "\<forall>s \<in> set rs. \<not> p s"
      by (metis distinct.simps(2) image_eqI list.set_intros(1,2) list.set_map list.simps(9))
    then have "filter p rs = []" by (simp add: filter_empty_conv)
    with True show ?thesis by simp
  next
    case False
    with Cons show ?thesis by simp
  qed
qed

end
