(* ===== verification/Ipv4.thy ===== *)
theory Ipv4
  imports Prelude
begin

text \<open>
  \<open>packages/protocol/src/egress.ts\<close>: IPv4 addresses, CIDR blocks and address intervals,
  the arithmetic under the egress policy of the Control Plane and the rule sets of the
  Workers. Addresses are the non-negative integers the source computes with (every value
  stays below \<open>2 ^ 33\<close>, so JavaScript's numbers are exact).

  The lemmas show that parsing inverts printing, that the merged interval list covers the
  same addresses and is the canonical one of its set, that \<open>intervalCovered\<close> and
  \<open>intervalsOverlap\<close> decide inclusion and intersection, and that \<open>intervalToCidrs\<close>
  terminates with aligned, disjoint blocks that cover the interval exactly.
\<close>

section \<open>Addresses and CIDR blocks\<close>

record ipv4_interval =
  iv_start :: nat
  iv_end :: nat

record ipv4_cidr =
  cidr_address :: nat
  cidr_prefix :: nat

definition EGRESS_DEFAULT_DENY_V4 :: "string list" where
  "EGRESS_DEFAULT_DENY_V4 = [''10.0.0.0/8'', ''172.16.0.0/12'', ''192.168.0.0/16'']"

definition EGRESS_MAX_ENTRIES :: nat where
  "EGRESS_MAX_ENTRIES = 1000"

text \<open>The expression \<open>/^(?:0|[1-9]\d{0,2})$/\<close>, and with \<open>k = 1\<close> the prefix's.\<close>

definition is_short_number :: "nat \<Rightarrow> string \<Rightarrow> bool" where
  "is_short_number k s \<longleftrightarrow>
     s = ''0'' \<or>
     (case s of [] \<Rightarrow> False
      | c # cs \<Rightarrow> is_digit c \<and> c \<noteq> CHR ''0'' \<and> length cs \<le> k \<and> list_all is_digit cs)"

definition OCTET :: "string \<Rightarrow> bool" where
  "OCTET s \<longleftrightarrow> is_short_number 2 s"

fun parse_octets :: "string list \<Rightarrow> nat \<Rightarrow> nat option" where
  "parse_octets [] value = Some value"
| "parse_octets (part # parts) value =
     (if \<not> OCTET part then None
      else let octet = number_of part in
        if octet > 255 then None else parse_octets parts (value * 256 + octet))"

definition parseIpv4Address :: "string \<Rightarrow> nat option" where
  "parseIpv4Address text =
     (let parts = split_on CHR ''.'' text in
      if length parts \<noteq> 4 then None else parse_octets parts 0)"

definition formatIpv4Address :: "nat \<Rightarrow> string" where
  "formatIpv4Address v =
     join_with CHR ''.'' (map (\<lambda>shift. decimal (v div 2 ^ shift mod 256)) [24, 16, 8, 0])"

definition prefixSize :: "nat \<Rightarrow> nat" where
  "prefixSize prefix = 2 ^ (32 - prefix)"

text \<open>The part before the first slash and, if there is one, the part after it.\<close>

definition slash_split :: "string \<Rightarrow> string \<times> string option" where
  "slash_split text =
     (let a = takeWhile (\<lambda>c. c \<noteq> CHR ''/'') text; r = dropWhile (\<lambda>c. c \<noteq> CHR ''/'') text in
      (a, case r of [] \<Rightarrow> None | _ # p \<Rightarrow> Some p))"

definition parseIpv4Cidr :: "string \<Rightarrow> ipv4_cidr option" where
  "parseIpv4Cidr text =
     (let (addressText, slashed) = slash_split text;
          prefixText = (case slashed of None \<Rightarrow> ''32'' | Some p \<Rightarrow> p)
      in if \<not> is_short_number 1 prefixText then None
         else let prefix = number_of prefixText in
           if prefix > 32 then None
           else (case parseIpv4Address addressText of
               None \<Rightarrow> None
             | Some address \<Rightarrow>
                 if address mod prefixSize prefix \<noteq> 0 then None
                 else Some \<lparr>cidr_address = address, cidr_prefix = prefix\<rparr>))"

definition formatIpv4Cidr :: "ipv4_cidr \<Rightarrow> string" where
  "formatIpv4Cidr cidr =
     formatIpv4Address (cidr_address cidr) @ CHR ''/'' # decimal (cidr_prefix cidr)"

definition canonicalIpv4Cidr :: "string \<Rightarrow> string option" where
  "canonicalIpv4Cidr text = map_option formatIpv4Cidr (parseIpv4Cidr text)"

definition cidrInterval :: "ipv4_cidr \<Rightarrow> ipv4_interval" where
  "cidrInterval cidr =
     \<lparr>iv_start = cidr_address cidr,
      iv_end = cidr_address cidr + prefixSize (cidr_prefix cidr) - 1\<rparr>"

text \<open>\<open>None\<close> is the thrown \<open>Error("invalid IPv4 CIDR")\<close>.\<close>

definition cidrTextInterval :: "string \<Rightarrow> ipv4_interval option" where
  "cidrTextInterval text = map_option cidrInterval (parseIpv4Cidr text)"

section \<open>Intervals\<close>

text \<open>The merged list under construction is kept with its last element first.\<close>

fun merge_loop :: "ipv4_interval list \<Rightarrow> ipv4_interval list \<Rightarrow> ipv4_interval list" where
  "merge_loop merged [] = rev merged"
| "merge_loop [] (i # is) = merge_loop [i] is"
| "merge_loop (l # ls) (i # is) =
     (if iv_start i \<le> iv_end l + 1
      then merge_loop (l\<lparr>iv_end := max (iv_end l) (iv_end i)\<rparr> # ls) is
      else merge_loop (i # l # ls) is)"

definition mergeIntervals :: "ipv4_interval list \<Rightarrow> ipv4_interval list" where
  "mergeIntervals intervals = merge_loop [] (sort_key iv_start intervals)"

text \<open>The inner loop: the widest aligned block from \<open>start\<close> that ends by \<open>fin\<close>.\<close>

fun widen :: "nat \<Rightarrow> nat \<Rightarrow> nat \<Rightarrow> nat" where
  "widen start fin 0 = 0"
| "widen start fin (Suc p) =
     (if start mod prefixSize p = 0 \<and> start + prefixSize p - 1 \<le> fin
      then widen start fin p else Suc p)"

lemma prefixSize_pos [simp]: "0 < prefixSize p"
  by (simp add: prefixSize_def)

function blocks_from :: "nat \<Rightarrow> nat \<Rightarrow> ipv4_cidr list" where
  "blocks_from start fin =
     (if start \<le> fin
      then let prefix = widen start fin 32 in
        \<lparr>cidr_address = start, cidr_prefix = prefix\<rparr> # blocks_from (start + prefixSize prefix) fin
      else [])"
  by pat_completeness auto
termination
  by (relation "measure (\<lambda>(start, fin). Suc fin - start)") (auto simp: Let_def diff_less_mono2)

declare blocks_from.simps [simp del]

definition intervalToCidrs :: "ipv4_interval \<Rightarrow> ipv4_cidr list" where
  "intervalToCidrs interval = blocks_from (iv_start interval) (iv_end interval)"

definition intervalCovered :: "ipv4_interval \<Rightarrow> ipv4_interval list \<Rightarrow> bool" where
  "intervalCovered inner outer \<longleftrightarrow>
     list_ex (\<lambda>c. iv_start c \<le> iv_start inner \<and> iv_end inner \<le> iv_end c) (mergeIntervals outer)"

definition intervalsOverlap :: "ipv4_interval \<Rightarrow> ipv4_interval \<Rightarrow> bool" where
  "intervalsOverlap left right \<longleftrightarrow>
     iv_start left \<le> iv_end right \<and> iv_start right \<le> iv_end left"

section \<open>Schemas\<close>

definition Ipv4CidrSchema :: "string \<Rightarrow> bool" where
  "Ipv4CidrSchema value \<longleftrightarrow>
     length value \<le> 18 \<and> CHR ''/'' \<in> set value \<and> canonicalIpv4Cidr value = Some value"

datatype egress_protocol = Tcp | Udp

record egress_allow_entry =
  allow_network :: string
  allow_protocol :: "egress_protocol option"
  allow_port_min :: "nat option"
  allow_port_max :: "nat option"

definition port_ok :: "nat option \<Rightarrow> bool" where
  "port_ok p \<longleftrightarrow> (case p of None \<Rightarrow> True | Some n \<Rightarrow> 1 \<le> n \<and> n \<le> 65535)"

definition EgressAllowEntrySchema :: "egress_allow_entry \<Rightarrow> bool" where
  "EgressAllowEntrySchema e \<longleftrightarrow>
     Ipv4CidrSchema (allow_network e) \<and> port_ok (allow_port_min e) \<and> port_ok (allow_port_max e) \<and>
     (allow_port_min e = None) = (allow_port_max e = None) \<and>
     (allow_port_min e = None \<or> allow_protocol e \<noteq> None) \<and>
     (case (allow_port_min e, allow_port_max e) of
        (Some lo, Some hi) \<Rightarrow> lo \<le> hi | _ \<Rightarrow> True)"

record egress_policy =
  pol_revision :: nat
  pol_allow :: "egress_allow_entry list"
  pol_deny_extra :: "string list"
  pol_protected :: "string list"

definition EgressPolicySchema :: "egress_policy \<Rightarrow> bool" where
  "EgressPolicySchema p \<longleftrightarrow>
     pol_revision p \<le> 2 ^ 53 - 1 \<and>
     length (pol_allow p) \<le> EGRESS_MAX_ENTRIES \<and> list_all EgressAllowEntrySchema (pol_allow p) \<and>
     length (pol_deny_extra p) \<le> EGRESS_MAX_ENTRIES \<and>
     list_all Ipv4CidrSchema (pol_deny_extra p) \<and>
     length (pol_protected p) \<le> EGRESS_MAX_ENTRIES \<and>
     list_all Ipv4CidrSchema (pol_protected p)"

record worker_egress_status =
  egs_enforced :: bool
  egs_revision :: "nat option"

text \<open>\<open>Inl invalid\<close> is the first entry that does not parse.\<close>

fun parse_cidr_entries :: "string list \<Rightarrow> string list \<Rightarrow> string + string list" where
  "parse_cidr_entries [] cidrs = Inr (js_set (rev cidrs))"
| "parse_cidr_entries (entry # entries) cidrs =
     (if entry = [] then parse_cidr_entries entries cidrs
      else (case canonicalIpv4Cidr entry of
          None \<Rightarrow> Inl entry
        | Some cidr \<Rightarrow> parse_cidr_entries entries (cidr # cidrs)))"

definition parseIpv4CidrList :: "string \<Rightarrow> string + string list" where
  "parseIpv4CidrList text = parse_cidr_entries (map trim (split_on CHR '','' text)) []"

section \<open>Parsing inverts printing\<close>

lemma short_number_decimal:
  assumes "n < 10 ^ Suc k"
  shows "is_short_number k (decimal n)"
proof (cases "n = 0")
  case True
  moreover have "char_of (48 :: nat) = CHR ''0''"
    using char_of_char [of "CHR ''0''"] by simp
  ultimately show ?thesis by (simp add: is_short_number_def decimal.simps)
next
  case False
  have lead: "char_of (48 + m) \<noteq> CHR ''0''" if "m < 10" "m \<noteq> 0" for m :: nat
  proof
    assume "char_of (48 + m) = CHR ''0''"
    then have "(of_char (char_of (48 + m)) :: nat) = of_char (CHR ''0'')" by simp
    with that show False by simp
  qed
  have "\<exists>c cs. decimal m = c # cs \<and> c \<noteq> CHR ''0'' \<and> length cs \<le> j"
    if "m < 10 ^ Suc j" "m \<noteq> 0" for m j
    using that
  proof (induction j arbitrary: m)
    case 0
    then show ?case using lead [of m] by (simp add: decimal.simps [of m])
  next
    case (Suc j)
    show ?case
    proof (cases "m < 10")
      case True
      then show ?thesis using lead [of m] Suc.prems by (simp add: decimal.simps [of m])
    next
      case False
      with Suc.prems have "m div 10 < 10 ^ Suc j" "m div 10 \<noteq> 0" by auto
      with Suc.IH obtain c cs where "decimal (m div 10) = c # cs" "c \<noteq> CHR ''0''" "length cs \<le> j"
        by blast
      with False show ?thesis by (subst decimal.simps) simp
    qed
  qed
  with assms False obtain c cs where cs: "decimal n = c # cs" "c \<noteq> CHR ''0''" "length cs \<le> k"
    by blast
  moreover have "\<forall>x \<in> set (c # cs). is_digit x"
    using decimal_digits [of _ n] cs(1) by auto
  ultimately show ?thesis by (auto simp: is_short_number_def list_all_iff)
qed

lemma OCTET_decimal: "n < 256 \<Longrightarrow> OCTET (decimal n)"
  by (simp add: OCTET_def short_number_decimal)

lemma decimal_no_sep: "c \<in> set (decimal n) \<Longrightarrow> c \<noteq> CHR ''.'' \<and> c \<noteq> CHR ''/'' \<and> c \<noteq> CHR '',''"
  by (auto dest!: decimal_digits simp: is_digit_def)

lemma parse_octets_decimal:
  "list_all (\<lambda>n. n < 256) ns \<Longrightarrow>
   parse_octets (map decimal ns) v = Some (foldl (\<lambda>a n. a * 256 + n) v ns)"
  by (induction ns arbitrary: v) (auto simp: OCTET_decimal Let_def)

lemma octets_value:
  assumes "v < 2 ^ 32"
  shows "((v div 2 ^ 24 mod 256 * 256 + v div 2 ^ 16 mod 256) * 256 + v div 2 ^ 8 mod 256) * 256
     + v div 2 ^ 0 mod 256 = (v :: nat)"
proof -
  define a b c where "a = v div 256" and "b = a div 256" and "c = b div 256"
  have "v div 2 ^ 8 = a" "v div 2 ^ 16 = b" "v div 2 ^ 24 = c"
    by (simp_all add: a_def b_def c_def flip: div_mult2_eq)
  moreover have "c < 256"
    using assms by (simp add: \<open>v div 2 ^ 24 = c\<close> [symmetric] less_mult_imp_div_less)
  moreover have "v = a * 256 + v mod 256" "a = b * 256 + a mod 256" "b = c * 256 + b mod 256"
    by (simp_all add: a_def b_def c_def)
  ultimately show ?thesis by simp
qed

lemma parse_format_address:
  assumes "v < 2 ^ 32"
  shows "parseIpv4Address (formatIpv4Address v) = Some v"
proof -
  let ?ns = "map (\<lambda>shift. v div 2 ^ shift mod 256) [24, 16, 8, 0]"
  have "split_on CHR ''.'' (formatIpv4Address v) = map decimal ?ns"
    unfolding formatIpv4Address_def
    by (subst split_on_join) (auto dest: decimal_no_sep)
  moreover have "parse_octets (map decimal ?ns) 0 = Some (foldl (\<lambda>a n. a * 256 + n) 0 ?ns)"
    by (rule parse_octets_decimal) simp
  moreover have "foldl (\<lambda>a n. a * 256 + n) 0 ?ns = v"
    using octets_value [OF assms] by (simp only: list.map foldl_Cons foldl_Nil mult_0 add_0)
  ultimately show ?thesis
    by (simp only: parseIpv4Address_def Let_def) simp
qed

subsection \<open>CIDR texts\<close>

definition wf_cidr :: "ipv4_cidr \<Rightarrow> bool" where
  "wf_cidr c \<longleftrightarrow>
     cidr_prefix c \<le> 32 \<and> cidr_address c < 2 ^ 32 \<and>
     cidr_address c mod prefixSize (cidr_prefix c) = 0"

lemma parse_octets_bound:
  "parse_octets ps v = Some a \<Longrightarrow> a < (v + 1) * 256 ^ length ps"
proof (induction ps arbitrary: v)
  case Nil
  then show ?case by simp
next
  case (Cons p ps)
  then have "number_of p \<le> 255" "parse_octets ps (v * 256 + number_of p) = Some a"
    by (auto simp: Let_def split: if_splits)
  with Cons.IH have "a < (v * 256 + number_of p + 1) * 256 ^ length ps" by blast
  also have "\<dots> \<le> ((v + 1) * 256) * 256 ^ length ps"
    using \<open>number_of p \<le> 255\<close> by (intro mult_right_mono) auto
  finally show ?case by (simp add: algebra_simps)
qed

lemma parseIpv4Address_bound: "parseIpv4Address text = Some a \<Longrightarrow> a < 4294967296"
  using parse_octets_bound [of "split_on CHR ''.'' text" 0 a]
  by (auto simp: parseIpv4Address_def Let_def split: if_splits)

lemma parseIpv4Cidr_wf: "parseIpv4Cidr text = Some c \<Longrightarrow> wf_cidr c"
  by (auto simp: parseIpv4Cidr_def wf_cidr_def Let_def parseIpv4Address_bound
      split: if_splits option.splits prod.splits)

lemma formatIpv4Address_no_slash: "CHR ''/'' \<notin> set (formatIpv4Address v)"
proof -
  have "c \<noteq> CHR ''/''" if "c \<in> set (formatIpv4Address v)" for c
    using that by (auto simp: formatIpv4Address_def dest: decimal_no_sep)
  then show ?thesis by blast
qed

lemma slash_split_format:
  "slash_split (formatIpv4Address v @ CHR ''/'' # p) = (formatIpv4Address v, Some p)"
proof -
  have "takeWhile (\<lambda>c. c \<noteq> CHR ''/'') (formatIpv4Address v @ CHR ''/'' # p) = formatIpv4Address v"
    "dropWhile (\<lambda>c. c \<noteq> CHR ''/'') (formatIpv4Address v @ CHR ''/'' # p) = CHR ''/'' # p"
    using formatIpv4Address_no_slash [of v]
    by (subst takeWhile_append2, auto) (subst dropWhile_append2, auto)
  then show ?thesis by (simp add: slash_split_def Let_def)
qed

lemma parse_format_cidr:
  assumes "wf_cidr c"
  shows "parseIpv4Cidr (formatIpv4Cidr c) = Some c"
proof -
  have "is_short_number 1 (decimal (cidr_prefix c))"
    using assms by (intro short_number_decimal) (auto simp: wf_cidr_def)
  with assms show ?thesis
    by (simp add: parseIpv4Cidr_def formatIpv4Cidr_def slash_split_format wf_cidr_def
        parse_format_address del: One_nat_def)
qed

lemma canonical_idem:
  assumes "canonicalIpv4Cidr text = Some s"
  shows "canonicalIpv4Cidr s = Some s" "parseIpv4Cidr s = parseIpv4Cidr text"
proof -
  from assms obtain c where c: "parseIpv4Cidr text = Some c" "s = formatIpv4Cidr c"
    by (auto simp: canonicalIpv4Cidr_def)
  then have "parseIpv4Cidr s = Some c"
    using parseIpv4Cidr_wf parse_format_cidr by blast
  with c show "canonicalIpv4Cidr s = Some s" "parseIpv4Cidr s = parseIpv4Cidr text"
    by (simp_all add: canonicalIpv4Cidr_def)
qed

lemma canonical_is_schema_valid:
  assumes "canonicalIpv4Cidr text = Some s" and "length s \<le> 18"
  shows "Ipv4CidrSchema s"
  using assms canonical_idem(1) [OF assms(1)]
  by (auto simp: Ipv4CidrSchema_def canonicalIpv4Cidr_def formatIpv4Cidr_def)

lemma parse_cidr_entries_valid:
  "parse_cidr_entries es cs = Inr out \<Longrightarrow> \<forall>c \<in> set cs. canonicalIpv4Cidr c = Some c \<Longrightarrow>
   distinct out \<and> (\<forall>c \<in> set out. canonicalIpv4Cidr c = Some c)"
proof (induction es cs rule: parse_cidr_entries.induct)
  case (1 cs)
  then show ?case by auto
next
  case (2 e es cs)
  then show ?case by (auto split: if_splits option.splits dest: canonical_idem(1))
qed

section \<open>Intervals as sets of addresses\<close>

definition addrs :: "ipv4_interval \<Rightarrow> nat set" where
  "addrs i = {iv_start i..iv_end i}"

definition covered :: "ipv4_interval list \<Rightarrow> nat set" where
  "covered is = (\<Union>i \<in> set is. addrs i)"

definition wf_iv :: "ipv4_interval \<Rightarrow> bool" where
  "wf_iv i \<longleftrightarrow> iv_start i \<le> iv_end i"

definition separated :: "ipv4_interval list \<Rightarrow> bool" where
  "separated is \<longleftrightarrow>
     list_all wf_iv is \<and> sorted_wrt (\<lambda>a b. iv_end a + 1 < iv_start b) is"

lemma covered_simps [simp]:
  "covered [] = {}" "covered (i # is) = addrs i \<union> covered is"
  "covered (is @ js) = covered is \<union> covered js" "covered (rev is) = covered is"
  by (auto simp: covered_def)

lemma merge_loop_covered:
  "sorted (map iv_start is) \<Longrightarrow> list_all wf_iv (acc @ is) \<Longrightarrow>
   \<forall>a \<in> set acc. \<forall>i \<in> set is. iv_start a \<le> iv_start i \<Longrightarrow>
   covered (merge_loop acc is) = covered acc \<union> covered is"
proof (induction acc "is" rule: merge_loop.induct)
  case (3 l ls i "is")
  show ?case
  proof (cases "iv_start i \<le> iv_end l + 1")
    case True
    let ?l = "l\<lparr>iv_end := max (iv_end l) (iv_end i)\<rparr>"
    have "addrs ?l = addrs l \<union> addrs i"
      using True 3(3-5) by (auto simp: addrs_def wf_iv_def)
    moreover have "covered (merge_loop (?l # ls) is) = covered (?l # ls) \<union> covered is"
      using True 3(3-5) by (intro 3(1)) (auto simp: wf_iv_def)
    ultimately show ?thesis using True by auto
  next
    case False
    then have "covered (merge_loop (i # l # ls) is) = covered (i # l # ls) \<union> covered is"
      using 3(3-5) by (intro 3(2)) auto
    with False show ?thesis by auto
  qed
qed auto

lemma merge_loop_separated:
  "sorted (map iv_start is) \<Longrightarrow> list_all wf_iv is \<Longrightarrow> separated (rev acc) \<Longrightarrow>
   \<forall>a \<in> set acc. \<forall>i \<in> set is. iv_start a \<le> iv_start i \<Longrightarrow>
   separated (merge_loop acc is)"
proof (induction acc "is" rule: merge_loop.induct)
  case (3 l ls i "is")
  show ?case
  proof (cases "iv_start i \<le> iv_end l + 1")
    case True
    with 3 show ?thesis
      by (auto simp: separated_def sorted_wrt_append wf_iv_def)
  next
    case False
    have "\<forall>a \<in> set ls. iv_end a + 1 < iv_start l" "iv_start l \<le> iv_end l" "iv_end l + 1 < iv_start i"
      using 3(5) False by (auto simp: separated_def sorted_wrt_append wf_iv_def)
    then have "\<forall>a \<in> set ls. iv_end a + 1 < iv_start i" by fastforce
    then have "separated (rev (i # l # ls))"
      using 3(4,5) \<open>iv_end l + 1 < iv_start i\<close>
      by (auto simp: separated_def sorted_wrt_append)
    then have "separated (merge_loop (i # l # ls) is)"
      using False 3(3,4,6) by (intro 3(2)) auto
    with False show ?thesis by simp
  qed
qed (auto simp: separated_def)

lemma merge_covered: "list_all wf_iv is \<Longrightarrow> covered (mergeIntervals is) = covered is"
  unfolding mergeIntervals_def
  by (subst merge_loop_covered) (auto simp: list_all_iff covered_def)

lemma merge_separated: "list_all wf_iv is \<Longrightarrow> separated (mergeIntervals is)"
  unfolding mergeIntervals_def
  by (rule merge_loop_separated) (auto simp: list_all_iff separated_def)

lemma sorted_wrt_pair:
  "sorted_wrt R xs \<Longrightarrow> x \<in> set xs \<Longrightarrow> y \<in> set xs \<Longrightarrow> x = y \<or> R x y \<or> R y x"
  by (induction xs) auto

lemma separated_Cons:
  "separated (i # is) \<longleftrightarrow>
     iv_start i \<le> iv_end i \<and> (\<forall>j \<in> set is. iv_end i + 1 < iv_start j) \<and> separated is"
  by (auto simp: separated_def wf_iv_def)

lemma separated_head:
  assumes "separated (i # is)" "separated (j # js)"
    and cov: "covered (i # is) = covered (j # js)"
  shows "iv_start i \<le> iv_start j" "iv_end i \<le> iv_end j"
proof -
  have above: "iv_end i + 1 < a" if "a \<in> covered is" for a
    using assms(1) that by (auto simp: separated_Cons covered_def addrs_def)
  have above': "iv_end j + 1 < a" if "a \<in> covered js" for a
    using assms(2) that by (auto simp: separated_Cons covered_def addrs_def)
  have "iv_start j \<in> covered (i # is)"
    unfolding cov using assms(2) by (simp add: separated_Cons addrs_def)
  then show start: "iv_start i \<le> iv_start j"
    using above [of "iv_start j"] assms(1) by (auto simp: separated_Cons addrs_def)
  show "iv_end i \<le> iv_end j"
  proof (rule ccontr)
    assume less: "\<not> iv_end i \<le> iv_end j"
    have "iv_start j \<le> iv_end j" using assms(2) by (simp add: separated_Cons)
    with less start have "Suc (iv_end j) \<in> covered (i # is)" by (simp add: addrs_def)
    then have "Suc (iv_end j) \<in> covered js"
      unfolding cov by (auto simp: addrs_def)
    then show False using above' by fastforce
  qed
qed

lemma separated_tail:
  "separated (i # is) \<Longrightarrow> covered is = covered (i # is) - addrs i"
  by (fastforce simp: separated_Cons covered_def addrs_def)

lemma separated_unique:
  "separated xs \<Longrightarrow> separated ys \<Longrightarrow> covered xs = covered ys \<Longrightarrow> xs = ys"
  for xs ys :: "ipv4_interval list"
proof (induction xs arbitrary: ys)
  case Nil
  then show ?case by (cases ys) (auto simp: separated_Cons addrs_def)
next
  case (Cons x xs)
  then obtain y ys' where ys: "ys = y # ys'"
    by (cases ys) (auto simp: separated_Cons addrs_def)
  have "x = y"
    using separated_head [of x xs y ys'] separated_head [of y ys' x xs] Cons.prems ys
    by (intro ipv4_interval.equality) auto
  moreover have "xs = ys'"
  proof (rule Cons.IH)
    show "separated xs" "separated ys'"
      using Cons.prems ys by (simp_all add: separated_Cons)
    show "covered xs = covered ys'"
      using Cons.prems ys \<open>x = y\<close> separated_tail [of x xs] separated_tail [of y ys'] by metis
  qed
  ultimately show ?case by (simp add: ys)
qed

lemma merge_eq_iff:
  "list_all wf_iv xs \<Longrightarrow> list_all wf_iv ys \<Longrightarrow>
   mergeIntervals xs = mergeIntervals ys \<longleftrightarrow> covered xs = covered ys"
  by (metis merge_covered merge_separated separated_unique)

lemma separated_interval_covered:
  assumes sep: "separated is" and "wf_iv i" and sub: "addrs i \<subseteq> covered is"
  shows "\<exists>c \<in> set is. iv_start c \<le> iv_start i \<and> iv_end i \<le> iv_end c"
proof -
  have "iv_start i \<in> covered is" using assms by (auto simp: addrs_def wf_iv_def)
  then obtain c where c: "c \<in> set is" "iv_start c \<le> iv_start i" "iv_start i \<le> iv_end c"
    by (auto simp: covered_def addrs_def)
  have "iv_end i \<le> iv_end c"
  proof (rule ccontr)
    assume "\<not> iv_end i \<le> iv_end c"
    with c have "Suc (iv_end c) \<in> addrs i" by (simp add: addrs_def)
    with sub have "Suc (iv_end c) \<in> covered is" by blast
    then obtain d where d: "d \<in> set is" "iv_start d \<le> Suc (iv_end c)" "Suc (iv_end c) \<le> iv_end d"
      by (auto simp: covered_def addrs_def)
    have "c = d \<or> iv_end c + 1 < iv_start d \<or> iv_end d + 1 < iv_start c"
      using sorted_wrt_pair [OF _ c(1) d(1)] sep by (auto simp: separated_def)
    moreover have "iv_start c \<le> iv_end c" using sep c(1) by (auto simp: separated_def list_all_iff wf_iv_def)
    ultimately show False using d by auto
  qed
  with c show ?thesis by blast
qed

lemma intervalCovered_iff:
  assumes "list_all wf_iv outer" "wf_iv inner"
  shows "intervalCovered inner outer \<longleftrightarrow> addrs inner \<subseteq> covered outer"
proof
  assume "intervalCovered inner outer"
  then obtain c where "c \<in> set (mergeIntervals outer)"
    "iv_start c \<le> iv_start inner" "iv_end inner \<le> iv_end c"
    by (auto simp: intervalCovered_def list_ex_iff)
  then have "addrs inner \<subseteq> addrs c" by (simp add: addrs_def)
  then have "addrs inner \<subseteq> covered (mergeIntervals outer)"
    using \<open>c \<in> set (mergeIntervals outer)\<close> by (auto simp: covered_def)
  with assms show "addrs inner \<subseteq> covered outer" by (simp add: merge_covered)
next
  assume "addrs inner \<subseteq> covered outer"
  with assms show "intervalCovered inner outer"
    using separated_interval_covered [OF merge_separated]
    by (auto simp: intervalCovered_def list_ex_iff merge_covered)
qed

lemma intervalsOverlap_iff:
  "wf_iv l \<Longrightarrow> wf_iv r \<Longrightarrow> intervalsOverlap l r \<longleftrightarrow> addrs l \<inter> addrs r \<noteq> {}"
  by (auto simp: intervalsOverlap_def addrs_def wf_iv_def)

lemma wf_cidrInterval [simp]: "wf_iv (cidrInterval c)"
proof -
  have "Suc 0 \<le> prefixSize (cidr_prefix c)" by (simp add: Suc_leI)
  then show ?thesis unfolding wf_iv_def cidrInterval_def by simp
qed

lemma addrs_cidr: "addrs (cidrInterval c) = {cidr_address c..<cidr_address c + prefixSize (cidr_prefix c)}"
proof -
  have "Suc (cidr_address c + prefixSize (cidr_prefix c) - 1) = cidr_address c + prefixSize (cidr_prefix c)"
    using prefixSize_pos [of "cidr_prefix c"] by simp
  then show ?thesis
    by (simp add: addrs_def cidrInterval_def flip: atLeastLessThanSuc_atLeastAtMost)
qed

lemma cidr_below_2_32:
  assumes "wf_cidr c"
  shows "cidr_address c + prefixSize (cidr_prefix c) \<le> 2 ^ 32"
proof -
  let ?a = "cidr_address c" and ?s = "prefixSize (cidr_prefix c)"
  have dvd: "?s dvd ?a" using assms by (auto simp: wf_cidr_def)
  have "(2 :: nat) ^ 32 = ?s * 2 ^ cidr_prefix c"
    using assms by (simp add: prefixSize_def wf_cidr_def flip: power_add)
  moreover obtain k where k: "?a = ?s * k" using dvd by (rule dvdE)
  moreover have "?a < 2 ^ 32" using assms by (simp add: wf_cidr_def)
  ultimately have "?s * k < ?s * 2 ^ cidr_prefix c" by simp
  then have "Suc k \<le> 2 ^ cidr_prefix c" by simp
  then have "?s * Suc k \<le> ?s * 2 ^ cidr_prefix c" by (rule mult_le_mono2)
  with k \<open>2 ^ 32 = ?s * 2 ^ cidr_prefix c\<close> show ?thesis by simp
qed

section \<open>Splitting an interval into blocks\<close>

lemma widen_le: "widen start fin p \<le> p"
  by (induction start fin p rule: widen.induct) auto

lemma widen_fits:
  "start mod prefixSize p = 0 \<Longrightarrow> start + prefixSize p - 1 \<le> fin \<Longrightarrow>
   start mod prefixSize (widen start fin p) = 0 \<and>
   start + prefixSize (widen start fin p) - 1 \<le> fin"
  by (induction start fin p rule: widen.induct) auto

lemma widen_widest:
  "widen start fin p = Suc q \<Longrightarrow>
   \<not> (start mod prefixSize q = 0 \<and> start + prefixSize q - 1 \<le> fin)"
  by (induction start fin p rule: widen.induct) (auto split: if_splits)

lemma blocks_from_spec:
  "covered (map cidrInterval (blocks_from start fin)) = {start..fin} \<and>
   sorted_wrt (\<lambda>a b. iv_end (cidrInterval a) < cidr_address b) (blocks_from start fin) \<and>
   (\<forall>b \<in> set (blocks_from start fin).
      start \<le> cidr_address b \<and> cidr_address b \<le> fin \<and> cidr_prefix b \<le> 32 \<and>
      cidr_address b mod prefixSize (cidr_prefix b) = 0)"
proof (induction start fin rule: blocks_from.induct)
  case (1 start fin)
  show ?case
  proof (cases "start \<le> fin")
    case False
    then show ?thesis by (simp add: blocks_from.simps [of start])
  next
    case True
    define p where "p = widen start fin 32"
    define rest where "rest = blocks_from (start + prefixSize p) fin"
    have eq: "blocks_from start fin = \<lparr>cidr_address = start, cidr_prefix = p\<rparr> # rest"
      using True by (simp add: blocks_from.simps [of start] p_def rest_def Let_def)
    have fits: "start mod prefixSize p = 0" "start + prefixSize p - 1 \<le> fin" "p \<le> 32"
      using widen_fits [of start 32 fin] widen_le [of start fin 32] True
      by (auto simp: p_def prefixSize_def)
    have IH: "covered (map cidrInterval rest) = {start + prefixSize p..fin}"
      "sorted_wrt (\<lambda>a b. iv_end (cidrInterval a) < cidr_address b) rest"
      "\<forall>b \<in> set rest. start + prefixSize p \<le> cidr_address b \<and> cidr_address b \<le> fin \<and>
         cidr_prefix b \<le> 32 \<and> cidr_address b mod prefixSize (cidr_prefix b) = 0"
      using 1 [OF True p_def] by (auto simp: rest_def)
    have pos: "0 < prefixSize p" by simp
    have "covered (map cidrInterval (blocks_from start fin)) =
        {start..<start + prefixSize p} \<union> {start + prefixSize p..fin}"
      by (simp add: eq IH(1) addrs_cidr)
    also have "\<dots> = {start..fin}" using fits(2) pos by auto
    finally have cov: "covered (map cidrInterval (blocks_from start fin)) = {start..fin}" .
    have "\<forall>b \<in> set rest. start + prefixSize p - 1 < cidr_address b"
    proof
      fix b
      assume "b \<in> set rest"
      with IH(3) have "start + prefixSize p \<le> cidr_address b" by blast
      with pos show "start + prefixSize p - 1 < cidr_address b" by linarith
    qed
    then have ordered: "sorted_wrt (\<lambda>a b. iv_end (cidrInterval a) < cidr_address b)
        (blocks_from start fin)"
      using IH(2) by (simp add: eq cidrInterval_def)
    have "\<forall>b \<in> set (blocks_from start fin).
        start \<le> cidr_address b \<and> cidr_address b \<le> fin \<and> cidr_prefix b \<le> 32 \<and>
        cidr_address b mod prefixSize (cidr_prefix b) = 0"
      using IH(3) fits True by (fastforce simp: eq)
    with cov ordered show ?thesis by blast
  qed
qed

lemma blocks_from_below:
  assumes "b \<in> set (blocks_from start fin)" "fin < 2 ^ 32"
  shows "wf_cidr b"
  using blocks_from_spec [of start fin] assms by (fastforce simp: wf_cidr_def)

lemma prefixSize_dvd: "p \<le> q \<Longrightarrow> q \<le> 32 \<Longrightarrow> prefixSize q dvd prefixSize p"
  by (simp add: prefixSize_def le_imp_power_dvd)

lemma prefixSize_antimono: "p \<le> q \<Longrightarrow> prefixSize q \<le> prefixSize p"
  by (simp add: prefixSize_def)

text \<open>Aligned blocks are nested or disjoint.\<close>

lemma aligned_step:
  fixes s t :: nat
  assumes "s dvd t" "s dvd a" "t dvd b" "b < a + s" "a < b + t" "0 < s"
  shows "b \<le> a \<and> a + s \<le> b + t"
proof -
  obtain j k m where jkm: "a = s * j" "t = s * k" "b = s * (k * m)"
    using assms by (metis dvd_def mult.assoc)
  have "s * (k * m) < s * (j + 1)" "s * j < s * (k * m + k)"
    using assms(4,5) jkm by (simp_all add: algebra_simps)
  then have "k * m < j + 1" "j < k * m + k" using assms(6) by (metis mult_less_cancel1)+
  then have "s * (k * m) \<le> s * j" "s * (j + 1) \<le> s * (k * m + k)"
    by (intro mult_le_mono2; simp)+
  then show ?thesis using jkm by (simp add: algebra_simps)
qed

definition aligned_block :: "ipv4_cidr \<Rightarrow> bool" where
  "aligned_block c \<longleftrightarrow>
     cidr_prefix c \<le> 32 \<and> prefixSize (cidr_prefix c) dvd cidr_address c"

lemma widen_least:
  assumes "q \<le> p" "p \<le> 32" "prefixSize q dvd start" "start + prefixSize q - 1 \<le> fin"
  shows "widen start fin p \<le> q"
  using assms
proof (induction start fin p rule: widen.induct)
  case (2 start fin p)
  show ?case
  proof (cases "q = Suc p")
    case True
    then show ?thesis using widen_le [of start fin "Suc p"] by simp
  next
    case False
    with 2 have "q \<le> p" by simp
    with 2 have "prefixSize p dvd start" "start + prefixSize p - 1 \<le> fin"
      using prefixSize_dvd [of q p] prefixSize_antimono [of q p] by (auto intro: dvd_trans)
    with 2 \<open>q \<le> p\<close> show ?thesis by (simp add: dvd_imp_mod_0)
  qed
qed simp

text \<open>A block of an exact cover lies inside the first greedy block or behind it.\<close>

lemma block_inside_or_behind:
  assumes c: "aligned_block c" "start \<le> cidr_address c" "iv_end (cidrInterval c) \<le> fin"
    and "start \<le> fin" and p: "p = widen start fin 32"
  shows "iv_end (cidrInterval c) < start + prefixSize p \<or> start + prefixSize p \<le> cidr_address c"
proof (rule disjCI)
  let ?q = "cidr_prefix c" and ?a = "cidr_address c"
  assume "\<not> start + prefixSize p \<le> ?a"
  then have near: "?a < start + prefixSize p" by simp
  have p32: "p \<le> 32" and pd: "prefixSize p dvd start"
    using widen_le [of start fin 32] widen_fits [of start 32 fin] \<open>start \<le> fin\<close> p
    by (auto simp: prefixSize_def)
  have pos: "0 < prefixSize ?q" by simp
  with c(2) have below: "start < ?a + prefixSize ?q" by linarith
  show "iv_end (cidrInterval c) < start + prefixSize p"
  proof (cases "p \<le> ?q")
    case True
    then have "start \<le> ?a \<and> ?a + prefixSize ?q \<le> start + prefixSize p"
      using c near pd prefixSize_dvd [of p ?q] below
      by (intro aligned_step) (auto simp: aligned_block_def)
    then have "?a + prefixSize ?q \<le> start + prefixSize p" ..
    with pos show ?thesis
      unfolding cidrInterval_def ipv4_interval.simps by linarith
  next
    case False
    then have "?a \<le> start \<and> start + prefixSize p \<le> ?a + prefixSize ?q"
      using c near pd p32 prefixSize_dvd [of ?q p] below
      by (intro aligned_step) (auto simp: aligned_block_def)
    with c have "?a = start" by simp
    with c have "widen start fin 32 \<le> ?q"
      by (intro widen_least) (auto simp: aligned_block_def cidrInterval_def)
    with p False show ?thesis by simp
  qed
qed

lemma blocks_from_minimal:
  assumes "list_all aligned_block cs" "covered (map cidrInterval cs) = {start..fin}"
  shows "length (blocks_from start fin) \<le> length cs"
  using assms
proof (induction start fin arbitrary: cs rule: blocks_from.induct)
  case (1 start fin)
  show ?case
  proof (cases "start \<le> fin")
    case False
    then show ?thesis by (simp add: blocks_from.simps [of start])
  next
    case True
    define p where "p = widen start fin 32"
    have fits: "start + prefixSize p - 1 \<le> fin"
      using widen_fits [of start 32 fin] True by (auto simp: p_def prefixSize_def)
    have within: "start \<le> cidr_address c" "iv_end (cidrInterval c) \<le> fin" if "c \<in> set cs" for c
    proof -
      have "addrs (cidrInterval c) \<subseteq> {start..fin}"
        using 1(3) that by (auto simp: covered_def)
      then show "start \<le> cidr_address c" "iv_end (cidrInterval c) \<le> fin"
        using wf_cidrInterval [of c]
        by (auto simp: addrs_def wf_iv_def cidrInterval_def)
    qed
    let ?far = "\<lambda>c. start + prefixSize p \<le> cidr_address c"
    let ?cs = "filter ?far cs"
    have far: "?far c" if "c \<in> set cs" "x \<in> addrs (cidrInterval c)" "start + prefixSize p \<le> x" for c x
      using block_inside_or_behind [of c start fin p] within [OF that(1)] 1(2) that True p_def
      by (auto simp: list_all_iff addrs_def)
    have "covered (map cidrInterval ?cs) = {start + prefixSize p..fin}"
    proof (intro equalityI subsetI)
      fix x assume "x \<in> covered (map cidrInterval ?cs)"
      then show "x \<in> {start + prefixSize p..fin}"
        using within by (fastforce simp: covered_def addrs_def cidrInterval_def)
    next
      fix x assume x: "x \<in> {start + prefixSize p..fin}"
      then have "x \<in> covered (map cidrInterval cs)" using 1(3) by simp
      with x far show "x \<in> covered (map cidrInterval ?cs)" by (auto simp: covered_def)
    qed
    then have IH: "length (blocks_from (start + prefixSize p) fin) \<le> length ?cs"
      using 1(1) [OF True p_def, of ?cs] 1(2) by (simp add: list_all_iff)
    have "start \<in> covered (map cidrInterval cs)" using 1(3) True by simp
    then obtain c where "c \<in> set cs" "cidr_address c \<le> start"
      by (auto simp: covered_def addrs_def cidrInterval_def)
    then have "c \<in> set cs" "\<not> ?far c"
      using prefixSize_pos [of p] by (simp, linarith)
    then have "length ?cs < length cs" by (rule length_filter_less)
    with IH True show ?thesis
      by (simp add: blocks_from.simps [of start] p_def Let_def)
  qed
qed

section \<open>Properties\<close>

text \<open>Evaluation of the CIDR routines on literals.\<close>

lemmas cidr_evaluation = canonicalIpv4Cidr_def parseIpv4Cidr_def slash_split_def
  parseIpv4Address_def formatIpv4Cidr_def formatIpv4Address_def prefixSize_def
  is_short_number_def OCTET_def number_of_def digit_value_def is_digit_def decimal.simps
  char_of_def Let_def bit_0

text \<open>Canonical CIDR texts are normal forms: printing a parsed block parses back to the
same block, the canonical text of a text is a fixed point of the canonicaliser, and two texts
have the same canonical form exactly when they denote the same block.\<close>

theorem canonicalIpv4Cidr_normal_form:
  assumes "canonicalIpv4Cidr text = Some s"
  shows "canonicalIpv4Cidr s = Some s \<and> parseIpv4Cidr s = parseIpv4Cidr text \<and>
    parseIpv4Cidr s \<noteq> None \<and>
    (canonicalIpv4Cidr other = Some s \<longleftrightarrow> parseIpv4Cidr other = parseIpv4Cidr text)"
proof -
  have "parseIpv4Cidr other = parseIpv4Cidr text" if "canonicalIpv4Cidr other = Some s"
    using canonical_idem(2) [OF that] canonical_idem(2) [OF assms] by simp
  with assms canonical_idem [OF assms] show ?thesis
    by (auto simp: canonicalIpv4Cidr_def)
qed

lemma canonicalIpv4Cidr_normal_form_witness:
  "canonicalIpv4Cidr ''10.1.0.0/16'' = Some ''10.1.0.0/16'' \<and>
   canonicalIpv4Cidr ''192.168.7.9'' = Some ''192.168.7.9/32''"
proof -
  have a: "canonicalIpv4Cidr ''10.1.0.0/16'' = Some ''10.1.0.0/16''"
    by (simp add: cidr_evaluation)
  have b: "canonicalIpv4Cidr ''192.168.7.9'' = Some ''192.168.7.9/32''"
    by (simp add: cidr_evaluation)
  show ?thesis
    using canonicalIpv4Cidr_normal_form [OF a, of "[]"] b by blast
qed

text \<open>C12. Merging keeps the set of covered addresses, its result is sorted with a gap of at
least one address between neighbours, and it is canonical: two interval lists merge to the same
list exactly when they cover the same addresses, in whatever order they were given.\<close>

theorem mergeIntervals_canonical:
  assumes "list_all wf_iv is" "list_all wf_iv js"
  shows "covered (mergeIntervals is) = covered is \<and> separated (mergeIntervals is) \<and>
    (mergeIntervals is = mergeIntervals js \<longleftrightarrow> covered is = covered js)"
  using assms by (simp add: merge_covered merge_separated merge_eq_iff)

lemma mergeIntervals_canonical_witness:
  "mergeIntervals [\<lparr>iv_start = 5, iv_end = 9\<rparr>, \<lparr>iv_start = 0, iv_end = 4\<rparr>] =
     [\<lparr>iv_start = 0, iv_end = 9\<rparr>] \<and>
   separated (mergeIntervals [\<lparr>iv_start = 5, iv_end = 9\<rparr>, \<lparr>iv_start = 0, iv_end = 4\<rparr>])"
  using mergeIntervals_canonical
    [of "[\<lparr>iv_start = 5, iv_end = 9\<rparr>, \<lparr>iv_start = 0, iv_end = 4\<rparr>]" "[\<lparr>iv_start = 0, iv_end = 9\<rparr>]"]
  by (simp add: wf_iv_def mergeIntervals_def)

text \<open>Both queries are exact: \<open>intervalCovered\<close> decides inclusion in a union of intervals, also where the inner
interval spans several of them, and \<open>intervalsOverlap\<close> decides non-empty intersection.\<close>

theorem interval_queries_decide:
  assumes "wf_iv inner" "wf_iv other" "list_all wf_iv outer"
  shows "(intervalCovered inner outer \<longleftrightarrow> addrs inner \<subseteq> covered outer) \<and>
    (intervalsOverlap inner other \<longleftrightarrow> addrs inner \<inter> addrs other \<noteq> {})"
  using assms by (simp add: intervalCovered_iff intervalsOverlap_iff)

lemma interval_queries_decide_witness:
  "intervalCovered \<lparr>iv_start = 3, iv_end = 7\<rparr>
     [\<lparr>iv_start = 5, iv_end = 9\<rparr>, \<lparr>iv_start = 0, iv_end = 4\<rparr>]"
  using interval_queries_decide [of "\<lparr>iv_start = 3, iv_end = 7\<rparr>" "\<lparr>iv_start = 3, iv_end = 7\<rparr>"
      "[\<lparr>iv_start = 5, iv_end = 9\<rparr>, \<lparr>iv_start = 0, iv_end = 4\<rparr>]"]
  by (auto simp: wf_iv_def addrs_def covered_def)

text \<open>C13. \<open>intervalToCidrs\<close> returns aligned blocks in ascending order, pairwise disjoint, that
cover exactly the interval, and no shorter list of aligned blocks does.\<close>

theorem intervalToCidrs_minimal:
  assumes "iv_end i < 2 ^ 32"
  shows "covered (map cidrInterval (intervalToCidrs i)) = addrs i \<and>
    list_all wf_cidr (intervalToCidrs i) \<and>
    sorted_wrt (\<lambda>a b. iv_end (cidrInterval a) < cidr_address b) (intervalToCidrs i) \<and>
    (list_all aligned_block cs \<and> covered (map cidrInterval cs) = addrs i \<longrightarrow>
      length (intervalToCidrs i) \<le> length cs)"
  using blocks_from_spec [of "iv_start i" "iv_end i"] blocks_from_minimal blocks_from_below assms
  by (auto simp: intervalToCidrs_def addrs_def list_all_iff)

lemma intervalToCidrs_minimal_witness:
  "length (intervalToCidrs \<lparr>iv_start = 1, iv_end = 4\<rparr>) \<le>
   length [\<lparr>cidr_address = 1, cidr_prefix = 32\<rparr>, \<lparr>cidr_address = 2, cidr_prefix = 31\<rparr>,
           \<lparr>cidr_address = 4, cidr_prefix = 32\<rparr>]"
proof -
  let ?i = "\<lparr>iv_start = 1, iv_end = 4\<rparr>"
  let ?cs = "[\<lparr>cidr_address = 1, cidr_prefix = 32\<rparr>, \<lparr>cidr_address = 2, cidr_prefix = 31\<rparr>,
           \<lparr>cidr_address = 4, cidr_prefix = 32\<rparr>]"
  have "list_all aligned_block ?cs" by (simp add: aligned_block_def prefixSize_def)
  moreover have "covered (map cidrInterval ?cs) = addrs ?i"
    by (simp only: list.map covered_simps addrs_def cidrInterval_def prefixSize_def) auto
  ultimately show ?thesis
    using intervalToCidrs_minimal [of ?i ?cs] by simp
qed

end
