(* ===== verification/Schema.thy ===== *)
theory Schema
  imports Prelude Ipv4 "HOL-Library.Char_ord" "HOL-Library.List_Lexorder"
    "HOL-Library.Product_Lexorder"
begin

text \<open>
  The platform database: the row types of \<open>packages/database/migrations\<close> (as they stand
  after migration 0014), the record mappers of \<open>packages/database/src/records.ts\<close>, and the
  triggers, which act inside every statement of the repository modules.

  A transaction of the repository is one function on \<open>db\<close>: the source serialises the
  transactions that must not interleave (advisory locks, row locks), and every other
  operation is a single statement. \<open>now()\<close> is the argument \<open>t\<close>. The triggers are
  applied in PostgreSQL's order (by name, per row, in row order).
\<close>

section \<open>Values\<close>

text \<open>\<open>JTime\<close> is the ISO text of an instant, \<open>JRat\<close> a number that need not be whole.\<close>

datatype json =
    JNull | JBool bool | JNum int | JRat rat | JStr string | JTime instant
  | JArr "json list" | JObj "(string \<times> json) list"

definition json_opt_str :: "string option \<Rightarrow> json" where
  "json_opt_str v = (case v of None \<Rightarrow> JNull | Some s \<Rightarrow> JStr s)"

definition json_opt_num :: "int option \<Rightarrow> json" where
  "json_opt_num v = (case v of None \<Rightarrow> JNull | Some n \<Rightarrow> JNum n)"

datatype db_error = Unique_Violation string | Foreign_Key_Violation string | Check_Violation string

type_synonym 'a result = "db_error + 'a"

datatype architecture = Amd64 | Arm64

datatype ws_state =
    CREATED | SCHEDULING | STARTING | RUNNING | STOPPING | STOPPED | DELETING | ERROR
  | WORKER_OFFLINE | UPGRADING

datatype desired_state = Want_RUNNING | Want_STOPPED | Want_DELETED | Want_UNKNOWN

datatype worker_status = REGISTERED | ONLINE | OFFLINE | DISABLED

datatype stop_reason = Idle

datatype user_role = User | Admin

datatype user_status = Active | Disabled

datatype key_status = Issuing | Key_Active | Revoking | Revoked

datatype issue_reason = Start | Reissue | Rotation

datatype revoke_reason =
    Workspace_Deleted | User_Disabled | Lost | By_Admin | Issue_Failed | Worker_Disabled

datatype throttle_scope = Login_Ip | Ip | Login | Sso_Start

instantiation ws_state :: enum
begin

definition enum_ws_state :: "ws_state list" where
  "enum_ws_state = [CREATED, SCHEDULING, STARTING, RUNNING, STOPPING, STOPPED, DELETING, ERROR,
     WORKER_OFFLINE, UPGRADING]"

definition enum_all_ws_state :: "(ws_state \<Rightarrow> bool) \<Rightarrow> bool" where
  "enum_all_ws_state P = list_all P enum_class.enum"

definition enum_ex_ws_state :: "(ws_state \<Rightarrow> bool) \<Rightarrow> bool" where
  "enum_ex_ws_state P = list_ex P enum_class.enum"

instance
proof
  have all: "x \<in> set enum_class.enum" for x :: ws_state
    by (cases x) (simp_all add: enum_ws_state_def)
  then show "(UNIV :: ws_state set) = set enum_class.enum" by auto
  show "distinct (enum_class.enum :: ws_state list)" by (simp add: enum_ws_state_def)
  show "enum_class.enum_all P \<longleftrightarrow> Ball UNIV P" for P :: "ws_state \<Rightarrow> bool"
    using all by (auto simp: enum_all_ws_state_def list_all_iff)
  show "enum_class.enum_ex P \<longleftrightarrow> Bex UNIV P" for P :: "ws_state \<Rightarrow> bool"
    using all by (auto simp: enum_ex_ws_state_def list_ex_iff)
qed

end

fun ws_state_text :: "ws_state \<Rightarrow> string" where
  "ws_state_text CREATED = ''CREATED''"
| "ws_state_text SCHEDULING = ''SCHEDULING''"
| "ws_state_text STARTING = ''STARTING''"
| "ws_state_text RUNNING = ''RUNNING''"
| "ws_state_text STOPPING = ''STOPPING''"
| "ws_state_text STOPPED = ''STOPPED''"
| "ws_state_text DELETING = ''DELETING''"
| "ws_state_text ERROR = ''ERROR''"
| "ws_state_text WORKER_OFFLINE = ''WORKER_OFFLINE''"
| "ws_state_text UPGRADING = ''UPGRADING''"

fun worker_status_text :: "worker_status \<Rightarrow> string" where
  "worker_status_text REGISTERED = ''REGISTERED''"
| "worker_status_text ONLINE = ''ONLINE''"
| "worker_status_text OFFLINE = ''OFFLINE''"
| "worker_status_text DISABLED = ''DISABLED''"

fun revoke_reason_text :: "revoke_reason \<Rightarrow> string" where
  "revoke_reason_text Workspace_Deleted = ''workspace_deleted''"
| "revoke_reason_text User_Disabled = ''user_disabled''"
| "revoke_reason_text Lost = ''lost''"
| "revoke_reason_text By_Admin = ''admin''"
| "revoke_reason_text Issue_Failed = ''issue_failed''"
| "revoke_reason_text Worker_Disabled = ''worker_disabled''"

fun issue_reason_text :: "issue_reason \<Rightarrow> string" where
  "issue_reason_text Start = ''start''"
| "issue_reason_text Reissue = ''reissue''"
| "issue_reason_text Rotation = ''rotation''"

fun role_text :: "user_role \<Rightarrow> string" where
  "role_text User = ''user''"
| "role_text Admin = ''admin''"

fun user_status_text :: "user_status \<Rightarrow> string" where
  "user_status_text Active = ''active''"
| "user_status_text Disabled = ''disabled''"

section \<open>Rows\<close>

text \<open>Instants are milliseconds; \<open>us_budget\<close> (\<open>numeric(12, 2)\<close>) is in cents.\<close>

type_synonym capabilities = "(string \<times> bool) list"

record runtime_image =
  rti_image :: string
  rti_image_id :: "string option"
  rti_version :: string
  rti_pi_web :: "string option"
  rti_pi :: "string option"
  rti_capabilities :: capabilities

record ws_row =
  ws_id :: string
  ws_user :: string
  ws_name :: string
  ws_worker :: "string option"
  ws_state :: ws_state
  ws_desired :: desired_state
  ws_image :: string
  ws_previous_image :: "string option"
  ws_changed_at :: "instant option"
  ws_required_arch :: "architecture option"
  ws_required_caps :: capabilities
  ws_created :: instant
  ws_updated :: instant
  ws_activity :: instant
  ws_access :: "instant option"
  ws_stop_reason :: "stop_reason option"
  ws_disk_limit :: int
  ws_disk_used :: "int option"
  ws_disk_inodes :: "int option"
  ws_pi_used :: "int option"
  ws_pi_limit :: "int option"
  ws_disk_at :: "instant option"

record worker_row =
  wk_id :: string
  wk_credential :: string
  wk_hostname :: "string option"
  wk_arch :: "architecture option"
  wk_status :: worker_status
  wk_enabled :: bool
  wk_schedulable :: bool
  wk_image :: "string option"
  wk_runtime_version :: "string option"
  wk_gateway :: "string option"
  wk_caps :: capabilities
  wk_images :: "runtime_image list"
  wk_version :: "string option"
  wk_max :: "nat option"
  wk_allocated :: nat
  wk_cpu_count :: "nat option"
  wk_memory :: "int option"
  wk_heartbeat :: "instant option"
  wk_egress_enforced :: bool
  wk_egress_revision :: "nat option"
  wk_egress_checked :: "instant option"
  wk_storage_enforced :: bool
  wk_storage_fs :: "string option"
  wk_storage_total :: "int option"
  wk_storage_free :: "int option"
  wk_storage_checked :: "instant option"
  wk_relay_enabled :: bool
  wk_relay_port :: "nat option"
  wk_relay_listening :: bool
  wk_created :: instant
  wk_updated :: instant

record user_row =
  us_id :: string
  us_email :: "string option"
  us_username :: "string option"
  us_password :: "string option"
  us_role :: user_role
  us_status :: user_status
  us_last_login :: "instant option"
  us_budget :: "int option"
  us_created :: instant
  us_updated :: instant

record session_row =
  se_id :: string
  se_user :: string
  se_token :: string
  se_expires :: instant
  se_revoked :: "instant option"

record identity_row =
  id_id :: string
  id_user :: string
  id_provider :: string
  id_subject :: string
  id_username :: "string option"
  id_email :: "string option"
  id_display :: "string option"
  id_created :: instant
  id_last_login :: "instant option"

record key_row =
  mk_id :: string
  mk_workspace :: "string option"
  mk_user :: string
  mk_alias :: string
  mk_status :: key_status
  mk_issue_reason :: issue_reason
  mk_revoke_reason :: "revoke_reason option"
  mk_created :: instant
  mk_requested :: "instant option"
  mk_revoked :: "instant option"
  mk_attempts :: nat
  mk_next :: "instant option"
  mk_error :: "string option"

record throttle_row =
  th_id :: string
  th_scope :: throttle_scope
  th_key :: string
  th_ip :: "string option"
  th_user :: "string option"
  th_window :: instant
  th_failures :: nat
  th_locked :: "instant option"

datatype rule_action = Allow | Deny

record egress_rule =
  er_id :: string
  er_action :: rule_action
  er_network :: string
  er_protocol :: "egress_protocol option"
  er_port_min :: "nat option"
  er_port_max :: "nat option"
  er_description :: string
  er_created_by :: string
  er_created :: instant

record audit_row =
  au_id :: nat
  au_type :: string
  au_actor :: "string option"
  au_owner :: "string option"
  au_workspace :: "string option"
  au_worker :: "string option"
  au_details :: json
  au_created :: instant

record db =
  db_users :: "user_row list"
  db_sessions :: "session_row list"
  db_identities :: "identity_row list"
  db_workspaces :: "ws_row list"
  db_workers :: "worker_row list"
  db_keys :: "key_row list"
  db_throttle :: "throttle_row list"
  db_egress_rules :: "egress_rule list"
  db_egress_revision :: nat
  db_audit :: "audit_row list"

definition empty_db :: db where
  "empty_db =
     \<lparr>db_users = [], db_sessions = [], db_identities = [], db_workspaces = [], db_workers = [],
      db_keys = [], db_throttle = [], db_egress_rules = [], db_egress_revision = 0,
      db_audit = []\<rparr>"

section \<open>Audit events\<close>

text \<open>\<open>insert into platform_audit_events\<close>; the identity column numbers the rows from 1.\<close>

definition insert_audit ::
  "instant \<Rightarrow> string \<Rightarrow> string option \<Rightarrow> string option \<Rightarrow> string option \<Rightarrow> string option \<Rightarrow> json
   \<Rightarrow> db \<Rightarrow> db" where
  "insert_audit t event actor own workspace worker details d =
     d\<lparr>db_audit := db_audit d @
        [\<lparr>au_id = Suc (length (db_audit d)), au_type = event, au_actor = actor, au_owner = own,
          au_workspace = workspace, au_worker = worker, au_details = details, au_created = t\<rparr>]\<rparr>"

fun workspace_event_type :: "ws_state \<Rightarrow> string" where
  "workspace_event_type STARTING = ''workspace.starting''"
| "workspace_event_type RUNNING = ''workspace.running''"
| "workspace_event_type STOPPING = ''workspace.stopping''"
| "workspace_event_type STOPPED = ''workspace.stopped''"
| "workspace_event_type DELETING = ''workspace.deleting''"
| "workspace_event_type ERROR = ''workspace.error''"
| "workspace_event_type WORKER_OFFLINE = ''workspace.worker_offline''"
| "workspace_event_type UPGRADING = ''workspace.runtime_upgrading''"
| "workspace_event_type _ = ''workspace.state_changed''"

definition audit_workspace_insert :: "instant \<Rightarrow> ws_row \<Rightarrow> db \<Rightarrow> db" where
  "audit_workspace_insert t w d =
     insert_audit t ''workspace.created'' None (Some (ws_user w)) (Some (ws_id w)) (ws_worker w)
       (JObj [(''name'', JStr (ws_name w)), (''runtimeImage'', JStr (ws_image w))]) d"

definition audit_workspace_update :: "instant \<Rightarrow> ws_row \<Rightarrow> ws_row \<Rightarrow> db \<Rightarrow> db" where
  "audit_workspace_update t old new d =
     (let d1 =
        (if ws_worker old \<noteq> ws_worker new \<and> ws_worker new \<noteq> None
         then insert_audit t ''workspace.scheduled'' None (Some (ws_user new)) (Some (ws_id new))
                (ws_worker new) (JObj [(''sticky'', JBool (ws_worker old \<noteq> None))]) d
         else d)
      in if ws_state old \<noteq> ws_state new
         then insert_audit t (workspace_event_type (ws_state new)) None (Some (ws_user new))
                (Some (ws_id new)) (ws_worker new)
                (JObj [(''fromState'', JStr (ws_state_text (ws_state old))),
                       (''toState'', JStr (ws_state_text (ws_state new)))]) d1
         else d1)"

definition audit_workspace_delete :: "instant \<Rightarrow> ws_row \<Rightarrow> db \<Rightarrow> db" where
  "audit_workspace_delete t w d =
     insert_audit t ''workspace.deleted'' None (Some (ws_user w)) (Some (ws_id w)) (ws_worker w)
       (JObj [(''name'', JStr (ws_name w)), (''previousState'', JStr (ws_state_text (ws_state w)))]) d"

section \<open>Statements on workspaces\<close>

definition update_workspaces ::
  "instant \<Rightarrow> (ws_row \<Rightarrow> bool) \<Rightarrow> (ws_row \<Rightarrow> ws_row) \<Rightarrow> db \<Rightarrow> db" where
  "update_workspaces t p f d =
     fold (\<lambda>w. audit_workspace_update t w (f w)) (filter p (db_workspaces d))
       (d\<lparr>db_workspaces := update_where p f (db_workspaces d)\<rparr>)"

definition key_live :: "key_row \<Rightarrow> bool" where
  "key_live k \<longleftrightarrow> mk_status k \<in> {Issuing, Key_Active}"

definition start_revoke :: "instant \<Rightarrow> revoke_reason \<Rightarrow> key_row \<Rightarrow> key_row" where
  "start_revoke t reason k =
     k\<lparr>mk_status := Revoking, mk_revoke_reason := Some reason, mk_requested := Some t,
       mk_next := Some t\<rparr>"

text \<open>The database function \<open>model_keys_request_revoke\<close> of migration 0012.\<close>

definition model_keys_request_revoke ::
  "instant \<Rightarrow> string option \<Rightarrow> string option \<Rightarrow> revoke_reason \<Rightarrow> db \<Rightarrow> db" where
  "model_keys_request_revoke t workspace user reason d =
     (let p = (\<lambda>k. key_live k \<and> (workspace = None \<or> mk_workspace k = workspace) \<and>
                   (user = None \<or> Some (mk_user k) = user))
      in fold (\<lambda>k. insert_audit t ''model.key_revoke_requested'' None (Some (mk_user k))
                   (mk_workspace k) None
                   (JObj [(''keyAlias'', JStr (mk_alias k)),
                          (''reason'', JStr (revoke_reason_text reason)),
                          (''source'', JStr ''database'')]))
           (filter p (db_keys d))
           (d\<lparr>db_keys := update_where p (start_revoke t reason) (db_keys d)\<rparr>))"

definition model_keys_matching :: "string option \<Rightarrow> string option \<Rightarrow> db \<Rightarrow> key_row list" where
  "model_keys_matching workspace user d =
     filter (\<lambda>k. key_live k \<and> (workspace = None \<or> mk_workspace k = workspace) \<and>
                 (user = None \<or> Some (mk_user k) = user)) (db_keys d)"

text \<open>
  One deleted row: the \<open>before delete\<close> trigger revokes its keys, the row goes, the foreign
  key of \<open>model_keys\<close> is set to null, and the audit trigger records the deletion.
\<close>

definition delete_workspace_row :: "instant \<Rightarrow> ws_row \<Rightarrow> db \<Rightarrow> db" where
  "delete_workspace_row t w d =
     (let d1 = model_keys_request_revoke t (Some (ws_id w)) None Workspace_Deleted d;
          d2 = d1\<lparr>db_workspaces := delete_where (\<lambda>x. ws_id x = ws_id w) (db_workspaces d1),
                  db_keys := update_where (\<lambda>k. mk_workspace k = Some (ws_id w))
                               (\<lambda>k. k\<lparr>mk_workspace := None\<rparr>) (db_keys d1)\<rparr>
      in audit_workspace_delete t w d2)"

definition delete_workspaces :: "instant \<Rightarrow> (ws_row \<Rightarrow> bool) \<Rightarrow> db \<Rightarrow> db" where
  "delete_workspaces t p d = fold (delete_workspace_row t) (filter p (db_workspaces d)) d"

section \<open>Statements on workers\<close>

text \<open>States that a lost or revoked Worker turns into \<open>WORKER_OFFLINE\<close>.\<close>

definition worker_dependent :: "ws_state \<Rightarrow> bool" where
  "worker_dependent s \<longleftrightarrow> s \<in> {STARTING, RUNNING, STOPPING, STOPPED, ERROR, UPGRADING}"

definition mark_worker_offline :: "instant \<Rightarrow> string \<Rightarrow> db \<Rightarrow> db" where
  "mark_worker_offline t worker d =
     update_workspaces t (\<lambda>w. ws_worker w = Some worker \<and> worker_dependent (ws_state w))
       (\<lambda>w. w\<lparr>ws_state := WORKER_OFFLINE, ws_updated := t\<rparr>) d"

definition workers_enabled_status :: "worker_row \<Rightarrow> worker_row \<Rightarrow> worker_row" where
  "workers_enabled_status old new =
     (if wk_enabled old \<and> \<not> wk_enabled new then new\<lparr>wk_status := DISABLED\<rparr>
      else if \<not> wk_enabled old \<and> wk_enabled new \<and> wk_status new = DISABLED
      then new\<lparr>wk_status := OFFLINE\<rparr>
      else new)"

fun worker_event_type :: "worker_status \<Rightarrow> string" where
  "worker_event_type ONLINE = ''worker.online''"
| "worker_event_type OFFLINE = ''worker.offline''"
| "worker_event_type DISABLED = ''worker.disabled''"
| "worker_event_type REGISTERED = ''worker.registered''"

definition json_capabilities :: "capabilities \<Rightarrow> json" where
  "json_capabilities caps = JObj (map (\<lambda>(c, b). (c, JBool b)) caps)"

definition json_arch :: "architecture option \<Rightarrow> json" where
  "json_arch a = (case a of None \<Rightarrow> JNull | Some Amd64 \<Rightarrow> JStr ''amd64'' | Some Arm64 \<Rightarrow> JStr ''arm64'')"

definition record_worker_audit_event :: "instant \<Rightarrow> worker_row \<Rightarrow> worker_row \<Rightarrow> db \<Rightarrow> db" where
  "record_worker_audit_event t old new d =
     (let d1 =
        (if wk_status old \<noteq> wk_status new \<and> wk_enabled old = wk_enabled new
         then insert_audit t (worker_event_type (wk_status new)) None None None (Some (wk_id new))
                (JObj [(''fromStatus'', JStr (worker_status_text (wk_status old))),
                       (''toStatus'', JStr (worker_status_text (wk_status new)))]) d
         else d)
      in if wk_arch old \<noteq> wk_arch new \<or> wk_images old \<noteq> wk_images new \<or> wk_max old \<noteq> wk_max new
         then insert_audit t ''worker.runtime_reported'' None None None (Some (wk_id new))
                (JObj [(''architecture'', json_arch (wk_arch new)),
                       (''runtimeImages'',
                        JArr (map (\<lambda>i. JObj [(''image'', JStr (rti_image i)),
                                             (''runtimeVersion'', JStr (rti_version i)),
                                             (''capabilities'', json_capabilities (rti_capabilities i))])
                              (wk_images new))),
                       (''maxWorkspaces'', json_opt_num (map_option int (wk_max new)))]) d1
         else d1)"

definition assigned_to :: "string \<Rightarrow> db \<Rightarrow> ws_row list" where
  "assigned_to worker d = filter (\<lambda>w. ws_worker w = Some worker) (db_workspaces d)"

text \<open>
  The consequences of disabling: the Workspaces go offline, their live keys are revoked,
  and the audit event counts both.
\<close>

definition workers_after_enabled_change ::
  "string \<Rightarrow> instant \<Rightarrow> worker_row \<Rightarrow> worker_row \<Rightarrow> db \<Rightarrow> db" where
  "workers_after_enabled_change source t old new d =
     (if wk_enabled old \<and> \<not> wk_enabled new
      then let d1 = mark_worker_offline t (wk_id new) d;
               ids = map ws_id (assigned_to (wk_id new) d1);
               (d2, revoked) =
                 fold (\<lambda>i (s, n).
                   (model_keys_request_revoke t (Some i) None Worker_Disabled s,
                    n + length (model_keys_matching (Some i) None s))) ids (d1, 0)
           in insert_audit t ''worker.disabled'' None None None (Some (wk_id new))
                (JObj [(''source'', JStr source),
                       (''fromStatus'', JStr (worker_status_text (wk_status old))),
                       (''workspaces'', JNum (int (length ids))),
                       (''modelKeys'', JNum (int revoked))]) d2
      else if \<not> wk_enabled old \<and> wk_enabled new
      then insert_audit t ''worker.enabled'' None None None (Some (wk_id new))
             (JObj [(''source'', JStr source)]) d
      else d)"

definition workers_after_version_change :: "instant \<Rightarrow> worker_row \<Rightarrow> worker_row \<Rightarrow> db \<Rightarrow> db" where
  "workers_after_version_change t old new d =
     (if wk_version old \<noteq> wk_version new
      then insert_audit t ''worker.version_reported'' None None None (Some (wk_id new))
             (JObj [(''fromVersion'', json_opt_str (wk_version old)),
                    (''toVersion'', json_opt_str (wk_version new))]) d
      else d)"

definition after_worker_update :: "string \<Rightarrow> instant \<Rightarrow> worker_row \<Rightarrow> worker_row \<Rightarrow> db \<Rightarrow> db" where
  "after_worker_update source t old new d =
     workers_after_version_change t old new
       (workers_after_enabled_change source t old new
         (record_worker_audit_event t old new d))"

definition update_workers ::
  "string \<Rightarrow> instant \<Rightarrow> (worker_row \<Rightarrow> bool) \<Rightarrow> (worker_row \<Rightarrow> worker_row) \<Rightarrow> db \<Rightarrow> db" where
  "update_workers source t p f d =
     (let g = (\<lambda>w. workers_enabled_status w (f w)) in
      fold (\<lambda>w. after_worker_update source t w (g w)) (filter p (db_workers d))
        (d\<lparr>db_workers := update_where p g (db_workers d)\<rparr>))"

text \<open>The transaction-local \<open>agent_runtime.audit_source\<close> when no caller sets it.\<close>

definition default_audit_source :: string where
  "default_audit_source = ''database''"

definition delete_worker_row :: "string \<Rightarrow> instant \<Rightarrow> worker_row \<Rightarrow> db \<Rightarrow> db" where
  "delete_worker_row source t w d =
     insert_audit t ''worker.deleted'' None None None (Some (wk_id w))
       (JObj [(''source'', JStr source), (''status'', JStr (worker_status_text (wk_status w))),
              (''hostname'', json_opt_str (wk_hostname w))])
       (d\<lparr>db_workers := delete_where (\<lambda>x. wk_id x = wk_id w) (db_workers d)\<rparr>)"

section \<open>Statements on users\<close>

definition model_keys_on_user_disable :: "instant \<Rightarrow> user_row \<Rightarrow> user_row \<Rightarrow> db \<Rightarrow> db" where
  "model_keys_on_user_disable t old new d =
     (if us_status new = Disabled \<and> us_status old \<noteq> Disabled
      then model_keys_request_revoke t None (Some (us_id new)) User_Disabled d
      else d)"

definition update_users ::
  "instant \<Rightarrow> (user_row \<Rightarrow> bool) \<Rightarrow> (user_row \<Rightarrow> user_row) \<Rightarrow> db \<Rightarrow> db" where
  "update_users t p f d =
     fold (\<lambda>u. model_keys_on_user_disable t u (f u)) (filter p (db_users d))
       (d\<lparr>db_users := update_where p f (db_users d)\<rparr>)"

section \<open>Inserts\<close>

definition insert_workspace :: "instant \<Rightarrow> ws_row \<Rightarrow> db \<Rightarrow> db result" where
  "insert_workspace t w d =
     (if ws_id w \<in> ws_id ` set (db_workspaces d) then Inl (Unique_Violation ''workspaces_pkey'')
      else if ws_user w \<notin> us_id ` set (db_users d)
      then Inl (Foreign_Key_Violation ''workspaces_user_id_fkey'')
      else if \<not> (1 \<le> length (ws_name w) \<and> length (ws_name w) \<le> 80)
      then Inl (Check_Violation ''workspaces_name_length'')
      else if \<not> ws_disk_limit w > 0 then Inl (Check_Violation ''workspaces_disk_limit_positive'')
      else if (ws_user w, ws_name w) \<in> (\<lambda>x. (ws_user x, ws_name x)) ` set (db_workspaces d)
      then Inl (Unique_Violation ''workspaces_user_name_unique'')
      else Inr (audit_workspace_insert t w (d\<lparr>db_workspaces := db_workspaces d @ [w]\<rparr>)))"

definition insert_worker :: "instant \<Rightarrow> worker_row \<Rightarrow> db \<Rightarrow> db result" where
  "insert_worker t w d =
     (if wk_id w \<in> wk_id ` set (db_workers d) then Inl (Unique_Violation ''workers_pkey'')
      else if wk_credential w \<in> wk_credential ` set (db_workers d)
      then Inl (Unique_Violation ''workers_credential_hash_key'')
      else Inr (insert_audit t ''worker.registered'' None None None (Some (wk_id w)) (JObj [])
                  (d\<lparr>db_workers := db_workers d @ [w]\<rparr>)))"

section \<open>Frame lemmas\<close>

text \<open>
  What each statement leaves alone. \<open>audit_extends d d'\<close> says that the audit table of \<open>d'\<close>
  continues the one of \<open>d\<close>, and that the ids stay consecutive.
\<close>

definition audit_numbered :: "db \<Rightarrow> bool" where
  "audit_numbered d \<longleftrightarrow> map au_id (db_audit d) = [1..<Suc (length (db_audit d))]"

definition audit_extends :: "db \<Rightarrow> db \<Rightarrow> bool" where
  "audit_extends d d' \<longleftrightarrow>
     take (length (db_audit d)) (db_audit d') = db_audit d \<and>
     (audit_numbered d \<longrightarrow> audit_numbered d')"

lemma audit_extends_refl [simp]: "audit_extends d d"
  by (simp add: audit_extends_def)

lemma audit_extends_trans [trans]:
  "audit_extends d e \<Longrightarrow> audit_extends e f \<Longrightarrow> audit_extends d f"
  unfolding audit_extends_def by (metis append_take_drop_id append_assoc append_eq_conv_conj)

lemma audit_extends_same: "db_audit d' = db_audit d \<Longrightarrow> audit_extends d d'"
  by (simp add: audit_extends_def audit_numbered_def)

lemma audit_extends_insert [simp]: "audit_extends d (insert_audit t e a ow w k j d)"
  by (simp add: audit_extends_def audit_numbered_def insert_audit_def)

lemma audit_extends_insert_chain [simp]:
  "audit_extends d e \<Longrightarrow> audit_extends d (insert_audit t ev a ow w k j e)"
  by (rule audit_extends_trans [OF _ audit_extends_insert])

lemma fold_frame: "(\<And>x s. g (h x s) = g s) \<Longrightarrow> g (fold h xs s) = g s"
  by (induction xs arbitrary: s) simp_all

lemma fold_audit_extends: "(\<And>x s. audit_extends s (h x s)) \<Longrightarrow> audit_extends s (fold h xs s)"
proof (induction xs arbitrary: s)
  case Nil
  then show ?case by simp
next
  case (Cons x xs)
  then show ?case using audit_extends_trans by fastforce
qed

lemma insert_audit_frame [simp]:
  "db_users (insert_audit t e a ow w k j d) = db_users d"
  "db_sessions (insert_audit t e a ow w k j d) = db_sessions d"
  "db_identities (insert_audit t e a ow w k j d) = db_identities d"
  "db_workspaces (insert_audit t e a ow w k j d) = db_workspaces d"
  "db_workers (insert_audit t e a ow w k j d) = db_workers d"
  "db_keys (insert_audit t e a ow w k j d) = db_keys d"
  "db_throttle (insert_audit t e a ow w k j d) = db_throttle d"
  "db_egress_rules (insert_audit t e a ow w k j d) = db_egress_rules d"
  "db_egress_revision (insert_audit t e a ow w k j d) = db_egress_revision d"
  by (simp_all add: insert_audit_def)

lemma audit_workspace_update_frame [simp]:
  "db_users (audit_workspace_update t x y d) = db_users d"
  "db_sessions (audit_workspace_update t x y d) = db_sessions d"
  "db_identities (audit_workspace_update t x y d) = db_identities d"
  "db_workspaces (audit_workspace_update t x y d) = db_workspaces d"
  "db_workers (audit_workspace_update t x y d) = db_workers d"
  "db_keys (audit_workspace_update t x y d) = db_keys d"
  "db_throttle (audit_workspace_update t x y d) = db_throttle d"
  "db_egress_rules (audit_workspace_update t x y d) = db_egress_rules d"
  "db_egress_revision (audit_workspace_update t x y d) = db_egress_revision d"
  by (simp_all add: audit_workspace_update_def Let_def)

lemma update_workspaces_frame [simp]:
  "db_users (update_workspaces t p f d) = db_users d"
  "db_sessions (update_workspaces t p f d) = db_sessions d"
  "db_identities (update_workspaces t p f d) = db_identities d"
  "db_workers (update_workspaces t p f d) = db_workers d"
  "db_keys (update_workspaces t p f d) = db_keys d"
  "db_throttle (update_workspaces t p f d) = db_throttle d"
  "db_egress_rules (update_workspaces t p f d) = db_egress_rules d"
  "db_egress_revision (update_workspaces t p f d) = db_egress_revision d"
  by (simp_all add: update_workspaces_def fold_frame)

lemma update_workspaces_table [simp]:
  "db_workspaces (update_workspaces t p f d) = update_where p f (db_workspaces d)"
  by (simp add: update_workspaces_def fold_frame)

lemma audit_extends_table [simp]:
  "audit_extends d (e\<lparr>db_workspaces := x\<rparr>) = audit_extends d e"
  "audit_extends d (e\<lparr>db_workers := y\<rparr>) = audit_extends d e"
  "audit_extends d (e\<lparr>db_keys := z\<rparr>) = audit_extends d e"
  "audit_extends d (e\<lparr>db_users := u\<rparr>) = audit_extends d e"
  "audit_extends (d\<lparr>db_workspaces := x\<rparr>) e = audit_extends d e"
  "audit_extends (d\<lparr>db_workers := y\<rparr>) e = audit_extends d e"
  "audit_extends (d\<lparr>db_keys := z\<rparr>) e = audit_extends d e"
  "audit_extends (d\<lparr>db_users := u\<rparr>) e = audit_extends d e"
  by (simp_all add: audit_extends_def audit_numbered_def)

lemma audit_workspace_update_audit [simp]: "audit_extends d (audit_workspace_update t x y d)"
  by (simp add: audit_workspace_update_def Let_def)

lemma update_workspaces_audit [simp]: "audit_extends d (update_workspaces t p f d)"
  using fold_audit_extends [where s = "d\<lparr>db_workspaces := update_where p f (db_workspaces d)\<rparr>"
      and h = "\<lambda>w. audit_workspace_update t w (f w)"]
  by (simp add: update_workspaces_def)

lemma model_keys_request_revoke_frame [simp]:
  "db_users (model_keys_request_revoke t w u r d) = db_users d"
  "db_sessions (model_keys_request_revoke t w u r d) = db_sessions d"
  "db_identities (model_keys_request_revoke t w u r d) = db_identities d"
  "db_workspaces (model_keys_request_revoke t w u r d) = db_workspaces d"
  "db_workers (model_keys_request_revoke t w u r d) = db_workers d"
  "db_throttle (model_keys_request_revoke t w u r d) = db_throttle d"
  "db_egress_rules (model_keys_request_revoke t w u r d) = db_egress_rules d"
  "db_egress_revision (model_keys_request_revoke t w u r d) = db_egress_revision d"
  by (simp_all add: model_keys_request_revoke_def Let_def fold_frame)

lemma model_keys_request_revoke_table:
  "db_keys (model_keys_request_revoke t w u r d) =
   update_where (\<lambda>k. key_live k \<and> (w = None \<or> mk_workspace k = w) \<and>
     (u = None \<or> Some (mk_user k) = u)) (start_revoke t r) (db_keys d)"
  by (simp add: model_keys_request_revoke_def Let_def fold_frame)

lemma audit_extends_fold_keys:
  "(\<And>k s. audit_extends s (h k s)) \<Longrightarrow> audit_extends d (fold h ks (d\<lparr>db_keys := z\<rparr>))"
  using fold_audit_extends [where s = "d\<lparr>db_keys := z\<rparr>" and h = h] by simp

lemma model_keys_request_revoke_audit [simp]:
  "audit_extends d (model_keys_request_revoke t w u r d)"
  unfolding model_keys_request_revoke_def Let_def
  by (rule audit_extends_fold_keys) simp

lemma revoked_not_live [simp]: "\<not> key_live (start_revoke t r k)"
  by (simp add: key_live_def start_revoke_def)

lemma start_revoke_simps [simp]:
  "mk_workspace (start_revoke t r k) = mk_workspace k" "mk_user (start_revoke t r k) = mk_user k"
  "mk_id (start_revoke t r k) = mk_id k" "mk_alias (start_revoke t r k) = mk_alias k"
  "mk_status (start_revoke t r k) = Revoking"
  by (simp_all add: start_revoke_def)

lemma no_live_after_request:
  assumes "k \<in> set (db_keys (model_keys_request_revoke t w u r d))"
    and "w = None \<or> mk_workspace k = w" "u = None \<or> Some (mk_user k) = u"
  shows "\<not> key_live k"
proof -
  have "(\<exists>x. k = start_revoke t r x) \<or> \<not> (key_live k \<and> (w = None \<or> mk_workspace k = w) \<and>
      (u = None \<or> Some (mk_user k) = u))"
    using in_update_where [OF assms(1) [unfolded model_keys_request_revoke_table]] by blast
  then show ?thesis using assms(2,3) by auto
qed

end
