(* ===== verification/Recovery.thy ===== *)
theory Recovery
  imports Workspaces
begin

text \<open>
  \<open>packages/database/src/recovery.ts\<close>, \<open>runtime-changes.ts\<close> and \<open>idle.ts\<close>: what happens to a
  Workspace when its Worker or the Control Plane comes back, while its Runtime image changes,
  and when nobody has used it for a while.
\<close>

section \<open>Recovery\<close>

record workspace_recovery_record = workspace_record +
  wrr_desired :: desired_state

definition mapRecoveryWorkspace :: "ws_row \<Rightarrow> workspace_recovery_record" where
  "mapRecoveryWorkspace row =
     workspace_record.extend (mapWorkspace row)
       (workspace_recovery_record.fields (ws_desired row))"

definition markAllWorkersOfflineForRecovery :: "instant \<Rightarrow> instant \<Rightarrow> db \<Rightarrow> nat \<times> db" where
  "markAllWorkersOfflineForRecovery t startedAt d =
     (let p = (\<lambda>w. wk_status w = ONLINE \<and>
                   (case wk_heartbeat w of None \<Rightarrow> True | Some h \<Rightarrow> h < startedAt));
          f = (\<lambda>w. w\<lparr>wk_status := (if wk_enabled w then OFFLINE else DISABLED), wk_updated := t\<rparr>);
          workerIds = map wk_id (filter p (db_workers d));
          d1 = update_workers default_audit_source t p f d;
          d2 = (if workerIds \<noteq> []
                then update_workspaces t
                       (\<lambda>w. (\<exists>i \<in> set workerIds. ws_worker w = Some i) \<and>
                            ws_state w \<noteq> WORKER_OFFLINE)
                       (\<lambda>w. w\<lparr>ws_state := WORKER_OFFLINE, ws_updated := t\<rparr>) d1
                else d1)
      in (length workerIds, d2))"

definition beginWorkerReconciliation ::
  "instant \<Rightarrow> string \<Rightarrow> db \<Rightarrow> workspace_recovery_record list \<times> db" where
  "beginWorkerReconciliation t workerId d =
     (let p = (\<lambda>w. ws_worker w = Some workerId);
          f = (\<lambda>w. w\<lparr>ws_state := WORKER_OFFLINE, ws_updated := t\<rparr>)
      in (sort_key wr_id (map mapRecoveryWorkspace (returning p f (db_workspaces d))),
          update_workspaces t p f d))"

text \<open>The three states a reconciliation may write, as a \<open>state\<close> and as a \<open>desired_state\<close>.\<close>

datatype recovered_state = R_RUNNING | R_STOPPED | R_ERROR

fun recovered_ws_state :: "recovered_state \<Rightarrow> ws_state" where
  "recovered_ws_state R_RUNNING = RUNNING"
| "recovered_ws_state R_STOPPED = STOPPED"
| "recovered_ws_state R_ERROR = ERROR"

fun recovered_desired :: "recovered_state \<Rightarrow> desired_state \<Rightarrow> desired_state" where
  "recovered_desired R_RUNNING Want_UNKNOWN = Want_RUNNING"
| "recovered_desired R_STOPPED Want_UNKNOWN = Want_STOPPED"
| "recovered_desired s desired = desired"

definition reconcileWorkspaceRecovery ::
  "instant \<Rightarrow> string \<Rightarrow> string \<Rightarrow> string \<Rightarrow> desired_state \<Rightarrow> recovered_state \<Rightarrow> db \<Rightarrow> bool \<times> db" where
  "reconcileWorkspaceRecovery t workspaceId workerId img desired state =
     update_one t
       (\<lambda>w. ws_id w = workspaceId \<and> ws_worker w = Some workerId \<and> ws_image w = img \<and>
            ws_desired w = desired \<and> ws_state w = WORKER_OFFLINE)
       (\<lambda>w. w\<lparr>ws_state := recovered_ws_state state,
             ws_desired := recovered_desired state (ws_desired w),
             ws_changed_at :=
               (if state \<in> {R_RUNNING, R_STOPPED} \<and> ws_previous_image w \<noteq> None \<and>
                   ws_changed_at w = None
                then Some t else ws_changed_at w),
             ws_updated := t\<rparr>)"

definition deleteRecoveredWorkspace ::
  "instant \<Rightarrow> string \<Rightarrow> string \<Rightarrow> string \<Rightarrow> string \<Rightarrow> db \<Rightarrow> bool \<times> db" where
  "deleteRecoveredWorkspace t workspaceId userId workerId img d =
     (let p = (\<lambda>w. ws_id w = workspaceId \<and> ws_user w = userId \<and> ws_worker w = Some workerId \<and>
                   ws_image w = img \<and> ws_desired w = Want_DELETED \<and>
                   ws_state w = WORKER_OFFLINE)
      in (length (filter p (db_workspaces d)) = 1, delete_workspaces t p d))"

section \<open>Runtime changes\<close>

datatype change_direction = Upgrade | Rollback | Retry | Admin_Change

fun direction_text :: "change_direction \<Rightarrow> string" where
  "direction_text Upgrade = ''upgrade''"
| "direction_text Rollback = ''rollback''"
| "direction_text Retry = ''retry''"
| "direction_text Admin_Change = ''admin''"

datatype restore_state = Restore_STOPPED | Restore_ERROR

record runtime_change_restore =
  rcr_image :: string
  rcr_previous :: "string option"
  rcr_changed_at :: "instant option"
  rcr_state :: restore_state

definition change_allowed :: "string \<Rightarrow> string \<Rightarrow> ws_row \<Rightarrow> bool" where
  "change_allowed fromImage toImage w \<longleftrightarrow>
     ws_desired w = Want_STOPPED \<and>
     ((ws_state w = STOPPED \<and> ws_image w = fromImage) \<or>
      (ws_state w = ERROR \<and> ws_previous_image w \<noteq> None \<and> ws_changed_at w = None \<and>
       ws_image w \<in> {fromImage, toImage} \<and>
       ws_previous_image w \<in> {Some fromImage, Some toImage}))"

definition beginWorkspaceRuntimeChange ::
  "instant \<Rightarrow> string \<Rightarrow> string \<Rightarrow> string \<Rightarrow> string \<Rightarrow> change_direction \<Rightarrow> string \<Rightarrow> db \<Rightarrow> bool \<times> db" where
  "beginWorkspaceRuntimeChange t workspaceId workerId fromImage toImage direction actor d =
     (let p = (\<lambda>w. ws_id w = workspaceId \<and> ws_worker w = Some workerId \<and>
                   change_allowed fromImage toImage w);
          f = (\<lambda>w. w\<lparr>ws_state := UPGRADING, ws_image := toImage,
                    ws_previous_image := Some fromImage, ws_changed_at := None,
                    ws_updated := t\<rparr>);
          d1 = update_workspaces t p f d
      in case first_row (returning p f (db_workspaces d)) of
           None \<Rightarrow> (False, d1)
         | Some row \<Rightarrow>
             (True, insert_audit t ''workspace.runtime_change_requested'' (Some actor)
                (Some (ws_user row)) (Some workspaceId) (Some workerId)
                (JObj [(''fromImage'', JStr fromImage), (''toImage'', JStr toImage),
                       (''direction'', JStr (direction_text direction))]) d1))"

definition finishWorkspaceRuntimeChange ::
  "instant \<Rightarrow> string \<Rightarrow> string \<Rightarrow> string \<Rightarrow> string \<Rightarrow> db \<Rightarrow> bool \<times> db" where
  "finishWorkspaceRuntimeChange t workspaceId workerId toImage actor d =
     (let p = (\<lambda>w. ws_id w = workspaceId \<and> ws_worker w = Some workerId \<and>
                   ws_state w = UPGRADING \<and> ws_image w = toImage);
          f = (\<lambda>w. w\<lparr>ws_state := STOPPED, ws_changed_at := Some t, ws_updated := t\<rparr>);
          d1 = update_workspaces t p f d
      in case first_row (returning p f (db_workspaces d)) of
           None \<Rightarrow> (False, d1)
         | Some row \<Rightarrow>
             (True, insert_audit t ''workspace.runtime_changed'' (Some actor)
                (Some (ws_user row)) (Some workspaceId) (Some workerId)
                (JObj [(''fromImage'', json_opt_str (ws_previous_image row)),
                       (''toImage'', JStr toImage)]) d1))"

definition revertWorkspaceRuntimeChange ::
  "instant \<Rightarrow> string \<Rightarrow> string \<Rightarrow> runtime_change_restore \<Rightarrow> string \<Rightarrow> string \<Rightarrow> db \<Rightarrow> bool \<times> db" where
  "revertWorkspaceRuntimeChange t workspaceId workerId restore code actor d =
     (let p = (\<lambda>w. ws_id w = workspaceId \<and> ws_worker w = Some workerId \<and> ws_state w = UPGRADING);
          f = (\<lambda>w. w\<lparr>ws_state := (case rcr_state restore of
                                     Restore_STOPPED \<Rightarrow> STOPPED | Restore_ERROR \<Rightarrow> ERROR),
                    ws_image := rcr_image restore,
                    ws_previous_image := rcr_previous restore,
                    ws_changed_at := rcr_changed_at restore, ws_updated := t\<rparr>);
          d1 = update_workspaces t p f d
      in case first_row (returning p f (db_workspaces d)) of
           None \<Rightarrow> (False, d1)
         | Some row \<Rightarrow>
             (True, insert_audit t ''workspace.runtime_change_reverted'' (Some actor)
                (Some (ws_user row)) (Some workspaceId) (Some workerId)
                (JObj [(''runtimeImage'', JStr (rcr_image restore)), (''code'', JStr code)]) d1))"

section \<open>Idle stops\<close>

text \<open>
  The join with the unnested entries takes, for an id that is listed, an entry of that id.
  The caller's entries come from a map, one per id; the first is taken here.
\<close>

definition recordWorkspaceAccess :: "instant \<Rightarrow> (string \<times> instant) list \<Rightarrow> db \<Rightarrow> db" where
  "recordWorkspaceAccess t entries d =
     (if entries = [] then d
      else update_workspaces t (\<lambda>w. map_of entries (ws_id w) \<noteq> None)
        (\<lambda>w. case map_of entries (ws_id w) of
               None \<Rightarrow> w
             | Some seen \<Rightarrow> w\<lparr>ws_access := Some (case ws_access w of None \<Rightarrow> seen | Some a \<Rightarrow> max a seen)\<rparr>)
        d)"

text \<open>\<open>coalesce(last_access_at, '-infinity') <= cutoff\<close>\<close>

definition accessed_by :: "instant \<Rightarrow> instant option \<Rightarrow> bool" where
  "accessed_by cutoff access \<longleftrightarrow> (case access of None \<Rightarrow> True | Some a \<Rightarrow> a \<le> cutoff)"

definition idle_since :: "instant \<Rightarrow> ws_row \<Rightarrow> bool" where
  "idle_since cutoff w \<longleftrightarrow>
     ws_state w = RUNNING \<and> ws_desired w = Want_RUNNING \<and> ws_activity w \<le> cutoff \<and>
     accessed_by cutoff (ws_access w)"

record idle_stop_candidate =
  isc_workspace :: string
  isc_user :: string
  isc_worker :: string
  isc_image :: string
  isc_access :: "instant option"

definition online_worker :: "db \<Rightarrow> string \<Rightarrow> bool" where
  "online_worker d workerId \<longleftrightarrow>
     (\<exists>k \<in> set (db_workers d). wk_id k = workerId \<and> wk_enabled k \<and> wk_status k = ONLINE)"

definition listIdleStopCandidates :: "instant \<Rightarrow> nat \<Rightarrow> db \<Rightarrow> idle_stop_candidate list" where
  "listIdleStopCandidates cutoff limit d =
     take limit
       (map (\<lambda>(w, workerId).
               \<lparr>isc_workspace = ws_id w, isc_user = ws_user w, isc_worker = workerId,
                isc_image = ws_image w, isc_access = ws_access w\<rparr>)
         (sort_key
           (\<lambda>(w, _). (case ws_access w of None \<Rightarrow> ws_activity w | Some a \<Rightarrow> a, ws_id w))
           [(w, workerId). w \<leftarrow> db_workspaces d,
              workerId \<leftarrow> (case ws_worker w of None \<Rightarrow> [] | Some k \<Rightarrow> [k]),
              online_worker d workerId \<and> idle_since cutoff w]))"

definition beginIdleStop ::
  "instant \<Rightarrow> string \<Rightarrow> string \<Rightarrow> instant \<Rightarrow> rat \<Rightarrow> rat \<Rightarrow> db \<Rightarrow> bool \<times> db" where
  "beginIdleStop t workspaceId workerId cutoff idleAfterHours cpuThresholdCores d =
     (let p = (\<lambda>w. ws_id w = workspaceId \<and> ws_worker w = Some workerId \<and> idle_since cutoff w);
          f = (\<lambda>w. w\<lparr>ws_state := STOPPING, ws_desired := Want_STOPPED,
                    ws_stop_reason := Some Idle, ws_updated := t, ws_activity := t\<rparr>);
          d1 = update_workspaces t p f d
      in case first_row (returning p f (db_workspaces d)) of
           None \<Rightarrow> (False, d1)
         | Some row \<Rightarrow>
             (True, insert_audit t ''workspace.idle_stopped'' None (Some (ws_user row))
                (Some workspaceId) (Some workerId)
                (JObj [(''idleAfterHours'', JRat idleAfterHours),
                       (''cpuThresholdCores'', JRat cpuThresholdCores),
                       (''lastAccessAt'',
                        case ws_access row of None \<Rightarrow> JNull | Some a \<Rightarrow> JTime a)]) d1))"

end
