(* ===== verification/Workers.thy ===== *)
theory Workers
  imports Workspaces
begin

text \<open>
  \<open>packages/database/src/workers.ts\<close> and \<open>storage.ts\<close>, and what \<open>egress.ts\<close> records of a
  Worker: the Worker's registration, its reports (hello, heartbeat), its loss, its revocation
  by an administrator, and the quota and firewall state it reports, which stops the
  Workspaces it no longer protects.
\<close>

section \<open>Records\<close>

record worker_storage_status =
  sts_enforced :: bool
  sts_fs_type :: "string option"
  sts_total :: "int option"
  sts_free :: "int option"

record model_relay_status =
  mrs_enabled :: bool
  mrs_port :: "nat option"
  mrs_listening :: bool

record worker_system_resources =
  wsr_cpu_count :: "nat option"
  wsr_memory :: "int option"

record worker_egress_record =
  weg_enforced :: bool
  weg_revision :: "nat option"
  weg_checked :: "instant option"

record worker_storage_record = worker_storage_status +
  wst_checked :: "instant option"

record worker_record =
  wkr_id :: string
  wkr_hostname :: "string option"
  wkr_arch :: "architecture option"
  wkr_status :: worker_status
  wkr_enabled :: bool
  wkr_schedulable :: bool
  wkr_image :: "string option"
  wkr_runtime_version :: "string option"
  wkr_caps :: capabilities
  wkr_images :: "runtime_image list"
  wkr_version :: "string option"
  wkr_max :: "nat option"
  wkr_allocated :: nat
  wkr_resources :: worker_system_resources
  wkr_heartbeat :: "instant option"
  wkr_egress :: worker_egress_record
  wkr_storage :: worker_storage_record
  wkr_relay :: model_relay_status
  wkr_created :: instant
  wkr_updated :: instant

definition mapWorker :: "worker_row \<Rightarrow> worker_record" where
  "mapWorker row =
     \<lparr>wkr_id = wk_id row, wkr_hostname = wk_hostname row, wkr_arch = wk_arch row,
      wkr_status = wk_status row, wkr_enabled = wk_enabled row,
      wkr_schedulable = wk_schedulable row, wkr_image = wk_image row,
      wkr_runtime_version = wk_runtime_version row, wkr_caps = wk_caps row,
      wkr_images = wk_images row, wkr_version = wk_version row, wkr_max = wk_max row,
      wkr_allocated = wk_allocated row,
      wkr_resources = \<lparr>wsr_cpu_count = wk_cpu_count row, wsr_memory = wk_memory row\<rparr>,
      wkr_heartbeat = wk_heartbeat row,
      wkr_egress =
        \<lparr>weg_enforced = wk_egress_enforced row, weg_revision = wk_egress_revision row,
         weg_checked = wk_egress_checked row\<rparr>,
      wkr_storage =
        \<lparr>sts_enforced = wk_storage_enforced row, sts_fs_type = wk_storage_fs row,
         sts_total = wk_storage_total row, sts_free = wk_storage_free row,
         wst_checked = wk_storage_checked row\<rparr>,
      wkr_relay =
        \<lparr>mrs_enabled = wk_relay_enabled row, mrs_port = wk_relay_port row,
         mrs_listening = wk_relay_listening row\<rparr>,
      wkr_created = wk_created row, wkr_updated = wk_updated row\<rparr>"

datatype worker_disable_result =
    Disable_DISABLED int int | Disable_NOT_FOUND | Disable_ALREADY_DISABLED

datatype worker_enable_result = Enable_ENABLED | Enable_NOT_FOUND | Enable_ALREADY_ENABLED

datatype worker_delete_result =
    Delete_DELETED | Delete_NOT_FOUND | Delete_ENABLED | Delete_HAS_WORKSPACES nat

record worker_identity =
  wi_worker :: string
  wi_enabled :: bool

record revoked_worker_assignment =
  rwa_worker :: string
  rwa_workspaces :: "string list"

record worker_gateway_route =
  wgr_worker :: string
  wgr_base_url :: string

section \<open>Credentials, revocation and deletion\<close>

text \<open>\<open>credential_hash\<close> is unique: writing it to a row fails when another row holds it.\<close>

definition credential_taken :: "string \<Rightarrow> string \<Rightarrow> db \<Rightarrow> bool" where
  "credential_taken workerId hash d \<longleftrightarrow>
     (\<exists>k \<in> set (db_workers d). wk_id k = workerId) \<and>
     (\<exists>k \<in> set (db_workers d). wk_id k \<noteq> workerId \<and> wk_credential k = hash)"

definition credential_violation :: db_error where
  "credential_violation = Unique_Violation ''workers_credential_hash_key''"

definition rotateWorkerCredential ::
  "instant \<Rightarrow> string \<Rightarrow> string \<Rightarrow> db \<Rightarrow> (bool \<times> db) result" where
  "rotateWorkerCredential t workerId hash d =
     (if credential_taken workerId hash d then Inl credential_violation
      else
        let p = (\<lambda>w. wk_id w = workerId);
            f = (\<lambda>w. w\<lparr>wk_credential := hash,
                      wk_status := (if wk_enabled w then OFFLINE else DISABLED),
                      wk_heartbeat := None, wk_updated := t\<rparr>);
            d1 = update_workers default_audit_source t p f d
        in if length (filter p (db_workers d)) \<noteq> 1 then Inr (False, d1)
           else Inr (True, mark_worker_offline t workerId d1))"

definition cli_audit_source :: string where
  "cli_audit_source = ''cli''"

fun json_field :: "string \<Rightarrow> json \<Rightarrow> json option" where
  "json_field key (JObj members) = map_of members key"
| "json_field key _ = None"

fun json_int :: "json option \<Rightarrow> int" where
  "json_int (Some (JNum n)) = n"
| "json_int _ = 0"

definition last_disabled_event :: "string \<Rightarrow> db \<Rightarrow> audit_row option" where
  "last_disabled_event workerId d =
     first_row (rev (filter (\<lambda>a. au_worker a = Some workerId \<and> au_type a = ''worker.disabled'')
       (db_audit d)))"

definition disableWorker :: "instant \<Rightarrow> string \<Rightarrow> db \<Rightarrow> worker_disable_result \<times> db" where
  "disableWorker t workerId d =
     (case first_row (filter (\<lambda>w. wk_id w = workerId) (db_workers d)) of
        None \<Rightarrow> (Disable_NOT_FOUND, d)
      | Some current \<Rightarrow>
          if \<not> wk_enabled current then (Disable_ALREADY_DISABLED, d)
          else
            let d1 = update_workers cli_audit_source t (\<lambda>w. wk_id w = workerId)
                       (\<lambda>w. w\<lparr>wk_enabled := False, wk_updated := t\<rparr>) d
            in (case last_disabled_event workerId d1 of
                  None \<Rightarrow> (Disable_DISABLED 0 0, d1)
                | Some a \<Rightarrow>
                    (Disable_DISABLED (json_int (json_field ''workspaces'' (au_details a)))
                       (json_int (json_field ''modelKeys'' (au_details a))), d1)))"

definition enableWorker ::
  "instant \<Rightarrow> string \<Rightarrow> string \<Rightarrow> db \<Rightarrow> (worker_enable_result \<times> db) result" where
  "enableWorker t workerId hash d =
     (case first_row (filter (\<lambda>w. wk_id w = workerId) (db_workers d)) of
        None \<Rightarrow> Inr (Enable_NOT_FOUND, d)
      | Some current \<Rightarrow>
          if wk_enabled current then Inr (Enable_ALREADY_ENABLED, d)
          else if credential_taken workerId hash d then Inl credential_violation
          else Inr (Enable_ENABLED,
            update_workers cli_audit_source t (\<lambda>w. wk_id w = workerId)
              (\<lambda>w. w\<lparr>wk_enabled := True, wk_credential := hash, wk_heartbeat := None,
                    wk_updated := t\<rparr>) d))"

definition deleteWorker :: "instant \<Rightarrow> string \<Rightarrow> db \<Rightarrow> worker_delete_result \<times> db" where
  "deleteWorker t workerId d =
     (case first_row (filter (\<lambda>w. wk_id w = workerId) (db_workers d)) of
        None \<Rightarrow> (Delete_NOT_FOUND, d)
      | Some current \<Rightarrow>
          if wk_enabled current then (Delete_ENABLED, d)
          else let workspaces = length (assigned_to workerId d) in
            if workspaces > 0 then (Delete_HAS_WORKSPACES workspaces, d)
            else (Delete_DELETED, delete_worker_row cli_audit_source t current d))"

section \<open>Queries\<close>

definition listWorkerRuntimeImages :: "db \<Rightarrow> (string \<times> runtime_image list) list" where
  "listWorkerRuntimeImages d = map (\<lambda>w. (wk_id w, wk_images w)) (db_workers d)"

definition listRevokedWorkerAssignments :: "db \<Rightarrow> revoked_worker_assignment list" where
  "listRevokedWorkerAssignments d =
     map (\<lambda>w. \<lparr>rwa_worker = wk_id w, rwa_workspaces = map ws_id (assigned_to (wk_id w) d)\<rparr>)
       (sort_key wk_id (filter (\<lambda>w. \<not> wk_enabled w) (db_workers d)))"

definition findWorkerByCredentialHash :: "string \<Rightarrow> db \<Rightarrow> worker_identity option" where
  "findWorkerByCredentialHash hash d =
     map_option (\<lambda>w. \<lparr>wi_worker = wk_id w, wi_enabled = wk_enabled w\<rparr>)
       (first_row (filter (\<lambda>w. wk_credential w = hash) (db_workers d)))"

definition listWorkers :: "db \<Rightarrow> worker_record list" where
  "listWorkers d = map mapWorker (sort_key wk_id (db_workers d))"

definition findWorkerGatewayRoute :: "string \<Rightarrow> instant \<Rightarrow> db \<Rightarrow> worker_gateway_route option" where
  "findWorkerGatewayRoute workerId heartbeatCutoff d =
     (case first_row (filter (\<lambda>w. wk_id w = workerId \<and> wk_enabled w \<and> wk_status w = ONLINE \<and>
              (case wk_heartbeat w of None \<Rightarrow> False | Some h \<Rightarrow> h > heartbeatCutoff) \<and>
              wk_gateway w \<noteq> None) (db_workers d)) of
        None \<Rightarrow> None
      | Some row \<Rightarrow>
          (case wk_gateway row of
             None \<Rightarrow> None
           | Some url \<Rightarrow> Some \<lparr>wgr_worker = wk_id row, wgr_base_url = url\<rparr>))"

section \<open>Reports\<close>

text \<open>
  \<open>recordWorkerEgressInTransaction\<close> and \<open>recordWorkerStorageInTransaction\<close>: a Worker that
  says it does not enforce has already stopped its containers, so \<open>RUNNING\<close> becomes
  \<open>ERROR\<close>. The update of the Worker row touches no audited column.
\<close>

definition stop_unprotected :: "instant \<Rightarrow> string \<Rightarrow> db \<Rightarrow> db" where
  "stop_unprotected t workerId =
     update_workspaces t (\<lambda>w. ws_worker w = Some workerId \<and> ws_state w = RUNNING)
       (\<lambda>w. w\<lparr>ws_state := ERROR, ws_updated := t\<rparr>)"

definition recordWorkerEgress ::
  "instant \<Rightarrow> string \<Rightarrow> worker_egress_status \<Rightarrow> instant \<Rightarrow> db \<Rightarrow> db" where
  "recordWorkerEgress t workerId egress receivedAt d =
     (case first_row (filter (\<lambda>w. wk_id w = workerId) (db_workers d)) of
        None \<Rightarrow> d
      | Some previous \<Rightarrow>
          let d1 = update_workers default_audit_source t (\<lambda>w. wk_id w = workerId)
                     (\<lambda>w. w\<lparr>wk_egress_enforced := egs_enforced egress,
                           wk_egress_revision := egs_revision egress,
                           wk_egress_checked := Some receivedAt\<rparr>) d;
              d2 = (if wk_egress_enforced previous \<noteq> egs_enforced egress
                    then insert_audit t
                           (if egs_enforced egress then ''worker.egress_enforced''
                            else ''worker.egress_unenforced'')
                           None None None (Some workerId)
                           (JObj [(''revision'',
                              json_opt_num (map_option int (egs_revision egress)))]) d1
                    else d1)
          in if \<not> egs_enforced egress then stop_unprotected t workerId d2 else d2)"

definition recordWorkerStorage ::
  "instant \<Rightarrow> string \<Rightarrow> worker_storage_status \<Rightarrow> instant \<Rightarrow> db \<Rightarrow> db" where
  "recordWorkerStorage t workerId storage receivedAt d =
     (case first_row (filter (\<lambda>w. wk_id w = workerId) (db_workers d)) of
        None \<Rightarrow> d
      | Some previous \<Rightarrow>
          let d1 = update_workers default_audit_source t (\<lambda>w. wk_id w = workerId)
                     (\<lambda>w. w\<lparr>wk_storage_enforced := sts_enforced storage,
                           wk_storage_fs := sts_fs_type storage,
                           wk_storage_total := sts_total storage,
                           wk_storage_free := sts_free storage,
                           wk_storage_checked := Some receivedAt\<rparr>) d;
              d2 = (if wk_storage_enforced previous \<noteq> sts_enforced storage
                    then insert_audit t
                           (if sts_enforced storage then ''worker.storage_enforced''
                            else ''worker.storage_unenforced'')
                           None None None (Some workerId)
                           (JObj [(''fsType'', json_opt_str (sts_fs_type storage))]) d1
                    else d1)
          in if \<not> sts_enforced storage then stop_unprotected t workerId d2 else d2)"

record workspace_disk_usage =
  wdu_workspace :: string
  wdu_data_used :: int
  wdu_data_limit :: int
  wdu_data_inodes :: int
  wdu_pi_used :: int
  wdu_pi_limit :: int

text \<open>For an id listed twice PostgreSQL takes one of its samples; the first is taken here.\<close>

definition sample_of :: "workspace_disk_usage list \<Rightarrow> string \<Rightarrow> workspace_disk_usage option" where
  "sample_of usage wid = first_row (filter (\<lambda>u. wdu_workspace u = wid) usage)"

definition recordWorkspaceDiskUsage ::
  "instant \<Rightarrow> string \<Rightarrow> workspace_disk_usage list \<Rightarrow> instant \<Rightarrow> db \<Rightarrow> int \<times> db" where
  "recordWorkspaceDiskUsage t workerId usage receivedAt d =
     (if usage = [] then (0, d)
      else
        let p = (\<lambda>w. sample_of usage (ws_id w) \<noteq> None \<and> ws_worker w = Some workerId);
            f = (\<lambda>w. case sample_of usage (ws_id w) of
                       None \<Rightarrow> w
                     | Some u \<Rightarrow>
                         w\<lparr>ws_disk_used := Some (wdu_data_used u),
                           ws_disk_inodes := Some (wdu_data_inodes u),
                           ws_pi_used := Some (wdu_pi_used u),
                           ws_pi_limit := Some (wdu_pi_limit u),
                           ws_disk_at := Some receivedAt\<rparr>)
        in (int (length usage) - int (length (filter p (db_workspaces d))),
            update_workspaces t p f d))"

record worker_hello =
  hel_credential :: string
  hel_worker :: string
  hel_version :: string
  hel_hostname :: string
  hel_arch :: architecture
  hel_images :: "runtime_image list"
  hel_max :: nat
  hel_allocated :: nat
  hel_resources :: worker_system_resources
  hel_egress :: worker_egress_status
  hel_storage :: worker_storage_status
  hel_relay :: model_relay_status
  hel_received :: instant

record worker_heartbeat =
  hb_credential :: string
  hb_worker :: string
  hb_allocated :: nat
  hb_egress :: worker_egress_status
  hb_storage :: worker_storage_status
  hb_relay :: model_relay_status
  hb_disk :: "workspace_disk_usage list"
  hb_received :: instant

text \<open>
  The check constraint that a valid message can still violate: the number of Workspaces a
  Worker says it holds must not exceed the capacity it declared.
\<close>

definition within_capacity :: "worker_row \<Rightarrow> bool" where
  "within_capacity w \<longleftrightarrow> (case wk_max w of None \<Rightarrow> True | Some m \<Rightarrow> wk_allocated w \<le> m)"

definition capacity_violation :: db_error where
  "capacity_violation = Check_Violation ''workers_allocation_within_capacity''"

text \<open>\<open>Inl None\<close> is the thrown error for a hello that reports no image.\<close>

definition recordWorkerHello ::
  "instant \<Rightarrow> worker_hello \<Rightarrow> db \<Rightarrow> db_error option + (bool \<times> db)" where
  "recordWorkerHello t h d =
     (case hel_images h of
        [] \<Rightarrow> Inl None
      | first # _ \<Rightarrow>
          let p = (\<lambda>w. wk_id w = hel_worker h \<and> wk_credential w = hel_credential h \<and> wk_enabled w);
              f = (\<lambda>w. w\<lparr>wk_hostname := Some (hel_hostname h), wk_arch := Some (hel_arch h),
                        wk_status := ONLINE, wk_image := Some (rti_image first),
                        wk_runtime_version := Some (rti_version first),
                        wk_caps := rti_capabilities first, wk_images := hel_images h,
                        wk_version := Some (hel_version h), wk_max := Some (hel_max h),
                        wk_allocated := hel_allocated h,
                        wk_cpu_count := wsr_cpu_count (hel_resources h),
                        wk_memory := wsr_memory (hel_resources h),
                        wk_relay_enabled := mrs_enabled (hel_relay h),
                        wk_relay_port := mrs_port (hel_relay h),
                        wk_relay_listening := mrs_listening (hel_relay h),
                        wk_heartbeat := Some (hel_received h),
                        wk_updated := hel_received h\<rparr>);
              rows = returning p f (db_workers d);
              d1 = update_workers default_audit_source t p f d
          in if \<not> list_all within_capacity rows then Inl (Some capacity_violation)
             else if length rows \<noteq> 1 then Inr (False, d1)
             else Inr (True,
               recordWorkerStorage t (hel_worker h) (hel_storage h) (hel_received h)
                 (recordWorkerEgress t (hel_worker h) (hel_egress h) (hel_received h) d1)))"

definition recordWorkerHeartbeat ::
  "instant \<Rightarrow> worker_heartbeat \<Rightarrow> db \<Rightarrow> (int option \<times> db) result" where
  "recordWorkerHeartbeat t h d =
     (let p = (\<lambda>w. wk_id w = hb_worker h \<and> wk_credential w = hb_credential h \<and> wk_enabled w);
          f = (\<lambda>w. w\<lparr>wk_status := ONLINE, wk_allocated := hb_allocated h,
                    wk_relay_enabled := mrs_enabled (hb_relay h),
                    wk_relay_port := mrs_port (hb_relay h),
                    wk_relay_listening := mrs_listening (hb_relay h),
                    wk_heartbeat := Some (hb_received h), wk_updated := hb_received h\<rparr>);
          rows = returning p f (db_workers d);
          d1 = update_workers default_audit_source t p f d
      in if \<not> list_all within_capacity rows then Inl capacity_violation
         else if length rows \<noteq> 1 then Inr (None, d1)
         else
           let d2 = recordWorkerEgress t (hb_worker h) (hb_egress h) (hb_received h) d1;
               d3 = recordWorkerStorage t (hb_worker h) (hb_storage h) (hb_received h) d2;
               (ignored, d4) = recordWorkspaceDiskUsage t (hb_worker h) (hb_disk h)
                                 (hb_received h) d3
           in Inr (Some ignored, d4))"

definition markWorkersOffline :: "instant \<Rightarrow> instant \<Rightarrow> db \<Rightarrow> nat \<times> db" where
  "markWorkersOffline t cutoff d =
     (let p = (\<lambda>w. wk_enabled w \<and> wk_status w = ONLINE \<and>
                   (case wk_heartbeat w of None \<Rightarrow> True | Some h \<Rightarrow> h \<le> cutoff));
          offline = map wk_id (filter p (db_workers d));
          d1 = update_workers default_audit_source t p
                 (\<lambda>w. w\<lparr>wk_status := OFFLINE, wk_updated := t\<rparr>) d
      in (length offline, fold (mark_worker_offline t) offline d1))"

section \<open>Provisioning and the Gateway\<close>

definition new_worker :: "instant \<Rightarrow> string \<Rightarrow> string \<Rightarrow> string \<Rightarrow> worker_row" where
  "new_worker t workerId hash url =
     \<lparr>wk_id = workerId, wk_credential = hash, wk_hostname = None, wk_arch = None,
      wk_status = REGISTERED, wk_enabled = True, wk_schedulable = True, wk_image = None,
      wk_runtime_version = None, wk_gateway = Some url, wk_caps = [], wk_images = [],
      wk_version = None, wk_max = None, wk_allocated = 0, wk_cpu_count = None,
      wk_memory = None, wk_heartbeat = None, wk_egress_enforced = False,
      wk_egress_revision = None, wk_egress_checked = None, wk_storage_enforced = False,
      wk_storage_fs = None, wk_storage_total = None, wk_storage_free = None,
      wk_storage_checked = None, wk_relay_enabled = False, wk_relay_port = None,
      wk_relay_listening = False, wk_created = t, wk_updated = t\<rparr>"

definition provisionWorkerWithGateway ::
  "instant \<Rightarrow> string \<Rightarrow> string \<Rightarrow> string \<Rightarrow> db \<Rightarrow> db result" where
  "provisionWorkerWithGateway t workerId hash url =
     insert_worker t (new_worker t workerId hash url)"

definition configureWorkerGateway :: "instant \<Rightarrow> string \<Rightarrow> string \<Rightarrow> db \<Rightarrow> bool \<times> db" where
  "configureWorkerGateway t workerId url d =
     (let p = (\<lambda>w. wk_id w = workerId) in
      (length (filter p (db_workers d)) = 1,
       update_workers default_audit_source t p
         (\<lambda>w. w\<lparr>wk_gateway := Some url, wk_updated := t\<rparr>) d))"

section \<open>Disk limits\<close>

record audit_metadata =
  am_actor :: string
  am_request :: string
  am_ip :: string
  am_agent :: "string option"

text \<open>\<open>const { actorUserId, ...request } = input.audit\<close>\<close>

definition request_details :: "audit_metadata \<Rightarrow> (string \<times> json) list" where
  "request_details a =
     [(''requestId'', JStr (am_request a)), (''ipAddress'', JStr (am_ip a)),
      (''userAgent'', json_opt_str (am_agent a))]"

datatype update_disk_limit_result = Limit_UPDATED workspace_record int | Limit_NOT_FOUND

definition updateWorkspaceDiskLimit ::
  "instant \<Rightarrow> string \<Rightarrow> int \<Rightarrow> audit_metadata \<Rightarrow> db \<Rightarrow> (update_disk_limit_result \<times> db) result" where
  "updateWorkspaceDiskLimit t workspaceId limit audit d =
     (case first_row (filter (\<lambda>w. ws_id w = workspaceId \<and> ws_state w \<noteq> DELETING)
              (db_workspaces d)) of
        None \<Rightarrow> Inr (Limit_NOT_FOUND, d)
      | Some before \<Rightarrow>
          if \<not> limit > 0 then Inl (Check_Violation ''workspaces_disk_limit_positive'')
          else
            let p = (\<lambda>w. ws_id w = workspaceId);
                f = (\<lambda>w. w\<lparr>ws_disk_limit := limit, ws_updated := t\<rparr>);
                d1 = update_workspaces t p f d
            in case first_row (returning p f (db_workspaces d)) of
                 None \<Rightarrow> Inr (Limit_NOT_FOUND, d1)
               | Some row \<Rightarrow>
                   Inr (Limit_UPDATED (mapWorkspace row) (ws_disk_limit before),
                     insert_audit t ''workspace.storage_limit_changed'' (Some (am_actor audit))
                       (Some (ws_user row)) (Some (ws_id row)) (ws_worker row)
                       (JObj (request_details audit @
                          [(''previousLimitBytes'', JNum (ws_disk_limit before)),
                           (''limitBytes'', JNum limit)])) d1))"

end
