(* ===== verification/Scheduling.thy ===== *)
theory Scheduling
  imports Workers
begin

text \<open>
  \<open>apps/control-plane/src/scheduler.ts\<close>, the placement policy, and
  \<open>packages/database/src/scheduling.ts\<close>, the transaction that reserves a Worker for a
  Workspace. The transaction takes the policy as a parameter; \<open>worker_selector\<close> is the
  contract it relies on and \<open>selectWorker\<close> is shown to fulfil it.
\<close>

section \<open>Requests and candidates\<close>

record scheduling_requirements =
  sr_image :: string
  sr_arch :: "architecture option"
  sr_caps :: capabilities

record schedule_candidate =
  sc_id :: string
  sc_arch :: "architecture option"
  sc_status :: worker_status
  sc_enabled :: bool
  sc_schedulable :: bool
  sc_images :: "runtime_image list"
  sc_max :: "nat option"
  sc_assigned :: nat
  sc_heartbeat :: "instant option"
  sc_egress_enforced :: bool
  sc_egress_revision :: "nat option"
  sc_storage_enforced :: bool

record selection_input =
  si_workspace :: scheduling_requirements
  si_candidates :: "schedule_candidate list"
  si_connected :: "string list"
  si_cutoff :: instant
  si_revision :: nat

text \<open>A selector may throw: \<open>Inl\<close> carries the message.\<close>

type_synonym selector = "selection_input \<Rightarrow> string + schedule_candidate option"

section \<open>The placement policy\<close>

definition image_of :: "schedule_candidate \<Rightarrow> string \<Rightarrow> runtime_image option" where
  "image_of c img = first_row (filter (\<lambda>i. rti_image i = img) (sc_images c))"

definition isCompatible :: "selection_input \<Rightarrow> schedule_candidate \<Rightarrow> bool" where
  "isCompatible input c \<longleftrightarrow>
     (let workspace = si_workspace input in
      case image_of c (sr_image workspace) of
        None \<Rightarrow> False
      | Some img \<Rightarrow>
          sc_id c \<in> set (si_connected input) \<and> sc_enabled c \<and> sc_schedulable c \<and>
          sc_status c = ONLINE \<and>
          (case sc_heartbeat c of None \<Rightarrow> False | Some h \<Rightarrow> \<not> h \<le> si_cutoff input) \<and>
          (case sc_max c of None \<Rightarrow> False | Some m \<Rightarrow> \<not> sc_assigned c \<ge> m) \<and>
          sc_egress_enforced c \<and> sc_egress_revision c = Some (si_revision input) \<and>
          sc_storage_enforced c \<and>
          (case sr_arch workspace of None \<Rightarrow> True | Some a \<Rightarrow> sc_arch c = Some a) \<and>
          list_all (\<lambda>(capability, required).
            map_of (rti_capabilities img) capability = Some required) (sr_caps workspace))"

definition capacity_error :: string where
  "capacity_error = ''eligible Workers must declare capacity''"

text \<open>The \<open>number\<close> a comparator returns; \<open>Inl\<close> when it throws.\<close>

definition compareLoad :: "schedule_candidate \<Rightarrow> schedule_candidate \<Rightarrow> string + int" where
  "compareLoad left right =
     (case (sc_max left, sc_max right) of
        (Some lm, Some rm) \<Rightarrow>
          let leftScaled = int (sc_assigned left) * int rm;
              rightScaled = int (sc_assigned right) * int lm
          in Inr (if leftScaled \<noteq> rightScaled then leftScaled - rightScaled
                  else if sc_id left < sc_id right then - 1
                  else if sc_id left > sc_id right then 1 else 0)
      | _ \<Rightarrow> Inl capacity_error)"

text \<open>\<open>sort\<close> with a comparator that may throw: the first exception ends it.\<close>

fun try_insert :: "('a \<Rightarrow> 'a \<Rightarrow> 'e + int) \<Rightarrow> 'a \<Rightarrow> 'a list \<Rightarrow> 'e + 'a list" where
  "try_insert cmp x [] = Inr [x]"
| "try_insert cmp x (y # ys) =
     (case cmp y x of
        Inl e \<Rightarrow> Inl e
      | Inr c \<Rightarrow>
          if c < 0 then (case try_insert cmp x ys of Inl e \<Rightarrow> Inl e | Inr zs \<Rightarrow> Inr (y # zs))
          else Inr (x # y # ys))"

fun try_sort :: "('a \<Rightarrow> 'a \<Rightarrow> 'e + int) \<Rightarrow> 'a list \<Rightarrow> 'e + 'a list" where
  "try_sort cmp [] = Inr []"
| "try_sort cmp (x # xs) =
     (case try_sort cmp xs of Inl e \<Rightarrow> Inl e | Inr ys \<Rightarrow> try_insert cmp x ys)"

definition selectWorker :: selector where
  "selectWorker input =
     (case try_sort compareLoad (filter (isCompatible input) (si_candidates input)) of
        Inl e \<Rightarrow> Inl e
      | Inr eligible \<Rightarrow> Inr (first_row eligible))"

section \<open>The contract of a selector\<close>

text \<open>
  What the scheduling transaction relies on: the policy does not throw, it returns one of the
  candidates, and only one that satisfies the requirements.
\<close>

locale worker_selector =
  fixes select :: selector
  assumes returns: "\<exists>c. select input = Inr c"
    and picks_eligible:
      "select input = Inr (Some c) \<Longrightarrow> c \<in> set (si_candidates input) \<and> isCompatible input c"
    and picks_some:
      "c \<in> set (si_candidates input) \<Longrightarrow> isCompatible input c \<Longrightarrow> select input \<noteq> Inr None"
begin

lemma none_iff: "select input = Inr None \<longleftrightarrow> (\<forall>c \<in> set (si_candidates input). \<not> isCompatible input c)"
proof
  assume "select input = Inr None"
  then show "\<forall>c \<in> set (si_candidates input). \<not> isCompatible input c"
    using picks_some by blast
next
  assume none: "\<forall>c \<in> set (si_candidates input). \<not> isCompatible input c"
  obtain r where "select input = Inr r" using returns by blast
  with none picks_eligible show "select input = Inr None" by (cases r) auto
qed

lemma not_throws: "select input \<noteq> Inl e"
  using returns [of input] by auto

end

section \<open>The policy fulfils the contract\<close>

lemma isCompatibleD:
  assumes "isCompatible input c"
  shows "sc_id c \<in> set (si_connected input)" "sc_enabled c" "sc_schedulable c"
    "sc_status c = ONLINE" "\<exists>h. sc_heartbeat c = Some h \<and> si_cutoff input < h"
    "\<exists>m. sc_max c = Some m \<and> sc_assigned c < m" "sc_egress_enforced c"
    "sc_egress_revision c = Some (si_revision input)" "sc_storage_enforced c"
    "sr_arch (si_workspace input) = None \<or> sc_arch c = sr_arch (si_workspace input)"
    "\<exists>i \<in> set (sc_images c). rti_image i = sr_image (si_workspace input) \<and>
       (\<forall>(k, b) \<in> set (sr_caps (si_workspace input)). map_of (rti_capabilities i) k = Some b)"
  using assms
  by (auto simp: isCompatible_def Let_def image_of_def list_all_iff dest!: first_row_filter
      split: option.splits)

text \<open>The load of a candidate is the fraction of its capacity in use; ties go by id.\<close>

definition load_key :: "schedule_candidate \<Rightarrow> rat \<times> string" where
  "load_key c = (of_nat (sc_assigned c) / of_nat (the (sc_max c)), sc_id c)"

definition has_capacity :: "schedule_candidate \<Rightarrow> bool" where
  "has_capacity c \<longleftrightarrow> (\<exists>m. sc_max c = Some m \<and> 0 < m)"

lemma compareLoad_key:
  assumes "has_capacity a" "has_capacity b"
  shows "\<exists>n. compareLoad a b = Inr n \<and> (n < 0 \<longleftrightarrow> load_key a < load_key b)"
proof -
  obtain m k where mk: "sc_max a = Some m" "0 < m" "sc_max b = Some k" "0 < k"
    using assms by (auto simp: has_capacity_def)
  let ?l = "int (sc_assigned a) * int k" and ?r = "int (sc_assigned b) * int m"
  have less: "?l < ?r \<longleftrightarrow> fst (load_key a) < fst (load_key b)"
    using mk by (simp add: load_key_def field_simps flip: of_nat_mult)
  have eq: "?l = ?r \<longleftrightarrow> fst (load_key a) = fst (load_key b)"
    using mk by (simp add: load_key_def field_simps flip: of_nat_mult)
  show ?thesis
    using mk less eq by (auto simp: compareLoad_def Let_def less_prod_def' load_key_def)
qed

lemma try_insert_set: "try_insert cmp x ys = Inr zs \<Longrightarrow> set zs = insert x (set ys)"
  by (induction ys arbitrary: zs) (fastforce split: sum.splits if_splits)+

lemma try_insert_key:
  fixes key :: "'a \<Rightarrow> 'b::linorder"
  assumes "\<forall>y \<in> set ys. \<exists>n. cmp y x = Inr n \<and> (n < 0 \<longleftrightarrow> key y < key x)"
  shows "try_insert cmp x ys = Inr (insort_key key x ys)"
  using assms by (induction ys) auto

lemma try_sort_key:
  fixes key :: "'a \<Rightarrow> 'b::linorder"
  assumes "\<forall>a \<in> set xs. \<forall>b \<in> set xs. \<exists>n. cmp a b = Inr n \<and> (n < 0 \<longleftrightarrow> key a < key b)"
  shows "try_sort cmp xs = Inr (sort_key key xs)"
  using assms by (induction xs) (auto simp: try_insert_key)

lemma selectWorker_least:
  "selectWorker input =
   Inr (first_row (sort_key load_key (filter (isCompatible input) (si_candidates input))))"
proof -
  let ?xs = "filter (isCompatible input) (si_candidates input)"
  have "has_capacity a" if "a \<in> set ?xs" for a
    using isCompatibleD(6) [of input a] that by (fastforce simp: has_capacity_def)
  then have "try_sort compareLoad ?xs = Inr (sort_key load_key ?xs)"
    by (intro try_sort_key) (blast intro: compareLoad_key)
  then show ?thesis by (simp add: selectWorker_def)
qed

lemma first_row_sort_key:
  fixes key :: "'a \<Rightarrow> 'b::linorder"
  assumes "first_row (sort_key key xs) = Some x"
  shows "x \<in> set xs" "\<forall>y \<in> set xs. key x \<le> key y"
proof -
  from assms obtain ys where ys: "sort_key key xs = x # ys"
    by (cases "sort_key key xs") auto
  then have "x \<in> set (sort_key key xs)" by simp
  then show "x \<in> set xs" by simp
  show "\<forall>y \<in> set xs. key x \<le> key y"
    using sort_key_hd_least [of _ xs key] ys by simp
qed

interpretation placement: worker_selector selectWorker
proof
  fix input c
  show "\<exists>r. selectWorker input = Inr r" by (simp add: selectWorker_least)
  show "c \<in> set (si_candidates input) \<and> isCompatible input c"
    if "selectWorker input = Inr (Some c)"
    using that first_row_sort_key(1) [of load_key "filter (isCompatible input) (si_candidates input)" c]
    by (simp add: selectWorker_least)
  show "selectWorker input \<noteq> Inr None"
    if "c \<in> set (si_candidates input)" "isCompatible input c"
  proof -
    let ?xs = "filter (isCompatible input) (si_candidates input)"
    have "c \<in> set (sort_key load_key ?xs)" using that by simp
    then have "sort_key load_key ?xs \<noteq> []" by (cases "sort_key load_key ?xs") auto
    then show ?thesis by (simp add: selectWorker_least)
  qed
qed

section \<open>The scheduling transaction\<close>

text \<open>The grouped join of \<open>workers\<close> with the Workspaces assigned to them, ordered by id.\<close>

definition mapCandidate :: "db \<Rightarrow> worker_row \<Rightarrow> schedule_candidate" where
  "mapCandidate d w =
     \<lparr>sc_id = wk_id w, sc_arch = wk_arch w, sc_status = wk_status w, sc_enabled = wk_enabled w,
      sc_schedulable = wk_schedulable w, sc_images = wk_images w, sc_max = wk_max w,
      sc_assigned = length (assigned_to (wk_id w) d), sc_heartbeat = wk_heartbeat w,
      sc_egress_enforced = wk_egress_enforced w, sc_egress_revision = wk_egress_revision w,
      sc_storage_enforced = wk_storage_enforced w\<rparr>"

definition schedule_candidates :: "db \<Rightarrow> schedule_candidate list" where
  "schedule_candidates d = map (mapCandidate d) (sort_key wk_id (db_workers d))"

datatype schedule_result =
    Schedule_STARTING workspace_record bool | Schedule_NO_ELIGIBLE_WORKER
  | Schedule_WORKSPACE_CHANGED

definition startable :: "ws_state \<Rightarrow> bool" where
  "startable s \<longleftrightarrow> s \<in> {CREATED, STOPPED, ERROR, WORKER_OFFLINE}"

definition selection_for :: "ws_row \<Rightarrow> instant \<Rightarrow> string list \<Rightarrow> db \<Rightarrow> selection_input" where
  "selection_for workspace cutoff conn d =
     \<lparr>si_workspace =
        \<lparr>sr_image = ws_image workspace, sr_arch = ws_required_arch workspace,
         sr_caps = ws_required_caps workspace\<rparr>,
      si_candidates = schedule_candidates d, si_connected = conn, si_cutoff = cutoff,
      si_revision = db_egress_revision d\<rparr>"

definition assign_worker ::
  "instant \<Rightarrow> ws_row \<Rightarrow> string \<Rightarrow> bool \<Rightarrow> db \<Rightarrow> schedule_result \<times> db" where
  "assign_worker t workspace workerId sticky d =
     (let p = (\<lambda>w. ws_id w = ws_id workspace \<and> ws_user w = ws_user workspace \<and>
                   (ws_worker w = None \<or> ws_worker w = Some workerId) \<and> startable (ws_state w));
          f = (\<lambda>w. w\<lparr>ws_worker := Some workerId, ws_state := STARTING,
                    ws_desired := Want_RUNNING, ws_updated := t, ws_activity := t\<rparr>);
          d1 = update_workspaces t p f d
      in case first_row (returning p f (db_workspaces d)) of
           None \<Rightarrow> (Schedule_WORKSPACE_CHANGED, d1)
         | Some row \<Rightarrow> (Schedule_STARTING (mapWorkspace row) sticky, d1))"

definition scheduleWorkspaceStart ::
  "selector \<Rightarrow> instant \<Rightarrow> string \<Rightarrow> string \<Rightarrow> instant \<Rightarrow> string list \<Rightarrow> db
   \<Rightarrow> string + (schedule_result \<times> db)" where
  "scheduleWorkspaceStart select t workspaceId userId cutoff conn d =
     (case first_row (filter (\<lambda>w. ws_id w = workspaceId \<and> ws_user w = userId)
              (db_workspaces d)) of
        None \<Rightarrow> Inr (Schedule_WORKSPACE_CHANGED, d)
      | Some workspace \<Rightarrow>
          if \<not> startable (ws_state workspace) then Inr (Schedule_WORKSPACE_CHANGED, d)
          else (case ws_worker workspace of
              Some workerId \<Rightarrow> Inr (assign_worker t workspace workerId True d)
            | None \<Rightarrow>
                (case select (selection_for workspace cutoff conn d) of
                   Inl e \<Rightarrow> Inl e
                 | Inr None \<Rightarrow> Inr (Schedule_NO_ELIGIBLE_WORKER, d)
                 | Inr (Some selected) \<Rightarrow>
                     Inr (assign_worker t workspace (sc_id selected) False d))))"

section \<open>Placements and the scheduling pause\<close>

record worker_placement_record = worker_record +
  wpr_assigned :: nat
  wpr_by_image :: "(string \<times> nat) list"
  wpr_allocated_disk :: int

definition placement_record :: "db \<Rightarrow> worker_record \<Rightarrow> worker_placement_record" where
  "placement_record d w =
     (let rows = assigned_to (wkr_id w) d in
      worker_record.extend w
        (worker_placement_record.fields (length rows)
          (map (\<lambda>i. (i, length (filter (\<lambda>r. ws_image r = i) rows))) (js_set (map ws_image rows)))
          (sum_list (map ws_disk_limit rows))))"

definition listWorkersWithAssignments :: "db \<Rightarrow> worker_placement_record list" where
  "listWorkersWithAssignments d = map (placement_record d) (listWorkers d)"

datatype set_schedulable_result = Pause_UPDATED worker_placement_record | Pause_NOT_FOUND

text \<open>The transaction; \<open>None\<close> when there is no such Worker, else whether it changed.\<close>

definition change_schedulable ::
  "instant \<Rightarrow> string \<Rightarrow> bool \<Rightarrow> audit_metadata \<Rightarrow> db \<Rightarrow> bool option \<times> db" where
  "change_schedulable t workerId schedulable audit d =
     (case first_row (filter (\<lambda>w. wk_id w = workerId) (db_workers d)) of
        None \<Rightarrow> (None, d)
      | Some current \<Rightarrow>
          if wk_schedulable current = schedulable then (Some False, d)
          else (Some True,
            insert_audit t
              (if schedulable then ''worker.scheduling_resumed'' else ''worker.scheduling_paused'')
              (Some (am_actor audit)) None None (Some workerId) (JObj (request_details audit))
              (update_workers default_audit_source t (\<lambda>w. wk_id w = workerId)
                (\<lambda>w. w\<lparr>wk_schedulable := schedulable, wk_updated := t\<rparr>) d)))"

definition setWorkerSchedulable ::
  "instant \<Rightarrow> string \<Rightarrow> bool \<Rightarrow> audit_metadata \<Rightarrow> db \<Rightarrow> set_schedulable_result \<times> db" where
  "setWorkerSchedulable t workerId schedulable audit d =
     (let (changed, d1) = change_schedulable t workerId schedulable audit d in
      case changed of
        None \<Rightarrow> (Pause_NOT_FOUND, d1)
      | Some _ \<Rightarrow>
          (case first_row (filter (\<lambda>w. wkr_id w = workerId) (listWorkersWithAssignments d1)) of
             None \<Rightarrow> (Pause_NOT_FOUND, d1)
           | Some worker \<Rightarrow> (Pause_UPDATED worker, d1)))"

end
