(* ===== verification/EgressPolicy.thy ===== *)
theory EgressPolicy
  imports Workers "HOL-Library.Multiset"
begin

text \<open>
  The administrator's egress policy: \<open>packages/database/src/egress.ts\<close> (the rule table and its
  revision), \<open>apps/control-plane/src/egress.ts\<close> (which rule sets are acceptable, and the policy
  sent to the Workers) and the rule routes of \<open>routes/admin-egress.ts\<close>. The repository takes
  the acceptance check as a parameter; \<open>policy_validator\<close> is what it may rely on.
\<close>

section \<open>Acceptable rule sets\<close>

text \<open>\<open>Inl\<close> is a thrown exception, \<open>Inr (Some code)\<close> a rejection.\<close>

type_synonym validator = "egress_rule list \<Rightarrow> string + string option"

definition rule_limit_code :: string where
  "rule_limit_code = ''EGRESS_RULE_LIMIT''"

definition outside_deny_code :: string where
  "outside_deny_code = ''EGRESS_ALLOW_OUTSIDE_DENY''"

definition overlaps_protected_code :: string where
  "overlaps_protected_code = ''EGRESS_ALLOW_OVERLAPS_PROTECTED''"

definition invalid_cidr_error :: string where
  "invalid_cidr_error = ''invalid IPv4 CIDR''"

text \<open>\<open>map(cidrTextInterval)\<close>: \<open>None\<close> when one of the texts throws.\<close>

fun text_intervals :: "string list \<Rightarrow> ipv4_interval list option" where
  "text_intervals [] = Some []"
| "text_intervals (t # ts) =
     (case (cidrTextInterval t, text_intervals ts) of
        (Some i, Some is) \<Rightarrow> Some (i # is) | _ \<Rightarrow> None)"

fun check_allow ::
  "ipv4_interval list \<Rightarrow> ipv4_interval list \<Rightarrow> egress_rule list \<Rightarrow> string + string option" where
  "check_allow denied prot [] = Inr None"
| "check_allow denied prot (rule # rules) =
     (case cidrTextInterval (er_network rule) of
        None \<Rightarrow> Inl invalid_cidr_error
      | Some network \<Rightarrow>
          if \<not> intervalCovered network denied then Inr (Some outside_deny_code)
          else if list_ex (\<lambda>candidate. intervalsOverlap candidate network) prot
          then Inr (Some overlaps_protected_code)
          else check_allow denied prot rules)"

definition validateEgressRules :: "egress_rule list \<Rightarrow> string list \<Rightarrow> string + string option" where
  "validateEgressRules rules protectedCidrs =
     (let allow = filter (\<lambda>r. er_action r = Allow) rules;
          deny = filter (\<lambda>r. er_action r = Deny) rules
      in if length allow > EGRESS_MAX_ENTRIES \<or> length deny > EGRESS_MAX_ENTRIES
         then Inr (Some rule_limit_code)
         else (case (text_intervals (EGRESS_DEFAULT_DENY_V4 @ map er_network deny),
                     text_intervals protectedCidrs) of
             (Some denied, Some prot) \<Rightarrow> check_allow denied prot allow
           | _ \<Rightarrow> Inl invalid_cidr_error))"

definition egressPolicyForWorkers ::
  "nat \<Rightarrow> egress_rule list \<Rightarrow> string list \<Rightarrow> egress_policy" where
  "egressPolicyForWorkers revision rules protectedCidrs =
     \<lparr>pol_revision = revision,
      pol_allow = map (\<lambda>r.
        let ports = er_port_min r \<noteq> None \<and> er_port_max r \<noteq> None in
        \<lparr>allow_network = er_network r, allow_protocol = er_protocol r,
         allow_port_min = (if ports then er_port_min r else None),
         allow_port_max = (if ports then er_port_max r else None)\<rparr>)
        (filter (\<lambda>r. er_action r = Allow) rules),
      pol_deny_extra = map er_network (filter (\<lambda>r. er_action r = Deny) rules),
      pol_protected = protectedCidrs\<rparr>"

section \<open>The rule table\<close>

text \<open>The order of \<open>listRules\<close>: action, network, protocol and first port (nulls first), id.\<close>

definition rule_order :: "egress_rule \<Rightarrow> nat \<times> (nat \<times> nat) \<times> nat \<times> nat \<times> string" where
  "rule_order r =
     ((case er_action r of Allow \<Rightarrow> 0 | Deny \<Rightarrow> 1),
      (case parseIpv4Cidr (er_network r) of
         None \<Rightarrow> (0, 0) | Some c \<Rightarrow> (cidr_address c, cidr_prefix c)),
      (case er_protocol r of None \<Rightarrow> 0 | Some Tcp \<Rightarrow> 1 | Some Udp \<Rightarrow> 2),
      (case er_port_min r of None \<Rightarrow> 0 | Some p \<Rightarrow> Suc p), er_id r)"

definition listRules :: "db \<Rightarrow> egress_rule list" where
  "listRules d = sort_key rule_order (db_egress_rules d)"

definition getEgressPolicy :: "db \<Rightarrow> nat \<times> egress_rule list" where
  "getEgressPolicy d = (db_egress_revision d, listRules d)"

definition bumpRevision :: "nat \<Rightarrow> db \<Rightarrow> nat \<times> db" where
  "bumpRevision current d = (let revision = current + 1 in (revision, d\<lparr>db_egress_revision := revision\<rparr>))"

definition action_text :: "rule_action \<Rightarrow> string" where
  "action_text a = (case a of Allow \<Rightarrow> ''allow'' | Deny \<Rightarrow> ''deny'')"

definition protocol_json :: "egress_protocol option \<Rightarrow> json" where
  "protocol_json p =
     (case p of None \<Rightarrow> JNull | Some Tcp \<Rightarrow> JStr ''tcp'' | Some Udp \<Rightarrow> JStr ''udp'')"

definition ruleDetails :: "egress_rule \<Rightarrow> nat \<Rightarrow> audit_metadata \<Rightarrow> json" where
  "ruleDetails rule revision audit =
     JObj (request_details audit @
       [(''ruleId'', JStr (er_id rule)), (''action'', JStr (action_text (er_action rule))),
        (''network'', JStr (er_network rule)), (''protocol'', protocol_json (er_protocol rule)),
        (''portMin'', json_opt_num (map_option int (er_port_min rule))),
        (''portMax'', json_opt_num (map_option int (er_port_max rule))),
        (''description'', JStr (er_description rule)), (''revision'', JNum (int revision))])"

definition same_rule :: "egress_rule \<Rightarrow> egress_rule \<Rightarrow> bool" where
  "same_rule a b \<longleftrightarrow>
     er_action a = er_action b \<and> er_network a = er_network b \<and> er_protocol a = er_protocol b \<and>
     er_port_min a = er_port_min b \<and> er_port_max a = er_port_max b"

text \<open>The constraints of \<open>egress_rules\<close> (migration 0010).\<close>

definition rule_ports_ok :: "egress_rule \<Rightarrow> bool" where
  "rule_ports_ok r \<longleftrightarrow>
     (case (er_port_min r, er_port_max r) of
        (None, None) \<Rightarrow> True
      | (Some lo, Some hi) \<Rightarrow>
          er_protocol r \<noteq> None \<and> 1 \<le> lo \<and> lo \<le> 65535 \<and> 1 \<le> hi \<and> hi \<le> 65535 \<and> lo \<le> hi
      | _ \<Rightarrow> False)"

definition insert_rule :: "egress_rule \<Rightarrow> db \<Rightarrow> db result" where
  "insert_rule r d =
     (case parseIpv4Cidr (er_network r) of
        None \<Rightarrow> Inl (Check_Violation ''cidr'')
      | Some c \<Rightarrow>
          if cidr_prefix c < 8 then Inl (Check_Violation ''egress_rules_ipv4'')
          else if \<not> (er_action r = Allow \<or> er_protocol r = None \<and> er_port_min r = None \<and>
                     er_port_max r = None)
          then Inl (Check_Violation ''egress_rules_deny_has_no_service'')
          else if \<not> rule_ports_ok r then Inl (Check_Violation ''egress_rules_ports'')
          else if length (er_description r) > 200
          then Inl (Check_Violation ''egress_rules_description_length'')
          else if er_id r \<in> er_id ` set (db_egress_rules d)
          then Inl (Unique_Violation ''egress_rules_pkey'')
          else if list_ex (same_rule r) (db_egress_rules d)
          then Inl (Unique_Violation ''egress_rules_unique'')
          else if er_created_by r \<notin> us_id ` set (db_users d)
          then Inl (Foreign_Key_Violation ''egress_rules_created_by_fkey'')
          else Inr (d\<lparr>db_egress_rules := db_egress_rules d @ [r]\<rparr>))"

datatype egress_failure = Validator_Threw string | Statement_Failed db_error

datatype create_rule_result =
    Rule_CREATED egress_rule nat | Rule_DUPLICATE | Rule_REJECTED string

datatype delete_rule_result =
    Rule_DELETED nat | Rule_NOT_FOUND | Rule_IN_USE string

record rule_input =
  ri_action :: rule_action
  ri_network :: string
  ri_protocol :: "egress_protocol option"
  ri_port_min :: "nat option"
  ri_port_max :: "nat option"
  ri_description :: string

definition rule_of_input :: "instant \<Rightarrow> string \<Rightarrow> rule_input \<Rightarrow> string \<Rightarrow> egress_rule" where
  "rule_of_input t ruleId i actor =
     \<lparr>er_id = ruleId, er_action = ri_action i, er_network = ri_network i,
      er_protocol = ri_protocol i, er_port_min = ri_port_min i, er_port_max = ri_port_max i,
      er_description = ri_description i, er_created_by = actor, er_created = t\<rparr>"

definition createEgressRule ::
  "validator \<Rightarrow> instant \<Rightarrow> string \<Rightarrow> rule_input \<Rightarrow> audit_metadata \<Rightarrow> db
   \<Rightarrow> egress_failure + (create_rule_result \<times> db)" where
  "createEgressRule validate t ruleId i audit d =
     (let current = db_egress_revision d;
          existing = listRules d;
          rule = rule_of_input t ruleId i (am_actor audit)
      in if list_ex (\<lambda>candidate. same_rule candidate rule) existing then Inr (Rule_DUPLICATE, d)
         else (case validate (existing @ [rule]) of
             Inl e \<Rightarrow> Inl (Validator_Threw e)
           | Inr (Some code) \<Rightarrow> Inr (Rule_REJECTED code, d)
           | Inr None \<Rightarrow>
               (case insert_rule rule d of
                  Inl e \<Rightarrow> Inl (Statement_Failed e)
                | Inr d1 \<Rightarrow>
                    let (revision, d2) = bumpRevision current d1 in
                    Inr (Rule_CREATED rule revision,
                      insert_audit t ''egress.rule_created'' (Some (am_actor audit)) None None None
                        (ruleDetails rule revision audit) d2))))"

definition deleteEgressRule ::
  "validator \<Rightarrow> instant \<Rightarrow> string \<Rightarrow> audit_metadata \<Rightarrow> db
   \<Rightarrow> egress_failure + (delete_rule_result \<times> db)" where
  "deleteEgressRule validate t ruleId audit d =
     (let current = db_egress_revision d; existing = listRules d in
      case first_row (filter (\<lambda>r. er_id r = ruleId) existing) of
        None \<Rightarrow> Inr (Rule_NOT_FOUND, d)
      | Some rule \<Rightarrow>
          (case validate (remove1 rule existing) of
             Inl e \<Rightarrow> Inl (Validator_Threw e)
           | Inr (Some code) \<Rightarrow> Inr (Rule_IN_USE code, d)
           | Inr None \<Rightarrow>
               let d1 = d\<lparr>db_egress_rules :=
                            delete_where (\<lambda>r. er_id r = er_id rule) (db_egress_rules d)\<rparr>;
                   (revision, d2) = bumpRevision current d1
               in Inr (Rule_DELETED revision,
                    insert_audit t ''egress.rule_deleted'' (Some (am_actor audit)) None None None
                      (ruleDetails rule revision audit) d2)))"

section \<open>The routes\<close>

text \<open>\<open>NetworkSchema\<close>: trimmed, canonical, prefix 8 or longer.\<close>

definition NetworkSchema :: "string \<Rightarrow> string option" where
  "NetworkSchema value =
     (let text = trim value in
      if length text > 18 then None
      else (case canonicalIpv4Cidr text of
          None \<Rightarrow> None
        | Some cidr \<Rightarrow>
            (case snd (slash_split cidr) of
               None \<Rightarrow> None
             | Some prefixText \<Rightarrow> if number_of prefixText \<ge> 8 then Some cidr else None)))"

record rule_body =
  rb_action :: rule_action
  rb_network :: string
  rb_protocol :: "egress_protocol option"
  rb_port_min :: "nat option"
  rb_port_max :: "nat option"
  rb_description :: string

text \<open>\<open>CreateEgressRuleBodySchema\<close>: the accepted bodies, with the network made canonical.\<close>

definition CreateEgressRuleBodySchema :: "rule_body \<Rightarrow> rule_body option" where
  "CreateEgressRuleBodySchema body =
     (case NetworkSchema (rb_network body) of
        None \<Rightarrow> None
      | Some network \<Rightarrow>
          if port_ok (rb_port_min body) \<and> port_ok (rb_port_max body) \<and>
             length (trim (rb_description body)) \<le> 200 \<and>
             (rb_action body = Allow \<or> rb_protocol body = None \<and> rb_port_min body = None \<and>
              rb_port_max body = None) \<and>
             (rb_port_max body = None \<or> rb_port_min body \<noteq> None) \<and>
             (rb_port_min body = None \<or> rb_protocol body \<noteq> None) \<and>
             (case rb_port_min body of
                None \<Rightarrow> True
              | Some lo \<Rightarrow> (case rb_port_max body of None \<Rightarrow> lo | Some hi \<Rightarrow> hi) \<ge> lo)
          then Some (body\<lparr>rb_network := network, rb_description := trim (rb_description body)\<rparr>)
          else None)"

definition input_of_body :: "rule_body \<Rightarrow> rule_input" where
  "input_of_body body =
     \<lparr>ri_action = rb_action body, ri_network = rb_network body, ri_protocol = rb_protocol body,
      ri_port_min = rb_port_min body,
      ri_port_max =
        (case rb_port_min body of
           None \<Rightarrow> None
         | Some lo \<Rightarrow> Some (case rb_port_max body of None \<Rightarrow> lo | Some hi \<Rightarrow> hi)),
      ri_description = rb_description body\<rparr>"

datatype rule_response =
    Rule_Created egress_rule nat | Rule_Deleted nat
  | Rule_Error nat string | Rule_Exception egress_failure

definition post_egress_rule ::
  "instant \<Rightarrow> string \<Rightarrow> string list \<Rightarrow> rule_body \<Rightarrow> audit_metadata \<Rightarrow> db \<Rightarrow> rule_response \<times> db" where
  "post_egress_rule t ruleId protectedCidrs body audit d =
     (case CreateEgressRuleBodySchema body of
        None \<Rightarrow> (Rule_Error 400 ''INVALID_REQUEST'', d)
      | Some parsed \<Rightarrow>
          (case createEgressRule (\<lambda>rules. validateEgressRules rules protectedCidrs) t ruleId
                  (input_of_body parsed) audit d of
             Inl e \<Rightarrow> (Rule_Exception e, d)
           | Inr (Rule_DUPLICATE, d') \<Rightarrow> (Rule_Error 409 ''EGRESS_RULE_EXISTS'', d')
           | Inr (Rule_REJECTED code, d') \<Rightarrow> (Rule_Error 409 code, d')
           | Inr (Rule_CREATED rule revision, d') \<Rightarrow> (Rule_Created rule revision, d')))"

definition delete_egress_rule ::
  "instant \<Rightarrow> string \<Rightarrow> audit_metadata \<Rightarrow> db \<Rightarrow> rule_response \<times> db" where
  "delete_egress_rule t ruleId audit d =
     (case deleteEgressRule (\<lambda>rules. validateEgressRules rules []) t ruleId audit d of
        Inl e \<Rightarrow> (Rule_Exception e, d)
      | Inr (Rule_NOT_FOUND, d') \<Rightarrow> (Rule_Error 404 ''EGRESS_RULE_NOT_FOUND'', d')
      | Inr (Rule_IN_USE code, d') \<Rightarrow> (Rule_Error 409 ''EGRESS_RULE_IN_USE'', d')
      | Inr (Rule_DELETED revision, d') \<Rightarrow> (Rule_Deleted revision, d'))"

end
