(* ===== verification/ModelKeys.thy ===== *)
theory ModelKeys
  imports Workers
begin

text \<open>
  \<open>packages/database/src/model-keys.ts\<close>: the records of the virtual keys of the model gateway.
  A row is \<open>issuing\<close> or \<open>active\<close> (live), \<open>revoking\<close>, or \<open>revoked\<close> once the gateway confirmed
  the deletion.

  Issuing a key only share-locks the owner's and the Workspace's row, so two issues may
  interleave: \<open>prepare_issue\<close> is what the transaction reads, \<open>finish_issue\<close> the insert with its
  conflict clause, and \<open>beginModelKeyIssue\<close> runs one after the other.
\<close>

definition modelKeyRetryDelaySeconds :: "nat \<Rightarrow> nat" where
  "modelKeyRetryDelaySeconds attempts = min (30 * 2 ^ min attempts 10) 600"

section \<open>Revocation requests\<close>

text \<open>An absent condition (\<open>None\<close>) matches every row.\<close>

record revoke_request =
  rr_keys :: "string list option"
  rr_workspace :: "string option"
  rr_user :: "string option"
  rr_reason :: revoke_reason
  rr_error :: "string option"
  rr_actor :: "string option"
  rr_request :: "string option"

definition revoke_matches :: "revoke_request \<Rightarrow> key_row \<Rightarrow> bool" where
  "revoke_matches r k \<longleftrightarrow>
     key_live k \<and>
     (case rr_keys r of None \<Rightarrow> True | Some ids \<Rightarrow> mk_id k \<in> set ids) \<and>
     (rr_workspace r = None \<or> mk_workspace k = rr_workspace r) \<and>
     (rr_user r = None \<or> Some (mk_user k) = rr_user r)"

definition requestModelKeyRevoke :: "instant \<Rightarrow> revoke_request \<Rightarrow> db \<Rightarrow> nat \<times> db" where
  "requestModelKeyRevoke t r d =
     (let f = (\<lambda>k. k\<lparr>mk_status := Revoking, mk_revoke_reason := Some (rr_reason r),
                    mk_requested := Some t, mk_next := Some t, mk_error := rr_error r\<rparr>);
          rows = returning (revoke_matches r) f (db_keys d)
      in (length rows,
          fold (\<lambda>k. insert_audit t ''model.key_revoke_requested'' (rr_actor r) (Some (mk_user k))
                 (mk_workspace k) None
                 (JObj ([(''keyAlias'', JStr (mk_alias k)),
                         (''reason'', JStr (revoke_reason_text (rr_reason r)))] @
                        (case rr_request r of
                           None \<Rightarrow> [] | Some i \<Rightarrow> [(''requestId'', JStr i)]))))
            rows (d\<lparr>db_keys := update_where (revoke_matches r) f (db_keys d)\<rparr>)))"

section \<open>Issuing\<close>

record model_key_issue =
  mki_id :: string
  mki_workspace :: string
  mki_user :: string
  mki_alias :: string
  mki_worker :: string

datatype begin_issue_result =
    Issue_ISSUING model_key_issue | Issue_ALREADY_LIVE string key_status
  | Issue_USER_DISABLED | Issue_WORKSPACE_UNAVAILABLE | Issue_RELAY_DISABLED

definition live_keys :: "string \<Rightarrow> db \<Rightarrow> key_row list" where
  "live_keys workspaceId d =
     filter (\<lambda>k. mk_workspace k = Some workspaceId \<and> key_live k) (db_keys d)"

definition alias_prefix :: "string \<Rightarrow> string" where
  "alias_prefix workspaceId = ''arw-'' @ workspaceId @ ''-''"

text \<open>\<open>substring(key_alias from '-([0-9]+)$')::int\<close>\<close>

definition alias_number :: "string \<Rightarrow> nat option" where
  "alias_number s =
     (let digits = rev (takeWhile is_digit (rev s)); rest = dropWhile is_digit (rev s) in
      if digits \<noteq> [] \<and> rest \<noteq> [] \<and> hd rest = CHR ''-'' then Some (number_of digits) else None)"

definition next_sequence :: "string \<Rightarrow> db \<Rightarrow> nat" where
  "next_sequence workspaceId d =
     foldr (\<lambda>k n. case alias_number (mk_alias k) of None \<Rightarrow> n | Some i \<Rightarrow> max i n)
       (filter (\<lambda>k. starts_with (alias_prefix workspaceId) (mk_alias k)) (db_keys d)) 0 + 1"

definition key_alias_for :: "string \<Rightarrow> nat \<Rightarrow> string" where
  "key_alias_for workspaceId n = alias_prefix workspaceId @ decimal n"

definition prepare_issue :: "string \<Rightarrow> string \<Rightarrow> db \<Rightarrow> begin_issue_result + model_key_issue" where
  "prepare_issue keyId workspaceId d =
     (case first_row [(u, w). u \<leftarrow> db_users d, w \<leftarrow> db_workspaces d,
                        ws_user w = us_id u \<and> ws_id w = workspaceId] of
        None \<Rightarrow> Inl Issue_WORKSPACE_UNAVAILABLE
      | Some (owner, _) \<Rightarrow>
          if us_status owner \<noteq> Active then Inl Issue_USER_DISABLED
          else (case first_row (filter (\<lambda>w. ws_id w = workspaceId) (db_workspaces d)) of
              None \<Rightarrow> Inl Issue_WORKSPACE_UNAVAILABLE
            | Some workspace \<Rightarrow>
                (case ws_worker workspace of
                   None \<Rightarrow> Inl Issue_WORKSPACE_UNAVAILABLE
                 | Some workerId \<Rightarrow>
                     if ws_state workspace = DELETING then Inl Issue_WORKSPACE_UNAVAILABLE
                     else if \<not> (case first_row (filter (\<lambda>k. wk_id k = workerId) (db_workers d)) of
                                   None \<Rightarrow> False | Some k \<Rightarrow> wk_relay_enabled k)
                     then Inl Issue_RELAY_DISABLED
                     else (case first_row (live_keys workspaceId d) of
                         Some k \<Rightarrow> Inl (Issue_ALREADY_LIVE (mk_alias k) (mk_status k))
                       | None \<Rightarrow>
                           Inr \<lparr>mki_id = keyId, mki_workspace = workspaceId,
                                mki_user = us_id owner,
                                mki_alias = key_alias_for workspaceId (next_sequence workspaceId d),
                                mki_worker = workerId\<rparr>))))"

text \<open>
  The insert with \<open>on conflict do nothing\<close>: the unique indexes are the primary key, the alias
  and \<open>model_keys_one_live_per_workspace\<close>.
\<close>

definition key_conflict :: "model_key_issue \<Rightarrow> key_row \<Rightarrow> bool" where
  "key_conflict i k \<longleftrightarrow>
     mk_id k = mki_id i \<or> mk_alias k = mki_alias i \<or>
     (mk_workspace k = Some (mki_workspace i) \<and> key_live k)"

definition issued_row :: "instant \<Rightarrow> issue_reason \<Rightarrow> model_key_issue \<Rightarrow> key_row" where
  "issued_row t reason i =
     \<lparr>mk_id = mki_id i, mk_workspace = Some (mki_workspace i), mk_user = mki_user i,
      mk_alias = mki_alias i, mk_status = Issuing, mk_issue_reason = reason,
      mk_revoke_reason = None, mk_created = t, mk_requested = None, mk_revoked = None,
      mk_attempts = 0, mk_next = None, mk_error = None\<rparr>"

definition finish_issue ::
  "instant \<Rightarrow> issue_reason \<Rightarrow> model_key_issue \<Rightarrow> db \<Rightarrow> begin_issue_result \<times> db" where
  "finish_issue t reason i d =
     (if list_ex (key_conflict i) (db_keys d)
      then (case first_row (live_keys (mki_workspace i) d) of
              None \<Rightarrow> (Issue_WORKSPACE_UNAVAILABLE, d)
            | Some k \<Rightarrow> (Issue_ALREADY_LIVE (mk_alias k) (mk_status k), d))
      else (Issue_ISSUING i, d\<lparr>db_keys := db_keys d @ [issued_row t reason i]\<rparr>))"

definition beginModelKeyIssue ::
  "instant \<Rightarrow> string \<Rightarrow> string \<Rightarrow> issue_reason \<Rightarrow> db \<Rightarrow> begin_issue_result \<times> db" where
  "beginModelKeyIssue t keyId workspaceId reason d =
     (case prepare_issue keyId workspaceId d of
        Inl outcome \<Rightarrow> (outcome, d)
      | Inr i \<Rightarrow> finish_issue t reason i d)"

definition activateModelKey :: "instant \<Rightarrow> string \<Rightarrow> db \<Rightarrow> bool \<times> db" where
  "activateModelKey t keyId d =
     (let p = (\<lambda>k. mk_id k = keyId \<and> mk_status k = Issuing);
          f = (\<lambda>k. k\<lparr>mk_status := Key_Active\<rparr>);
          d1 = d\<lparr>db_keys := update_where p f (db_keys d)\<rparr>
      in case first_row (returning p f (db_keys d)) of
           None \<Rightarrow> (False, d1)
         | Some row \<Rightarrow>
             (True, insert_audit t ''model.key_issued'' None (Some (mk_user row)) (mk_workspace row)
                None (JObj [(''keyAlias'', JStr (mk_alias row)),
                            (''reason'', JStr (issue_reason_text (mk_issue_reason row)))]) d1))"

section \<open>The outcome of a revocation\<close>

record pending_revocation =
  pr_id :: string
  pr_alias :: string
  pr_user :: string
  pr_workspace :: "string option"
  pr_worker :: "string option"
  pr_reason :: "revoke_reason option"
  pr_attempts :: nat

definition worker_of_workspace :: "string option \<Rightarrow> db \<Rightarrow> string option" where
  "worker_of_workspace workspace d =
     (case first_row (filter (\<lambda>w. Some (ws_id w) = workspace) (db_workspaces d)) of
        None \<Rightarrow> None | Some w \<Rightarrow> ws_worker w)"

definition due_revocation :: "instant \<Rightarrow> key_row \<Rightarrow> bool" where
  "due_revocation now k \<longleftrightarrow>
     mk_status k = Revoking \<and> (case mk_next k of None \<Rightarrow> False | Some n \<Rightarrow> n \<le> now)"

definition listDueModelKeyRevocations :: "instant \<Rightarrow> nat \<Rightarrow> db \<Rightarrow> pending_revocation list" where
  "listDueModelKeyRevocations now limit d =
     take limit (map (\<lambda>k. \<lparr>pr_id = mk_id k, pr_alias = mk_alias k, pr_user = mk_user k,
                           pr_workspace = mk_workspace k,
                           pr_worker = worker_of_workspace (mk_workspace k) d,
                           pr_reason = mk_revoke_reason k, pr_attempts = mk_attempts k\<rparr>)
       (sort_key (\<lambda>k. the (mk_next k)) (filter (due_revocation now) (db_keys d))))"

datatype revoke_result = Revoke_Ok | Revoke_Failed string

text \<open>\<open>least(30 * power(2, least(revoke_attempts, 10)), 600)\<close> seconds, in milliseconds.\<close>

definition sql_retry_delay :: "nat \<Rightarrow> instant" where
  "sql_retry_delay attempts = 1000 * min (30 * 2 ^ min attempts 10) 600"

definition recordModelKeyRevokeResult :: "instant \<Rightarrow> string \<Rightarrow> revoke_result \<Rightarrow> db \<Rightarrow> db" where
  "recordModelKeyRevokeResult t keyId result d =
     (let p = (\<lambda>k. mk_id k = keyId \<and> mk_status k = Revoking) in
      case result of
        Revoke_Ok \<Rightarrow>
          let f = (\<lambda>k. k\<lparr>mk_status := Revoked, mk_revoked := Some t, mk_next := None,
                        mk_error := None\<rparr>);
              d1 = d\<lparr>db_keys := update_where p f (db_keys d)\<rparr>
          in (case first_row (returning p f (db_keys d)) of
                None \<Rightarrow> d1
              | Some row \<Rightarrow>
                  insert_audit t ''model.key_revoked'' None (Some (mk_user row)) (mk_workspace row)
                    None (JObj [(''keyAlias'', JStr (mk_alias row)),
                                (''reason'', json_opt_str
                                   (map_option revoke_reason_text (mk_revoke_reason row)))]) d1)
      | Revoke_Failed errorCode \<Rightarrow>
          d\<lparr>db_keys := update_where p
              (\<lambda>k. k\<lparr>mk_attempts := mk_attempts k + 1,
                    mk_next := Some (t + sql_retry_delay (mk_attempts k)),
                    mk_error := Some errorCode\<rparr>) (db_keys d)\<rparr>)"

section \<open>Queries\<close>

definition findLiveModelKey :: "string \<Rightarrow> db \<Rightarrow> (string \<times> string \<times> key_status) option" where
  "findLiveModelKey workspaceId d =
     map_option (\<lambda>k. (mk_id k, mk_alias k, mk_status k)) (first_row (live_keys workspaceId d))"

definition listActiveModelKeysForWorker :: "string \<Rightarrow> db \<Rightarrow> (string \<times> string \<times> string) list" where
  "listActiveModelKeysForWorker workerId d =
     [(mk_id k, ws_id w, mk_alias k). k \<leftarrow> db_keys d, w \<leftarrow> db_workspaces d,
        mk_workspace k = Some (ws_id w) \<and> mk_status k = Key_Active \<and> ws_worker w = Some workerId]"

definition needs_model_key :: "db \<Rightarrow> ws_row \<Rightarrow> bool" where
  "needs_model_key d w \<longleftrightarrow>
     ws_state w = RUNNING \<and>
     (\<exists>u \<in> set (db_users d). us_id u = ws_user w \<and> us_status u = Active) \<and>
     (\<exists>k \<in> set (db_workers d). ws_worker w = Some (wk_id k) \<and> wk_status k = ONLINE \<and>
        wk_enabled k \<and> wk_relay_enabled k \<and> wk_relay_listening k) \<and>
     live_keys (ws_id w) d = []"

definition listWorkspacesNeedingModelKey :: "nat \<Rightarrow> db \<Rightarrow> (string \<times> string option) list" where
  "listWorkspacesNeedingModelKey limit d =
     take limit (map (\<lambda>w. (ws_id w, ws_worker w))
       (sort_key ws_updated (filter (needs_model_key d) (db_workspaces d))))"

definition expireStaleModelKeyIssues :: "instant \<Rightarrow> instant \<Rightarrow> db \<Rightarrow> nat \<times> db" where
  "expireStaleModelKeyIssues t olderThan d =
     (let rows = filter (\<lambda>k. mk_status k = Issuing \<and> mk_created k < olderThan) (db_keys d) in
      if rows = [] then (0, d)
      else requestModelKeyRevoke t
        \<lparr>rr_keys = Some (map mk_id rows), rr_workspace = None, rr_user = None,
         rr_reason = Issue_Failed, rr_error = Some ''ISSUE_INTERRUPTED'', rr_actor = None,
         rr_request = None\<rparr> d)"

record workspace_key_state =
  wks_workspace :: string
  wks_status :: "key_status option"
  wks_relay :: bool

definition listWorkspaceModelKeyStates :: "string list \<Rightarrow> db \<Rightarrow> workspace_key_state list" where
  "listWorkspaceModelKeyStates ids d =
     (if ids = [] then []
      else map (\<lambda>w. \<lparr>wks_workspace = ws_id w,
                    wks_status = map_option mk_status (first_row (live_keys (ws_id w) d)),
                    wks_relay = (\<exists>k \<in> set (db_workers d). ws_worker w = Some (wk_id k) \<and>
                                   wk_relay_enabled k)\<rparr>)
        (filter (\<lambda>w. ws_id w \<in> set ids) (db_workspaces d)))"

record model_key_overview =
  mko_pending :: nat
  mko_oldest :: "instant option"
  mko_last_error :: "string option"
  mko_active :: nat

text \<open>\<open>order by next_attempt_at desc\<close> puts nulls first.\<close>

definition next_attempt_desc :: "key_row \<Rightarrow> nat \<times> instant" where
  "next_attempt_desc k = (case mk_next k of None \<Rightarrow> (0, 0) | Some n \<Rightarrow> (1, - n))"

definition modelKeyOverview :: "db \<Rightarrow> model_key_overview" where
  "modelKeyOverview d =
     (let revoking = filter (\<lambda>k. mk_status k = Revoking) (db_keys d);
          failed = filter (\<lambda>k. mk_error k \<noteq> None) revoking
      in \<lparr>mko_pending = length revoking,
          mko_oldest = first_row (sort (List.map_filter mk_requested revoking)),
          mko_last_error =
            (case first_row (sort_key next_attempt_desc failed) of
               None \<Rightarrow> None | Some k \<Rightarrow> mk_error k),
          mko_active = length (filter (\<lambda>k. mk_status k = Key_Active) (db_keys d))\<rparr>)"

section \<open>Budgets\<close>

text \<open>A budget in cents; the result pairs \<open>found\<close> with the value.\<close>

definition findUserModelBudget :: "string \<Rightarrow> db \<Rightarrow> bool \<times> int option" where
  "findUserModelBudget userId d =
     (case first_row (filter (\<lambda>u. us_id u = userId) (db_users d)) of
        None \<Rightarrow> (False, None) | Some u \<Rightarrow> (True, us_budget u))"

definition json_budget :: "int option \<Rightarrow> json" where
  "json_budget b = (case b of None \<Rightarrow> JNull | Some c \<Rightarrow> JRat (of_int c / 100))"

definition setUserModelBudget ::
  "instant \<Rightarrow> string \<Rightarrow> int option \<Rightarrow> string \<Rightarrow> string \<Rightarrow> db
   \<Rightarrow> ((bool \<times> int option) \<times> db) result" where
  "setUserModelBudget t userId budget actor requestId d =
     (case first_row (filter (\<lambda>u. us_id u = userId) (db_users d)) of
        None \<Rightarrow> Inr ((False, None), d)
      | Some u \<Rightarrow>
          if \<not> (case budget of None \<Rightarrow> True | Some b \<Rightarrow> 0 \<le> b \<and> b \<le> 100000000)
          then Inl (Check_Violation ''users_model_budget_range'')
          else Inr ((True, us_budget u),
            insert_audit t ''model.budget_changed'' (Some actor) (Some userId) None None
              (JObj [(''fromUsd'', json_budget (us_budget u)), (''toUsd'', json_budget budget),
                     (''requestId'', JStr requestId)])
              (update_users t (\<lambda>x. us_id x = userId)
                (\<lambda>x. x\<lparr>us_budget := budget, us_updated := t\<rparr>) d)))"

end
