(* ===== verification/Users.thy ===== *)
theory Users
  imports Workers
begin

text \<open>
  \<open>packages/database/src/users.ts\<close> and \<open>identities.ts\<close>: local and external accounts, their
  sessions, the administrator's changes to accounts and the binding of external identities.
  Disabling an account revokes its sessions here and its model keys by a trigger.
\<close>

section \<open>Inserts\<close>

datatype auth_protocol = LOCAL | OIDC | OAUTH2

record auth_audit =
  aa_protocol :: auth_protocol
  aa_provider :: string
  aa_request :: string
  aa_ip :: string
  aa_agent :: "string option"

definition auth_details :: "auth_audit \<Rightarrow> (string \<times> json) list" where
  "auth_details a =
     [(''protocol'', JStr (case aa_protocol a of
         LOCAL \<Rightarrow> ''LOCAL'' | OIDC \<Rightarrow> ''OIDC'' | OAUTH2 \<Rightarrow> ''OAUTH2'')),
      (''providerId'', JStr (aa_provider a)), (''requestId'', JStr (aa_request a)),
      (''ipAddress'', JStr (aa_ip a)), (''userAgent'', json_opt_str (aa_agent a))]"

text \<open>The audit metadata with the acting administrator split off.\<close>

type_synonym actor_audit = "string \<times> auth_audit"

definition email_ok :: "string option \<Rightarrow> bool" where
  "email_ok e \<longleftrightarrow>
     (case e of None \<Rightarrow> True | Some s \<Rightarrow> s = to_lower s \<and> 3 \<le> length s \<and> length s \<le> 320)"

text \<open>\<open>^[a-z0-9][a-z0-9._-]{2,63}$\<close>, which implies the other two checks of the column.\<close>

definition username_ok :: "string option \<Rightarrow> bool" where
  "username_ok u \<longleftrightarrow>
     (case u of
        None \<Rightarrow> True
      | Some [] \<Rightarrow> False
      | Some (c # cs) \<Rightarrow>
          (is_lower c \<or> is_digit c) \<and> 2 \<le> length cs \<and> length cs \<le> 63 \<and>
          list_all (\<lambda>x. is_lower x \<or> is_digit x \<or> x \<in> set ''._-'') cs)"

definition insert_user :: "user_row \<Rightarrow> db \<Rightarrow> db result" where
  "insert_user u d =
     (if \<not> email_ok (us_email u) then Inl (Check_Violation ''users_email'')
      else if \<not> username_ok (us_username u) then Inl (Check_Violation ''users_username'')
      else if us_password u \<noteq> None \<and> us_email u = None \<and> us_username u = None
      then Inl (Check_Violation ''users_login_method_present'')
      else if us_id u \<in> us_id ` set (db_users d) then Inl (Unique_Violation ''users_pkey'')
      else if us_username u \<noteq> None \<and> us_username u \<in> us_username ` set (db_users d)
      then Inl (Unique_Violation ''users_username_key'')
      else if us_password u \<noteq> None \<and> us_email u \<noteq> None \<and>
              (\<exists>x \<in> set (db_users d). us_password x \<noteq> None \<and> us_email x = us_email u)
      then Inl (Unique_Violation ''users_local_email_unique'')
      else Inr (d\<lparr>db_users := db_users d @ [u]\<rparr>))"

definition insert_session :: "session_row \<Rightarrow> db \<Rightarrow> db result" where
  "insert_session s d =
     (if length (se_token s) \<noteq> 43 then Inl (Check_Violation ''user_sessions_token_hash_length'')
      else if se_id s \<in> se_id ` set (db_sessions d)
      then Inl (Unique_Violation ''user_sessions_pkey'')
      else if se_token s \<in> se_token ` set (db_sessions d)
      then Inl (Unique_Violation ''user_sessions_token_hash_key'')
      else Inr (d\<lparr>db_sessions := db_sessions d @ [s]\<rparr>))"

definition revoke_sessions_where :: "instant \<Rightarrow> (session_row \<Rightarrow> bool) \<Rightarrow> db \<Rightarrow> db" where
  "revoke_sessions_where t p d =
     d\<lparr>db_sessions := update_where (\<lambda>s. p s \<and> se_revoked s = None)
        (\<lambda>s. s\<lparr>se_revoked := Some t\<rparr>) (db_sessions d)\<rparr>"

section \<open>Accounts\<close>

definition findUserByLogin :: "string \<Rightarrow> db \<Rightarrow> user_record option" where
  "findUserByLogin login d =
     (let normalized = to_lower (trim login) in
      map_option mapUser (first_row (filter
        (\<lambda>u. us_password u \<noteq> None \<and>
             (us_email u = Some normalized \<or> us_username u = Some normalized)) (db_users d))))"

definition new_user ::
  "instant \<Rightarrow> string \<Rightarrow> string option \<Rightarrow> string option \<Rightarrow> string option \<Rightarrow> user_role \<Rightarrow> user_row" where
  "new_user t userId email username password role =
     \<lparr>us_id = userId, us_email = email, us_username = username, us_password = password,
      us_role = role, us_status = Active, us_last_login = None, us_budget = None,
      us_created = t, us_updated = t\<rparr>"

definition createUser ::
  "instant \<Rightarrow> string \<Rightarrow> string \<Rightarrow> string option \<Rightarrow> string \<Rightarrow> user_role \<Rightarrow> string option \<Rightarrow> db
   \<Rightarrow> (user_record \<times> db) result" where
  "createUser t userId email username password role actor d =
     (let row = new_user t userId (Some email) username (Some password) role in
      case insert_user row d of
        Inl e \<Rightarrow> Inl e
      | Inr d1 \<Rightarrow>
          Inr (mapUser row,
            (case actor of
               None \<Rightarrow> d1
             | Some a \<Rightarrow>
                 insert_audit t ''user.created'' (Some a) (Some userId) None None
                   (JObj [(''source'', JStr ''local''), (''role'', JStr (role_text role))]) d1)))"

section \<open>Sessions\<close>

definition new_session :: "string \<Rightarrow> string \<Rightarrow> string \<Rightarrow> instant \<Rightarrow> session_row" where
  "new_session sid userId token expires =
     \<lparr>se_id = sid, se_user = userId, se_token = token, se_expires = expires, se_revoked = None\<rparr>"

definition createSession ::
  "instant \<Rightarrow> string \<Rightarrow> string \<Rightarrow> string \<Rightarrow> instant \<Rightarrow> auth_audit option \<Rightarrow> db
   \<Rightarrow> (bool \<times> db) result" where
  "createSession t sid userId token expires audit d =
     (let p = (\<lambda>u. us_id u = userId \<and> us_status u = Active) in
      if filter p (db_users d) = [] then Inr (False, d)
      else (case insert_session (new_session sid userId token expires) d of
          Inl e \<Rightarrow> Inl e
        | Inr d1 \<Rightarrow>
            let d2 = update_users t p (\<lambda>u. u\<lparr>us_last_login := Some t, us_updated := t\<rparr>) d1
            in Inr (True,
                 (case audit of
                    None \<Rightarrow> d2
                  | Some a \<Rightarrow>
                      insert_audit t ''auth.login_succeeded'' (Some userId) (Some userId) None None
                        (JObj (auth_details a)) d2))))"

record session_user =
  su_id :: string
  su_email :: "string option"
  su_username :: "string option"
  su_role :: user_role
  su_status :: user_status
  su_last_login :: "instant option"
  su_created :: instant
  su_updated :: instant

record authenticated_session =
  as_session :: string
  as_expires :: instant
  as_user :: session_user

definition session_user_of :: "user_row \<Rightarrow> session_user" where
  "session_user_of u =
     \<lparr>su_id = us_id u, su_email = us_email u, su_username = us_username u, su_role = us_role u,
      su_status = us_status u, su_last_login = us_last_login u, su_created = us_created u,
      su_updated = us_updated u\<rparr>"

definition findActiveSession :: "string \<Rightarrow> instant \<Rightarrow> db \<Rightarrow> authenticated_session option" where
  "findActiveSession token now d =
     map_option (\<lambda>(s, u). \<lparr>as_session = se_id s, as_expires = se_expires s,
                          as_user = session_user_of u\<rparr>)
       (first_row [(s, u). s \<leftarrow> db_sessions d, u \<leftarrow> db_users d,
          us_id u = se_user s \<and> se_token s = token \<and> se_revoked s = None \<and>
          se_expires s > now \<and> us_status u = Active])"

definition revokeSession ::
  "instant \<Rightarrow> string \<Rightarrow> instant \<Rightarrow> actor_audit option \<Rightarrow> db \<Rightarrow> db" where
  "revokeSession t token now audit d =
     (let p = (\<lambda>s. se_token s = token);
          rows = filter (\<lambda>s. p s \<and> se_revoked s = None) (db_sessions d);
          d1 = revoke_sessions_where now p d
      in case audit of
           None \<Rightarrow> d1
         | Some (actor, a) \<Rightarrow>
             if length rows = 1
             then insert_audit t ''auth.logout'' (Some actor) (Some actor) None None
                    (JObj (auth_details a)) d1
             else d1)"

definition revokeUserSessions ::
  "instant \<Rightarrow> string \<Rightarrow> instant \<Rightarrow> actor_audit option \<Rightarrow> db \<Rightarrow> bool \<times> db" where
  "revokeUserSessions t userId revokedAt audit d =
     (if filter (\<lambda>u. us_id u = userId) (db_users d) = [] then (False, d)
      else
        let d1 = revoke_sessions_where revokedAt (\<lambda>s. se_user s = userId) d
        in (True,
            (case audit of
               None \<Rightarrow> d1
             | Some (actor, a) \<Rightarrow>
                 insert_audit t ''auth.session_revoked'' (Some actor) (Some userId) None None
                   (JObj (auth_details a @ [(''reason'', JStr ''admin_request'')])) d1)))"

section \<open>Administration\<close>

datatype account_source = Local_Account | External_Account

record admin_user_record =
  aur_id :: string
  aur_email :: "string option"
  aur_username :: "string option"
  aur_role :: user_role
  aur_status :: user_status
  aur_source :: account_source
  aur_workspaces :: nat
  aur_last_login :: "instant option"
  aur_created :: instant
  aur_updated :: instant

definition mapAdminUser :: "db \<Rightarrow> user_row \<Rightarrow> admin_user_record" where
  "mapAdminUser d row =
     \<lparr>aur_id = us_id row, aur_email = us_email row, aur_username = us_username row,
      aur_role = us_role row, aur_status = us_status row,
      aur_source = (if us_password row = None then External_Account else Local_Account),
      aur_workspaces = length (filter (\<lambda>w. ws_user w = us_id row) (db_workspaces d)),
      aur_last_login = us_last_login row, aur_created = us_created row,
      aur_updated = us_updated row\<rparr>"

definition listUsers :: "db \<Rightarrow> admin_user_record list" where
  "listUsers d = map (mapAdminUser d) (sort_key (\<lambda>u. (us_created u, us_id u)) (db_users d))"

text \<open>An administrator who can still log in when every identity provider is down.\<close>

definition active_local_admin :: "user_row \<Rightarrow> bool" where
  "active_local_admin u \<longleftrightarrow>
     us_role u = Admin \<and> us_status u = Active \<and> us_password u \<noteq> None \<and>
     (us_email u \<noteq> None \<or> us_username u \<noteq> None)"

datatype update_user_result =
    Update_UPDATED admin_user_record | Update_NOT_FOUND | Update_LAST_ACTIVE_LOCAL_ADMIN

definition managed_user_audit ::
  "instant \<Rightarrow> string \<Rightarrow> user_row \<Rightarrow> user_role \<Rightarrow> user_status \<Rightarrow> actor_audit option \<Rightarrow> db \<Rightarrow> db" where
  "managed_user_audit t userId target role status audit d =
     (case audit of
        None \<Rightarrow> d
      | Some (actor, a) \<Rightarrow>
          let ev = (\<lambda>event details. insert_audit t event (Some actor) (Some userId) None None
                      (JObj (auth_details a @ details)));
              d1 = (if us_status target \<noteq> status
                    then
                      let e1 = ev (if status = Active then ''user.enabled'' else ''user.disabled'')
                                 [(''fromStatus'', JStr (user_status_text (us_status target))),
                                  (''toStatus'', JStr (user_status_text status))] d
                      in if status = Disabled
                         then ev ''auth.session_revoked'' [(''reason'', JStr ''user_disabled'')] e1
                         else e1
                    else d)
          in if us_role target \<noteq> role
             then ev ''user.role_changed''
                    [(''fromRole'', JStr (role_text (us_role target))),
                     (''toRole'', JStr (role_text role))] d1
             else d1)"

definition updateManagedUser ::
  "instant \<Rightarrow> string \<Rightarrow> user_role option \<Rightarrow> user_status option \<Rightarrow> actor_audit option \<Rightarrow> db
   \<Rightarrow> update_user_result \<times> db" where
  "updateManagedUser t userId newRole newStatus audit d =
     (case first_row (filter (\<lambda>u. us_id u = userId) (db_users d)) of
        None \<Rightarrow> (Update_NOT_FOUND, d)
      | Some target \<Rightarrow>
          let role = (case newRole of None \<Rightarrow> us_role target | Some r \<Rightarrow> r);
              status = (case newStatus of None \<Rightarrow> us_status target | Some s \<Rightarrow> s);
              removesActiveAdmin =
                us_role target = Admin \<and> us_status target = Active \<and>
                (role \<noteq> Admin \<or> status \<noteq> Active)
          in if removesActiveAdmin \<and>
                filter (\<lambda>u. us_id u \<noteq> userId \<and> active_local_admin u) (db_users d) = []
             then (Update_LAST_ACTIVE_LOCAL_ADMIN, d)
             else
               let p = (\<lambda>u. us_id u = userId);
                   f = (\<lambda>u. u\<lparr>us_role := role, us_status := status, us_updated := t\<rparr>);
                   d1 = update_users t p f d
               in (case first_row (returning p f (db_users d)) of
                     None \<Rightarrow> (Update_NOT_FOUND, d1)
                   | Some row \<Rightarrow>
                       let d2 = (if status = Disabled
                                 then revoke_sessions_where t (\<lambda>s. se_user s = userId) d1 else d1)
                       in (Update_UPDATED (mapAdminUser d row),
                           managed_user_audit t userId target role status audit d2)))"

definition resetLocalPassword ::
  "instant \<Rightarrow> string \<Rightarrow> string \<Rightarrow> actor_audit option \<Rightarrow> db \<Rightarrow> bool \<times> db" where
  "resetLocalPassword t userId hash audit d =
     (let p = (\<lambda>u. us_id u = userId \<and> us_password u \<noteq> None);
          one = (length (filter p (db_users d)) = 1);
          d1 = update_users t p (\<lambda>u. u\<lparr>us_password := Some hash, us_updated := t\<rparr>) d
      in (one,
          (case audit of
             None \<Rightarrow> d1
           | Some (actor, a) \<Rightarrow>
               if one
               then insert_audit t ''user.password_reset'' (Some actor) (Some userId) None None
                      (JObj (auth_details a @ [(''method'', JStr ''local'')])) d1
               else d1)))"

section \<open>External identities\<close>

record identity_record =
  idr_id :: string
  idr_user :: string
  idr_provider :: string
  idr_subject :: string
  idr_username :: "string option"
  idr_email :: "string option"
  idr_display :: "string option"
  idr_created :: instant
  idr_last_login :: "instant option"

definition mapIdentity :: "identity_row \<Rightarrow> identity_record" where
  "mapIdentity row =
     \<lparr>idr_id = id_id row, idr_user = id_user row, idr_provider = id_provider row,
      idr_subject = id_subject row, idr_username = id_username row, idr_email = id_email row,
      idr_display = id_display row, idr_created = id_created row,
      idr_last_login = id_last_login row\<rparr>"

definition identities_of :: "string \<Rightarrow> db \<Rightarrow> identity_row list" where
  "identities_of userId d =
     sort_key (\<lambda>i. (id_created i, id_id i)) (filter (\<lambda>i. id_user i = userId) (db_identities d))"

definition listUserIdentities :: "string \<Rightarrow> db \<Rightarrow> identity_record list option" where
  "listUserIdentities userId d =
     (if filter (\<lambda>u. us_id u = userId) (db_users d) = [] then None
      else Some (map mapIdentity (identities_of userId d)))"

definition new_identity :: "instant \<Rightarrow> string \<Rightarrow> string \<Rightarrow> string \<Rightarrow> string \<Rightarrow> identity_row" where
  "new_identity t iid userId provider subject =
     \<lparr>id_id = iid, id_user = userId, id_provider = provider, id_subject = subject,
      id_username = None, id_email = None, id_display = None, id_created = t,
      id_last_login = None\<rparr>"

definition same_identity :: "string \<Rightarrow> string \<Rightarrow> identity_row \<Rightarrow> bool" where
  "same_identity provider subject i \<longleftrightarrow> id_provider i = provider \<and> id_subject i = subject"

definition opt_length_at_most :: "nat \<Rightarrow> string option \<Rightarrow> bool" where
  "opt_length_at_most n s \<longleftrightarrow> (case s of None \<Rightarrow> True | Some x \<Rightarrow> length x \<le> n)"

definition identity_row_ok :: "identity_row \<Rightarrow> bool" where
  "identity_row_ok i \<longleftrightarrow>
     1 \<le> length (id_provider i) \<and> length (id_provider i) \<le> 128 \<and>
     1 \<le> length (id_subject i) \<and> length (id_subject i) \<le> 1024 \<and>
     opt_length_at_most 320 (id_email i) \<and> opt_length_at_most 256 (id_display i) \<and>
     opt_length_at_most 256 (id_username i)"

datatype bind_result = Bind_BOUND identity_record | Bind_USER_NOT_FOUND | Bind_ALREADY_BOUND

definition bindExternalIdentity ::
  "instant \<Rightarrow> string \<Rightarrow> string \<Rightarrow> string \<Rightarrow> string \<Rightarrow> string \<Rightarrow> db \<Rightarrow> (bind_result \<times> db) result" where
  "bindExternalIdentity t iid userId provider subject actor d =
     (let row = new_identity t iid userId provider subject in
      if filter (\<lambda>u. us_id u = userId) (db_users d) = [] then Inr (Bind_USER_NOT_FOUND, d)
      else if \<not> identity_row_ok row then Inl (Check_Violation ''user_identities'')
      else if list_ex (same_identity provider subject) (db_identities d)
      then Inr (Bind_ALREADY_BOUND, d)
      else if iid \<in> id_id ` set (db_identities d)
      then Inl (Unique_Violation ''user_identities_pkey'')
      else Inr (Bind_BOUND (mapIdentity row),
        insert_audit t ''identity.bound'' (Some actor) (Some userId) None None
          (JObj [(''identityId'', JStr iid), (''providerId'', JStr provider)])
          (d\<lparr>db_identities := db_identities d @ [row]\<rparr>)))"

datatype unbind_result =
    Unbind_UNBOUND | Unbind_USER_NOT_FOUND | Unbind_IDENTITY_NOT_FOUND | Unbind_LAST_LOGIN_METHOD

definition has_local_login :: "user_row \<Rightarrow> bool" where
  "has_local_login u \<longleftrightarrow>
     us_password u \<noteq> None \<and> (us_email u \<noteq> None \<or> us_username u \<noteq> None)"

definition unbindExternalIdentity ::
  "instant \<Rightarrow> string \<Rightarrow> string \<Rightarrow> string \<Rightarrow> db \<Rightarrow> unbind_result \<times> db" where
  "unbindExternalIdentity t identityId userId actor d =
     (case first_row (filter (\<lambda>u. us_id u = userId) (db_users d)) of
        None \<Rightarrow> (Unbind_USER_NOT_FOUND, d)
      | Some user \<Rightarrow>
          let identities = identities_of userId d in
          (case first_row (filter (\<lambda>i. id_id i = identityId) identities) of
             None \<Rightarrow> (Unbind_IDENTITY_NOT_FOUND, d)
           | Some identity \<Rightarrow>
               if \<not> has_local_login user \<and> length identities = 1
               then (Unbind_LAST_LOGIN_METHOD, d)
               else (Unbind_UNBOUND,
                 insert_audit t ''identity.unbound'' (Some actor) (Some userId) None None
                   (JObj [(''identityId'', JStr (id_id identity)),
                          (''providerId'', JStr (id_provider identity))])
                   (d\<lparr>db_identities :=
                      delete_where (\<lambda>i. id_id i = id_id identity \<and> id_user i = userId)
                        (db_identities d)\<rparr>))))"

record provisioned_user =
  pu_id :: string
  pu_email :: "string option"
  pu_username :: "string option"

record external_login =
  xl_provider :: string
  xl_subject :: string
  xl_username :: "string option"
  xl_email :: "string option"
  xl_display :: "string option"
  xl_auto :: bool
  xl_provisioned :: "provisioned_user option"
  xl_identity :: string
  xl_session :: string
  xl_token :: string
  xl_expires :: instant
  xl_time :: instant
  xl_audit :: "auth_audit option"

datatype external_login_result =
    Login_AUTHENTICATED bool session_user | Login_UNKNOWN_IDENTITY
  | Login_PROVISIONING_NOT_ALLOWED | Login_USER_DISABLED

definition record_login_failure :: "instant \<Rightarrow> auth_audit option \<Rightarrow> string \<Rightarrow> db \<Rightarrow> db" where
  "record_login_failure t audit category d =
     (case audit of
        None \<Rightarrow> d
      | Some a \<Rightarrow>
          insert_audit t ''auth.login_failed'' None None None None
            (JObj (auth_details a @ [(''category'', JStr category)])) d)"

definition set_snapshots :: "external_login \<Rightarrow> identity_row \<Rightarrow> identity_row" where
  "set_snapshots x i =
     i\<lparr>id_username := xl_username x, id_email := xl_email x, id_display := xl_display x\<rparr>"

text \<open>The account and its identity are created together, always as a plain active user.\<close>

definition provision_external_user ::
  "instant \<Rightarrow> external_login \<Rightarrow> provisioned_user \<Rightarrow> db \<Rightarrow> (user_row \<times> db) result" where
  "provision_external_user t x pu d =
     (let username =
        (case pu_username pu of
           None \<Rightarrow> None
         | Some n \<Rightarrow> if filter (\<lambda>u. us_username u = Some n) (db_users d) = [] then Some n else None);
        row = new_user (xl_time x) (pu_id pu) (pu_email pu) username None User;
        identity = set_snapshots x
                     (new_identity t (xl_identity x) (pu_id pu) (xl_provider x) (xl_subject x))
      in case insert_user row d of
           Inl e \<Rightarrow> Inl e
         | Inr d1 \<Rightarrow>
             if \<not> identity_row_ok identity then Inl (Check_Violation ''user_identities'')
             else if list_ex (same_identity (xl_provider x) (xl_subject x)) (db_identities d1)
             then Inl (Unique_Violation ''user_identities_provider_subject_unique'')
             else if xl_identity x \<in> id_id ` set (db_identities d1)
             then Inl (Unique_Violation ''user_identities_pkey'')
             else
               let d2 = d1\<lparr>db_identities := db_identities d1 @ [identity]\<rparr> in
               Inr (row,
                 (case xl_audit x of
                    None \<Rightarrow> d2
                  | Some a \<Rightarrow>
                      insert_audit t ''user.created'' (Some (us_id row)) (Some (us_id row)) None
                        None (JObj [(''source'', JStr ''external''),
                                    (''providerId'', JStr (xl_provider x)),
                                    (''role'', JStr ''user''),
                                    (''requestId'', JStr (aa_request a))]) d2)))"

definition finish_external_login ::
  "instant \<Rightarrow> external_login \<Rightarrow> bool \<Rightarrow> user_row \<Rightarrow> db \<Rightarrow> (external_login_result \<times> db) result" where
  "finish_external_login t x provisioned user d =
     (if us_status user \<noteq> Active
      then Inr (Login_USER_DISABLED, record_login_failure t (xl_audit x) ''user_disabled'' d)
      else (case insert_session (new_session (xl_session x) (us_id user) (xl_token x) (xl_expires x)) d of
          Inl e \<Rightarrow> Inl e
        | Inr d1 \<Rightarrow>
            let d2 = update_users t (\<lambda>u. us_id u = us_id user \<and> us_status u = Active)
                       (\<lambda>u. u\<lparr>us_last_login := Some (xl_time x), us_updated := xl_time x\<rparr>) d1;
                d3 = d2\<lparr>db_identities :=
                       update_where (same_identity (xl_provider x) (xl_subject x))
                         (\<lambda>i. (set_snapshots x i)\<lparr>id_last_login := Some (xl_time x)\<rparr>)
                         (db_identities d2)\<rparr>;
                d4 = (case xl_audit x of
                        None \<Rightarrow> d3
                      | Some a \<Rightarrow>
                          insert_audit t ''auth.login_succeeded'' (Some (us_id user))
                            (Some (us_id user)) None None
                            (JObj (auth_details a @ [(''provisioned'', JBool provisioned)])) d3)
            in Inr (Login_AUTHENTICATED provisioned
                 ((session_user_of user)\<lparr>su_last_login := Some (xl_time x),
                    su_updated := xl_time x\<rparr>), d4)))"

definition completeExternalLogin ::
  "instant \<Rightarrow> external_login \<Rightarrow> db \<Rightarrow> (external_login_result \<times> db) result" where
  "completeExternalLogin t x d =
     (case first_row [u. i \<leftarrow> db_identities d, u \<leftarrow> db_users d,
                        us_id u = id_user i \<and> same_identity (xl_provider x) (xl_subject x) i] of
        Some user \<Rightarrow> finish_external_login t x False user d
      | None \<Rightarrow>
          if \<not> xl_auto x
          then Inr (Login_UNKNOWN_IDENTITY,
            record_login_failure t (xl_audit x) ''identity_not_bound'' d)
          else (case xl_provisioned x of
              None \<Rightarrow> Inr (Login_PROVISIONING_NOT_ALLOWED,
                record_login_failure t (xl_audit x) ''provisioning_not_allowed'' d)
            | Some pu \<Rightarrow>
                (case provision_external_user t x pu d of
                   Inl e \<Rightarrow> Inl e
                 | Inr (user, d1) \<Rightarrow> finish_external_login t x True user d1)))"

end
