(* ===== verification/AuditTrail.thy ===== *)
theory AuditTrail
  imports Users
begin

text \<open>
  \<open>packages/database/src/audit.ts\<close>: the two explicit audit inserts and the paged query, whose
  filters only narrow what the caller may see.
\<close>

record platform_audit_event =
  pae_id :: nat
  pae_type :: string
  pae_actor :: "string option"
  pae_owner :: "string option"
  pae_workspace :: "string option"
  pae_worker :: "string option"
  pae_details :: json
  pae_created :: instant

definition mapAuditEvent :: "audit_row \<Rightarrow> platform_audit_event" where
  "mapAuditEvent row =
     \<lparr>pae_id = au_id row, pae_type = au_type row, pae_actor = au_actor row,
      pae_owner = au_owner row, pae_workspace = au_workspace row, pae_worker = au_worker row,
      pae_details = au_details row, pae_created = au_created row\<rparr>"

datatype audit_category =
    Cat_workspace | Cat_worker | Cat_auth | Cat_user | Cat_identity | Cat_egress | Cat_model

fun category_text :: "audit_category \<Rightarrow> string" where
  "category_text Cat_workspace = ''workspace''"
| "category_text Cat_worker = ''worker''"
| "category_text Cat_auth = ''auth''"
| "category_text Cat_user = ''user''"
| "category_text Cat_identity = ''identity''"
| "category_text Cat_egress = ''egress''"
| "category_text Cat_model = ''model''"

record audit_filter =
  af_category :: "audit_category option"
  af_user :: "string option"
  af_workspace :: "string option"
  af_worker :: "string option"
  af_from :: "instant option"
  af_to :: "instant option"

definition no_filter :: audit_filter where
  "no_filter = \<lparr>af_category = None, af_user = None, af_workspace = None, af_worker = None,
     af_from = None, af_to = None\<rparr>"

definition filter_matches :: "audit_filter \<Rightarrow> audit_row \<Rightarrow> bool" where
  "filter_matches f a \<longleftrightarrow>
     (case af_category f of
        None \<Rightarrow> True | Some c \<Rightarrow> starts_with (category_text c @ ''.'') (au_type a)) \<and>
     (af_user f = None \<or> au_actor a = af_user f \<or> au_owner a = af_user f) \<and>
     (af_workspace f = None \<or> au_workspace a = af_workspace f) \<and>
     (af_worker f = None \<or> au_worker a = af_worker f) \<and>
     (case af_from f of None \<Rightarrow> True | Some x \<Rightarrow> au_created a \<ge> x) \<and>
     (case af_to f of None \<Rightarrow> True | Some x \<Rightarrow> au_created a < x)"

definition visible_to :: "string \<Rightarrow> bool \<Rightarrow> audit_row \<Rightarrow> bool" where
  "visible_to userId includeAllUsers a \<longleftrightarrow>
     includeAllUsers \<or> (au_owner a = Some userId \<and> starts_with ''workspace.'' (au_type a))"

definition listAuditEvents ::
  "string \<Rightarrow> bool \<Rightarrow> nat \<Rightarrow> nat option \<Rightarrow> audit_filter \<Rightarrow> db \<Rightarrow> platform_audit_event list" where
  "listAuditEvents userId includeAllUsers limit beforeId f d =
     map mapAuditEvent (take limit (rev (sort_key au_id (filter
       (\<lambda>a. visible_to userId includeAllUsers a \<and>
            (case beforeId of None \<Rightarrow> True | Some b \<Rightarrow> au_id a < b) \<and> filter_matches f a)
       (db_audit d)))))"

definition recordWorkspaceOpened ::
  "instant \<Rightarrow> string \<Rightarrow> string \<Rightarrow> string \<Rightarrow> string \<Rightarrow> db \<Rightarrow> db" where
  "recordWorkspaceOpened t actor own workspaceId workerId =
     insert_audit t ''workspace.opened'' (Some actor) (Some own) (Some workspaceId)
       (Some workerId) (JObj [])"

datatype failure_category =
    Invalid_Request | Invalid_Credentials | Provider_Unavailable | Transaction_Invalid
  | Protocol_Validation_Failed | Identity_Not_Bound | Provisioning_Not_Allowed | User_Disabled_Failure

fun failure_text :: "failure_category \<Rightarrow> string" where
  "failure_text Invalid_Request = ''invalid_request''"
| "failure_text Invalid_Credentials = ''invalid_credentials''"
| "failure_text Provider_Unavailable = ''provider_unavailable''"
| "failure_text Transaction_Invalid = ''transaction_invalid''"
| "failure_text Protocol_Validation_Failed = ''protocol_validation_failed''"
| "failure_text Identity_Not_Bound = ''identity_not_bound''"
| "failure_text Provisioning_Not_Allowed = ''provisioning_not_allowed''"
| "failure_text User_Disabled_Failure = ''user_disabled''"

definition recordAuthenticationFailure ::
  "instant \<Rightarrow> failure_category \<Rightarrow> auth_audit \<Rightarrow> db \<Rightarrow> db" where
  "recordAuthenticationFailure t category audit =
     insert_audit t ''auth.login_failed'' None None None None
       (JObj (auth_details audit @ [(''category'', JStr (failure_text category))]))"

end
