(* ===== verification/AuthThrottle.thy ===== *)
theory AuthThrottle
  imports Users
begin

text \<open>
  \<open>packages/database/src/auth-throttle.ts\<close>, the failure counters and locks behind logins, and
  \<open>apps/control-plane/src/login-guard.ts\<close>, which counters a request consults and bumps, and
  which client address it is counted under.

  The HMAC, \<open>isIP\<close> and the subnet membership of \<open>BlockList\<close> are parameters.
\<close>

section \<open>The counter\<close>

record throttle_policy =
  tp_threshold :: nat
  tp_window :: int
  tp_lock :: int

record throttle_state =
  tst_window :: instant
  tst_failures :: nat
  tst_locked :: "instant option"

definition nextAuthThrottleState ::
  "throttle_state option \<Rightarrow> throttle_policy \<Rightarrow> instant \<Rightarrow> throttle_state" where
  "nextAuthThrottleState previous policy now =
     (let expired =
        (case previous of
           None \<Rightarrow> True
         | Some p \<Rightarrow> tst_window p + tp_window policy \<le> now \<or>
             (case tst_locked p of None \<Rightarrow> False | Some l \<Rightarrow> l \<le> now));
        windowStart = (if expired then now else tst_window (the previous));
        failures = (if expired then 1 else tst_failures (the previous) + 1);
        lockedUntil =
          (if failures \<ge> tp_threshold policy then Some (now + tp_lock policy)
           else if expired then None else tst_locked (the previous))
      in \<lparr>tst_window = windowStart, tst_failures = failures, tst_locked = lockedUntil\<rparr>)"

record throttle_key =
  tk_scope :: throttle_scope
  tk_hash :: string

record throttle_hit = throttle_key +
  tht_policy :: throttle_policy
  tht_ip :: "string option"
  tht_user :: "string option"

definition on_counter :: "throttle_scope \<Rightarrow> string \<Rightarrow> throttle_row \<Rightarrow> bool" where
  "on_counter scope hash r \<longleftrightarrow> th_scope r = scope \<and> th_key r = hash"

text \<open>The SQL upsert, with its \<open>case\<close> expressions as written.\<close>

definition window_over :: "throttle_hit \<Rightarrow> instant \<Rightarrow> throttle_row \<Rightarrow> bool" where
  "window_over hit now r \<longleftrightarrow>
     th_window r \<le> now - tp_window (tht_policy hit) \<or>
     (case th_locked r of None \<Rightarrow> False | Some l \<Rightarrow> l \<le> now)"

definition inserted_counter :: "string \<Rightarrow> throttle_hit \<Rightarrow> instant \<Rightarrow> throttle_row" where
  "inserted_counter rid hit now =
     \<lparr>th_id = rid, th_scope = tk_scope hit, th_key = tk_hash hit, th_ip = tht_ip hit,
      th_user = tht_user hit, th_window = now, th_failures = 1,
      th_locked =
        (if 1 \<ge> tp_threshold (tht_policy hit) then Some (now + tp_lock (tht_policy hit)) else None)\<rparr>"

definition bumped_counter :: "throttle_hit \<Rightarrow> instant \<Rightarrow> throttle_row \<Rightarrow> throttle_row" where
  "bumped_counter hit now r =
     r\<lparr>th_ip := tht_ip hit, th_user := tht_user hit,
       th_window := (if window_over hit now r then now else th_window r),
       th_failures := (if window_over hit now r then 1 else th_failures r + 1),
       th_locked :=
         (if (if window_over hit now r then 1 else th_failures r + 1)
               \<ge> tp_threshold (tht_policy hit)
          then Some (now + tp_lock (tht_policy hit))
          else if window_over hit now r then None else th_locked r)\<rparr>"

definition upsert_counter :: "string \<Rightarrow> throttle_hit \<Rightarrow> instant \<Rightarrow> db \<Rightarrow> throttle_row \<times> db" where
  "upsert_counter rid hit now d =
     (let p = on_counter (tk_scope hit) (tk_hash hit) in
      case first_row (returning p (bumped_counter hit now) (db_throttle d)) of
        Some row \<Rightarrow>
          (row, d\<lparr>db_throttle := update_where p (bumped_counter hit now) (db_throttle d)\<rparr>)
      | None \<Rightarrow>
          (inserted_counter rid hit now,
           d\<lparr>db_throttle := db_throttle d @ [inserted_counter rid hit now]\<rparr>))"

fun scope_text :: "throttle_scope \<Rightarrow> string" where
  "scope_text Login_Ip = ''login_ip''"
| "scope_text Ip = ''ip''"
| "scope_text Login = ''login''"
| "scope_text Sso_Start = ''sso_start''"

definition record_hit ::
  "instant \<Rightarrow> string \<Rightarrow> throttle_hit \<Rightarrow> instant \<Rightarrow> auth_audit \<Rightarrow> db \<Rightarrow> throttle_scope list \<times> db" where
  "record_hit t rid hit now audit d =
     (let (row, d1) = upsert_counter rid hit now d in
      if th_failures row = tp_threshold (tht_policy hit)
      then ([tk_scope hit],
        insert_audit t ''auth.login_locked'' None (tht_user hit) None None
          (JObj (auth_details audit @
             [(''scope'', JStr (scope_text (tk_scope hit))),
              (''lockedUntil'', JTime
                 (case th_locked row of
                    None \<Rightarrow> now + tp_lock (tht_policy hit) | Some l \<Rightarrow> l))])) d1)
      else ([], d1))"

text \<open>Each hit comes with the UUID its row would get.\<close>

fun recordAuthThrottleHits ::
  "instant \<Rightarrow> (string \<times> throttle_hit) list \<Rightarrow> instant \<Rightarrow> auth_audit \<Rightarrow> db
   \<Rightarrow> throttle_scope list \<times> db" where
  "recordAuthThrottleHits t [] now audit d = ([], d)"
| "recordAuthThrottleHits t ((rid, hit) # hits) now audit d =
     (let (locked, d1) = record_hit t rid hit now audit d;
          (more, d2) = recordAuthThrottleHits t hits now audit d1
      in (locked @ more, d2))"

section \<open>Locks\<close>

definition locked_after :: "instant \<Rightarrow> throttle_row \<Rightarrow> bool" where
  "locked_after now r \<longleftrightarrow> (case th_locked r of None \<Rightarrow> False | Some l \<Rightarrow> l > now)"

definition has_key :: "throttle_key list \<Rightarrow> throttle_row \<Rightarrow> bool" where
  "has_key keys r \<longleftrightarrow> (\<exists>k \<in> set keys. on_counter (tk_scope k) (tk_hash k) r)"

definition findAuthLock :: "throttle_key list \<Rightarrow> instant \<Rightarrow> db \<Rightarrow> instant option" where
  "findAuthLock keys now d =
     (case List.map_filter th_locked
             (filter (\<lambda>r. has_key keys r \<and> locked_after now r) (db_throttle d)) of
        [] \<Rightarrow> None
      | l # ls \<Rightarrow> Some (foldl max l ls))"

definition clearAuthThrottle :: "throttle_key list \<Rightarrow> db \<Rightarrow> db" where
  "clearAuthThrottle keys d = d\<lparr>db_throttle := delete_where (has_key keys) (db_throttle d)\<rparr>"

record auth_lock_record =
  alr_id :: string
  alr_scope :: throttle_scope
  alr_ip :: "string option"
  alr_user :: "string option"
  alr_email :: "string option"
  alr_failures :: nat
  alr_locked :: instant

definition listAuthLocks :: "instant \<Rightarrow> db \<Rightarrow> auth_lock_record list" where
  "listAuthLocks now d =
     map (\<lambda>r. \<lparr>alr_id = th_id r, alr_scope = th_scope r, alr_ip = th_ip r, alr_user = th_user r,
               alr_email =
                 (case first_row (filter (\<lambda>u. Some (us_id u) = th_user r) (db_users d)) of
                    None \<Rightarrow> None | Some u \<Rightarrow> us_email u),
               alr_failures = th_failures r, alr_locked = the (th_locked r)\<rparr>)
       (take 1000 (sort_key (\<lambda>r. (- the (th_locked r), th_id r))
         (filter (locked_after now) (db_throttle d))))"

datatype lock_target =
    Target_Id string | Target_User string | Target_Keys "throttle_key list" | Target_Ip string
  | Target_All

datatype clear_source = Source_Admin | Source_Cli | Source_Password_Reset

fun source_text :: "clear_source \<Rightarrow> string" where
  "source_text Source_Admin = ''admin''"
| "source_text Source_Cli = ''cli''"
| "source_text Source_Password_Reset = ''password_reset''"

fun lock_selected :: "lock_target \<Rightarrow> throttle_row \<Rightarrow> bool" where
  "lock_selected (Target_Id i) r = (th_id r = i)"
| "lock_selected (Target_User u) r = (th_user r = Some u)"
| "lock_selected (Target_Keys ks) r = has_key ks r"
| "lock_selected (Target_Ip a) r = (th_ip r = Some a)"
| "lock_selected Target_All r = True"

definition clearAuthLocks ::
  "instant \<Rightarrow> lock_target \<Rightarrow> instant \<Rightarrow> clear_source \<Rightarrow> string option \<Rightarrow> string option \<Rightarrow> db
   \<Rightarrow> nat \<times> db" where
  "clearAuthLocks t target now source actor requestId d =
     (let removed = filter (lock_selected target) (db_throttle d);
          locked = filter (locked_after now) removed;
          d1 = d\<lparr>db_throttle := delete_where (lock_selected target) (db_throttle d)\<rparr>
      in (length locked,
          fold (\<lambda>r. insert_audit t ''auth.lock_cleared'' actor (th_user r) None None
                 (JObj [(''scope'', JStr (scope_text (th_scope r))),
                        (''ipAddress'', json_opt_str (th_ip r)),
                        (''source'', JStr (source_text source)),
                        (''requestId'', json_opt_str requestId)])) locked d1))"

definition deleteExpiredAuthThrottle :: "instant \<Rightarrow> int \<Rightarrow> db \<Rightarrow> nat \<times> db" where
  "deleteExpiredAuthThrottle now maxWindow d =
     (let p = (\<lambda>r. th_window r \<le> now - maxWindow \<and>
                   (case th_locked r of None \<Rightarrow> True | Some l \<Rightarrow> l \<le> now))
      in (length (filter p (db_throttle d)),
          d\<lparr>db_throttle := delete_where p (db_throttle d)\<rparr>))"

section \<open>Addresses\<close>

text \<open>\<open>/^::ffff:(\d{1,3}(?:\.\d{1,3}){3})$/i\<close>\<close>

definition mapped_ipv4 :: "string \<Rightarrow> string option" where
  "mapped_ipv4 address =
     (let rest = drop 7 address; parts = split_on CHR ''.'' rest in
      if to_lower (take 7 address) = ''::ffff:'' \<and> length parts = 4 \<and>
         list_all (\<lambda>p. 1 \<le> length p \<and> length p \<le> 3 \<and> list_all is_digit p) parts
      then Some rest else None)"

definition normalizeAddress :: "string \<Rightarrow> string" where
  "normalizeAddress address =
     to_lower (case mapped_ipv4 address of None \<Rightarrow> address | Some a \<Rightarrow> a)"

datatype ip_family = Ipv4 | Ipv6

record address_range =
  ar_address :: string
  ar_prefix :: nat
  ar_family :: ip_family

definition parseAddressRange :: "(string \<Rightarrow> nat) \<Rightarrow> string \<Rightarrow> address_range option" where
  "parseAddressRange isIP value =
     (let parts = split_on CHR ''/'' (trim value);
          address = hd parts;
          version = isIP address
      in if length parts > 2 then None
         else if version = 0 then None
         else
           let family = (if version = 4 then Ipv4 else Ipv6);
               mx = (if version = 4 then 32 else 128)
           in if length parts = 1
              then Some \<lparr>ar_address = address, ar_prefix = mx, ar_family = family\<rparr>
              else
                let prefixText = parts ! 1 in
                if \<not> (1 \<le> length prefixText \<and> length prefixText \<le> 3 \<and> list_all is_digit prefixText)
                then None
                else if number_of prefixText \<le> mx
                then Some \<lparr>ar_address = address, ar_prefix = number_of prefixText,
                           ar_family = family\<rparr>
                else None)"

text \<open>\<open>AddressSet\<close>: \<open>None\<close> is the thrown error for an invalid range.\<close>

fun address_set :: "(string \<Rightarrow> nat) \<Rightarrow> string list \<Rightarrow> address_range list option" where
  "address_set isIP [] = Some []"
| "address_set isIP (entry # entries) =
     (case (parseAddressRange isIP entry, address_set isIP entries) of
        (Some r, Some rs) \<Rightarrow> Some (r # rs) | _ \<Rightarrow> None)"

definition address_set_has ::
  "(string \<Rightarrow> nat) \<Rightarrow> (address_range \<Rightarrow> string \<Rightarrow> ip_family \<Rightarrow> bool) \<Rightarrow> address_range list \<Rightarrow> string
   \<Rightarrow> bool" where
  "address_set_has isIP in_subnet ranges address =
     (let normalized = normalizeAddress address; version = isIP normalized in
      if version = 0 then False
      else list_ex (\<lambda>r. in_subnet r normalized (if version = 4 then Ipv4 else Ipv6)) ranges)"

text \<open>The loop over the hops, from the right: the argument is the reversed list.\<close>

fun resolve_hops ::
  "(string \<Rightarrow> nat) \<Rightarrow> (string \<Rightarrow> bool) \<Rightarrow> string \<Rightarrow> string list \<Rightarrow> string" where
  "resolve_hops isIP trusted client [] = client"
| "resolve_hops isIP trusted client (h # hs) =
     (let hop = normalizeAddress h in
      if isIP hop = 0 then client
      else if \<not> trusted hop then hop
      else resolve_hops isIP trusted hop hs)"

text \<open>The header may be repeated; its values are joined with commas.\<close>

definition resolveClientAddress ::
  "(string \<Rightarrow> nat) \<Rightarrow> (string \<Rightarrow> bool) \<Rightarrow> string \<Rightarrow> string list option \<Rightarrow> string" where
  "resolveClientAddress isIP trusted peerAddress forwardedFor =
     (let client = normalizeAddress peerAddress in
      case forwardedFor of
        None \<Rightarrow> client
      | Some headers \<Rightarrow>
          if \<not> trusted client then client
          else resolve_hops isIP trusted client
                 (rev (map trim (split_on CHR '','' (join_with CHR '','' headers)))))"

section \<open>The login guard\<close>

record guard_policies =
  gp_login_ip :: throttle_policy
  gp_ip :: throttle_policy
  gp_login :: throttle_policy
  gp_sso_start :: throttle_policy

definition DEFAULT_LOGIN_GUARD_POLICIES :: guard_policies where
  "DEFAULT_LOGIN_GUARD_POLICIES =
     \<lparr>gp_login_ip = \<lparr>tp_threshold = 5, tp_window = 15 * 60000, tp_lock = 15 * 60000\<rparr>,
      gp_ip = \<lparr>tp_threshold = 20, tp_window = 15 * 60000, tp_lock = 15 * 60000\<rparr>,
      gp_login = \<lparr>tp_threshold = 50, tp_window = 60 * 60000, tp_lock = 60 * 60000\<rparr>,
      gp_sso_start = \<lparr>tp_threshold = 30, tp_window = 10 * 60000, tp_lock = 10 * 60000\<rparr>\<rparr>"

text \<open>The guard: the keyed hash, the policies, and membership of the trusted networks.\<close>

record login_guard =
  lg_hash :: "string \<Rightarrow> string"
  lg_policies :: guard_policies
  lg_trusted :: "string \<Rightarrow> bool"

definition accountKey :: "string \<Rightarrow> string option \<Rightarrow> string" where
  "accountKey login userId =
     (case userId of
        None \<Rightarrow> ''login:'' @ to_lower (trim login) | Some u \<Rightarrow> ''user:'' @ u)"

definition ipKeyHash :: "login_guard \<Rightarrow> string \<Rightarrow> string" where
  "ipKeyHash g address = lg_hash g (''ip:'' @ address)"

definition accountAddressKey :: "login_guard \<Rightarrow> string \<Rightarrow> string \<Rightarrow> throttle_key" where
  "accountAddressKey g account address =
     \<lparr>tk_scope = Login_Ip, tk_hash = lg_hash g (account @ ''|'' @ address)\<rparr>"

definition accountKeys :: "login_guard \<Rightarrow> string \<Rightarrow> throttle_key list" where
  "accountKeys g account = [\<lparr>tk_scope = Login, tk_hash = lg_hash g account\<rparr>]"

definition addressKeys :: "login_guard \<Rightarrow> string \<Rightarrow> throttle_key list" where
  "addressKeys g address = [\<lparr>tk_scope = Ip, tk_hash = ipKeyHash g address\<rparr>]"

definition localLoginKeys :: "login_guard \<Rightarrow> string \<Rightarrow> string \<Rightarrow> throttle_key list" where
  "localLoginKeys g account address =
     [\<lparr>tk_scope = Login_Ip, tk_hash = lg_hash g (account @ ''|'' @ address)\<rparr>,
      \<lparr>tk_scope = Ip, tk_hash = ipKeyHash g address\<rparr>] @
     (if \<not> lg_trusted g address then [\<lparr>tk_scope = Login, tk_hash = lg_hash g account\<rparr>] else [])"

definition addressFailureHit :: "login_guard \<Rightarrow> string \<Rightarrow> throttle_hit" where
  "addressFailureHit g address =
     \<lparr>tk_scope = Ip, tk_hash = ipKeyHash g address, tht_policy = gp_ip (lg_policies g),
      tht_ip = Some address, tht_user = None\<rparr>"

definition localLoginFailureHits ::
  "login_guard \<Rightarrow> string \<Rightarrow> string \<Rightarrow> string option \<Rightarrow> throttle_hit list" where
  "localLoginFailureHits g account address userId =
     [\<lparr>tk_scope = Login_Ip, tk_hash = lg_hash g (account @ ''|'' @ address),
       tht_policy = gp_login_ip (lg_policies g), tht_ip = Some address, tht_user = userId\<rparr>,
      addressFailureHit g address,
      \<lparr>tk_scope = Login, tk_hash = lg_hash g account,
       tht_policy = gp_login (lg_policies g), tht_ip = None, tht_user = userId\<rparr>]"

definition ssoStartKeys :: "login_guard \<Rightarrow> string \<Rightarrow> throttle_key list" where
  "ssoStartKeys g address =
     [\<lparr>tk_scope = Sso_Start, tk_hash = lg_hash g (''sso:'' @ address)\<rparr>,
      \<lparr>tk_scope = Ip, tk_hash = ipKeyHash g address\<rparr>]"

definition ssoStartHit :: "login_guard \<Rightarrow> string \<Rightarrow> throttle_hit" where
  "ssoStartHit g address =
     \<lparr>tk_scope = Sso_Start, tk_hash = lg_hash g (''sso:'' @ address),
      tht_policy = gp_sso_start (lg_policies g), tht_ip = Some address, tht_user = None\<rparr>"

definition maxWindowMs :: "guard_policies \<Rightarrow> int" where
  "maxWindowMs p =
     max (tp_window (gp_login_ip p)) (max (tp_window (gp_ip p))
       (max (tp_window (gp_login p)) (tp_window (gp_sso_start p))))"

text \<open>Whole seconds, rounded up, at least one.\<close>

definition retryAfterSeconds :: "instant \<Rightarrow> instant \<Rightarrow> int" where
  "retryAfterSeconds lockedUntil now = max 1 (- ((now - lockedUntil) div 1000))"

end
