(* ===== verification/Sessions.thy ===== *)
theory Sessions
  imports Prelude
begin

text \<open>
  \<open>apps/control-plane/src/session-exchange.ts\<close>, the one-time codes that carry a platform session
  to a Workspace origin, and \<open>session-connections.ts\<close>, the open Gateway connections that a
  logout, a disabled account or a revoked Worker closes.

  \<open>hashOpaqueToken\<close> is the parameter \<open>hash\<close>; a fresh opaque token is an argument. JavaScript
  objects in a set are told apart by a number.
\<close>

section \<open>Session exchange\<close>

record exchange_record =
  xr_token :: string
  xr_user :: string
  xr_workspace :: string
  xr_expires :: instant

type_synonym exchange = "string \<rightharpoonup> exchange_record"

text \<open>The constructor: \<open>None\<close> is the thrown error.\<close>

definition new_exchange :: "int \<Rightarrow> exchange option" where
  "new_exchange ttlMs = (if ttlMs < 1000 \<or> ttlMs > 300000 then None else Some Map.empty)"

definition keep_records :: "(exchange_record \<Rightarrow> bool) \<Rightarrow> exchange \<Rightarrow> exchange" where
  "keep_records p m = (\<lambda>k. case m k of None \<Rightarrow> None | Some r \<Rightarrow> if p r then Some r else None)"

definition prune :: "instant \<Rightarrow> exchange \<Rightarrow> exchange" where
  "prune now = keep_records (\<lambda>r. \<not> xr_expires r \<le> now)"

definition issue ::
  "(string \<Rightarrow> string) \<Rightarrow> int \<Rightarrow> string \<Rightarrow> string \<Rightarrow> string \<Rightarrow> string \<Rightarrow> instant \<Rightarrow> exchange
   \<Rightarrow> string \<times> exchange" where
  "issue hash ttlMs code rawSessionToken userId workspaceId now m =
     (let m1 = prune now m;
          m2 = keep_records
                 (\<lambda>r. \<not> (xr_token r = rawSessionToken \<and> xr_workspace r = workspaceId)) m1
      in (code, m2(hash code \<mapsto>
            \<lparr>xr_token = rawSessionToken, xr_user = userId, xr_workspace = workspaceId,
             xr_expires = now + ttlMs\<rparr>)))"

definition consume ::
  "(string \<Rightarrow> string) \<Rightarrow> string \<Rightarrow> string \<Rightarrow> instant \<Rightarrow> exchange \<Rightarrow> exchange_record option \<times> exchange"
  where
  "consume hash code workspaceId now m =
     (let key = hash code; record' = m key; m1 = m(key := None) in
      case record' of
        None \<Rightarrow> (None, m1)
      | Some r \<Rightarrow>
          if xr_expires r \<le> now \<or> xr_workspace r \<noteq> workspaceId then (None, m1)
          else (Some r, m1))"

section \<open>Session connections\<close>

record tracked_connection =
  tc_object :: nat
  tc_user :: string
  tc_session :: string
  tc_workspace :: string

type_synonym registry = "tracked_connection list"

text \<open>\<open>register\<close> returns what removes the connection again.\<close>

definition register_connection :: "tracked_connection \<Rightarrow> registry \<Rightarrow> registry" where
  "register_connection c cs = cs @ [c]"

definition unregister_connection :: "nat \<Rightarrow> registry \<Rightarrow> registry" where
  "unregister_connection object' cs = filter (\<lambda>c. tc_object c \<noteq> object') cs"

text \<open>The connections that are disconnected, in order, and what stays registered.\<close>

definition close_matching ::
  "(tracked_connection \<Rightarrow> bool) \<Rightarrow> registry \<Rightarrow> nat list \<times> registry" where
  "close_matching p cs = (map tc_object (filter p cs), filter (\<lambda>c. \<not> p c) cs)"

definition closeSession :: "string \<Rightarrow> registry \<Rightarrow> nat list \<times> registry" where
  "closeSession sessionId = close_matching (\<lambda>c. tc_session c = sessionId)"

definition closeUser :: "string \<Rightarrow> registry \<Rightarrow> nat list \<times> registry" where
  "closeUser userId = close_matching (\<lambda>c. tc_user c = userId)"

definition activeCount :: "string \<Rightarrow> registry \<Rightarrow> nat" where
  "activeCount workspaceId cs = length (filter (\<lambda>c. tc_workspace c = workspaceId) cs)"

definition closeWorkspaces :: "string list \<Rightarrow> registry \<Rightarrow> nat list \<times> registry" where
  "closeWorkspaces workspaceIds cs =
     (if workspaceIds = [] then ([], cs)
      else close_matching (\<lambda>c. tc_workspace c \<in> set workspaceIds) cs)"

definition closeAll :: "registry \<Rightarrow> nat list \<times> registry" where
  "closeAll = close_matching (\<lambda>_. True)"

section \<open>Lemmas\<close>

lemma keep_records_Some: "keep_records p m k = Some r \<longleftrightarrow> m k = Some r \<and> p r"
  by (auto simp: keep_records_def split: option.splits)

lemma consume_Some:
  "fst (consume hash code w now m) = Some r \<longleftrightarrow>
   m (hash code) = Some r \<and> now < xr_expires r \<and> xr_workspace r = w"
  by (auto simp: consume_def Let_def split: option.splits)

lemma consume_removes: "snd (consume hash code w now m) (hash code) = None"
  by (auto simp: consume_def Let_def split: option.splits)

lemma consume_keeps_none:
  "m k = None \<Longrightarrow> snd (consume hash code w now m) k = None"
  by (auto simp: consume_def Let_def split: option.splits)

lemma issue_keeps_none:
  "m k = None \<Longrightarrow> hash code \<noteq> k \<Longrightarrow> snd (issue hash ttl code tok u w now m) k = None"
  by (simp add: issue_def Let_def prune_def keep_records_def)

text \<open>Operations on the exchange after a code was consumed, for any sequence of them.\<close>

datatype exchange_op =
    Op_Issue string string string string instant
  | Op_Consume string string instant

fun exchange_run :: "(string \<Rightarrow> string) \<Rightarrow> int \<Rightarrow> exchange_op list \<Rightarrow> exchange \<Rightarrow> exchange" where
  "exchange_run hash ttl [] m = m"
| "exchange_run hash ttl (Op_Issue code tok u w now # ops) m =
     exchange_run hash ttl ops (snd (issue hash ttl code tok u w now m))"
| "exchange_run hash ttl (Op_Consume code w now # ops) m =
     exchange_run hash ttl ops (snd (consume hash code w now m))"

fun issued_codes :: "exchange_op list \<Rightarrow> string set" where
  "issued_codes [] = {}"
| "issued_codes (Op_Issue code _ _ _ _ # ops) = insert code (issued_codes ops)"
| "issued_codes (Op_Consume _ _ _ # ops) = issued_codes ops"

lemma exchange_run_none:
  "m k = None \<Longrightarrow> k \<notin> hash ` issued_codes ops \<Longrightarrow> exchange_run hash ttl ops m k = None"
  by (induction hash ttl ops m rule: exchange_run.induct)
    (auto simp: issue_keeps_none consume_keeps_none)

text \<open>A one-time code carries the session it was issued for, to the Workspace it was issued
for, until it expires, and only once: after one redemption (successful or not), whatever else is
issued and redeemed, the same code gives nothing unless a new code has the same hash.\<close>

theorem exchange_code_single_use:
  assumes "now < t + ttl" "0 < ttl"
    and "hash code \<notin> hash ` issued_codes ops"
  shows "fst (consume hash code w now (snd (issue hash ttl code tok u w t m))) =
      Some \<lparr>xr_token = tok, xr_user = u, xr_workspace = w, xr_expires = t + ttl\<rparr> \<and>
    fst (consume hash code w' later
      (exchange_run hash ttl ops (snd (consume hash code w0 now0 m')))) = None \<and>
    (w' \<noteq> w \<or> t + ttl \<le> later \<longrightarrow>
      fst (consume hash code w' later (snd (issue hash ttl code tok u w t m))) = None)"
proof -
  have "exchange_run hash ttl ops (snd (consume hash code w0 now0 m')) (hash code) = None"
    using assms(3) by (intro exchange_run_none consume_removes)
  then show ?thesis
    using assms by (auto simp: consume_def issue_def Let_def)
qed

lemma exchange_code_single_use_witness:
  "fst (consume rev ''ab'' ''w'' 5 (snd (issue rev 1000 ''ab'' ''tok'' ''u'' ''w'' 0 Map.empty))) =
     Some \<lparr>xr_token = ''tok'', xr_user = ''u'', xr_workspace = ''w'', xr_expires = 1000\<rparr>"
  using exchange_code_single_use [of 5 0 1000 rev "''ab''" "[]" "''w''" "''tok''" "''u''" Map.empty]
  by simp

end
