(* ===== verification/WorkerChannel.thy ===== *)
theory WorkerChannel
  imports Prelude "HOL-Library.Char_ord" "HOL-Library.List_Lexorder"
begin

text \<open>
  \<open>apps/control-plane/src/worker-channel.ts\<close>: the control connections of the Workers and the
  commands waiting for an answer. Sockets are numbered; whether a socket is open is the
  argument \<open>ready\<close>. A promise settles through an \<open>effect\<close>; metrics are not modelled.
\<close>

datatype channel_error =
    WORKER_NOT_CONNECTED | WORKER_COMMAND_TIMEOUT | WORKER_CONNECTION_CLOSED
  | DUPLICATE_WORKER_REQUEST_ID | WORKER_RESPONSE_MISMATCH

record pending_command =
  pc_worker :: string
  pc_type :: string

text \<open>What a Worker answers: the request it names, its kind, and whether it is an error.\<close>

record worker_response =
  wrsp_request :: string
  wrsp_type :: string
  wrsp_error :: bool

datatype effect =
    Resolve string worker_response
  | Reject string channel_error
  | Send nat string
  | Close_Socket nat nat

record channel =
  ch_connections :: "(string \<times> nat) list"
  ch_pending :: "(string \<times> pending_command) list"

definition new_channel :: channel where
  "new_channel = \<lparr>ch_connections = [], ch_pending = []\<rparr>"

text \<open>\<open>Map.set\<close> and \<open>Map.delete\<close>: a key keeps its place when it is set again.\<close>

fun map_set :: "'k \<Rightarrow> 'v \<Rightarrow> ('k \<times> 'v) list \<Rightarrow> ('k \<times> 'v) list" where
  "map_set k v [] = [(k, v)]"
| "map_set k v ((k', v') # m) = (if k' = k then (k, v) # m else (k', v') # map_set k v m)"

definition map_delete :: "'k \<Rightarrow> ('k \<times> 'v) list \<Rightarrow> ('k \<times> 'v) list" where
  "map_delete k m = filter (\<lambda>(k', _). k' \<noteq> k) m"

definition isConnected :: "(nat \<Rightarrow> bool) \<Rightarrow> string \<Rightarrow> channel \<Rightarrow> bool" where
  "isConnected ready workerId c =
     (case map_of (ch_connections c) workerId of None \<Rightarrow> False | Some s \<Rightarrow> ready s)"

definition connectedWorkerIds :: "(nat \<Rightarrow> bool) \<Rightarrow> channel \<Rightarrow> string list" where
  "connectedWorkerIds ready c =
     sort (map fst (filter (\<lambda>(_, s). ready s) (ch_connections c)))"

definition disconnect :: "string \<Rightarrow> nat \<Rightarrow> channel \<Rightarrow> bool \<times> effect list" where
  "disconnect workerId code c =
     (case map_of (ch_connections c) workerId of
        None \<Rightarrow> (False, []) | Some s \<Rightarrow> (True, [Close_Socket s code]))"

definition register :: "string \<Rightarrow> nat \<Rightarrow> channel \<Rightarrow> effect list \<times> channel" where
  "register workerId sock c =
     ((case map_of (ch_connections c) workerId of
         None \<Rightarrow> [] | Some existing \<Rightarrow> if existing \<noteq> sock then [Close_Socket existing 4000] else []),
      c\<lparr>ch_connections := map_set workerId sock (ch_connections c)\<rparr>)"

definition unregister :: "string \<Rightarrow> nat \<Rightarrow> channel \<Rightarrow> effect list \<times> channel" where
  "unregister workerId sock c =
     (if map_of (ch_connections c) workerId \<noteq> Some sock then ([], c)
      else
        (map (\<lambda>(r, _). Reject r WORKER_CONNECTION_CLOSED)
           (filter (\<lambda>(_, p). pc_worker p = workerId) (ch_pending c)),
         c\<lparr>ch_connections := map_delete workerId (ch_connections c),
           ch_pending := filter (\<lambda>(_, p). pc_worker p \<noteq> workerId) (ch_pending c)\<rparr>))"

text \<open>
  \<open>dispatch\<close> of an already validated message: \<open>Inl\<close> when the call rejects at once, without a
  pending command; \<open>sent\<close> says whether \<open>socket.send\<close> went through.
\<close>

definition dispatch ::
  "(nat \<Rightarrow> bool) \<Rightarrow> bool \<Rightarrow> string \<Rightarrow> string \<Rightarrow> string \<Rightarrow> channel
   \<Rightarrow> (channel_error + effect list) \<times> channel" where
  "dispatch ready sent workerId requestId type c =
     (case map_of (ch_connections c) workerId of
        None \<Rightarrow> (Inl WORKER_NOT_CONNECTED, c)
      | Some sock \<Rightarrow>
          if \<not> ready sock then (Inl WORKER_NOT_CONNECTED, c)
          else if map_of (ch_pending c) requestId \<noteq> None
          then (Inl DUPLICATE_WORKER_REQUEST_ID, c)
          else
            let c1 = c\<lparr>ch_pending :=
                         map_set requestId \<lparr>pc_worker = workerId, pc_type = type\<rparr> (ch_pending c)\<rparr>
            in if sent then (Inr [Send sock requestId], c1)
               else (Inr [Reject requestId WORKER_CONNECTION_CLOSED],
                 c1\<lparr>ch_pending := map_delete requestId (ch_pending c1)\<rparr>))"

text \<open>The timer of a pending command fires; a cleared timer does not.\<close>

definition timeout :: "string \<Rightarrow> channel \<Rightarrow> effect list \<times> channel" where
  "timeout requestId c =
     (if map_of (ch_pending c) requestId = None then ([], c)
      else ([Reject requestId WORKER_COMMAND_TIMEOUT],
            c\<lparr>ch_pending := map_delete requestId (ch_pending c)\<rparr>))"

definition acceptResponse ::
  "string \<Rightarrow> worker_response \<Rightarrow> channel \<Rightarrow> bool \<times> effect list \<times> channel" where
  "acceptResponse workerId m c =
     (case map_of (ch_pending c) (wrsp_request m) of
        None \<Rightarrow> (False, [], c)
      | Some pending \<Rightarrow>
          if pc_worker pending \<noteq> workerId then (False, [], c)
          else
            let c1 = c\<lparr>ch_pending := map_delete (wrsp_request m) (ch_pending c)\<rparr>
            in if pc_type pending \<noteq> wrsp_type m
               then (False, [Reject (wrsp_request m) WORKER_RESPONSE_MISMATCH], c1)
               else (True, [Resolve (wrsp_request m) m], c1))"

section \<open>Every command settles once\<close>

datatype channel_op =
    Ch_Register string nat
  | Ch_Unregister string nat
  | Ch_Dispatch bool string string string
  | Ch_Timeout string
  | Ch_Response string worker_response

text \<open>One operation: whether it accepted a new command, and its effects.\<close>

fun channel_step ::
  "(nat \<Rightarrow> bool) \<Rightarrow> channel_op \<Rightarrow> channel \<Rightarrow> string list \<times> effect list \<times> channel" where
  "channel_step ready (Ch_Register w s) c = (let (es, c') = register w s c in ([], es, c'))"
| "channel_step ready (Ch_Unregister w s) c = (let (es, c') = unregister w s c in ([], es, c'))"
| "channel_step ready (Ch_Dispatch sent w r ty) c =
     (case dispatch ready sent w r ty c of
        (Inl _, c') \<Rightarrow> ([], [], c') | (Inr es, c') \<Rightarrow> ([r], es, c'))"
| "channel_step ready (Ch_Timeout r) c = (let (es, c') = timeout r c in ([], es, c'))"
| "channel_step ready (Ch_Response w m) c =
     (let (_, es, c') = acceptResponse w m c in ([], es, c'))"

text \<open>Sockets may open and close between operations: each comes with its own \<open>ready\<close>.\<close>

fun channel_run ::
  "((nat \<Rightarrow> bool) \<times> channel_op) list \<Rightarrow> channel \<Rightarrow> string list \<times> effect list \<times> channel" where
  "channel_run [] c = ([], [], c)"
| "channel_run ((ready, x) # ops) c =
     (let (a, es, c1) = channel_step ready x c; (b, fs, c2) = channel_run ops c1
      in (a @ b, es @ fs, c2))"

fun settles :: "string \<Rightarrow> effect \<Rightarrow> bool" where
  "settles r (Resolve r' _) \<longleftrightarrow> r' = r"
| "settles r (Reject r' _) \<longleftrightarrow> r' = r"
| "settles r _ \<longleftrightarrow> False"

definition settlements :: "string \<Rightarrow> effect list \<Rightarrow> nat" where
  "settlements r es = length (filter (settles r) es)"

definition waiting :: "string \<Rightarrow> channel \<Rightarrow> nat" where
  "waiting r c = (if map_of (ch_pending c) r = None then 0 else 1)"

definition distinct_pending :: "channel \<Rightarrow> bool" where
  "distinct_pending c \<longleftrightarrow> distinct (map fst (ch_pending c))"

lemma settlements_simps [simp]:
  "settlements r [] = 0" "settlements r (es @ fs) = settlements r es + settlements r fs"
  "settlements r (e # es) = (if settles r e then 1 else 0) + settlements r es"
  by (simp_all add: settlements_def)

lemma map_of_delete [simp]: "map_of (map_delete k m) r = (if r = k then None else map_of m r)"
  by (induction m) (auto simp: map_delete_def)

lemma map_of_set [simp]: "map_of (map_set k v m) r = (if r = k then Some v else map_of m r)"
  by (induction k v m rule: map_set.induct) auto

lemma fst_map_set: "set (map fst (map_set k v m)) = insert k (set (map fst m))"
  by (induction k v m rule: map_set.induct) auto

lemma distinct_map_set: "distinct (map fst m) \<Longrightarrow> distinct (map fst (map_set k v m))"
proof (induction k v m rule: map_set.induct)
  case (2 k v k' v' m)
  then show ?case using fst_map_set [of k v m] by auto
qed simp

lemma distinct_delete: "distinct (map fst m) \<Longrightarrow> distinct (map fst (map_delete k m))"
  unfolding map_delete_def by (rule distinct_map_filter')

lemma settlements_unregister:
  "distinct (map fst m) \<Longrightarrow>
   settlements r (map (\<lambda>(q, _). Reject q e) (filter (\<lambda>(_, p). P p) m)) =
   (case map_of m r of None \<Rightarrow> 0 | Some p \<Rightarrow> if P p then 1 else 0)"
proof (induction m)
  case Nil
  then show ?case by simp
next
  case (Cons a m)
  obtain q p where a: "a = (q, p)" by (cases a)
  have "map_of m q = None" using Cons.prems a by (simp add: map_of_eq_None_iff)
  with Cons a show ?case by auto
qed

lemma map_of_filter_values:
  "distinct (map fst m) \<Longrightarrow>
   map_of (filter (\<lambda>(_, p). P p) m) r =
   (case map_of m r of None \<Rightarrow> None | Some p \<Rightarrow> if P p then Some p else None)"
proof (induction m)
  case Nil
  then show ?case by simp
next
  case (Cons a m)
  obtain q p where a: "a = (q, p)" by (cases a)
  have "map_of m q = None" using Cons.prems a by (simp add: map_of_eq_None_iff)
  with Cons a show ?case by auto
qed

lemma channel_step_conserves:
  assumes "distinct_pending c" "channel_step ready x c = (a, es, c')"
  shows "distinct_pending c' \<and>
    waiting r c + count_list a r = settlements r es + waiting r c'"
proof (cases x)
  case (Ch_Register w s)
  with assms show ?thesis
    by (auto simp: register_def distinct_pending_def waiting_def split: option.splits if_splits)
next
  case (Ch_Unregister w s)
  with assms show ?thesis
    by (auto simp: unregister_def distinct_pending_def waiting_def settlements_unregister
        map_of_filter_values distinct_map_filter' split: option.splits if_splits)
next
  case (Ch_Dispatch sent w q ty)
  with assms show ?thesis
    by (auto simp: dispatch_def distinct_pending_def waiting_def Let_def distinct_map_set
        distinct_delete split: option.splits if_splits)
next
  case (Ch_Timeout q)
  with assms show ?thesis
    by (auto simp: timeout_def distinct_pending_def waiting_def distinct_delete
        split: option.splits if_splits)
next
  case (Ch_Response w m)
  with assms show ?thesis
    by (auto simp: acceptResponse_def distinct_pending_def waiting_def Let_def distinct_delete
        split: option.splits if_splits)
qed

lemma channel_run_conserves:
  "distinct_pending c \<Longrightarrow> channel_run ops c = (a, es, c') \<Longrightarrow>
   waiting r c + count_list a r = settlements r es + waiting r c'"
proof (induction ops arbitrary: c a es c')
  case Nil
  then show ?case by simp
next
  case (Cons y ops)
  obtain ready x where y: "y = (ready, x)" by (cases y)
  obtain a1 es1 c1 where s: "channel_step ready x c = (a1, es1, c1)"
    by (cases "channel_step ready x c") auto
  obtain a2 es2 c2 where q: "channel_run ops c1 = (a2, es2, c2)"
    by (cases "channel_run ops c1") auto
  have "distinct_pending c1" "waiting r c + count_list a1 r = settlements r es1 + waiting r c1"
    using channel_step_conserves [OF Cons.prems(1) s] by auto
  moreover from this have "waiting r c1 + count_list a2 r = settlements r es2 + waiting r c2"
    using Cons.IH [OF _ q] by blast
  ultimately show ?case using Cons.prems(2) y s q by auto
qed

text \<open>C18. Whatever happens on the control connections, every command that was accepted is
settled exactly once or still pending: over any sequence of registrations, disconnects,
dispatches, timeouts and answers, the number of settlements of a request id plus one if it is
pending equals the number of commands accepted under that id.\<close>

theorem commands_settle_once:
  "channel_run ops new_channel = (accepted, effects, c) \<Longrightarrow>
   settlements r effects + (if map_of (ch_pending c) r = None then 0 else 1) =
   count_list accepted r"
  using channel_run_conserves [of new_channel ops accepted effects c r]
  by (simp add: distinct_pending_def new_channel_def waiting_def)

lemma commands_settle_once_witness:
  "channel_run [(\<lambda>_. True, Ch_Register ''w'' 1), (\<lambda>_. True, Ch_Dispatch True ''w'' ''r'' ''t''),
       (\<lambda>_. True, Ch_Unregister ''w'' 1), (\<lambda>_. True, Ch_Timeout ''r'')] new_channel =
     ([''r''], [Send 1 ''r'', Reject ''r'' WORKER_CONNECTION_CLOSED], new_channel) \<and>
   settlements ''r'' [Send 1 ''r'', Reject ''r'' WORKER_CONNECTION_CLOSED] = 1"
proof -
  have run: "channel_run [(\<lambda>_. True, Ch_Register ''w'' 1),
       (\<lambda>_. True, Ch_Dispatch True ''w'' ''r'' ''t''),
       (\<lambda>_. True, Ch_Unregister ''w'' 1), (\<lambda>_. True, Ch_Timeout ''r'')] new_channel =
     ([''r''], [Send 1 ''r'', Reject ''r'' WORKER_CONNECTION_CLOSED], new_channel)"
    by (simp add: register_def unregister_def dispatch_def timeout_def new_channel_def
        map_delete_def Let_def)
  show ?thesis
    using run commands_settle_once [OF run, of "''r''"] by (simp add: new_channel_def)
qed

end
