(* ===== verification/IdleStop.thy ===== *)
theory IdleStop
  imports Recovery
begin

text \<open>
  \<open>apps/control-plane/src/idle\<close>: when a Workspace was last used and last computed, as this
  Control Plane process knows it, and the sweep that stops idle Workspaces. Everything
  unknown counts as activity. A JavaScript \<open>Map\<close> is a partial map where only lookups matter and
  an association list where the order of its entries shows.
\<close>

section \<open>Gateway access\<close>

definition ACCESS_PERSIST_INTERVAL_MS :: int where
  "ACCESS_PERSIST_INTERVAL_MS = 60000"

record access_state =
  acs_latest :: instant
  acs_persisted :: "instant option"
  acs_pending :: bool

type_synonym access_tracker = "(string \<times> access_state) list"

definition touched :: "instant \<Rightarrow> bool \<Rightarrow> access_state \<Rightarrow> access_state" where
  "touched now connectionEnded s =
     s\<lparr>acs_latest := (if now > acs_latest s then now else acs_latest s),
       acs_pending :=
         (if connectionEnded \<or>
             (case acs_persisted s of
                None \<Rightarrow> True | Some p \<Rightarrow> now - p \<ge> ACCESS_PERSIST_INTERVAL_MS)
          then True else acs_pending s)\<rparr>"

fun touch :: "instant \<Rightarrow> string \<Rightarrow> bool \<Rightarrow> access_tracker \<Rightarrow> access_tracker" where
  "touch now wid ended [] = [(wid, \<lparr>acs_latest = now, acs_persisted = None, acs_pending = True\<rparr>)]"
| "touch now wid ended ((w, s) # m) =
     (if w = wid then (w, touched now ended s) # m else (w, s) # touch now wid ended m)"

definition latest :: "access_tracker \<Rightarrow> string \<Rightarrow> instant option" where
  "latest m wid = map_option acs_latest (map_of m wid)"

text \<open>
  \<open>flush\<close> awaits the write, and accesses may be recorded meanwhile: \<open>flush_begin\<close> is what runs
  before, \<open>flush_end\<close> what runs after it, with the outcome of the write.
\<close>

definition flush_entries :: "access_tracker \<Rightarrow> (string \<times> instant) list" where
  "flush_entries m = map (\<lambda>(w, s). (w, acs_latest s)) (filter (\<lambda>(_, s). acs_pending s) m)"

definition flush_begin :: "access_tracker \<Rightarrow> (string \<times> instant) list \<times> access_tracker" where
  "flush_begin m =
     (flush_entries m,
      map (\<lambda>(w, s). (w, if map_of (flush_entries m) w \<noteq> None then s\<lparr>acs_pending := False\<rparr> else s)) m)"

definition flush_end :: "(string \<times> instant) list \<Rightarrow> bool \<Rightarrow> access_tracker \<Rightarrow> access_tracker" where
  "flush_end entries written m =
     map (\<lambda>(w, s). (w,
       case map_of entries w of
         None \<Rightarrow> s
       | Some seen \<Rightarrow> if written then s\<lparr>acs_persisted := Some seen\<rparr> else s\<lparr>acs_pending := True\<rparr>)) m"

section \<open>CPU activity\<close>

definition COMPUTE_BUCKET_MS :: int where
  "COMPUTE_BUCKET_MS = 5 * 60000"

definition COMPUTE_MAX_SAMPLE_GAP_MS :: int where
  "COMPUTE_MAX_SAMPLE_GAP_MS = 60000"

record cpu_point =
  cp_at :: instant
  cp_nanos :: int

record compute_state =
  cs_worker :: string
  cs_bucket :: cpu_point
  cs_last :: cpu_point
  cs_active :: instant

type_synonym compute_tracker = "string \<rightharpoonup> compute_state"

text \<open>The average number of cores between two points.\<close>

definition cores_between :: "cpu_point \<Rightarrow> cpu_point \<Rightarrow> rat" where
  "cores_between a b =
     of_int (cp_nanos b - cp_nanos a) / 1000000000 / (of_int (cp_at b - cp_at a) / 1000)"

text \<open>A sample: its Workspace, its instant (\<open>None\<close> when the text is not a date), its counter.\<close>

record cpu_sample =
  sm_workspace :: string
  sm_at :: "instant option"
  sm_nanos :: int

definition record_sample ::
  "rat \<Rightarrow> string \<Rightarrow> cpu_sample \<Rightarrow> compute_tracker \<Rightarrow> compute_tracker" where
  "record_sample threshold workerId s m =
     (case sm_at s of
        None \<Rightarrow> m
      | Some seen \<Rightarrow>
          let point = \<lparr>cp_at = seen, cp_nanos = sm_nanos s\<rparr>;
              fresh = \<lparr>cs_worker = workerId, cs_bucket = point, cs_last = point, cs_active = seen\<rparr>
          in (case m (sm_workspace s) of
                None \<Rightarrow> m(sm_workspace s \<mapsto> fresh)
              | Some st \<Rightarrow>
                  if cs_worker st \<noteq> workerId then m(sm_workspace s \<mapsto> fresh)
                  else if cp_at point \<le> cp_at (cs_last st) then m
                  else if cp_at point - cp_at (cs_last st) > COMPUTE_MAX_SAMPLE_GAP_MS \<or>
                          cp_nanos point < cp_nanos (cs_last st)
                  then m(sm_workspace s \<mapsto>
                         st\<lparr>cs_active := cp_at point, cs_bucket := point, cs_last := point\<rparr>)
                  else if cp_at point - cp_at (cs_bucket st) \<ge> COMPUTE_BUCKET_MS
                  then m(sm_workspace s \<mapsto>
                         st\<lparr>cs_active :=
                              (if cores_between (cs_bucket st) point \<ge> threshold
                               then cp_at point else cs_active st),
                            cs_bucket := point, cs_last := point\<rparr>)
                  else m(sm_workspace s \<mapsto> st\<lparr>cs_last := point\<rparr>)))"

definition record_samples ::
  "rat \<Rightarrow> string \<Rightarrow> cpu_sample list \<Rightarrow> compute_tracker \<Rightarrow> compute_tracker" where
  "record_samples threshold workerId samples m = fold (record_sample threshold workerId) samples m"

definition forgetWorker :: "string \<Rightarrow> compute_tracker \<Rightarrow> compute_tracker" where
  "forgetWorker workerId m =
     (\<lambda>w. case m w of
            None \<Rightarrow> None | Some st \<Rightarrow> if cs_worker st = workerId then None else Some st)"

definition lastActiveAt :: "rat \<Rightarrow> compute_tracker \<Rightarrow> string \<Rightarrow> instant \<Rightarrow> instant" where
  "lastActiveAt threshold m wid now =
     (case m wid of
        None \<Rightarrow> now
      | Some st \<Rightarrow>
          if now - cp_at (cs_last st) > COMPUTE_MAX_SAMPLE_GAP_MS then now
          else if cp_at (cs_last st) - cp_at (cs_bucket st) \<ge> 60000 \<and>
                  cores_between (cs_bucket st) (cs_last st) \<ge> threshold
          then cp_at (cs_last st)
          else cs_active st)"

section \<open>The idle view\<close>

record idle_policy =
  ip_hours :: int
  ip_threshold :: rat

record idle_view =
  idv_connected :: bool
  idv_since :: instant
  idv_stop_at :: instant

definition idleView ::
  "workspace_record \<Rightarrow> idle_policy \<Rightarrow> access_tracker \<Rightarrow> compute_tracker \<Rightarrow> instant \<Rightarrow> nat
   \<Rightarrow> instant \<Rightarrow> idle_view option" where
  "idleView w policy access compute startedAt activeConnections now =
     (if wr_state w \<noteq> RUNNING then None
      else
        let conn = activeConnections > 0;
            candidates =
              List.map_filter (\<lambda>v. v)
                [Some (wr_activity w), Some startedAt, wr_access w, latest access (wr_id w),
                 Some (lastActiveAt (ip_threshold policy) compute (wr_id w) now)];
            since = (if conn then now else foldl max (hd candidates) (tl candidates))
        in Some \<lparr>idv_connected = conn, idv_since = since,
                 idv_stop_at = since + ip_hours policy * 3600000\<rparr>)"

section \<open>The sweep\<close>

definition CANDIDATES_PER_SWEEP :: nat where
  "CANDIDATES_PER_SWEEP = 50"

definition STOPS_PER_SWEEP :: nat where
  "STOPS_PER_SWEEP = 10"

text \<open>What the process knows: connected Workers, open connections, the two trackers.\<close>

record idle_knowledge =
  ik_connected :: "string \<Rightarrow> bool"
  ik_connections :: "string \<Rightarrow> nat"
  ik_access :: access_tracker
  ik_compute :: compute_tracker

definition idleSince ::
  "idle_policy \<Rightarrow> idle_knowledge \<Rightarrow> idle_stop_candidate \<Rightarrow> instant \<Rightarrow> instant \<Rightarrow> bool" where
  "idleSince policy k c cutoff now \<longleftrightarrow>
     ik_connected k (isc_worker c) \<and>
     \<not> ik_connections k (isc_workspace c) > 0 \<and>
     (case latest (ik_access k) (isc_workspace c) of
        None \<Rightarrow> True | Some accessed \<Rightarrow> \<not> accessed > cutoff) \<and>
     lastActiveAt (ip_threshold policy) (ik_compute k) (isc_workspace c) now \<le> cutoff"

text \<open>
  The loop: \<open>stop\<close> sends the stop command and settles the Workspace; it yields whether the stop
  completed and the new database. The result counts stopped and skipped Workspaces and lists
  those whose stop was begun.
\<close>

fun sweep_loop ::
  "instant \<Rightarrow> idle_policy \<Rightarrow> idle_knowledge \<Rightarrow> (idle_stop_candidate \<Rightarrow> db \<Rightarrow> bool \<times> db)
   \<Rightarrow> instant \<Rightarrow> instant \<Rightarrow> idle_stop_candidate list \<Rightarrow> nat \<Rightarrow> nat \<Rightarrow> string list \<Rightarrow> db
   \<Rightarrow> nat \<times> nat \<times> string list \<times> db" where
  "sweep_loop t policy k stop cutoff now [] stopped skipped begun d = (stopped, skipped, begun, d)"
| "sweep_loop t policy k stop cutoff now (c # cs) stopped skipped begun d =
     (if stopped \<ge> STOPS_PER_SWEEP then (stopped, skipped, begun, d)
      else if \<not> idleSince policy k c cutoff now
      then sweep_loop t policy k stop cutoff now cs stopped skipped begun d
      else
        (case beginIdleStop t (isc_workspace c) (isc_worker c) cutoff
                (of_int (ip_hours policy)) (ip_threshold policy) d of
           (False, d1) \<Rightarrow>
             sweep_loop t policy k stop cutoff now cs stopped (skipped + 1) begun d1
         | (True, d1) \<Rightarrow>
             (case stop c d1 of
                (ok, d2) \<Rightarrow>
                  sweep_loop t policy k stop cutoff now cs (if ok then stopped + 1 else stopped)
                    skipped (begun @ [isc_workspace c]) d2)))"

definition sweep ::
  "instant \<Rightarrow> idle_policy \<Rightarrow> idle_knowledge \<Rightarrow> (idle_stop_candidate \<Rightarrow> db \<Rightarrow> bool \<times> db)
   \<Rightarrow> instant \<Rightarrow> instant \<Rightarrow> db \<Rightarrow> nat \<times> nat \<times> string list \<times> db" where
  "sweep t policy k stop startedAt now d =
     (let windowMs = ip_hours policy * 3600000 in
      if now - startedAt < windowMs then (0, 0, [], d)
      else
        let cutoff = now - windowMs in
        sweep_loop t policy k stop cutoff now
          (listIdleStopCandidates cutoff CANDIDATES_PER_SWEEP d) 0 0 [] d)"

end
