(* ===== verification/Routes.thy ===== *)
theory Routes
  imports Scheduling EgressPolicy Recovery AuditTrail WorkerChannel Sessions
begin

text \<open>
  What the Control Plane does around the repository: \<open>runtime-commands.ts\<close> (the answers of a
  Worker, the egress policy it must enforce, reconciliation after it reconnects),
  \<open>routes/workspaces.ts\<close> (start, stop, open, delete) and \<open>routes/workspace-runtime.ts\<close> with the
  rules of \<open>presenters.ts\<close> for Runtime changes.

  The answers of the Worker and the state of its connection at each check are arguments. The
  functions run a request by itself; the interleaving of requests is the business of the guarded
  repository operations (theory \<open>Lifecycle\<close>). Authentication and parameter parsing come before
  and are not modelled. The key manager's effect on the database is the argument \<open>keys\<close>.
\<close>

section \<open>Runtime commands\<close>

record observation =
  obs_workspace :: string
  obs_state :: ws_state
  obs_image :: string

text \<open>What \<open>workerChannel.dispatch\<close> yields for a Workspace command.\<close>

datatype command_reply =
    Reply_Error string bool
  | Reply_Ok "observation option"
  | Reply_Failed channel_error

record dispatch_failure =
  df_offline :: bool
  df_status :: nat
  df_code :: string

type_synonym dispatch_result = "dispatch_failure + observation"

definition invalid_response :: dispatch_failure where
  "invalid_response =
     \<lparr>df_offline = False, df_status = 502, df_code = ''INVALID_WORKER_RESPONSE''\<rparr>"

definition dispatchRuntimeCommand :: "string \<Rightarrow> command_reply \<Rightarrow> dispatch_result" where
  "dispatchRuntimeCommand workspaceId reply =
     (case reply of
        Reply_Error code retryable \<Rightarrow>
          Inl \<lparr>df_offline = False, df_status = (if retryable then 503 else 409), df_code = code\<rparr>
      | Reply_Ok None \<Rightarrow> Inl invalid_response
      | Reply_Ok (Some w) \<Rightarrow>
          if obs_workspace w \<noteq> workspaceId then Inl invalid_response else Inr w
      | Reply_Failed e \<Rightarrow>
          let offline = e \<in> {WORKER_NOT_CONNECTED, WORKER_CONNECTION_CLOSED} in
          Inl \<lparr>df_offline = offline, df_status = 503,
               df_code = (if offline then ''WORKER_UNAVAILABLE'' else ''WORKER_COMMAND_FAILED'')\<rparr>)"

definition validateRuntimeResult ::
  "observation \<Rightarrow> string \<Rightarrow> ws_state list \<Rightarrow> dispatch_failure option" where
  "validateRuntimeResult w img states =
     (if obs_image w = img \<and> obs_state w \<in> set states then None else Some invalid_response)"

definition markRuntimeFailure ::
  "instant \<Rightarrow> string \<Rightarrow> string \<Rightarrow> dispatch_failure \<Rightarrow> db \<Rightarrow> db" where
  "markRuntimeFailure t workspaceId workerId failure =
     markWorkspaceRuntimeFailure t workspaceId workerId (df_offline failure)"

text \<open>
  \<open>applyWorkerEgress\<close>: \<open>None\<close> when the Worker did not confirm (an error answer or a failed
  dispatch); the policy sent is the stored one.
\<close>

definition egress_policy_to_send :: "string list \<Rightarrow> db \<Rightarrow> egress_policy" where
  "egress_policy_to_send protectedCidrs d =
     (let (revision, rules) = getEgressPolicy d in egressPolicyForWorkers revision rules protectedCidrs)"

definition applyWorkerEgress ::
  "instant \<Rightarrow> string \<Rightarrow> worker_egress_status option \<Rightarrow> instant \<Rightarrow> db \<Rightarrow> bool \<times> db" where
  "applyWorkerEgress t workerId reply receivedAt d =
     (case reply of
        None \<Rightarrow> (False, d)
      | Some egress \<Rightarrow>
          (egs_enforced egress \<and> egs_revision egress = Some (fst (getEgressPolicy d)),
           recordWorkerEgress t workerId egress receivedAt d))"

section \<open>Reconciliation\<close>

datatype reconcile_result =
    Observed observation | Missing string | Invalid string bool

fun result_workspace :: "reconcile_result \<Rightarrow> string" where
  "result_workspace (Observed w) = obs_workspace w"
| "result_workspace (Missing i) = i"
| "result_workspace (Invalid i _) = i"

fun recovered_as :: "workspace_recovery_record \<Rightarrow> reconcile_result \<Rightarrow> recovered_state" where
  "recovered_as w (Observed ob) =
     (if obs_image ob = wr_image w
      then
        (if wrr_desired w = Want_RUNNING \<and> obs_state ob = RUNNING then R_RUNNING
         else if wrr_desired w = Want_STOPPED \<and> obs_state ob = STOPPED then R_STOPPED
         else if wrr_desired w = Want_UNKNOWN \<and> obs_state ob = RUNNING then R_RUNNING
         else if wrr_desired w = Want_UNKNOWN \<and> obs_state ob = STOPPED then R_STOPPED
         else R_ERROR)
      else R_ERROR)"
| "recovered_as w _ = R_ERROR"

definition reconcile_one ::
  "instant \<Rightarrow> string \<Rightarrow> workspace_recovery_record \<Rightarrow> reconcile_result \<Rightarrow> db \<Rightarrow> db" where
  "reconcile_one t workerId w r d =
     (if (\<exists>i. r = Missing i) \<and> wrr_desired w = Want_DELETED
      then snd (deleteRecoveredWorkspace t (wr_id w) (wr_user w) workerId (wr_image w) d)
      else if (\<exists>i. r = Invalid i True) then d
      else snd (reconcileWorkspaceRecovery t (wr_id w) workerId (wr_image w) (wrr_desired w)
                  (recovered_as w r) d))"

text \<open>The loop stops when the Worker is gone: \<open>conn\<close> lists what each check sees.\<close>

fun reconcile_loop ::
  "instant \<Rightarrow> string \<Rightarrow> (string \<times> reconcile_result) list \<Rightarrow> workspace_recovery_record list
   \<Rightarrow> bool list \<Rightarrow> db \<Rightarrow> db" where
  "reconcile_loop t workerId results [] conn d = d"
| "reconcile_loop t workerId results (w # ws) [] d = d"
| "reconcile_loop t workerId results (w # ws) (c # conn) d =
     (if \<not> c then d
      else (case map_of results (wr_id w) of
          None \<Rightarrow> d
        | Some r \<Rightarrow> reconcile_loop t workerId results ws conn (reconcile_one t workerId w r d)))"

text \<open>
  \<open>report\<close> is \<open>None\<close> when the dispatch failed or was not answered with a reconciliation; its ids
  are unique by the schema of the message.
\<close>

definition reconcileWorkerWorkspaces ::
  "instant \<Rightarrow> string \<Rightarrow> bool \<Rightarrow> reconcile_result list option \<Rightarrow> (db \<Rightarrow> db) \<Rightarrow> bool list \<Rightarrow> db \<Rightarrow> db"
  where
  "reconcileWorkerWorkspaces t workerId conn report keys checks d =
     (let (workspaces, d1) = beginWorkerReconciliation t workerId d in
      if \<not> conn then d1
      else (case report of
          None \<Rightarrow> d1
        | Some rs \<Rightarrow>
            let results = map (\<lambda>r. (result_workspace r, r)) rs in
            if length results \<noteq> length workspaces \<or>
               list_ex (\<lambda>w. map_of results (wr_id w) = None) workspaces
            then d1
            else reconcile_loop t workerId results workspaces checks (keys d1)))"

section \<open>Workspace routes\<close>

datatype route_response =
    Ok_Workspace workspace_record | No_Content | Route_Error nat string
  | Ok_Exchange string | Route_Exception string

definition not_found :: route_response where
  "not_found = Route_Error 404 ''WORKSPACE_NOT_FOUND''"

definition workspace_changed :: route_response where
  "workspace_changed = Route_Error 409 ''WORKSPACE_CHANGED''"

definition worker_unavailable :: route_response where
  "worker_unavailable = Route_Error 503 ''WORKER_UNAVAILABLE''"

definition dispatch_error :: "dispatch_failure \<Rightarrow> route_response" where
  "dispatch_error f = Route_Error (df_status f) (df_code f)"

definition runtimeChangeIncomplete :: "workspace_record \<Rightarrow> bool" where
  "runtimeChangeIncomplete w \<longleftrightarrow>
     wr_state w = ERROR \<and> wr_previous_image w \<noteq> None \<and> wr_changed_at w = None"

text \<open>After a command: the reloaded Workspace is the answer.\<close>

definition reload :: "string \<Rightarrow> string \<Rightarrow> db \<Rightarrow> route_response \<times> db" where
  "reload workspaceId userId d =
     (case findOwnedWorkspace workspaceId userId d of
        None \<Rightarrow> (not_found, d) | Some w \<Rightarrow> (Ok_Workspace w, d))"

definition fail_with ::
  "instant \<Rightarrow> string \<Rightarrow> string \<Rightarrow> dispatch_failure \<Rightarrow> db \<Rightarrow> route_response \<times> db" where
  "fail_with t workspaceId workerId failure d =
     (dispatch_error failure, markRuntimeFailure t workspaceId workerId failure d)"

text \<open>
  What the environment contributes to one start: the connection of the assigned Worker before
  scheduling, the connected Workers, the connection at the two checks after it, the Worker's
  egress report, and its answers to \<open>ensure\<close> and \<open>start\<close>.
\<close>

record start_environment =
  env_connected_before :: "string \<Rightarrow> bool"
  env_connected_ids :: "string list"
  env_connected_egress :: bool
  env_connected_after :: bool
  env_egress :: "worker_egress_status option"
  env_ensure :: command_reply
  env_start :: command_reply
  env_cutoff :: instant
  env_received :: instant

definition egress_unenforced :: dispatch_failure where
  "egress_unenforced = \<lparr>df_offline = False, df_status = 503, df_code = ''EGRESS_UNENFORCED''\<rparr>"

definition unavailable_failure :: dispatch_failure where
  "unavailable_failure = \<lparr>df_offline = True, df_status = 503, df_code = ''WORKER_UNAVAILABLE''\<rparr>"

text \<open>From the answer to \<open>workspace.start\<close> on.\<close>

definition finish_start ::
  "instant \<Rightarrow> string \<Rightarrow> string \<Rightarrow> string \<Rightarrow> string \<Rightarrow> command_reply \<Rightarrow> db \<Rightarrow> route_response \<times> db" where
  "finish_start t userId workspaceId workerId img reply d =
     (case dispatchRuntimeCommand workspaceId reply of
        Inl failure \<Rightarrow> fail_with t workspaceId workerId failure d
      | Inr started \<Rightarrow>
          (case validateRuntimeResult started img [RUNNING] of
             Some failure \<Rightarrow> fail_with t workspaceId workerId failure d
           | None \<Rightarrow>
               let (finished, d1) = finishWorkspaceStart t workspaceId workerId d in
               if \<not> finished then (workspace_changed, d1)
               else reload workspaceId userId d1))"

text \<open>From the reservation of the Worker on.\<close>

definition run_start ::
  "instant \<Rightarrow> string \<Rightarrow> string \<Rightarrow> string \<Rightarrow> string \<Rightarrow> start_environment \<Rightarrow> (db \<Rightarrow> db) \<Rightarrow> db
   \<Rightarrow> route_response \<times> db" where
  "run_start t userId workspaceId workerId img env keys d =
     (let (enforced, d1) =
        (if env_connected_egress env
         then applyWorkerEgress t workerId (env_egress env) (env_received env) d
         else (True, d))
      in if \<not> enforced then fail_with t workspaceId workerId egress_unenforced d1
         else if \<not> env_connected_after env
         then fail_with t workspaceId workerId unavailable_failure d1
         else (case dispatchRuntimeCommand workspaceId (env_ensure env) of
             Inl failure \<Rightarrow> fail_with t workspaceId workerId failure d1
           | Inr ensured \<Rightarrow>
               (case validateRuntimeResult ensured img [RUNNING, STOPPED] of
                  Some failure \<Rightarrow> fail_with t workspaceId workerId failure d1
                | None \<Rightarrow>
                    finish_start t userId workspaceId workerId img (env_start env) (keys d1))))"

definition start_workspace ::
  "instant \<Rightarrow> string \<Rightarrow> string \<Rightarrow> start_environment \<Rightarrow> (db \<Rightarrow> db) \<Rightarrow> db \<Rightarrow> route_response \<times> db" where
  "start_workspace t userId workspaceId env keys d =
     (case findOwnedWorkspace workspaceId userId d of
        None \<Rightarrow> (not_found, d)
      | Some w \<Rightarrow>
          if runtimeChangeIncomplete w then (Route_Error 409 ''RUNTIME_CHANGE_INCOMPLETE'', d)
          else if wr_state w = RUNNING then (Ok_Workspace w, d)
          else if (case wr_worker w of None \<Rightarrow> False | Some k \<Rightarrow> \<not> env_connected_before env k)
          then (worker_unavailable, d)
          else (case scheduleWorkspaceStart selectWorker t (wr_id w) userId (env_cutoff env)
                       (env_connected_ids env) d of
              Inl e \<Rightarrow> (Route_Exception e, d)
            | Inr (Schedule_NO_ELIGIBLE_WORKER, d1) \<Rightarrow> (Route_Error 503 ''NO_ELIGIBLE_WORKER'', d1)
            | Inr (Schedule_WORKSPACE_CHANGED, d1) \<Rightarrow> (workspace_changed, d1)
            | Inr (Schedule_STARTING starting _, d1) \<Rightarrow>
                (case wr_worker starting of
                   None \<Rightarrow> (Route_Exception ''Scheduler returned a Workspace without a Worker'', d1)
                 | Some workerId \<Rightarrow>
                     run_start t userId (wr_id w) workerId (wr_image w) env keys d1)))"

definition stop_workspace ::
  "instant \<Rightarrow> string \<Rightarrow> string \<Rightarrow> (string \<Rightarrow> bool) \<Rightarrow> command_reply \<Rightarrow> db \<Rightarrow> route_response \<times> db" where
  "stop_workspace t userId workspaceId conn reply d =
     (case findOwnedWorkspace workspaceId userId d of
        None \<Rightarrow> (not_found, d)
      | Some w \<Rightarrow>
          if wr_state w = STOPPED then (Ok_Workspace w, d)
          else (case wr_worker w of
              None \<Rightarrow> (worker_unavailable, d)
            | Some workerId \<Rightarrow>
                if \<not> conn workerId then (worker_unavailable, d)
                else
                  let (begun, d1) = beginWorkspaceStop t (wr_id w) userId workerId d in
                  if \<not> begun then (workspace_changed, d1)
                  else (case dispatchRuntimeCommand (wr_id w) reply of
                      Inl failure \<Rightarrow> fail_with t (wr_id w) workerId failure d1
                    | Inr stopped \<Rightarrow>
                        (case validateRuntimeResult stopped (wr_image w) [STOPPED] of
                           Some failure \<Rightarrow> fail_with t (wr_id w) workerId failure d1
                         | None \<Rightarrow>
                             let (finished, d2) = finishWorkspaceStop t (wr_id w) workerId d1 in
                             if \<not> finished then (workspace_changed, d2)
                             else reload (wr_id w) userId d2))))"

definition open_workspace ::
  "(string \<Rightarrow> string) \<Rightarrow> int \<Rightarrow> instant \<Rightarrow> string \<Rightarrow> string \<Rightarrow> string \<Rightarrow> string \<Rightarrow> exchange \<Rightarrow> db
   \<Rightarrow> route_response \<times> exchange \<times> db" where
  "open_workspace hash ttl now userId rawToken code workspaceId m d =
     (case findOwnedWorkspace workspaceId userId d of
        None \<Rightarrow> (not_found, m, d)
      | Some w \<Rightarrow>
          (case wr_worker w of
             None \<Rightarrow> (Route_Error 409 ''WORKSPACE_NOT_RUNNING'', m, d)
           | Some workerId \<Rightarrow>
               if wr_state w \<noteq> RUNNING then (Route_Error 409 ''WORKSPACE_NOT_RUNNING'', m, d)
               else
                 let d1 = recordWorkspaceOpened now userId (wr_user w) (wr_id w) workerId d;
                     (issued, m1) = issue hash ttl code rawToken userId (wr_id w) now m
                 in (Ok_Exchange issued, m1, d1)))"

definition delete_workspace ::
  "instant \<Rightarrow> string \<Rightarrow> string \<Rightarrow> (string \<Rightarrow> bool) \<Rightarrow> command_reply \<Rightarrow> db \<Rightarrow> route_response \<times> db" where
  "delete_workspace t userId workspaceId conn reply d =
     (case findOwnedWorkspace workspaceId userId d of
        None \<Rightarrow> (not_found, d)
      | Some w \<Rightarrow>
          (case wr_worker w of
             Some workerId \<Rightarrow>
               if \<not> conn workerId then (worker_unavailable, d)
               else
                 let (deleting, d1) = beginWorkspaceDelete t (wr_id w) userId workerId d in
                 if \<not> deleting then (workspace_changed, d1)
                 else (case dispatchRuntimeCommand (wr_id w) reply of
                     Inl failure \<Rightarrow> fail_with t (wr_id w) workerId failure d1
                   | Inr deleted \<Rightarrow>
                       (case validateRuntimeResult deleted (wr_image w) [CREATED] of
                          Some failure \<Rightarrow> fail_with t (wr_id w) workerId failure d1
                        | None \<Rightarrow>
                            let (confirmed, d2) =
                                  deleteConfirmedWorkspace t (wr_id w) userId workerId d1
                            in if \<not> confirmed then (workspace_changed, d2) else (No_Content, d2)))
           | None \<Rightarrow>
               if wr_state w \<noteq> CREATED
               then (Route_Error 409 ''WORKSPACE_DELETE_REQUIRES_WORKER'', d)
               else
                 let (deleted, d1) = deleteOwnedWorkspace t workspaceId userId d in
                 if \<not> deleted then (workspace_changed, d1) else (No_Content, d1)))"

section \<open>Runtime changes\<close>

record public_runtime =
  pbr_image :: string
  pbr_version :: "string option"
  pbr_pi_web :: "string option"
  pbr_pi :: "string option"
  pbr_previous :: "string option"
  pbr_upgrade :: bool
  pbr_rollback :: bool
  pbr_incomplete :: bool

definition offers :: "runtime_image list \<Rightarrow> string option \<Rightarrow> bool" where
  "offers offered img \<longleftrightarrow>
     (case img of None \<Rightarrow> False | Some i \<Rightarrow> list_ex (\<lambda>e. rti_image e = i) offered)"

definition workspaceRuntime ::
  "workspace_record \<Rightarrow> runtime_image list \<Rightarrow> string \<Rightarrow> public_runtime" where
  "workspaceRuntime w offered defaultImage =
     (let current = first_row (filter (\<lambda>i. rti_image i = wr_image w) offered);
          incomplete = runtimeChangeIncomplete w;
          changeable = (wr_state w = STOPPED \<or> incomplete)
      in \<lparr>pbr_image = wr_image w, pbr_version = map_option rti_version current,
          pbr_pi_web = Option.bind current rti_pi_web, pbr_pi = Option.bind current rti_pi,
          pbr_previous = wr_previous_image w,
          pbr_upgrade =
            (changeable \<and> offers offered (Some defaultImage) \<and>
             (wr_image w \<noteq> defaultImage \<or> incomplete)),
          pbr_rollback =
            (changeable \<and> wr_previous_image w \<noteq> Some (wr_image w) \<and>
             offers offered (wr_previous_image w)),
          pbr_incomplete = incomplete\<rparr>)"

definition UNCHANGED_REFUSALS :: "string list" where
  "UNCHANGED_REFUSALS =
     [''RUNTIME_IMAGE_UNAVAILABLE'', ''WORKSPACE_RUNNING'', ''STORAGE_MIGRATION_REQUIRED'',
      ''WORKSPACE_METADATA_MISMATCH'', ''WORKSPACE_NOT_MANAGED'', ''UNMANAGED_CONTAINER_CONFLICT'']"

datatype change_outcome = Change_Ok | Change_Refused nat string

definition offeredImages :: "string option \<Rightarrow> db \<Rightarrow> runtime_image list" where
  "offeredImages workerId d =
     (case workerId of
        None \<Rightarrow> []
      | Some k \<Rightarrow>
          (case map_of (rev (listWorkerRuntimeImages d)) k of None \<Rightarrow> [] | Some is \<Rightarrow> is))"

definition restore_of :: "workspace_record \<Rightarrow> runtime_change_restore" where
  "restore_of w =
     \<lparr>rcr_image = wr_image w, rcr_previous = wr_previous_image w,
      rcr_changed_at = wr_changed_at w,
      rcr_state = (if wr_state w = ERROR then Restore_ERROR else Restore_STOPPED)\<rparr>"

definition change_runtime ::
  "instant \<Rightarrow> workspace_record \<Rightarrow> string \<Rightarrow> change_direction \<Rightarrow> string \<Rightarrow> (string \<Rightarrow> bool)
   \<Rightarrow> command_reply \<Rightarrow> db \<Rightarrow> change_outcome \<times> db" where
  "change_runtime t w target direction actor conn reply d =
     (let incomplete = runtimeChangeIncomplete w in
      case wr_worker w of
        None \<Rightarrow> (Change_Refused 409 ''WORKSPACE_NOT_STOPPED'', d)
      | Some workerId \<Rightarrow>
          if \<not> (wr_state w = STOPPED \<or> incomplete)
          then (Change_Refused 409 ''WORKSPACE_NOT_STOPPED'', d)
          else if target = wr_image w \<and> \<not> incomplete
          then (Change_Refused 409 ''RUNTIME_ALREADY_CURRENT'', d)
          else if \<not> offers (offeredImages (Some workerId) d) (Some target)
          then (Change_Refused 409 ''RUNTIME_IMAGE_UNAVAILABLE'', d)
          else if \<not> conn workerId then (Change_Refused 503 ''WORKER_UNAVAILABLE'', d)
          else
            (case (if target = wr_image w then wr_previous_image w else Some (wr_image w)) of
               None \<Rightarrow> (Change_Refused 409 ''RUNTIME_ALREADY_CURRENT'', d)
             | Some fromImage \<Rightarrow>
                 if fromImage = target then (Change_Refused 409 ''RUNTIME_ALREADY_CURRENT'', d)
                 else
                   let recorded =
                         (if incomplete \<and> target = wr_image w then Retry else direction);
                       (begun, d1) =
                         beginWorkspaceRuntimeChange t (wr_id w) workerId fromImage target
                           recorded actor d
                   in if \<not> begun then (Change_Refused 409 ''WORKSPACE_CHANGED'', d1)
                      else
                        let failure =
                          (case dispatchRuntimeCommand (wr_id w) reply of
                             Inl f \<Rightarrow> Some f
                           | Inr r \<Rightarrow> validateRuntimeResult r target [STOPPED])
                        in (case failure of
                              None \<Rightarrow>
                                (Change_Ok,
                                 snd (finishWorkspaceRuntimeChange t (wr_id w) workerId target
                                        actor d1))
                            | Some f \<Rightarrow>
                                (Change_Refused (df_status f) (df_code f),
                                 (if \<not> df_offline f \<and> df_code f \<in> set UNCHANGED_REFUSALS
                                  then snd (revertWorkspaceRuntimeChange t (wr_id w) workerId
                                              (restore_of w) (df_code f) actor d1)
                                  else markRuntimeFailure t (wr_id w) workerId f d1)))))"

text \<open>The owner's routes: the platform picks the target.\<close>

datatype user_change = User_Upgrade | User_Rollback | User_Retry

definition user_runtime_route ::
  "instant \<Rightarrow> string \<Rightarrow> string \<Rightarrow> user_change \<Rightarrow> string \<Rightarrow> (string \<Rightarrow> bool) \<Rightarrow> command_reply \<Rightarrow> db
   \<Rightarrow> route_response \<times> db" where
  "user_runtime_route t userId workspaceId direction defaultImage conn reply d =
     (case findOwnedWorkspace workspaceId userId d of
        None \<Rightarrow> (not_found, d)
      | Some w \<Rightarrow>
          if direction = User_Retry \<and> \<not> runtimeChangeIncomplete w
          then (Route_Error 409 ''RUNTIME_NO_INCOMPLETE_CHANGE'', d)
          else
            (case (case direction of
                     User_Upgrade \<Rightarrow> Some defaultImage
                   | User_Retry \<Rightarrow> Some (wr_image w)
                   | User_Rollback \<Rightarrow> wr_previous_image w) of
               None \<Rightarrow> (Route_Error 409 ''RUNTIME_NO_PREVIOUS'', d)
             | Some target \<Rightarrow>
                 (case change_runtime t w target
                         (case direction of User_Rollback \<Rightarrow> Rollback | _ \<Rightarrow> Upgrade)
                         userId conn reply d of
                    (Change_Refused status code, d1) \<Rightarrow> (Route_Error status code, d1)
                  | (Change_Ok, d1) \<Rightarrow> reload (wr_id w) userId d1)))"

definition admin_runtime_route ::
  "instant \<Rightarrow> string \<Rightarrow> string \<Rightarrow> string \<Rightarrow> (string \<Rightarrow> bool) \<Rightarrow> command_reply \<Rightarrow> db
   \<Rightarrow> route_response \<times> db" where
  "admin_runtime_route t adminId workspaceId img conn reply d =
     (case findWorkspaceById workspaceId d of
        None \<Rightarrow> (not_found, d)
      | Some w \<Rightarrow>
          (case change_runtime t w img Admin_Change adminId conn reply d of
             (Change_Refused status code, d1) \<Rightarrow> (Route_Error status code, d1)
           | (Change_Ok, d1) \<Rightarrow>
               (case findWorkspaceById (wr_id w) d1 of
                  None \<Rightarrow> (not_found, d1) | Some c \<Rightarrow> (Ok_Workspace c, d1))))"

end
