(* ===== verification/Frames.thy ===== *)
theory Frames
  imports Recovery Scheduling
begin

text \<open>
  What the triggers may do beyond the statement that fires them. \<open>cascade d d'\<close> says that \<open>d'\<close>
  differs from \<open>d\<close> by consequences only: Workspaces of a lost Worker went to \<open>WORKER_OFFLINE\<close> (or
  from \<open>RUNNING\<close> to \<open>ERROR\<close> where it no longer protects them), live keys started revoking, audit
  events were appended. \<open>worker_change\<close> adds pointwise changes of the Workers table that keep
  \<open>worker_ok\<close>. Both are reflexive and transitive, so every operation composed of such statements
  is one of them.
\<close>

definition same_workspace :: "ws_row \<Rightarrow> ws_row \<Rightarrow> bool" where
  "same_workspace w w' \<longleftrightarrow>
     ws_id w' = ws_id w \<and> ws_user w' = ws_user w \<and> ws_name w' = ws_name w \<and>
     ws_created w' = ws_created w"

definition lost_step :: "ws_row \<Rightarrow> ws_row \<Rightarrow> bool" where
  "lost_step w w' \<longleftrightarrow>
     same_workspace w w' \<and> ws_worker w' = ws_worker w \<and> ws_desired w' = ws_desired w \<and>
     ws_image w' = ws_image w \<and> ws_previous_image w' = ws_previous_image w \<and>
     ws_changed_at w' = ws_changed_at w \<and>
     (ws_state w' = ws_state w \<or>
      ws_worker w \<noteq> None \<and>
      (ws_state w = RUNNING \<and> ws_state w' = ERROR \<or> ws_state w' = WORKER_OFFLINE))"

text \<open>A key never becomes live again, and a live key keeps its Workspace.\<close>

definition key_next :: "key_row \<Rightarrow> key_row \<Rightarrow> bool" where
  "key_next k k' \<longleftrightarrow>
     mk_id k' = mk_id k \<and> mk_alias k' = mk_alias k \<and> mk_user k' = mk_user k \<and>
     (key_live k' \<longrightarrow> key_live k \<and> mk_workspace k' = mk_workspace k)"

text \<open>A Worker is \<open>DISABLED\<close> exactly while revoked, and never reports more than its capacity.\<close>

definition worker_ok :: "worker_row \<Rightarrow> bool" where
  "worker_ok w \<longleftrightarrow> (wk_enabled w \<longleftrightarrow> wk_status w \<noteq> DISABLED) \<and> within_capacity w"

definition worker_next :: "worker_row \<Rightarrow> worker_row \<Rightarrow> bool" where
  "worker_next w w' \<longleftrightarrow> wk_id w' = wk_id w \<and> (worker_ok w \<longrightarrow> worker_ok w')"

named_theorems step_defs "definitions of the row relations"

lemmas row_step_defs [step_defs] = same_workspace_def lost_step_def key_next_def worker_next_def

lemma row_steps_refl [simp]: "same_workspace w w" "lost_step w w" "key_next k k" "worker_next x x"
  by (simp_all add: step_defs)

lemma lost_step_trans: "lost_step a b \<Longrightarrow> lost_step b c \<Longrightarrow> lost_step a c"
  unfolding lost_step_def same_workspace_def by (elim conjE disjE) simp_all

lemma key_next_trans: "key_next a b \<Longrightarrow> key_next b c \<Longrightarrow> key_next a c"
  by (simp add: key_next_def)

lemma worker_next_trans: "worker_next a b \<Longrightarrow> worker_next b c \<Longrightarrow> worker_next a c"
  by (simp add: worker_next_def)

section \<open>Pointwise relations between tables\<close>

lemma list_all2_refl_on: "(\<And>x. Q x x) \<Longrightarrow> list_all2 Q xs xs"
  by (simp add: list_all2_same)

lemma list_all2_chain:
  "(\<And>a b c. Q a b \<Longrightarrow> Q b c \<Longrightarrow> Q a c) \<Longrightarrow> list_all2 Q xs ys \<Longrightarrow> list_all2 Q ys zs \<Longrightarrow> list_all2 Q xs zs"
  using list_all2_trans [of Q Q Q] by blast

lemma list_all2_update_where:
  "(\<And>x. x \<in> set xs \<Longrightarrow> p x \<Longrightarrow> Q x (f x)) \<Longrightarrow> (\<And>x. Q x x) \<Longrightarrow> list_all2 Q xs (update_where p f xs)"
  by (auto simp: update_where_def list_all2_conv_all_nth)

lemma list_all2_map_eq:
  "list_all2 Q xs ys \<Longrightarrow> (\<And>x y. Q x y \<Longrightarrow> g y = g x) \<Longrightarrow> map g ys = map g xs"
  by (induction xs ys rule: list_all2_induct) auto

lemma list_all2_source:
  "list_all2 Q xs ys \<Longrightarrow> y \<in> set ys \<Longrightarrow> \<exists>x \<in> set xs. Q x y"
  by (induction xs ys rule: list_all2_induct) auto

lemma list_all2_target:
  "list_all2 Q xs ys \<Longrightarrow> x \<in> set xs \<Longrightarrow> \<exists>y \<in> set ys. Q x y"
  by (induction xs ys rule: list_all2_induct) auto

lemma list_all2_weaken:
  "list_all2 Q xs ys \<Longrightarrow> (\<And>x y. Q x y \<Longrightarrow> R x y) \<Longrightarrow> list_all2 R xs ys"
  by (rule list_all2_mono)

section \<open>Cascades\<close>

definition cascade :: "db \<Rightarrow> db \<Rightarrow> bool" where
  "cascade d d' \<longleftrightarrow>
     db_users d' = db_users d \<and> db_sessions d' = db_sessions d \<and>
     db_identities d' = db_identities d \<and> db_workers d' = db_workers d \<and>
     db_throttle d' = db_throttle d \<and> db_egress_rules d' = db_egress_rules d \<and>
     db_egress_revision d' = db_egress_revision d \<and>
     list_all2 lost_step (db_workspaces d) (db_workspaces d') \<and>
     list_all2 key_next (db_keys d) (db_keys d') \<and> audit_extends d d'"

lemma cascade_refl [simp]: "cascade d d"
  by (simp add: cascade_def list_all2_refl_on)

lemma cascade_trans [trans]: "cascade d e \<Longrightarrow> cascade e f \<Longrightarrow> cascade d f"
  unfolding cascade_def
  by (auto intro: audit_extends_trans list_all2_chain [of lost_step, OF lost_step_trans]
      list_all2_chain [of key_next, OF key_next_trans])

lemma cascade_fold: "(\<And>x s. cascade s (h x s)) \<Longrightarrow> cascade s (fold h xs s)"
proof (induction xs arbitrary: s)
  case (Cons x xs)
  have "cascade (h x s) (fold h xs (h x s))" by (rule Cons.IH) (rule Cons.prems)
  with Cons.prems show ?case by (simp add: cascade_trans [of s "h x s"])
qed simp

lemma cascade_insert_audit [simp]: "cascade d (insert_audit t e a ow w k j d)"
  by (simp add: cascade_def list_all2_refl_on)

lemma cascade_insert_chain [simp]: "cascade d e \<Longrightarrow> cascade d (insert_audit t ev a ow w k j e)"
  by (rule cascade_trans [OF _ cascade_insert_audit])

lemma cascade_update_workspaces:
  "(\<And>w. p w \<Longrightarrow> lost_step w (f w)) \<Longrightarrow> cascade d (update_workspaces t p f d)"
  by (simp add: cascade_def list_all2_refl_on list_all2_update_where)

lemma cascade_mark_offline [simp]: "cascade d (mark_worker_offline t k d)"
  unfolding mark_worker_offline_def
  by (rule cascade_update_workspaces) (simp add: step_defs)

lemma cascade_stop_unprotected [simp]: "cascade d (stop_unprotected t k d)"
  unfolding stop_unprotected_def
  by (rule cascade_update_workspaces) (simp add: step_defs)

lemma key_next_start: "key_next k (start_revoke t r k)"
  by (simp add: key_next_def)

lemma cascade_request_revoke [simp]: "cascade d (model_keys_request_revoke t w u r d)"
  unfolding cascade_def model_keys_request_revoke_table
  by (intro conjI list_all2_update_where) (simp_all add: list_all2_refl_on key_next_start)

lemma cascade_revoke_fold:
  "cascade d (fst (fold (\<lambda>i (s, n). (model_keys_request_revoke t (Some i) None r s, n + h i s)) is x))"
  if "cascade d (fst x)"
  using that
proof (induction "is" arbitrary: x)
  case (Cons i "is")
  let ?d1 = "model_keys_request_revoke t (Some i) None r (fst x)"
  have "cascade d ?d1" using Cons.prems cascade_request_revoke by (rule cascade_trans)
  then show ?case
    by (simp only: fold_simps split_beta) (rule Cons.IH [of "(?d1, snd x + h i (fst x))",
      unfolded fst_conv split_beta])
qed (simp only: fold_simps)

lemma cascade_after_worker_update [simp]: "cascade d (after_worker_update s t old new d)"
proof -
  have one: "cascade d (record_worker_audit_event t old new d)" for d
    by (simp add: record_worker_audit_event_def Let_def)
  have three: "cascade d (workers_after_version_change t old new d)" for d
    by (simp add: workers_after_version_change_def)
  have two: "cascade d (workers_after_enabled_change s t old new d)" for d
  proof (cases "wk_enabled old \<and> \<not> wk_enabled new")
    case True
    then show ?thesis
      by (simp add: workers_after_enabled_change_def Let_def split_beta
          cascade_revoke_fold)
  next
    case False
    then show ?thesis by (auto simp: workers_after_enabled_change_def)
  qed
  show ?thesis
    unfolding after_worker_update_def
    by (rule cascade_trans [OF cascade_trans [OF one two] three])
qed

lemma cascade_update_workers:
  "cascade (d\<lparr>db_workers := update_where p (\<lambda>w. workers_enabled_status w (f w)) (db_workers d)\<rparr>)
     (update_workers s t p f d)"
  unfolding update_workers_def Let_def by (rule cascade_fold) simp

lemma cascade_update_users:
  "cascade (d\<lparr>db_users := update_where p f (db_users d)\<rparr>) (update_users t p f d)"
  unfolding update_users_def
  by (rule cascade_fold) (simp add: model_keys_on_user_disable_def)

text \<open>The parts of a cascade.\<close>

lemma cascadeD:
  assumes "cascade d d'"
  shows "db_users d' = db_users d" "db_sessions d' = db_sessions d"
    "db_identities d' = db_identities d" "db_workers d' = db_workers d"
    "db_throttle d' = db_throttle d" "db_egress_rules d' = db_egress_rules d"
    "db_egress_revision d' = db_egress_revision d"
    "list_all2 lost_step (db_workspaces d) (db_workspaces d')"
    "list_all2 key_next (db_keys d) (db_keys d')" "audit_extends d d'"
  using assms by (simp_all add: cascade_def)

section \<open>Changes of the Workers table\<close>

text \<open>
  \<open>worker_change d d'\<close>: the Workers table changed pointwise, keeping ids, and the rest is a
  cascade.
\<close>

definition worker_change :: "db \<Rightarrow> db \<Rightarrow> bool" where
  "worker_change d d' \<longleftrightarrow>
     (\<exists>ws. list_all2 worker_next (db_workers d) ws \<and> cascade (d\<lparr>db_workers := ws\<rparr>) d')"

lemma worker_change_refl [simp]: "worker_change d d"
  unfolding worker_change_def by (rule exI [of _ "db_workers d"]) (simp add: list_all2_refl_on)

lemma cascade_set_workers:
  "cascade d e \<Longrightarrow> cascade (d\<lparr>db_workers := ws\<rparr>) (e\<lparr>db_workers := ws\<rparr>)"
  by (simp add: cascade_def)

lemma worker_change_trans [trans]:
  assumes "worker_change d e" "worker_change e f"
  shows "worker_change d f"
proof -
  obtain ws where ws: "list_all2 worker_next (db_workers d) ws" "cascade (d\<lparr>db_workers := ws\<rparr>) e"
    using assms(1) by (auto simp: worker_change_def)
  obtain vs where vs: "list_all2 worker_next (db_workers e) vs" "cascade (e\<lparr>db_workers := vs\<rparr>) f"
    using assms(2) by (auto simp: worker_change_def)
  have "cascade (d\<lparr>db_workers := vs\<rparr>) (e\<lparr>db_workers := vs\<rparr>)"
    using cascade_set_workers [OF ws(2), of vs] by simp
  moreover have "list_all2 worker_next (db_workers d) vs"
    using list_all2_chain [OF worker_next_trans ws(1)] vs(1) cascadeD(4) [OF ws(2)] by simp
  ultimately show ?thesis
    unfolding worker_change_def using vs(2) cascade_trans by blast
qed

lemma cascade_worker_change: "cascade d d' \<Longrightarrow> worker_change d d'"
  unfolding worker_change_def by (rule exI [of _ "db_workers d"]) (simp add: list_all2_refl_on)

lemma worker_change_insert_audit [simp]:
  "worker_change d e \<Longrightarrow> worker_change d (insert_audit t ev a ow w k j e)"
  by (rule worker_change_trans [OF _ cascade_worker_change [OF cascade_insert_audit]])

lemma worker_change_update:
  assumes "\<And>w. w \<in> set (db_workers d) \<Longrightarrow> p w \<Longrightarrow> worker_next w (workers_enabled_status w (f w))"
  shows "worker_change d (update_workers s t p f d)"
  unfolding worker_change_def
  by (rule exI, rule conjI [OF _ cascade_update_workers]) (simp add: list_all2_update_where assms)

lemma worker_changeD:
  assumes "worker_change d d'"
  shows "db_users d' = db_users d" "db_sessions d' = db_sessions d"
    "db_identities d' = db_identities d" "db_throttle d' = db_throttle d"
    "db_egress_rules d' = db_egress_rules d" "db_egress_revision d' = db_egress_revision d"
    "list_all2 worker_next (db_workers d) (db_workers d')"
    "list_all2 lost_step (db_workspaces d) (db_workspaces d')"
    "list_all2 key_next (db_keys d) (db_keys d')" "audit_extends d d'"
  using assms by (auto simp: worker_change_def cascade_def)

section \<open>The Worker operations\<close>

text \<open>Every statement on \<open>workers\<close> whose columns keep \<open>worker_ok\<close> is a Worker change.\<close>

lemma within_capacity_iff: "within_capacity w \<longleftrightarrow> (\<forall>m. wk_max w = Some m \<longrightarrow> wk_allocated w \<le> m)"
  by (simp add: within_capacity_def split: option.split)

lemmas worker_row_defs = worker_next_def worker_ok_def workers_enabled_status_def
  within_capacity_iff

lemma worker_change_then:
  "worker_change d e \<Longrightarrow> cascade e f \<Longrightarrow> worker_change d f"
  by (rule worker_change_trans [OF _ cascade_worker_change])

lemma worker_change_stop_unprotected [simp]:
  "worker_change d e \<Longrightarrow> worker_change d (stop_unprotected t k e)"
  by (rule worker_change_then) (assumption, rule cascade_stop_unprotected)

lemma worker_change_mark_offline [simp]:
  "worker_change d e \<Longrightarrow> worker_change d (mark_worker_offline t k e)"
  by (rule worker_change_then) (assumption, rule cascade_mark_offline)

lemma recordWorkerEgress_change [simp]: "worker_change d (recordWorkerEgress t k e r d)"
proof -
  have "worker_change d (update_workers s t p (\<lambda>w. w\<lparr>wk_egress_enforced := x,
      wk_egress_revision := y, wk_egress_checked := z\<rparr>) d)" for s p x y z
    by (rule worker_change_update) (simp add: worker_row_defs)
  then show ?thesis
    by (simp add: recordWorkerEgress_def Let_def split: option.split)
qed

lemma recordWorkerStorage_change [simp]: "worker_change d (recordWorkerStorage t k e r d)"
proof -
  have "worker_change d (update_workers s t p (\<lambda>w. w\<lparr>wk_storage_enforced := x,
      wk_storage_fs := y, wk_storage_total := z, wk_storage_free := u,
      wk_storage_checked := v\<rparr>) d)" for s p x y z u v
    by (rule worker_change_update) (simp add: worker_row_defs)
  then show ?thesis
    by (simp add: recordWorkerStorage_def Let_def split: option.split)
qed

lemma recordWorkspaceDiskUsage_cascade [simp]:
  "cascade d (snd (recordWorkspaceDiskUsage t k usage r d))"
  by (auto simp: recordWorkspaceDiskUsage_def Let_def step_defs split: option.splits
      intro!: cascade_update_workspaces)

lemma in_returning: "list_all q (returning p f rows) \<longleftrightarrow> (\<forall>r \<in> set rows. p r \<longrightarrow> q (f r))"
  by (auto simp: returning_def list_all_iff)

lemma hello_change:
  assumes "recordWorkerHello t h d = Inr (b, d')"
  shows "worker_change d d'"
proof -
  obtain first rest where images: "hel_images h = first # rest"
    using assms by (cases "hel_images h") (simp_all add: recordWorkerHello_def)
  define f where "f = (\<lambda>w :: worker_row. w\<lparr>wk_hostname := Some (hel_hostname h), wk_arch := Some (hel_arch h),
      wk_status := ONLINE, wk_image := Some (rti_image first),
      wk_runtime_version := Some (rti_version first), wk_caps := rti_capabilities first,
      wk_images := first # rest, wk_version := Some (hel_version h), wk_max := Some (hel_max h),
      wk_allocated := hel_allocated h, wk_cpu_count := wsr_cpu_count (hel_resources h),
      wk_memory := wsr_memory (hel_resources h), wk_relay_enabled := mrs_enabled (hel_relay h),
      wk_relay_port := mrs_port (hel_relay h), wk_relay_listening := mrs_listening (hel_relay h),
      wk_heartbeat := Some (hel_received h), wk_updated := hel_received h\<rparr>)"
  define p where "p = (\<lambda>w :: worker_row. wk_id w = hel_worker h \<and> wk_credential w = hel_credential h \<and> wk_enabled w)"
  define d1 where "d1 = update_workers default_audit_source t p f d"
  have cap: "\<forall>w \<in> set (db_workers d). p w \<longrightarrow> within_capacity (f w)"
    and d': "d' = d1 \<or> d' = recordWorkerStorage t (hel_worker h) (hel_storage h) (hel_received h)
      (recordWorkerEgress t (hel_worker h) (hel_egress h) (hel_received h) d1)"
    using assms
    by (auto simp: recordWorkerHello_def images Let_def in_returning d1_def simp flip: p_def f_def
        split: if_splits)
  have "worker_change d d1"
    unfolding d1_def
    by (rule worker_change_update)
      (use cap in \<open>auto simp: p_def f_def worker_row_defs\<close>)
  with d' show ?thesis
    using worker_change_trans recordWorkerEgress_change recordWorkerStorage_change by metis
qed

lemma heartbeat_change:
  assumes "recordWorkerHeartbeat t h d = Inr (r, d')"
  shows "worker_change d d'"
proof -
  define f where "f = (\<lambda>w :: worker_row. w\<lparr>wk_status := ONLINE, wk_allocated := hb_allocated h,
      wk_relay_enabled := mrs_enabled (hb_relay h), wk_relay_port := mrs_port (hb_relay h),
      wk_relay_listening := mrs_listening (hb_relay h), wk_heartbeat := Some (hb_received h),
      wk_updated := hb_received h\<rparr>)"
  define p where "p = (\<lambda>w :: worker_row. wk_id w = hb_worker h \<and> wk_credential w = hb_credential h \<and> wk_enabled w)"
  define d1 where "d1 = update_workers default_audit_source t p f d"
  define d2 where "d2 = recordWorkerEgress t (hb_worker h) (hb_egress h) (hb_received h) d1"
  define d3 where "d3 = recordWorkerStorage t (hb_worker h) (hb_storage h) (hb_received h) d2"
  have cap: "\<forall>w \<in> set (db_workers d). p w \<longrightarrow> within_capacity (f w)"
    and d': "d' = d1 \<or> d' = snd (recordWorkspaceDiskUsage t (hb_worker h) (hb_disk h) (hb_received h) d3)"
    using assms
    by (auto simp: recordWorkerHeartbeat_def Let_def in_returning d1_def d2_def d3_def split_beta
        simp flip: p_def f_def split: if_splits)
  have "worker_change d d1"
    unfolding d1_def
    by (rule worker_change_update)
      (use cap in \<open>auto simp: p_def f_def worker_row_defs\<close>)
  moreover have "worker_change d1 d2" "worker_change d2 d3"
    by (simp_all add: d2_def d3_def)
  ultimately show ?thesis
    using d' worker_change_trans worker_change_then recordWorkspaceDiskUsage_cascade by metis
qed

lemma rotate_change:
  assumes "rotateWorkerCredential t k hash d = Inr (b, d')"
  shows "worker_change d d'"
proof -
  have "worker_change d (update_workers s t p (\<lambda>w. w\<lparr>wk_credential := hash,
      wk_status := (if wk_enabled w then OFFLINE else DISABLED), wk_heartbeat := None,
      wk_updated := t\<rparr>) d)" for s p
    by (rule worker_change_update) (simp add: worker_row_defs)
  with assms show ?thesis
    by (auto simp: rotateWorkerCredential_def Let_def split: if_splits)
qed

lemma disable_change [simp]: "worker_change d (snd (disableWorker t k d))"
proof -
  have "worker_change d (update_workers s t p (\<lambda>w. w\<lparr>wk_enabled := False, wk_updated := t\<rparr>) d)" for s p
    by (rule worker_change_update) (simp add: worker_row_defs)
  then show ?thesis
    by (simp add: disableWorker_def Let_def split: option.split)
qed

lemma enable_change:
  assumes "enableWorker t k hash d = Inr (r, d')"
  shows "worker_change d d'"
proof -
  have "worker_change d (update_workers s t p (\<lambda>w. w\<lparr>wk_enabled := True, wk_credential := hash,
      wk_heartbeat := None, wk_updated := t\<rparr>) d)" for s p
    by (rule worker_change_update) (simp add: worker_row_defs)
  with assms show ?thesis
    by (auto simp: enableWorker_def Let_def split: if_splits option.splits)
qed

lemma configureGateway_change [simp]: "worker_change d (snd (configureWorkerGateway t k url d))"
proof -
  have "worker_change d (update_workers s t p (\<lambda>w. w\<lparr>wk_gateway := Some url, wk_updated := t\<rparr>) d)" for s p
    by (rule worker_change_update) (simp add: worker_row_defs)
  then show ?thesis by (simp add: configureWorkerGateway_def Let_def)
qed

lemma schedulable_change [simp]: "worker_change d (snd (setWorkerSchedulable t k b a d))"
proof -
  have "worker_change d (update_workers s t p (\<lambda>w. w\<lparr>wk_schedulable := c, wk_updated := t\<rparr>) d)" for s p c
    by (rule worker_change_update) (simp add: worker_row_defs)
  then have "worker_change d (snd (change_schedulable t k b a d))"
    by (simp add: change_schedulable_def split: option.split)
  moreover have "snd (setWorkerSchedulable t k b a d) = snd (change_schedulable t k b a d)"
    by (auto simp: setWorkerSchedulable_def Let_def split_beta split: option.split)
  ultimately show ?thesis by simp
qed

lemma fold_offline_change: "worker_change d e \<Longrightarrow> worker_change d (fold (mark_worker_offline t) ks e)"
  by (induction ks arbitrary: e) simp_all

lemma markWorkersOffline_change [simp]: "worker_change d (snd (markWorkersOffline t cutoff d))"
proof -
  have "worker_change d (update_workers s t p (\<lambda>w. w\<lparr>wk_status := OFFLINE, wk_updated := t\<rparr>) d)"
    if "\<forall>w. p w \<longrightarrow> wk_enabled w" for s p
    by (rule worker_change_update) (use that in \<open>simp add: worker_row_defs\<close>)
  then show ?thesis
    by (simp add: markWorkersOffline_def Let_def fold_offline_change)
qed

lemma markAllWorkersOffline_change [simp]:
  "worker_change d (snd (markAllWorkersOfflineForRecovery t started d))"
proof -
  have one: "worker_change d (update_workers s t p (\<lambda>w. w\<lparr>wk_status :=
      (if wk_enabled w then OFFLINE else DISABLED), wk_updated := t\<rparr>) d)" for s p
    by (rule worker_change_update) (simp add: worker_row_defs)
  have two: "cascade e (update_workspaces t (\<lambda>w. (\<exists>i \<in> set is. ws_worker w = Some i) \<and>
      ws_state w \<noteq> WORKER_OFFLINE) (\<lambda>w. w\<lparr>ws_state := WORKER_OFFLINE, ws_updated := t\<rparr>) e)" for "is" e
    by (rule cascade_update_workspaces) (auto simp: step_defs)
  show ?thesis
    unfolding markAllWorkersOfflineForRecovery_def Let_def snd_conv
    by (auto simp only: if_True if_False split: if_split intro: worker_change_then [OF one two] one)
qed

lemma beginReconciliation_cascade [simp]: "cascade d (snd (beginWorkerReconciliation t k d))"
  unfolding beginWorkerReconciliation_def Let_def snd_conv
  by (rule cascade_update_workspaces) (simp add: step_defs)

end
