(* ===== verification/Lifecycle.thy ===== *)
theory Lifecycle
  imports Frames Scheduling Routes
begin

text \<open>
  The abstract life of a Workspace: what of a row decides its future, and the moves it can make.
  \<open>lifecycle_step\<close> is the specification that every statement on the \<open>workspaces\<close> table refines
  (theory \<open>Platform\<close>); its invariant and its transition table are proved here by rule induction.
\<close>

record lifecycle =
  lc_state :: ws_state
  lc_desired :: desired_state
  lc_worker :: "string option"
  lc_image :: string
  lc_previous :: "string option"
  lc_settled :: bool

definition lifecycle_of :: "ws_row \<Rightarrow> lifecycle" where
  "lifecycle_of w =
     \<lparr>lc_state = ws_state w, lc_desired = ws_desired w, lc_worker = ws_worker w,
      lc_image = ws_image w, lc_previous = ws_previous_image w,
      lc_settled = (ws_changed_at w \<noteq> None)\<rparr>"

definition newborn :: "string \<Rightarrow> lifecycle" where
  "newborn img =
     \<lparr>lc_state = CREATED, lc_desired = Want_STOPPED, lc_worker = None, lc_image = img,
      lc_previous = None, lc_settled = False\<rparr>"

definition transitional :: "ws_state set" where
  "transitional = {STARTING, STOPPING, DELETING, UPGRADING}"

inductive lifecycle_step :: "lifecycle \<Rightarrow> lifecycle \<Rightarrow> bool" where
  schedule: "startable (lc_state l) \<Longrightarrow> lc_worker l = None \<or> lc_worker l = Some k \<Longrightarrow>
    lifecycle_step l (l\<lparr>lc_state := STARTING, lc_desired := Want_RUNNING, lc_worker := Some k\<rparr>)"
| started: "lc_state l = STARTING \<Longrightarrow> lifecycle_step l (l\<lparr>lc_state := RUNNING\<rparr>)"
| stop: "lc_state l = RUNNING \<Longrightarrow>
    lifecycle_step l (l\<lparr>lc_state := STOPPING, lc_desired := Want_STOPPED\<rparr>)"
| stopped: "lc_state l = STOPPING \<Longrightarrow> lifecycle_step l (l\<lparr>lc_state := STOPPED\<rparr>)"
| delete: "lc_worker l \<noteq> None \<Longrightarrow> lc_state l \<notin> transitional \<Longrightarrow>
    lifecycle_step l (l\<lparr>lc_state := DELETING, lc_desired := Want_DELETED\<rparr>)"
| failed: "lc_state l \<in> transitional \<Longrightarrow> lifecycle_step l (l\<lparr>lc_state := ERROR\<rparr>)"
| unprotected: "lc_state l = RUNNING \<Longrightarrow> lifecycle_step l (l\<lparr>lc_state := ERROR\<rparr>)"
| offline: "lc_worker l \<noteq> None \<Longrightarrow> lifecycle_step l (l\<lparr>lc_state := WORKER_OFFLINE\<rparr>)"
| recover_running: "lc_state l = WORKER_OFFLINE \<Longrightarrow> lc_desired l \<in> {Want_RUNNING, Want_UNKNOWN} \<Longrightarrow>
    lifecycle_step l (l\<lparr>lc_state := RUNNING, lc_desired := Want_RUNNING,
      lc_settled := (lc_settled l \<or> lc_previous l \<noteq> None)\<rparr>)"
| recover_stopped: "lc_state l = WORKER_OFFLINE \<Longrightarrow> lc_desired l \<in> {Want_STOPPED, Want_UNKNOWN} \<Longrightarrow>
    lifecycle_step l (l\<lparr>lc_state := STOPPED, lc_desired := Want_STOPPED,
      lc_settled := (lc_settled l \<or> lc_previous l \<noteq> None)\<rparr>)"
| recover_error: "lc_state l = WORKER_OFFLINE \<Longrightarrow> lifecycle_step l (l\<lparr>lc_state := ERROR\<rparr>)"
| change_begin: "lc_desired l = Want_STOPPED \<Longrightarrow>
    lc_state l = STOPPED \<and> lc_image l = fromImage \<or>
    lc_state l = ERROR \<and> lc_previous l \<noteq> None \<and> \<not> lc_settled l \<Longrightarrow>
    lifecycle_step l (l\<lparr>lc_state := UPGRADING, lc_image := toImage,
      lc_previous := Some fromImage, lc_settled := False\<rparr>)"
| change_finish: "lc_state l = UPGRADING \<Longrightarrow>
    lifecycle_step l (l\<lparr>lc_state := STOPPED, lc_settled := True\<rparr>)"
| change_revert: "lc_state l = UPGRADING \<Longrightarrow>
    s = STOPPED \<or> s = ERROR \<and> p \<noteq> None \<and> \<not> c \<Longrightarrow>
    lifecycle_step l (l\<lparr>lc_state := s, lc_image := i, lc_previous := p, lc_settled := c\<rparr>)"

inductive_cases lifecycle_stepE: "lifecycle_step l l'"

section \<open>The invariant\<close>

text \<open>
  The desired state always agrees with the observed one, a Workspace that has not been placed
  is \<open>CREATED\<close> and the other way round, \<open>SCHEDULING\<close> is never stored, and an unfinished change
  knows the image it came from.
\<close>

definition lifecycle_ok :: "lifecycle \<Rightarrow> bool" where
  "lifecycle_ok l \<longleftrightarrow>
     (lc_worker l = None \<longleftrightarrow> lc_state l = CREATED) \<and>
     lc_state l \<noteq> SCHEDULING \<and> lc_desired l \<noteq> Want_UNKNOWN \<and>
     (lc_state l \<in> {STARTING, RUNNING} \<longrightarrow> lc_desired l = Want_RUNNING) \<and>
     (lc_state l \<in> {CREATED, STOPPING, STOPPED, UPGRADING} \<longrightarrow> lc_desired l = Want_STOPPED) \<and>
     (lc_state l = DELETING \<longrightarrow> lc_desired l = Want_DELETED) \<and>
     (lc_state l = UPGRADING \<longrightarrow> lc_previous l \<noteq> None \<and> \<not> lc_settled l)"

lemma newborn_ok: "lifecycle_ok (newborn img)"
  by (simp add: lifecycle_ok_def newborn_def)

lemma lifecycle_step_ok: "lifecycle_step l l' \<Longrightarrow> lifecycle_ok l \<Longrightarrow> lifecycle_ok l'"
  by (induction rule: lifecycle_step.induct)
    (auto simp: lifecycle_ok_def transitional_def startable_def)

section \<open>The transition table\<close>

fun may_follow :: "ws_state \<Rightarrow> ws_state list" where
  "may_follow CREATED = [STARTING]"
| "may_follow SCHEDULING = []"
| "may_follow STARTING = [RUNNING, ERROR, WORKER_OFFLINE]"
| "may_follow RUNNING = [STOPPING, DELETING, ERROR, WORKER_OFFLINE]"
| "may_follow STOPPING = [STOPPED, ERROR, WORKER_OFFLINE]"
| "may_follow STOPPED = [STARTING, DELETING, UPGRADING, WORKER_OFFLINE]"
| "may_follow DELETING = [ERROR, WORKER_OFFLINE]"
| "may_follow ERROR = [STARTING, DELETING, UPGRADING, WORKER_OFFLINE]"
| "may_follow WORKER_OFFLINE = [STARTING, RUNNING, STOPPED, DELETING, ERROR]"
| "may_follow UPGRADING = [STOPPED, ERROR, WORKER_OFFLINE]"

lemma lifecycle_step_follows:
  assumes "lifecycle_step l l'" "lifecycle_ok l"
  shows "lc_state l' = lc_state l \<or> lc_state l' \<in> set (may_follow (lc_state l))"
  using assms
  by cases (cases "lc_state l"; auto simp: lifecycle_ok_def transitional_def startable_def)+

lemma lifecycle_step_sticky:
  "lifecycle_step l l' \<Longrightarrow> lc_worker l = Some k \<Longrightarrow> lc_worker l' = Some k"
  by (induction rule: lifecycle_step.induct) auto

lemma lifecycle_step_image:
  "lifecycle_step l l' \<Longrightarrow> lc_image l' \<noteq> lc_image l \<Longrightarrow>
   lc_state l = UPGRADING \<or> lc_state l' = UPGRADING \<and> lc_state l \<in> {STOPPED, ERROR}"
  by (induction rule: lifecycle_step.induct) auto

end
