(* ===== verification/Platform.thy ===== *)
theory Platform
  imports Lifecycle ModelKeys AuthThrottle
begin

text \<open>
  The platform as a transition system: \<open>platform_step\<close> has one rule per state-changing operation
  of the repository modules, so its runs are the interleavings of the transactions that any
  number of requests, Workers and background loops issue. Every step refines the abstract
  life cycle, and the invariant \<open>platform_ok\<close> holds in every state reached from an empty database.
\<close>

section \<open>Steps\<close>

inductive workspace_step :: "db \<Rightarrow> db \<Rightarrow> bool" where
  create: "createWorkspace t wid u name img limit d = Inr (r, d') \<Longrightarrow> workspace_step d d'"
| delete_unplaced: "workspace_step d (snd (deleteOwnedWorkspace t wid u d))"
| schedule: "scheduleWorkspaceStart selectWorker t wid u cutoff conn d = Inr (r, d') \<Longrightarrow>
    workspace_step d d'"
| finish_start: "workspace_step d (snd (finishWorkspaceStart t wid k d))"
| begin_stop: "workspace_step d (snd (beginWorkspaceStop t wid u k d))"
| finish_stop: "workspace_step d (snd (finishWorkspaceStop t wid k d))"
| begin_delete: "workspace_step d (snd (beginWorkspaceDelete t wid u k d))"
| delete_confirmed: "workspace_step d (snd (deleteConfirmedWorkspace t wid u k d))"
| runtime_failure: "workspace_step d (markWorkspaceRuntimeFailure t wid k offline d)"
| begin_change: "workspace_step d
    (snd (beginWorkspaceRuntimeChange t wid k fromImage toImage direction actor d))"
| finish_change: "workspace_step d (snd (finishWorkspaceRuntimeChange t wid k img actor d))"
| revert_change: "wr_state w = STOPPED \<or> runtimeChangeIncomplete w \<Longrightarrow>
    workspace_step d (snd (revertWorkspaceRuntimeChange t wid k (restore_of w) code actor d))"
| reconcile: "workspace_step d (reconcile_one t k w r d)"
| accessed: "workspace_step d (recordWorkspaceAccess t entries d)"
| idle_stop: "workspace_step d (snd (beginIdleStop t wid k cutoff hours cores d))"
| disk_limit: "updateWorkspaceDiskLimit t wid limit audit d = Inr (r, d') \<Longrightarrow> workspace_step d d'"

inductive worker_step :: "db \<Rightarrow> db \<Rightarrow> bool" where
  provision: "provisionWorkerWithGateway t k hash url d = Inr d' \<Longrightarrow> worker_step d d'"
| rotate: "rotateWorkerCredential t k hash d = Inr (b, d') \<Longrightarrow> worker_step d d'"
| disable: "worker_step d (snd (disableWorker t k d))"
| enable: "enableWorker t k hash d = Inr (r, d') \<Longrightarrow> worker_step d d'"
| delete_worker: "worker_step d (snd (deleteWorker t k d))"
| gateway: "worker_step d (snd (configureWorkerGateway t k url d))"
| pause: "worker_step d (snd (setWorkerSchedulable t k b audit d))"
| hello: "recordWorkerHello t h d = Inr (b, d') \<Longrightarrow> worker_step d d'"
| heartbeat: "recordWorkerHeartbeat t hb d = Inr (i, d') \<Longrightarrow> worker_step d d'"
| egress_report: "worker_step d (recordWorkerEgress t k egress received d)"
| storage_report: "worker_step d (recordWorkerStorage t k storage received d)"
| disk_report: "worker_step d (snd (recordWorkspaceDiskUsage t k usage received d))"
| heartbeats_missed: "worker_step d (snd (markWorkersOffline t cutoff d))"
| control_plane_restart: "worker_step d (snd (markAllWorkersOfflineForRecovery t started d))"
| begin_reconciliation: "worker_step d (snd (beginWorkerReconciliation t k d))"

text \<open>
  An issue reads in \<open>d0\<close> and inserts in \<open>d\<close>; its share locks keep the owner's and the Workspace's
  row unchanged in between, and nothing else.
\<close>

definition share_locked :: "model_key_issue \<Rightarrow> db \<Rightarrow> db \<Rightarrow> bool" where
  "share_locked i d0 d \<longleftrightarrow>
     filter (\<lambda>u. us_id u = mki_user i) (db_users d) = filter (\<lambda>u. us_id u = mki_user i) (db_users d0) \<and>
     filter (\<lambda>w. ws_id w = mki_workspace i) (db_workspaces d) =
     filter (\<lambda>w. ws_id w = mki_workspace i) (db_workspaces d0)"

inductive key_step :: "db \<Rightarrow> db \<Rightarrow> bool" where
  request_revoke: "key_step d (snd (requestModelKeyRevoke t r d))"
| issue_key: "prepare_issue keyId wid d0 = Inr i \<Longrightarrow> share_locked i d0 d \<Longrightarrow>
    key_step d (snd (finish_issue t reason i d))"
| activate: "key_step d (snd (activateModelKey t keyId d))"
| revoke_result: "key_step d (recordModelKeyRevokeResult t keyId result d)"
| expire: "key_step d (snd (expireStaleModelKeyIssues t olderThan d))"

inductive user_step :: "db \<Rightarrow> db \<Rightarrow> bool" where
  create_user: "createUser t uid email username password role actor d = Inr (r, d') \<Longrightarrow> user_step d d'"
| create_session: "createSession t sid uid token expires audit d = Inr (b, d') \<Longrightarrow> user_step d d'"
| revoke_session: "user_step d (revokeSession t token now actor d)"
| revoke_sessions: "user_step d (snd (revokeUserSessions t uid now actor d))"
| manage_user: "user_step d (snd (updateManagedUser t uid role status actor d))"
| reset_password: "user_step d (snd (resetLocalPassword t uid hash actor d))"
| bind: "bindExternalIdentity t iid uid provider subject who d = Inr (r, d') \<Longrightarrow> user_step d d'"
| unbind: "user_step d (snd (unbindExternalIdentity t iid uid who d))"
| external_login: "completeExternalLogin t x d = Inr (r, d') \<Longrightarrow> user_step d d'"
| set_budget: "setUserModelBudget t uid budget who request d = Inr (r, d') \<Longrightarrow> user_step d d'"

inductive policy_step :: "db \<Rightarrow> db \<Rightarrow> bool" where
  create_rule: "policy_step d (snd (post_egress_rule t rid protectedCidrs body audit d))"
| delete_rule: "policy_step d (snd (delete_egress_rule t rid audit d))"

inductive other_step :: "db \<Rightarrow> db \<Rightarrow> bool" where
  throttle_hits: "other_step d (snd (recordAuthThrottleHits t hits now audit d))"
| throttle_clear: "other_step d (clearAuthThrottle keys d)"
| locks_clear: "other_step d (snd (clearAuthLocks t target now source actor request d))"
| throttle_expire: "other_step d (snd (deleteExpiredAuthThrottle now window d))"
| opened: "other_step d (recordWorkspaceOpened t who own wid k d)"
| login_failed: "other_step d (recordAuthenticationFailure t category audit d)"

definition platform_step :: "db \<Rightarrow> db \<Rightarrow> bool" where
  "platform_step d d' \<longleftrightarrow>
     workspace_step d d' \<or> worker_step d d' \<or> key_step d d' \<or> user_step d d' \<or>
     policy_step d d' \<or> other_step d d'"

section \<open>What a step does to the Workspaces\<close>

definition row_next :: "ws_row \<Rightarrow> ws_row \<Rightarrow> bool" where
  "row_next w w' \<longleftrightarrow>
     same_workspace w w' \<and>
     (lifecycle_of w' = lifecycle_of w \<or> lifecycle_step (lifecycle_of w) (lifecycle_of w'))"

text \<open>The rows that may be deleted: never placed, or deletion requested.\<close>

definition removable :: "ws_row \<Rightarrow> bool" where
  "removable w \<longleftrightarrow>
     ws_worker w = None \<and> ws_state w = CREATED \<or> ws_state w = DELETING \<or>
     ws_state w = WORKER_OFFLINE \<and> ws_desired w = Want_DELETED"

definition ws_next :: "ws_row list \<Rightarrow> ws_row list \<Rightarrow> bool" where
  "ws_next xs ys \<longleftrightarrow>
     (distinct (map ws_id xs) \<longrightarrow> distinct (map ws_id ys)) \<and>
     (\<forall>y \<in> set ys. (\<exists>x \<in> set xs. row_next x y) \<or>
        ws_id y \<notin> ws_id ` set xs \<and> lifecycle_of y = newborn (ws_image y)) \<and>
     (\<forall>x \<in> set xs. removable x \<or> (\<exists>y \<in> set ys. row_next x y))"

lemma row_next_refl [simp]: "row_next w w"
  by (simp add: row_next_def)

lemma ws_next_refl [simp]: "ws_next xs xs"
  unfolding ws_next_def using row_next_refl by blast

lemma row_next_id: "row_next x y \<Longrightarrow> ws_id y = ws_id x"
  by (simp add: row_next_def same_workspace_def)

lemma ws_next_pointwise:
  assumes "list_all2 row_next xs ys"
  shows "ws_next xs ys"
proof -
  have "map ws_id ys = map ws_id xs"
    using assms by (rule list_all2_map_eq) (rule row_next_id)
  then show ?thesis
    unfolding ws_next_def
    using list_all2_source [OF assms] list_all2_target [OF assms] by metis
qed

lemma ws_next_update:
  "(\<And>w. w \<in> set xs \<Longrightarrow> p w \<Longrightarrow> row_next w (f w)) \<Longrightarrow> ws_next xs (update_where p f xs)"
  by (intro ws_next_pointwise list_all2_update_where) simp_all

lemma lost_step_next: "lost_step x y \<Longrightarrow> row_next x y"
proof -
  assume l: "lost_step x y"
  then have same: "same_workspace x y" by (simp add: lost_step_def)
  show "row_next x y"
  proof (cases "ws_state y = ws_state x")
    case True
    with l show ?thesis by (simp add: row_next_def lost_step_def lifecycle_of_def)
  next
    case False
    with l consider "ws_state x = RUNNING" "ws_state y = ERROR" | "ws_worker x \<noteq> None" "ws_state y = WORKER_OFFLINE"
      by (auto simp: lost_step_def)
    then have "lifecycle_step (lifecycle_of x) (lifecycle_of y)"
    proof cases
      case 1
      with l lifecycle_step.unprotected [of "lifecycle_of x"] show ?thesis
        by (simp add: lost_step_def lifecycle_of_def)
    next
      case 2
      with l lifecycle_step.offline [of "lifecycle_of x"] show ?thesis
        by (simp add: lost_step_def lifecycle_of_def)
    qed
    with same show ?thesis by (simp add: row_next_def)
  qed
qed

lemma ws_next_lost: "list_all2 lost_step xs ys \<Longrightarrow> ws_next xs ys"
  by (intro ws_next_pointwise) (rule list_all2_mono, assumption, rule lost_step_next)

section \<open>Statements on Workspaces refine the life cycle\<close>

lemmas row_next_simps = row_next_def same_workspace_def lifecycle_of_def

lemma row_next_step:
  "same_workspace w w' \<Longrightarrow> lifecycle_step (lifecycle_of w) l \<Longrightarrow> lifecycle_of w' = l \<Longrightarrow> row_next w w'"
  by (simp add: row_next_def)

text \<open>The life-cycle moves as writes to a row.\<close>

lemma row_schedule:
  "startable (ws_state w) \<Longrightarrow> ws_worker w = None \<or> ws_worker w = Some k \<Longrightarrow>
   row_next w (w\<lparr>ws_worker := Some k, ws_state := STARTING, ws_desired := Want_RUNNING,
     ws_updated := t, ws_activity := a\<rparr>)"
  using lifecycle_step.schedule [of "lifecycle_of w" k] by (simp add: row_next_simps)

lemma row_started:
  "ws_state w = STARTING \<Longrightarrow>
   row_next w (w\<lparr>ws_state := RUNNING, ws_updated := t, ws_activity := a, ws_stop_reason := r\<rparr>)"
  using lifecycle_step.started [of "lifecycle_of w"] by (simp add: row_next_simps)

lemma row_stop:
  "ws_state w = RUNNING \<Longrightarrow>
   row_next w (w\<lparr>ws_state := STOPPING, ws_desired := Want_STOPPED, ws_updated := t, ws_activity := a\<rparr>)"
  "ws_state w = RUNNING \<Longrightarrow>
   row_next w (w\<lparr>ws_state := STOPPING, ws_desired := Want_STOPPED, ws_stop_reason := r,
     ws_updated := t, ws_activity := a\<rparr>)"
  using lifecycle_step.stop [of "lifecycle_of w"] by (simp_all add: row_next_simps)

lemma row_stopped:
  "ws_state w = STOPPING \<Longrightarrow> row_next w (w\<lparr>ws_state := STOPPED, ws_updated := t, ws_activity := a\<rparr>)"
  using lifecycle_step.stopped [of "lifecycle_of w"] by (simp add: row_next_simps)

lemma row_delete:
  "ws_worker w = Some k \<Longrightarrow> ws_state w \<notin> {STARTING, STOPPING, DELETING, UPGRADING} \<Longrightarrow>
   row_next w (w\<lparr>ws_state := DELETING, ws_desired := Want_DELETED, ws_updated := t, ws_activity := a\<rparr>)"
  using lifecycle_step.delete [of "lifecycle_of w"] by (simp add: row_next_simps transitional_def)

lemma row_failed:
  "ws_worker w = Some k \<Longrightarrow> ws_state w \<in> {STARTING, STOPPING, DELETING, UPGRADING} \<Longrightarrow>
   row_next w (w\<lparr>ws_state := (if offline then WORKER_OFFLINE else ERROR), ws_updated := t\<rparr>)"
  using lifecycle_step.failed [of "lifecycle_of w"] lifecycle_step.offline [of "lifecycle_of w"]
  by (simp add: row_next_simps transitional_def)

lemma row_change_begin:
  "change_allowed fromImage toImage w \<Longrightarrow>
   row_next w (w\<lparr>ws_state := UPGRADING, ws_image := toImage, ws_previous_image := Some fromImage,
     ws_changed_at := None, ws_updated := t\<rparr>)"
  using lifecycle_step.change_begin [of "lifecycle_of w" fromImage toImage]
  by (auto simp: row_next_simps change_allowed_def)

lemma row_change_finish:
  "ws_state w = UPGRADING \<Longrightarrow>
   row_next w (w\<lparr>ws_state := STOPPED, ws_changed_at := Some t, ws_updated := u\<rparr>)"
  using lifecycle_step.change_finish [of "lifecycle_of w"] by (simp add: row_next_simps)

lemma row_change_revert:
  "ws_state w = UPGRADING \<Longrightarrow> s = STOPPED \<or> s = ERROR \<and> p \<noteq> None \<and> c = None \<Longrightarrow>
   row_next w (w\<lparr>ws_state := s, ws_image := i, ws_previous_image := p, ws_changed_at := c,
     ws_updated := u\<rparr>)"
  using lifecycle_step.change_revert [of "lifecycle_of w" s p "c \<noteq> None" i]
  by (auto simp: row_next_simps)

lemmas row_moves = row_schedule row_started row_stop row_stopped row_delete row_failed
  row_change_begin row_change_finish

lemma delete_rows_table:
  "db_workspaces (fold (delete_workspace_row t) rs d) =
   filter (\<lambda>x. ws_id x \<notin> ws_id ` set rs) (db_workspaces d)"
proof (induction rs arbitrary: d)
  case (Cons r rs)
  have "db_workspaces (delete_workspace_row t r d) = filter (\<lambda>x. ws_id x \<noteq> ws_id r) (db_workspaces d)"
    by (simp add: delete_workspace_row_def Let_def audit_workspace_delete_def delete_where_def)
  with Cons show ?case by (auto intro: filter_cong)
qed simp

lemma delete_workspaces_table:
  "db_workspaces (delete_workspaces t p d) =
   filter (\<lambda>x. ws_id x \<notin> ws_id ` set (filter p (db_workspaces d))) (db_workspaces d)"
  by (simp add: delete_workspaces_def delete_rows_table)

lemma ws_next_delete:
  assumes "distinct (map ws_id (db_workspaces d))" "\<And>w. p w \<Longrightarrow> removable w"
  shows "ws_next (db_workspaces d) (db_workspaces (delete_workspaces t p d))"
  unfolding ws_next_def
proof (intro conjI impI ballI)
  show "distinct (map ws_id (db_workspaces (delete_workspaces t p d)))"
    unfolding delete_workspaces_table using assms(1) by (rule distinct_map_filter')
next
  fix y
  assume "y \<in> set (db_workspaces (delete_workspaces t p d))"
  then have "y \<in> set (db_workspaces d)" by (simp add: delete_workspaces_table)
  then show "(\<exists>x \<in> set (db_workspaces d). row_next x y) \<or>
      ws_id y \<notin> ws_id ` set (db_workspaces d) \<and> lifecycle_of y = newborn (ws_image y)"
    using row_next_refl by blast
next
  fix x
  assume x: "x \<in> set (db_workspaces d)"
  show "removable x \<or> (\<exists>y \<in> set (db_workspaces (delete_workspaces t p d)). row_next x y)"
  proof (cases "\<exists>r \<in> set (db_workspaces d). p r \<and> ws_id r = ws_id x")
    case True
    with x assms show ?thesis by (metis distinct_map_inj)
  next
    case False
    with x have "x \<in> set (db_workspaces (delete_workspaces t p d))"
      by (auto simp: delete_workspaces_table)
    then show ?thesis using row_next_refl by blast
  qed
qed

lemma update_one_table [simp]:
  "db_workspaces (snd (update_one t p f d)) = update_where p f (db_workspaces d)"
  by (simp add: update_one_def)

lemma ws_next_create:
  assumes "createWorkspace t wid u name img limit d = Inr (r, d')"
  shows "ws_next (db_workspaces d) (db_workspaces d')"
proof -
  let ?w = "new_workspace t wid u name img limit"
  from assms have d': "db_workspaces d' = db_workspaces d @ [?w]"
    and fresh: "ws_id ?w \<notin> ws_id ` set (db_workspaces d)"
    by (auto simp: createWorkspace_def Let_def insert_workspace_def audit_workspace_insert_def
        split: sum.splits if_splits)
  have "lifecycle_of ?w = newborn (ws_image ?w)"
    by (simp add: lifecycle_of_def newborn_def new_workspace_def)
  with d' fresh show ?thesis
    unfolding ws_next_def using row_next_refl by (auto simp del: row_next_refl)
qed

lemma assign_worker_table:
  "db_workspaces (snd (assign_worker t workspace k sticky d)) =
   update_where (\<lambda>w. ws_id w = ws_id workspace \<and> ws_user w = ws_user workspace \<and>
       (ws_worker w = None \<or> ws_worker w = Some k) \<and> startable (ws_state w))
     (\<lambda>w. w\<lparr>ws_worker := Some k, ws_state := STARTING, ws_desired := Want_RUNNING,
           ws_updated := t, ws_activity := t\<rparr>) (db_workspaces d)"
  by (simp add: assign_worker_def Let_def split: option.split)

lemma ws_next_assign: "ws_next (db_workspaces d) (db_workspaces (snd (assign_worker t w k sticky d)))"
  unfolding assign_worker_table
  by (rule ws_next_update) (simp add: row_moves)

lemma schedule_cases:
  assumes "scheduleWorkspaceStart selectWorker t wid u cutoff conn d = Inr (r, d')"
  shows "d' = d \<or> (\<exists>w k sticky. assign_worker t w k sticky d = (r, d'))"
  using assms
  by (auto simp: scheduleWorkspaceStart_def split: option.splits if_splits sum.splits)

text \<open>The row a reconciliation writes.\<close>

definition recovered_row :: "instant \<Rightarrow> recovered_state \<Rightarrow> ws_row \<Rightarrow> ws_row" where
  "recovered_row t s x =
     x\<lparr>ws_state := recovered_ws_state s, ws_desired := recovered_desired s (ws_desired x),
       ws_changed_at := (if s \<in> {R_RUNNING, R_STOPPED} \<and> ws_previous_image x \<noteq> None \<and>
          ws_changed_at x = None then Some t else ws_changed_at x), ws_updated := t\<rparr>"

lemma reconcile_one_cases:
  "db_workspaces (reconcile_one t k w r d) = db_workspaces d \<or>
   (\<exists>p. (\<forall>x. p x \<longrightarrow> ws_state x = WORKER_OFFLINE \<and> ws_desired x = Want_DELETED) \<and>
      reconcile_one t k w r d = delete_workspaces t p d) \<or>
   (\<exists>p. (\<forall>x. p x \<longrightarrow> ws_state x = WORKER_OFFLINE \<and> ws_desired x = wrr_desired w) \<and>
      db_workspaces (reconcile_one t k w r d) =
      update_where p (recovered_row t (recovered_as w r)) (db_workspaces d))"
proof (cases "(\<exists>i. r = Missing i) \<and> wrr_desired w = Want_DELETED")
  case True
  let ?p = "\<lambda>x. ws_id x = wr_id w \<and> ws_user x = wr_user w \<and> ws_worker x = Some k \<and>
    ws_image x = wr_image w \<and> ws_desired x = Want_DELETED \<and> ws_state x = WORKER_OFFLINE"
  have "reconcile_one t k w r d = delete_workspaces t ?p d"
    using True by (simp add: reconcile_one_def deleteRecoveredWorkspace_def Let_def)
  then show ?thesis by (intro disjI2 disjI1 exI [of _ ?p]) simp
next
  case False
  let ?p = "\<lambda>x. ws_id x = wr_id w \<and> ws_worker x = Some k \<and> ws_image x = wr_image w \<and>
    ws_desired x = wrr_desired w \<and> ws_state x = WORKER_OFFLINE"
  show ?thesis
  proof (cases "\<exists>i. r = Invalid i True")
    case True
    then show ?thesis unfolding reconcile_one_def if_not_P [OF False] if_P [OF True] by simp
  next
    case wr: False
    show ?thesis
      unfolding reconcile_one_def if_not_P [OF False] if_not_P [OF wr]
      by (intro disjI2 exI [of _ ?p]) (simp add: reconcileWorkspaceRecovery_def recovered_row_def [abs_def])
  qed
qed

lemma recovered_as_desired:
  "recovered_as w r = R_RUNNING \<Longrightarrow> wrr_desired w \<in> {Want_RUNNING, Want_UNKNOWN}"
  "recovered_as w r = R_STOPPED \<Longrightarrow> wrr_desired w \<in> {Want_STOPPED, Want_UNKNOWN}"
  by (cases r; simp split: if_splits)+

lemma row_next_recovered:
  assumes "ws_state x = WORKER_OFFLINE" "ws_desired x = wrr_desired w" "s = recovered_as w r"
  shows "row_next x (recovered_row t s x)"
proof (cases s)
  case R_RUNNING
  with assms recovered_as_desired(1) [of w r] have "ws_desired x \<in> {Want_RUNNING, Want_UNKNOWN}" by simp
  with assms R_RUNNING lifecycle_step.recover_running [of "lifecycle_of x"] show ?thesis
    by (auto simp: row_next_simps recovered_row_def)
next
  case R_STOPPED
  with assms recovered_as_desired(2) [of w r] have "ws_desired x \<in> {Want_STOPPED, Want_UNKNOWN}" by simp
  with assms R_STOPPED lifecycle_step.recover_stopped [of "lifecycle_of x"] show ?thesis
    by (auto simp: row_next_simps recovered_row_def)
next
  case R_ERROR
  with assms lifecycle_step.recover_error [of "lifecycle_of x"] show ?thesis
    by (simp add: row_next_simps recovered_row_def)
qed

lemma ws_next_reconcile:
  assumes "distinct (map ws_id (db_workspaces d))"
  shows "ws_next (db_workspaces d) (db_workspaces (reconcile_one t k w r d))"
  using reconcile_one_cases [of t k w r d]
proof (elim disjE exE conjE)
  fix p :: "ws_row \<Rightarrow> bool"
  assume "\<forall>x. p x \<longrightarrow> ws_state x = WORKER_OFFLINE \<and> ws_desired x = Want_DELETED"
    "reconcile_one t k w r d = delete_workspaces t p d"
  with ws_next_delete [OF assms, of p] show ?thesis by (simp add: removable_def)
next
  fix p :: "ws_row \<Rightarrow> bool"
  assume p: "\<forall>x. p x \<longrightarrow> ws_state x = WORKER_OFFLINE \<and> ws_desired x = wrr_desired w"
  assume e: "db_workspaces (reconcile_one t k w r d) = update_where p
    (recovered_row t (recovered_as w r)) (db_workspaces d)"
  show ?thesis
    unfolding e by (rule ws_next_update) (rule row_next_recovered; use p in blast)
qed simp

text \<open>The tables of the operations that also append an audit event.\<close>

lemma change_tables:
  "db_workspaces (snd (beginWorkspaceRuntimeChange t wid k fromImage toImage direction actor d)) =
   update_where (\<lambda>w. ws_id w = wid \<and> ws_worker w = Some k \<and> change_allowed fromImage toImage w)
     (\<lambda>w. w\<lparr>ws_state := UPGRADING, ws_image := toImage, ws_previous_image := Some fromImage,
           ws_changed_at := None, ws_updated := t\<rparr>) (db_workspaces d)"
  "db_workspaces (snd (finishWorkspaceRuntimeChange t wid k toImage actor d)) =
   update_where (\<lambda>w. ws_id w = wid \<and> ws_worker w = Some k \<and> ws_state w = UPGRADING \<and> ws_image w = toImage)
     (\<lambda>w. w\<lparr>ws_state := STOPPED, ws_changed_at := Some t, ws_updated := t\<rparr>) (db_workspaces d)"
  "db_workspaces (snd (revertWorkspaceRuntimeChange t wid k restore code actor d)) =
   update_where (\<lambda>w. ws_id w = wid \<and> ws_worker w = Some k \<and> ws_state w = UPGRADING)
     (\<lambda>w. w\<lparr>ws_state := (case rcr_state restore of Restore_STOPPED \<Rightarrow> STOPPED | Restore_ERROR \<Rightarrow> ERROR),
           ws_image := rcr_image restore, ws_previous_image := rcr_previous restore,
           ws_changed_at := rcr_changed_at restore, ws_updated := t\<rparr>) (db_workspaces d)"
  "db_workspaces (snd (beginIdleStop t wid k cutoff hours cores d)) =
   update_where (\<lambda>w. ws_id w = wid \<and> ws_worker w = Some k \<and> idle_since cutoff w)
     (\<lambda>w. w\<lparr>ws_state := STOPPING, ws_desired := Want_STOPPED, ws_stop_reason := Some Idle,
           ws_updated := t, ws_activity := t\<rparr>) (db_workspaces d)"
  by (simp_all add: beginWorkspaceRuntimeChange_def finishWorkspaceRuntimeChange_def
      revertWorkspaceRuntimeChange_def beginIdleStop_def Let_def split: option.split)

lemma begin_delete_table:
  "db_workspaces (snd (beginWorkspaceDelete t wid u k d)) =
   update_where (\<lambda>w. ws_id w = wid \<and> ws_user w = u \<and> ws_worker w = Some k \<and>
       ws_state w \<notin> {STARTING, STOPPING, DELETING, UPGRADING})
     (\<lambda>w. w\<lparr>ws_state := DELETING, ws_desired := Want_DELETED, ws_updated := t, ws_activity := t\<rparr>)
     (db_workspaces d)"
  by (simp add: beginWorkspaceDelete_def split_beta)

theorem workspace_step_next:
  assumes "workspace_step d d'" "distinct (map ws_id (db_workspaces d))"
  shows "ws_next (db_workspaces d) (db_workspaces d')"
  using assms
proof cases
  case (create t wid u name img limit r)
  then show ?thesis by (simp add: ws_next_create)
next
  case (delete_unplaced t wid u)
  then show ?thesis
    by (auto simp: deleteOwnedWorkspace_def Let_def removable_def intro!: ws_next_delete assms)
next
  case (schedule t wid u cutoff conn r)
  then show ?thesis using schedule_cases ws_next_assign ws_next_refl by (metis snd_conv)
next
  case (finish_start t wid k)
  show ?thesis
    unfolding finish_start finishWorkspaceStart_def update_one_table
    by (rule ws_next_update) (simp add: row_moves)
next
  case (begin_stop t wid u k)
  show ?thesis
    unfolding begin_stop beginWorkspaceStop_def update_one_table
    by (rule ws_next_update) (simp add: row_moves)
next
  case (finish_stop t wid k)
  show ?thesis
    unfolding finish_stop finishWorkspaceStop_def update_one_table
    by (rule ws_next_update) (simp add: row_moves)
next
  case (begin_delete t wid u k)
  show ?thesis
    unfolding begin_delete begin_delete_table
    by (rule ws_next_update) (simp add: row_moves)
next
  case (delete_confirmed t wid u k)
  then show ?thesis
    by (auto simp: deleteConfirmedWorkspace_def Let_def removable_def intro!: ws_next_delete assms)
next
  case (runtime_failure t wid k offline)
  show ?thesis
    unfolding runtime_failure markWorkspaceRuntimeFailure_def update_workspaces_table
    by (rule ws_next_update) (rule row_failed; blast)
next
  case (begin_change t wid k fromImage toImage direction actor)
  show ?thesis
    unfolding begin_change change_tables
    by (rule ws_next_update) (simp add: row_moves)
next
  case (finish_change t wid k img actor)
  show ?thesis
    unfolding finish_change change_tables
    by (rule ws_next_update) (simp add: row_moves)
next
  case (revert_change w t wid k code actor)
  show ?thesis
    unfolding revert_change(1) change_tables
    by (rule ws_next_update, rule row_change_revert)
      (use revert_change(2) in \<open>auto simp: restore_of_def runtimeChangeIncomplete_def\<close>)
next
  case (reconcile t k w r)
  then show ?thesis by (simp add: ws_next_reconcile assms)
next
  case (accessed t entries)
  then show ?thesis
    by (auto simp: recordWorkspaceAccess_def row_next_simps split: option.splits intro!: ws_next_update)
next
  case (idle_stop t wid k cutoff hours cores)
  show ?thesis
    unfolding idle_stop change_tables
    by (rule ws_next_update) (simp add: row_moves idle_since_def)
next
  case (disk_limit t wid limit audit r)
  then have "db_workspaces d' = db_workspaces d \<or>
      db_workspaces d' = update_where (\<lambda>w. ws_id w = wid)
        (\<lambda>w. w\<lparr>ws_disk_limit := limit, ws_updated := t\<rparr>) (db_workspaces d)"
    by (auto simp: updateWorkspaceDiskLimit_def Let_def split: option.splits if_splits)
  then show ?thesis
    by (auto simp: row_next_simps intro!: ws_next_update)
qed

end
