(* ===== verification/Preservation.thy ===== *)
theory Preservation
  imports Platform
begin

text \<open>
  What every step keeps. \<open>keys_safe\<close> says that at most one model key of a Workspace is live and
  that a live key belongs to an existing Workspace that is not being deleted and to an active
  account. A \<open>calm\<close> step keeps it, keeps the accounts, the Workers and the egress policy in
  order and only appends to the audit table; calm steps compose, and every operation is one
  except the issue of a key and the two changes of the policy, which are treated in \<open>Invariant\<close>.
\<close>

section \<open>The invariant\<close>

definition keys_safe :: "db \<Rightarrow> bool" where
  "keys_safe d \<longleftrightarrow>
     distinct (map mk_workspace (filter key_live (db_keys d))) \<and>
     (\<forall>k \<in> set (db_keys d). key_live k \<longrightarrow>
        (\<exists>w \<in> set (db_workspaces d). mk_workspace k = Some (ws_id w) \<and> mk_user k = ws_user w \<and>
           ws_state w \<noteq> DELETING) \<and>
        (\<exists>u \<in> set (db_users d). us_id u = mk_user k \<and> us_status u = Active))"

text \<open>A Workspace or an account keeps what its live keys need, or has no live key left.\<close>

definition workspaces_hold :: "db \<Rightarrow> db \<Rightarrow> bool" where
  "workspaces_hold d d' \<longleftrightarrow>
     (\<forall>w \<in> set (db_workspaces d). ws_state w \<noteq> DELETING \<longrightarrow>
        (\<exists>w' \<in> set (db_workspaces d'). ws_id w' = ws_id w \<and> ws_user w' = ws_user w \<and>
           ws_state w' \<noteq> DELETING) \<or>
        (\<forall>k \<in> set (db_keys d'). mk_workspace k = Some (ws_id w) \<longrightarrow> \<not> key_live k))"

definition users_hold :: "db \<Rightarrow> db \<Rightarrow> bool" where
  "users_hold d d' \<longleftrightarrow>
     (\<forall>u \<in> set (db_users d). us_status u = Active \<longrightarrow>
        (\<exists>u' \<in> set (db_users d'). us_id u' = us_id u \<and> us_status u' = Active) \<or>
        (\<forall>k \<in> set (db_keys d'). mk_user k = us_id u \<longrightarrow> \<not> key_live k))"

lemma key_next_chain:
  "list_all2 key_next xs ys \<Longrightarrow> list_all2 key_next ys zs \<Longrightarrow> list_all2 key_next xs zs"
  by (rule list_all2_trans [of key_next key_next]) (rule key_next_trans)

lemma live_keys_shrink:
  assumes "list_all2 key_next ks ks'"
  shows "distinct (map mk_workspace (filter key_live ks)) \<Longrightarrow>
    distinct (map mk_workspace (filter key_live ks'))"
    and "set (map mk_workspace (filter key_live ks')) \<subseteq> set (map mk_workspace (filter key_live ks))"
  using assms
  by (induction rule: list_all2_induct) (auto simp: key_next_def split: if_splits)

lemma keys_safe_next:
  assumes "keys_safe d" "list_all2 key_next (db_keys d) (db_keys d')"
    and "workspaces_hold d d'" "users_hold d d'"
  shows "keys_safe d'"
  unfolding keys_safe_def
proof (intro conjI ballI impI)
  show "distinct (map mk_workspace (filter key_live (db_keys d')))"
    using assms(1) live_keys_shrink(1) [OF assms(2)] by (simp add: keys_safe_def)
next
  fix k'
  assume k': "k' \<in> set (db_keys d')" "key_live k'"
  obtain k where k: "k \<in> set (db_keys d)" "key_next k k'"
    using list_all2_source [OF assms(2) k'(1)] by blast
  with k' have live: "key_live k" "mk_workspace k' = mk_workspace k" "mk_user k' = mk_user k"
    by (auto simp: key_next_def)
  obtain w u where w: "w \<in> set (db_workspaces d)" "mk_workspace k = Some (ws_id w)"
      "mk_user k = ws_user w" "ws_state w \<noteq> DELETING"
    and u: "u \<in> set (db_users d)" "us_id u = mk_user k" "us_status u = Active"
    using assms(1) k(1) live(1) by (auto simp: keys_safe_def)
  show "\<exists>w \<in> set (db_workspaces d'). mk_workspace k' = Some (ws_id w) \<and> mk_user k' = ws_user w \<and>
      ws_state w \<noteq> DELETING"
  proof -
    have "\<not> (\<forall>x \<in> set (db_keys d'). mk_workspace x = Some (ws_id w) \<longrightarrow> \<not> key_live x)"
      using k' live w(2) by auto
    with assms(3) w(1,4) obtain w' where "w' \<in> set (db_workspaces d')" "ws_id w' = ws_id w"
      "ws_user w' = ws_user w" "ws_state w' \<noteq> DELETING"
      unfolding workspaces_hold_def by blast
    with w live show ?thesis by (intro bexI [of _ w']) simp_all
  qed
  show "\<exists>u \<in> set (db_users d'). us_id u = mk_user k' \<and> us_status u = Active"
  proof -
    have "\<not> (\<forall>x \<in> set (db_keys d'). mk_user x = us_id u \<longrightarrow> \<not> key_live x)"
      using k' live u(2) by auto
    with assms(4) u(1,3) obtain u' where "u' \<in> set (db_users d')" "us_id u' = us_id u" "us_status u' = Active"
      unfolding users_hold_def by blast
    with u(2) live show ?thesis by auto
  qed
qed

lemma workspaces_hold_same: "db_workspaces d' = db_workspaces d \<Longrightarrow> workspaces_hold d d'"
  by (auto simp: workspaces_hold_def)

lemma users_hold_same: "db_users d' = db_users d \<Longrightarrow> users_hold d d'"
  by (auto simp: users_hold_def)

lemma workspaces_hold_pointwise:
  assumes "list_all2 (\<lambda>w w'. ws_id w' = ws_id w \<and> ws_user w' = ws_user w \<and>
      (ws_state w' = DELETING \<longrightarrow> ws_state w = DELETING)) (db_workspaces d) (db_workspaces d')"
  shows "workspaces_hold d d'"
  unfolding workspaces_hold_def using list_all2_target [OF assms] by blast

lemma workspaces_hold_update:
  assumes "db_workspaces d' = update_where p f (db_workspaces d)"
    and "\<And>w. p w \<Longrightarrow> ws_id (f w) = ws_id w \<and> ws_user (f w) = ws_user w \<and>
      (ws_state (f w) = DELETING \<longrightarrow> ws_state w = DELETING)"
  shows "workspaces_hold d d'"
  by (rule workspaces_hold_pointwise) (simp add: assms list_all2_update_where)

section \<open>Deletions\<close>

lemma delete_row_keys:
  "list_all2 key_next (db_keys d) (db_keys (delete_workspace_row t r d))"
  "k \<in> set (db_keys (delete_workspace_row t r d)) \<Longrightarrow> mk_workspace k \<noteq> Some (ws_id r)"
proof -
  let ?d1 = "model_keys_request_revoke t (Some (ws_id r)) None Workspace_Deleted d"
  have e: "db_keys (delete_workspace_row t r d) =
      update_where (\<lambda>k. mk_workspace k = Some (ws_id r)) (\<lambda>k. k\<lparr>mk_workspace := None\<rparr>) (db_keys ?d1)"
    by (simp add: delete_workspace_row_def Let_def audit_workspace_delete_def)
  show "k \<in> set (db_keys (delete_workspace_row t r d)) \<Longrightarrow> mk_workspace k \<noteq> Some (ws_id r)"
    unfolding e by (auto simp: set_update_where)
  have "list_all2 key_next (db_keys ?d1) (db_keys (delete_workspace_row t r d))"
    unfolding e
  proof (rule list_all2_update_where)
    fix k
    assume "k \<in> set (db_keys ?d1)" "mk_workspace k = Some (ws_id r)"
    then have "\<not> key_live k" using no_live_after_request by blast
    then show "key_next k (k\<lparr>mk_workspace := None\<rparr>)" by (simp add: key_next_def key_live_def)
  qed simp
  with cascadeD(9) [OF cascade_request_revoke]
  show "list_all2 key_next (db_keys d) (db_keys (delete_workspace_row t r d))"
    by (rule key_next_chain)
qed

lemma delete_rows_keys:
  "list_all2 key_next (db_keys d) (db_keys (fold (delete_workspace_row t) rs d)) \<and>
   (\<forall>r \<in> set rs. \<forall>k \<in> set (db_keys (fold (delete_workspace_row t) rs d)).
      mk_workspace k = Some (ws_id r) \<longrightarrow> \<not> key_live k)"
proof (induction rs arbitrary: d)
  case Nil
  show ?case by (simp add: list_all2_refl_on)
next
  case (Cons r rs)
  let ?e = "delete_workspace_row t r d" and ?f = "fold (delete_workspace_row t) (r # rs) d"
  have ef: "list_all2 key_next (db_keys ?e) (db_keys ?f)" using Cons [of ?e] by simp
  have "list_all2 key_next (db_keys d) (db_keys ?f)"
    using delete_row_keys(1) ef by (rule key_next_chain)
  moreover have "\<not> key_live k" if "k \<in> set (db_keys ?f)" "mk_workspace k = Some (ws_id r)" for k
  proof
    assume "key_live k"
    with list_all2_source [OF ef that(1)] that(2) obtain k0
      where "k0 \<in> set (db_keys ?e)" "mk_workspace k0 = Some (ws_id r)"
      by (auto simp: key_next_def)
    with delete_row_keys(2) show False by blast
  qed
  moreover have "\<forall>r \<in> set rs. \<forall>k \<in> set (db_keys ?f). mk_workspace k = Some (ws_id r) \<longrightarrow> \<not> key_live k"
    using Cons [of ?e] by simp
  ultimately show ?case by auto
qed

lemma delete_rows_frame [simp]:
  "db_users (fold (delete_workspace_row t) rs d) = db_users d"
  "db_workers (fold (delete_workspace_row t) rs d) = db_workers d"
  "audit_extends d (fold (delete_workspace_row t) rs d)"
  "db_egress_rules (fold (delete_workspace_row t) rs d) = db_egress_rules d"
  "db_egress_revision (fold (delete_workspace_row t) rs d) = db_egress_revision d"
proof -
  show "db_users (fold (delete_workspace_row t) rs d) = db_users d"
    "db_workers (fold (delete_workspace_row t) rs d) = db_workers d"
    "db_egress_rules (fold (delete_workspace_row t) rs d) = db_egress_rules d"
    "db_egress_revision (fold (delete_workspace_row t) rs d) = db_egress_revision d"
    by (rule fold_frame; simp add: delete_workspace_row_def Let_def audit_workspace_delete_def)+
  show "audit_extends d (fold (delete_workspace_row t) rs d)"
    by (rule fold_audit_extends) (simp add: delete_workspace_row_def Let_def audit_workspace_delete_def)
qed

lemma delete_workspaces_safe:
  "list_all2 key_next (db_keys d) (db_keys (delete_workspaces t p d))"
  "workspaces_hold d (delete_workspaces t p d)"
  "db_users (delete_workspaces t p d) = db_users d"
  "db_workers (delete_workspaces t p d) = db_workers d"
  "audit_extends d (delete_workspaces t p d)"
  "db_egress_rules (delete_workspaces t p d) = db_egress_rules d"
  "db_egress_revision (delete_workspaces t p d) = db_egress_revision d"
proof -
  let ?rs = "filter p (db_workspaces d)"
  note keys = delete_rows_keys [of d t ?rs, folded delete_workspaces_def]
  show "list_all2 key_next (db_keys d) (db_keys (delete_workspaces t p d))" using keys by blast
  show "workspaces_hold d (delete_workspaces t p d)"
    unfolding workspaces_hold_def
  proof (intro ballI impI)
    fix w
    assume w: "w \<in> set (db_workspaces d)" "ws_state w \<noteq> DELETING"
    show "(\<exists>w' \<in> set (db_workspaces (delete_workspaces t p d)). ws_id w' = ws_id w \<and>
        ws_user w' = ws_user w \<and> ws_state w' \<noteq> DELETING) \<or>
        (\<forall>k \<in> set (db_keys (delete_workspaces t p d)). mk_workspace k = Some (ws_id w) \<longrightarrow> \<not> key_live k)"
    proof (cases "ws_id w \<in> ws_id ` set ?rs")
      case True
      with keys show ?thesis by auto
    next
      case False
      with w have "w \<in> set (db_workspaces (delete_workspaces t p d))"
        by (simp add: delete_workspaces_table)
      with w show ?thesis by blast
    qed
  qed
qed (simp_all add: delete_workspaces_def)

section \<open>Calm steps\<close>

definition workers_hold :: "db \<Rightarrow> db \<Rightarrow> bool" where
  "workers_hold d d' \<longleftrightarrow>
     (distinct (map wk_id (db_workers d)) \<and> list_all worker_ok (db_workers d) \<longrightarrow>
      distinct (map wk_id (db_workers d')) \<and> list_all worker_ok (db_workers d'))"

text \<open>Account ids stay unique, and some administrator can log in if one could before.\<close>

definition accounts_hold :: "db \<Rightarrow> db \<Rightarrow> bool" where
  "accounts_hold d d' \<longleftrightarrow>
     (distinct (map us_id (db_users d)) \<longrightarrow>
      distinct (map us_id (db_users d')) \<and>
      (list_ex active_local_admin (db_users d) \<longrightarrow> list_ex active_local_admin (db_users d')))"

definition same_policy :: "db \<Rightarrow> db \<Rightarrow> bool" where
  "same_policy d d' \<longleftrightarrow>
     db_egress_rules d' = db_egress_rules d \<and> db_egress_revision d' = db_egress_revision d"

definition calm :: "db \<Rightarrow> db \<Rightarrow> bool" where
  "calm d d' \<longleftrightarrow>
     list_all2 key_next (db_keys d) (db_keys d') \<and> workspaces_hold d d' \<and> users_hold d d' \<and>
     accounts_hold d d' \<and> workers_hold d d' \<and> same_policy d d' \<and> audit_extends d d'"

lemma same_policy_refl [simp]: "same_policy d d"
  by (simp add: same_policy_def)

lemma same_policy_update [simp]: "same_policy d (update_workspaces t p f d)"
  by (simp add: same_policy_def)

lemma holds_same:
  "db_users d' = db_users d \<Longrightarrow> accounts_hold d d'"
  "db_workers d' = db_workers d \<Longrightarrow> workers_hold d d'"
  by (simp_all add: accounts_hold_def workers_hold_def)

lemma calm_keys_safe: "calm d d' \<Longrightarrow> keys_safe d \<Longrightarrow> keys_safe d'"
  by (simp add: calm_def keys_safe_next)

lemma calmI:
  "db_keys d' = db_keys d \<Longrightarrow> workspaces_hold d d' \<Longrightarrow> db_users d' = db_users d \<Longrightarrow> audit_extends d d' \<Longrightarrow>
   db_workers d' = db_workers d \<Longrightarrow> same_policy d d' \<Longrightarrow> calm d d'"
  by (simp add: calm_def users_hold_same holds_same list_all2_refl_on)

lemma calm_refl [simp]: "calm d d"
  by (simp add: calmI workspaces_hold_same)

lemma calm_delete: "calm d (delete_workspaces t p d)"
  by (simp add: calm_def same_policy_def delete_workspaces_safe users_hold_same holds_same)

lemma calm_update:
  assumes "db_keys d' = db_keys d" "db_users d' = db_users d"
    "audit_extends d d' \<and> db_workers d' = db_workers d \<and> same_policy d d'"
    "db_workspaces d' = update_where p f (db_workspaces d)"
    "\<And>w. p w \<Longrightarrow> ws_id (f w) = ws_id w \<and> ws_user (f w) = ws_user w \<and>
      (ws_state (f w) = DELETING \<longrightarrow> ws_state w = DELETING)"
  shows "calm d d'"
  by (intro calmI workspaces_hold_update [of d' p f d]) (simp_all add: assms)

lemma update_one_frame [simp]:
  "db_users (snd (update_one t p f d)) = db_users d"
  "db_keys (snd (update_one t p f d)) = db_keys d"
  "audit_extends d (snd (update_one t p f d))"
  "db_workers (snd (update_one t p f d)) = db_workers d"
  "same_policy d (snd (update_one t p f d))"
  by (simp_all add: update_one_def same_policy_def)

lemma change_frames [simp]:
  "db_users (snd (beginWorkspaceRuntimeChange t wid k f img dir a d)) = db_users d"
  "db_keys (snd (beginWorkspaceRuntimeChange t wid k f img dir a d)) = db_keys d"
  "audit_extends d (snd (beginWorkspaceRuntimeChange t wid k f img dir a d))"
  "db_workers (snd (beginWorkspaceRuntimeChange t wid k f img dir a d)) = db_workers d"
  "same_policy d (snd (beginWorkspaceRuntimeChange t wid k f img dir a d))"
  "db_users (snd (finishWorkspaceRuntimeChange t wid k img a d)) = db_users d"
  "db_keys (snd (finishWorkspaceRuntimeChange t wid k img a d)) = db_keys d"
  "audit_extends d (snd (finishWorkspaceRuntimeChange t wid k img a d))"
  "db_workers (snd (finishWorkspaceRuntimeChange t wid k img a d)) = db_workers d"
  "same_policy d (snd (finishWorkspaceRuntimeChange t wid k img a d))"
  "db_users (snd (revertWorkspaceRuntimeChange t wid k r c a d)) = db_users d"
  "db_keys (snd (revertWorkspaceRuntimeChange t wid k r c a d)) = db_keys d"
  "audit_extends d (snd (revertWorkspaceRuntimeChange t wid k r c a d))"
  "db_workers (snd (revertWorkspaceRuntimeChange t wid k r c a d)) = db_workers d"
  "same_policy d (snd (revertWorkspaceRuntimeChange t wid k r c a d))"
  "db_users (snd (beginIdleStop t wid k cutoff h q d)) = db_users d"
  "db_keys (snd (beginIdleStop t wid k cutoff h q d)) = db_keys d"
  "audit_extends d (snd (beginIdleStop t wid k cutoff h q d))"
  "db_workers (snd (beginIdleStop t wid k cutoff h q d)) = db_workers d"
  "same_policy d (snd (beginIdleStop t wid k cutoff h q d))"
  by (simp_all add: beginWorkspaceRuntimeChange_def finishWorkspaceRuntimeChange_def
      revertWorkspaceRuntimeChange_def beginIdleStop_def same_policy_def Let_def split: option.split)

lemma assign_worker_frame [simp]:
  "db_users (snd (assign_worker t w k s d)) = db_users d"
  "db_keys (snd (assign_worker t w k s d)) = db_keys d"
  "audit_extends d (snd (assign_worker t w k s d))"
  "db_workers (snd (assign_worker t w k s d)) = db_workers d"
  "same_policy d (snd (assign_worker t w k s d))"
  by (simp_all add: assign_worker_def same_policy_def Let_def split: option.split)

lemma calm_begin_delete:
  assumes "distinct (map ws_id (db_workspaces d))"
  shows "calm d (snd (beginWorkspaceDelete t wid u k d))"
proof -
  define p where "p = (\<lambda>w :: ws_row. ws_id w = wid \<and> ws_user w = u \<and> ws_worker w = Some k \<and>
    ws_state w \<notin> {STARTING, STOPPING, DELETING, UPGRADING})"
  define f where "f = (\<lambda>w :: ws_row. w\<lparr>ws_state := DELETING, ws_desired := Want_DELETED,
    ws_updated := t, ws_activity := t\<rparr>)"
  define d1 where "d1 = update_workspaces t p f d"
  have e: "snd (beginWorkspaceDelete t wid u k d) =
      (if length (filter p (db_workspaces d)) = 1
       then model_keys_request_revoke t (Some wid) None Workspace_Deleted d1 else d1)"
    by (simp add: beginWorkspaceDelete_def update_one_def d1_def p_def f_def)
  show ?thesis
  proof (cases "length (filter p (db_workspaces d)) = 1")
    case True
    let ?e = "model_keys_request_revoke t (Some wid) None Workspace_Deleted d1"
    have gone: "\<not> key_live x" if "x \<in> set (db_keys ?e)" "mk_workspace x = Some wid" for x
      using no_live_after_request that by blast
    have "workspaces_hold d ?e"
      unfolding workspaces_hold_def
    proof (intro ballI impI)
      fix w
      assume w: "w \<in> set (db_workspaces d)" "ws_state w \<noteq> DELETING"
      show "(\<exists>w' \<in> set (db_workspaces ?e). ws_id w' = ws_id w \<and> ws_user w' = ws_user w \<and>
          ws_state w' \<noteq> DELETING) \<or>
          (\<forall>x \<in> set (db_keys ?e). mk_workspace x = Some (ws_id w) \<longrightarrow> \<not> key_live x)"
      proof (cases "p w")
        case True
        then show ?thesis using gone by (auto simp: p_def)
      next
        case False
        with w have "w \<in> set (db_workspaces ?e)" by (simp add: d1_def set_update_where)
        with w show ?thesis by blast
      qed
    qed
    moreover have "list_all2 key_next (db_keys d) (db_keys ?e)"
      using cascadeD(9) [OF cascade_request_revoke, of d1 t "Some wid" None Workspace_Deleted]
      by (simp add: d1_def)
    moreover have "audit_extends d ?e"
      by (rule audit_extends_trans [of _ d1]) (simp_all add: d1_def)
    ultimately show ?thesis using True 
      by (simp add: e calm_def users_hold_same holds_same same_policy_def d1_def)
  next
    case False
    have "length (filter p (db_workspaces d)) \<le> 1"
      by (rule filter_key_length [OF assms, where k = wid]) (simp add: p_def)
    with False have "filter p (db_workspaces d) = []"
      by (cases "filter p (db_workspaces d)") auto
    then have "db_workspaces d1 = db_workspaces d"
      by (simp add: d1_def update_where_none filter_empty_conv)
    with False show ?thesis
      by (simp add: e calmI workspaces_hold_same same_policy_def d1_def)
  qed
qed

lemma calm_reconcile: "calm d (reconcile_one t k w r d)"
proof (cases "(\<exists>i. r = Missing i) \<and> wrr_desired w = Want_DELETED")
  case True
  then show ?thesis
    by (simp add: reconcile_one_def deleteRecoveredWorkspace_def Let_def calm_delete)
next
  case False
  show ?thesis
  proof (cases "\<exists>i. r = Invalid i True")
    case True
    then show ?thesis
      unfolding reconcile_one_def if_not_P [OF False] if_P [OF True] by simp
  next
    case wr: False
    show ?thesis
      unfolding reconcile_one_def if_not_P [OF False] if_not_P [OF wr] reconcileWorkspaceRecovery_def
      by (intro calm_update [OF _ _ _ update_one_table])
        (cases "recovered_as w r"; simp)+
  qed
qed

lemma workspace_step_calm:
  assumes "workspace_step d d'" "distinct (map ws_id (db_workspaces d))"
  shows "calm d d'"
  using assms
proof cases
  case (create t wid u name img limit r)
  then show ?thesis
    by (auto simp: createWorkspace_def Let_def insert_workspace_def audit_workspace_insert_def
        workspaces_hold_def same_policy_def split: sum.splits if_splits intro!: calmI)
next
  case (delete_unplaced t wid u)
  then show ?thesis by (simp add: deleteOwnedWorkspace_def Let_def calm_delete)
next
  case (schedule t wid u cutoff conn r)
  then consider "d' = d" | w k sticky where "assign_worker t w k sticky d = (r, d')"
    using schedule_cases by blast
  then show ?thesis
  proof cases
    case 1
    then show ?thesis by (simp add: calmI workspaces_hold_same)
  next
    case 2
    then have d': "d' = snd (assign_worker t w k sticky d)" by simp
    show ?thesis unfolding d' by (rule calm_update [OF _ _ _ assign_worker_table]) simp_all
  qed
next
  case (begin_delete t wid u k)
  then show ?thesis using assms(2) by (simp add: calm_begin_delete)
next
  case (delete_confirmed t wid u k)
  then show ?thesis by (simp add: deleteConfirmedWorkspace_def Let_def calm_delete)
next
  case (begin_change t wid k fromImage toImage direction actor)
  show ?thesis unfolding begin_change by (rule calm_update [OF _ _ _ change_tables(1)]) simp_all
next
  case (finish_change t wid k img actor)
  show ?thesis unfolding finish_change by (rule calm_update [OF _ _ _ change_tables(2)]) simp_all
next
  case (revert_change w t wid k code actor)
  show ?thesis
    unfolding revert_change(1)
    by (rule calm_update [OF _ _ _ change_tables(3)]) (simp_all split: restore_state.split)
next
  case (idle_stop t wid k cutoff hours cores)
  show ?thesis unfolding idle_stop by (rule calm_update [OF _ _ _ change_tables(4)]) simp_all
next
  case (reconcile t k w r)
  then show ?thesis by (simp add: calm_reconcile)
next
  case (accessed t entries)
  show ?thesis
  proof (cases "entries = []")
    case True
    with accessed show ?thesis by (simp add: recordWorkspaceAccess_def calmI workspaces_hold_same)
  next
    case False
    then show ?thesis
      unfolding accessed recordWorkspaceAccess_def if_not_P [OF False]
      by (intro calm_update [OF _ _ _ update_workspaces_table]) (auto split: option.split)
  qed
next
  case (disk_limit t wid limit audit r)
  then consider "d' = d" | "db_workspaces d' = update_where (\<lambda>w. ws_id w = wid)
      (\<lambda>w. w\<lparr>ws_disk_limit := limit, ws_updated := t\<rparr>) (db_workspaces d)"
      "db_users d' = db_users d" "db_keys d' = db_keys d"
      "audit_extends d d' \<and> db_workers d' = db_workers d \<and> same_policy d d'"
    by (auto simp: updateWorkspaceDiskLimit_def Let_def same_policy_def
        split: option.splits if_splits)
  then show ?thesis
  proof cases
    case 1
    then show ?thesis by (simp add: calmI workspaces_hold_same)
  next
    case 2
    then show ?thesis by (intro calm_update [OF _ _ _ 2(1)]) simp_all
  qed
next
  case (runtime_failure t wid k offline)
  show ?thesis
    unfolding runtime_failure markWorkspaceRuntimeFailure_def
    by (intro calm_update [OF _ _ _ update_workspaces_table]) simp_all
next
  case (finish_start t wid k)
  show ?thesis
    unfolding finish_start finishWorkspaceStart_def
    by (rule calm_update [OF _ _ _ update_one_table]) simp_all
next
  case (begin_stop t wid u k)
  show ?thesis
    unfolding begin_stop beginWorkspaceStop_def
    by (rule calm_update [OF _ _ _ update_one_table]) simp_all
next
  case (finish_stop t wid k)
  show ?thesis
    unfolding finish_stop finishWorkspaceStop_def
    by (rule calm_update [OF _ _ _ update_one_table]) simp_all
qed

section \<open>Calm steps compose\<close>

lemma no_live_forward:
  assumes "list_all2 key_next ks ks'"
  shows "(\<forall>k \<in> set ks. mk_workspace k = Some i \<longrightarrow> \<not> key_live k) \<Longrightarrow>
    \<forall>k \<in> set ks'. mk_workspace k = Some i \<longrightarrow> \<not> key_live k"
    and "(\<forall>k \<in> set ks. mk_user k = u \<longrightarrow> \<not> key_live k) \<Longrightarrow>
    \<forall>k \<in> set ks'. mk_user k = u \<longrightarrow> \<not> key_live k"
  using list_all2_source [OF assms] by (fastforce simp: key_next_def)+

lemma calm_trans [trans]:
  assumes "calm d e" "calm e f"
  shows "calm d f"
proof -
  have ef: "list_all2 key_next (db_keys e) (db_keys f)"
    and de: "list_all2 key_next (db_keys d) (db_keys e)"
    using assms by (simp_all add: calm_def)
  have "workspaces_hold d f"
    unfolding workspaces_hold_def
  proof (intro ballI impI)
    fix w
    assume w: "w \<in> set (db_workspaces d)" "ws_state w \<noteq> DELETING"
    from assms(1) w consider
      (kept) x where "x \<in> set (db_workspaces e)" "ws_id x = ws_id w" "ws_user x = ws_user w" "ws_state x \<noteq> DELETING"
      | (dead) "\<forall>k \<in> set (db_keys e). mk_workspace k = Some (ws_id w) \<longrightarrow> \<not> key_live k"
      unfolding calm_def workspaces_hold_def by blast
    then show "(\<exists>w' \<in> set (db_workspaces f). ws_id w' = ws_id w \<and> ws_user w' = ws_user w \<and>
        ws_state w' \<noteq> DELETING) \<or>
        (\<forall>k \<in> set (db_keys f). mk_workspace k = Some (ws_id w) \<longrightarrow> \<not> key_live k)"
    proof cases
      case kept
      with assms(2) show ?thesis unfolding calm_def workspaces_hold_def by metis
    next
      case dead
      then show ?thesis using no_live_forward(1) [OF ef] by blast
    qed
  qed
  moreover have "users_hold d f"
    unfolding users_hold_def
  proof (intro ballI impI)
    fix u
    assume u: "u \<in> set (db_users d)" "us_status u = Active"
    from assms(1) u consider
      (kept) x where "x \<in> set (db_users e)" "us_id x = us_id u" "us_status x = Active"
      | (dead) "\<forall>k \<in> set (db_keys e). mk_user k = us_id u \<longrightarrow> \<not> key_live k"
      unfolding calm_def users_hold_def by blast
    then show "(\<exists>u' \<in> set (db_users f). us_id u' = us_id u \<and> us_status u' = Active) \<or>
        (\<forall>k \<in> set (db_keys f). mk_user k = us_id u \<longrightarrow> \<not> key_live k)"
    proof cases
      case kept
      with assms(2) show ?thesis unfolding calm_def users_hold_def by metis
    next
      case dead
      then show ?thesis using no_live_forward(2) [OF ef] by blast
    qed
  qed
  moreover have "accounts_hold d f" "workers_hold d f" "same_policy d f" "audit_extends d f"
    using assms audit_extends_trans [of d e f]
    by (simp_all add: calm_def accounts_hold_def workers_hold_def same_policy_def)
  ultimately show ?thesis
    using key_next_chain [OF de ef] by (simp add: calm_def)
qed

lemma calm_quiet:
  "db_keys d' = db_keys d \<Longrightarrow> db_workspaces d' = db_workspaces d \<Longrightarrow> db_users d' = db_users d \<Longrightarrow>
   db_workers d' = db_workers d \<Longrightarrow> same_policy d d' \<Longrightarrow> audit_extends d d' \<Longrightarrow> calm d d'"
  by (simp add: calmI workspaces_hold_same)

lemma calm_insert_audit [simp]: "calm d e \<Longrightarrow> calm d (insert_audit t ev a ow w k j e)"
  by (rule calm_trans [of _ e]) (simp_all add: calm_quiet same_policy_def)

lemma worker_change_calm: "worker_change d d' \<Longrightarrow> calm d d'"
proof -
  assume w: "worker_change d d'"
  have "workspaces_hold d d'"
    by (rule workspaces_hold_pointwise)
      (rule list_all2_mono [OF worker_changeD(8) [OF w]], auto simp: step_defs)
  moreover have "workers_hold d d'"
  proof -
    have ids: "map wk_id (db_workers d') = map wk_id (db_workers d)"
      by (rule list_all2_map_eq [OF worker_changeD(7) [OF w]]) (simp add: worker_next_def)
    have "list_all worker_ok (db_workers d')" if "list_all worker_ok (db_workers d)"
      using list_all2_source [OF worker_changeD(7) [OF w]] that
      by (fastforce simp: list_all_iff worker_next_def)
    with ids show ?thesis by (simp add: workers_hold_def)
  qed
  ultimately show ?thesis
    using worker_changeD [OF w] by (simp add: calm_def users_hold_same holds_same same_policy_def)
qed

lemma calm_workers:
  "calm d e \<Longrightarrow> workers_hold e (e\<lparr>db_workers := ws\<rparr>) \<Longrightarrow> calm d (e\<lparr>db_workers := ws\<rparr>)"
  by (erule calm_trans)
    (simp add: calm_def workspaces_hold_same users_hold_same holds_same same_policy_def
      list_all2_refl_on)

lemma insert_worker_calm:
  assumes "insert_worker t w d = Inr d'" "worker_ok w"
  shows "calm d d'"
proof -
  from assms(1) have fresh: "wk_id w \<notin> wk_id ` set (db_workers d)"
    and d': "d' = insert_audit t ''worker.registered'' None None None (Some (wk_id w)) (JObj [])
      (d\<lparr>db_workers := db_workers d @ [w]\<rparr>)"
    by (auto simp: insert_worker_def split: if_splits)
  show ?thesis
    unfolding d' using fresh assms(2)
    by (intro calm_insert_audit calm_workers calm_refl) (auto simp: workers_hold_def)
qed

lemma worker_step_calm:
  assumes "worker_step d d'"
  shows "calm d d'"
  using assms
proof cases
  case (provision t k hash url)
  then show ?thesis
    by (auto simp: provisionWorkerWithGateway_def new_worker_def worker_ok_def within_capacity_def
        intro: insert_worker_calm)
next
  case (rotate t k hash b)
  then show ?thesis by (simp add: worker_change_calm rotate_change)
next
  case (enable t k hash r)
  then show ?thesis by (simp add: worker_change_calm enable_change)
next
  case (delete_worker t k)
  then show ?thesis
    by (auto simp: deleteWorker_def Let_def delete_worker_row_def workers_hold_def delete_where_def
        list_all_iff distinct_map_filter' split: option.splits
        intro!: calm_insert_audit calm_workers [OF calm_refl])
next
  case (hello t h b)
  then show ?thesis by (simp add: worker_change_calm hello_change)
next
  case (heartbeat t hb i)
  then show ?thesis by (simp add: worker_change_calm heartbeat_change)
qed (simp_all add: worker_change_calm cascade_worker_change)

section \<open>Accounts\<close>

lemma disable_frames [simp]:
  "db_workspaces (model_keys_on_user_disable t old new d) = db_workspaces d"
  "db_users (model_keys_on_user_disable t old new d) = db_users d"
  "db_sessions (model_keys_on_user_disable t old new d) = db_sessions d"
  "db_identities (model_keys_on_user_disable t old new d) = db_identities d"
  "db_workers (model_keys_on_user_disable t old new d) = db_workers d"
  "db_egress_rules (model_keys_on_user_disable t old new d) = db_egress_rules d"
  "db_egress_revision (model_keys_on_user_disable t old new d) = db_egress_revision d"
  by (simp_all add: model_keys_on_user_disable_def)

lemma update_users_frame [simp]:
  "db_workspaces (update_users t p f d) = db_workspaces d"
  "db_sessions (update_users t p f d) = db_sessions d"
  "db_identities (update_users t p f d) = db_identities d"
  "db_workers (update_users t p f d) = db_workers d"
  "db_egress_rules (update_users t p f d) = db_egress_rules d"
  "db_egress_revision (update_users t p f d) = db_egress_revision d"
  "db_users (update_users t p f d) = update_where p f (db_users d)"
  by (simp_all add: update_users_def fold_frame)

lemma update_users_keys:
  "list_all2 key_next (db_keys d) (db_keys (update_users t p f d))"
  "audit_extends d (update_users t p f d)"
  using cascadeD(9,10) [OF cascade_update_users [of p f d t]] by simp_all

lemma disable_fold_revokes:
  "u \<in> set us \<Longrightarrow> us_status u = Active \<Longrightarrow> us_status (f u) = Disabled \<Longrightarrow>
   \<forall>k \<in> set (db_keys (fold (\<lambda>u. model_keys_on_user_disable t u (f u)) us d)).
     mk_user k = us_id (f u) \<longrightarrow> \<not> key_live k"
proof (induction us arbitrary: d)
  case (Cons v us)
  let ?e = "model_keys_on_user_disable t v (f v) d"
  have step: "cascade s (fold (\<lambda>u. model_keys_on_user_disable t u (f u)) us s)" for s
    by (rule cascade_fold) (simp add: model_keys_on_user_disable_def)
  show ?case
  proof (cases "u = v")
    case True
    with Cons.prems have "\<forall>k \<in> set (db_keys ?e). mk_user k = us_id (f u) \<longrightarrow> \<not> key_live k"
      using no_live_after_request [of _ t None "Some (us_id (f v))" User_Disabled d]
      by (auto simp: model_keys_on_user_disable_def)
    then show ?thesis
      using no_live_forward(2) [OF cascadeD(9) [OF step]] by simp
  next
    case False
    with Cons show ?thesis by simp
  qed
qed simp

lemma calm_update_users:
  assumes "\<And>u. us_id (f u) = us_id u"
    and admin: "distinct (map us_id (db_users d)) \<Longrightarrow> list_ex active_local_admin (db_users d) \<Longrightarrow>
      list_ex active_local_admin (update_where p f (db_users d))"
  shows "calm d (update_users t p f d)"
proof -
  have "users_hold d (update_users t p f d)"
    unfolding users_hold_def
  proof (intro ballI impI)
    fix u
    assume u: "u \<in> set (db_users d)" "us_status u = Active"
    show "(\<exists>u' \<in> set (db_users (update_users t p f d)). us_id u' = us_id u \<and> us_status u' = Active) \<or>
        (\<forall>k \<in> set (db_keys (update_users t p f d)). mk_user k = us_id u \<longrightarrow> \<not> key_live k)"
    proof (cases "p u \<and> us_status (f u) = Disabled")
      case True
      then show ?thesis
        using disable_fold_revokes [of u "filter p (db_users d)" f t] u
        by (simp add: update_users_def assms)
    next
      case False
      then have "us_status (if p u then f u else u) = Active"
        using u(2) by (cases "us_status (f u)") auto
      moreover have "(if p u then f u else u) \<in> set (update_where p f (db_users d))"
        using u(1) by (simp add: update_where_def)
      ultimately show ?thesis
        using assms by (intro disjI1 bexI [of _ "if p u then f u else u"]) simp_all
    qed
  qed
  moreover have "accounts_hold d (update_users t p f d)"
    using admin by (simp add: accounts_hold_def map_update_where assms(1))
  ultimately show ?thesis
    by (simp add: calm_def update_users_keys workspaces_hold_same holds_same same_policy_def)
qed

lemma admin_update:
  assumes "\<And>u. p u \<Longrightarrow> active_local_admin u \<Longrightarrow> active_local_admin (f u)"
    and "list_ex active_local_admin us"
  shows "list_ex active_local_admin (update_where p f us)"
  using assms by (auto simp: list_ex_iff update_where_def)

lemma calm_other_tables [simp]:
  "calm d (e\<lparr>db_sessions := a\<rparr>) = calm d e"
  "calm d (e\<lparr>db_identities := b\<rparr>) = calm d e"
  "calm d (e\<lparr>db_throttle := x\<rparr>) = calm d e"
  by (simp_all add: calm_def workspaces_hold_def users_hold_def audit_extends_def
      audit_numbered_def accounts_hold_def workers_hold_def same_policy_def)

lemma calm_users_chain [simp]:
  "calm d e \<Longrightarrow> (\<And>u. us_id (f u) = us_id u) \<Longrightarrow>
   (\<And>u. p u \<Longrightarrow> active_local_admin u \<Longrightarrow> active_local_admin (f u)) \<Longrightarrow> calm d (update_users t p f e)"
  by (rule calm_trans [of _ e]) (simp_all add: calm_update_users admin_update)

lemma insert_user_calm: "insert_user u d = Inr d' \<Longrightarrow> calm d d'"
  by (auto simp: insert_user_def calm_def list_all2_refl_on workspaces_hold_def users_hold_def
      accounts_hold_def workers_hold_def same_policy_def split: if_splits)

lemma insert_session_Inr: "insert_session s d = Inr d' \<Longrightarrow> d' = d\<lparr>db_sessions := db_sessions d @ [s]\<rparr>"
  by (auto simp: insert_session_def split: if_splits)

lemma calm_revoke_sessions [simp]: "calm d e \<Longrightarrow> calm d (revoke_sessions_where t p e)"
  by (simp add: revoke_sessions_where_def)

lemma calm_managed_audit [simp]: "calm d e \<Longrightarrow> calm d (managed_user_audit t uid target r s a e)"
  by (simp add: managed_user_audit_def Let_def split: option.split prod.split)

lemma calm_touch_user [simp]:
  "calm d e \<Longrightarrow> calm d (update_users t p (\<lambda>u. u\<lparr>us_last_login := a, us_updated := b\<rparr>) e)"
  by (rule calm_users_chain) (simp_all add: active_local_admin_def)

lemma calm_finish_login:
  assumes "calm d e" "finish_external_login t x b u e = Inr (r, d')"
  shows "calm d d'"
  using assms
  by (auto simp: finish_external_login_def record_login_failure_def Let_def
      dest!: insert_session_Inr split: if_splits option.splits sum.splits)

lemma calm_provision:
  assumes "provision_external_user t x pu d = Inr (u, d')"
  shows "calm d d'"
  using assms
  by (auto simp: provision_external_user_def Let_def dest!: insert_user_calm
      split: if_splits option.splits sum.splits)

text \<open>The guard of \<open>updateManagedUser\<close>: a change that takes an administrator out needs another.\<close>

lemma calm_manage_update:
  assumes target: "first_row (filter (\<lambda>u. us_id u = uid) (db_users d)) = Some target"
    and guard: "\<not> (us_role target = Admin \<and> us_status target = Active \<and> (role \<noteq> Admin \<or> status \<noteq> Active) \<and>
      filter (\<lambda>u. us_id u \<noteq> uid \<and> active_local_admin u) (db_users d) = [])"
  shows "calm d (update_users t (\<lambda>u. us_id u = uid)
    (\<lambda>u. u\<lparr>us_role := role, us_status := status, us_updated := t\<rparr>) d)"
proof (rule calm_update_users)
  let ?p = "\<lambda>u. us_id u = uid" and ?f = "\<lambda>u. u\<lparr>us_role := role, us_status := status, us_updated := t\<rparr>"
  assume distinct: "distinct (map us_id (db_users d))" and admin: "list_ex active_local_admin (db_users d)"
  obtain a where a: "a \<in> set (db_users d)" "active_local_admin a"
    using admin by (auto simp: list_ex_iff)
  have kept: "x \<in> set (update_where ?p ?f (db_users d))" if "x \<in> set (db_users d)" "us_id x \<noteq> uid" for x
    using that by (simp add: set_update_where)
  show "list_ex active_local_admin (update_where ?p ?f (db_users d))"
  proof (cases "us_id a = uid")
    case False
    with a kept show ?thesis by (auto simp: list_ex_iff)
  next
    case True
    with a target distinct have "target = a"
      using first_row_filter [OF target] distinct_map_inj [OF distinct, of target a] by simp
    with a(2) guard consider "role = Admin" "status = Active"
      | b where "b \<in> set (db_users d)" "us_id b \<noteq> uid" "active_local_admin b"
      by (auto simp: active_local_admin_def filter_empty_conv)
    then show ?thesis
    proof cases
      case 1
      with a True have "?f a \<in> set (update_where ?p ?f (db_users d))" "active_local_admin (?f a)"
        by (auto simp: set_update_where active_local_admin_def)
      then show ?thesis by (auto simp: list_ex_iff)
    next
      case 2
      with kept show ?thesis by (auto simp: list_ex_iff)
    qed
  qed
qed simp

lemma manage_user_calm: "calm d (snd (updateManagedUser t uid role status audit d))"
proof (cases "first_row (filter (\<lambda>u. us_id u = uid) (db_users d))")
  case None
  then show ?thesis by (simp add: updateManagedUser_def)
next
  case (Some target)
  show ?thesis
    unfolding updateManagedUser_def Some option.case Let_def
    using calm_manage_update [OF Some]
    by (auto split: option.split)
qed

lemma calm_external_login:
  assumes "completeExternalLogin t x d = Inr (r, d')"
  shows "calm d d'"
  using assms
proof (cases "first_row [u. i \<leftarrow> db_identities d, u \<leftarrow> db_users d,
    us_id u = id_user i \<and> same_identity (xl_provider x) (xl_subject x) i]")
  case (Some u)
  with assms show ?thesis by (auto simp: completeExternalLogin_def intro: calm_finish_login [OF calm_refl])
next
  case None
  show ?thesis
  proof (cases "xl_auto x \<and> xl_provisioned x \<noteq> None")
    case False
    with assms None show ?thesis
      by (auto simp: completeExternalLogin_def record_login_failure_def split: option.splits if_splits)
  next
    case True
    with assms None obtain pu u e where "provision_external_user t x pu d = Inr (u, e)"
      "finish_external_login t x True u e = Inr (r, d')"
      by (auto simp: completeExternalLogin_def split: sum.splits)
    then show ?thesis using calm_provision calm_finish_login by blast
  qed
qed

lemma user_step_calm:
  assumes "user_step d d'"
  shows "calm d d'"
  using assms
proof cases
  case (create_user t uid email username password role actor r)
  then show ?thesis
    by (auto simp: createUser_def Let_def dest!: insert_user_calm split: sum.splits option.splits)
next
  case (create_session t sid uid token expires audit b)
  then show ?thesis
    by (auto simp: createSession_def Let_def dest!: insert_session_Inr
        split: sum.splits option.splits if_splits)
next
  case (revoke_session t token now actor)
  then show ?thesis by (simp add: revokeSession_def Let_def split: option.split prod.split)
next
  case (revoke_sessions t uid now actor)
  then show ?thesis by (simp add: revokeUserSessions_def Let_def split: option.split prod.split)
next
  case (manage_user t uid role status actor)
  then show ?thesis by (simp add: manage_user_calm)
next
  case (reset_password t uid hash actor)
  have "calm d (update_users t (\<lambda>u. us_id u = uid \<and> us_password u \<noteq> None)
      (\<lambda>u. u\<lparr>us_password := Some hash, us_updated := t\<rparr>) d)"
    by (rule calm_users_chain) (simp_all add: active_local_admin_def)
  then show ?thesis
    unfolding reset_password resetLocalPassword_def Let_def by (auto split: option.split)
next
  case (bind t iid uid provider subject who r)
  then show ?thesis by (auto simp: bindExternalIdentity_def Let_def split: if_splits)
next
  case (unbind t iid uid who)
  then show ?thesis by (simp add: unbindExternalIdentity_def Let_def split: option.split)
next
  case (external_login t x r)
  then show ?thesis by (auto intro: calm_external_login)
next
  case (set_budget t uid budget who request r)
  have "calm d (update_users t p (\<lambda>u. u\<lparr>us_budget := budget, us_updated := t\<rparr>) d)" for p
    by (rule calm_users_chain) (simp_all add: active_local_admin_def)
  with set_budget show ?thesis
    by (auto simp: setUserModelBudget_def Let_def split: option.splits if_splits)
qed

section \<open>Throttles and explicit events\<close>

lemma record_hit_calm: "calm d (snd (record_hit t rid hit now audit d))"
  by (simp add: record_hit_def upsert_counter_def Let_def split: option.split)

lemma throttle_hits_calm: "calm d e \<Longrightarrow> calm d (snd (recordAuthThrottleHits t hits now audit e))"
proof (induction t hits now audit e rule: recordAuthThrottleHits.induct)
  case (2 t rid hit hits now audit e)
  have "calm d (snd (record_hit t rid hit now audit e))"
    using 2(2) record_hit_calm by (rule calm_trans)
  with 2(1) [OF refl prod.collapse] show ?case by (simp add: Let_def split_beta)
qed simp

lemma calm_fold_audit:
  "calm d e \<Longrightarrow> calm d (fold (\<lambda>r. insert_audit t ev (a r) (b r) (c r) (w r) (j r)) rs e)"
  by (induction rs arbitrary: e) simp_all

lemma other_step_calm:
  assumes "other_step d d'"
  shows "calm d d'"
  using assms
proof cases
  case (throttle_hits t hits now audit)
  then show ?thesis by (simp add: throttle_hits_calm)
next
  case (throttle_clear keys)
  then show ?thesis by (simp add: clearAuthThrottle_def)
next
  case (locks_clear t target now source actor request)
  then show ?thesis by (simp add: clearAuthLocks_def Let_def calm_fold_audit)
next
  case (throttle_expire now window)
  then show ?thesis by (simp add: deleteExpiredAuthThrottle_def Let_def)
next
  case (opened t who own wid k)
  then show ?thesis by (simp add: recordWorkspaceOpened_def)
next
  case (login_failed t category audit)
  then show ?thesis by (simp add: recordAuthenticationFailure_def)
qed

end
