(* ===== verification/EgressSafety.thy ===== *)
theory EgressSafety
  imports EgressPolicy
begin

text \<open>
  What the acceptance check of a rule set means in terms of addresses, and that the rule table
  keeps that meaning: \<open>policy_safe\<close> is the specification, \<open>policy_validator\<close> the contract of the
  check the repository is given, and \<open>validateEgressRules\<close> is shown to fulfil it.
\<close>

section \<open>Safe rule sets\<close>

definition text_addrs :: "string \<Rightarrow> nat set" where
  "text_addrs s = (case cidrTextInterval s of None \<Rightarrow> {} | Some i \<Rightarrow> addrs i)"

definition networks_of :: "rule_action \<Rightarrow> egress_rule list \<Rightarrow> string list" where
  "networks_of a rules = map er_network (filter (\<lambda>r. er_action r = a) rules)"

definition denied_addrs :: "egress_rule list \<Rightarrow> nat set" where
  "denied_addrs rules = (\<Union>s \<in> set (EGRESS_DEFAULT_DENY_V4 @ networks_of Deny rules). text_addrs s)"

text \<open>
  Every allow entry opens only addresses that are otherwise denied, and none of a protected
  network; both lists stay within the limit, and every text is a network.
\<close>

definition policy_safe :: "string list \<Rightarrow> egress_rule list \<Rightarrow> bool" where
  "policy_safe protectedCidrs rules \<longleftrightarrow>
     length (networks_of Allow rules) \<le> EGRESS_MAX_ENTRIES \<and>
     length (networks_of Deny rules) \<le> EGRESS_MAX_ENTRIES \<and>
     (\<forall>s \<in> set (networks_of Allow rules @ networks_of Deny rules @ protectedCidrs).
        cidrTextInterval s \<noteq> None) \<and>
     (\<forall>s \<in> set (networks_of Allow rules).
        text_addrs s \<subseteq> denied_addrs rules \<and>
        (\<forall>p \<in> set protectedCidrs. text_addrs s \<inter> text_addrs p = {}))"

lemma text_wf: "cidrTextInterval s = Some i \<Longrightarrow> wf_iv i"
  by (auto simp: cidrTextInterval_def)

lemma text_intervals_None: "text_intervals ts = None \<longleftrightarrow> (\<exists>t \<in> set ts. cidrTextInterval t = None)"
  by (induction ts) (auto split: option.splits)

lemma text_intervals_covered:
  assumes "text_intervals ts = Some is"
  shows "covered is = (\<Union>t \<in> set ts. text_addrs t)" "list_all wf_iv is"
  using assms by (induction ts arbitrary: "is") (auto simp: text_addrs_def text_wf split: option.splits)

lemma text_intervals_overlap:
  assumes "text_intervals ts = Some is" "wf_iv i"
  shows "list_ex (\<lambda>c. intervalsOverlap c i) is \<longleftrightarrow> (\<exists>t \<in> set ts. addrs i \<inter> text_addrs t \<noteq> {})"
  using assms
  by (induction ts arbitrary: "is")
    (auto simp: text_addrs_def text_wf intervalsOverlap_iff split: option.splits)

lemma check_allow_iff:
  assumes "text_intervals ds = Some denied" "text_intervals ps = Some prot"
  shows "check_allow denied prot rules = Inr None \<longleftrightarrow>
    (\<forall>s \<in> set (map er_network rules). cidrTextInterval s \<noteq> None \<and>
       text_addrs s \<subseteq> (\<Union>t \<in> set ds. text_addrs t) \<and>
       (\<forall>p \<in> set ps. text_addrs s \<inter> text_addrs p = {}))"
proof (induction rules)
  case (Cons r rules)
  show ?case
  proof (cases "cidrTextInterval (er_network r)")
    case (Some i)
    have "intervalCovered i denied \<longleftrightarrow> addrs i \<subseteq> (\<Union>t \<in> set ds. text_addrs t)"
      using text_intervals_covered [OF assms(1)] text_wf [OF Some] by (simp add: intervalCovered_iff)
    moreover have "list_ex (\<lambda>c. intervalsOverlap c i) prot \<longleftrightarrow>
        (\<exists>p \<in> set ps. addrs i \<inter> text_addrs p \<noteq> {})"
      by (rule text_intervals_overlap [OF assms(2) text_wf [OF Some]])
    moreover have "text_addrs (er_network r) = addrs i" using Some by (simp add: text_addrs_def)
    ultimately show ?thesis using Cons.IH Some by auto
  qed simp
qed simp

lemma default_deny_parses: "s \<in> set EGRESS_DEFAULT_DENY_V4 \<Longrightarrow> cidrTextInterval s \<noteq> None"
  by (auto simp: EGRESS_DEFAULT_DENY_V4_def cidrTextInterval_def cidr_evaluation)

lemma validate_iff_safe: "validateEgressRules rules ps = Inr None \<longleftrightarrow> policy_safe ps rules"
proof -
  let ?allow = "filter (\<lambda>r. er_action r = Allow) rules"
  let ?ds = "EGRESS_DEFAULT_DENY_V4 @ networks_of Deny rules"
  show ?thesis
  proof (cases "length (networks_of Allow rules) \<le> EGRESS_MAX_ENTRIES \<and>
      length (networks_of Deny rules) \<le> EGRESS_MAX_ENTRIES")
    case False
    then have "validateEgressRules rules ps = Inr (Some rule_limit_code)"
      unfolding validateEgressRules_def Let_def networks_of_def length_map
      by (intro if_P) linarith
    moreover have "\<not> policy_safe ps rules"
      using False unfolding policy_safe_def by blast
    ultimately show ?thesis by simp
  next
    case limits: True
    show ?thesis
    proof (cases "text_intervals ?ds = None \<or> text_intervals ps = None")
      case True
      then have "\<not> policy_safe ps rules"
        using default_deny_parses unfolding policy_safe_def text_intervals_None set_append by blast
      moreover from True have "(case (text_intervals ?ds, text_intervals ps) of
          (Some denied, Some prot) \<Rightarrow> check_allow denied prot ?allow | _ \<Rightarrow> Inl invalid_cidr_error) \<noteq> Inr None"
        by (auto split: option.split)
      ultimately show ?thesis
        using limits by (simp add: validateEgressRules_def networks_of_def Let_def)
    next
      case False
      then obtain denied prot where parsed: "text_intervals ?ds = Some denied" "text_intervals ps = Some prot"
        by auto
      then have texts: "\<forall>s \<in> set ?ds. cidrTextInterval s \<noteq> None" "\<forall>s \<in> set ps. cidrTextInterval s \<noteq> None"
        using text_intervals_None by (metis option.distinct(1))+
      have "validateEgressRules rules ps = check_allow denied prot ?allow"
        using limits parsed by (simp add: validateEgressRules_def networks_of_def Let_def)
      also have "\<dots> = Inr None \<longleftrightarrow> policy_safe ps rules"
        unfolding check_allow_iff [OF parsed] policy_safe_def denied_addrs_def
          networks_of_def [of Allow, symmetric]
        using texts limits unfolding set_append ball_Un by blast
      finally show ?thesis .
    qed
  qed
qed

lemma validate_total:
  assumes "\<forall>s \<in> set (networks_of Allow rules @ networks_of Deny rules @ ps). cidrTextInterval s \<noteq> None"
  shows "\<exists>c. validateEgressRules rules ps = Inr c"
proof -
  let ?ds = "EGRESS_DEFAULT_DENY_V4 @ networks_of Deny rules"
  have "text_intervals ?ds \<noteq> None"
    unfolding text_intervals_None using assms default_deny_parses by auto
  moreover have "text_intervals ps \<noteq> None"
    unfolding text_intervals_None using assms by auto
  moreover have "\<exists>c. check_allow denied prot rs = Inr c"
    if "\<forall>r \<in> set rs. cidrTextInterval (er_network r) \<noteq> None" for denied prot rs
    using that by (induction rs) auto
  then have "\<exists>c. check_allow denied prot (filter (\<lambda>r. er_action r = Allow) rules) = Inr c" for denied prot
    using assms by (simp add: networks_of_def)
  ultimately show ?thesis
    by (auto simp: validateEgressRules_def networks_of_def Let_def split: option.splits)
qed

section \<open>The contract of an acceptance check\<close>

text \<open>
  What the repository may rely on: the check accepts exactly the rule sets that are \<open>safe\<close>, in
  whatever order they are listed.
\<close>

locale policy_validator =
  fixes validate :: validator and safe :: "egress_rule list \<Rightarrow> bool"
  assumes accepts: "validate rules = Inr None \<longleftrightarrow> safe rules"
    and any_order: "mset rules = mset rules' \<Longrightarrow> safe rules \<longleftrightarrow> safe rules'"
begin

lemma create_safe:
  assumes "createEgressRule validate t rid i a d = Inr (Rule_CREATED rule revision, d')"
  shows "safe (listRules d')" "mset (listRules d') = add_mset rule (mset (listRules d))"
proof -
  from assms have ok: "validate (listRules d @ [rule]) = Inr None"
    and rows: "db_egress_rules d' = db_egress_rules d @ [rule]"
    by (auto simp: createEgressRule_def Let_def bumpRevision_def insert_rule_def
        split: if_splits sum.splits option.splits)
  from rows show m: "mset (listRules d') = add_mset rule (mset (listRules d))"
    by (simp add: listRules_def)
  from ok have "safe (listRules d @ [rule])" by (simp add: accepts)
  moreover have "mset (listRules d') = mset (listRules d @ [rule])" by (simp add: m)
  ultimately show "safe (listRules d')" using any_order by blast
qed

lemma delete_safe:
  assumes "deleteEgressRule validate t rid a d = Inr (Rule_DELETED revision, d')"
    and "distinct (map er_id (db_egress_rules d))"
  shows "safe (listRules d')"
proof -
  from assms(1) obtain rule where rule: "first_row (filter (\<lambda>r. er_id r = rid) (listRules d)) = Some rule"
    and ok: "validate (remove1 rule (listRules d)) = Inr None"
    and rows: "db_egress_rules d' = delete_where (\<lambda>r. er_id r = er_id rule) (db_egress_rules d)"
    by (auto simp: deleteEgressRule_def Let_def bumpRevision_def
        split: if_splits sum.splits option.splits)
  have mem: "rule \<in> set (db_egress_rules d)"
    using first_row_filter [OF rule] by (simp add: listRules_def)
  have "mset (delete_where (\<lambda>r. er_id r = er_id rule) rs) = mset (remove1 rule rs)"
    if "distinct (map er_id rs)" "rule \<in> set rs" for rs
    using that
  proof (induction rs)
    case (Cons r rs)
    show ?case
    proof (cases "r = rule")
      case True
      with Cons.prems have "er_id rule \<notin> er_id ` set rs" by simp
      then have "\<forall>x \<in> set rs. er_id x \<noteq> er_id rule" by (metis image_eqI)
      with True show ?thesis by (simp add: delete_where_def)
    next
      case False
      with Cons show ?thesis by (auto simp: delete_where_def)
    qed
  qed simp
  with assms(2) mem rows have "mset (listRules d') = mset (remove1 rule (listRules d))"
    by (simp add: listRules_def)
  with ok show ?thesis using accepts any_order by metis
qed

end

lemma networks_mset: "mset rules = mset rules' \<Longrightarrow> mset (networks_of a rules) = mset (networks_of a rules')"
  by (simp add: networks_of_def)

lemma policy_safe_mset:
  assumes "mset rules = mset rules'"
  shows "policy_safe ps rules \<longleftrightarrow> policy_safe ps rules'"
proof -
  note nets = networks_mset [OF assms]
  show ?thesis
    unfolding policy_safe_def denied_addrs_def set_append
      mset_eq_length [OF nets] mset_eq_setD [OF nets] by (rule refl)
qed

interpretation egress_check: policy_validator "\<lambda>rules. validateEgressRules rules ps" "policy_safe ps"
  for ps
  by unfold_locales (rule validate_iff_safe, rule policy_safe_mset)

section \<open>The rows of the rule table\<close>

definition allow_entry :: "egress_rule \<Rightarrow> egress_allow_entry" where
  "allow_entry r =
     \<lparr>allow_network = er_network r, allow_protocol = er_protocol r,
      allow_port_min = er_port_min r, allow_port_max = er_port_max r\<rparr>"

text \<open>Every row is acceptable to the schema of the message that carries it.\<close>

definition rule_entry_ok :: "egress_rule \<Rightarrow> bool" where
  "rule_entry_ok r \<longleftrightarrow> EgressAllowEntrySchema (allow_entry r)"

definition policy_ok :: "db \<Rightarrow> bool" where
  "policy_ok d \<longleftrightarrow>
     distinct (map er_id (db_egress_rules d)) \<and> list_all rule_entry_ok (db_egress_rules d) \<and>
     policy_safe [] (listRules d)"

lemma decimal_length: "n < 10 \<Longrightarrow> length (decimal n) = 1" "n < 100 \<Longrightarrow> length (decimal n) \<le> 2"
  "n < 1000 \<Longrightarrow> length (decimal n) \<le> 3"
proof -
  show one: "length (decimal n) = 1" if "n < 10" for n
    using that by (simp add: decimal.simps [of n])
  show two: "length (decimal n) \<le> 2" if "n < 100" for n
    using one [of "n div 10"] that by (cases "n < 10") (simp_all add: decimal.simps [of n])
  show "length (decimal n) \<le> 3" if "n < 1000"
    using two [of "n div 10"] that by (cases "n < 10") (simp_all add: decimal.simps [of n])
qed

lemma format_length: "wf_cidr c \<Longrightarrow> length (formatIpv4Cidr c) \<le> 18"
proof -
  assume wf: "wf_cidr c"
  let ?a = "cidr_address c"
  have octet: "length (decimal (x mod 256)) \<le> 3" for x
    by (rule decimal_length) (simp add: less_trans [of _ 256])
  have "length (decimal (cidr_prefix c)) \<le> 2"
    using wf by (intro decimal_length) (simp add: wf_cidr_def)
  then show ?thesis
    unfolding formatIpv4Cidr_def formatIpv4Address_def
    using octet [of "?a div 16777216"] octet [of "?a div 65536"] octet [of "?a div 256"] octet [of ?a]
    by simp
qed

lemma canonical_schema: "canonicalIpv4Cidr text = Some s \<Longrightarrow> Ipv4CidrSchema s"
  by (rule canonical_is_schema_valid)
    (auto simp: canonicalIpv4Cidr_def dest: parseIpv4Cidr_wf intro: format_length)

lemma NetworkSchema_ok: "NetworkSchema v = Some s \<Longrightarrow> Ipv4CidrSchema s"
  by (auto simp: NetworkSchema_def Let_def canonical_schema split: option.splits if_splits)

lemma body_entry_ok:
  assumes "CreateEgressRuleBodySchema body = Some parsed"
  shows "rule_entry_ok (rule_of_input t rid (input_of_body parsed) actor)"
  using assms
  by (auto simp: CreateEgressRuleBodySchema_def rule_entry_ok_def EgressAllowEntrySchema_def
      allow_entry_def rule_of_input_def input_of_body_def port_ok_def NetworkSchema_ok
      split: option.splits if_splits)

lemma created_row:
  assumes "createEgressRule validate t rid i a d = Inr (Rule_CREATED rule revision, d')"
  shows "rule = rule_of_input t rid i (am_actor a)" "rid \<notin> er_id ` set (db_egress_rules d)"
    "db_egress_rules d' = db_egress_rules d @ [rule]" "db_egress_revision d' = db_egress_revision d + 1"
    "revision = db_egress_revision d + 1" "\<not> list_ex (same_rule rule) (db_egress_rules d)"
  using assms
  by (auto simp: createEgressRule_def Let_def bumpRevision_def insert_rule_def rule_of_input_def
      split: if_splits sum.splits option.splits)

lemma create_unchanged:
  "createEgressRule validate t rid i a d = Inr (r, d') \<Longrightarrow> \<nexists>rule n. r = Rule_CREATED rule n \<Longrightarrow> d' = d"
  by (auto simp: createEgressRule_def Let_def split: if_splits sum.splits option.splits prod.splits)

lemma delete_unchanged:
  "deleteEgressRule validate t rid a d = Inr (r, d') \<Longrightarrow> \<nexists>n. r = Rule_DELETED n \<Longrightarrow> d' = d"
  by (auto simp: deleteEgressRule_def Let_def split: if_splits sum.splits option.splits prod.splits)

lemma deleted_rows:
  assumes "deleteEgressRule validate t rid a d = Inr (Rule_DELETED revision, d')"
  shows "\<exists>p. db_egress_rules d' = filter p (db_egress_rules d)"
    "db_egress_revision d' = db_egress_revision d + 1" "revision = db_egress_revision d + 1"
  using assms
  by (auto simp: deleteEgressRule_def Let_def bumpRevision_def delete_where_def
      split: if_splits sum.splits option.splits)

lemma policy_safe_weaken: "policy_safe ps rules \<Longrightarrow> policy_safe [] rules"
  by (simp add: policy_safe_def ball_Un)

lemma post_rule_cases:
  "(\<exists>parsed rule revision d'. CreateEgressRuleBodySchema body = Some parsed \<and>
      createEgressRule (\<lambda>rules. validateEgressRules rules ps) t rid (input_of_body parsed) a d =
        Inr (Rule_CREATED rule revision, d') \<and>
      post_egress_rule t rid ps body a d = (Rule_Created rule revision, d')) \<or>
   (\<nexists>rule n. fst (post_egress_rule t rid ps body a d) = Rule_Created rule n) \<and>
   snd (post_egress_rule t rid ps body a d) = d"
proof (cases "CreateEgressRuleBodySchema body")
  case None
  then show ?thesis by (simp add: post_egress_rule_def)
next
  case (Some parsed)
  let ?c = "createEgressRule (\<lambda>rules. validateEgressRules rules ps) t rid (input_of_body parsed) a d"
  show ?thesis
  proof (cases ?c)
    case (Inl e)
    with Some show ?thesis by (simp add: post_egress_rule_def)
  next
    case (Inr x)
    obtain r d' where x: "x = (r, d')" by (cases x)
    with Inr have c: "?c = Inr (r, d')" by simp
    show ?thesis
    proof (cases r)
      case (Rule_CREATED rule n)
      with Some c show ?thesis by (simp add: post_egress_rule_def)
    qed (use create_unchanged [OF c] Some c in \<open>simp_all add: post_egress_rule_def\<close>)
  qed
qed

lemma post_rule_policy_ok:
  assumes "policy_ok d"
  shows "policy_ok (snd (post_egress_rule t rid ps body a d))"
  using post_rule_cases [of body ps t rid a d]
proof (elim disjE exE conjE)
  fix parsed rule revision d'
  assume body: "CreateEgressRuleBodySchema body = Some parsed"
    and c: "createEgressRule (\<lambda>rules. validateEgressRules rules ps) t rid (input_of_body parsed) a d =
        Inr (Rule_CREATED rule revision, d')"
    and post: "post_egress_rule t rid ps body a d = (Rule_Created rule revision, d')"
  have "rule_entry_ok rule" "er_id rule = rid"
    using body_entry_ok [OF body] created_row(1) [OF c] by (simp_all add: rule_of_input_def)
  moreover have "policy_safe [] (listRules d')"
    using egress_check.create_safe(1) [OF c] by (rule policy_safe_weaken)
  ultimately show ?thesis
    using assms created_row(2,3) [OF c] post by (simp add: policy_ok_def)
qed (simp add: assms)

lemma delete_rule_cases:
  "(\<exists>revision d'. deleteEgressRule (\<lambda>rules. validateEgressRules rules []) t rid a d =
        Inr (Rule_DELETED revision, d') \<and>
      delete_egress_rule t rid a d = (Rule_Deleted revision, d')) \<or>
   snd (delete_egress_rule t rid a d) = d"
proof (cases "deleteEgressRule (\<lambda>rules. validateEgressRules rules []) t rid a d")
  case (Inl e)
  then show ?thesis by (simp add: delete_egress_rule_def)
next
  case (Inr x)
  obtain r d' where x: "x = (r, d')" by (cases x)
  with Inr have c: "deleteEgressRule (\<lambda>rules. validateEgressRules rules []) t rid a d = Inr (r, d')"
    by simp
  show ?thesis
    by (cases r) (use delete_unchanged [OF c] c in \<open>simp_all add: delete_egress_rule_def\<close>)
qed

lemma delete_rule_policy_ok:
  assumes "policy_ok d"
  shows "policy_ok (snd (delete_egress_rule t rid a d))"
  using delete_rule_cases [of t rid a d]
proof (elim disjE exE conjE)
  fix revision d'
  assume c: "deleteEgressRule (\<lambda>rules. validateEgressRules rules []) t rid a d = Inr (Rule_DELETED revision, d')"
    and del: "delete_egress_rule t rid a d = (Rule_Deleted revision, d')"
  have "policy_safe [] (listRules d')"
    using assms by (intro egress_check.delete_safe [OF c]) (simp add: policy_ok_def)
  moreover obtain p where "db_egress_rules d' = filter p (db_egress_rules d)"
    using deleted_rows(1) [OF c] by blast
  ultimately show ?thesis
    using assms del by (auto simp: policy_ok_def distinct_map_filter' list_all_iff)
qed (simp add: assms)

end
