(* ===== verification/Invariant.thy ===== *)
theory Invariant
  imports Preservation EgressSafety
begin

text \<open>
  The invariant of the platform: it holds of an empty database and every step keeps it, so it
  holds in every state that any interleaving of the repository's transactions reaches.
\<close>

definition platform_ok :: "db \<Rightarrow> bool" where
  "platform_ok d \<longleftrightarrow>
     distinct (map ws_id (db_workspaces d)) \<and>
     list_all (\<lambda>w. lifecycle_ok (lifecycle_of w)) (db_workspaces d) \<and>
     distinct (map wk_id (db_workers d)) \<and> list_all worker_ok (db_workers d) \<and>
     distinct (map us_id (db_users d)) \<and>
     keys_safe d \<and> policy_ok d \<and> audit_numbered d"

inductive reachable :: "db \<Rightarrow> bool" where
  empty: "reachable empty_db"
| step: "reachable d \<Longrightarrow> platform_step d d' \<Longrightarrow> reachable d'"

section \<open>Key steps\<close>

lemma revoke_request_next:
  "list_all2 key_next (db_keys d) (db_keys (snd (requestModelKeyRevoke t r d)))"
  by (auto simp: requestModelKeyRevoke_def Let_def fold_frame key_next_def key_live_def
      intro!: list_all2_update_where)

lemma revoke_request_calm: "calm d (snd (requestModelKeyRevoke t r d))"
proof -
  have "audit_extends d (snd (requestModelKeyRevoke t r d))"
    unfolding requestModelKeyRevoke_def Let_def snd_conv
    by (rule audit_extends_fold_keys) simp
  moreover have "db_workspaces (snd (requestModelKeyRevoke t r d)) = db_workspaces d"
    "db_users (snd (requestModelKeyRevoke t r d)) = db_users d"
    "db_workers (snd (requestModelKeyRevoke t r d)) = db_workers d"
    "same_policy d (snd (requestModelKeyRevoke t r d))"
    by (simp_all add: requestModelKeyRevoke_def Let_def fold_frame same_policy_def)
  ultimately show ?thesis
    using revoke_request_next by (simp add: calm_def workspaces_hold_same users_hold_same holds_same)
qed

lemma calm_keys_update:
  assumes "\<And>k. p k \<Longrightarrow> key_next k (f k)"
  shows "calm d (d\<lparr>db_keys := update_where p f (db_keys d)\<rparr>)"
  by (simp add: calm_def workspaces_hold_same users_hold_same holds_same same_policy_def
      list_all2_update_where assms)

lemma activate_calm: "calm d (snd (activateModelKey t i d))"
proof -
  have "calm d (d\<lparr>db_keys := update_where (\<lambda>k. mk_id k = i \<and> mk_status k = Issuing)
      (\<lambda>k. k\<lparr>mk_status := Key_Active\<rparr>) (db_keys d)\<rparr>)"
    by (rule calm_keys_update) (simp add: key_next_def key_live_def)
  then show ?thesis by (simp add: activateModelKey_def Let_def split: option.split)
qed

lemma revoke_result_calm: "calm d (recordModelKeyRevokeResult t i result d)"
proof (cases result)
  case Revoke_Ok
  have "calm d (d\<lparr>db_keys := update_where (\<lambda>k. mk_id k = i \<and> mk_status k = Revoking)
      (\<lambda>k. k\<lparr>mk_status := Revoked, mk_revoked := Some t, mk_next := None, mk_error := None\<rparr>)
      (db_keys d)\<rparr>)"
    by (rule calm_keys_update) (simp add: key_next_def key_live_def)
  with Revoke_Ok show ?thesis
    by (simp add: recordModelKeyRevokeResult_def Let_def split: option.split)
next
  case (Revoke_Failed e)
  then show ?thesis
    by (simp add: recordModelKeyRevokeResult_def Let_def) (rule calm_keys_update,
      simp add: key_next_def key_live_def)
qed

text \<open>The issue of a key: the guard is evaluated on locked rows, the insert refuses a second one.\<close>

lemma prepare_issue_row:
  assumes "prepare_issue keyId wid d0 = Inr i"
  obtains u w x where "u \<in> set (db_users d0)" "us_id u = mki_user i" "us_status u = Active"
    "mki_workspace i = wid" "x \<in> set (db_workspaces d0)" "ws_id x = wid" "ws_user x = us_id u"
    "first_row (filter (\<lambda>w. ws_id w = wid) (db_workspaces d0)) = Some w" "ws_state w \<noteq> DELETING"
proof -
  let ?join = "[(u, w). u \<leftarrow> db_users d0, w \<leftarrow> db_workspaces d0, ws_user w = us_id u \<and> ws_id w = wid]"
  from assms obtain u x where join: "first_row ?join = Some (u, x)"
    by (auto simp: prepare_issue_def split: option.splits)
  then have ux: "u \<in> set (db_users d0)" "x \<in> set (db_workspaces d0)" "ws_user x = us_id u" "ws_id x = wid"
    by (auto dest!: first_row_in)
  from assms join obtain w where "us_status u = Active" "mki_user i = us_id u" "mki_workspace i = wid"
    "first_row (filter (\<lambda>w. ws_id w = wid) (db_workspaces d0)) = Some w" "ws_state w \<noteq> DELETING"
    by (auto simp: prepare_issue_def split: option.splits if_splits)
  with ux show ?thesis by (intro that [of u x w]) simp_all
qed

lemma issue_keys_safe:
  assumes "prepare_issue keyId wid d0 = Inr i" "share_locked i d0 d"
    and "distinct (map ws_id (db_workspaces d))" "keys_safe d"
  shows "keys_safe (snd (finish_issue t reason i d))"
proof (cases "list_ex (key_conflict i) (db_keys d)")
  case True
  then show ?thesis using assms(4) by (simp add: finish_issue_def split: option.split)
next
  case False
  obtain u w x where row: "u \<in> set (db_users d0)" "us_id u = mki_user i" "us_status u = Active"
    "mki_workspace i = wid" "x \<in> set (db_workspaces d0)" "ws_id x = wid" "ws_user x = us_id u"
    "first_row (filter (\<lambda>w. ws_id w = wid) (db_workspaces d0)) = Some w" "ws_state w \<noteq> DELETING"
    by (rule prepare_issue_row [OF assms(1)])
  have users: "filter (\<lambda>u. us_id u = mki_user i) (db_users d) = filter (\<lambda>u. us_id u = mki_user i) (db_users d0)"
    and spaces: "filter (\<lambda>w. ws_id w = wid) (db_workspaces d) = filter (\<lambda>w. ws_id w = wid) (db_workspaces d0)"
    using assms(2) row(4) by (simp_all add: share_locked_def)
  have "u \<in> set (filter (\<lambda>u. us_id u = mki_user i) (db_users d))"
    unfolding users using row(1,2) by simp
  then have u: "u \<in> set (db_users d)" by simp
  have "x \<in> set (filter (\<lambda>w. ws_id w = wid) (db_workspaces d))"
    unfolding spaces using row(5,6) by simp
  then have x: "x \<in> set (db_workspaces d)" by simp
  have "w \<in> set (db_workspaces d)" "ws_id w = wid"
    using first_row_filter [of "\<lambda>w. ws_id w = wid" "db_workspaces d" w] row(8) spaces by simp_all
  with x row(6) assms(3) have "w = x" by (metis distinct_map_inj)
  let ?k = "issued_row t reason i"
  have live: "key_live ?k" "mk_workspace ?k = Some wid" "mk_user ?k = mki_user i"
    using row(4) by (simp_all add: issued_row_def key_live_def)
  have fresh: "Some wid \<notin> set (map mk_workspace (filter key_live (db_keys d)))"
    using False row(4) by (auto simp: list_ex_iff key_conflict_def)
  have d': "snd (finish_issue t reason i d) = d\<lparr>db_keys := db_keys d @ [?k]\<rparr>"
    using False by (simp add: finish_issue_def)
  show ?thesis
    unfolding keys_safe_def d'
  proof (intro conjI ballI impI)
    show "distinct (map mk_workspace (filter key_live (db_keys (d\<lparr>db_keys := db_keys d @ [?k]\<rparr>))))"
      using assms(4) fresh live by (simp add: keys_safe_def)
  next
    fix k
    assume k: "k \<in> set (db_keys (d\<lparr>db_keys := db_keys d @ [?k]\<rparr>))" "key_live k"
    let ?place = "\<exists>w \<in> set (db_workspaces d). mk_workspace k = Some (ws_id w) \<and> mk_user k = ws_user w \<and>
      ws_state w \<noteq> DELETING" and ?owner = "\<exists>u \<in> set (db_users d). us_id u = mk_user k \<and> us_status u = Active"
    have "?place \<and> ?owner"
    proof (cases "k = ?k")
      case True
      have "?place" using x live row(2,6,7,9) \<open>w = x\<close> True by (intro bexI [of _ x]) simp_all
      moreover have "?owner" using u live row(2,3) True by (intro bexI [of _ u]) simp_all
      ultimately show ?thesis by blast
    next
      case False
      with k have "k \<in> set (db_keys d)" by simp
      with assms(4) k(2) show ?thesis unfolding keys_safe_def by blast
    qed
    then show "\<exists>w \<in> set (db_workspaces (d\<lparr>db_keys := db_keys d @ [?k]\<rparr>)). mk_workspace k = Some (ws_id w) \<and>
        mk_user k = ws_user w \<and> ws_state w \<noteq> DELETING"
      "\<exists>u \<in> set (db_users (d\<lparr>db_keys := db_keys d @ [?k]\<rparr>)). us_id u = mk_user k \<and> us_status u = Active"
      by simp_all
  qed
qed

section \<open>The Workspaces under every step\<close>

lemma worker_step_lost:
  assumes "worker_step d d'"
  shows "list_all2 lost_step (db_workspaces d) (db_workspaces d')"
  using assms
proof cases
  case (provision t k hash url)
  then show ?thesis
    by (auto simp: provisionWorkerWithGateway_def insert_worker_def list_all2_refl_on split: if_splits)
next
  case (rotate t k hash b)
  then show ?thesis by (intro worker_changeD rotate_change)
next
  case (enable t k hash r)
  then show ?thesis by (intro worker_changeD enable_change)
next
  case (delete_worker t k)
  then show ?thesis
    by (auto simp: deleteWorker_def Let_def delete_worker_row_def list_all2_refl_on split: option.split)
next
  case (hello t h b)
  then show ?thesis by (intro worker_changeD hello_change)
next
  case (heartbeat t hb i)
  then show ?thesis by (intro worker_changeD heartbeat_change)
qed (simp_all add: worker_changeD(8) cascade_worker_change)

lemma managed_user_audit_frame [simp]:
  "db_workspaces (managed_user_audit t uid target r s a d) = db_workspaces d"
  by (simp add: managed_user_audit_def Let_def split: option.split prod.split)

lemma insert_user_workspaces: "insert_user u d = Inr d' \<Longrightarrow> db_workspaces d' = db_workspaces d"
  by (auto simp: insert_user_def split: if_splits)

lemma manage_user_workspaces:
  "db_workspaces (snd (updateManagedUser t uid role status actor d)) = db_workspaces d"
proof (cases "first_row (filter (\<lambda>u. us_id u = uid) (db_users d))")
  case (Some target)
  show ?thesis
    unfolding updateManagedUser_def Some option.case Let_def
    by (auto simp: revoke_sessions_where_def split: option.split)
qed (simp add: updateManagedUser_def)

lemma user_step_workspaces:
  assumes "user_step d d'"
  shows "db_workspaces d' = db_workspaces d"
  using assms
proof cases
  case (create_user t uid email username password role actor r)
  then show ?thesis
    by (auto simp: createUser_def Let_def insert_user_def split: sum.splits option.splits if_splits)
next
  case (create_session t sid uid token expires audit b)
  then show ?thesis
    by (auto simp: createSession_def Let_def insert_session_def
        split: sum.splits option.splits if_splits)
next
  case (revoke_session t token now actor)
  then show ?thesis
    by (simp add: revokeSession_def revoke_sessions_where_def Let_def split: option.split prod.split)
next
  case (revoke_sessions t uid now actor)
  then show ?thesis
    by (simp add: revokeUserSessions_def revoke_sessions_where_def Let_def split: option.split prod.split)
next
  case (manage_user t uid role status actor)
  then show ?thesis by (simp add: manage_user_workspaces)
next
  case (reset_password t uid hash actor)
  then show ?thesis by (simp add: resetLocalPassword_def Let_def split: option.split prod.split)
next
  case (bind t iid uid provider subject who r)
  then show ?thesis by (auto simp: bindExternalIdentity_def Let_def split: if_splits)
next
  case (unbind t iid uid who)
  then show ?thesis by (simp add: unbindExternalIdentity_def Let_def split: option.split)
next
  case (external_login t x r)
  have user: "db_workspaces e = db_workspaces d" if "insert_user u d = Inr e" for u e
    using that insert_user_workspaces by blast
  have provision: "db_workspaces e = db_workspaces d"
    if "provision_external_user t x pu d = Inr (u, e)" for pu u e
    using that by (auto simp: provision_external_user_def Let_def dest!: user
        split: if_splits option.splits sum.splits)
  have finish: "db_workspaces f = db_workspaces e"
    if "finish_external_login t x b u e = Inr (r, f)" for b u e f
    using that by (auto simp: finish_external_login_def record_login_failure_def Let_def
        dest!: insert_session_Inr split: if_splits option.splits sum.splits)
  show ?thesis
  proof (cases "first_row [u. i \<leftarrow> db_identities d, u \<leftarrow> db_users d,
      us_id u = id_user i \<and> same_identity (xl_provider x) (xl_subject x) i]")
    case (Some u)
    with external_login show ?thesis by (simp add: completeExternalLogin_def finish)
  next
    case None
    show ?thesis
    proof (cases "xl_auto x \<and> xl_provisioned x \<noteq> None")
      case False
      with external_login None show ?thesis
        by (auto simp: completeExternalLogin_def record_login_failure_def split: option.splits if_splits)
    next
      case True
      with external_login None obtain pu u e where "provision_external_user t x pu d = Inr (u, e)"
        "finish_external_login t x True u e = Inr (r, d')"
        by (auto simp: completeExternalLogin_def split: sum.splits)
      then show ?thesis using provision finish by simp
    qed
  qed
next
  case (set_budget t uid budget who request r)
  then show ?thesis
    by (auto simp: setUserModelBudget_def Let_def split: option.splits if_splits)
qed

lemma throttle_hits_workspaces [simp]:
  "db_workspaces (snd (recordAuthThrottleHits t hits now audit d)) = db_workspaces d"
proof (induction t hits now audit d rule: recordAuthThrottleHits.induct)
  case (2 t rid hit hits now audit d)
  have "db_workspaces (snd (record_hit t rid hit now audit d)) = db_workspaces d"
    by (simp add: record_hit_def upsert_counter_def Let_def split: option.split)
  with 2 [OF refl prod.collapse] show ?case by (simp add: Let_def split_beta)
qed simp

lemma other_step_workspaces: "other_step d d' \<Longrightarrow> db_workspaces d' = db_workspaces d"
  by (induction rule: other_step.induct)
    (simp_all add: clearAuthThrottle_def clearAuthLocks_def deleteExpiredAuthThrottle_def Let_def
      recordWorkspaceOpened_def recordAuthenticationFailure_def fold_frame)

lemma key_step_workspaces:
  assumes "key_step d d'"
  shows "db_workspaces d' = db_workspaces d"
  using assms
proof cases
  case (request_revoke t r)
  then show ?thesis by (simp add: requestModelKeyRevoke_def Let_def fold_frame)
next
  case (expire t olderThan)
  then show ?thesis
    by (simp add: expireStaleModelKeyIssues_def requestModelKeyRevoke_def Let_def fold_frame)
qed (simp_all add: finish_issue_def activateModelKey_def recordModelKeyRevokeResult_def Let_def
    split: option.split revoke_result.split)

lemma policy_step_frame:
  assumes "policy_step d d'"
  shows "db_workspaces d' = db_workspaces d \<and> db_keys d' = db_keys d \<and> db_users d' = db_users d \<and>
    db_workers d' = db_workers d \<and> audit_extends d d' \<and> (policy_ok d \<longrightarrow> policy_ok d') \<and>
    (db_egress_revision d' = db_egress_revision d + 1 \<or>
     db_egress_revision d' = db_egress_revision d \<and> db_egress_rules d' = db_egress_rules d)"
  using assms
proof cases
  case (create_rule t rid ps body audit)
  have created: "db_workspaces e = db_workspaces d \<and> db_keys e = db_keys d \<and> db_users e = db_users d \<and>
      db_workers e = db_workers d \<and> audit_extends d e"
    if "createEgressRule v t rid i audit d = Inr (Rule_CREATED rule n, e)" for v i rule n e
  proof -
    from that have e: "e = insert_audit t ''egress.rule_created'' (Some (am_actor audit)) None None None
        (ruleDetails rule n audit) (d\<lparr>db_egress_rules := db_egress_rules d @ [rule], db_egress_revision := n\<rparr>)"
      by (auto simp: createEgressRule_def Let_def bumpRevision_def insert_rule_def
          split: if_splits sum.splits option.splits)
    have "audit_extends d (d\<lparr>db_egress_rules := db_egress_rules d @ [rule], db_egress_revision := n\<rparr>)"
      by (rule audit_extends_same) simp
    then show ?thesis by (simp add: e)
  qed
  show ?thesis
    using post_rule_cases [of body ps t rid audit d]
  proof (elim disjE exE conjE)
    fix parsed rule n e
    assume c: "createEgressRule (\<lambda>rules. validateEgressRules rules ps) t rid (input_of_body parsed) audit d =
        Inr (Rule_CREATED rule n, e)"
      and "post_egress_rule t rid ps body audit d = (Rule_Created rule n, e)"
    then have "d' = e" using create_rule by simp
    with created [OF c] created_row(4) [OF c] post_rule_policy_ok [of d t rid ps body audit] create_rule
    show ?thesis by simp
  qed (simp add: create_rule)
next
  case (delete_rule t rid audit)
  have deleted: "db_workspaces e = db_workspaces d \<and> db_keys e = db_keys d \<and> db_users e = db_users d \<and>
      db_workers e = db_workers d \<and> audit_extends d e"
    if c: "deleteEgressRule v t rid audit d = Inr (Rule_DELETED n, e)" for v n e
  proof -
    from c obtain rule where e: "e = insert_audit t ''egress.rule_deleted'' (Some (am_actor audit)) None None None
        (ruleDetails rule n audit) (d\<lparr>db_egress_rules := delete_where (\<lambda>r. er_id r = er_id rule)
          (db_egress_rules d), db_egress_revision := n\<rparr>)"
      by (auto simp: deleteEgressRule_def Let_def bumpRevision_def split: if_splits sum.splits option.splits)
    have "audit_extends d (d\<lparr>db_egress_rules := delete_where (\<lambda>r. er_id r = er_id rule)
          (db_egress_rules d), db_egress_revision := n\<rparr>)"
      by (rule audit_extends_same) simp
    then show ?thesis by (simp add: e)
  qed
  show ?thesis
    using delete_rule_cases [of t rid audit d]
  proof (elim disjE exE conjE)
    fix n e
    assume c: "deleteEgressRule (\<lambda>rules. validateEgressRules rules []) t rid audit d = Inr (Rule_DELETED n, e)"
      and "delete_egress_rule t rid audit d = (Rule_Deleted n, e)"
    then have "d' = e" using delete_rule by simp
    with deleted [OF c] deleted_rows(2) [OF c] delete_rule_policy_ok [of d t rid audit] delete_rule
    show ?thesis by simp
  qed (simp add: delete_rule)
qed

lemma platform_ws_next:
  assumes "platform_step d d'" "distinct (map ws_id (db_workspaces d))"
  shows "ws_next (db_workspaces d) (db_workspaces d')"
  using assms workspace_step_next worker_step_lost ws_next_lost key_step_workspaces
    user_step_workspaces policy_step_frame other_step_workspaces ws_next_refl
  unfolding platform_step_def by metis

section \<open>The invariant holds\<close>

lemma calm_platform_ok:
  assumes "calm d d'" "ws_next (db_workspaces d) (db_workspaces d')" "platform_ok d"
  shows "platform_ok d'"
proof -
  have "list_all (\<lambda>w. lifecycle_ok (lifecycle_of w)) (db_workspaces d')"
    unfolding list_all_iff
  proof
    fix w
    assume "w \<in> set (db_workspaces d')"
    with assms(2) consider (old) x where "x \<in> set (db_workspaces d)" "row_next x w"
      | (new) "lifecycle_of w = newborn (ws_image w)"
      unfolding ws_next_def by blast
    then show "lifecycle_ok (lifecycle_of w)"
    proof cases
      case old
      with assms(3) show ?thesis
        using lifecycle_step_ok by (auto simp: platform_ok_def list_all_iff row_next_def)
    next
      case new
      then show ?thesis by (simp add: newborn_ok)
    qed
  qed
  moreover have "distinct (map ws_id (db_workspaces d'))"
    using assms(2,3) by (simp add: ws_next_def platform_ok_def)
  moreover have "keys_safe d'" using assms(1,3) by (simp add: calm_keys_safe platform_ok_def)
  ultimately show ?thesis
    using assms(1,3)
    by (simp add: platform_ok_def calm_def workers_hold_def accounts_hold_def same_policy_def
        policy_ok_def listRules_def audit_extends_def)
qed

lemma expire_calm: "calm d (snd (expireStaleModelKeyIssues t olderThan d))"
  by (simp add: expireStaleModelKeyIssues_def Let_def revoke_request_calm)

lemma key_step_ok:
  assumes "key_step d d'" "platform_ok d"
  shows "platform_ok d'"
proof -
  have ws: "ws_next (db_workspaces d) (db_workspaces d')"
    by (simp add: key_step_workspaces [OF assms(1)])
  from assms(1) show ?thesis
  proof cases
    case (issue_key keyId wid d0 i t reason)
    have "keys_safe d'"
      unfolding issue_key(1)
      by (rule issue_keys_safe [OF issue_key(2,3)]) (use assms(2) in \<open>simp_all add: platform_ok_def\<close>)
    moreover have "db_workspaces d' = db_workspaces d" "db_users d' = db_users d"
      "db_workers d' = db_workers d" "db_egress_rules d' = db_egress_rules d" "db_audit d' = db_audit d"
      unfolding issue_key(1) by (simp_all add: finish_issue_def split: option.split)
    ultimately show ?thesis
      using assms(2) by (simp add: platform_ok_def policy_ok_def listRules_def audit_numbered_def)
  qed (rule calm_platform_ok [OF _ ws assms(2)], simp add: revoke_request_calm activate_calm
      revoke_result_calm expire_calm)+
qed

lemma policy_step_ok:
  assumes "policy_step d d'" "platform_ok d"
  shows "platform_ok d'"
proof -
  have f: "db_workspaces d' = db_workspaces d" "db_keys d' = db_keys d" "db_users d' = db_users d"
    "db_workers d' = db_workers d" "audit_extends d d'" "policy_ok d \<Longrightarrow> policy_ok d'"
    using policy_step_frame [OF assms(1)] by blast+
  then have "keys_safe d \<longleftrightarrow> keys_safe d'" by (simp add: keys_safe_def)
  with f assms(2) show ?thesis by (simp add: platform_ok_def audit_extends_def)
qed

lemma platform_step_ok:
  assumes "platform_step d d'" "platform_ok d"
  shows "platform_ok d'"
proof -
  have distinct: "distinct (map ws_id (db_workspaces d))" using assms(2) by (simp add: platform_ok_def)
  note ws = platform_ws_next [OF assms(1) distinct]
  from assms(1) consider "calm d d'" | "key_step d d'" | "policy_step d d'"
    unfolding platform_step_def
    using workspace_step_calm [OF _ distinct] worker_step_calm user_step_calm other_step_calm by blast
  then show ?thesis
    using calm_platform_ok [OF _ ws assms(2)] key_step_ok [OF _ assms(2)] policy_step_ok [OF _ assms(2)]
    by cases simp_all
qed

lemma empty_ok: "platform_ok empty_db"
  by (simp add: platform_ok_def empty_db_def keys_safe_def policy_ok_def audit_numbered_def
      listRules_def policy_safe_def networks_of_def)

lemma reachable_ok: "reachable d \<Longrightarrow> platform_ok d"
  by (induction rule: reachable.induct) (simp_all add: empty_ok platform_step_ok)

end
