(* ===== verification/Demo.thy ===== *)
theory Demo
  imports Invariant
begin

text \<open>
  A concrete run of the platform: an administrator registers and creates a Workspace, a Worker is
  provisioned and says hello, the Workspace is placed on it and started, and a model key is issued
  for it. Every state of the run is reachable; the properties are instantiated on them.
\<close>

definition demo_user :: user_row where
  "demo_user = new_user 0 ''u1'' (Some ''a@b'') (Some ''root'') (Some ''pw'') Admin"

definition demo_accounts :: db where
  "demo_accounts = empty_db\<lparr>db_users := [demo_user]\<rparr>"

definition demo_workspace :: ws_row where
  "demo_workspace = new_workspace 1 ''w1'' ''u1'' ''ws'' ''img'' 100"

definition demo_created :: db where
  "demo_created =
     audit_workspace_insert 1 demo_workspace (demo_accounts\<lparr>db_workspaces := [demo_workspace]\<rparr>)"

definition demo_provisioned :: db where
  "demo_provisioned =
     insert_audit 2 ''worker.registered'' None None None (Some ''k1'') (JObj [])
       (demo_created\<lparr>db_workers := [new_worker 2 ''k1'' ''hash'' ''http://k1'']\<rparr>)"

definition demo_hello :: worker_hello where
  "demo_hello =
     \<lparr>hel_credential = ''hash'', hel_worker = ''k1'', hel_version = ''1'', hel_hostname = ''host'',
      hel_arch = Amd64,
      hel_images = [\<lparr>rti_image = ''img'', rti_image_id = None, rti_version = ''1'', rti_pi_web = None,
                     rti_pi = None, rti_capabilities = []\<rparr>],
      hel_max = 2, hel_allocated = 0,
      hel_resources = \<lparr>wsr_cpu_count = None, wsr_memory = None\<rparr>,
      hel_egress = \<lparr>egs_enforced = True, egs_revision = Some 0\<rparr>,
      hel_storage = \<lparr>sts_enforced = True, sts_fs_type = None, sts_total = None, sts_free = None\<rparr>,
      hel_relay = \<lparr>mrs_enabled = True, mrs_port = Some 80, mrs_listening = True\<rparr>,
      hel_received = 3\<rparr>"

definition result_db :: "'e + 'a \<times> db \<Rightarrow> db" where
  "result_db r = (case r of Inl _ \<Rightarrow> empty_db | Inr (_, d) \<Rightarrow> d)"

definition demo_online :: db where
  "demo_online = result_db (recordWorkerHello 3 demo_hello demo_provisioned)"

definition demo_starting :: db where
  "demo_starting =
     result_db (scheduleWorkspaceStart selectWorker 4 ''w1'' ''u1'' 0 [''k1''] demo_online)"

definition demo_running :: db where
  "demo_running = snd (finishWorkspaceStart 5 ''w1'' ''k1'' demo_starting)"

definition demo_issue :: model_key_issue where
  "demo_issue =
     \<lparr>mki_id = ''m1'', mki_workspace = ''w1'', mki_user = ''u1'', mki_alias = ''arw-w1-1'',
      mki_worker = ''k1''\<rparr>"

definition demo_keyed :: db where
  "demo_keyed = snd (finish_issue 6 Start demo_issue demo_running)"

lemmas demo_defs = demo_user_def demo_accounts_def demo_workspace_def demo_created_def
  demo_provisioned_def demo_hello_def new_user_def new_workspace_def new_worker_def empty_db_def

lemma demo_create_user:
  "createUser 0 ''u1'' ''a@b'' (Some ''root'') ''pw'' Admin None empty_db =
   Inr (mapUser demo_user, demo_accounts)"
  by (simp add: createUser_def insert_user_def Let_def demo_defs email_ok_def username_ok_def
      to_lower_def lower_char_def is_lower_def is_digit_def)

lemma demo_create_workspace:
  "createWorkspace 1 ''w1'' ''u1'' ''ws'' ''img'' 100 demo_accounts =
   Inr (mapWorkspace demo_workspace, demo_created)"
  by (simp add: createWorkspace_def insert_workspace_def Let_def demo_defs)

lemma demo_provision:
  "provisionWorkerWithGateway 2 ''k1'' ''hash'' ''http://k1'' demo_created = Inr demo_provisioned"
  by (simp add: provisionWorkerWithGateway_def insert_worker_def demo_defs audit_workspace_insert_def)

lemma reachable_steps:
  "reachable d \<Longrightarrow> workspace_step d d' \<Longrightarrow> reachable d'"
  "reachable d \<Longrightarrow> worker_step d d' \<Longrightarrow> reachable d'"
  "reachable d \<Longrightarrow> key_step d d' \<Longrightarrow> reachable d'"
  "reachable d \<Longrightarrow> user_step d d' \<Longrightarrow> reachable d'"
  "reachable d \<Longrightarrow> policy_step d d' \<Longrightarrow> reachable d'"
  "reachable d \<Longrightarrow> other_step d d' \<Longrightarrow> reachable d'"
  by (blast intro: reachable.step [unfolded platform_step_def])+

lemma reachable_created: "reachable demo_created"
  by (rule reachable_steps(1) [OF reachable_steps(4) [OF reachable.empty
          user_step.create_user [OF demo_create_user]] workspace_step.create [OF demo_create_workspace]])

lemma reachable_provisioned: "reachable demo_provisioned"
  by (rule reachable_steps(2) [OF reachable_created worker_step.provision [OF demo_provision]])

lemma demo_hello_ok: "\<exists>d'. recordWorkerHello 3 demo_hello demo_provisioned = Inr (True, d')"
  by (simp add: recordWorkerHello_def demo_defs audit_workspace_insert_def returning_def
      within_capacity_def Let_def)

lemma reachable_online: "reachable demo_online"
  using demo_hello_ok reachable_steps(2) [OF reachable_provisioned] worker_step.hello
  by (fastforce simp: demo_online_def result_db_def)

definition demo_worker :: worker_row where
  "demo_worker = (new_worker 2 ''k1'' ''hash'' ''http://k1'')
     \<lparr>wk_hostname := Some ''host'', wk_arch := Some Amd64, wk_status := ONLINE,
      wk_image := Some ''img'', wk_runtime_version := Some ''1'',
      wk_images := hel_images demo_hello, wk_version := Some ''1'', wk_max := Some 2,
      wk_heartbeat := Some 3, wk_egress_enforced := True, wk_egress_revision := Some 0,
      wk_egress_checked := Some 3, wk_storage_enforced := True, wk_storage_checked := Some 3,
      wk_relay_enabled := True, wk_relay_port := Some 80, wk_relay_listening := True,
      wk_updated := 3\<rparr>"

lemma demo_online_tables:
  "db_users demo_online = [demo_user]" "db_workspaces demo_online = [demo_workspace]"
  "db_workers demo_online = [demo_worker]" "db_keys demo_online = []"
  "db_egress_revision demo_online = 0"
  by (simp_all add: demo_online_def result_db_def recordWorkerHello_def demo_defs demo_worker_def
      audit_workspace_insert_def returning_def within_capacity_def update_workers_def
      update_where_def workers_enabled_status_def after_worker_update_def
      workers_after_version_change_def workers_after_enabled_change_def
      record_worker_audit_event_def recordWorkerEgress_def recordWorkerStorage_def Let_def)

lemma demo_selection:
  "\<exists>r. scheduleWorkspaceStart selectWorker 4 ''w1'' ''u1'' 0 [''k1''] demo_online = Inr (r, demo_starting)"
  "db_workspaces demo_starting = [demo_workspace\<lparr>ws_worker := Some ''k1'', ws_state := STARTING,
     ws_desired := Want_RUNNING, ws_updated := 4, ws_activity := 4\<rparr>]"
  "db_users demo_starting = [demo_user]" "db_workers demo_starting = [demo_worker]"
  "db_keys demo_starting = []"
  by (simp_all add: demo_starting_def result_db_def scheduleWorkspaceStart_def demo_online_tables
      demo_workspace_def new_workspace_def startable_def selectWorker_def selection_for_def
      schedule_candidates_def mapCandidate_def demo_worker_def demo_hello_def new_worker_def
      isCompatible_def image_of_def assigned_to_def assign_worker_def returning_def update_where_def
      Let_def split: prod.splits)

lemma reachable_starting: "reachable demo_starting"
  using demo_selection(1) reachable_steps(1) [OF reachable_online] workspace_step.schedule by blast

lemma reachable_running: "reachable demo_running"
  unfolding demo_running_def
  by (rule reachable_steps(1) [OF reachable_starting workspace_step.finish_start])

lemma demo_running_tables:
  "db_workspaces demo_running = [demo_workspace\<lparr>ws_worker := Some ''k1'', ws_state := RUNNING,
     ws_desired := Want_RUNNING, ws_updated := 5, ws_activity := 5\<rparr>]"
  "db_users demo_running = [demo_user]" "db_workers demo_running = [demo_worker]"
  "db_keys demo_running = []"
  by (simp_all add: demo_running_def finishWorkspaceStart_def update_one_def demo_selection
      update_where_def demo_workspace_def new_workspace_def)

lemma demo_prepared: "prepare_issue ''m1'' ''w1'' demo_running = Inr demo_issue"
  by (simp add: prepare_issue_def demo_running_tables demo_user_def new_user_def demo_workspace_def
      new_workspace_def demo_worker_def new_worker_def live_keys_def next_sequence_def
      key_alias_for_def alias_prefix_def decimal.simps char_of_def bit_0 demo_issue_def)

lemma reachable_keyed: "reachable demo_keyed"
  unfolding demo_keyed_def
  by (rule reachable_steps(3) [OF reachable_running key_step.issue_key [OF demo_prepared]])
    (simp add: share_locked_def)

lemma demo_keyed_keys: "db_keys demo_keyed = [issued_row 6 Start demo_issue]"
  by (simp add: demo_keyed_def finish_issue_def demo_running_tables)

lemma demo_keyed_tables:
  "db_workspaces demo_keyed = db_workspaces demo_running" "db_users demo_keyed = [demo_user]"
  "db_workers demo_keyed = [demo_worker]"
  by (simp_all add: demo_keyed_def finish_issue_def demo_running_tables)

end
