(* ===== verification/Http.thy ===== *)
theory Http
  imports Prelude Ipv4
begin

text \<open>
  \<open>packages/gateway/src/index.ts\<close>: the HTTP rules the Control Plane Gateway and the Worker Gateway
  share - which headers and cookies pass, the host name of a Workspace, and the life of one
  proxied request or WebSocket upgrade.

  A header object is the list of its properties in insertion order; \<open>None\<close> is a property whose
  value is \<open>undefined\<close>. Node hands over lower-case names. A parsed \<open>URL\<close> is a record of its
  components: the WHATWG parser, \<open>isIP\<close> and Zod's UUID test are parameters.
\<close>

section \<open>Headers\<close>

datatype header_value = Text string | Texts "string list"

type_synonym headers = "(string \<times> header_value option) list"

definition header :: "string \<Rightarrow> headers \<Rightarrow> header_value option" where
  "header name hs = (case map_of hs name of None \<Rightarrow> None | Some v \<Rightarrow> v)"

definition text_header :: "string \<Rightarrow> headers \<Rightarrow> string option" where
  "text_header name hs = (case header name hs of Some (Text s) \<Rightarrow> Some s | _ \<Rightarrow> None)"

definition HOP_BY_HOP_HEADERS :: "string list" where
  "HOP_BY_HOP_HEADERS =
     [''connection'', ''keep-alive'', ''proxy-authenticate'', ''proxy-authorization'', ''te'',
      ''trailer'', ''transfer-encoding'', ''upgrade'']"

definition NEXT_INTERNAL_HEADERS :: "string list" where
  "NEXT_INTERNAL_HEADERS =
     [''x-prerender-revalidate'', ''x-prerender-revalidate-if-generated'',
      ''x-middleware-subrequest'', ''x-middleware-invoke'']"

definition NEXT_INTERNAL_PREFIXES :: "string list" where
  "NEXT_INTERNAL_PREFIXES = [''x-invoke-'']"

definition PLATFORM_COOKIE_NAMES :: "string list" where
  "PLATFORM_COOKIE_NAMES = [''platform-session'', ''__Host-platform-session'']"

text \<open>The expression \<open>/^[!#$%&'*+.^_`|~0-9a-z-]+$/\<close>.\<close>

definition token_char :: "char \<Rightarrow> bool" where
  "token_char c \<longleftrightarrow>
     is_digit c \<or> is_lower c \<or> c \<in> set ''!#$%&*+.^_|~-'' \<or> c = CHR 0x27 \<or> c = CHR 0x60"

definition header_token :: "string \<Rightarrow> bool" where
  "header_token s \<longleftrightarrow> s \<noteq> [] \<and> list_all token_char s"

definition connectionHeaderTokens :: "headers \<Rightarrow> string list" where
  "connectionHeaderTokens hs =
     (let combined = (case header ''connection'' hs of
                        None \<Rightarrow> []
                      | Some (Text s) \<Rightarrow> s
                      | Some (Texts ss) \<Rightarrow> join_with CHR '','' ss)
      in filter header_token (map (\<lambda>v. to_lower (trim v)) (split_on CHR '','' combined)))"

definition next_internal :: "string \<Rightarrow> bool" where
  "next_internal lower \<longleftrightarrow> list_ex (\<lambda>prefix. starts_with prefix lower) NEXT_INTERNAL_PREFIXES"

definition blocked_names :: "headers \<Rightarrow> headers \<Rightarrow> string list" where
  "blocked_names hs replacements =
     connectionHeaderTokens hs @ HOP_BY_HOP_HEADERS @ NEXT_INTERNAL_HEADERS @
     map (\<lambda>(name, _). to_lower name) replacements"

definition sanitizeRequestHeaders :: "headers \<Rightarrow> headers \<Rightarrow> headers" where
  "sanitizeRequestHeaders hs replacements =
     (let blocked = blocked_names hs replacements;
          kept = foldl (\<lambda>result (name, value).
             let lower = to_lower name in
             if next_internal lower then result
             else if value \<noteq> None \<and> lower \<notin> set blocked then obj_set name value result
             else result) [] hs
      in foldl (\<lambda>result (name, value). if value \<noteq> None then obj_set name value result else result)
           kept replacements)"

section \<open>Cookies\<close>

text \<open>\<open>separator < 0 ? part : part.slice(0, separator)\<close>, trimmed.\<close>

definition cookie_name :: "string \<Rightarrow> string" where
  "cookie_name part = trim (takeWhile (\<lambda>c. c \<noteq> CHR ''='') part)"

definition stripPlatformCookies :: "string option \<Rightarrow> string option" where
  "stripPlatformCookies cookieHeader =
     (case cookieHeader of
        None \<Rightarrow> None
      | Some text \<Rightarrow>
          let kept = filter (\<lambda>part. cookie_name part \<notin> set PLATFORM_COOKIE_NAMES)
                       (split_on CHR '';'' text);
              result = trim (join_with CHR '';'' kept)
          in if result = '''' then None else Some result)"

definition isPlatformSetCookie :: "string \<Rightarrow> bool" where
  "isPlatformSetCookie value \<longleftrightarrow>
     cookie_name (hd (split_on CHR '';'' value)) \<in> set PLATFORM_COOKIE_NAMES"

section \<open>Origins and host names\<close>

record url =
  url_protocol :: string
  url_username :: string
  url_password :: string
  url_hostname :: string
  url_port :: string
  url_pathname :: string
  url_search :: string
  url_hash :: string

definition host_port :: "string \<Rightarrow> string \<Rightarrow> string" where
  "host_port hostname port = hostname @ (if port = '''' then '''' else CHR '':'' # port)"

definition url_host :: "url \<Rightarrow> string" where
  "url_host u = host_port (url_hostname u) (url_port u)"

text \<open>The origin of an HTTP(S) URL; that of any other scheme is opaque.\<close>

definition url_origin :: "url \<Rightarrow> string" where
  "url_origin u =
     (if url_protocol u = ''http:'' \<or> url_protocol u = ''https:''
      then url_protocol u @ ''//'' @ url_host u else ''null'')"

definition parseHttpOrigin :: "(string \<Rightarrow> url option) \<Rightarrow> string \<Rightarrow> url option" where
  "parseHttpOrigin parse_url value =
     (case parse_url value of
        None \<Rightarrow> None
      | Some parsed \<Rightarrow>
          if (url_protocol parsed \<noteq> ''http:'' \<and> url_protocol parsed \<noteq> ''https:'') \<or>
             url_username parsed \<noteq> '''' \<or> url_password parsed \<noteq> '''' \<or>
             url_pathname parsed \<noteq> ''/'' \<or> url_search parsed \<noteq> '''' \<or> url_hash parsed \<noteq> ''''
          then None else Some parsed)"

record workspace_base_url =
  base_protocol :: string
  base_hostname :: string
  base_port :: string

text \<open>The label expression \<open>/^[a-z0-9](?:[a-z0-9-]{0,61}[a-z0-9])?$/\<close>.\<close>

definition alnum :: "char \<Rightarrow> bool" where
  "alnum c \<longleftrightarrow> is_digit c \<or> is_lower c"

definition host_label :: "string \<Rightarrow> bool" where
  "host_label s \<longleftrightarrow>
     s \<noteq> [] \<and> length s \<le> 63 \<and> alnum (hd s) \<and> alnum (last s) \<and>
     list_all (\<lambda>c. alnum c \<or> c = CHR ''-'') s"

definition parseWorkspaceBaseUrl ::
  "(string \<Rightarrow> url option) \<Rightarrow> (string \<Rightarrow> nat) \<Rightarrow> string \<Rightarrow> workspace_base_url option" where
  "parseWorkspaceBaseUrl parse_url isIP value =
     (case parseHttpOrigin parse_url value of
        None \<Rightarrow> None
      | Some parsed \<Rightarrow>
          let hostname = to_lower (url_hostname parsed); protocol = url_protocol parsed in
          if (protocol \<noteq> ''http:'' \<and> protocol \<noteq> ''https:'') \<or> isIP hostname \<noteq> 0 \<or>
             length hostname > 253 \<or> \<not> list_all host_label (split_on CHR ''.'' hostname)
          then None
          else Some \<lparr>base_protocol = protocol, base_hostname = hostname,
                     base_port = url_port parsed\<rparr>)"

definition authority :: "workspace_base_url \<Rightarrow> string" where
  "authority base = host_port (base_hostname base) (base_port base)"

text \<open>\<open>None\<close> is the error \<open>WorkspaceIdSchema.parse\<close> throws.\<close>

definition workspaceHost :: "(string \<Rightarrow> bool) \<Rightarrow> string \<Rightarrow> workspace_base_url \<Rightarrow> string option" where
  "workspaceHost is_uuid workspaceId base =
     (if is_uuid workspaceId then Some (workspaceId @ CHR ''.'' # authority base) else None)"

definition workspaceOrigin :: "(string \<Rightarrow> bool) \<Rightarrow> string \<Rightarrow> workspace_base_url \<Rightarrow> string option" where
  "workspaceOrigin is_uuid workspaceId base =
     map_option (\<lambda>host. base_protocol base @ ''//'' @ host) (workspaceHost is_uuid workspaceId base)"

definition workspaceIdFromHost ::
  "(string \<Rightarrow> bool) \<Rightarrow> string option \<Rightarrow> workspace_base_url \<Rightarrow> string option" where
  "workspaceIdFromHost is_uuid hostHeader base =
     (case hostHeader of
        None \<Rightarrow> None
      | Some host \<Rightarrow>
          if host \<noteq> to_lower host then None
          else
            let suffix = CHR ''.'' # authority base in
            if \<not> ends_with suffix host then None
            else
              let candidate = take (length host - length suffix) host in
              if is_uuid candidate \<and> workspaceHost is_uuid candidate base = Some host
              then Some candidate else None)"

section \<open>Responses\<close>

definition tlsServername :: "(string \<Rightarrow> nat) \<Rightarrow> url \<Rightarrow> string option" where
  "tlsServername isIP target =
     (if url_protocol target \<noteq> ''https:'' then None
      else
        let h = url_hostname target;
            bracketed = h \<noteq> [] \<and> length h \<ge> 2 \<and> hd h = CHR ''['' \<and> last h = CHR '']'';
            hostname = (if bracketed then butlast (tl h) else h)
        in Some (if isIP hostname = 0 then hostname else ''''))"

definition sanitizeSetCookie :: "headers \<Rightarrow> headers \<Rightarrow> headers" where
  "sanitizeSetCookie received result =
     (let setCookie = (case header ''set-cookie'' received of
                         Some (Texts values) \<Rightarrow> filter (\<lambda>v. \<not> isPlatformSetCookie v) values
                       | _ \<Rightarrow> [])
      in if setCookie = [] then obj_delete ''set-cookie'' result
         else obj_set ''set-cookie'' (Some (Texts setCookie)) result)"

text \<open>\<open>resolve location target\<close> is \<open>new URL(location, target)\<close>, \<open>None\<close> when it throws.\<close>

definition sanitizeResponseHeaders ::
  "(string \<Rightarrow> url \<Rightarrow> url option) \<Rightarrow> headers \<Rightarrow> url \<Rightarrow> string option \<Rightarrow> headers" where
  "sanitizeResponseHeaders resolve hs target publicOrigin =
     (let result = sanitizeSetCookie hs (sanitizeRequestHeaders hs []) in
      case (text_header ''location'' hs, publicOrigin) of
        (Some location, Some origin) \<Rightarrow>
          (case resolve location target of
             None \<Rightarrow> obj_delete ''location'' result
           | Some parsed \<Rightarrow>
               if url_origin parsed = url_origin target
               then obj_set ''location''
                      (Some (Text (origin @ url_pathname parsed @ url_search parsed @ url_hash parsed)))
                      result
               else result)
      | _ \<Rightarrow> result)"

definition targetPath :: "string option \<Rightarrow> string option" where
  "targetPath path =
     (case path of
        None \<Rightarrow> None
      | Some p \<Rightarrow> if \<not> starts_with ''/'' p \<or> starts_with ''//'' p then None else Some p)"

section \<open>Lemmas on headers\<close>

lemma map_of_fold_kept:
  "distinct (map fst hs) \<Longrightarrow>
   map_of (foldl (\<lambda>result (name, value). if p name value then obj_set name value result else result) r hs) n =
   (case map_of hs n of Some v \<Rightarrow> if p n v then Some v else map_of r n | None \<Rightarrow> map_of r n)"
proof (induction hs arbitrary: r)
  case Nil
  then show ?case by simp
next
  case (Cons h hs)
  obtain k v where h: "h = (k, v)" by (cases h)
  with Cons.prems have "map_of hs k = None" by (simp add: map_of_eq_None_iff)
  with Cons h show ?case by (auto split: option.splits)
qed

definition passes :: "headers \<Rightarrow> headers \<Rightarrow> string \<Rightarrow> bool" where
  "passes hs replacements name \<longleftrightarrow>
     \<not> next_internal (to_lower name) \<and> to_lower name \<notin> set (blocked_names hs replacements)"

lemma sanitize_fold:
  "sanitizeRequestHeaders hs reps =
   foldl (\<lambda>result (name, value). if value \<noteq> None then obj_set name value result else result)
     (foldl (\<lambda>result (name, value). if value \<noteq> None \<and> passes hs reps name
        then obj_set name value result else result) [] hs) reps"
  unfolding sanitizeRequestHeaders_def Let_def passes_def
  by (rule arg_cong [where f = "\<lambda>kept. foldl _ kept reps"])
    (rule foldl_cong, auto split: prod.split)

theorem header_sanitized:
  assumes "distinct (map fst hs)" "distinct (map fst reps)"
  shows "header name (sanitizeRequestHeaders hs reps) =
    (if header name reps \<noteq> None then header name reps
     else if passes hs reps name then header name hs else None)"
  using assms unfolding sanitize_fold
  by (auto simp: header_def map_of_fold_kept split: option.splits)

section \<open>Lemmas on cookies\<close>

lemma split_on_snoc:
  "x \<noteq> c \<Longrightarrow> split_on c (s @ [x]) = butlast (split_on c s) @ [last (split_on c s) @ [x]]"
  by (induction s) (auto split: list.splits)

lemma js_space_plain [simp]: "js_space c \<Longrightarrow> c \<noteq> CHR '';''" "js_space c \<Longrightarrow> c \<noteq> CHR ''=''"
  by (auto simp: js_space_def)

lemma trim_Cons_space: "js_space x \<Longrightarrow> trim (x # s) = trim s"
  by (simp add: trim_def)

lemma trim_snoc_space: "js_space x \<Longrightarrow> trim (s @ [x]) = trim s"
  by (cases "\<forall>c \<in> set s. js_space c")
    (auto simp: trim_def dropWhile_append1 dropWhile_append2 dest: set_dropWhileD)

lemma cookie_name_Cons_space: "js_space x \<Longrightarrow> cookie_name (x # s) = cookie_name s"
  by (simp add: cookie_name_def trim_Cons_space)

lemma cookie_name_snoc_space:
  assumes "js_space x"
  shows "cookie_name (s @ [x]) = cookie_name s"
proof (cases "CHR ''='' \<in> set s")
  case True
  then show ?thesis by (simp add: cookie_name_def takeWhile_append1)
next
  case False
  then have "takeWhile (\<lambda>c. c \<noteq> CHR ''='') s = s" by (auto simp: takeWhile_eq_all_conv)
  moreover have "takeWhile (\<lambda>c. c \<noteq> CHR ''='') (s @ [x]) = s @ [x]"
    using False assms by (auto simp: takeWhile_eq_all_conv)
  ultimately show ?thesis unfolding cookie_name_def by (simp only: trim_snoc_space [OF assms])
qed

lemma names_ltrim:
  "map cookie_name (split_on CHR '';'' (dropWhile js_space s)) = map cookie_name (split_on CHR '';'' s)"
  by (induction s) (auto simp: cookie_name_Cons_space split: list.splits)

lemma names_rtrim:
  "map cookie_name (split_on CHR '';'' (rev (dropWhile js_space (rev s)))) =
   map cookie_name (split_on CHR '';'' s)"
proof (induction s rule: rev_induct)
  case Nil
  then show ?case by simp
next
  case (snoc x s)
  have "map cookie_name (butlast ps) @ [cookie_name (last ps)] = map cookie_name ps" if "ps \<noteq> []" for ps
    using that by (metis append_butlast_last_id list.simps(8,9) map_append)
  with snoc show ?case
    by (cases "js_space x") (simp_all add: split_on_snoc cookie_name_snoc_space)
qed

lemma names_trim:
  "map cookie_name (split_on CHR '';'' (trim s)) = map cookie_name (split_on CHR '';'' s)"
  unfolding trim_def by (simp add: names_rtrim names_ltrim)

lemma names_join:
  assumes "\<forall>p \<in> set ps. CHR '';'' \<notin> set p" "trim (join_with CHR '';'' ps) \<noteq> ''''"
  shows "map cookie_name (split_on CHR '';'' (trim (join_with CHR '';'' ps))) = map cookie_name ps"
proof -
  have "ps \<noteq> []" using assms(2) by (auto simp: trim_def)
  then show ?thesis using assms(1) by (simp add: names_trim split_on_join)
qed



lemma strip_names:
  assumes "stripPlatformCookies (Some h) = Some r"
  shows "map cookie_name (split_on CHR '';'' r) =
    filter (\<lambda>n. n \<notin> set PLATFORM_COOKIE_NAMES) (map cookie_name (split_on CHR '';'' h))"
proof -
  let ?kept = "filter (\<lambda>part. cookie_name part \<notin> set PLATFORM_COOKIE_NAMES) (split_on CHR '';'' h)"
  have "r = trim (join_with CHR '';'' ?kept)" "r \<noteq> ''''"
    using assms by (auto simp: stripPlatformCookies_def Let_def split: if_splits)
  moreover have "\<forall>p \<in> set ?kept. CHR '';'' \<notin> set p" by (auto dest: split_on_no_sep)
  ultimately have "map cookie_name (split_on CHR '';'' r) = map cookie_name ?kept"
    using names_join by metis
  then show ?thesis by (simp add: filter_map comp_def)
qed

lemma strip_none:
  assumes "stripPlatformCookies (Some h) = None" "n \<in> set (map cookie_name (split_on CHR '';'' h))"
  shows "n \<in> set PLATFORM_COOKIE_NAMES \<or> n = ''''"
proof (rule disjCI)
  let ?kept = "filter (\<lambda>part. cookie_name part \<notin> set PLATFORM_COOKIE_NAMES) (split_on CHR '';'' h)"
  assume other: "n \<noteq> ''''"
  have empty: "trim (join_with CHR '';'' ?kept) = ''''"
    using assms(1) by (auto simp: stripPlatformCookies_def Let_def split: if_splits)
  show "n \<in> set PLATFORM_COOKIE_NAMES"
  proof (rule ccontr)
    assume "n \<notin> set PLATFORM_COOKIE_NAMES"
    then have named: "n \<in> set (map cookie_name ?kept)" using assms(2) by auto
    moreover have "?kept \<noteq> []" using named by (metis empty_iff list.set(1) list.simps(8))
    moreover have "\<forall>p \<in> set ?kept. CHR '';'' \<notin> set p" by (auto dest: split_on_no_sep)
    ultimately have "n \<in> set (map cookie_name (split_on CHR '';'' (trim (join_with CHR '';'' ?kept))))"
      unfolding names_trim by (simp only: split_on_join not_False_eq_True)
    then have "n = cookie_name ''''" unfolding empty by simp
    with other show False by (simp add: cookie_name_def trim_def)
  qed
qed

section \<open>Lemmas on hosts\<close>

lemma workspace_host_origin:
  "workspaceOrigin is_uuid w base = Some origin \<longleftrightarrow>
   (\<exists>host. workspaceHost is_uuid w base = Some host \<and> origin = base_protocol base @ ''//'' @ host)"
  by (auto simp: workspaceOrigin_def)

lemma id_from_host:
  "workspaceIdFromHost is_uuid h base = Some w \<longleftrightarrow>
   (\<exists>host. h = Some host \<and> to_lower host = host \<and> workspaceHost is_uuid w base = Some host)"
proof (cases h)
  case (Some host)
  then show ?thesis
    by (auto simp: workspaceIdFromHost_def workspaceHost_def ends_with_def Let_def split: if_splits)
qed (simp add: workspaceIdFromHost_def)

section \<open>Properties\<close>

text \<open>A header reaches the next hop exactly when it is a defined replacement, or it is a header of
the request that no replacement names, that is neither hop-by-hop nor listed by \<open>Connection\<close>, nor
one of the internal headers of Next.js; replacements win, and nothing else is added.\<close>

theorem headers_forwarded_exactly:
  assumes "distinct (map fst hs)" "distinct (map fst reps)"
  shows "header name (sanitizeRequestHeaders hs reps) = Some v \<longleftrightarrow>
    header name reps = Some v \<or>
    header name reps = None \<and> header name hs = Some v \<and>
    to_lower name \<notin> set (connectionHeaderTokens hs) \<union> set HOP_BY_HOP_HEADERS \<union>
      set NEXT_INTERNAL_HEADERS \<union> to_lower ` fst ` set reps \<and>
    \<not> starts_with ''x-invoke-'' (to_lower name)"
  unfolding header_sanitized [OF assms]
  by (auto simp: passes_def blocked_names_def next_internal_def NEXT_INTERNAL_PREFIXES_def
      image_iff case_prod_beta)

lemma headers_forwarded_exactly_witness:
  "header ''x-trace'' (sanitizeRequestHeaders [(''x-trace'', Some (Text ''1'')), (''te'', Some (Text ''2''))]
     [(''host'', Some (Text ''h''))]) = Some (Text ''1'')"
  by (subst headers_forwarded_exactly)
    (simp_all add: header_def connectionHeaderTokens_def HOP_BY_HOP_HEADERS_def
      NEXT_INTERNAL_HEADERS_def to_lower_def lower_char_def starts_with_def header_token_def trim_def)

text \<open>Stripping the platform's cookies keeps the names of all other cookies in their order and no
name of a platform cookie, whatever white space surrounds them; no header is sent exactly when
nothing but platform cookies and blanks was there.\<close>

theorem platform_cookies_stripped:
  "(stripPlatformCookies (Some h) = Some r \<longrightarrow>
      map cookie_name (split_on CHR '';'' r) =
      filter (\<lambda>n. n \<notin> set PLATFORM_COOKIE_NAMES) (map cookie_name (split_on CHR '';'' h))) \<and>
   (stripPlatformCookies (Some h) = None \<longrightarrow>
      set (map cookie_name (split_on CHR '';'' h)) \<subseteq> insert '''' (set PLATFORM_COOKIE_NAMES))"
  using strip_names strip_none by blast

lemma platform_cookies_stripped_witness:
  "stripPlatformCookies (Some ''a=1; platform-session =x;b=2'') = Some ''a=1;b=2'' \<and>
   map cookie_name (split_on CHR '';'' ''a=1;b=2'') = [''a'', ''b'']"
proof -
  have "stripPlatformCookies (Some ''a=1; platform-session =x;b=2'') = Some ''a=1;b=2''"
    by (simp add: stripPlatformCookies_def cookie_name_def PLATFORM_COOKIE_NAMES_def trim_def js_space_def)
  then show ?thesis
    using platform_cookies_stripped [of "''a=1; platform-session =x;b=2''" "''a=1;b=2''"]
    by (simp add: cookie_name_def PLATFORM_COOKIE_NAMES_def trim_def js_space_def)
qed

text \<open>The host name of a Workspace round trips: a \<open>Host\<close> header names a Workspace exactly when it
is that Workspace's host in lower case, and two Workspaces never share a host name.\<close>

theorem workspace_hosts_round_trip:
  "(workspaceIdFromHost is_uuid hostHeader base = Some w \<longleftrightarrow>
     (\<exists>host. hostHeader = Some host \<and> to_lower host = host \<and> workspaceHost is_uuid w base = Some host)) \<and>
   (workspaceHost is_uuid w base = workspaceHost is_uuid v base \<and>
      workspaceHost is_uuid w base \<noteq> None \<longrightarrow> w = v)"
  by (auto simp: id_from_host workspaceHost_def split: if_splits)

lemma workspace_hosts_round_trip_witness:
  "workspaceIdFromHost (\<lambda>s. length s = 2) (Some ''w1.ws.test:8080'')
     \<lparr>base_protocol = ''http:'', base_hostname = ''ws.test'', base_port = ''8080''\<rparr> = Some ''w1''"
  by (subst conjunct1 [OF workspace_hosts_round_trip])
    (simp add: workspaceHost_def authority_def host_port_def to_lower_def lower_char_def)

end
