(* ===== verification/Proxy.thy ===== *)
theory Proxy
  imports Http
begin

text \<open>
  The connection life cycles of \<open>packages/gateway/src/index.ts\<close>: \<open>proxyHttpRequest\<close> and
  \<open>proxyWebSocketUpgrade\<close>. Their state is what the handlers read and write of the response, the
  upstream request and the two sockets; an event of Node's emitters is a constructor, its handler a
  branch of the step function. A registration is what \<open>onConnected\<close> returned; the counters say how
  often it was registered and unregistered.
\<close>

section \<open>One HTTP request\<close>

record http_proxy =
  px_status :: "nat option"
  px_headers_sent :: bool
  px_ended :: bool
  px_response_destroyed :: bool
  px_upstream_destroyed :: bool
  px_received :: bool
  px_received_destroyed :: bool
  px_cleaned :: bool
  px_unregister :: bool
  px_registered :: nat
  px_unregistered :: nat

definition idle_response :: "bool \<Rightarrow> http_proxy" where
  "idle_response destroyed =
     \<lparr>px_status = None, px_headers_sent = False, px_ended = False, px_response_destroyed = destroyed,
      px_upstream_destroyed = False, px_received = False, px_received_destroyed = False,
      px_cleaned = False, px_unregister = False, px_registered = 0, px_unregistered = 0\<rparr>"

definition sendJsonError :: "nat \<Rightarrow> http_proxy \<Rightarrow> http_proxy" where
  "sendJsonError statusCode p =
     (if px_headers_sent p then p\<lparr>px_response_destroyed := True\<rparr>
      else p\<lparr>px_headers_sent := True, px_status := Some statusCode, px_ended := True\<rparr>)"

definition px_cleanup :: "http_proxy \<Rightarrow> http_proxy" where
  "px_cleanup p =
     (if px_cleaned p then p
      else p\<lparr>px_cleaned := True, px_unregister := False,
             px_unregistered := px_unregistered p + (if px_unregister p then 1 else 0)\<rparr>)"

definition px_disconnect :: "http_proxy \<Rightarrow> http_proxy" where
  "px_disconnect p =
     (px_cleanup p)\<lparr>px_received_destroyed := (if px_received p then True else px_received_destroyed p),
        px_upstream_destroyed := True, px_response_destroyed := True\<rparr>"

text \<open>
  \<open>onConnected\<close>: absent, or registering the connection; the flag says that the registration calls
  \<open>disconnect\<close> before it returns.
\<close>

definition px_connect :: "bool option \<Rightarrow> http_proxy \<Rightarrow> http_proxy" where
  "px_connect onConnected p =
     (case onConnected of
        None \<Rightarrow> p
      | Some at_once \<Rightarrow>
          let p1 = p\<lparr>px_registered := px_registered p + 1\<rparr>;
              p2 = (if at_once then px_disconnect p1 else p1)
          in if px_cleaned p2 then p2\<lparr>px_unregistered := px_unregistered p2 + 1\<rparr>
             else p2\<lparr>px_unregister := True\<rparr>)"

text \<open>The target must be HTTP(S); \<open>opens\<close> is whether the client accepts the request options.\<close>

definition requester :: "url \<Rightarrow> bool" where
  "requester target \<longleftrightarrow> url_protocol target = ''http:'' \<or> url_protocol target = ''https:''"

text \<open>The result says whether the handlers are installed.\<close>

definition proxyHttpRequest ::
  "string option \<Rightarrow> url \<Rightarrow> bool \<Rightarrow> bool option \<Rightarrow> http_proxy \<Rightarrow> bool \<times> http_proxy" where
  "proxyHttpRequest path target opens onConnected p =
     (if px_response_destroyed p then (False, p)
      else case targetPath path of
             None \<Rightarrow> (False, sendJsonError 400 p)
           | Some _ \<Rightarrow>
               if \<not> requester target \<or> \<not> opens then (False, sendJsonError 502 p)
               else (True, px_connect onConnected p))"

datatype http_event =
  Timed_Out | Upstream_Response nat | Received_Aborted | Received_Error | Received_Close
  | Received_End | Upstream_Error | Response_Close | Request_Aborted | Request_Error | Disconnect

fun on_http :: "http_event \<Rightarrow> http_proxy \<Rightarrow> http_proxy" where
  "on_http Timed_Out p = p\<lparr>px_upstream_destroyed := True\<rparr>"
| "on_http (Upstream_Response statusCode) p =
     p\<lparr>px_received := True, px_headers_sent := True, px_status := Some statusCode\<rparr>"
| "on_http Received_Aborted p = (if px_received p then px_disconnect p else p)"
| "on_http Received_Error p = (if px_received p then px_disconnect p else p)"
| "on_http Received_Close p = (if px_received p then px_cleanup p else p)"
| "on_http Received_End p = (if px_received p then p\<lparr>px_ended := True\<rparr> else p)"
| "on_http Upstream_Error p = (if px_response_destroyed p then p else sendJsonError 502 p)"
| "on_http Response_Close p =
     px_cleanup (if px_ended p then p else p\<lparr>px_upstream_destroyed := True\<rparr>)"
| "on_http Request_Aborted p = px_disconnect p"
| "on_http Request_Error p = px_disconnect p"
| "on_http Disconnect p = px_disconnect p"

definition http_run :: "http_event list \<Rightarrow> http_proxy \<Rightarrow> http_proxy" where
  "http_run es p = fold on_http es p"

text \<open>The events after which the connection must be gone.\<close>

definition http_final :: "http_event \<Rightarrow> bool" where
  "http_final e \<longleftrightarrow> e \<in> {Response_Close, Request_Aborted, Request_Error, Disconnect}"

section \<open>One WebSocket upgrade\<close>

record ws_proxy =
  wx_socket_destroyed :: bool
  wx_socket_ended :: bool
  wx_upstream_destroyed :: bool
  wx_started :: bool
  wx_connected :: bool
  wx_peer_destroyed :: bool
  wx_status :: "nat option"
  wx_rejections :: "nat list"
  wx_registered :: nat
  wx_unregistered :: nat

definition idle_socket :: "bool \<Rightarrow> bool \<Rightarrow> ws_proxy" where
  "idle_socket destroyed ended =
     \<lparr>wx_socket_destroyed = destroyed, wx_socket_ended = ended, wx_upstream_destroyed = False,
      wx_started = False, wx_connected = False, wx_peer_destroyed = False, wx_status = None,
      wx_rejections = [], wx_registered = 0, wx_unregistered = 0\<rparr>"

definition browserGone :: "ws_proxy \<Rightarrow> bool" where
  "browserGone p \<longleftrightarrow> wx_socket_destroyed p \<or> wx_socket_ended p"

definition wx_reject :: "nat \<Rightarrow> ws_proxy \<Rightarrow> ws_proxy" where
  "wx_reject statusCode p =
     p\<lparr>wx_rejections := wx_rejections p @ [statusCode], wx_status := Some statusCode\<rparr>"

definition proxyWebSocketUpgrade ::
  "string option \<Rightarrow> url \<Rightarrow> bool \<Rightarrow> ws_proxy \<Rightarrow> bool \<times> ws_proxy" where
  "proxyWebSocketUpgrade path target opens p =
     (if browserGone p then (False, p\<lparr>wx_socket_destroyed := True\<rparr>)
      else case targetPath path of
             None \<Rightarrow> (False, wx_reject 400 p)
           | Some _ \<Rightarrow>
               if \<not> requester target \<or> \<not> opens then (False, wx_reject 502 p) else (True, p))"

datatype ws_event =
  Ws_Timed_Out | Ws_Upgrade nat | Ws_Response nat | Ws_Response_Failed | Ws_Upstream_Error
  | Socket_End | Socket_Error | Socket_Close
  | Peer_End | Peer_Error | Peer_Close | Ws_Disconnect

text \<open>\<open>unregisterOnce\<close>, on the \<open>close\<close> of either socket.\<close>

definition wx_unregister :: "ws_proxy \<Rightarrow> ws_proxy" where
  "wx_unregister p =
     p\<lparr>wx_unregistered := (if wx_unregistered p < wx_registered p then wx_unregistered p + 1
                           else wx_unregistered p)\<rparr>"

fun on_ws :: "ws_event \<Rightarrow> ws_proxy \<Rightarrow> ws_proxy" where
  "on_ws Ws_Timed_Out p = p\<lparr>wx_upstream_destroyed := True\<rparr>"
| "on_ws (Ws_Upgrade statusCode) p =
     (if wx_started p then p
      else let p1 = p\<lparr>wx_started := True\<rparr> in
        if browserGone p1 then p1\<lparr>wx_peer_destroyed := True, wx_socket_destroyed := True\<rparr>
        else p1\<lparr>wx_status := Some statusCode, wx_registered := wx_registered p1 + 1,
                wx_connected := True\<rparr>)"
| "on_ws (Ws_Response statusCode) p =
     (if wx_started p then p
      else p\<lparr>wx_started := True, wx_rejections := wx_rejections p @ [statusCode],
             wx_status := Some statusCode\<rparr>)"
| "on_ws Ws_Response_Failed p =
     (if wx_started p \<and> \<not> wx_connected p then p\<lparr>wx_socket_destroyed := True\<rparr> else p)"
| "on_ws Ws_Upstream_Error p =
     (if wx_socket_destroyed p then p
      else if wx_started p then p\<lparr>wx_socket_destroyed := True\<rparr>
      else wx_reject 502 p)"
| "on_ws Socket_End p =
     (let p1 = p\<lparr>wx_socket_ended := True\<rparr> in
      if wx_connected p1 then p1\<lparr>wx_socket_destroyed := True\<rparr> else p1)"
| "on_ws Socket_Error p = (if wx_connected p then p\<lparr>wx_peer_destroyed := True\<rparr> else p)"
| "on_ws Socket_Close p =
     (let p1 = p\<lparr>wx_socket_destroyed := True, wx_upstream_destroyed := True\<rparr> in
      if wx_connected p1 then wx_unregister (p1\<lparr>wx_peer_destroyed := True\<rparr>) else p1)"
| "on_ws Peer_End p = (if wx_connected p then p\<lparr>wx_peer_destroyed := True\<rparr> else p)"
| "on_ws Peer_Error p = (if wx_connected p then p\<lparr>wx_socket_destroyed := True\<rparr> else p)"
| "on_ws Peer_Close p =
     (if wx_connected p
      then wx_unregister (p\<lparr>wx_peer_destroyed := True, wx_socket_destroyed := True\<rparr>) else p)"
| "on_ws Ws_Disconnect p =
     (if wx_connected p then p\<lparr>wx_socket_destroyed := True, wx_peer_destroyed := True\<rparr> else p)"

definition ws_run :: "ws_event list \<Rightarrow> ws_proxy \<Rightarrow> ws_proxy" where
  "ws_run es p = fold on_ws es p"

section \<open>Lemmas\<close>

text \<open>The registration of a request: open while not cleaned up, and given back exactly once.\<close>

definition http_balanced :: "nat \<Rightarrow> http_proxy \<Rightarrow> bool" where
  "http_balanced n p \<longleftrightarrow>
     px_registered p = n \<and>
     (if px_cleaned p then px_unregistered p = n \<and> \<not> px_unregister p
      else px_unregistered p = 0 \<and> (px_unregister p \<longleftrightarrow> n = 1) \<and> n \<le> 1)"

lemma cleanup_balanced: "http_balanced n p \<Longrightarrow> http_balanced n (px_cleanup p)"
  by (auto simp: http_balanced_def px_cleanup_def split: if_splits)

lemma cleanup_cleaned [simp]: "px_cleaned (px_cleanup p)" "px_cleaned (px_disconnect p)"
  by (simp_all add: px_cleanup_def px_disconnect_def)

lemma disconnect_balanced: "http_balanced n p \<Longrightarrow> http_balanced n (px_disconnect p)"
  by (auto simp: http_balanced_def px_disconnect_def px_cleanup_def)

lemma event_balanced: "http_balanced n p \<Longrightarrow> http_balanced n (on_http e p)"
  by (cases e) (auto simp: http_balanced_def sendJsonError_def px_disconnect_def px_cleanup_def)

lemma event_cleaned: "px_cleaned p \<or> http_final e \<Longrightarrow> px_cleaned (on_http e p)"
  by (cases e) (auto simp: http_final_def sendJsonError_def px_cleanup_def)

lemma run_balanced: "http_balanced n p \<Longrightarrow> http_balanced n (http_run es p)"
  by (induction es arbitrary: p) (simp_all add: http_run_def event_balanced)

lemma run_cleaned: "px_cleaned p \<or> list_ex http_final es \<Longrightarrow> px_cleaned (http_run es p)"
proof (induction es arbitrary: p)
  case Nil
  then show ?case by (simp add: http_run_def)
next
  case (Cons e es)
  then show ?case
    using event_cleaned [of p e] by (auto simp: http_run_def)
qed

lemma start_balanced:
  assumes "proxyHttpRequest path target opens onConnected (idle_response destroyed) = (True, p)"
  shows "http_balanced (if onConnected = None then 0 else 1) p"
  using assms
  by (auto simp: proxyHttpRequest_def px_connect_def idle_response_def http_balanced_def Let_def
      px_disconnect_def px_cleanup_def split: if_splits option.splits)

text \<open>The registration of an upgrade: at most one, given back at most once.\<close>

definition ws_balanced :: "ws_proxy \<Rightarrow> bool" where
  "ws_balanced p \<longleftrightarrow>
     wx_registered p = (if wx_connected p then 1 else 0) \<and> wx_unregistered p \<le> wx_registered p \<and>
     (wx_connected p \<longrightarrow> wx_started p) \<and>
     (wx_unregistered p = 1 \<longrightarrow> wx_socket_destroyed p \<and> wx_peer_destroyed p)"

lemma ws_event_balanced: "ws_balanced p \<Longrightarrow> ws_balanced (on_ws e p)"
  by (cases e; cases "wx_connected p")
    (auto simp: ws_balanced_def wx_reject_def wx_unregister_def Let_def)

lemma ws_run_balanced: "ws_balanced p \<Longrightarrow> ws_balanced (ws_run es p)"
  by (induction es arbitrary: p) (simp_all add: ws_run_def ws_event_balanced)

lemma ws_connected_stays: "wx_connected p \<Longrightarrow> wx_connected (on_ws e p)"
  by (cases e) (auto simp: wx_reject_def wx_unregister_def Let_def)

lemma ws_unregistered_stays:
  "wx_connected p \<Longrightarrow> ws_balanced p \<Longrightarrow> wx_unregistered p = 1 \<or> e \<in> {Socket_Close, Peer_Close} \<Longrightarrow>
   wx_unregistered (on_ws e p) = 1"
  by (cases e)
    (auto simp: ws_balanced_def wx_reject_def wx_unregister_def Let_def split: if_splits)

lemma ws_closed:
  "wx_connected p \<Longrightarrow> ws_balanced p \<Longrightarrow>
   wx_unregistered p = 1 \<or> Socket_Close \<in> set es \<or> Peer_Close \<in> set es \<Longrightarrow>
   wx_unregistered (ws_run es p) = 1"
proof (induction es arbitrary: p)
  case Nil
  then show ?case by (simp add: ws_run_def)
next
  case (Cons e es)
  have "wx_unregistered (on_ws e p) = 1 \<or> Socket_Close \<in> set es \<or> Peer_Close \<in> set es"
    using ws_unregistered_stays [of p e] Cons.prems by auto
  then show ?case
    using Cons.IH [of "on_ws e p"] ws_connected_stays [of p e] ws_event_balanced [of p e] Cons.prems
    by (simp add: ws_run_def)
qed

section \<open>Properties\<close>

text \<open>C23. A proxied HTTP request registers its connection once and gives the registration back at
most once, whatever order the events of the two streams come in, also when the platform disconnects
it while it is being registered; once the response closed, the request was aborted or failed, or the
platform disconnected it, the registration is given back and the proxy state is cleaned up.\<close>

theorem http_registration_given_back:
  assumes "proxyHttpRequest path target opens (Some at_once) (idle_response destroyed) = (True, p)"
  shows "px_registered (http_run es p) = 1 \<and> px_unregistered (http_run es p) \<le> 1 \<and>
    (list_ex http_final es \<longrightarrow> px_unregistered (http_run es p) = 1) \<and>
    (px_unregistered (http_run es p) = 1 \<longleftrightarrow> px_cleaned (http_run es p))"
  using run_balanced [OF start_balanced [OF assms], of es] run_cleaned [of p es]
  by (auto simp: http_balanced_def split: if_splits)

definition demo_target :: url where
  "demo_target = \<lparr>url_protocol = ''http:'', url_username = '''', url_password = '''',
     url_hostname = ''127.0.0.1'', url_port = ''3000'', url_pathname = ''/'', url_search = '''',
     url_hash = ''''\<rparr>"

lemma http_registration_given_back_witness:
  "px_unregistered (http_run [Upstream_Response 200, Received_Aborted, Response_Close]
     (snd (proxyHttpRequest (Some ''/a'') demo_target True (Some False) (idle_response False)))) = 1"
proof -
  obtain p where p: "proxyHttpRequest (Some ''/a'') demo_target True (Some False) (idle_response False) = (True, p)"
    by (simp add: proxyHttpRequest_def idle_response_def targetPath_def starts_with_def requester_def
        demo_target_def)
  show ?thesis
    using http_registration_given_back [OF p, of "[Upstream_Response 200, Received_Aborted, Response_Close]"]
    by (simp add: p http_final_def)
qed

text \<open>A WebSocket upgrade is registered at most once, only after the upstream accepted it, and is
unregistered at most once and only when both sockets are destroyed; as soon as either socket of a
connected upgrade has closed, both are destroyed and it is unregistered.\<close>

theorem ws_registration_given_back:
  shows "wx_registered (ws_run es (idle_socket destroyed ended)) \<le> 1 \<and>
    wx_unregistered (ws_run es (idle_socket destroyed ended)) \<le>
      wx_registered (ws_run es (idle_socket destroyed ended)) \<and>
    (wx_connected (ws_run es (idle_socket destroyed ended)) \<and>
      (Socket_Close \<in> set later \<or> Peer_Close \<in> set later) \<longrightarrow>
     wx_unregistered (ws_run (es @ later) (idle_socket destroyed ended)) = 1 \<and>
     wx_socket_destroyed (ws_run (es @ later) (idle_socket destroyed ended)) \<and>
     wx_peer_destroyed (ws_run (es @ later) (idle_socket destroyed ended)))"
proof -
  let ?p = "ws_run es (idle_socket destroyed ended)"
  have start: "ws_balanced (idle_socket destroyed ended)"
    by (simp add: ws_balanced_def idle_socket_def)
  then have p: "ws_balanced ?p" by (rule ws_run_balanced)
  have "ws_run (es @ later) (idle_socket destroyed ended) = ws_run later ?p"
    by (simp add: ws_run_def)
  moreover have "ws_balanced (ws_run later ?p)" by (rule ws_run_balanced [OF p])
  moreover have "wx_unregistered (ws_run later ?p) = 1"
    if "wx_connected ?p" "Socket_Close \<in> set later \<or> Peer_Close \<in> set later"
    using ws_closed [OF that(1) p] that(2) by blast
  ultimately show ?thesis using p by (auto simp: ws_balanced_def)
qed

lemma ws_registration_given_back_witness:
  "wx_unregistered (ws_run ([Ws_Upgrade 101] @ [Peer_Close]) (idle_socket False False)) = 1"
  using ws_registration_given_back [of "[Ws_Upgrade 101]" False False "[Peer_Close]"]
  by (simp add: ws_run_def idle_socket_def browserGone_def Let_def)

end
