(* ===== verification/GatewayChain.thy ===== *)
theory GatewayChain
  imports Proxy Users Workers Sessions
begin

text \<open>
  The two Gateways a request to a Workspace passes: \<open>apps/control-plane/src/gateway.ts\<close>, which admits
  a Browser by its session, and \<open>apps/worker/src/gateway.ts\<close>, which admits the Control Plane by the
  Worker's token. What a Gateway decides about a request is a value (\<open>gateway_decision\<close>,
  \<open>worker_decision\<close>); the connection it then proxies is the subject of \<open>Proxy\<close>.

  \<open>hashOpaqueToken\<close>, the WHATWG URL parser, \<open>isIP\<close>, Zod's UUID test and \<open>URLSearchParams\<close> are
  parameters, fields of \<open>gateway_env\<close>. Logging, metrics and the access tracker are left out.
  \<open>Inl\<close> is a thrown error.
\<close>

section \<open>Requests\<close>

record request =
  rq_method :: string
  rq_url :: "string option"
  rq_headers :: headers

definition worker_token_char :: "char \<Rightarrow> bool" where
  "worker_token_char c \<longleftrightarrow>
     is_digit c \<or> is_lower c \<or> is_upper c \<or> c = CHR ''_'' \<or> c = CHR ''-''"

definition WorkerTokenSchema :: "string \<Rightarrow> bool" where
  "WorkerTokenSchema s \<longleftrightarrow> 32 \<le> length s \<and> length s \<le> 256 \<and> list_all worker_token_char s"

text \<open>The Control Plane's dependencies.\<close>

record gateway_env =
  ge_hash :: "string \<Rightarrow> string"
  ge_uuid :: "string \<Rightarrow> bool"
  ge_url :: "string \<Rightarrow> url option"
  ge_isIP :: "string \<Rightarrow> nat"
  ge_form :: "string \<Rightarrow> (string \<times> string) list"
  ge_portal_origin :: string
  ge_allowed_origins :: "string list"
  ge_base_url :: string
  ge_secure :: bool
  ge_session_ttl :: nat
  ge_offline_after :: int
  ge_tokens :: "string \<rightharpoonup> string"

record authorized =
  az_workspace :: workspace_record
  az_user :: string
  az_session :: string
  az_token_hash :: string
  az_base_url :: url
  az_token :: string

section \<open>The Control Plane Gateway\<close>

definition parseCookie :: "string option \<Rightarrow> string \<Rightarrow> string option" where
  "parseCookie cookies name =
     (case cookies of
        None \<Rightarrow> None
      | Some text \<Rightarrow>
          let matches = map (drop (length name + 1))
                (filter (starts_with (name @ ''='')) (map trim (split_on CHR '';'' text)))
          in (case matches of [v] \<Rightarrow> if v = '''' then None else Some v | _ \<Rightarrow> None))"

definition sessionCookie :: "string \<Rightarrow> string \<Rightarrow> nat \<Rightarrow> bool \<Rightarrow> string" where
  "sessionCookie name value maxAgeSeconds secure =
     name @ ''='' @ value @ ''; Path=/; HttpOnly; SameSite=Lax; Max-Age='' @ decimal maxAgeSeconds @
     (if secure then ''; Secure'' else '''')"

definition cookie_of :: "gateway_env \<Rightarrow> string" where
  "cookie_of e = (if ge_secure e then ''__Host-platform-session'' else ''platform-session'')"

definition cross_site :: "headers \<Rightarrow> bool" where
  "cross_site hs \<longleftrightarrow> text_header ''sec-fetch-site'' hs = Some ''cross-site''"

text \<open>\<open>None\<close> is an origin that is present and not the expected one.\<close>

definition foreign_origin :: "headers \<Rightarrow> string \<Rightarrow> bool" where
  "foreign_origin hs expected \<longleftrightarrow>
     (case text_header ''origin'' hs of None \<Rightarrow> False | Some origin \<Rightarrow> origin \<noteq> expected)"

definition workspace_route ::
  "gateway_env \<Rightarrow> instant \<Rightarrow> authenticated_session \<Rightarrow> string \<Rightarrow> workspace_record \<Rightarrow> string \<Rightarrow> db
   \<Rightarrow> string + authorized option" where
  "workspace_route e now session tokenHash workspace workerId d =
     (case (findWorkerGatewayRoute workerId (now - ge_offline_after e) d, ge_tokens e workerId) of
        (Some route, Some token) \<Rightarrow>
          if wgr_worker route \<noteq> workerId then Inr None
          else if \<not> WorkerTokenSchema token then Inl ''ZodError''
          else (case parseHttpOrigin (ge_url e) (wgr_base_url route) of
                  None \<Rightarrow> Inl ''URL must be an HTTP(S) origin''
                | Some u \<Rightarrow>
                    Inr (Some \<lparr>az_workspace = workspace, az_user = su_id (as_user session),
                               az_session = as_session session, az_token_hash = tokenHash,
                               az_base_url = u, az_token = token\<rparr>))
      | _ \<Rightarrow> Inr None)"

definition resolveAuthorizedWorkspace ::
  "gateway_env \<Rightarrow> instant \<Rightarrow> request \<Rightarrow> string \<Rightarrow> db \<Rightarrow> string + authorized option" where
  "resolveAuthorizedWorkspace e now rq workspaceId d =
     (case parseWorkspaceBaseUrl (ge_url e) (ge_isIP e) (ge_base_url e) of
        None \<Rightarrow> Inl ''Workspace base URL must be an HTTP(S) origin''
      | Some base \<Rightarrow>
        (case workspaceOrigin (ge_uuid e) workspaceId base of
           None \<Rightarrow> Inl ''ZodError''
         | Some expectedOrigin \<Rightarrow>
           if cross_site (rq_headers rq) \<or> foreign_origin (rq_headers rq) expectedOrigin
           then Inr None
           else (case parseCookie (text_header ''cookie'' (rq_headers rq)) (cookie_of e) of
               None \<Rightarrow> Inr None
             | Some rawToken \<Rightarrow>
                 (case findActiveSession (ge_hash e rawToken) now d of
                    None \<Rightarrow> Inr None
                  | Some session \<Rightarrow>
                      (case findOwnedWorkspace workspaceId (su_id (as_user session)) d of
                         None \<Rightarrow> Inr None
                       | Some workspace \<Rightarrow>
                           if wr_state workspace \<noteq> RUNNING then Inr None
                           else (case wr_worker workspace of
                               None \<Rightarrow> Inr None
                             | Some workerId \<Rightarrow>
                                 workspace_route e now session (ge_hash e rawToken) workspace
                                   workerId d))))))"

definition REQUEST_ID_HEADER :: string where
  "REQUEST_ID_HEADER = ''x-platform-request-id''"

text \<open>\<open>None\<close>: \<open>new URL(publicOrigin)\<close> throws.\<close>

definition workerRequestHeaders ::
  "gateway_env \<Rightarrow> headers \<Rightarrow> authorized \<Rightarrow> string \<Rightarrow> string \<Rightarrow> headers option" where
  "workerRequestHeaders e hs a publicOrigin requestId =
     (case ge_url e publicOrigin of
        None \<Rightarrow> None
      | Some u \<Rightarrow>
          let host = url_host u;
              cookie = stripPlatformCookies (text_header ''cookie'' hs)
          in Some (sanitizeRequestHeaders hs
               [(''authorization'', Some (Text (''Bearer '' @ az_token a))),
                (''cookie'', map_option Text cookie),
                (''host'', Some (Text host)),
                (''x-forwarded-host'', Some (Text host)),
                (''x-forwarded-proto'', Some (Text (butlast (url_protocol u)))),
                (''x-platform-workspace-id'', Some (Text (wr_id (az_workspace a)))),
                (REQUEST_ID_HEADER, Some (Text requestId))]))"

text \<open>
  \<open>trackSessionConnection\<close>: the session is looked up again once the connection is registered; the
  connection is disconnected unless it is still the same one. The lookup may also fail (\<open>None\<close>).
\<close>

definition still_authorized :: "authorized \<Rightarrow> instant \<Rightarrow> db option \<Rightarrow> bool" where
  "still_authorized a now store \<longleftrightarrow>
     (case store of
        None \<Rightarrow> False
      | Some d \<Rightarrow>
          (case findActiveSession (az_token_hash a) now d of
             None \<Rightarrow> False
           | Some session \<Rightarrow>
               as_session session = az_session a \<and> su_id (as_user session) = az_user a))"

definition trackSessionConnection ::
  "authorized \<Rightarrow> nat \<Rightarrow> instant \<Rightarrow> db option \<Rightarrow> registry \<Rightarrow> bool \<times> registry" where
  "trackSessionConnection a object' now store cs =
     (let cs1 = register_connection
            \<lparr>tc_object = object', tc_user = az_user a, tc_session = az_session a,
             tc_workspace = wr_id (az_workspace a)\<rparr> cs
      in if still_authorized a now store then (True, cs1)
         else (False, unregister_connection object' cs1))"

section \<open>The session exchange\<close>

datatype gateway_decision =
  Gateway_Error nat string
| Gateway_Bootstrap string
| Gateway_Proxy url headers authorized

text \<open>The body as read: over 1024 characters, or anything but one field \<open>code\<close>, is refused.\<close>

definition readExchangeBody :: "gateway_env \<Rightarrow> string \<Rightarrow> string option" where
  "readExchangeBody e body =
     (if length body > 1024 then None
      else case ge_form e body of
             [(name, value)] \<Rightarrow>
               if name = ''code'' \<and> 32 \<le> length value \<and> length value \<le> 256 then Some value else None
           | _ \<Rightarrow> None)"

definition optional_header :: "string \<Rightarrow> string \<Rightarrow> headers \<Rightarrow> bool" where
  "optional_header name expected hs \<longleftrightarrow>
     (case header name hs of None \<Rightarrow> True | Some v \<Rightarrow> v = Text expected)"

definition exchange_request_ok :: "gateway_env \<Rightarrow> request \<Rightarrow> bool" where
  "exchange_request_ok e rq \<longleftrightarrow>
     rq_method rq = ''POST'' \<and>
     (text_header ''origin'' (rq_headers rq) = Some (ge_portal_origin e) \<or>
      (case text_header ''origin'' (rq_headers rq) of None \<Rightarrow> '''' | Some origin \<Rightarrow> origin)
        \<in> set (ge_allowed_origins e)) \<and>
     map_option (\<lambda>t. trim (takeWhile (\<lambda>c. c \<noteq> CHR '';'') t)) (text_header ''content-type'' (rq_headers rq)) =
       Some ''application/x-www-form-urlencoded'' \<and>
     optional_header ''sec-fetch-mode'' ''navigate'' (rq_headers rq) \<and>
     optional_header ''sec-fetch-dest'' ''document'' (rq_headers rq)"

definition exchange_grants :: "gateway_env \<Rightarrow> exchange_record \<Rightarrow> string \<Rightarrow> instant \<Rightarrow> db \<Rightarrow> bool" where
  "exchange_grants e r workspaceId now d \<longleftrightarrow>
     (case (findActiveSession (ge_hash e (xr_token r)) now d,
            findOwnedWorkspace workspaceId (xr_user r) d) of
        (Some session, Some workspace) \<Rightarrow>
          su_id (as_user session) = xr_user r \<and> wr_state workspace = RUNNING
      | _ \<Rightarrow> False)"

definition handleExchange ::
  "gateway_env \<Rightarrow> instant \<Rightarrow> request \<Rightarrow> string \<Rightarrow> string \<Rightarrow> db \<Rightarrow> exchange
   \<Rightarrow> gateway_decision \<times> exchange" where
  "handleExchange e now rq body workspaceId d m =
     (if \<not> exchange_request_ok e rq then (Gateway_Error 400 ''INVALID_EXCHANGE'', m)
      else case readExchangeBody e body of
             None \<Rightarrow> (Gateway_Error 400 ''INVALID_EXCHANGE'', m)
           | Some code \<Rightarrow>
               (case consume (ge_hash e) code workspaceId now m of
                  (None, m1) \<Rightarrow> (Gateway_Error 401 ''INVALID_EXCHANGE'', m1)
                | (Some r, m1) \<Rightarrow>
                    if exchange_grants e r workspaceId now d
                    then (Gateway_Bootstrap (sessionCookie (cookie_of e) (xr_token r)
                            (ge_session_ttl e div 1000) (ge_secure e)), m1)
                    else (Gateway_Error 401 ''INVALID_EXCHANGE'', m1)))"

section \<open>Requests and upgrades\<close>

definition gateway_base :: "gateway_env \<Rightarrow> workspace_base_url option" where
  "gateway_base e = parseWorkspaceBaseUrl (ge_url e) (ge_isIP e) (ge_base_url e)"

definition proxy_decision ::
  "gateway_env \<Rightarrow> instant \<Rightarrow> request \<Rightarrow> string \<Rightarrow> string \<Rightarrow> string \<Rightarrow> db \<Rightarrow> gateway_decision" where
  "proxy_decision e now rq workspaceId publicOrigin requestId d =
     (case resolveAuthorizedWorkspace e now rq workspaceId d of
        Inl _ \<Rightarrow> Gateway_Error 503 ''GATEWAY_UNAVAILABLE''
      | Inr None \<Rightarrow> Gateway_Error 404 ''WORKSPACE_NOT_FOUND''
      | Inr (Some a) \<Rightarrow>
          (case workerRequestHeaders e (rq_headers rq) a publicOrigin requestId of
             None \<Rightarrow> Gateway_Error 503 ''GATEWAY_UNAVAILABLE''
           | Some hs \<Rightarrow> Gateway_Proxy (az_base_url a) hs a))"

definition gateway_request ::
  "gateway_env \<Rightarrow> workspace_base_url \<Rightarrow> instant \<Rightarrow> string \<Rightarrow> request \<Rightarrow> string \<Rightarrow> db \<Rightarrow> exchange
   \<Rightarrow> gateway_decision \<times> exchange" where
  "gateway_request e base now requestId rq body d m =
     (case workspaceIdFromHost (ge_uuid e) (text_header ''host'' (rq_headers rq)) base of
        None \<Rightarrow> (Gateway_Error 404 ''WORKSPACE_NOT_FOUND'', m)
      | Some workspaceId \<Rightarrow>
          if rq_url rq = Some ''/_platform/session''
          then handleExchange e now rq body workspaceId d m
          else (case workspaceOrigin (ge_uuid e) workspaceId base of
                  None \<Rightarrow> (Gateway_Error 503 ''GATEWAY_UNAVAILABLE'', m)
                | Some publicOrigin \<Rightarrow>
                    (proxy_decision e now rq workspaceId publicOrigin requestId d, m)))"

definition gateway_upgrade ::
  "gateway_env \<Rightarrow> workspace_base_url \<Rightarrow> instant \<Rightarrow> string \<Rightarrow> request \<Rightarrow> db \<Rightarrow> gateway_decision" where
  "gateway_upgrade e base now requestId rq d =
     (case workspaceIdFromHost (ge_uuid e) (text_header ''host'' (rq_headers rq)) base of
        None \<Rightarrow> Gateway_Error 404 ''Workspace was not found''
      | Some workspaceId \<Rightarrow>
          (case workspaceOrigin (ge_uuid e) workspaceId base of
             None \<Rightarrow> Gateway_Error 503 ''Workspace Gateway is unavailable''
           | Some expectedOrigin \<Rightarrow>
               if text_header ''origin'' (rq_headers rq) \<noteq> Some expectedOrigin
               then Gateway_Error 403 ''WebSocket Origin is not allowed''
               else proxy_decision e now rq workspaceId expectedOrigin requestId d))"

text \<open>\<open>buildWorkspaceGateway\<close>: what the configuration must satisfy before the server is created.\<close>

definition canonical_origin :: "gateway_env \<Rightarrow> string \<Rightarrow> bool" where
  "canonical_origin e origin \<longleftrightarrow>
     (case parseHttpOrigin (ge_url e) origin of None \<Rightarrow> False | Some u \<Rightarrow> url_origin u = origin)"

definition gateway_config_ok :: "gateway_env \<Rightarrow> bool" where
  "gateway_config_ok e \<longleftrightarrow>
     gateway_base e \<noteq> None \<and> canonical_origin e (ge_portal_origin e) \<and>
     list_all (\<lambda>origin. CHR ''*'' \<notin> set origin \<and> canonical_origin e origin) (ge_allowed_origins e)"

section \<open>The Worker Gateway\<close>

record worker_gateway_env =
  we_token :: string
  we_uuid :: "string \<Rightarrow> bool"
  we_base :: workspace_base_url

definition bearerToken :: "headers \<Rightarrow> string option" where
  "bearerToken hs =
     (case text_header ''authorization'' hs of
        None \<Rightarrow> None
      | Some h \<Rightarrow>
          if \<not> starts_with ''Bearer '' h then None
          else let token = drop 7 h in if WorkerTokenSchema token then Some token else None)"

definition authenticated :: "headers \<Rightarrow> string \<Rightarrow> bool" where
  "authenticated hs expectedToken \<longleftrightarrow> bearerToken hs = Some expectedToken"

definition requestedWorkspace :: "(string \<Rightarrow> bool) \<Rightarrow> headers \<Rightarrow> string option" where
  "requestedWorkspace is_uuid hs =
     (case text_header ''x-platform-workspace-id'' hs of
        None \<Rightarrow> None
      | Some supplied \<Rightarrow> if is_uuid supplied then Some supplied else None)"

definition forwardedHeaders :: "headers \<Rightarrow> url \<Rightarrow> headers" where
  "forwardedHeaders hs target =
     (let cookie = stripPlatformCookies (text_header ''cookie'' hs) in
      sanitizeRequestHeaders hs
        [(''authorization'', None), (''cookie'', map_option Text cookie),
         (''host'', Some (Text (url_host target))),
         (''origin'', if header ''origin'' hs = None then None else Some (Text (url_origin target))),
         (''x-platform-workspace-id'', None), (REQUEST_ID_HEADER, None)])"

text \<open>\<open>resolve\<close> is \<open>resolveWorkspaceTarget\<close> of the Runtime, \<open>None\<close> when it fails.\<close>

definition loopback_target :: "url \<Rightarrow> bool" where
  "loopback_target u \<longleftrightarrow>
     url_protocol u = ''http:'' \<and> url_hostname u = ''127.0.0.1'' \<and> url_pathname u = ''/'' \<and>
     url_search u = '''' \<and> url_hash u = ''''"

definition authorizeTarget ::
  "worker_gateway_env \<Rightarrow> (string \<Rightarrow> url option) \<Rightarrow> headers \<Rightarrow> string + (url \<times> string) option" where
  "authorizeTarget we resolve hs =
     (if \<not> authenticated hs (we_token we) then Inr None
      else case requestedWorkspace (we_uuid we) hs of
             None \<Rightarrow> Inr None
           | Some workspaceId \<Rightarrow>
               (case workspaceHost (we_uuid we) workspaceId (we_base we) of
                  None \<Rightarrow> Inl ''ZodError''
                | Some expectedHost \<Rightarrow>
                    let expectedOrigin = base_protocol (we_base we) @ ''//'' @ expectedHost in
                    if text_header ''host'' hs \<noteq> Some expectedHost \<or>
                       text_header ''x-forwarded-host'' hs \<noteq> Some expectedHost \<or>
                       text_header ''x-forwarded-proto'' hs \<noteq> Some (butlast (base_protocol (we_base we))) \<or>
                       cross_site hs \<or> foreign_origin hs expectedOrigin
                    then Inr None
                    else (case resolve workspaceId of
                            None \<Rightarrow> Inl ''Runtime target''
                          | Some target \<Rightarrow>
                              if loopback_target target then Inr (Some (target, expectedOrigin))
                              else Inl ''Runtime returned an invalid Gateway target'')))"

datatype worker_decision =
  Worker_Error nat string
| Worker_Proxy url headers string

definition worker_request ::
  "worker_gateway_env \<Rightarrow> (string \<Rightarrow> url option) \<Rightarrow> request \<Rightarrow> worker_decision" where
  "worker_request we resolve rq =
     (if rq_method rq = ''CONNECT'' then Worker_Error 400 ''INVALID_REQUEST''
      else case authorizeTarget we resolve (rq_headers rq) of
             Inl _ \<Rightarrow> Worker_Error 503 ''WORKSPACE_UNAVAILABLE''
           | Inr None \<Rightarrow> Worker_Error 401 ''UNAUTHORIZED_GATEWAY''
           | Inr (Some (target, publicOrigin)) \<Rightarrow>
               Worker_Proxy target (forwardedHeaders (rq_headers rq) target) publicOrigin)"

definition worker_upgrade ::
  "worker_gateway_env \<Rightarrow> (string \<Rightarrow> url option) \<Rightarrow> request \<Rightarrow> worker_decision" where
  "worker_upgrade we resolve rq =
     (case authorizeTarget we resolve (rq_headers rq) of
        Inl _ \<Rightarrow> Worker_Error 503 ''Workspace Runtime is unavailable''
      | Inr None \<Rightarrow> Worker_Error 401 ''Gateway authentication failed''
      | Inr (Some (target, publicOrigin)) \<Rightarrow>
          Worker_Proxy target (forwardedHeaders (rq_headers rq) target) publicOrigin)"

end
