(* ===== verification/GatewaySafety.thy ===== *)
theory GatewaySafety
  imports GatewayChain Demo
begin

text \<open>
  What the two Gateways guarantee together: only an active session of the owner of a running
  Workspace on a live Worker is proxied, the Worker admits exactly what the Control Plane forwarded
  to it, and the platform's credentials do not reach the Workspace.
\<close>

section \<open>Lemmas\<close>

lemma active_session_rows:
  assumes "findActiveSession hash now d = Some session"
  shows "\<exists>s \<in> set (db_sessions d). \<exists>u \<in> set (db_users d). se_token s = hash \<and> se_user s = us_id u \<and>
    se_revoked s = None \<and> now < se_expires s \<and> us_status u = Active \<and>
    as_session session = se_id s \<and> su_id (as_user session) = us_id u"
proof -
  obtain s u where "s \<in> set (db_sessions d)" "u \<in> set (db_users d)" "us_id u = se_user s"
    "se_token s = hash" "se_revoked s = None" "now < se_expires s" "us_status u = Active"
    "as_session session = se_id s" "su_id (as_user session) = us_id u"
    using assms unfolding findActiveSession_def map_option_eq_Some
    by (auto dest!: first_row_in simp: session_user_of_def)
  then show ?thesis by (intro bexI [of _ s] bexI [of _ u]) simp_all
qed

lemma owned_workspace_row:
  assumes "findOwnedWorkspace workspaceId userId d = Some workspace"
  shows "\<exists>w \<in> set (db_workspaces d). ws_id w = workspaceId \<and> ws_user w = userId \<and>
    wr_state workspace = ws_state w \<and> wr_worker workspace = ws_worker w \<and> wr_id workspace = workspaceId"
  using assms unfolding findOwnedWorkspace_def map_option_eq_Some
  by (auto dest!: first_row_filter simp: mapWorkspace_def)

lemma gateway_route_row:
  assumes "findWorkerGatewayRoute workerId cutoff d = Some route"
  shows "\<exists>k \<in> set (db_workers d). wk_id k = workerId \<and> wk_enabled k \<and> wk_status k = ONLINE \<and>
    (\<exists>h. wk_heartbeat k = Some h \<and> cutoff < h) \<and> wgr_worker route = workerId \<and>
    wk_gateway k = Some (wgr_base_url route)"
  using assms unfolding findWorkerGatewayRoute_def
  by (auto dest!: first_row_filter split: option.splits)

lemma workspace_route_Some:
  assumes "workspace_route e now session tokenHash workspace workerId d = Inr (Some a)"
  shows "az_workspace a = workspace \<and> az_user a = su_id (as_user session) \<and>
    az_session a = as_session session \<and> az_token_hash a = tokenHash \<and> WorkerTokenSchema (az_token a) \<and>
    ge_tokens e workerId = Some (az_token a) \<and>
    (\<exists>k \<in> set (db_workers d). wk_id k = workerId \<and> wk_enabled k \<and> wk_status k = ONLINE \<and>
      (\<exists>h. wk_heartbeat k = Some h \<and> now - ge_offline_after e < h))"
proof -
  obtain route token where "findWorkerGatewayRoute workerId (now - ge_offline_after e) d = Some route"
    "ge_tokens e workerId = Some token"
    using assms by (auto simp: workspace_route_def split: option.splits)
  with assms gateway_route_row [of workerId "now - ge_offline_after e" d route] show ?thesis
    by (auto simp: workspace_route_def split: if_splits option.splits)
qed

text \<open>What an authorized request has passed.\<close>

definition admitted :: "gateway_env \<Rightarrow> instant \<Rightarrow> string \<Rightarrow> authorized \<Rightarrow> db \<Rightarrow> bool" where
  "admitted e now workspaceId a d \<longleftrightarrow>
     (\<exists>s \<in> set (db_sessions d). \<exists>u \<in> set (db_users d). \<exists>w \<in> set (db_workspaces d). \<exists>k \<in> set (db_workers d).
        se_token s = az_token_hash a \<and> se_id s = az_session a \<and> se_user s = us_id u \<and>
        se_revoked s = None \<and> now < se_expires s \<and> us_id u = az_user a \<and> us_status u = Active \<and>
        ws_id w = workspaceId \<and> ws_user w = us_id u \<and> ws_state w = RUNNING \<and>
        ws_worker w = Some (wk_id k) \<and> wk_enabled k \<and> wk_status k = ONLINE \<and>
        (\<exists>h. wk_heartbeat k = Some h \<and> now - ge_offline_after e < h) \<and>
        ge_tokens e (wk_id k) = Some (az_token a))"

lemma resolve_admits:
  assumes "resolveAuthorizedWorkspace e now rq workspaceId d = Inr (Some a)"
  shows "admitted e now workspaceId a d \<and> wr_id (az_workspace a) = workspaceId \<and>
    WorkerTokenSchema (az_token a) \<and>
    (\<exists>rawToken. parseCookie (text_header ''cookie'' (rq_headers rq)) (cookie_of e) = Some rawToken \<and>
       az_token_hash a = ge_hash e rawToken) \<and>
    (\<exists>base origin. gateway_base e = Some base \<and> workspaceOrigin (ge_uuid e) workspaceId base = Some origin \<and>
       \<not> cross_site (rq_headers rq) \<and> \<not> foreign_origin (rq_headers rq) origin)"
proof -
  obtain base origin rawToken session workspace workerId where
    parts: "gateway_base e = Some base" "workspaceOrigin (ge_uuid e) workspaceId base = Some origin"
      "\<not> cross_site (rq_headers rq)" "\<not> foreign_origin (rq_headers rq) origin"
      "parseCookie (text_header ''cookie'' (rq_headers rq)) (cookie_of e) = Some rawToken"
      "findActiveSession (ge_hash e rawToken) now d = Some session"
      "findOwnedWorkspace workspaceId (su_id (as_user session)) d = Some workspace"
      "wr_state workspace = RUNNING" "wr_worker workspace = Some workerId"
      "workspace_route e now session (ge_hash e rawToken) workspace workerId d = Inr (Some a)"
    using assms
    by (simp add: resolveAuthorizedWorkspace_def gateway_base_def split: option.splits if_splits)
  show ?thesis
    using active_session_rows [OF parts(6)] owned_workspace_row [OF parts(7)]
      workspace_route_Some [OF parts(10)] parts(1-5,8,9)
    unfolding admitted_def by metis
qed

lemma proxy_decision_proxies:
  assumes "proxy_decision e now rq workspaceId origin requestId d = Gateway_Proxy u hs a"
  shows "resolveAuthorizedWorkspace e now rq workspaceId d = Inr (Some a)"
    "workerRequestHeaders e (rq_headers rq) a origin requestId = Some hs" "u = az_base_url a"
  using assms by (auto simp: proxy_decision_def split: sum.splits option.splits)

lemma exchange_never_proxies: "handleExchange e now rq body w d m \<noteq> (Gateway_Proxy u hs a, m')"
  by (simp add: handleExchange_def split: option.split prod.split)

lemma request_proxies:
  assumes "gateway_request e base now requestId rq body d m = (Gateway_Proxy u hs a, m')"
  shows "\<exists>w origin. workspaceIdFromHost (ge_uuid e) (text_header ''host'' (rq_headers rq)) base = Some w \<and>
    workspaceOrigin (ge_uuid e) w base = Some origin \<and>
    proxy_decision e now rq w origin requestId d = Gateway_Proxy u hs a"
proof (cases "workspaceIdFromHost (ge_uuid e) (text_header ''host'' (rq_headers rq)) base")
  case None
  with assms show ?thesis by (simp add: gateway_request_def)
next
  case w: (Some w)
  show ?thesis
  proof (cases "workspaceOrigin (ge_uuid e) w base")
    case None
    with w assms show ?thesis
      by (simp add: gateway_request_def exchange_never_proxies split: if_splits)
  next
    case (Some origin)
    with w assms show ?thesis
      by (simp add: gateway_request_def exchange_never_proxies split: if_splits)
  qed
qed

lemma upgrade_proxies:
  assumes "gateway_upgrade e base now requestId rq d = Gateway_Proxy u hs a"
  shows "\<exists>w origin. workspaceIdFromHost (ge_uuid e) (text_header ''host'' (rq_headers rq)) base = Some w \<and>
    workspaceOrigin (ge_uuid e) w base = Some origin \<and>
    text_header ''origin'' (rq_headers rq) = Some origin \<and>
    proxy_decision e now rq w origin requestId d = Gateway_Proxy u hs a"
  using assms by (auto simp: gateway_upgrade_def split: option.splits if_splits)

lemma either_proxies:
  assumes "gateway_request e base now requestId rq body d m = (Gateway_Proxy u hs a, m') \<or>
    gateway_upgrade e base now requestId rq d = Gateway_Proxy u hs a"
  shows "\<exists>w origin. workspaceIdFromHost (ge_uuid e) (text_header ''host'' (rq_headers rq)) base = Some w \<and>
    workspaceOrigin (ge_uuid e) w base = Some origin \<and>
    proxy_decision e now rq w origin requestId d = Gateway_Proxy u hs a"
  using assms
proof
  assume "gateway_request e base now requestId rq body d m = (Gateway_Proxy u hs a, m')"
  then show ?thesis by (rule request_proxies)
next
  assume "gateway_upgrade e base now requestId rq d = Gateway_Proxy u hs a"
  from upgrade_proxies [OF this] show ?thesis by blast
qed

lemma sanitize_distinct: "distinct (map fst (sanitizeRequestHeaders hs reps))"
proof -
  have *: "distinct (map fst r) \<Longrightarrow>
      distinct (map fst (foldl (\<lambda>result (name, value). if p name value then obj_set name value result
        else result) r xs))" for p r xs
    by (induction xs arbitrary: r) (simp_all add: obj_set_distinct case_prod_beta)
  show ?thesis unfolding sanitize_fold by (intro *) simp
qed

lemma forwarded_texts:
  assumes "workerRequestHeaders e hs a origin requestId = Some hs'" "distinct (map fst hs)"
    "ge_url e origin = Some v"
  shows "text_header ''authorization'' hs' = Some (''Bearer '' @ az_token a)"
    "text_header ''host'' hs' = Some (url_host v)" "text_header ''x-forwarded-host'' hs' = Some (url_host v)"
    "text_header ''x-forwarded-proto'' hs' = Some (butlast (url_protocol v))"
    "text_header ''x-platform-workspace-id'' hs' = Some (wr_id (az_workspace a))"
    "text_header ''origin'' hs' = None \<or> text_header ''origin'' hs' = text_header ''origin'' hs"
    "text_header ''sec-fetch-site'' hs' = None \<or>
     text_header ''sec-fetch-site'' hs' = text_header ''sec-fetch-site'' hs"
proof -
  let ?reps = "[(''authorization'', Some (Text (''Bearer '' @ az_token a))),
                (''cookie'', map_option Text (stripPlatformCookies (text_header ''cookie'' hs))),
                (''host'', Some (Text (url_host v))),
                (''x-forwarded-host'', Some (Text (url_host v))),
                (''x-forwarded-proto'', Some (Text (butlast (url_protocol v)))),
                (''x-platform-workspace-id'', Some (Text (wr_id (az_workspace a)))),
                (REQUEST_ID_HEADER, Some (Text requestId))]"
  have hs': "hs' = sanitizeRequestHeaders hs ?reps"
    using assms(1,3) by (simp add: workerRequestHeaders_def Let_def)
  have "distinct (map fst ?reps)" by (simp add: REQUEST_ID_HEADER_def)
  note sanitized = header_sanitized [OF assms(2) this, folded hs']
  show "text_header ''authorization'' hs' = Some (''Bearer '' @ az_token a)"
    "text_header ''host'' hs' = Some (url_host v)" "text_header ''x-forwarded-host'' hs' = Some (url_host v)"
    "text_header ''x-forwarded-proto'' hs' = Some (butlast (url_protocol v))"
    "text_header ''x-platform-workspace-id'' hs' = Some (wr_id (az_workspace a))"
    "text_header ''origin'' hs' = None \<or> text_header ''origin'' hs' = text_header ''origin'' hs"
    "text_header ''sec-fetch-site'' hs' = None \<or>
     text_header ''sec-fetch-site'' hs' = text_header ''sec-fetch-site'' hs"
    unfolding text_header_def sanitized by (simp_all add: header_def REQUEST_ID_HEADER_def)
qed

text \<open>What the Worker hands to the Workspace.\<close>

lemma handed_over:
  assumes "distinct (map fst hs)"
  shows "header ''cookie'' (forwardedHeaders hs target) =
      map_option Text (stripPlatformCookies (text_header ''cookie'' hs))"
    "header ''host'' (forwardedHeaders hs target) = Some (Text (url_host target))"
    "header ''origin'' (forwardedHeaders hs target) =
      (if header ''origin'' hs = None then None else Some (Text (url_origin target)))"
    "header ''authorization'' (forwardedHeaders hs target) = None"
    "header ''x-platform-workspace-id'' (forwardedHeaders hs target) = None"
    "header REQUEST_ID_HEADER (forwardedHeaders hs target) = None"
proof -
  let ?reps = "[(''authorization'', None),
     (''cookie'', map_option Text (stripPlatformCookies (text_header ''cookie'' hs))),
     (''host'', Some (Text (url_host target))),
     (''origin'', if header ''origin'' hs = None then None else Some (Text (url_origin target))),
     (''x-platform-workspace-id'', None), (REQUEST_ID_HEADER, None)]"
  have "distinct (map fst ?reps)" by (simp add: REQUEST_ID_HEADER_def)
  note sanitized = header_sanitized [OF assms this, folded forwardedHeaders_def [unfolded Let_def]]
  have blocked: "name \<in> fst ` set ?reps \<Longrightarrow> \<not> passes hs ?reps name" for name
    by (auto simp: passes_def blocked_names_def)
  have "\<not> passes hs ?reps ''cookie''" "\<not> passes hs ?reps ''origin''"
    "\<not> passes hs ?reps ''authorization''" "\<not> passes hs ?reps ''x-platform-workspace-id''"
    "\<not> passes hs ?reps REQUEST_ID_HEADER"
    by (rule blocked; simp)+
  note passes = this
  show "header ''cookie'' (forwardedHeaders hs target) =
      map_option Text (stripPlatformCookies (text_header ''cookie'' hs))"
    "header ''host'' (forwardedHeaders hs target) = Some (Text (url_host target))"
    "header ''origin'' (forwardedHeaders hs target) =
      (if header ''origin'' hs = None then None else Some (Text (url_origin target)))"
    "header ''authorization'' (forwardedHeaders hs target) = None"
    "header ''x-platform-workspace-id'' (forwardedHeaders hs target) = None"
    "header REQUEST_ID_HEADER (forwardedHeaders hs target) = None"
    unfolding sanitized by (simp_all only: passes if_False) (simp_all add: header_def REQUEST_ID_HEADER_def)
qed

section \<open>A concrete request\<close>

definition demo_url :: "string \<Rightarrow> url option" where
  "demo_url s =
     (if starts_with ''http://'' s
      then Some \<lparr>url_protocol = ''http:'', url_username = '''', url_password = '''',
                 url_hostname = drop 7 s, url_port = '''', url_pathname = ''/'', url_search = '''',
                 url_hash = ''''\<rparr>
      else None)"

definition demo_env :: gateway_env where
  "demo_env =
     \<lparr>ge_hash = (\<lambda>s. s), ge_uuid = (\<lambda>s. s = ''w1''), ge_url = demo_url, ge_isIP = (\<lambda>_. 0),
      ge_form = (\<lambda>body. [(''code'', body)]), ge_portal_origin = ''http://portal'',
      ge_allowed_origins = [], ge_base_url = ''http://ws.test'', ge_secure = False,
      ge_session_ttl = 60000, ge_offline_after = 100,
      ge_tokens = [''k1'' \<mapsto> replicate 32 CHR ''t'']\<rparr>"

definition demo_base :: workspace_base_url where
  "demo_base = \<lparr>base_protocol = ''http:'', base_hostname = ''ws.test'', base_port = ''''\<rparr>"

definition demo_open :: db where
  "demo_open = demo_running\<lparr>db_sessions :=
     [\<lparr>se_id = ''s1'', se_user = ''u1'', se_token = ''tok'', se_expires = 50, se_revoked = None\<rparr>]\<rparr>"

definition demo_request :: request where
  "demo_request =
     \<lparr>rq_method = ''GET'', rq_url = Some ''/'',
      rq_headers = [(''host'', Some (Text ''w1.ws.test'')),
                    (''cookie'', Some (Text ''platform-session=tok''))]\<rparr>"

lemma demo_gateway_base: "gateway_base demo_env = Some demo_base"
  by (simp add: gateway_base_def demo_env_def demo_base_def parseWorkspaceBaseUrl_def
      parseHttpOrigin_def demo_url_def starts_with_def to_lower_def lower_char_def host_label_def
      alnum_def is_digit_def is_lower_def)

lemma demo_workspace_host:
  "workspaceIdFromHost (ge_uuid demo_env) (text_header ''host'' (rq_headers demo_request)) demo_base = Some ''w1''"
  "workspaceOrigin (ge_uuid demo_env) ''w1'' demo_base = Some ''http://w1.ws.test''"
  by (simp_all add: id_from_host workspaceOrigin_def workspaceHost_def demo_env_def demo_base_def
      authority_def host_port_def text_header_def header_def demo_request_def to_lower_def lower_char_def)

lemma demo_authorized:
  "\<exists>a. resolveAuthorizedWorkspace demo_env 10 demo_request ''w1'' demo_open = Inr (Some a) \<and>
       az_token a = replicate 32 CHR ''t''"
proof -
  have cookie: "parseCookie (text_header ''cookie'' (rq_headers demo_request)) (cookie_of demo_env) = Some ''tok''"
    by (simp add: parseCookie_def text_header_def header_def demo_request_def cookie_of_def demo_env_def
        trim_def js_space_def starts_with_def)
  have site: "\<not> cross_site (rq_headers demo_request)" "\<not> foreign_origin (rq_headers demo_request) origin" for origin
    by (simp_all add: cross_site_def foreign_origin_def text_header_def header_def demo_request_def)
  have session: "findActiveSession ''tok'' 10 demo_open =
      Some \<lparr>as_session = ''s1'', as_expires = 50, as_user = session_user_of demo_user\<rparr>"
    by (simp add: findActiveSession_def demo_open_def demo_running_tables demo_user_def new_user_def)
  have user: "su_id (session_user_of demo_user) = ''u1''"
    by (simp add: session_user_of_def demo_user_def new_user_def)
  obtain workspace where workspace: "findOwnedWorkspace ''w1'' ''u1'' demo_open = Some workspace"
      "wr_state workspace = RUNNING" "wr_worker workspace = Some ''k1''"
    by (simp add: findOwnedWorkspace_def demo_open_def demo_running_tables demo_workspace_def
        new_workspace_def mapWorkspace_def)
  have route: "findWorkerGatewayRoute ''k1'' (- 90) demo_open = Some \<lparr>wgr_worker = ''k1'', wgr_base_url = ''http://k1''\<rparr>"
    by (simp add: findWorkerGatewayRoute_def demo_open_def demo_running_tables demo_worker_def
        new_worker_def demo_hello_def)
  have fields: "ge_hash demo_env s = s" "ge_offline_after demo_env = 100" "ge_url demo_env = demo_url"
      "ge_tokens demo_env ''k1'' = Some (replicate 32 CHR ''t'')" for s
    by (simp_all add: demo_env_def)
  have token: "WorkerTokenSchema (replicate 32 CHR ''t'')"
    by (simp add: WorkerTokenSchema_def worker_token_char_def is_lower_def list_all_iff)
  obtain v where v: "parseHttpOrigin demo_url ''http://k1'' = Some v"
    by (simp add: parseHttpOrigin_def demo_url_def starts_with_def)
  obtain a where "workspace_route demo_env 10
      \<lparr>as_session = ''s1'', as_expires = 50, as_user = session_user_of demo_user\<rparr> ''tok'' workspace
      ''k1'' demo_open = Inr (Some a)" "az_token a = replicate 32 CHR ''t''"
    using route token v by (simp add: workspace_route_def fields)
  then show ?thesis
    using demo_gateway_base demo_workspace_host(2) cookie site session user workspace
    by (simp add: resolveAuthorizedWorkspace_def gateway_base_def fields)
qed

lemma demo_proxied:
  "\<exists>u hs a. gateway_request demo_env demo_base 10 ''r'' demo_request '''' demo_open Map.empty =
     (Gateway_Proxy u hs a, Map.empty) \<and> az_token a = replicate 32 CHR ''t''"
proof -
  have "rq_url demo_request \<noteq> Some ''/_platform/session''" by (simp add: demo_request_def)
  moreover obtain v where "ge_url demo_env ''http://w1.ws.test'' = Some v"
    by (simp add: demo_env_def demo_url_def starts_with_def)
  ultimately show ?thesis
    using demo_authorized demo_workspace_host
    by (auto simp: gateway_request_def proxy_decision_def workerRequestHeaders_def Let_def)
qed

section \<open>Properties\<close>

text \<open>C19. The Workspace Gateway proxies a request or an upgrade only to a running Workspace named by
the host, for an active session of its active owner presented in the platform cookie, while its
Worker is enabled, online and heard from recently; a cross-site request or a foreign origin is never
proxied, and an upgrade must carry the Workspace's own origin.\<close>

theorem gateway_admits_only_owner:
  assumes "gateway_request e base now requestId rq body d m = (Gateway_Proxy u hs a, m') \<or>
    gateway_upgrade e base now requestId rq d = Gateway_Proxy u hs a"
    "gateway_base e = Some base"
  shows "\<exists>workspaceId origin rawToken.
    workspaceIdFromHost (ge_uuid e) (text_header ''host'' (rq_headers rq)) base = Some workspaceId \<and>
    workspaceOrigin (ge_uuid e) workspaceId base = Some origin \<and>
    parseCookie (text_header ''cookie'' (rq_headers rq)) (cookie_of e) = Some rawToken \<and>
    az_token_hash a = ge_hash e rawToken \<and> admitted e now workspaceId a d \<and>
    \<not> cross_site (rq_headers rq) \<and> \<not> foreign_origin (rq_headers rq) origin \<and>
    (gateway_upgrade e base now requestId rq d = Gateway_Proxy u hs a \<longrightarrow>
      text_header ''origin'' (rq_headers rq) = Some origin)"
proof -
  obtain w origin where w: "workspaceIdFromHost (ge_uuid e) (text_header ''host'' (rq_headers rq)) base = Some w"
      "workspaceOrigin (ge_uuid e) w base = Some origin"
      "proxy_decision e now rq w origin requestId d = Gateway_Proxy u hs a"
    using either_proxies [OF assms(1)] by blast
  moreover have "gateway_upgrade e base now requestId rq d = Gateway_Proxy u hs a \<Longrightarrow>
      text_header ''origin'' (rq_headers rq) = Some origin"
    using upgrade_proxies [of e base now requestId rq d u hs a] w(1,2) by auto
  moreover note resolve_admits [OF proxy_decision_proxies(1) [OF w(3)]]
  ultimately show ?thesis using assms(2) by auto
qed

lemma gateway_admits_only_owner_witness:
  "\<exists>u hs a. fst (gateway_request demo_env demo_base 10 ''r'' demo_request '''' demo_open Map.empty) =
      Gateway_Proxy u hs a \<and> admitted demo_env 10 ''w1'' a demo_open"
proof -
  obtain u hs a where run: "gateway_request demo_env demo_base 10 ''r'' demo_request '''' demo_open
      Map.empty = (Gateway_Proxy u hs a, Map.empty)"
    using demo_proxied by blast
  show ?thesis
    using gateway_admits_only_owner [OF disjI1 [OF run] demo_gateway_base] demo_workspace_host(1) run
    by auto
qed



text \<open>C21. No credential of the platform reaches the Workspace: what the Worker hands over carries no
\<open>Authorization\<close>, no Workspace id and no request id, a cookie header without a platform cookie, and
the target's own host and origin.\<close>

theorem no_credential_reaches_workspace:
  assumes "distinct (map fst hs)"
  shows "header ''authorization'' (forwardedHeaders hs target) = None \<and>
    header ''x-platform-workspace-id'' (forwardedHeaders hs target) = None \<and>
    header ''x-platform-request-id'' (forwardedHeaders hs target) = None \<and>
    header ''host'' (forwardedHeaders hs target) = Some (Text (url_host target)) \<and>
    (\<forall>c name. header ''cookie'' (forwardedHeaders hs target) = Some (Text c) \<and>
       name \<in> set (map cookie_name (split_on CHR '';'' c)) \<longrightarrow> name \<notin> set PLATFORM_COOKIE_NAMES)"
proof -
  have "name \<notin> set PLATFORM_COOKIE_NAMES"
    if stripped: "stripPlatformCookies (text_header ''cookie'' hs) = Some c"
      and name: "name \<in> set (map cookie_name (split_on CHR '';'' c))" for c name
  proof -
    obtain h where "text_header ''cookie'' hs = Some h"
      using stripped by (cases "text_header ''cookie'' hs") (simp_all add: stripPlatformCookies_def)
    then have "map cookie_name (split_on CHR '';'' c) =
        filter (\<lambda>n. n \<notin> set PLATFORM_COOKIE_NAMES) (map cookie_name (split_on CHR '';'' h))"
      using strip_names stripped by simp
    with name show ?thesis by (simp only: set_filter) blast
  qed
  then show ?thesis
    using handed_over [OF assms, of target] by (auto simp: REQUEST_ID_HEADER_def)
qed

lemma no_credential_reaches_workspace_witness:
  "header ''authorization'' (forwardedHeaders
     [(''authorization'', Some (Text ''Bearer x'')), (''cookie'', Some (Text ''platform-session=1''))]
     demo_target) = None"
  using no_credential_reaches_workspace [of
      "[(''authorization'', Some (Text ''Bearer x'')), (''cookie'', Some (Text ''platform-session=1''))]"]
  by simp

text \<open>C22. A session exchange sets the platform cookie only for a code that was issued for this
Workspace and has not expired, whose session is still active, and whose user owns the Workspace,
which is running; the code is gone afterwards, and a refused one gives nothing.\<close>

theorem exchange_grants_only_owner:
  assumes "handleExchange e now rq body workspaceId d m = (Gateway_Bootstrap cookie, m')"
  shows "\<exists>code r. readExchangeBody e body = Some code \<and> m (ge_hash e code) = Some r \<and>
    m' = m(ge_hash e code := None) \<and> now < xr_expires r \<and> xr_workspace r = workspaceId \<and>
    cookie = sessionCookie (cookie_of e) (xr_token r) (ge_session_ttl e div 1000) (ge_secure e) \<and>
    (\<exists>s \<in> set (db_sessions d). \<exists>u \<in> set (db_users d). \<exists>w \<in> set (db_workspaces d).
       se_token s = ge_hash e (xr_token r) \<and> se_user s = us_id u \<and> se_revoked s = None \<and>
       now < se_expires s \<and> us_id u = xr_user r \<and> us_status u = Active \<and>
       ws_id w = workspaceId \<and> ws_user w = us_id u \<and> ws_state w = RUNNING)"
proof -
  obtain code r where parts: "readExchangeBody e body = Some code"
      "consume (ge_hash e) code workspaceId now m = (Some r, m')" "exchange_grants e r workspaceId now d"
      "cookie = sessionCookie (cookie_of e) (xr_token r) (ge_session_ttl e div 1000) (ge_secure e)"
    using assms by (simp add: handleExchange_def split: option.splits if_splits prod.splits)
  obtain session workspace where granted:
      "findActiveSession (ge_hash e (xr_token r)) now d = Some session"
      "findOwnedWorkspace workspaceId (xr_user r) d = Some workspace"
      "su_id (as_user session) = xr_user r" "wr_state workspace = RUNNING"
    using parts(3) by (simp add: exchange_grants_def split: option.splits)
  obtain s u where "s \<in> set (db_sessions d)" "u \<in> set (db_users d)"
      "se_token s = ge_hash e (xr_token r)" "se_user s = us_id u" "se_revoked s = None"
      "now < se_expires s" "us_status u = Active" "us_id u = xr_user r"
    using active_session_rows [OF granted(1)] granted(3) by metis
  moreover obtain w where "w \<in> set (db_workspaces d)" "ws_id w = workspaceId" "ws_user w = xr_user r"
      "ws_state w = RUNNING"
    using owned_workspace_row [OF granted(2)] granted(4) by metis
  ultimately have "\<exists>s \<in> set (db_sessions d). \<exists>u \<in> set (db_users d). \<exists>w \<in> set (db_workspaces d).
       se_token s = ge_hash e (xr_token r) \<and> se_user s = us_id u \<and> se_revoked s = None \<and>
       now < se_expires s \<and> us_id u = xr_user r \<and> us_status u = Active \<and>
       ws_id w = workspaceId \<and> ws_user w = us_id u \<and> ws_state w = RUNNING"
    by (intro bexI [of _ s] bexI [of _ u] bexI [of _ w]) simp_all
  moreover have "m (ge_hash e code) = Some r \<and> m' = m(ge_hash e code := None) \<and> now < xr_expires r \<and>
      xr_workspace r = workspaceId"
    using parts(2) by (auto simp: consume_def Let_def split: option.splits if_splits)
  ultimately show ?thesis using parts(1,4) by blast
qed

definition demo_code :: string where
  "demo_code = replicate 32 CHR ''c''"

definition demo_exchange :: exchange where
  "demo_exchange = [demo_code \<mapsto>
     \<lparr>xr_token = ''tok'', xr_user = ''u1'', xr_workspace = ''w1'', xr_expires = 20\<rparr>]"

definition demo_exchange_request :: request where
  "demo_exchange_request =
     \<lparr>rq_method = ''POST'', rq_url = Some ''/_platform/session'',
      rq_headers = [(''origin'', Some (Text ''http://portal'')),
                    (''content-type'', Some (Text ''application/x-www-form-urlencoded''))]\<rparr>"

lemma exchange_grants_only_owner_witness:
  "\<exists>cookie m. handleExchange demo_env 10 demo_exchange_request demo_code ''w1'' demo_open demo_exchange =
      (Gateway_Bootstrap cookie, m) \<and> m demo_code = None"
proof -
  have ok: "exchange_request_ok demo_env demo_exchange_request"
    by (simp add: exchange_request_ok_def demo_exchange_request_def text_header_def header_def
        optional_header_def demo_env_def trim_def js_space_def)
  have code: "readExchangeBody demo_env demo_code = Some demo_code"
    by (simp add: readExchangeBody_def demo_env_def demo_code_def)
  have grants: "exchange_grants demo_env
      \<lparr>xr_token = ''tok'', xr_user = ''u1'', xr_workspace = ''w1'', xr_expires = 20\<rparr> ''w1'' 10 demo_open"
    by (simp add: exchange_grants_def demo_env_def findActiveSession_def findOwnedWorkspace_def
        demo_open_def demo_running_tables demo_user_def new_user_def demo_workspace_def
        new_workspace_def mapWorkspace_def session_user_of_def)
  have "ge_hash demo_env demo_code = demo_code" by (simp add: demo_env_def)
  then obtain cookie m where run: "handleExchange demo_env 10 demo_exchange_request demo_code ''w1''
      demo_open demo_exchange = (Gateway_Bootstrap cookie, m)"
    using ok code grants by (simp add: handleExchange_def consume_def demo_exchange_def)
  from exchange_grants_only_owner [OF run] code have "m (ge_hash demo_env demo_code) = None" by auto
  with run show ?thesis by (simp add: demo_env_def)
qed

end
