(* ===== verification/Ruleset.thy ===== *)
theory Ruleset
  imports EgressSafety
begin

text \<open>
  \<open>apps/worker/src/egress/ruleset.ts\<close>: the nftables table a Worker enforces - the rule content
  resolved from the policy, its rendering as one libnftables JSON transaction, and the comparison of
  a listing with it. JSON values are the \<open>json\<close> of \<open>Schema\<close>; a field that is absent reads as
  \<open>JNull\<close>, which no comparison of the source tells apart. Object keys are distinct, as
  \<open>JSON.parse\<close> makes them. \<open>localeCompare\<close> is the parameter \<open>collate\<close>; a thrown error is \<open>None\<close>.
\<close>

section \<open>The rule content\<close>

record service_entry =
  sv_network :: ipv4_interval
  sv_protocol :: egress_protocol
  sv_port_min :: nat
  sv_port_max :: nat

record effective_rules =
  ef_protected :: "ipv4_interval list"
  ef_allow_net :: "ipv4_interval list"
  ef_allow_service :: "service_entry list"
  ef_deny_extra :: "ipv4_interval list"
  ef_relay_port :: "nat option"

definition WORKSPACE_BRIDGE_PREFIX :: string where
  "WORKSPACE_BRIDGE_PREFIX = ''arw-''"

definition workspaceBridgeName :: "string \<Rightarrow> string" where
  "workspaceBridgeName workspaceId =
     WORKSPACE_BRIDGE_PREFIX @ take 11 (filter (\<lambda>c. c \<noteq> CHR ''-'') workspaceId)"

definition hex_digit :: "nat \<Rightarrow> char" where
  "hex_digit n = (if n < 10 then char_of (48 + n) else char_of (87 + n))"

fun hexadecimal :: "nat \<Rightarrow> string" where
  "hexadecimal n =
     (if n < 16 then [hex_digit n] else hexadecimal (n div 16) @ [hex_digit (n mod 16)])"

declare hexadecimal.simps [simp del]

definition padStart :: "nat \<Rightarrow> char \<Rightarrow> string \<Rightarrow> string" where
  "padStart n c s = replicate (n - length s) c @ s"

definition protocol_text :: "egress_protocol \<Rightarrow> string" where
  "protocol_text p = (case p of Tcp \<Rightarrow> ''tcp'' | Udp \<Rightarrow> ''udp'')"

definition serviceKey :: "service_entry \<Rightarrow> string" where
  "serviceKey entry =
     join_with CHR ''|''
       [padStart 8 CHR ''0'' (hexadecimal (iv_start (sv_network entry))),
        padStart 8 CHR ''0'' (hexadecimal (iv_end (sv_network entry))),
        protocol_text (sv_protocol entry), decimal (sv_port_min entry), decimal (sv_port_max entry)]"

definition service_of :: "egress_allow_entry \<Rightarrow> ipv4_interval \<Rightarrow> egress_protocol \<Rightarrow> service_entry" where
  "service_of entry network protocol =
     \<lparr>sv_network = network, sv_protocol = protocol,
      sv_port_min = (case allow_port_min entry of None \<Rightarrow> 1 | Some n \<Rightarrow> n),
      sv_port_max = (case allow_port_max entry of None \<Rightarrow> 65535 | Some n \<Rightarrow> n)\<rparr>"

fun collect_allow ::
  "egress_allow_entry list \<Rightarrow> ipv4_interval list \<Rightarrow> (string \<times> service_entry) list
   \<Rightarrow> (ipv4_interval list \<times> (string \<times> service_entry) list) option" where
  "collect_allow [] allowNet allowService = Some (allowNet, allowService)"
| "collect_allow (entry # entries) allowNet allowService =
     (case cidrTextInterval (allow_network entry) of
        None \<Rightarrow> None
      | Some network \<Rightarrow>
          (case allow_protocol entry of
             None \<Rightarrow> collect_allow entries (allowNet @ [network]) allowService
           | Some protocol \<Rightarrow>
               let service = service_of entry network protocol in
               collect_allow entries allowNet (obj_set (serviceKey service) service allowService)))"

definition effectiveEgressRules ::
  "(string \<Rightarrow> string \<Rightarrow> int) \<Rightarrow> egress_policy option \<Rightarrow> string list \<Rightarrow> nat option
   \<Rightarrow> effective_rules option" where
  "effectiveEgressRules collate policy localProtected relayPort =
     (case (collect_allow (case policy of None \<Rightarrow> [] | Some p \<Rightarrow> pol_allow p) [] [],
            text_intervals ((case policy of None \<Rightarrow> [] | Some p \<Rightarrow> pol_protected p) @ localProtected),
            text_intervals (case policy of None \<Rightarrow> [] | Some p \<Rightarrow> pol_deny_extra p)) of
        (Some (allowNet, allowService), Some protected, Some denyExtra) \<Rightarrow>
          Some \<lparr>ef_protected = mergeIntervals protected,
                ef_allow_net = mergeIntervals allowNet,
                ef_allow_service =
                  js_sort (\<lambda>l r. collate (serviceKey l) (serviceKey r)) (map snd allowService),
                ef_deny_extra = mergeIntervals denyExtra,
                ef_relay_port = relayPort\<rparr>
      | _ \<Rightarrow> None)"

section \<open>Rendering\<close>

definition EGRESS_TABLE_FAMILY :: string where "EGRESS_TABLE_FAMILY = ''inet''"
definition EGRESS_TABLE_NAME :: string where "EGRESS_TABLE_NAME = ''agent_runtime''"

definition in_table :: "(string \<times> json) list" where
  "in_table = [(''family'', JStr EGRESS_TABLE_FAMILY), (''table'', JStr EGRESS_TABLE_NAME)]"

definition SINGLE_SETS :: "string list" where
  "SINGLE_SETS = [''deny_default_v4'', ''deny_extra_v4'', ''protected_v4'', ''allow_net_v4'']"

definition SERVICE_SET :: string where "SERVICE_SET = ''allow_svc_v4''"

record chain_spec =
  ch_name :: string
  ch_hook :: string
  ch_prio :: int
  ch_rules :: "json list list"

definition match :: "string \<Rightarrow> json \<Rightarrow> json \<Rightarrow> json" where
  "match op left right =
     JObj [(''match'', JObj [(''op'', JStr op), (''left'', left), (''right'', right)])]"

definition meta_key :: "string \<Rightarrow> json" where
  "meta_key key = JObj [(''meta'', JObj [(''key'', JStr key)])]"

definition daddr :: json where
  "daddr = JObj [(''payload'', JObj [(''protocol'', JStr ''ip''), (''field'', JStr ''daddr'')])]"

definition accept :: json where "accept = JObj [(''accept'', JNull)]"
definition drop_packet :: json where "drop_packet = JObj [(''drop'', JNull)]"
definition return_packet :: json where "return_packet = JObj [(''return'', JNull)]"

definition not_workspace :: json where
  "not_workspace = match ''!='' (meta_key ''iifname'') (JStr (WORKSPACE_BRIDGE_PREFIX @ ''*''))"

definition is_reply :: json where
  "is_reply = match ''=='' (JObj [(''ct'', JObj [(''key'', JStr ''direction'')])]) (JStr ''reply'')"

definition is_ipv6 :: json where
  "is_ipv6 = match ''=='' (meta_key ''nfproto'') (JStr ''ipv6'')"

definition workspaceTrafficOnly :: "json list" where
  "workspaceTrafficOnly = [not_workspace, return_packet]"

definition repliesPass :: "json list" where
  "repliesPass = [is_reply, accept]"

definition ipv6Dropped :: "json list" where
  "ipv6Dropped = [is_ipv6, drop_packet]"

definition hostAddress :: json where
  "hostAddress = JObj [(''fib'', JObj [(''result'', JStr ''type''), (''flags'', JArr [JStr ''daddr''])])]"

definition tcpDport :: json where
  "tcpDport = JObj [(''payload'', JObj [(''protocol'', JStr ''tcp''), (''field'', JStr ''dport'')])]"

definition to_host :: json where
  "to_host = match ''=='' hostAddress (JStr ''local'')"

definition to_host_or_group :: json where
  "to_host_or_group = match ''=='' hostAddress
     (JObj [(''set'', JArr [JStr ''local'', JStr ''broadcast'', JStr ''multicast''])])"

definition to_port :: "nat \<Rightarrow> json" where
  "to_port port = match ''=='' tcpDport (JNum (int port))"

definition in_set :: "string \<Rightarrow> json" where
  "in_set name = match ''=='' daddr (JStr (CHR ''@'' # name))"

definition is_service :: json where
  "is_service = match ''==''
     (JObj [(''concat'', JArr [daddr, meta_key ''l4proto'',
        JObj [(''payload'', JObj [(''protocol'', JStr ''th''), (''field'', JStr ''dport'')])]])])
     (JStr (CHR ''@'' # SERVICE_SET))"

definition relayException :: "nat option \<Rightarrow> json list list" where
  "relayException relayPort =
     (case relayPort of None \<Rightarrow> [] | Some port \<Rightarrow> [[to_host, to_port port, accept]])"

definition prerouting_chain :: "nat option \<Rightarrow> chain_spec" where
  "prerouting_chain relayPort =
     \<lparr>ch_name = ''ws_prerouting'', ch_hook = ''prerouting'', ch_prio = -150,
      ch_rules = [workspaceTrafficOnly, repliesPass, ipv6Dropped] @ relayException relayPort @
                 [[to_host_or_group, drop_packet]]\<rparr>"

definition forward_chain :: chain_spec where
  "forward_chain =
     \<lparr>ch_name = ''ws_forward'', ch_hook = ''forward'', ch_prio = -10,
      ch_rules = [workspaceTrafficOnly, repliesPass, ipv6Dropped,
                  [in_set ''protected_v4'', drop_packet],
                  [is_service, accept],
                  [in_set ''allow_net_v4'', accept],
                  [in_set ''deny_default_v4'', drop_packet],
                  [in_set ''deny_extra_v4'', drop_packet]]\<rparr>"

definition relay_chain :: "nat \<Rightarrow> chain_spec" where
  "relay_chain port =
     \<lparr>ch_name = ''relay_input'', ch_hook = ''input'', ch_prio = -10,
      ch_rules = [[to_port port, not_workspace, drop_packet]]\<rparr>"

definition egressChains :: "nat option \<Rightarrow> chain_spec list" where
  "egressChains relayPort =
     [prerouting_chain relayPort, forward_chain] @
     (case relayPort of None \<Rightarrow> [] | Some port \<Rightarrow> [relay_chain port])"

definition prefix_element :: "ipv4_cidr \<Rightarrow> json" where
  "prefix_element cidr =
     JObj [(''prefix'', JObj [(''addr'', JStr (formatIpv4Address (cidr_address cidr))),
                              (''len'', JNum (int (cidr_prefix cidr)))])]"

definition prefixElements :: "ipv4_interval list \<Rightarrow> json list" where
  "prefixElements intervals =
     concat (map (\<lambda>interval. map prefix_element (intervalToCidrs interval)) intervals)"

definition service_element :: "service_entry \<Rightarrow> ipv4_cidr \<Rightarrow> json" where
  "service_element entry cidr =
     JObj [(''concat'', JArr [prefix_element cidr, JStr (protocol_text (sv_protocol entry)),
        JObj [(''range'', JArr [JNum (int (sv_port_min entry)), JNum (int (sv_port_max entry))])]])]"

definition serviceElements :: "service_entry list \<Rightarrow> json list" where
  "serviceElements entries =
     concat (map (\<lambda>entry. map (service_element entry) (intervalToCidrs (sv_network entry))) entries)"

text \<open>The intervals of one of the four single sets.\<close>

definition singleSetElements :: "effective_rules \<Rightarrow> string \<Rightarrow> ipv4_interval list" where
  "singleSetElements rules name =
     (if name = ''deny_default_v4''
      then mergeIntervals (case text_intervals EGRESS_DEFAULT_DENY_V4 of None \<Rightarrow> [] | Some is \<Rightarrow> is)
      else if name = ''deny_extra_v4'' then ef_deny_extra rules
      else if name = ''protected_v4'' then ef_protected rules
      else ef_allow_net rules)"

definition with_elements :: "json list \<Rightarrow> (string \<times> json) list" where
  "with_elements elements = (if elements = [] then [] else [(''elem'', JArr elements)])"

definition single_set :: "effective_rules \<Rightarrow> string \<Rightarrow> json" where
  "single_set rules name =
     JObj (in_table @ [(''name'', JStr name), (''type'', JStr ''ipv4_addr''),
        (''flags'', JArr [JStr ''interval''])] @
       with_elements (prefixElements (singleSetElements rules name)))"

definition service_type :: json where
  "service_type = JArr [JStr ''ipv4_addr'', JStr ''inet_proto'', JStr ''inet_service'']"

definition service_set :: "effective_rules \<Rightarrow> json" where
  "service_set rules =
     JObj (in_table @ [(''name'', JStr SERVICE_SET), (''type'', service_type),
        (''flags'', JArr [JStr ''interval''])] @
       with_elements (serviceElements (ef_allow_service rules)))"

definition chain_object :: "chain_spec \<Rightarrow> json" where
  "chain_object c =
     JObj (in_table @ [(''name'', JStr (ch_name c)), (''type'', JStr ''filter''),
        (''hook'', JStr (ch_hook c)), (''prio'', JNum (ch_prio c)), (''policy'', JStr ''accept'')])"

definition rule_object :: "chain_spec \<Rightarrow> json list \<Rightarrow> json" where
  "rule_object c expr = JObj (in_table @ [(''chain'', JStr (ch_name c)), (''expr'', JArr expr)])"

definition add :: "string \<Rightarrow> json \<Rightarrow> json" where
  "add kind value = JObj [(''add'', JObj [(kind, value)])]"

definition table_object :: json where
  "table_object = JObj [(''family'', JStr EGRESS_TABLE_FAMILY), (''name'', JStr EGRESS_TABLE_NAME)]"

definition chain_commands :: "chain_spec \<Rightarrow> json list" where
  "chain_commands c =
     add ''chain'' (chain_object c) # map (\<lambda>expr. add ''rule'' (rule_object c expr)) (ch_rules c)"

definition renderEgressTransaction :: "effective_rules \<Rightarrow> json" where
  "renderEgressTransaction rules =
     JObj [(''nftables'', JArr
       ([add ''table'' table_object, JObj [(''delete'', JObj [(''table'', table_object)])],
         add ''table'' table_object] @
        map (\<lambda>name. add ''set'' (single_set rules name)) SINGLE_SETS @
        [add ''set'' (service_set rules)] @
        concat (map chain_commands (egressChains (ef_relay_port rules)))))]"

section \<open>Verification of a listing\<close>

fun deepEqual :: "json \<Rightarrow> json \<Rightarrow> bool"
  and deepEqual_all :: "json list \<Rightarrow> json list \<Rightarrow> bool"
  and deepEqual_keys :: "(string \<times> json) list \<Rightarrow> (string \<times> json) list \<Rightarrow> bool" where
  "deepEqual (JArr xs) r = (case r of JArr ys \<Rightarrow> deepEqual_all xs ys | _ \<Rightarrow> False)"
| "deepEqual (JObj kvs) r =
     (case r of JObj kvs' \<Rightarrow> length kvs = length kvs' \<and> deepEqual_keys kvs kvs' | _ \<Rightarrow> False)"
| "deepEqual l r = (l = r)"
| "deepEqual_all [] ys = (ys = [])"
| "deepEqual_all (x # xs) ys =
     (case ys of [] \<Rightarrow> False | y # ys' \<Rightarrow> deepEqual x y \<and> deepEqual_all xs ys')"
| "deepEqual_keys [] kvs' = True"
| "deepEqual_keys ((k, v) # kvs) kvs' =
     (case map_of kvs' k of None \<Rightarrow> False | Some w \<Rightarrow> deepEqual v w \<and> deepEqual_keys kvs kvs')"

definition isRecord :: "json \<Rightarrow> bool" where
  "isRecord value \<longleftrightarrow> (case value of JObj _ \<Rightarrow> True | _ \<Rightarrow> False)"

definition field :: "string \<Rightarrow> json \<Rightarrow> json" where
  "field name value =
     (case value of JObj kvs \<Rightarrow> (case map_of kvs name of None \<Rightarrow> JNull | Some v \<Rightarrow> v) | _ \<Rightarrow> JNull)"

definition has_field :: "string \<Rightarrow> json \<Rightarrow> bool" where
  "has_field name value \<longleftrightarrow> (case value of JObj kvs \<Rightarrow> name \<in> fst ` set kvs | _ \<Rightarrow> False)"

definition int_text :: "int \<Rightarrow> string" where
  "int_text n = (if n < 0 then CHR ''-'' # decimal (nat (- n)) else decimal (nat n))"

definition range_address :: "json \<Rightarrow> nat option" where
  "range_address value = (case value of JStr s \<Rightarrow> parseIpv4Address s | _ \<Rightarrow> None)"

text \<open>A prefix length that is not an integer prints with a point and does not parse.\<close>

definition addressInterval :: "json \<Rightarrow> ipv4_interval option" where
  "addressInterval value =
     (case value of
        JStr s \<Rightarrow> map_option (\<lambda>a. \<lparr>iv_start = a, iv_end = a\<rparr>) (parseIpv4Address s)
      | JObj _ \<Rightarrow>
          (case (field ''prefix'' value, field ''addr'' (field ''prefix'' value),
                 field ''len'' (field ''prefix'' value)) of
             (JObj _, JStr addr, JNum len) \<Rightarrow>
               map_option (\<lambda>c. \<lparr>iv_start = cidr_address c,
                                iv_end = cidr_address c + 2 ^ (32 - cidr_prefix c) - 1\<rparr>)
                 (parseIpv4Cidr (addr @ CHR ''/'' # int_text len))
           | (JObj _, JStr addr, JRat len) \<Rightarrow> None
           | _ \<Rightarrow>
               (case field ''range'' value of
                  JArr [lo, hi] \<Rightarrow>
                    (case (range_address lo, range_address hi) of
                       (Some start, Some fin) \<Rightarrow>
                         if start > fin then None else Some \<lparr>iv_start = start, iv_end = fin\<rparr>
                     | _ \<Rightarrow> None)
                | _ \<Rightarrow> None))
      | _ \<Rightarrow> None)"

definition portRange :: "json \<Rightarrow> (int \<times> int) option" where
  "portRange value =
     (case value of
        JNum n \<Rightarrow> Some (n, n)
      | JObj _ \<Rightarrow>
          (case field ''range'' value of JArr [JNum start, JNum fin] \<Rightarrow> Some (start, fin) | _ \<Rightarrow> None)
      | _ \<Rightarrow> None)"

definition elementList :: "json \<Rightarrow> json list" where
  "elementList s =
     (if \<not> has_field ''elem'' s then []
      else case field ''elem'' s of JArr elements \<Rightarrow> elements | element \<Rightarrow> [element])"

fun element_intervals :: "json list \<Rightarrow> ipv4_interval list option" where
  "element_intervals [] = Some []"
| "element_intervals (e # es) =
     (case (addressInterval e, element_intervals es) of
        (Some i, Some is) \<Rightarrow> Some (i # is) | _ \<Rightarrow> None)"

definition canonicalSingle :: "json list \<Rightarrow> ipv4_interval list option" where
  "canonicalSingle elements = map_option mergeIntervals (element_intervals elements)"

definition service_key_of :: "json \<Rightarrow> string option" where
  "service_key_of element =
     (case field ''concat'' element of
        JArr [address, JStr protocol, ports] \<Rightarrow>
          (case (addressInterval address, portRange ports) of
             (Some network, Some (lo, hi)) \<Rightarrow>
               if protocol \<noteq> ''tcp'' \<and> protocol \<noteq> ''udp'' then None
               else Some (decimal (iv_start network) @ CHR ''-'' # decimal (iv_end network) @
                          CHR ''|'' # protocol @ CHR ''|'' # int_text lo @ CHR ''-'' # int_text hi)
           | _ \<Rightarrow> None)
      | _ \<Rightarrow> None)"

fun service_keys :: "json list \<Rightarrow> string list option" where
  "service_keys [] = Some []"
| "service_keys (e # es) =
     (case (service_key_of e, service_keys es) of
        (Some k, Some ks) \<Rightarrow> Some (k # ks) | _ \<Rightarrow> None)"

definition canonicalServices :: "json list \<Rightarrow> string list option" where
  "canonicalServices elements = map_option (\<lambda>keys. sort (js_set keys)) (service_keys elements)"

record listing_state =
  ls_tables :: nat
  ls_chains :: "(string \<times> json) list"
  ls_rules :: "(string \<times> json list) list"
  ls_sets :: "(string \<times> json) list"

definition empty_listing :: listing_state where
  "empty_listing = \<lparr>ls_tables = 0, ls_chains = [], ls_rules = [], ls_sets = []\<rparr>"

definition rules_of :: "string \<Rightarrow> listing_state \<Rightarrow> json list" where
  "rules_of name s = (case map_of (ls_rules s) name of None \<Rightarrow> [] | Some es \<Rightarrow> es)"

definition object_in_table :: "string \<Rightarrow> json \<Rightarrow> bool" where
  "object_in_table kind value \<longleftrightarrow>
     field ''family'' value = JStr EGRESS_TABLE_FAMILY \<and>
     field (if kind = ''table'' then ''name'' else ''table'') value = JStr EGRESS_TABLE_NAME"

text \<open>One entry of the listing: \<open>Inl\<close> is the reason of a refusal.\<close>

definition text_field :: "string \<Rightarrow> json \<Rightarrow> string option" where
  "text_field name value = (case field name value of JStr s \<Rightarrow> Some s | _ \<Rightarrow> None)"

definition read_object :: "string \<Rightarrow> json \<Rightarrow> listing_state \<Rightarrow> string + listing_state" where
  "read_object kind value s =
     (if \<not> isRecord value then Inl ''unexpected listing entry''
      else if \<not> object_in_table kind value then Inl (''object outside the egress table: '' @ kind)
      else if kind = ''table'' then Inr (s\<lparr>ls_tables := ls_tables s + 1\<rparr>)
      else
        let refused = Inl (''unexpected object in egress table: '' @ kind);
            name = text_field (if kind = ''rule'' then ''chain'' else ''name'') value
        in case name of
             None \<Rightarrow> refused
           | Some n \<Rightarrow>
               if kind = ''chain'' then Inr (s\<lparr>ls_chains := obj_set n value (ls_chains s)\<rparr>)
               else if kind = ''set'' then Inr (s\<lparr>ls_sets := obj_set n value (ls_sets s)\<rparr>)
               else if kind = ''rule''
               then Inr (s\<lparr>ls_rules := obj_set n (rules_of n s @ [field ''expr'' value]) (ls_rules s)\<rparr>)
               else refused)"

fun read_listing :: "json list \<Rightarrow> listing_state \<Rightarrow> string + listing_state" where
  "read_listing [] s = Inr s"
| "read_listing (entry # entries) s =
     (case entry of
        JObj kvs \<Rightarrow>
          if ''metainfo'' \<in> fst ` set kvs then read_listing entries s
          else (case kvs of
              [] \<Rightarrow> Inl ''unexpected listing entry''
            | (kind, value) # _ \<Rightarrow>
                (case read_object kind value s of
                   Inl reason \<Rightarrow> Inl reason
                 | Inr s' \<Rightarrow> read_listing entries s'))
      | _ \<Rightarrow> Inl ''unexpected listing entry'')"

definition chain_matches :: "listing_state \<Rightarrow> chain_spec \<Rightarrow> bool" where
  "chain_matches s expected \<longleftrightarrow>
     (case map_of (ls_chains s) (ch_name expected) of
        None \<Rightarrow> False
      | Some chain \<Rightarrow>
          field ''type'' chain = JStr ''filter'' \<and> field ''hook'' chain = JStr (ch_hook expected) \<and>
          field ''prio'' chain = JNum (ch_prio expected) \<and> field ''policy'' chain = JStr ''accept'')"

definition rules_match :: "listing_state \<Rightarrow> chain_spec \<Rightarrow> bool" where
  "rules_match s expected \<longleftrightarrow> deepEqual_all (rules_of (ch_name expected) s) (map JArr (ch_rules expected))"

fun check_chains :: "listing_state \<Rightarrow> chain_spec list \<Rightarrow> string option" where
  "check_chains s [] = None"
| "check_chains s (c # cs) =
     (if \<not> chain_matches s c then Some (''chain '' @ ch_name c @ '' does not match'')
      else if \<not> rules_match s c then Some (''rules of '' @ ch_name c @ '' do not match'')
      else check_chains s cs)"

fun check_singles :: "listing_state \<Rightarrow> effective_rules \<Rightarrow> string list \<Rightarrow> string option" where
  "check_singles s rules [] = None"
| "check_singles s rules (name # names) =
     (case map_of (ls_sets s) name of
        None \<Rightarrow> Some (''set '' @ name @ '' does not match'')
      | Some found \<Rightarrow>
          if field ''type'' found \<noteq> JStr ''ipv4_addr'' \<or>
             \<not> deepEqual (field ''flags'' found) (JArr [JStr ''interval''])
          then Some (''set '' @ name @ '' does not match'')
          else if canonicalSingle (elementList found) \<noteq> Some (singleSetElements rules name)
          then Some (''elements of '' @ name @ '' do not match'')
          else check_singles s rules names)"

definition check_services :: "listing_state \<Rightarrow> effective_rules \<Rightarrow> string option" where
  "check_services s rules =
     (case map_of (ls_sets s) SERVICE_SET of
        None \<Rightarrow> Some (''set '' @ SERVICE_SET @ '' does not match'')
      | Some services \<Rightarrow>
          if \<not> deepEqual (field ''type'' services) service_type \<or>
             \<not> deepEqual (field ''flags'' services) (JArr [JStr ''interval''])
          then Some (''set '' @ SERVICE_SET @ '' does not match'')
          else if canonicalServices (elementList services) \<noteq>
                  canonicalServices (serviceElements (ef_allow_service rules))
          then Some (''elements of '' @ SERVICE_SET @ '' do not match'')
          else None)"

text \<open>\<open>None\<close> is \<open>{ ok: true }\<close>.\<close>

definition check_listing :: "listing_state \<Rightarrow> effective_rules \<Rightarrow> string option" where
  "check_listing s rules =
     (if ls_tables s \<noteq> 1 then Some ''egress table is missing''
      else if length (ls_chains s) \<noteq> length (egressChains (ef_relay_port rules))
      then Some ''unexpected chain count''
      else case check_chains s (egressChains (ef_relay_port rules)) of
             Some reason \<Rightarrow> Some reason
           | None \<Rightarrow>
               if list_ex (\<lambda>(name, _). name \<notin> fst ` set (ls_chains s)) (ls_rules s)
               then Some ''rule in an unknown chain''
               else if length (ls_sets s) \<noteq> length SINGLE_SETS + 1
               then Some ''unexpected set count''
               else case check_singles s rules SINGLE_SETS of
                      Some reason \<Rightarrow> Some reason
                    | None \<Rightarrow> check_services s rules)"

definition verifyEgressListing :: "json \<Rightarrow> effective_rules \<Rightarrow> string option" where
  "verifyEgressListing listing rules =
     (case (isRecord listing, field ''nftables'' listing) of
        (True, JArr entries) \<Rightarrow>
          (case read_listing entries empty_listing of
             Inl reason \<Rightarrow> Some reason
           | Inr s \<Rightarrow> check_listing s rules)
      | _ \<Rightarrow> Some ''listing is not nftables JSON'')"

text \<open>
  \<open>test-support.ts\<close>, the project's stand-in for nft: a transaction as the listing that
  \<open>nft -j list table\<close> prints afterwards.
\<close>

fun listed_objects :: "json list \<Rightarrow> json list \<Rightarrow> json list" where
  "listed_objects [] objects = objects"
| "listed_objects (command # commands) objects =
     listed_objects commands
       (case command of
          JObj ((verb, JObj ((kind, value) # _)) # _) \<Rightarrow>
            if kind = ''table'' then
              if verb = ''delete'' then []
              else if list_ex (has_field ''table'') objects then objects
              else objects @ [JObj [(''table'', value)]]
            else objects @ [JObj [(kind, value)]]
        | _ \<Rightarrow> objects)"

definition listingFromTransaction :: "json \<Rightarrow> json" where
  "listingFromTransaction transaction =
     JObj [(''nftables'', JArr
       (JObj [(''metainfo'', JObj [(''json_schema_version'', JNum 1)])] #
        listed_objects (case field ''nftables'' transaction of JArr cs \<Rightarrow> cs | _ \<Rightarrow> []) []))]"

end
