(* ===== verification/PacketFilter.thy ===== *)
theory PacketFilter
  imports Ruleset
begin

text \<open>
  What the table of \<open>Ruleset\<close> means for a packet. nftables is not part of the sources: how it decides
  one match statement is the parameter \<open>holds\<close>, and \<open>nft_reads\<close> states what nft(8) documents of the
  statements the Worker renders. A chain is run as documented: its rules in order, the statements of
  a rule from left to right, and the chain's policy \<open>accept\<close> at the end or on \<open>return\<close>.

  The abstract specification is \<open>forward_policy\<close>, written over the addresses of the policy itself.
  The lemmas show that the rendered sets cover exactly the policy's addresses and that any listing
  the verification accepts has the same verdicts.
\<close>

section \<open>Packets and chains\<close>

record packet =
  pk_workspace :: bool
  pk_reply :: bool
  pk_ipv6 :: bool
  pk_daddr :: nat
  pk_type :: string
  pk_protocol :: "egress_protocol option"
  pk_dport :: nat

datatype verdict = Accepted | Dropped

fun run_rule :: "(json \<Rightarrow> bool) \<Rightarrow> json list \<Rightarrow> verdict option" where
  "run_rule holds [] = None"
| "run_rule holds (s # ss) =
     (if has_field ''match'' s then (if holds s then run_rule holds ss else None)
      else if has_field ''accept'' s \<or> has_field ''return'' s then Some Accepted
      else if has_field ''drop'' s then Some Dropped
      else run_rule holds ss)"

fun run_chain :: "(json \<Rightarrow> bool) \<Rightarrow> json list list \<Rightarrow> verdict" where
  "run_chain holds [] = Accepted"
| "run_chain holds (r # rs) =
     (case run_rule holds r of None \<Rightarrow> run_chain holds rs | Some v \<Rightarrow> v)"

definition statements :: "json \<Rightarrow> json list" where
  "statements expr = (case expr of JArr ss \<Rightarrow> ss | _ \<Rightarrow> [])"

text \<open>JSON as \<open>JSON.parse\<close> yields it: the keys of every object are distinct.\<close>

fun proper :: "json \<Rightarrow> bool"
  and proper_all :: "json list \<Rightarrow> bool"
  and proper_values :: "(string \<times> json) list \<Rightarrow> bool" where
  "proper (JArr xs) = proper_all xs"
| "proper (JObj kvs) = (distinct (map fst kvs) \<and> proper_values kvs)"
| "proper _ = True"
| "proper_all [] = True"
| "proper_all (x # xs) = (proper x \<and> proper_all xs)"
| "proper_values [] = True"
| "proper_values ((k, v) # kvs) = (proper v \<and> proper_values kvs)"

lemma proper_all_iff: "proper_all xs \<longleftrightarrow> (\<forall>x \<in> set xs. proper x)"
  by (induction xs) auto

lemma proper_values_iff: "proper_values kvs \<longleftrightarrow> (\<forall>(k, v) \<in> set kvs. proper v)"
  by (induction kvs) auto

lemma proper_field: "proper j \<Longrightarrow> proper (field name j)"
  by (cases j) (auto simp: field_def proper_values_iff dest: map_of_SomeD split: option.split)

text \<open>Which packets an element of a set stands for.\<close>

definition element_has :: "json \<Rightarrow> nat \<Rightarrow> bool" where
  "element_has e a \<longleftrightarrow> (case addressInterval e of None \<Rightarrow> False | Some i \<Rightarrow> iv_start i \<le> a \<and> a \<le> iv_end i)"

definition service_element_has :: "json \<Rightarrow> packet \<Rightarrow> bool" where
  "service_element_has e p \<longleftrightarrow>
     (case field ''concat'' e of
        JArr [address, JStr protocol, ports] \<Rightarrow>
          (case (addressInterval address, portRange ports, pk_protocol p) of
             (Some i, Some (lo, hi), Some pr) \<Rightarrow>
               protocol = protocol_text pr \<and> iv_start i \<le> pk_daddr p \<and> pk_daddr p \<le> iv_end i \<and>
               lo \<le> int (pk_dport p) \<and> int (pk_dport p) \<le> hi
           | _ \<Rightarrow> False)
      | _ \<Rightarrow> False)"

text \<open>The statements of a packet, read as nft(8) documents them, for the given set contents.\<close>

definition nft_reads :: "(string \<Rightarrow> json list) \<Rightarrow> packet \<Rightarrow> (json \<Rightarrow> bool) \<Rightarrow> bool" where
  "nft_reads elements p holds \<longleftrightarrow>
     (\<forall>j. proper j \<longrightarrow>
          (deepEqual j not_workspace \<longrightarrow> holds j = (\<not> pk_workspace p)) \<and>
          (deepEqual j is_reply \<longrightarrow> holds j = pk_reply p) \<and>
          (deepEqual j is_ipv6 \<longrightarrow> holds j = pk_ipv6 p) \<and>
          (deepEqual j to_host \<longrightarrow> holds j = (pk_type p = ''local'')) \<and>
          (deepEqual j to_host_or_group \<longrightarrow>
             holds j = (pk_type p \<in> {''local'', ''broadcast'', ''multicast''})) \<and>
          (\<forall>port. deepEqual j (to_port port) \<longrightarrow>
             holds j = (pk_protocol p = Some Tcp \<and> pk_dport p = port)) \<and>
          (\<forall>name \<in> set SINGLE_SETS. deepEqual j (in_set name) \<longrightarrow>
             holds j = (\<not> pk_ipv6 p \<and> (\<exists>e \<in> set (elements name). element_has e (pk_daddr p)))) \<and>
          (deepEqual j is_service \<longrightarrow>
             holds j = (\<not> pk_ipv6 p \<and> (\<exists>e \<in> set (elements SERVICE_SET). service_element_has e p))))"

section \<open>The specification\<close>

definition networks_addrs :: "string list \<Rightarrow> nat set" where
  "networks_addrs texts = (\<Union>t \<in> set texts. text_addrs t)"

definition policy_allow :: "egress_policy option \<Rightarrow> egress_allow_entry list" where
  "policy_allow policy = (case policy of None \<Rightarrow> [] | Some p \<Rightarrow> pol_allow p)"

definition policy_deny :: "egress_policy option \<Rightarrow> string list" where
  "policy_deny policy = (case policy of None \<Rightarrow> [] | Some p \<Rightarrow> pol_deny_extra p)"

definition policy_protected :: "egress_policy option \<Rightarrow> string list" where
  "policy_protected policy = (case policy of None \<Rightarrow> [] | Some p \<Rightarrow> pol_protected p)"

text \<open>An allow entry opens a network, or one protocol and a range of ports of it.\<close>

definition entry_opens :: "egress_allow_entry \<Rightarrow> packet \<Rightarrow> bool" where
  "entry_opens entry p \<longleftrightarrow>
     pk_daddr p \<in> text_addrs (allow_network entry) \<and>
     (case allow_protocol entry of
        None \<Rightarrow> True
      | Some pr \<Rightarrow>
          pk_protocol p = Some pr \<and>
          (case allow_port_min entry of None \<Rightarrow> 1 | Some n \<Rightarrow> n) \<le> pk_dport p \<and>
          pk_dport p \<le> (case allow_port_max entry of None \<Rightarrow> 65535 | Some n \<Rightarrow> n))"

definition forward_policy :: "egress_policy option \<Rightarrow> string list \<Rightarrow> packet \<Rightarrow> verdict" where
  "forward_policy policy localProtected p =
     (if \<not> pk_workspace p \<or> pk_reply p then Accepted
      else if pk_ipv6 p then Dropped
      else if pk_daddr p \<in> networks_addrs (policy_protected policy @ localProtected) then Dropped
      else if list_ex (\<lambda>entry. entry_opens entry p) (policy_allow policy) then Accepted
      else if pk_daddr p \<in> networks_addrs (EGRESS_DEFAULT_DENY_V4 @ policy_deny policy) then Dropped
      else Accepted)"

text \<open>Before Docker's address translation: the Worker host itself is out of reach but for the relay.\<close>

definition host_policy :: "nat option \<Rightarrow> packet \<Rightarrow> verdict" where
  "host_policy relayPort p =
     (if \<not> pk_workspace p \<or> pk_reply p then Accepted
      else if pk_ipv6 p then Dropped
      else if pk_type p = ''local'' \<and> pk_protocol p = Some Tcp \<and> relayPort = Some (pk_dport p) then Accepted
      else if pk_type p \<in> {''local'', ''broadcast'', ''multicast''} then Dropped
      else Accepted)"

definition input_policy :: "nat \<Rightarrow> packet \<Rightarrow> verdict" where
  "input_policy port p =
     (if pk_protocol p = Some Tcp \<and> pk_dport p = port \<and> \<not> pk_workspace p then Dropped else Accepted)"

section \<open>Elements of the single sets\<close>

lemma cidrs_cover:
  "covered (map cidrInterval (intervalToCidrs i)) = addrs i"
  using blocks_from_spec [of "iv_start i" "iv_end i"] by (simp add: intervalToCidrs_def addrs_def)

lemma cidrs_wf: "iv_end i < 2 ^ 32 \<Longrightarrow> c \<in> set (intervalToCidrs i) \<Longrightarrow> wf_cidr c"
  using blocks_from_below [of c "iv_start i" "iv_end i"] by (simp add: intervalToCidrs_def)

lemma prefix_element_interval:
  assumes "wf_cidr c"
  shows "addressInterval (prefix_element c) = Some (cidrInterval c)"
proof -
  have "parseIpv4Cidr (formatIpv4Address (cidr_address c) @ CHR ''/'' # decimal (cidr_prefix c)) = Some c"
    using parse_format_cidr [OF assms] by (simp add: formatIpv4Cidr_def)
  then show ?thesis
    by (simp add: addressInterval_def prefix_element_def field_def int_text_def cidrInterval_def
        prefixSize_def)
qed

lemma element_intervals_append:
  "element_intervals (xs @ ys) =
   (case (element_intervals xs, element_intervals ys) of (Some a, Some b) \<Rightarrow> Some (a @ b) | _ \<Rightarrow> None)"
  by (induction xs) (auto split: option.splits)

lemma element_intervals_prefixes:
  "\<forall>c \<in> set cs. wf_cidr c \<Longrightarrow> element_intervals (map prefix_element cs) = Some (map cidrInterval cs)"
  by (induction cs) (auto simp: prefix_element_interval)

definition below_2_32 :: "ipv4_interval list \<Rightarrow> bool" where
  "below_2_32 is \<longleftrightarrow> (\<forall>i \<in> set is. iv_end i < 2 ^ 32)"

lemma prefixElements_intervals:
  assumes "below_2_32 is"
  shows "\<exists>js. element_intervals (prefixElements is) = Some js \<and> covered js = covered is \<and> list_all wf_iv js"
  using assms
proof (induction "is")
  case Nil
  then show ?case by (simp add: prefixElements_def)
next
  case (Cons i "is")
  then obtain js where js: "element_intervals (prefixElements is) = Some js" "covered js = covered is"
      "list_all wf_iv js"
    by (auto simp: below_2_32_def)
  have "\<forall>c \<in> set (intervalToCidrs i). wf_cidr c"
    using Cons.prems cidrs_wf by (auto simp: below_2_32_def)
  then have "element_intervals (map prefix_element (intervalToCidrs i)) =
      Some (map cidrInterval (intervalToCidrs i))"
    by (rule element_intervals_prefixes)
  with js show ?case
    by (auto simp: prefixElements_def element_intervals_append cidrs_cover list_all_iff)
qed

lemma separated_merge: "separated is \<Longrightarrow> mergeIntervals is = is"
  using separated_unique [of "mergeIntervals is" "is"] merge_separated [of "is"] merge_covered [of "is"]
  by (simp add: separated_def)

lemma canonicalSingle_rendered:
  assumes "separated is" "below_2_32 is"
  shows "canonicalSingle (prefixElements is) = Some is"
proof -
  obtain js where js: "element_intervals (prefixElements is) = Some js" "covered js = covered is"
      "list_all wf_iv js"
    using prefixElements_intervals [OF assms(2)] by blast
  have "mergeIntervals js = mergeIntervals is"
    using js(2,3) assms(1) by (intro iffD2 [OF merge_eq_iff]) (simp_all add: separated_def)
  with js(1) show ?thesis by (simp add: canonicalSingle_def separated_merge [OF assms(1)])
qed

lemma element_intervals_has:
  "element_intervals es = Some js \<Longrightarrow> (\<exists>e \<in> set es. element_has e a) \<longleftrightarrow> a \<in> covered js"
  by (induction es arbitrary: js) (auto simp: element_has_def addrs_def split: option.splits)

lemma addressInterval_wf: "addressInterval e = Some i \<Longrightarrow> wf_iv i"
proof -
  have "a \<le> a + 2 ^ n - Suc 0" for a n :: nat
  proof -
    have "Suc 0 \<le> 2 ^ n" by (simp add: Suc_leI)
    then show ?thesis by linarith
  qed
  then show "addressInterval e = Some i \<Longrightarrow> wf_iv i"
    by (auto simp: addressInterval_def wf_iv_def split: json.splits option.splits if_splits list.splits)
qed

lemma element_intervals_wf: "element_intervals es = Some js \<Longrightarrow> list_all wf_iv js"
  by (induction es arbitrary: js) (auto dest: addressInterval_wf split: option.splits)

text \<open>Whatever elements canonicalise to an interval list cover its addresses.\<close>

lemma canonicalSingle_has:
  assumes "canonicalSingle es = Some is"
  shows "(\<exists>e \<in> set es. element_has e a) \<longleftrightarrow> a \<in> covered is"
proof -
  obtain js where js: "element_intervals es = Some js" "is = mergeIntervals js"
    using assms by (auto simp: canonicalSingle_def)
  with element_intervals_wf [OF js(1)] show ?thesis
    by (simp add: element_intervals_has [OF js(1)] merge_covered)
qed

section \<open>Keys\<close>

lemma sep_inject:
  assumes "c \<notin> set p" "c \<notin> set q" "p @ c # x = q @ c # y"
  shows "p = q \<and> x = y"
  using assms
proof (induction p arbitrary: q)
  case Nil
  then show ?case by (cases q) auto
next
  case (Cons a p)
  then show ?case by (cases q) auto
qed

lemma decimal_plain: "CHR ''-'' \<notin> set (decimal n)" "CHR ''|'' \<notin> set (decimal n)"
  by (auto simp: is_digit_def Let_def dest: decimal_digits)

lemma decimal_nonempty [simp]: "decimal n \<noteq> []"
  by (simp add: decimal.simps [of n])

lemma int_text_plain: "CHR ''|'' \<notin> set (int_text n)"
  using decimal_plain by (simp add: int_text_def)

lemma int_text_sep:
  assumes "int_text a @ CHR ''-'' # x = int_text b @ CHR ''-'' # y"
  shows "a = b \<and> x = y"
proof -
  have start: "hd (decimal m @ z) \<noteq> CHR ''-''" for m z
    using decimal_plain(1) [of m] decimal_nonempty [of m] by (cases "decimal m") auto
  have "hd (int_text n @ z) = CHR ''-'' \<longleftrightarrow> n < 0" for n z
    using start by (simp add: int_text_def)
  from this [of a "CHR ''-'' # x"] this [of b "CHR ''-'' # y"] have signs: "a < 0 \<longleftrightarrow> b < 0"
    unfolding assms by blast
  have "decimal (nat \<bar>a\<bar>) @ CHR ''-'' # x = decimal (nat \<bar>b\<bar>) @ CHR ''-'' # y"
    using assms signs by (simp add: int_text_def split: if_splits)
  then have "decimal (nat \<bar>a\<bar>) = decimal (nat \<bar>b\<bar>) \<and> x = y"
    by (intro sep_inject [of "CHR ''-''"]) (simp_all add: decimal_plain)
  with signs show ?thesis by (auto simp: decimal_inject)
qed

lemma int_text_inject: "int_text a = int_text b \<longleftrightarrow> a = b"
  using int_text_sep [of a "[]" b "[]"] by auto

definition listed_key :: "ipv4_interval \<Rightarrow> string \<Rightarrow> int \<Rightarrow> int \<Rightarrow> string" where
  "listed_key i protocol lo hi =
     decimal (iv_start i) @ CHR ''-'' # decimal (iv_end i) @ CHR ''|'' # protocol @ CHR ''|'' #
       int_text lo @ CHR ''-'' # int_text hi"

lemma protocol_plain: "CHR ''|'' \<notin> set (protocol_text pr)"
  by (cases pr) (simp_all add: protocol_text_def)

lemma protocol_inject: "protocol_text a = protocol_text b \<longleftrightarrow> a = b"
  by (cases a; cases b) (simp_all add: protocol_text_def)

lemma listed_key_inject:
  assumes "listed_key i (protocol_text a) lo hi = listed_key i' (protocol_text b) lo' hi'"
  shows "i = i' \<and> a = b \<and> lo = lo' \<and> hi = hi'"
proof -
  from sep_inject [OF decimal_plain(1) decimal_plain(1) assms [unfolded listed_key_def]]
  have first: "iv_start i = iv_start i'"
    and rest: "decimal (iv_end i) @ CHR ''|'' # protocol_text a @ CHR ''|'' # int_text lo @ CHR ''-'' # int_text hi =
      decimal (iv_end i') @ CHR ''|'' # protocol_text b @ CHR ''|'' # int_text lo' @ CHR ''-'' # int_text hi'"
    by (simp_all add: decimal_inject)
  from sep_inject [OF decimal_plain(2) decimal_plain(2) rest]
  have second: "iv_end i = iv_end i'"
    and rest: "protocol_text a @ CHR ''|'' # int_text lo @ CHR ''-'' # int_text hi =
      protocol_text b @ CHR ''|'' # int_text lo' @ CHR ''-'' # int_text hi'"
    by (simp_all add: decimal_inject)
  from sep_inject [OF protocol_plain protocol_plain rest]
  have "a = b" and rest: "int_text lo @ CHR ''-'' # int_text hi = int_text lo' @ CHR ''-'' # int_text hi'"
    by (simp_all add: protocol_inject)
  with first second int_text_sep [OF rest] show ?thesis by (simp add: int_text_inject)
qed

text \<open>The key the listing is compared by decides which packets an element stands for.\<close>

definition key_opens :: "string \<Rightarrow> packet \<Rightarrow> bool" where
  "key_opens k p \<longleftrightarrow>
     (\<exists>i pr lo hi. k = listed_key i (protocol_text pr) lo hi \<and> pk_protocol p = Some pr \<and>
        iv_start i \<le> pk_daddr p \<and> pk_daddr p \<le> iv_end i \<and>
        lo \<le> int (pk_dport p) \<and> int (pk_dport p) \<le> hi)"

lemma key_opens_listed:
  "key_opens (listed_key i (protocol_text pr) lo hi) p \<longleftrightarrow>
     pk_protocol p = Some pr \<and> iv_start i \<le> pk_daddr p \<and> pk_daddr p \<le> iv_end i \<and>
     lo \<le> int (pk_dport p) \<and> int (pk_dport p) \<le> hi"
  unfolding key_opens_def by (metis listed_key_inject)

lemma service_key_opens:
  assumes "service_key_of e = Some k"
  shows "service_element_has e p \<longleftrightarrow> key_opens k p"
proof -
  obtain address protocol ports i lo hi where parts:
      "field ''concat'' e = JArr [address, JStr protocol, ports]" "addressInterval address = Some i"
      "portRange ports = Some (lo, hi)" "protocol = ''tcp'' \<or> protocol = ''udp''"
      "k = listed_key i protocol lo hi"
    using assms unfolding service_key_of_def listed_key_def
    by (auto split: json.splits list.splits option.splits if_splits)
  obtain pr where pr: "protocol = protocol_text pr"
    using parts(4) by (metis egress_protocol.simps(3,4) protocol_text_def)
  then show ?thesis
    using parts(1-3,5)
    by (auto simp: service_element_has_def protocol_inject key_opens_listed split: option.splits)
qed

lemma service_keys_open:
  "service_keys es = Some ks \<Longrightarrow>
   (\<exists>e \<in> set es. service_element_has e p) \<longleftrightarrow> (\<exists>k \<in> set ks. key_opens k p)"
  by (induction es arbitrary: ks) (auto simp: service_key_opens split: option.splits)

lemma canonicalServices_same:
  assumes "canonicalServices es = canonicalServices fs" "canonicalServices fs \<noteq> None"
  shows "(\<exists>e \<in> set es. service_element_has e p) \<longleftrightarrow> (\<exists>f \<in> set fs. service_element_has f p)"
proof -
  obtain ks ls where keys: "service_keys es = Some ks" "service_keys fs = Some ls"
      "sort (js_set ks) = sort (js_set ls)"
    using assms by (auto simp: canonicalServices_def)
  have "set ks = set ls" using arg_cong [OF keys(3), of set] by simp
  then show ?thesis by (simp add: service_keys_open [OF keys(1)] service_keys_open [OF keys(2)])
qed

section \<open>Services\<close>

definition service_opens :: "service_entry \<Rightarrow> packet \<Rightarrow> bool" where
  "service_opens s p \<longleftrightarrow>
     pk_protocol p = Some (sv_protocol s) \<and> pk_daddr p \<in> addrs (sv_network s) \<and>
     sv_port_min s \<le> pk_dport p \<and> pk_dport p \<le> sv_port_max s"

lemma service_element_key:
  assumes "wf_cidr c"
  shows "service_key_of (service_element s c) =
    Some (listed_key (cidrInterval c) (protocol_text (sv_protocol s)) (int (sv_port_min s)) (int (sv_port_max s)))"
  using prefix_element_interval [OF assms]
  by (cases "sv_protocol s") (simp_all add: service_key_of_def service_element_def field_def
      portRange_def listed_key_def protocol_text_def)

lemma service_element_opens:
  assumes "wf_cidr c"
  shows "service_element_has (service_element s c) p \<longleftrightarrow>
    pk_protocol p = Some (sv_protocol s) \<and> pk_daddr p \<in> addrs (cidrInterval c) \<and>
    sv_port_min s \<le> pk_dport p \<and> pk_dport p \<le> sv_port_max s"
  unfolding service_key_opens [OF service_element_key [OF assms]] key_opens_listed
  by (auto simp: addrs_def)

lemma services_open:
  assumes "\<forall>s \<in> set entries. iv_end (sv_network s) < 2 ^ 32"
  shows "(\<exists>e \<in> set (serviceElements entries). service_element_has e p) \<longleftrightarrow>
    list_ex (\<lambda>s. service_opens s p) entries"
proof -
  have one: "(\<exists>c \<in> set (intervalToCidrs (sv_network s)). service_element_has (service_element s c) p) \<longleftrightarrow>
      service_opens s p" if "s \<in> set entries" for s
  proof -
    have wf: "\<forall>c \<in> set (intervalToCidrs (sv_network s)). wf_cidr c"
      using cidrs_wf assms that by blast
    have "(\<exists>c \<in> set (intervalToCidrs (sv_network s)). pk_daddr p \<in> addrs (cidrInterval c)) \<longleftrightarrow>
        pk_daddr p \<in> addrs (sv_network s)"
      using cidrs_cover [of "sv_network s"] by (auto simp: covered_def)
    with wf show ?thesis by (auto simp: service_element_opens service_opens_def)
  qed
  then show ?thesis by (auto simp: serviceElements_def list_ex_iff)
qed

lemma services_canonical:
  assumes "\<forall>s \<in> set entries. iv_end (sv_network s) < 2 ^ 32"
  shows "canonicalServices (serviceElements entries) \<noteq> None"
proof -
  have "service_keys es \<noteq> None" if "\<forall>e \<in> set es. service_key_of e \<noteq> None" for es
    using that by (induction es) auto
  moreover have "service_key_of e \<noteq> None" if "e \<in> set (serviceElements entries)" for e
    using that assms cidrs_wf by (auto simp: serviceElements_def service_element_key)
  ultimately show ?thesis by (auto simp: canonicalServices_def)
qed

section \<open>The effective rules\<close>

definition hex_value :: "string \<Rightarrow> nat" where
  "hex_value s = foldl (\<lambda>v c. v * 16 + (let n = of_char c in if n < 58 then n - 48 else n - 87)) 0 s"

lemma hex_value_digit: "n < 16 \<Longrightarrow> hex_value (s @ [hex_digit n]) = hex_value s * 16 + n"
  by (simp add: hex_value_def hex_digit_def)

lemma hex_value_hexadecimal: "hex_value (hexadecimal n) = n"
proof (induction n rule: hexadecimal.induct)
  case (1 n)
  show ?case
  proof (cases "n < 16")
    case True
    then show ?thesis
      using hex_value_digit [of n "[]"] by (simp add: hexadecimal.simps [of n] hex_value_def)
  next
    case False
    with 1 show ?thesis by (simp add: hexadecimal.simps [of n] hex_value_digit)
  qed
qed

lemma hex_value_pad: "hex_value (padStart k CHR ''0'' s) = hex_value s"
proof -
  have "hex_value (replicate j CHR ''0'' @ s) = hex_value s" for j
    by (induction j) (simp_all add: hex_value_def)
  then show ?thesis by (simp add: padStart_def)
qed

lemma hex_plain: "CHR ''|'' \<notin> set (padStart k CHR ''0'' (hexadecimal n))"
proof -
  have digit: "m < 16 \<Longrightarrow> hex_digit m \<noteq> CHR ''|''" for m
    by (auto simp: hex_digit_def dest!: arg_cong [where f = "of_char :: char \<Rightarrow> nat"])
  have "CHR ''|'' \<notin> set (hexadecimal n)"
    by (induction n rule: hexadecimal.induct)
      (simp add: hexadecimal.simps [of n for n] digit [THEN not_sym])
  then show ?thesis by (simp add: padStart_def)
qed

lemma serviceKey_inject:
  assumes "serviceKey a = serviceKey b"
  shows "a = b"
proof -
  let ?parts = "\<lambda>s. [padStart 8 CHR ''0'' (hexadecimal (iv_start (sv_network s))),
        padStart 8 CHR ''0'' (hexadecimal (iv_end (sv_network s))),
        protocol_text (sv_protocol s), decimal (sv_port_min s), decimal (sv_port_max s)]"
  have "split_on CHR ''|'' (serviceKey s) = ?parts s" for s
    unfolding serviceKey_def
    by (rule split_on_join) (simp_all add: hex_plain protocol_plain decimal_plain)
  with assms have "?parts a = ?parts b" by metis
  then have "hex_value (padStart 8 CHR ''0'' (hexadecimal (iv_start (sv_network a)))) =
      hex_value (padStart 8 CHR ''0'' (hexadecimal (iv_start (sv_network b))))"
    "hex_value (padStart 8 CHR ''0'' (hexadecimal (iv_end (sv_network a)))) =
      hex_value (padStart 8 CHR ''0'' (hexadecimal (iv_end (sv_network b))))"
    "sv_protocol a = sv_protocol b" "sv_port_min a = sv_port_min b" "sv_port_max a = sv_port_max b"
    by (simp_all add: protocol_inject decimal_inject)
  then show ?thesis by (simp add: hex_value_pad hex_value_hexadecimal)
qed

definition keyed_services :: "(string \<times> service_entry) list \<Rightarrow> bool" where
  "keyed_services svc \<longleftrightarrow> (\<forall>(k, s) \<in> set svc. k = serviceKey s)"

lemma keyed_set:
  assumes "keyed_services svc"
  shows "keyed_services (obj_set (serviceKey s) s svc)"
    "set (map snd (obj_set (serviceKey s) s svc)) = insert s (set (map snd svc))"
proof -
  show "keyed_services (obj_set (serviceKey s) s svc)"
    using assms by (auto simp: keyed_services_def obj_set_def split: if_splits)
  show "set (map snd (obj_set (serviceKey s) s svc)) = insert s (set (map snd svc))"
  proof (cases "serviceKey s \<in> fst ` set svc")
    case True
    then obtain s' where "(serviceKey s, s') \<in> set svc" by auto
    moreover have "x = s" if "(serviceKey s, x) \<in> set svc" for x
      using that assms serviceKey_inject by (fastforce simp: keyed_services_def)
    ultimately have "(serviceKey s, s) \<in> set svc" "\<forall>x \<in> set svc. fst x = serviceKey s \<longrightarrow> snd x = s"
      by auto
    then have "s \<in> snd ` set svc" "obj_set (serviceKey s) s svc = svc"
      using True by (force, auto simp: obj_set_def intro!: map_idI)
    then show ?thesis by auto
  qed (simp add: obj_set_def)
qed

definition entry_networks :: "egress_allow_entry list \<Rightarrow> string list" where
  "entry_networks entries = map allow_network (filter (\<lambda>e. allow_protocol e = None) entries)"

lemma collect_allow_spec:
  assumes "collect_allow entries net svc = Some (net', svc')" "keyed_services svc" "list_all wf_iv net"
  shows "covered net' = covered net \<union> networks_addrs (entry_networks entries) \<and> list_all wf_iv net' \<and>
    set (map snd svc') = set (map snd svc) \<union>
      {service_of e i pr | e i pr. e \<in> set entries \<and> allow_protocol e = Some pr \<and>
         cidrTextInterval (allow_network e) = Some i}"
  using assms
proof (induction entries arbitrary: net svc)
  case Nil
  then show ?case by (simp add: entry_networks_def networks_addrs_def)
next
  case (Cons e es)
  obtain i where i: "cidrTextInterval (allow_network e) = Some i"
    using Cons.prems(1) by (auto split: option.splits)
  show ?case
  proof (cases "allow_protocol e")
    case None
    with Cons.prems i have "collect_allow es (net @ [i]) svc = Some (net', svc')" by simp
    from Cons.IH [OF this Cons.prems(2)] Cons.prems(3) None i text_wf [OF i] show ?thesis
      by (auto simp: entry_networks_def networks_addrs_def text_addrs_def)
  next
    case (Some pr)
    let ?s = "service_of e i pr"
    from Cons.prems i Some have "collect_allow es net (obj_set (serviceKey ?s) ?s svc) = Some (net', svc')"
      by (simp add: Let_def)
    from Cons.IH [OF this keyed_set(1) [OF Cons.prems(2)] Cons.prems(3)]
    have "covered net' = covered net \<union> networks_addrs (entry_networks es) \<and> list_all wf_iv net' \<and>
      set (map snd svc') = insert ?s (set (map snd svc)) \<union>
      {service_of e i pr | e i pr. e \<in> set es \<and> allow_protocol e = Some pr \<and>
         cidrTextInterval (allow_network e) = Some i}"
      using keyed_set(2) [OF Cons.prems(2)] by simp
    with Some i show ?thesis by (auto simp: entry_networks_def)
  qed
qed

lemma text_below: "cidrTextInterval t = Some i \<Longrightarrow> iv_end i < 2 ^ 32"
proof -
  assume "cidrTextInterval t = Some i"
  then obtain c where c: "parseIpv4Cidr t = Some c" "i = cidrInterval c"
    by (auto simp: cidrTextInterval_def)
  have "cidr_address c + prefixSize (cidr_prefix c) \<le> 2 ^ 32"
    by (rule cidr_below_2_32 [OF parseIpv4Cidr_wf [OF c(1)]])
  moreover have "0 < cidr_address c + prefixSize (cidr_prefix c)"
    using prefixSize_pos [of "cidr_prefix c"] by linarith
  ultimately show ?thesis using c(2) by (simp add: cidrInterval_def)
qed

lemma below_iff: "list_all wf_iv is \<Longrightarrow> below_2_32 is \<longleftrightarrow> (\<forall>a \<in> covered is. a < 2 ^ 32)"
  by (fastforce simp: below_2_32_def covered_def addrs_def wf_iv_def list_all_iff)

lemma networks_below: "a \<in> networks_addrs ts \<Longrightarrow> a < 2 ^ 32"
proof -
  assume "a \<in> networks_addrs ts"
  then obtain t i where "cidrTextInterval t = Some i" "a \<in> addrs i"
    by (auto simp: networks_addrs_def text_addrs_def split: option.splits)
  then show ?thesis using text_below [of t i] by (simp add: addrs_def)
qed

text \<open>Merged intervals of texts: what the sets of the table hold.\<close>

definition holds_networks :: "ipv4_interval list \<Rightarrow> nat set \<Rightarrow> bool" where
  "holds_networks is A \<longleftrightarrow> covered is = A \<and> separated is \<and> below_2_32 is"

lemma merged_networks:
  assumes "covered is = networks_addrs ts" "list_all wf_iv is"
  shows "holds_networks (mergeIntervals is) (networks_addrs ts)"
proof -
  have "separated (mergeIntervals is)" by (rule merge_separated [OF assms(2)])
  moreover have "covered (mergeIntervals is) = networks_addrs ts"
    using merge_covered [OF assms(2)] assms(1) by simp
  moreover have "below_2_32 (mergeIntervals is)"
    using calculation networks_below by (subst below_iff) (auto simp: separated_def)
  ultimately show ?thesis by (simp add: holds_networks_def)
qed

lemma text_networks:
  assumes "text_intervals ts = Some is"
  shows "holds_networks (mergeIntervals is) (networks_addrs ts)"
  using text_intervals_covered [OF assms] by (intro merged_networks) (simp_all add: networks_addrs_def)

lemma effective_parts:
  assumes "effectiveEgressRules collate policy localProtected relayPort = Some rules"
  obtains allowNet svc prot deny where
    "collect_allow (policy_allow policy) [] [] = Some (allowNet, svc)"
    "text_intervals (policy_protected policy @ localProtected) = Some prot"
    "text_intervals (policy_deny policy) = Some deny"
    "rules = \<lparr>ef_protected = mergeIntervals prot, ef_allow_net = mergeIntervals allowNet,
       ef_allow_service = js_sort (\<lambda>l r. collate (serviceKey l) (serviceKey r)) (map snd svc),
       ef_deny_extra = mergeIntervals deny, ef_relay_port = relayPort\<rparr>"
  using assms
  by (auto simp: effectiveEgressRules_def policy_allow_def policy_deny_def policy_protected_def
      split: option.splits)

lemma effective_rules_hold:
  assumes "effectiveEgressRules collate policy localProtected relayPort = Some rules"
  shows "holds_networks (ef_protected rules) (networks_addrs (policy_protected policy @ localProtected))"
    "holds_networks (ef_deny_extra rules) (networks_addrs (policy_deny policy))"
    "holds_networks (ef_allow_net rules) (networks_addrs (entry_networks (policy_allow policy)))"
    "ef_relay_port rules = relayPort"
proof -
  obtain allowNet svc prot deny where parts:
    "collect_allow (policy_allow policy) [] [] = Some (allowNet, svc)"
    "text_intervals (policy_protected policy @ localProtected) = Some prot"
    "text_intervals (policy_deny policy) = Some deny"
    "rules = \<lparr>ef_protected = mergeIntervals prot, ef_allow_net = mergeIntervals allowNet,
       ef_allow_service = js_sort (\<lambda>l r. collate (serviceKey l) (serviceKey r)) (map snd svc),
       ef_deny_extra = mergeIntervals deny, ef_relay_port = relayPort\<rparr>"
    using effective_parts [OF assms] by blast
  show "holds_networks (ef_protected rules) (networks_addrs (policy_protected policy @ localProtected))"
    using text_networks [OF parts(2)] parts(4) by simp
  show "holds_networks (ef_deny_extra rules) (networks_addrs (policy_deny policy))"
    using text_networks [OF parts(3)] parts(4) by simp
  have "covered allowNet = networks_addrs (entry_networks (policy_allow policy))" "list_all wf_iv allowNet"
    using collect_allow_spec [OF parts(1)] by (simp_all add: keyed_services_def)
  then show "holds_networks (ef_allow_net rules) (networks_addrs (entry_networks (policy_allow policy)))"
    using merged_networks parts(4) by simp
  show "ef_relay_port rules = relayPort" using parts(4) by simp
qed

lemma effective_services:
  assumes "effectiveEgressRules collate policy localProtected relayPort = Some rules"
  shows "\<forall>s \<in> set (ef_allow_service rules). iv_end (sv_network s) < 2 ^ 32"
    "list_ex (\<lambda>s. service_opens s p) (ef_allow_service rules) \<longleftrightarrow>
     (\<exists>e \<in> set (policy_allow policy). allow_protocol e \<noteq> None \<and> entry_opens e p)"
proof -
  obtain allowNet svc prot deny where parts:
    "collect_allow (policy_allow policy) [] [] = Some (allowNet, svc)"
    "text_intervals (policy_protected policy @ localProtected) = Some prot"
    "text_intervals (policy_deny policy) = Some deny"
    "rules = \<lparr>ef_protected = mergeIntervals prot, ef_allow_net = mergeIntervals allowNet,
       ef_allow_service = js_sort (\<lambda>l r. collate (serviceKey l) (serviceKey r)) (map snd svc),
       ef_deny_extra = mergeIntervals deny, ef_relay_port = relayPort\<rparr>"
    using effective_parts [OF assms] by blast
  have services: "set (ef_allow_service rules) =
      {service_of e i pr | e i pr. e \<in> set (policy_allow policy) \<and> allow_protocol e = Some pr \<and>
         cidrTextInterval (allow_network e) = Some i}"
    using collect_allow_spec [OF parts(1)] parts(4) by (simp add: keyed_services_def)
  then show "\<forall>s \<in> set (ef_allow_service rules). iv_end (sv_network s) < 2 ^ 32"
    using text_below by (auto simp: service_of_def)
  have "service_opens (service_of e i pr) p \<longleftrightarrow> entry_opens e p"
    if "allow_protocol e = Some pr" "cidrTextInterval (allow_network e) = Some i" for e i pr
    using that by (auto simp: service_opens_def service_of_def entry_opens_def text_addrs_def)
  then show "list_ex (\<lambda>s. service_opens s p) (ef_allow_service rules) \<longleftrightarrow>
     (\<exists>e \<in> set (policy_allow policy). allow_protocol e \<noteq> None \<and> entry_opens e p)"
    unfolding list_ex_iff services
    by (fastforce simp: entry_opens_def text_addrs_def split: option.splits)
qed

lemma entry_networks_open:
  "pk_daddr p \<in> networks_addrs (entry_networks entries) \<longleftrightarrow>
   (\<exists>e \<in> set entries. allow_protocol e = None \<and> entry_opens e p)"
  by (auto simp: entry_networks_def networks_addrs_def entry_opens_def)

section \<open>Verdicts\<close>

lemma statement_kinds [simp]:
  "has_field ''match'' (match op l r)" "\<not> has_field ''match'' accept" "\<not> has_field ''match'' drop_packet"
  "\<not> has_field ''match'' return_packet" "has_field ''accept'' accept" "has_field ''return'' return_packet"
  "has_field ''drop'' drop_packet" "\<not> has_field ''accept'' drop_packet" "\<not> has_field ''return'' drop_packet"
  by (simp_all add: has_field_def match_def accept_def drop_packet_def return_packet_def)

lemmas rendered_matches = not_workspace_def is_reply_def is_ipv6_def to_host_def to_host_or_group_def
  to_port_def in_set_def is_service_def

lemma match_fields [simp]:
  "has_field ''match'' not_workspace" "has_field ''match'' is_reply" "has_field ''match'' is_ipv6"
  "has_field ''match'' to_host" "has_field ''match'' to_host_or_group" "has_field ''match'' (to_port n)"
  "has_field ''match'' (in_set name)" "has_field ''match'' is_service"
  by (simp_all add: rendered_matches)

lemma match_reflexive:
  "deepEqual not_workspace not_workspace" "deepEqual is_reply is_reply" "deepEqual is_ipv6 is_ipv6"
  "deepEqual to_host to_host" "deepEqual to_host_or_group to_host_or_group"
  "deepEqual (to_port n) (to_port n)" "deepEqual (in_set name) (in_set name)" "deepEqual is_service is_service"
  by (simp_all add: rendered_matches match_def meta_key_def hostAddress_def tcpDport_def daddr_def)

lemma match_proper:
  "proper not_workspace" "proper is_reply" "proper is_ipv6" "proper to_host" "proper to_host_or_group"
  "proper (to_port n)" "proper (in_set name)" "proper is_service"
  by (simp_all add: rendered_matches match_def meta_key_def hostAddress_def tcpDport_def daddr_def)

lemma nft_reads_matches:
  assumes "nft_reads elements p holds"
  shows "holds not_workspace = (\<not> pk_workspace p)" "holds is_reply = pk_reply p" "holds is_ipv6 = pk_ipv6 p"
    "holds to_host = (pk_type p = ''local'')"
    "holds to_host_or_group = (pk_type p \<in> {''local'', ''broadcast'', ''multicast''})"
    "holds (to_port n) = (pk_protocol p = Some Tcp \<and> pk_dport p = n)"
    "name \<in> set SINGLE_SETS \<Longrightarrow>
       holds (in_set name) = (\<not> pk_ipv6 p \<and> (\<exists>e \<in> set (elements name). element_has e (pk_daddr p)))"
    "holds is_service = (\<not> pk_ipv6 p \<and> (\<exists>e \<in> set (elements SERVICE_SET). service_element_has e p))"
  using assms match_reflexive match_proper unfolding nft_reads_def by blast+

definition set_contents :: "(string \<Rightarrow> json list) \<Rightarrow> effective_rules \<Rightarrow> bool" where
  "set_contents elements rules \<longleftrightarrow>
     (\<forall>name \<in> set SINGLE_SETS. \<forall>a.
        (\<exists>e \<in> set (elements name). element_has e a) \<longleftrightarrow> a \<in> covered (singleSetElements rules name)) \<and>
     (\<forall>p. (\<exists>e \<in> set (elements SERVICE_SET). service_element_has e p) \<longleftrightarrow>
        list_ex (\<lambda>s. service_opens s p) (ef_allow_service rules))"

lemma default_deny_holds:
  "holds_networks (singleSetElements rules ''deny_default_v4'') (networks_addrs EGRESS_DEFAULT_DENY_V4)"
proof -
  obtain ivs where "text_intervals EGRESS_DEFAULT_DENY_V4 = Some ivs"
    using default_deny_parses text_intervals_None [of EGRESS_DEFAULT_DENY_V4] by blast
  then show ?thesis using text_networks by (simp add: singleSetElements_def)
qed

lemma single_sets_hold:
  assumes "effectiveEgressRules collate policy localProtected relayPort = Some rules"
  shows "holds_networks (singleSetElements rules ''protected_v4'')
      (networks_addrs (policy_protected policy @ localProtected))"
    "holds_networks (singleSetElements rules ''deny_extra_v4'') (networks_addrs (policy_deny policy))"
    "holds_networks (singleSetElements rules ''allow_net_v4'')
      (networks_addrs (entry_networks (policy_allow policy)))"
  using effective_rules_hold [OF assms] by (simp_all add: singleSetElements_def)

lemma forward_verdict:
  assumes "effectiveEgressRules collate policy localProtected relayPort = Some rules"
    "set_contents elements rules" "nft_reads elements p holds"
  shows "run_chain holds (ch_rules forward_chain) = forward_policy policy localProtected p"
proof -
  note reads = nft_reads_matches [OF assms(3)]
  define net where "net \<longleftrightarrow> (\<exists>e \<in> set (policy_allow policy). allow_protocol e = None \<and> entry_opens e p)"
  define svc where "svc \<longleftrightarrow> (\<exists>e \<in> set (policy_allow policy). allow_protocol e \<noteq> None \<and> entry_opens e p)"
  have sets: "name \<in> set SINGLE_SETS \<Longrightarrow>
      holds (in_set name) = (\<not> pk_ipv6 p \<and> pk_daddr p \<in> covered (singleSetElements rules name))" for name
    using reads(7) assms(2) by (simp add: set_contents_def)
  have "holds (in_set ''protected_v4'') =
      (\<not> pk_ipv6 p \<and> pk_daddr p \<in> networks_addrs (policy_protected policy @ localProtected))"
    "holds (in_set ''deny_extra_v4'') = (\<not> pk_ipv6 p \<and> pk_daddr p \<in> networks_addrs (policy_deny policy))"
    "holds (in_set ''deny_default_v4'') =
      (\<not> pk_ipv6 p \<and> pk_daddr p \<in> networks_addrs EGRESS_DEFAULT_DENY_V4)"
    "holds (in_set ''allow_net_v4'') = (\<not> pk_ipv6 p \<and> net)"
    using sets single_sets_hold [OF assms(1)] default_deny_holds [of rules]
    by (simp_all add: holds_networks_def SINGLE_SETS_def entry_networks_open net_def)
  moreover have "holds is_service = (\<not> pk_ipv6 p \<and> svc)"
    using reads(8) assms(2) effective_services(2) [OF assms(1)] by (simp add: set_contents_def svc_def)
  moreover have "list_ex (\<lambda>e. entry_opens e p) (policy_allow policy) \<longleftrightarrow> svc \<or> net"
    unfolding list_ex_iff svc_def net_def by blast
  moreover have "networks_addrs (EGRESS_DEFAULT_DENY_V4 @ policy_deny policy) =
      networks_addrs EGRESS_DEFAULT_DENY_V4 \<union> networks_addrs (policy_deny policy)"
    by (simp add: networks_addrs_def)
  ultimately show ?thesis
    using reads(1-3)
    by (simp add: forward_chain_def workspaceTrafficOnly_def repliesPass_def ipv6Dropped_def
        forward_policy_def)
qed

lemma prerouting_verdict:
  assumes "nft_reads elements p holds"
  shows "run_chain holds (ch_rules (prerouting_chain relayPort)) = host_policy relayPort p"
  using nft_reads_matches [OF assms]
  by (cases relayPort) (auto simp: prerouting_chain_def relayException_def workspaceTrafficOnly_def
      repliesPass_def ipv6Dropped_def host_policy_def)

lemma input_verdict:
  assumes "nft_reads elements p holds"
  shows "run_chain holds (ch_rules (relay_chain port)) = input_policy port p"
  using nft_reads_matches [OF assms] by (simp add: relay_chain_def input_policy_def)

text \<open>The sets as rendered, and the sets of a listing that was accepted.\<close>

definition rendered_elements :: "effective_rules \<Rightarrow> string \<Rightarrow> json list" where
  "rendered_elements rules name =
     (if name = SERVICE_SET then serviceElements (ef_allow_service rules)
      else prefixElements (singleSetElements rules name))"

lemma all_single_sets_hold:
  assumes "effectiveEgressRules collate policy localProtected relayPort = Some rules"
    "name \<in> set SINGLE_SETS"
  shows "separated (singleSetElements rules name)" "below_2_32 (singleSetElements rules name)"
  using single_sets_hold [OF assms(1)] default_deny_holds [of rules] assms(2)
  by (auto simp: SINGLE_SETS_def holds_networks_def)

lemma rendered_contents:
  assumes "effectiveEgressRules collate policy localProtected relayPort = Some rules"
  shows "set_contents (rendered_elements rules) rules"
  unfolding set_contents_def
proof (intro conjI ballI allI)
  fix name a assume name: "name \<in> set SINGLE_SETS"
  then have "rendered_elements rules name = prefixElements (singleSetElements rules name)"
    by (auto simp: rendered_elements_def SINGLE_SETS_def SERVICE_SET_def)
  then show "(\<exists>e \<in> set (rendered_elements rules name). element_has e a) \<longleftrightarrow>
      a \<in> covered (singleSetElements rules name)"
    using canonicalSingle_has canonicalSingle_rendered all_single_sets_hold [OF assms name] by simp
next
  fix p
  show "(\<exists>e \<in> set (rendered_elements rules SERVICE_SET). service_element_has e p) \<longleftrightarrow>
      list_ex (\<lambda>s. service_opens s p) (ef_allow_service rules)"
    using services_open [OF effective_services(1) [OF assms]] by (simp add: rendered_elements_def)
qed

section \<open>Accepted listings\<close>

lemma deepEqual_single:
  assumes "deepEqual j (JObj [(k, v)])"
  shows "\<exists>w. j = JObj [(k, w)]"
proof -
  obtain kvs where j: "j = JObj kvs" "length kvs = 1" "deepEqual_keys kvs [(k, v)]"
    using assms by (cases j) (auto split: json.splits)
  then obtain k' w where "kvs = [(k', w)]" by (cases kvs) auto
  with j show ?thesis by (auto split: if_splits)
qed

definition single_key :: "json \<Rightarrow> bool" where
  "single_key j \<longleftrightarrow> (\<exists>k v. j = JObj [(k, v)])"

lemma deepEqual_has_field: "deepEqual j m \<Longrightarrow> single_key m \<Longrightarrow> has_field name j = has_field name m"
  using deepEqual_single by (fastforce simp: single_key_def has_field_def)

lemma run_rule_equal:
  assumes "deepEqual_all ss es" "\<forall>m \<in> set es. single_key m"
    "\<forall>m \<in> set es. has_field ''match'' m \<longrightarrow> (\<forall>j. proper j \<and> deepEqual j m \<longrightarrow> holds j = holds m)"
    "proper_all ss"
  shows "run_rule holds ss = run_rule holds es"
  using assms
proof (induction ss arbitrary: es)
  case Nil
  then show ?case by simp
next
  case (Cons s ss)
  then obtain e es' where es: "es = e # es'" "deepEqual s e" "deepEqual_all ss es'"
    by (cases es) auto
  have "run_rule holds ss = run_rule holds es'" using Cons es by simp
  moreover have "has_field name s = has_field name e" for name
    using deepEqual_has_field [OF es(2)] Cons.prems(2) es(1) by simp
  moreover have "has_field ''match'' e \<Longrightarrow> holds s = holds e" using Cons.prems(3,4) es by simp
  ultimately show ?case by (simp add: es(1))
qed

lemma run_chain_equal:
  assumes "deepEqual_all js (map JArr rs)" "\<forall>r \<in> set rs. \<forall>m \<in> set r. single_key m"
    "\<forall>r \<in> set rs. \<forall>m \<in> set r. has_field ''match'' m \<longrightarrow>
       (\<forall>j. proper j \<and> deepEqual j m \<longrightarrow> holds j = holds m)"
    "proper_all js"
  shows "run_chain holds (map statements js) = run_chain holds rs"
  using assms
proof (induction js arbitrary: rs)
  case Nil
  then show ?case by simp
next
  case (Cons j js)
  then obtain r rs' where rs: "rs = r # rs'" "deepEqual j (JArr r)" "deepEqual_all js (map JArr rs')"
    by (cases rs) auto
  obtain ss where j: "j = JArr ss" "deepEqual_all ss r"
    using rs(2) by (cases j) (auto split: json.splits)
  have "run_rule holds ss = run_rule holds r"
    using Cons.prems(2-4) rs(1) j(1) by (intro run_rule_equal [OF j(2)]) auto
  moreover have "run_chain holds (map statements js) = run_chain holds rs'"
    using Cons.prems(2-4) rs(1) by (intro Cons.IH [OF rs(3)]) auto
  moreover have "statements j = ss" by (simp add: statements_def j(1))
  ultimately show ?case by (simp add: rs(1) split: option.split)
qed

lemma rendered_single_keys:
  assumes "c \<in> set (egressChains relayPort)" "r \<in> set (ch_rules c)" "m \<in> set r"
  shows "single_key m"
  using assms
  by (auto simp: egressChains_def prerouting_chain_def forward_chain_def relay_chain_def
      relayException_def workspaceTrafficOnly_def repliesPass_def ipv6Dropped_def single_key_def
      rendered_matches match_def accept_def drop_packet_def return_packet_def split: option.splits)

lemma reads_congruent:
  assumes "nft_reads elements p holds" "c \<in> set (egressChains relayPort)" "r \<in> set (ch_rules c)" "m \<in> set r"
    "has_field ''match'' m" "deepEqual j m" "proper j"
  shows "holds j = holds m"
proof -
  have "m \<in> {not_workspace, is_reply, is_ipv6, to_host, to_host_or_group, is_service} \<union>
      range to_port \<union> in_set ` set SINGLE_SETS"
    using assms(2-5)
    by (auto simp: egressChains_def prerouting_chain_def forward_chain_def relay_chain_def
        relayException_def workspaceTrafficOnly_def repliesPass_def ipv6Dropped_def SINGLE_SETS_def
        split: option.splits)
  moreover have "deepEqual m m" "proper m" using calculation match_reflexive match_proper by auto
  ultimately show ?thesis
    using assms(1,6,7) unfolding nft_reads_def by (elim UnE insertE) (auto 0 3)
qed

definition listed_elements :: "listing_state \<Rightarrow> string \<Rightarrow> json list" where
  "listed_elements s name = (case map_of (ls_sets s) name of None \<Rightarrow> [] | Some v \<Rightarrow> elementList v)"

definition listed_chain :: "listing_state \<Rightarrow> string \<Rightarrow> json list list" where
  "listed_chain s name = map statements (rules_of name s)"

lemma check_chains_match: "check_chains s cs = None \<Longrightarrow> c \<in> set cs \<Longrightarrow> chain_matches s c \<and> rules_match s c"
  by (induction cs) (auto split: if_splits)

lemma check_singles_match:
  "check_singles s rules names = None \<Longrightarrow> name \<in> set names \<Longrightarrow>
   canonicalSingle (listed_elements s name) = Some (singleSetElements rules name)"
  by (induction names) (auto simp: listed_elements_def split: option.splits if_splits)

lemma accepted_contents:
  assumes "effectiveEgressRules collate policy localProtected relayPort = Some rules"
    "check_singles s rules SINGLE_SETS = None" "check_services s rules = None"
  shows "set_contents (listed_elements s) rules"
  unfolding set_contents_def
proof (intro conjI ballI allI)
  fix name a assume "name \<in> set SINGLE_SETS"
  then show "(\<exists>e \<in> set (listed_elements s name). element_has e a) \<longleftrightarrow>
      a \<in> covered (singleSetElements rules name)"
    by (intro canonicalSingle_has check_singles_match [OF assms(2)])
next
  fix p
  note below = effective_services(1) [OF assms(1)]
  have "canonicalServices (listed_elements s SERVICE_SET) =
      canonicalServices (serviceElements (ef_allow_service rules))"
    using assms(3) by (auto simp: check_services_def listed_elements_def split: option.splits if_splits)
  from canonicalServices_same [OF this services_canonical [OF below]]
  show "(\<exists>e \<in> set (listed_elements s SERVICE_SET). service_element_has e p) \<longleftrightarrow>
      list_ex (\<lambda>s. service_opens s p) (ef_allow_service rules)"
    using services_open [OF below] by simp
qed

lemma accepted_listing:
  assumes "verifyEgressListing listing rules = None"
  shows "\<exists>entries s. field ''nftables'' listing = JArr entries \<and> read_listing entries empty_listing = Inr s \<and>
    check_listing s rules = None"
  using assms by (auto simp: verifyEgressListing_def split: json.splits bool.splits sum.splits)

lemma obj_set_subset: "set (obj_set n v obj) \<subseteq> insert (n, v) (set obj)"
  by (auto simp: obj_set_def split: if_splits)

lemma read_object_proper:
  assumes "read_object kind value s = Inr s'" "proper value" "\<forall>(n, es) \<in> set (ls_rules s). proper_all es"
  shows "\<forall>(n, es) \<in> set (ls_rules s'). proper_all es"
proof -
  have "proper_all (rules_of n s)" for n
    using assms(3) by (auto simp: rules_of_def dest: map_of_SomeD split: option.split)
  then have "proper_all (rules_of n s @ [field ''expr'' value])" for n
    using proper_field [OF assms(2)] by (simp add: proper_all_iff)
  moreover have "ls_rules s' = ls_rules s \<or>
      (\<exists>n. ls_rules s' = obj_set n (rules_of n s @ [field ''expr'' value]) (ls_rules s))"
    using assms(1) by (auto simp: read_object_def Let_def split: if_splits option.splits)
  ultimately show ?thesis using assms(3) by (auto dest!: subsetD [OF obj_set_subset])
qed

lemma read_listing_proper:
  "read_listing entries s = Inr s' \<Longrightarrow> proper_all entries \<Longrightarrow> \<forall>(n, es) \<in> set (ls_rules s). proper_all es \<Longrightarrow>
   \<forall>(n, es) \<in> set (ls_rules s'). proper_all es"
proof (induction entries arbitrary: s)
  case (Cons entry entries)
  obtain kvs where entry: "entry = JObj kvs" using Cons.prems(1) by (cases entry) simp_all
  show ?case
  proof (cases "''metainfo'' \<in> fst ` set kvs")
    case True
    with Cons entry show ?thesis by simp
  next
    case False
    with Cons.prems(1) entry obtain kind v rest s1 where kv: "kvs = (kind, v) # rest"
        "read_object kind v s = Inr s1" "read_listing entries s1 = Inr s'"
      by (auto split: list.splits sum.splits)
    with Cons.prems(2,3) entry have "\<forall>(n, es) \<in> set (ls_rules s1). proper_all es"
      by (intro read_object_proper [OF kv(2)]) auto
    with Cons.IH [OF kv(3)] Cons.prems(2) show ?thesis by simp
  qed
qed simp

lemma accepted_chain:
  assumes "check_listing s rules = None" "c \<in> set (egressChains (ef_relay_port rules))"
    "nft_reads elements p holds" "\<forall>(n, es) \<in> set (ls_rules s). proper_all es"
  shows "run_chain holds (listed_chain s (ch_name c)) = run_chain holds (ch_rules c)"
proof -
  have "check_chains s (egressChains (ef_relay_port rules)) = None"
    using assms(1) by (simp add: check_listing_def split: if_splits option.splits)
  then have "deepEqual_all (rules_of (ch_name c) s) (map JArr (ch_rules c))"
    using check_chains_match assms(2) by (auto simp: rules_match_def)
  moreover have proper: "proper_all (rules_of (ch_name c) s)"
    using assms(4) by (auto simp: rules_of_def dest: map_of_SomeD split: option.split)
  ultimately show ?thesis
    unfolding listed_chain_def
    using rendered_single_keys [OF assms(2)] reads_congruent [OF assms(3,2)] proper
    by (intro run_chain_equal) blast+
qed

end
