(* ===== verification/EgressTable.thy ===== *)
theory EgressTable
  imports PacketFilter
begin

text \<open>
  The egress table end to end: what the Worker renders it also verifies once nft lists it, and any
  listing it verifies makes the packet decisions of the policy.
\<close>

section \<open>The rendered table, listed\<close>

lemma listed_add:
  "kind \<noteq> ''table'' \<Longrightarrow>
   listed_objects (add kind v # cs) os = listed_objects cs (os @ [JObj [(kind, v)]])"
  by (simp add: add_def)

lemma listed_adds:
  "kind \<noteq> ''table'' \<Longrightarrow>
   listed_objects (map (\<lambda>x. add kind (f x)) xs @ cs) os =
   listed_objects cs (os @ map (\<lambda>x. JObj [(kind, f x)]) xs)"
  by (induction xs arbitrary: os) (simp_all add: add_def)

definition chain_objects :: "chain_spec \<Rightarrow> json list" where
  "chain_objects c =
     JObj [(''chain'', chain_object c)] # map (\<lambda>e. JObj [(''rule'', rule_object c e)]) (ch_rules c)"

lemma listed_chain_commands:
  "listed_objects (concat (map chain_commands specs)) os = os @ concat (map chain_objects specs)"
  by (induction specs arbitrary: os)
    (simp_all add: chain_commands_def chain_objects_def listed_add listed_adds del: listed_objects.simps(2))

definition rendered_objects :: "effective_rules \<Rightarrow> json list" where
  "rendered_objects rules =
     JObj [(''table'', table_object)] #
     map (\<lambda>name. JObj [(''set'', single_set rules name)]) SINGLE_SETS @
     JObj [(''set'', service_set rules)] #
     concat (map chain_objects (egressChains (ef_relay_port rules)))"

lemma listed_transaction:
  "field ''nftables'' (listingFromTransaction (renderEgressTransaction rules)) =
   JArr (JObj [(''metainfo'', JObj [(''json_schema_version'', JNum 1)])] # rendered_objects rules)"
proof -
  have start: "listed_objects ([add ''table'' table_object, JObj [(''delete'', JObj [(''table'', table_object)])],
      add ''table'' table_object] @ cs) [] = listed_objects cs [JObj [(''table'', table_object)]]" for cs
    by (simp add: add_def)
  have "listed_objects ([add ''table'' table_object, JObj [(''delete'', JObj [(''table'', table_object)])],
      add ''table'' table_object] @
      map (\<lambda>name. add ''set'' (single_set rules name)) SINGLE_SETS @ [add ''set'' (service_set rules)] @
      concat (map chain_commands (egressChains (ef_relay_port rules)))) [] = rendered_objects rules"
    unfolding start
    by (simp add: listed_adds listed_add listed_chain_commands rendered_objects_def
        del: listed_objects.simps(2))
  then show ?thesis
    by (simp add: listingFromTransaction_def renderEgressTransaction_def field_def del: append.simps)
qed

lemma obj_set_twice: "obj_set n a (obj_set n b obj) = obj_set n a obj"
proof (cases "n \<in> fst ` set obj")
  case True
  then have "n \<in> fst ` set (map (\<lambda>(k, x). if k = n then (k, b) else (k, x)) obj)" by force
  with True show ?thesis by (auto simp: obj_set_def comp_def case_prod_beta)
next
  case False
  then have "map (\<lambda>(k, x). if k = n then (k, a) else (k, x)) obj = obj" by (force intro: map_idI)
  with False show ?thesis by (simp add: obj_set_def)
qed

lemma rules_of_set: "rules_of n (s\<lparr>ls_rules := obj_set m es (ls_rules s)\<rparr>) = (if n = m then es else rules_of n s)"
  by (simp add: rules_of_def)

lemma read_rules:
  "es \<noteq> [] \<Longrightarrow>
   read_listing (map (\<lambda>e. JObj [(''rule'', rule_object c e)]) es @ rest) s =
   read_listing rest (s\<lparr>ls_rules := obj_set (ch_name c) (rules_of (ch_name c) s @ map JArr es) (ls_rules s)\<rparr>)"
proof (induction es arbitrary: s)
  case Nil
  then show ?case by simp
next
  case (Cons e es)
  have one: "read_object ''rule'' (rule_object c e) s =
      Inr (s\<lparr>ls_rules := obj_set (ch_name c) (rules_of (ch_name c) s @ [JArr e]) (ls_rules s)\<rparr>)"
    by (simp add: read_object_def rule_object_def in_table_def isRecord_def object_in_table_def field_def
        text_field_def Let_def)
  show ?case
  proof (cases "es = []")
    case True
    with one show ?thesis by simp
  next
    case False
    with one Cons.IH show ?thesis by (simp add: rules_of_set obj_set_twice)
  qed
qed

lemma read_chain:
  "read_object ''chain'' (chain_object c) s = Inr (s\<lparr>ls_chains := obj_set (ch_name c) (chain_object c) (ls_chains s)\<rparr>)"
  by (simp add: read_object_def chain_object_def in_table_def isRecord_def object_in_table_def field_def
      text_field_def Let_def)

lemma read_sets:
  "read_object ''set'' (single_set rules name) s =
     Inr (s\<lparr>ls_sets := obj_set name (single_set rules name) (ls_sets s)\<rparr>)"
  "read_object ''set'' (service_set rules) s =
     Inr (s\<lparr>ls_sets := obj_set SERVICE_SET (service_set rules) (ls_sets s)\<rparr>)"
  "read_object ''table'' table_object s = Inr (s\<lparr>ls_tables := ls_tables s + 1\<rparr>)"
  by (simp_all add: read_object_def single_set_def service_set_def table_object_def in_table_def
      isRecord_def object_in_table_def field_def text_field_def Let_def)

lemma read_chain_objects:
  assumes "ch_rules c \<noteq> []"
  shows "read_listing (chain_objects c @ rest) s =
    read_listing rest (s\<lparr>ls_chains := obj_set (ch_name c) (chain_object c) (ls_chains s),
      ls_rules := obj_set (ch_name c) (rules_of (ch_name c) s @ map JArr (ch_rules c)) (ls_rules s)\<rparr>)"
  using read_rules [OF assms] by (simp add: chain_objects_def read_chain rules_of_def)

lemma chain_rules_nonempty: "c \<in> set (egressChains relayPort) \<Longrightarrow> ch_rules c \<noteq> []"
  by (auto simp: egressChains_def prerouting_chain_def forward_chain_def relay_chain_def split: option.splits)

lemma read_all_chains:
  assumes "\<forall>c \<in> set specs. ch_rules c \<noteq> []" "distinct (map ch_name specs)"
    "\<forall>c \<in> set specs. ch_name c \<notin> fst ` set (ls_chains s) \<and> ch_name c \<notin> fst ` set (ls_rules s)"
  shows "read_listing (concat (map chain_objects specs)) s =
    Inr (s\<lparr>ls_chains := ls_chains s @ map (\<lambda>c. (ch_name c, chain_object c)) specs,
           ls_rules := ls_rules s @ map (\<lambda>c. (ch_name c, map JArr (ch_rules c))) specs\<rparr>)"
  using assms
proof (induction specs arbitrary: s)
  case Nil
  then show ?case by simp
next
  case (Cons c specs)
  have "map_of (ls_rules s) (ch_name c) = None"
    using Cons.prems(3) by (simp add: map_of_eq_None_iff)
  then have "rules_of (ch_name c) s = []" by (simp add: rules_of_def)
  then have "read_listing (concat (map chain_objects (c # specs))) s =
      read_listing (concat (map chain_objects specs))
        (s\<lparr>ls_chains := ls_chains s @ [(ch_name c, chain_object c)],
           ls_rules := ls_rules s @ [(ch_name c, map JArr (ch_rules c))]\<rparr>)"
    using Cons.prems by (simp add: read_chain_objects obj_set_def)
  also have "\<dots> = Inr (s\<lparr>ls_chains := ls_chains s @ map (\<lambda>c. (ch_name c, chain_object c)) (c # specs),
      ls_rules := ls_rules s @ map (\<lambda>c. (ch_name c, map JArr (ch_rules c))) (c # specs)\<rparr>)"
    using Cons.prems by (subst Cons.IH) (auto simp: image_iff)
  finally show ?case .
qed

definition rendered_state :: "effective_rules \<Rightarrow> listing_state" where
  "rendered_state rules =
     \<lparr>ls_tables = 1,
      ls_chains = map (\<lambda>c. (ch_name c, chain_object c)) (egressChains (ef_relay_port rules)),
      ls_rules = map (\<lambda>c. (ch_name c, map JArr (ch_rules c))) (egressChains (ef_relay_port rules)),
      ls_sets = map (\<lambda>name. (name, single_set rules name)) SINGLE_SETS @ [(SERVICE_SET, service_set rules)]\<rparr>"

lemma chain_names: "distinct (map ch_name (egressChains relayPort))"
  by (simp add: egressChains_def prerouting_chain_def forward_chain_def relay_chain_def split: option.split)

lemma read_rendered: "read_listing (rendered_objects rules) empty_listing = Inr (rendered_state rules)"
proof -
  have "read_listing (JObj [(''table'', table_object)] #
     map (\<lambda>name. JObj [(''set'', single_set rules name)]) SINGLE_SETS @
     JObj [(''set'', service_set rules)] # rest) empty_listing =
     read_listing rest \<lparr>ls_tables = 1, ls_chains = [], ls_rules = [],
       ls_sets = map (\<lambda>name. (name, single_set rules name)) SINGLE_SETS @ [(SERVICE_SET, service_set rules)]\<rparr>" for rest
    by (simp add: SINGLE_SETS_def read_sets empty_listing_def obj_set_def SERVICE_SET_def)
  then show ?thesis
    using chain_rules_nonempty chain_names
    by (simp add: rendered_objects_def rendered_state_def read_all_chains)
qed

section \<open>It verifies\<close>

lemma deepEqual_all_refl: "\<forall>x \<in> set xs. deepEqual x x \<Longrightarrow> deepEqual_all xs xs"
  by (induction xs) auto

lemma rendered_rules_refl:
  assumes "c \<in> set (egressChains relayPort)"
  shows "deepEqual_all (map JArr (ch_rules c)) (map JArr (ch_rules c))"
proof -
  have "deepEqual m m" if "r \<in> set (ch_rules c)" "m \<in> set r" for r m
  proof -
    have "m \<in> {not_workspace, is_reply, is_ipv6, to_host, to_host_or_group, is_service, accept, drop_packet,
        return_packet} \<union> range to_port \<union> range in_set"
      using assms that
      by (auto simp: egressChains_def prerouting_chain_def forward_chain_def relay_chain_def
          relayException_def workspaceTrafficOnly_def repliesPass_def ipv6Dropped_def split: option.splits)
    then show ?thesis
      using match_reflexive by (auto simp: accept_def drop_packet_def return_packet_def)
  qed
  then have "\<forall>r \<in> set (ch_rules c). deepEqual (JArr r) (JArr r)"
    using deepEqual_all_refl by simp
  then show ?thesis by (intro deepEqual_all_refl) auto
qed

lemma check_chains_all: "\<forall>c \<in> set cs. chain_matches s c \<and> rules_match s c \<Longrightarrow> check_chains s cs = None"
  by (induction cs) auto

lemma map_of_chains: "distinct (map ch_name cs) \<Longrightarrow> c \<in> set cs \<Longrightarrow> map_of (map (\<lambda>c. (ch_name c, f c)) cs) (ch_name c) = Some (f c)"
proof (induction cs)
  case (Cons a cs)
  then show ?case by (cases "c = a") (auto simp: rev_image_eqI)
qed simp

lemma elements_of_sets:
  "elementList (single_set rules name) = prefixElements (singleSetElements rules name)"
  "elementList (service_set rules) = serviceElements (ef_allow_service rules)"
  by (auto simp: elementList_def single_set_def service_set_def in_table_def with_elements_def
      has_field_def field_def)

lemma set_fields:
  "field ''type'' (single_set rules name) = JStr ''ipv4_addr''"
  "field ''flags'' (single_set rules name) = JArr [JStr ''interval'']"
  "field ''type'' (service_set rules) = service_type"
  "field ''flags'' (service_set rules) = JArr [JStr ''interval'']"
  by (simp_all add: single_set_def service_set_def in_table_def field_def)

lemma check_singles_all:
  assumes "\<And>name. name \<in> set names \<Longrightarrow> map_of (ls_sets s) name = Some (single_set rules name) \<and>
    separated (singleSetElements rules name) \<and> below_2_32 (singleSetElements rules name)"
  shows "check_singles s rules names = None"
  using assms by (induction names) (auto simp: set_fields elements_of_sets canonicalSingle_rendered)

lemma rendered_verifies:
  assumes "effectiveEgressRules collate policy localProtected relayPort = Some rules"
  shows "check_listing (rendered_state rules) rules = None"
proof -
  let ?s = "rendered_state rules" and ?specs = "egressChains (ef_relay_port rules)"
  have "chain_matches ?s c \<and> rules_match ?s c" if "c \<in> set ?specs" for c
  proof
    have "map_of (ls_chains ?s) (ch_name c) = Some (chain_object c)"
      using map_of_chains [OF chain_names that] by (simp add: rendered_state_def)
    then show "chain_matches ?s c"
      by (simp add: chain_matches_def chain_object_def in_table_def field_def)
    have "rules_of (ch_name c) ?s = map JArr (ch_rules c)"
      by (simp add: rendered_state_def rules_of_def map_of_chains [OF chain_names that])
    then show "rules_match ?s c" using rendered_rules_refl [OF that] by (simp add: rules_match_def)
  qed
  then have specs: "check_chains ?s ?specs = None" by (intro check_chains_all) blast
  have sets: "check_singles ?s rules SINGLE_SETS = None"
  proof (rule check_singles_all)
    fix name assume name: "name \<in> set SINGLE_SETS"
    then have "map_of (ls_sets ?s) name = Some (single_set rules name)"
      by (auto simp: rendered_state_def SINGLE_SETS_def)
    then show "map_of (ls_sets ?s) name = Some (single_set rules name) \<and>
        separated (singleSetElements rules name) \<and> below_2_32 (singleSetElements rules name)"
      using all_single_sets_hold [OF assms name] by blast
  qed
  have "map_of (ls_sets ?s) SERVICE_SET = Some (service_set rules)"
    by (simp add: rendered_state_def SINGLE_SETS_def SERVICE_SET_def)
  then have "check_services ?s rules = None"
    by (simp add: check_services_def set_fields elements_of_sets service_type_def)
  moreover have "fst ` set (ls_chains ?s) = fst ` set (ls_rules ?s)"
    by (simp add: rendered_state_def image_image)
  ultimately show ?thesis
    using specs sets
    by (auto simp: check_listing_def rendered_state_def SINGLE_SETS_def list_ex_iff image_iff)
qed

lemma rendered_listing_accepted:
  assumes "effectiveEgressRules collate policy localProtected relayPort = Some rules"
  shows "verifyEgressListing (listingFromTransaction (renderEgressTransaction rules)) rules = None"
proof -
  have "isRecord (listingFromTransaction tx)" for tx
    by (simp add: isRecord_def listingFromTransaction_def)
  then show ?thesis
    using read_rendered [of rules] rendered_verifies [OF assms]
    by (simp add: verifyEgressListing_def listed_transaction)
qed

lemma valid_text: "Ipv4CidrSchema t \<Longrightarrow> cidrTextInterval t \<noteq> None"
  by (auto simp: Ipv4CidrSchema_def cidrTextInterval_def canonicalIpv4Cidr_def)

lemma valid_texts: "list_all Ipv4CidrSchema ts \<Longrightarrow> text_intervals ts \<noteq> None"
  using valid_text unfolding text_intervals_None list_all_iff by blast

lemma valid_collect:
  "list_all EgressAllowEntrySchema es \<Longrightarrow> collect_allow es net svc \<noteq> None"
proof (induction es arbitrary: net svc)
  case (Cons e es)
  then have "EgressAllowEntrySchema e" and es: "list_all EgressAllowEntrySchema es" by simp_all
  then have "cidrTextInterval (allow_network e) \<noteq> None"
    by (intro valid_text) (simp add: EgressAllowEntrySchema_def)
  with Cons.IH es show ?case by (auto simp: Let_def split: option.split)
qed simp

lemma effective_total:
  assumes "pred_option EgressPolicySchema policy" "list_all Ipv4CidrSchema localProtected"
  shows "effectiveEgressRules collate policy localProtected relayPort \<noteq> None"
proof -
  let ?allow = "case policy of None \<Rightarrow> [] | Some p \<Rightarrow> pol_allow p"
  let ?protected = "case policy of None \<Rightarrow> [] | Some p \<Rightarrow> pol_protected p"
  let ?deny = "case policy of None \<Rightarrow> [] | Some p \<Rightarrow> pol_deny_extra p"
  have "list_all EgressAllowEntrySchema ?allow" "list_all Ipv4CidrSchema (?protected @ localProtected)"
    "list_all Ipv4CidrSchema ?deny"
    using assms by (cases policy; simp add: EgressPolicySchema_def)+
  from valid_collect [OF this(1)] valid_texts [OF this(2)] valid_texts [OF this(3)]
  show ?thesis unfolding effectiveEgressRules_def by (auto split: option.split)
qed

text \<open>An accepted listing decides packets as the policy does.\<close>

lemma accepted_listing_enforces:
  assumes "effectiveEgressRules collate policy localProtected relayPort = Some rules"
    "verifyEgressListing listing rules = None" "proper listing"
    "field ''nftables'' listing = JArr entries" "read_listing entries empty_listing = Inr s"
    "nft_reads (listed_elements s) p holds"
  shows "run_chain holds (listed_chain s ''ws_forward'') = forward_policy policy localProtected p \<and>
    run_chain holds (listed_chain s ''ws_prerouting'') = host_policy relayPort p \<and>
    (relayPort = Some port \<longrightarrow> run_chain holds (listed_chain s ''relay_input'') = input_policy port p) \<and>
    length (ls_chains s) = (if relayPort = None then 2 else 3)"
proof -
  have accepted: "check_listing s rules = None" using accepted_listing [OF assms(2)] assms(4,5) by auto
  have relay: "ef_relay_port rules = relayPort" by (rule effective_rules_hold(4) [OF assms(1)])
  have "proper_all entries" using proper_field [OF assms(3), of "''nftables''"] assms(4) by simp
  then have proper: "\<forall>(n, es) \<in> set (ls_rules s). proper_all es"
    using read_listing_proper [OF assms(5)] by (simp add: empty_listing_def)
  note chain = accepted_chain [OF accepted _ assms(6) proper, unfolded relay]
  have "check_singles s rules SINGLE_SETS = None" "check_services s rules = None"
    "length (ls_chains s) = length (egressChains relayPort)"
    using accepted relay by (auto simp: check_listing_def split: if_splits option.splits)
  moreover from this have "set_contents (listed_elements s) rules" by (intro accepted_contents [OF assms(1)])
  ultimately show ?thesis
    using chain [of forward_chain] chain [of "prerouting_chain relayPort"] chain [of "relay_chain port"]
      forward_verdict [OF assms(1) _ assms(6)] prerouting_verdict [OF assms(6)] input_verdict [OF assms(6)]
    by (auto simp: egressChains_def forward_chain_def prerouting_chain_def relay_chain_def split: option.splits)
qed

section \<open>Properties\<close>



text \<open>C24. Every listing the Worker accepts enforces the policy: with match statements decided as nft
documents them, the forward chain drops and accepts exactly the packets the policy does - protected
addresses first, then the allow entries, then the private and extra denied ranges, replies and
traffic of other interfaces untouched, IPv6 dropped - and the prerouting and input chains keep the
Worker host and its relay port closed. The table has no other chain.\<close>

theorem verified_listing_enforces_policy:
  assumes "effectiveEgressRules collate policy localProtected relayPort = Some rules"
    "verifyEgressListing listing rules = None" "proper listing"
    "field ''nftables'' listing = JArr entries" "read_listing entries empty_listing = Inr s"
    "nft_reads (listed_elements s) p holds"
  shows "run_chain holds (listed_chain s ''ws_forward'') = forward_policy policy localProtected p \<and>
    run_chain holds (listed_chain s ''ws_prerouting'') = host_policy relayPort p \<and>
    (relayPort = Some port \<longrightarrow> run_chain holds (listed_chain s ''relay_input'') = input_policy port p) \<and>
    length (ls_chains s) = (if relayPort = None then 2 else 3)"
  using assms by (rule accepted_listing_enforces)

section \<open>A denied packet\<close>

lemma proper_sets: "proper (single_set rules name)" "proper (service_set rules)"
proof -
  have "proper_all (prefixElements is)" for "is"
    by (auto simp: proper_all_iff prefixElements_def prefix_element_def)
  then show "proper (single_set rules name)"
    by (simp add: single_set_def in_table_def with_elements_def proper_values_iff)
  have "proper_all (serviceElements es)" for es
    by (auto simp: proper_all_iff serviceElements_def service_element_def prefix_element_def)
  then show "proper (service_set rules)"
    by (simp add: service_set_def in_table_def with_elements_def proper_values_iff service_type_def)
qed

lemma proper_rendered: "proper (listingFromTransaction (renderEgressTransaction rules))"
proof -
  have rule: "proper m" if "c \<in> set (egressChains relayPort)" "r \<in> set (ch_rules c)" "m \<in> set r"
    for c r m and relayPort :: "nat option"
  proof -
    have "m \<in> {not_workspace, is_reply, is_ipv6, to_host, to_host_or_group, is_service, accept, drop_packet,
        return_packet} \<union> range to_port \<union> range in_set"
      using that
      by (auto simp: egressChains_def prerouting_chain_def forward_chain_def relay_chain_def
          relayException_def workspaceTrafficOnly_def repliesPass_def ipv6Dropped_def split: option.splits)
    then show ?thesis
      using match_proper by (auto simp: accept_def drop_packet_def return_packet_def)
  qed
  have "proper_all (rendered_objects rules)"
    using proper_sets rule
    by (auto simp: proper_all_iff rendered_objects_def table_object_def chain_objects_def
        chain_object_def rule_object_def in_table_def)
  moreover have "listingFromTransaction (renderEgressTransaction rules) = JObj [(''nftables'',
      JArr (JObj [(''metainfo'', JObj [(''json_schema_version'', JNum 1)])] # rendered_objects rules))]"
    using listed_transaction [of rules] by (simp add: listingFromTransaction_def field_def)
  ultimately show ?thesis by simp
qed

text \<open>For a proper object, \<open>deepEqual\<close> to a match statement fixes the right-hand side.\<close>

lemma deepEqual_keys_mem:
  "deepEqual_keys kvs kvs' \<Longrightarrow> (k, v) \<in> set kvs \<Longrightarrow> \<exists>w. map_of kvs' k = Some w \<and> deepEqual v w"
  by (induction kvs) (auto split: option.splits)

lemma match_right:
  assumes "proper j" "deepEqual j (match op l r)"
  shows "deepEqual (field ''right'' (field ''match'' j)) r"
proof -
  obtain w where j: "j = JObj [(''match'', w)]" "deepEqual w (JObj [(''op'', JStr op), (''left'', l), (''right'', r)])"
    using deepEqual_single [OF assms(2) [unfolded match_def]] assms(2) by (auto simp: match_def)
  then obtain kvs where w: "w = JObj kvs" "length kvs = 3"
      "deepEqual_keys kvs [(''op'', JStr op), (''left'', l), (''right'', r)]"
    by (cases w) (auto split: json.splits)
  have distinct: "distinct (map fst kvs)" using assms(1) j(1) w(1) by simp
  have "set (map fst kvs) \<subseteq> {''op'', ''left'', ''right''}"
    using deepEqual_keys_mem [OF w(3)] by (fastforce split: if_splits)
  moreover have "card (set (map fst kvs)) = 3" using distinct_card [OF distinct] w(2) by simp
  moreover have "card {''op'', ''left'', ''right''} = 3" by simp
  ultimately have keys: "set (map fst kvs) = {''op'', ''left'', ''right''}"
    by (intro card_subset_eq) simp_all
  have "''right'' \<in> set (map fst kvs)" unfolding keys by simp
  then obtain v where v: "(''right'', v) \<in> set kvs" unfolding set_map by (rule imageE) (metis prod.collapse)
  moreover have "deepEqual v r" using deepEqual_keys_mem [OF w(3) v] by simp
  ultimately have "map_of kvs ''right'' = Some v" "deepEqual v r"
    using map_of_eq_Some_iff [OF distinct] by simp_all
  then show ?thesis by (simp add: j(1) w(1) field_def)
qed

lemma deepEqual_str: "deepEqual v (JStr s) \<longleftrightarrow> v = JStr s"
  by (cases v) auto

lemma deepEqual_num: "deepEqual v (JNum n) \<longleftrightarrow> v = JNum n"
  by (cases v) auto

definition demo_rules :: effective_rules where
  "demo_rules = \<lparr>ef_protected = [], ef_allow_net = [], ef_allow_service = [], ef_deny_extra = [],
     ef_relay_port = None\<rparr>"

lemma demo_effective: "effectiveEgressRules (\<lambda>_ _. 0) None [] None = Some demo_rules"
  by (simp add: effectiveEgressRules_def demo_rules_def mergeIntervals_def js_sort_def)

definition demo_packet :: packet where
  "demo_packet = \<lparr>pk_workspace = True, pk_reply = False, pk_ipv6 = False, pk_daddr = 167772161,
     pk_type = ''unicast'', pk_protocol = None, pk_dport = 0\<rparr>"

text \<open>\<open>10.0.0.1\<close>, an address of the private ranges: only \<open>@deny_default_v4\<close> matches.\<close>

definition demo_holds :: "json \<Rightarrow> bool" where
  "demo_holds j \<longleftrightarrow> field ''right'' (field ''match'' j) = JStr ''@deny_default_v4''"

lemma demo_denied: "167772161 \<in> networks_addrs EGRESS_DEFAULT_DENY_V4"
proof -
  have "cidrTextInterval ''10.0.0.0/8'' = Some \<lparr>iv_start = 167772160, iv_end = 184549375\<rparr>"
    by (simp add: cidrTextInterval_def cidr_evaluation cidrInterval_def)
  then show ?thesis
    by (simp add: networks_addrs_def EGRESS_DEFAULT_DENY_V4_def text_addrs_def addrs_def)
qed

lemma demo_reads: "nft_reads (listed_elements (rendered_state demo_rules)) demo_packet demo_holds"
proof -
  let ?elements = "listed_elements (rendered_state demo_rules)"
  have checked: "check_singles (rendered_state demo_rules) demo_rules SINGLE_SETS = None"
      "check_services (rendered_state demo_rules) demo_rules = None"
    using rendered_verifies [OF demo_effective]
    by (auto simp: check_listing_def split: if_splits option.splits)
  then have contents: "set_contents ?elements demo_rules" by (intro accepted_contents [OF demo_effective])
  have "(\<exists>e \<in> set (?elements name). element_has e 167772161) \<longleftrightarrow> name = ''deny_default_v4''"
    if "name \<in> set SINGLE_SETS" for name
  proof -
    have "(\<exists>e \<in> set (?elements name). element_has e 167772161) \<longleftrightarrow>
        167772161 \<in> covered (singleSetElements demo_rules name)"
      using contents that by (simp add: set_contents_def)
    also have "\<dots> \<longleftrightarrow> name = ''deny_default_v4''"
      using default_deny_holds [of demo_rules] demo_denied that
      by (auto simp: holds_networks_def singleSetElements_def demo_rules_def SINGLE_SETS_def)
    finally show ?thesis .
  qed
  moreover have "\<not> (\<exists>e \<in> set (?elements SERVICE_SET). service_element_has e demo_packet)"
    using contents by (simp add: set_contents_def demo_rules_def)
  moreover have "\<not> demo_holds j"
    if "proper j" "deepEqual j (match op l r)" "r \<noteq> JStr ''@deny_default_v4''"
      "(\<exists>s. r = JStr s) \<or> (\<exists>n. r = JNum n) \<or> (\<exists>kvs. r = JObj kvs)" for j op l r
    using match_right [OF that(1,2)] that(3,4) by (auto simp: demo_holds_def deepEqual_str deepEqual_num)
  note no = this
  have none: "proper j \<Longrightarrow> deepEqual j not_workspace \<Longrightarrow> \<not> demo_holds j"
    "proper j \<Longrightarrow> deepEqual j is_reply \<Longrightarrow> \<not> demo_holds j"
    "proper j \<Longrightarrow> deepEqual j is_ipv6 \<Longrightarrow> \<not> demo_holds j"
    "proper j \<Longrightarrow> deepEqual j to_host \<Longrightarrow> \<not> demo_holds j"
    "proper j \<Longrightarrow> deepEqual j to_host_or_group \<Longrightarrow> \<not> demo_holds j"
    "proper j \<Longrightarrow> deepEqual j (to_port n) \<Longrightarrow> \<not> demo_holds j"
    "proper j \<Longrightarrow> deepEqual j is_service \<Longrightarrow> \<not> demo_holds j" for j n
    unfolding rendered_matches SERVICE_SET_def WORKSPACE_BRIDGE_PREFIX_def
    by (erule (1) no; simp)+
  have sets: "proper j \<Longrightarrow> deepEqual j (in_set name) \<Longrightarrow> demo_holds j \<longleftrightarrow> name = ''deny_default_v4''" for j name
    using match_right unfolding in_set_def demo_holds_def by (fastforce simp: deepEqual_str)
  show ?thesis
    using calculation none sets by (simp add: nft_reads_def demo_packet_def)
qed

lemma verified_listing_enforces_policy_witness:
  "run_chain demo_holds (listed_chain (rendered_state demo_rules) ''ws_forward'') =
     forward_policy None [] demo_packet \<and>
   run_chain demo_holds (listed_chain (rendered_state demo_rules) ''ws_forward'') = Dropped"
proof -
  have read: "read_listing (JObj [(''metainfo'', JObj [(''json_schema_version'', JNum 1)])] #
      rendered_objects demo_rules) empty_listing = Inr (rendered_state demo_rules)"
    using read_rendered by simp
  have "run_chain demo_holds (listed_chain (rendered_state demo_rules) ''ws_forward'') =
      forward_policy None [] demo_packet"
    using verified_listing_enforces_policy [OF demo_effective rendered_listing_accepted [OF demo_effective]
        proper_rendered listed_transaction read demo_reads] by blast
  moreover have "forward_policy None [] demo_packet = Dropped"
    using demo_denied
    by (simp add: forward_policy_def demo_packet_def policy_allow_def policy_deny_def
        policy_protected_def networks_addrs_def)
  ultimately show ?thesis by simp
qed

end
