(* ===== verification/EgressControl.thy ===== *)
theory EgressControl
  imports EgressTable
begin

text \<open>
  \<open>apps/worker/src/egress/controller.ts\<close> and \<open>nft.ts\<close>: the controller that owns the Worker's egress
  table. Its private fields are the record \<open>egress_controller\<close>. What it acts on - the kernel through
  \<open>nft\<close>, the state directory, the resolver of local addresses - is an environment state of any type,
  with the client's operations as parameters; each may fail with a message. The queue runs one
  operation at a time, so an operation is a function. Logging is left out.
\<close>

section \<open>The nft client\<close>

record command_result =
  cr_code :: "int option"
  cr_stdout :: string
  cr_stderr :: string

definition nft_error :: "string \<Rightarrow> command_result \<Rightarrow> string" where
  "nft_error operation r =
     (let detail = take 200 (hd (split_on CHR 0x0A (trim (cr_stderr r)))) in
      ''nft could not '' @ operation @ (if detail = '''' then '''' else '': '' @ detail))"

definition permissionDenied :: "command_result \<Rightarrow> bool" where
  "permissionDenied r \<longleftrightarrow>
     list_ex (\<lambda>needle. contains_text needle (cr_stderr r))
       [''Operation not permitted'', ''Permission denied'', ''must be root'']"

definition nft_apply_result :: "command_result \<Rightarrow> string option" where
  "nft_apply_result r =
     (if cr_code r \<noteq> Some 0 then Some (nft_error ''apply the egress rules'' r) else None)"

text \<open>\<open>Inr None\<close>: there is no table.\<close>

definition nft_list_result :: "(string \<Rightarrow> json option) \<Rightarrow> command_result \<Rightarrow> string + json option" where
  "nft_list_result parse r =
     (if cr_code r \<noteq> Some 0 then
        if contains_text ''No such file or directory'' (cr_stderr r) then Inr None
        else Inl (nft_error ''list the egress rules'' r)
      else case parse (cr_stdout r) of
             None \<Rightarrow> Inl ''nft returned an unreadable listing''
           | Some listing \<Rightarrow> Inr (Some listing))"

section \<open>The controller\<close>

record 'n egress_env =
  en_apply :: "json \<Rightarrow> 'n \<Rightarrow> string option \<times> 'n"
  en_list :: "'n \<Rightarrow> string + json option"
  en_persist :: "egress_policy option \<Rightarrow> json \<Rightarrow> 'n \<Rightarrow> string option \<times> 'n"
  en_load :: "'n \<Rightarrow> egress_policy option"
  en_resolve :: "'n \<Rightarrow> string + string list"
  en_collate :: "string \<Rightarrow> string \<Rightarrow> int"
  en_relay :: "nat option"

record egress_controller =
  ec_policy :: "egress_policy option"
  ec_local :: "string list"
  ec_enforced :: bool
  ec_failure :: "string option"

definition new_controller :: egress_controller where
  "new_controller = \<lparr>ec_policy = None, ec_local = [], ec_enforced = False, ec_failure = None\<rparr>"

definition egress_status :: "egress_controller \<Rightarrow> worker_egress_status" where
  "egress_status c =
     \<lparr>egs_enforced = ec_enforced c, egs_revision = map_option pol_revision (ec_policy c)\<rparr>"

definition controller_rules ::
  "'n egress_env \<Rightarrow> egress_policy option \<Rightarrow> string list \<Rightarrow> effective_rules option" where
  "controller_rules e policy localProtected =
     effectiveEgressRules (en_collate e) policy localProtected (en_relay e)"

definition verify_table :: "'n egress_env \<Rightarrow> effective_rules \<Rightarrow> 'n \<Rightarrow> string option" where
  "verify_table e rules n =
     (case en_list e n of
        Inl message \<Rightarrow> Some message
      | Inr None \<Rightarrow> Some ''egress table is missing''
      | Inr (Some listing) \<Rightarrow> verifyEgressListing listing rules)"

definition setEnforced :: "string option \<Rightarrow> egress_controller \<Rightarrow> egress_controller" where
  "setEnforced failure c = c\<lparr>ec_enforced := (failure = None), ec_failure := failure\<rparr>"

definition refreshLocalProtected :: "'n egress_env \<Rightarrow> 'n \<Rightarrow> egress_controller \<Rightarrow> egress_controller" where
  "refreshLocalProtected e n c =
     (case en_resolve e n of Inl _ \<Rightarrow> c | Inr addresses \<Rightarrow> c\<lparr>ec_local := addresses\<rparr>)"

text \<open>\<open>#ensure\<close>: the first component is what it throws.\<close>

definition ensure_table ::
  "'n egress_env \<Rightarrow> egress_controller \<Rightarrow> 'n \<Rightarrow> string option \<times> egress_controller \<times> 'n" where
  "ensure_table e c n =
     (case controller_rules e (ec_policy c) (ec_local c) of
        None \<Rightarrow> (Some ''invalid IPv4 CIDR'', c, n)
      | Some rules \<Rightarrow>
          if verify_table e rules n = None then (None, setEnforced None c, n)
          else
            let transaction = renderEgressTransaction rules in
            (case en_apply e transaction n of
               (Some message, n1) \<Rightarrow> (None, setEnforced (Some message) c, n1)
             | (None, n1) \<Rightarrow>
                 (case en_persist e (ec_policy c) transaction n1 of
                    (Some message, n2) \<Rightarrow> (None, setEnforced (Some message) c, n2)
                  | (None, n2) \<Rightarrow> (None, setEnforced (verify_table e rules n2) c, n2))))"

type_synonym 'n egress_result = "(string + worker_egress_status) \<times> egress_controller \<times> 'n"

definition with_status :: "string option \<times> egress_controller \<times> 'n \<Rightarrow> 'n egress_result" where
  "with_status r =
     (let (thrown, c, n) = r in
      ((case thrown of Some message \<Rightarrow> Inl message | None \<Rightarrow> Inr (egress_status c)), c, n))"

definition egress_initialize :: "'n egress_env \<Rightarrow> egress_controller \<Rightarrow> 'n \<Rightarrow> 'n egress_result" where
  "egress_initialize e c n =
     with_status (ensure_table e (refreshLocalProtected e n (c\<lparr>ec_policy := en_load e n\<rparr>)) n)"

definition egress_ensure :: "'n egress_env \<Rightarrow> egress_controller \<Rightarrow> 'n \<Rightarrow> 'n egress_result" where
  "egress_ensure e c n = with_status (ensure_table e c n)"

text \<open>The policy is stored, written to disk and verified once the transaction went through.\<close>

definition egress_store ::
  "'n egress_env \<Rightarrow> egress_policy \<Rightarrow> json \<Rightarrow> egress_controller \<Rightarrow> 'n \<Rightarrow> 'n egress_result" where
  "egress_store e policy transaction c n =
     (let c1 = c\<lparr>ec_policy := Some policy\<rparr> in
      case en_persist e (Some policy) transaction n of
        (Some message, n1) \<Rightarrow> (Inl message, c1, n1)
      | (None, n1) \<Rightarrow>
          (case ensure_table e c1 n1 of
             (Some message, c2, n2) \<Rightarrow> (Inl message, c2, n2)
           | (None, c2, n2) \<Rightarrow>
               if \<not> ec_enforced c2 then (Inl ''egress rules did not verify after apply'', c2, n2)
               else (Inr (egress_status c2), c2, n2)))"

definition egress_apply ::
  "'n egress_env \<Rightarrow> egress_policy \<Rightarrow> egress_controller \<Rightarrow> 'n \<Rightarrow> 'n egress_result" where
  "egress_apply e policy c n =
     (if (case ec_policy c of None \<Rightarrow> False | Some p \<Rightarrow> pol_revision policy < pol_revision p)
      then with_status (ensure_table e c n)
      else
        let c1 = refreshLocalProtected e n c in
        case controller_rules e (Some policy) (ec_local c1) of
          None \<Rightarrow> (Inl ''invalid IPv4 CIDR'', c1, n)
        | Some rules \<Rightarrow>
            let transaction = renderEgressTransaction rules in
            (case en_apply e transaction n of
               (Some message, n1) \<Rightarrow>
                 (case ensure_table e c1 n1 of
                    (Some message', c2, n2) \<Rightarrow> (Inl message', c2, n2)
                  | (None, c2, n2) \<Rightarrow> (Inl message, c2, n2))
             | (None, n1) \<Rightarrow> egress_store e policy transaction c1 n1))"

text \<open>
  \<open>localProtectedResolver\<close>: \<open>hostname\<close> reads the host of a URL without brackets, \<open>resolve\<close> asks
  the DNS; both may throw (\<open>None\<close>).
\<close>

fun resolve_urls ::
  "(string \<Rightarrow> nat) \<Rightarrow> (string \<Rightarrow> string option) \<Rightarrow> (string \<Rightarrow> string list option) \<Rightarrow> string list
   \<Rightarrow> string list option" where
  "resolve_urls isIP hostname resolve [] = Some []"
| "resolve_urls isIP hostname resolve (u # us) =
     (case hostname u of
        None \<Rightarrow> None
      | Some h \<Rightarrow>
          (case (if isIP h = 0 then resolve h else Some (if isIP h = 4 then [h] else []),
                 resolve_urls isIP hostname resolve us) of
             (Some addresses, Some rest) \<Rightarrow> Some (addresses @ rest) | _ \<Rightarrow> None))"

definition localProtectedResolver ::
  "(string \<Rightarrow> nat) \<Rightarrow> (string \<Rightarrow> string option) \<Rightarrow> (string \<Rightarrow> string list option) \<Rightarrow> string
   \<Rightarrow> string list \<Rightarrow> string list \<Rightarrow> string list option" where
  "localProtectedResolver isIP hostname resolve controlPlaneUrl explicit additionalUrls =
     map_option (\<lambda>addresses. sort (js_set (List.map_filter canonicalIpv4Cidr addresses @ explicit)))
       (resolve_urls isIP hostname resolve (controlPlaneUrl # additionalUrls))"

section \<open>Lemmas\<close>

text \<open>The controller claims enforcement only on a table that verified.\<close>

definition trusted :: "'n egress_env \<Rightarrow> egress_controller \<Rightarrow> 'n \<Rightarrow> bool" where
  "trusted e c n \<longleftrightarrow>
     (ec_enforced c \<longrightarrow>
       (\<exists>rules listing. controller_rules e (ec_policy c) (ec_local c) = Some rules \<and>
          en_list e n = Inr (Some listing) \<and> verifyEgressListing listing rules = None))"

lemma setEnforced_fields [simp]:
  "ec_policy (setEnforced f c) = ec_policy c" "ec_local (setEnforced f c) = ec_local c"
  "ec_enforced (setEnforced f c) \<longleftrightarrow> f = None"
  by (simp_all add: setEnforced_def)

lemma refresh_policy [simp]: "ec_policy (refreshLocalProtected e n c) = ec_policy c"
  by (simp add: refreshLocalProtected_def split: sum.split)

lemma verified_trusted:
  assumes "controller_rules e (ec_policy c) (ec_local c) = Some rules"
  shows "trusted e (setEnforced (verify_table e rules n) c) n"
  using assms by (auto simp: trusted_def verify_table_def split: sum.splits option.splits)

lemma ensure_trusted:
  assumes "ensure_table e c n = (None, c', n')"
  shows "trusted e c' n' \<and> ec_policy c' = ec_policy c \<and> ec_local c' = ec_local c"
proof -
  obtain rules where rules: "controller_rules e (ec_policy c) (ec_local c) = Some rules"
    using assms by (auto simp: ensure_table_def split: option.splits)
  have failed: "trusted e (setEnforced (Some message) c) m" for message m by (simp add: trusted_def)
  have passed: "trusted e (setEnforced None c) n" if "verify_table e rules n = None"
    using verified_trusted [OF rules, of n] that by simp
  show ?thesis
    using assms rules failed verified_trusted [OF rules] passed
    by (auto simp: ensure_table_def Let_def split: if_splits prod.splits option.splits)
qed

lemma ensure_policy: "ensure_table e c n = (thrown, c', n') \<Longrightarrow> ec_policy c' = ec_policy c"
  by (auto simp: ensure_table_def Let_def split: if_splits prod.splits option.splits)

lemma store_trusted:
  assumes "egress_store e policy transaction c n = (Inr status, c', n')"
  shows "trusted e c' n' \<and> ec_enforced c' \<and> ec_policy c' = Some policy \<and> status = egress_status c'"
proof -
  obtain n1 where "ensure_table e (c\<lparr>ec_policy := Some policy\<rparr>) n1 = (None, c', n')" "ec_enforced c'"
      "status = egress_status c'"
    using assms by (auto simp: egress_store_def Let_def split: prod.splits option.splits if_splits)
  then show ?thesis using ensure_trusted by fastforce
qed

lemma store_policy: "egress_store e policy transaction c n = (r, c', n') \<Longrightarrow> ec_policy c' = Some policy"
  by (auto simp: egress_store_def Let_def dest!: ensure_policy split: prod.splits option.splits if_splits)

lemma with_status_Inr:
  "with_status r = (Inr status, c', n') \<longleftrightarrow> r = (None, c', n') \<and> status = egress_status c'"
  by (cases r) (auto simp: with_status_def split: option.splits)

lemma apply_trusted:
  assumes "egress_apply e policy c n = (Inr status, c', n')"
  shows "trusted e c' n' \<and> status = egress_status c' \<and>
    (ec_policy c' = Some policy \<and> ec_enforced c' \<or>
     (\<exists>p. ec_policy c = Some p \<and> pol_revision policy < pol_revision p) \<and> ec_policy c' = ec_policy c)"
proof (cases "case ec_policy c of None \<Rightarrow> False | Some p \<Rightarrow> pol_revision policy < pol_revision p")
  case True
  with assms have "ensure_table e c n = (None, c', n')" "status = egress_status c'"
    by (auto simp: egress_apply_def with_status_Inr)
  with ensure_trusted True show ?thesis by (fastforce split: option.splits)
next
  case False
  with assms obtain transaction n1 where
      "egress_store e policy transaction (refreshLocalProtected e n c) n1 = (Inr status, c', n')"
    by (auto simp: egress_apply_def Let_def split: option.splits prod.splits)
  from store_trusted [OF this] show ?thesis by blast
qed

text \<open>A returned status that says enforced stands for a table that decides as the policy does.\<close>

lemma trusted_enforces:
  assumes "trusted e c n" "ec_enforced c" "en_list e n = Inr (Some listing)" "proper listing"
    "field ''nftables'' listing = JArr entries" "read_listing entries empty_listing = Inr s"
    "nft_reads (listed_elements s) p holds"
  shows "run_chain holds (listed_chain s ''ws_forward'') = forward_policy (ec_policy c) (ec_local c) p \<and>
    run_chain holds (listed_chain s ''ws_prerouting'') = host_policy (en_relay e) p"
proof -
  obtain rules where "controller_rules e (ec_policy c) (ec_local c) = Some rules"
      "verifyEgressListing listing rules = None"
    using assms(1-3) by (auto simp: trusted_def)
  with accepted_listing_enforces [OF _ _ assms(4-7)] show ?thesis
    unfolding controller_rules_def by blast
qed

section \<open>Properties\<close>

text \<open>C26. When an operation of the controller returns a status that says enforced, the table nft
lists decides every packet as the policy in force does, with the local addresses in force, and the
status names the revision of that policy.\<close>

theorem enforced_status_is_true:
  assumes "r = egress_initialize e c n \<or> r = egress_ensure e c n \<or> r = egress_apply e policy c n"
    "r = (Inr status, c', n')" "egs_enforced status"
    "en_list e n' = Inr (Some listing)" "proper listing"
    "field ''nftables'' listing = JArr entries" "read_listing entries empty_listing = Inr s"
    "nft_reads (listed_elements s) p holds"
  shows "run_chain holds (listed_chain s ''ws_forward'') = forward_policy (ec_policy c') (ec_local c') p \<and>
    run_chain holds (listed_chain s ''ws_prerouting'') = host_policy (en_relay e) p \<and>
    egs_revision status = map_option pol_revision (ec_policy c')"
proof -
  have "trusted e c' n' \<and> status = egress_status c'"
    using assms(1)
  proof (elim disjE)
    assume "r = egress_initialize e c n"
    with assms(2) have "with_status (ensure_table e (refreshLocalProtected e n (c\<lparr>ec_policy := en_load e n\<rparr>)) n) =
        (Inr status, c', n')" by (simp add: egress_initialize_def)
    then show ?thesis unfolding with_status_Inr by (auto dest: ensure_trusted)
  next
    assume "r = egress_ensure e c n"
    with assms(2) have "with_status (ensure_table e c n) = (Inr status, c', n')" by (simp add: egress_ensure_def)
    then show ?thesis unfolding with_status_Inr by (auto dest: ensure_trusted)
  next
    assume "r = egress_apply e policy c n"
    with assms(2) have "egress_apply e policy c n = (Inr status, c', n')" by simp
    from apply_trusted [OF this] show ?thesis by simp
  qed
  moreover from this have "ec_enforced c'" using assms(3) by (simp add: egress_status_def)
  ultimately show ?thesis using trusted_enforces [of e c' n', OF _ _ assms(4-8)] by (simp add: egress_status_def)
qed

text \<open>An environment that keeps the table in memory, as the project's tests do.\<close>

definition demo_egress_env :: "json option egress_env" where
  "demo_egress_env =
     \<lparr>en_apply = (\<lambda>transaction _. (None, Some (listingFromTransaction transaction))), en_list = Inr,
      en_persist = (\<lambda>_ _ n. (None, n)), en_load = (\<lambda>_. None), en_resolve = (\<lambda>_. Inr []),
      en_collate = (\<lambda>_ _. 0), en_relay = None\<rparr>"

lemma demo_initialized:
  "egress_initialize demo_egress_env new_controller None =
     (Inr \<lparr>egs_enforced = True, egs_revision = None\<rparr>, new_controller\<lparr>ec_enforced := True\<rparr>,
      Some (listingFromTransaction (renderEgressTransaction demo_rules)))"
  using demo_effective rendered_listing_accepted [OF demo_effective]
  by (simp add: egress_initialize_def demo_egress_env_def new_controller_def refreshLocalProtected_def
      ensure_table_def controller_rules_def verify_table_def with_status_def setEnforced_def
      egress_status_def)

lemma demo_listing_read:
  "read_listing (JObj [(''metainfo'', JObj [(''json_schema_version'', JNum 1)])] #
     rendered_objects demo_rules) empty_listing = Inr (rendered_state demo_rules)"
  using read_rendered by simp

lemma enforced_status_is_true_witness:
  "run_chain demo_holds (listed_chain (rendered_state demo_rules) ''ws_forward'') =
     forward_policy None [] demo_packet"
  using enforced_status_is_true [OF disjI1 [OF refl] demo_initialized _ _ proper_rendered listed_transaction
      demo_listing_read demo_reads]
  by (simp add: demo_egress_env_def new_controller_def)

text \<open>Applying a policy never moves the Worker back to an older one: the revision in force only
grows, an older policy changes nothing but re-checks the table, a transaction nft rejects leaves the
policy in force, and a returned status means that the policy given is in force and enforced, or that
it was older.\<close>

theorem apply_never_goes_back:
  assumes "egress_apply e policy c n = (r, c', n')"
  shows "(case (ec_policy c, ec_policy c') of
      (Some p, Some p') \<Rightarrow> pol_revision p \<le> pol_revision p' | (Some p, None) \<Rightarrow> False | _ \<Rightarrow> True) \<and>
    (\<forall>status. r = Inr status \<longrightarrow>
      ec_policy c' = Some policy \<and> ec_enforced c' \<or>
      (\<exists>p. ec_policy c = Some p \<and> pol_revision policy < pol_revision p) \<and> ec_policy c' = ec_policy c) \<and>
    (\<forall>rules message n1. controller_rules e (Some policy) (ec_local (refreshLocalProtected e n c)) = Some rules \<and>
      en_apply e (renderEgressTransaction rules) n = (Some message, n1) \<longrightarrow> ec_policy c' = ec_policy c)"
proof -
  have "ec_policy c' = ec_policy c \<or> ec_policy c' = Some policy \<and>
      \<not> (case ec_policy c of None \<Rightarrow> False | Some p \<Rightarrow> pol_revision policy < pol_revision p)"
    using assms
    by (auto simp: egress_apply_def with_status_def Let_def dest!: ensure_policy store_policy
        split: if_splits option.splits prod.splits)
  moreover have "ec_policy c' = ec_policy c"
    if "controller_rules e (Some policy) (ec_local (refreshLocalProtected e n c)) = Some rules"
      "en_apply e (renderEgressTransaction rules) n = (Some message, n1)" for rules message n1
    using assms that
    by (auto simp: egress_apply_def with_status_def Let_def dest!: ensure_policy
        split: if_splits option.splits prod.splits)
  ultimately show ?thesis
    using apply_trusted [of e policy c n _ c' n'] assms by (auto split: option.splits)
qed

lemma apply_never_goes_back_witness:
  "\<exists>r c' n'. egress_apply demo_egress_env \<lparr>pol_revision = 1, pol_allow = [], pol_deny_extra = [], pol_protected = []\<rparr>
      (new_controller\<lparr>ec_policy := Some \<lparr>pol_revision = 2, pol_allow = [], pol_deny_extra = [], pol_protected = []\<rparr>\<rparr>)
      None = (r, c', n') \<and> ec_policy c' \<noteq> None"
proof -
  obtain r c' n' where run: "egress_apply demo_egress_env
      \<lparr>pol_revision = 1, pol_allow = [], pol_deny_extra = [], pol_protected = []\<rparr>
      (new_controller\<lparr>ec_policy := Some \<lparr>pol_revision = 2, pol_allow = [], pol_deny_extra = [], pol_protected = []\<rparr>\<rparr>)
      None = (r, c', n')" by (rule prod_cases3)
  from apply_never_goes_back [OF run] run show ?thesis by (auto split: option.splits)
qed

text \<open>
  The comment on the class says that \<open>enforced\<close> is true only after the table was read back. When the
  snapshot cannot be written after a transaction went through, \<open>apply\<close> throws before it reads the new
  table: the policy is replaced and the flag keeps its old value.
\<close>

theorem unwritten_snapshot_keeps_flag:
  assumes "case ec_policy c of None \<Rightarrow> True | Some p \<Rightarrow> pol_revision p \<le> pol_revision policy"
    "controller_rules e (Some policy) (ec_local (refreshLocalProtected e n c)) = Some rules"
    "en_apply e (renderEgressTransaction rules) n = (None, n1)"
    "en_persist e (Some policy) (renderEgressTransaction rules) n1 = (Some message, n2)"
  shows "\<exists>c'. egress_apply e policy c n = (Inl message, c', n2) \<and> ec_policy c' = Some policy \<and>
    ec_enforced c' = ec_enforced c"
  using assms
  by (auto simp: egress_apply_def egress_store_def Let_def refreshLocalProtected_def
      split: option.splits sum.splits)

end
