(* ===== verification/Effects.thy ===== *)
theory Effects
  imports Prelude
begin

text \<open>
  Asynchronous methods that act on the outside world. An action runs on the world it is given and on
  the trace of what was done to it, and either returns a value or throws: \<open>raise\<close> is \<open>throw\<close>,
  \<open>bind\<close> is \<open>await\<close> followed by the rest, \<open>try_catch\<close> is \<open>try .. catch\<close>. The outside world is any
  type with any operations on it; \<open>external\<close> performs one and logs it. \<open>wp\<close> is the weakest
  precondition of an action for a postcondition on returning and one on throwing.
\<close>

record ('n, 'e) outside =
  world :: 'n
  trace :: "'e list"

type_synonym ('n, 'e, 'x, 'a) act = "('n, 'e) outside \<Rightarrow> ('x + 'a) \<times> ('n, 'e) outside"

definition pure :: "'a \<Rightarrow> ('n, 'e, 'x, 'a) act" where
  "pure a s = (Inr a, s)"

definition raise :: "'x \<Rightarrow> ('n, 'e, 'x, 'a) act" where
  "raise x s = (Inl x, s)"

definition bind :: "('n, 'e, 'x, 'a) act \<Rightarrow> ('a \<Rightarrow> ('n, 'e, 'x, 'b) act) \<Rightarrow> ('n, 'e, 'x, 'b) act" where
  "bind m f s = (case m s of (Inl x, t) \<Rightarrow> (Inl x, t) | (Inr a, t) \<Rightarrow> f a t)"

definition andThen :: "('n, 'e, 'x, unit) act \<Rightarrow> ('n, 'e, 'x, 'b) act \<Rightarrow> ('n, 'e, 'x, 'b) act" where
  "andThen m k = bind m (\<lambda>_. k)"

definition try_catch ::
  "('n, 'e, 'x, 'a) act \<Rightarrow> ('x \<Rightarrow> ('n, 'e, 'y, 'a) act) \<Rightarrow> ('n, 'e, 'y, 'a) act" where
  "try_catch m h s = (case m s of (Inl x, t) \<Rightarrow> h x t | (Inr a, t) \<Rightarrow> (Inr a, t))"

text \<open>\<open>try .. finally\<close>: the last action runs either way; what it throws wins.\<close>

definition try_finally ::
  "('n, 'e, 'x, 'a) act \<Rightarrow> ('n, 'e, 'x, unit) act \<Rightarrow> ('n, 'e, 'x, 'a) act" where
  "try_finally m k s =
     (case m s of (r, t) \<Rightarrow> (case k t of (Inl x, u) \<Rightarrow> (Inl x, u) | (Inr _, u) \<Rightarrow> (r, u)))"

definition require :: "bool \<Rightarrow> 'x \<Rightarrow> ('n, 'e, 'x, unit) act" where
  "require c x = (if c then pure () else raise x)"

text \<open>An operation on the outside world; the event it leaves may name its result.\<close>

definition external ::
  "('x + 'a \<Rightarrow> 'e) \<Rightarrow> ('n \<Rightarrow> ('x + 'a) \<times> 'n) \<Rightarrow> ('n, 'e, 'x, 'a) act" where
  "external ev f s =
     (case f (world s) of (r, n) \<Rightarrow> (r, s\<lparr>world := n, trace := trace s @ [ev r]\<rparr>))"

text \<open>An observation of the outside world, which leaves no trace.\<close>

definition observe :: "('n \<Rightarrow> ('x + 'a) \<times> 'n) \<Rightarrow> ('n, 'e, 'x, 'a) act" where
  "observe f s = (case f (world s) of (r, n) \<Rightarrow> (r, s\<lparr>world := n\<rparr>))"

fun for_each :: "('a \<Rightarrow> ('n, 'e, 'x, 'b) act) \<Rightarrow> 'a list \<Rightarrow> ('n, 'e, 'x, 'b list) act" where
  "for_each f [] = pure []"
| "for_each f (a # as) = bind (f a) (\<lambda>b. bind (for_each f as) (\<lambda>bs. pure (b # bs)))"

definition for_all :: "('a \<Rightarrow> ('n, 'e, 'x, unit) act) \<Rightarrow> 'a list \<Rightarrow> ('n, 'e, 'x, unit) act" where
  "for_all f as = bind (for_each f as) (\<lambda>_. pure ())"

section \<open>What an action guarantees\<close>

text \<open>
  \<open>ensures m Q E es\<close>: whatever the outside world answers, \<open>m\<close> run on the trace \<open>es\<close> returns a value
  that satisfies \<open>Q\<close> with the new trace, or throws one that satisfies \<open>E\<close> with it. The rules follow
  the structure of the action.
\<close>

named_theorems ensures "what an action guarantees, by its structure"

definition ensures ::
  "('n, 'e, 'x, 'a) act \<Rightarrow> ('a \<Rightarrow> 'e list \<Rightarrow> bool) \<Rightarrow> ('x \<Rightarrow> 'e list \<Rightarrow> bool) \<Rightarrow> 'e list \<Rightarrow> bool" where
  "ensures m Q E es \<longleftrightarrow>
     (\<forall>s. trace s = es \<longrightarrow> (case m s of (Inl x, t) \<Rightarrow> E x (trace t) | (Inr a, t) \<Rightarrow> Q a (trace t)))"

lemma ensures_pure [ensures]: "Q a es \<Longrightarrow> ensures (pure a) Q E es"
  by (simp add: ensures_def pure_def)

lemma ensures_raise [ensures]: "E x es \<Longrightarrow> ensures (raise x) Q E es"
  by (simp add: ensures_def raise_def)

lemma ensures_bind [ensures]:
  "ensures m (\<lambda>a. ensures (f a) Q E) E es \<Longrightarrow> ensures (bind m f) Q E es"
  by (fastforce simp: ensures_def bind_def split: prod.splits sum.splits)

lemma ensures_andThen [ensures]:
  "ensures m (\<lambda>_. ensures k Q E) E es \<Longrightarrow> ensures (andThen m k) Q E es"
  unfolding andThen_def by (rule ensures_bind)

lemma ensures_try_catch [ensures]:
  "ensures m Q (\<lambda>x. ensures (h x) Q E) es \<Longrightarrow> ensures (try_catch m h) Q E es"
  by (fastforce simp: ensures_def try_catch_def split: prod.splits sum.splits)

lemma ensures_try_finally [ensures]:
  "ensures m (\<lambda>a. ensures k (\<lambda>_. Q a) E) (\<lambda>x. ensures k (\<lambda>_. E x) E) es \<Longrightarrow>
    ensures (try_finally m k) Q E es"
  by (fastforce simp: ensures_def try_finally_def split: prod.splits sum.splits)

lemma ensures_require [ensures]:
  "(c \<Longrightarrow> Q () es) \<Longrightarrow> (\<not> c \<Longrightarrow> E x es) \<Longrightarrow> ensures (require c x) Q E es"
  by (simp add: require_def ensures_pure ensures_raise)

lemma ensures_external [ensures]:
  "(\<And>x. E x (es @ [ev (Inl x)])) \<Longrightarrow> (\<And>a. Q a (es @ [ev (Inr a)])) \<Longrightarrow>
    ensures (external ev f) Q E es"
  by (auto simp: ensures_def external_def split: prod.splits sum.splits)

lemma ensures_observe [ensures]:
  "(\<And>x. E x es) \<Longrightarrow> (\<And>a. Q a es) \<Longrightarrow> ensures (observe f) Q E es"
  by (auto simp: ensures_def observe_def split: prod.splits sum.splits)

lemma ensures_if [ensures]:
  "(c \<Longrightarrow> ensures m Q E es) \<Longrightarrow> (\<not> c \<Longrightarrow> ensures k Q E es) \<Longrightarrow> ensures (if c then m else k) Q E es"
  by simp

lemma ensures_Let [ensures]: "ensures (f v) Q E es \<Longrightarrow> ensures (let x = v in f x) Q E es"
  by simp

lemma ensures_option [ensures]:
  "(v = None \<Longrightarrow> ensures m Q E es) \<Longrightarrow> (\<And>a. v = Some a \<Longrightarrow> ensures (f a) Q E es) \<Longrightarrow>
    ensures (case v of None \<Rightarrow> m | Some a \<Rightarrow> f a) Q E es"
  by (cases v) simp_all

lemma ensures_sum [ensures]:
  "(\<And>a. v = Inl a \<Longrightarrow> ensures (g a) Q E es) \<Longrightarrow> (\<And>a. v = Inr a \<Longrightarrow> ensures (f a) Q E es) \<Longrightarrow>
    ensures (case v of Inl a \<Rightarrow> g a | Inr a \<Rightarrow> f a) Q E es"
  by (cases v) simp_all

lemma ensures_prod [ensures]:
  "(\<And>a b. v = (a, b) \<Longrightarrow> ensures (f a b) Q E es) \<Longrightarrow> ensures (case v of (a, b) \<Rightarrow> f a b) Q E es"
  by (cases v) simp_all

lemma ensures_mono:
  "ensures m Q E es \<Longrightarrow> (\<And>a fs. Q a fs \<Longrightarrow> Q' a fs) \<Longrightarrow> (\<And>x fs. E x fs \<Longrightarrow> E' x fs) \<Longrightarrow>
    ensures m Q' E' es"
  by (fastforce simp: ensures_def split: prod.splits sum.splits)

lemma ensures_conj:
  "ensures m Q E es \<Longrightarrow> ensures m Q' E' es \<Longrightarrow>
    ensures m (\<lambda>a fs. Q a fs \<and> Q' a fs) (\<lambda>x fs. E x fs \<and> E' x fs) es"
  by (fastforce simp: ensures_def split: prod.splits sum.splits)

lemma ensures_returns: "ensures m Q E (trace s) \<Longrightarrow> m s = (Inr a, t) \<Longrightarrow> Q a (trace t)"
  by (auto simp: ensures_def)

lemma ensures_throws: "ensures m Q E (trace s) \<Longrightarrow> m s = (Inl x, t) \<Longrightarrow> E x (trace t)"
  by (auto simp: ensures_def)

lemma ensures_run: "ensures m (\<lambda>_. Q) (\<lambda>_. Q) (trace s) \<Longrightarrow> m s = (r, t) \<Longrightarrow> Q (trace t)"
  by (cases r) (auto simp: ensures_def)

text \<open>The actions of a list, one after the other, keep an invariant of the trace.\<close>

lemma ensures_for_each:
  assumes "\<And>a es. a \<in> set as \<Longrightarrow> I es \<Longrightarrow> ensures (f a) (\<lambda>_. I) (\<lambda>_. I) es" "I es"
  shows "ensures (for_each f as) (\<lambda>_. I) (\<lambda>_. I) es"
  using assms
proof (induction as arbitrary: es)
  case Nil
  then show ?case by (simp add: ensures_pure)
next
  case (Cons a as)
  have rest: "ensures (bind (for_each f as) (\<lambda>bs. pure (b # bs))) (\<lambda>_. I) (\<lambda>_. I) fs"
    if "I fs" for b fs
  proof (rule ensures_bind, rule ensures_mono)
    show "ensures (for_each f as) (\<lambda>_. I) (\<lambda>_. I) fs"
      using Cons.IH Cons.prems(1) that by simp
  qed (simp_all add: ensures_pure)
  have "ensures (f a) (\<lambda>_. I) (\<lambda>_. I) es" using Cons.prems by simp
  from ensures_mono [OF this rest] show ?case by (simp add: ensures_bind)
qed

section \<open>Runs that returned\<close>

named_theorems runs "what a run that returned did, by the structure of its action"

lemma bind_returned [runs]:
  "bind m f s = (Inr b, t) \<longleftrightarrow> (\<exists>a u. m s = (Inr a, u) \<and> f a u = (Inr b, t))"
  by (auto simp: bind_def split: prod.splits sum.splits)

lemma andThen_returned [runs]:
  "andThen m k s = (Inr b, t) \<longleftrightarrow> (\<exists>u. m s = (Inr (), u) \<and> k u = (Inr b, t))"
  by (simp add: andThen_def bind_returned)

lemma pure_returned [runs]: "pure a s = (Inr b, t) \<longleftrightarrow> b = a \<and> t = s"
  by (auto simp: pure_def)

lemma raise_returned [runs]: "raise x s \<noteq> (Inr b, t)"
  by (simp add: raise_def)

lemma require_returned [runs]: "require c x s = (Inr b, t) \<longleftrightarrow> c \<and> t = s"
  by (auto simp: require_def pure_def raise_def)

lemma try_catch_returned [runs]:
  "try_catch m h s = (Inr b, t) \<longleftrightarrow>
    m s = (Inr b, t) \<or> (\<exists>x u. m s = (Inl x, u) \<and> h x u = (Inr b, t))"
  by (auto simp: try_catch_def split: prod.splits sum.splits)

lemma observe_returned [runs]:
  "observe f s = (Inr b, t) \<longleftrightarrow> (\<exists>n. f (world s) = (Inr b, n) \<and> t = s\<lparr>world := n\<rparr>)"
  by (auto simp: observe_def split: prod.splits)

lemma external_returned [runs]:
  "external ev f s = (Inr b, t) \<longleftrightarrow>
    (\<exists>n. f (world s) = (Inr b, n) \<and> t = s\<lparr>world := n, trace := trace s @ [ev (Inr b)]\<rparr>)"
  by (auto simp: external_def split: prod.splits)

end
