(* ===== verification/Quota.thy ===== *)
theory Quota
  imports Effects
begin

text \<open>
  \<open>apps/worker/src/storage\<close>: the XFS project quotas of the managed root. \<open>quota.ts\<close> builds the fixed
  commands and reads their answers; \<open>controller.ts\<close> decides whether quotas are enforced and puts a
  Workspace's directories under its two projects. Commands and file system calls are operations of
  the outside world; every command that ran and every \<open>statfs\<close> reading is in the trace. Numbers are
  naturals: the sizes are far below the integers a JavaScript number holds exactly.
\<close>

section \<open>The quota tool\<close>

record tool_result =
  tr_code :: "int option"
  tr_stdout :: string
  tr_stderr :: string

record quota_limit =
  ql_bytes :: nat
  ql_inodes :: nat

record fs_stats =
  st_bsize :: nat
  st_blocks :: nat
  st_bfree :: nat
  st_bavail :: nat
  st_files :: nat
  st_ffree :: nat

record project_usage =
  pu_used_bytes :: int
  pu_limit_bytes :: nat
  pu_used_inodes :: int
  pu_limit_inodes :: nat

datatype storage_code = Storage_Quota_Unenforced | Storage_Quota_Apply_Failed

datatype quota_thrown =
    Quota_Command_Error bool
  | Storage_Quota_Error storage_code bool
  | Other_Error

text \<open>A command that ran to its end, with its answer; a \<open>statfs\<close> reading of a directory.\<close>

datatype quota_event =
    Ran string "string list" tool_result
  | Not_Run string "string list"
  | Usage_Read string project_usage
  | Usage_Unread string

record storage_policy =
  sp_project_min :: nat
  sp_data_inodes :: nat
  sp_pi_bytes :: nat
  sp_pi_inodes :: nat

record 'n quota_env =
  qe_run :: "string \<Rightarrow> string list \<Rightarrow> nat \<Rightarrow> 'n \<Rightarrow> (quota_thrown + tool_result) \<times> 'n"
  qe_xfs_quota :: string
  qe_lsattr :: string
  qe_timeout :: nat
  qe_realpath :: "string \<Rightarrow> 'n \<Rightarrow> (quota_thrown + string) \<times> 'n"
  qe_mountinfo :: "'n \<Rightarrow> (quota_thrown + string) \<times> 'n"
  qe_statfs :: "string \<Rightarrow> 'n \<Rightarrow> (quota_thrown + fs_stats) \<times> 'n"
  qe_mkdir :: "string \<Rightarrow> 'n \<Rightarrow> (quota_thrown + unit) \<times> 'n"
  qe_root :: string
  qe_policy :: storage_policy

type_synonym ('n, 'a) quota_act = "('n, quota_event, quota_thrown, 'a) act"

definition safe_path_char :: "char \<Rightarrow> bool" where
  "safe_path_char c \<longleftrightarrow> is_digit c \<or> is_lower c \<or> is_upper c \<or> c \<in> set ''._/-''"

definition assertSafeQuotaPath :: "string \<Rightarrow> bool" where
  "assertSafeQuotaPath path \<longleftrightarrow>
     (case path of [] \<Rightarrow> False | c # rest \<Rightarrow> c = CHR ''/'' \<and> rest \<noteq> [] \<and> list_all safe_path_char rest) \<and>
     ''..'' \<notin> set (split_on CHR ''/'' path)"

definition MAX_PROJECT_ID :: nat where "MAX_PROJECT_ID = 2 ^ 32 - 2"

definition assertProjectId :: "nat \<Rightarrow> bool" where
  "assertProjectId projectId \<longleftrightarrow> 1 \<le> projectId \<and> projectId \<le> MAX_PROJECT_ID"

definition MAX_SAFE_INTEGER :: nat where "MAX_SAFE_INTEGER = 2 ^ 53 - 1"

definition assertLimit :: "quota_limit \<Rightarrow> bool" where
  "assertLimit limit \<longleftrightarrow> ql_bytes limit \<le> MAX_SAFE_INTEGER \<and> ql_inodes limit \<le> MAX_SAFE_INTEGER"

definition run_command :: "'n quota_env \<Rightarrow> string \<Rightarrow> string list \<Rightarrow> nat \<Rightarrow> ('n, tool_result) quota_act" where
  "run_command e file args timeout =
     external (\<lambda>r. case r of Inl _ \<Rightarrow> Not_Run file args | Inr result \<Rightarrow> Ran file args result)
       (qe_run e file args timeout)"

definition permission_denied :: "tool_result \<Rightarrow> bool" where
  "permission_denied result \<longleftrightarrow>
     contains_any [''operation not permitted'', ''permission denied''] (to_lower (tr_stderr result))"

text \<open>\<open>xfs_quota\<close> reports some failures on stderr only.\<close>

definition command_failed :: "tool_result \<Rightarrow> bool" where
  "command_failed result \<longleftrightarrow>
     tr_code result \<noteq> Some 0 \<or>
     contains_any [''permission denied'', ''operation not permitted'', ''cannot'', ''error'']
       (to_lower (tr_stderr result))"

definition xfsQuota :: "'n quota_env \<Rightarrow> string \<Rightarrow> string \<Rightarrow> ('n, unit) quota_act" where
  "xfsQuota e mountPoint command =
     bind (run_command e (qe_xfs_quota e) [''-x'', ''-c'', command, mountPoint] (qe_timeout e))
       (\<lambda>result. require (\<not> command_failed result) (Quota_Command_Error (permission_denied result)))"

definition project_command :: "string \<Rightarrow> nat \<Rightarrow> string" where
  "project_command directory projectId =
     ''project -s -p '' @ directory @ '' '' @ decimal projectId"

definition setProject :: "'n quota_env \<Rightarrow> string \<Rightarrow> string \<Rightarrow> nat \<Rightarrow> ('n, unit) quota_act" where
  "setProject e mountPoint directory projectId =
     andThen (require (assertSafeQuotaPath mountPoint) (Quota_Command_Error False))
     (andThen (require (assertSafeQuotaPath directory) (Quota_Command_Error False))
     (andThen (require (assertProjectId projectId) (Quota_Command_Error False))
     (xfsQuota e mountPoint (project_command directory projectId))))"

definition limit_command :: "nat \<Rightarrow> quota_limit \<Rightarrow> string" where
  "limit_command projectId limit =
     ''limit -p bsoft=0 bhard='' @ decimal (ql_bytes limit div 1024) @ ''k isoft=0 ihard='' @
     decimal (ql_inodes limit) @ '' '' @ decimal projectId"

definition setLimit :: "'n quota_env \<Rightarrow> string \<Rightarrow> nat \<Rightarrow> quota_limit \<Rightarrow> ('n, unit) quota_act" where
  "setLimit e mountPoint projectId limit =
     andThen (require (assertSafeQuotaPath mountPoint) (Quota_Command_Error False))
     (andThen (require (assertProjectId projectId) (Quota_Command_Error False))
     (andThen (require (assertLimit limit) (Quota_Command_Error False))
     (xfsQuota e mountPoint (limit_command projectId limit))))"

text \<open>
  \<open>^\s*(\d+)\s+(\S+)\s+(.+)$\<close> on trimmed output: digits, a word, and the rest of the one line.
\<close>

definition lsattr_fields :: "string \<Rightarrow> (string \<times> string \<times> string) option" where
  "lsattr_fields s =
     (let digits = takeWhile is_digit s;
          s1 = dropWhile is_digit s;
          flags = takeWhile (\<lambda>c. \<not> js_space c) (dropWhile js_space s1);
          s2 = dropWhile (\<lambda>c. \<not> js_space c) (dropWhile js_space s1);
          rest = dropWhile js_space s2
      in if digits = '''' \<or> (s1 \<noteq> '''' \<longrightarrow> \<not> js_space (hd s1)) \<or> flags = '''' \<or> rest = '''' \<or>
            CHR 0x0A \<in> set rest \<or> CHR 0x0D \<in> set rest
         then None else Some (digits, flags, rest))"

record project_attributes =
  pa_project :: nat
  pa_inherit :: bool

definition parse_lsattr :: "string \<Rightarrow> tool_result \<Rightarrow> project_attributes option" where
  "parse_lsattr directory result =
     (case lsattr_fields (trim (tr_stdout result)) of
        None \<Rightarrow> None
      | Some (digits, flags, path) \<Rightarrow>
          if path \<noteq> directory then None
          else Some \<lparr>pa_project = number_of digits, pa_inherit = CHR ''P'' \<in> set flags\<rparr>)"

definition readProject :: "'n quota_env \<Rightarrow> string \<Rightarrow> ('n, project_attributes) quota_act" where
  "readProject e directory =
     andThen (require (assertSafeQuotaPath directory) (Quota_Command_Error False))
     (bind (run_command e (qe_lsattr e) [''-pd'', directory] 10000) (\<lambda>result.
        if tr_code result \<noteq> Some 0 then raise (Quota_Command_Error (permission_denied result))
        else case parse_lsattr directory result of
               None \<Rightarrow> raise (Quota_Command_Error False)
             | Some attributes \<Rightarrow> pure attributes))"

section \<open>The mount table\<close>

record mount_entry =
  me_point :: string
  me_fs_type :: string
  me_options :: "string list"

definition octal_digit :: "char \<Rightarrow> bool" where
  "octal_digit c \<longleftrightarrow> c \<in> set ''01234567''"

text \<open>The kernel escapes single bytes, so an escape is at most \<open>\377\<close>.\<close>

fun unescapeMountField :: "string \<Rightarrow> string" where
  "unescapeMountField (a # b # c # d # s) =
     (if a = CHR 0x5C \<and> octal_digit b \<and> octal_digit c \<and> octal_digit d
      then char_of (64 * digit_value b + 8 * digit_value c + digit_value d) # unescapeMountField s
      else a # unescapeMountField (b # c # d # s))"
| "unescapeMountField s = s"

definition parse_mount_line :: "string \<Rightarrow> mount_entry option" where
  "parse_mount_line line =
     (case index_of '' - '' line of
        None \<Rightarrow> None
      | Some separator \<Rightarrow>
          let before = split_on CHR '' '' (take separator line);
              after = split_on CHR '' '' (drop (separator + 3) line)
          in if length before \<le> 4 then None
             else Some \<lparr>me_point = unescapeMountField (before ! 4), me_fs_type = hd after,
               me_options = split_on CHR '','' (if length after \<le> 2 then '''' else after ! 2)\<rparr>)"

definition parseMountInfo :: "string \<Rightarrow> mount_entry list" where
  "parseMountInfo contents = List.map_filter parse_mount_line (split_on CHR 0x0A contents)"

section \<open>The controller\<close>

record quota_status =
  wss_enforced :: bool
  wss_fs_type :: "string option"
  wss_total :: "nat option"
  wss_free :: "nat option"

record storage_controller =
  sc_status :: quota_status
  sc_mount :: "string option"
  sc_probed :: bool

definition new_storage_controller :: storage_controller where
  "new_storage_controller =
     \<lparr>sc_status = \<lparr>wss_enforced = False, wss_fs_type = None, wss_total = None, wss_free = None\<rparr>,
      sc_mount = None, sc_probed = False\<rparr>"

definition storage_isEnforced :: "storage_controller \<Rightarrow> bool" where
  "storage_isEnforced c \<longleftrightarrow> wss_enforced (sc_status c)"

definition project_usage_of :: "fs_stats \<Rightarrow> project_usage" where
  "project_usage_of stats =
     \<lparr>pu_used_bytes = (int (st_blocks stats) - int (st_bfree stats)) * int (st_bsize stats),
      pu_limit_bytes = st_blocks stats * st_bsize stats,
      pu_used_inodes = int (st_files stats) - int (st_ffree stats),
      pu_limit_inodes = st_files stats\<rparr>"

definition storage_usage :: "'n quota_env \<Rightarrow> string \<Rightarrow> ('n, project_usage) quota_act" where
  "storage_usage e directory =
     external (\<lambda>r. case r of Inl _ \<Rightarrow> Usage_Unread directory | Inr u \<Rightarrow> Usage_Read directory u)
       (\<lambda>n. case qe_statfs e directory n of
          (Inl x, m) \<Rightarrow> (Inl x, m) | (Inr stats, m) \<Rightarrow> (Inr (project_usage_of stats), m))"

definition PROBE_LIMIT :: quota_limit where
  "PROBE_LIMIT = \<lparr>ql_bytes = 64 * 1024 * 1024, ql_inodes = 64\<rparr>"

definition probe :: "'n quota_env \<Rightarrow> string \<Rightarrow> ('n, unit) quota_act" where
  "probe e managedRoot =
     (let directory = managedRoot @ ''/quota-probe''; projectId = sp_project_min (qe_policy e) in
      andThen (observe (qe_mkdir e directory))
      (andThen (setProject e managedRoot directory projectId)
      (andThen (setLimit e managedRoot projectId PROBE_LIMIT)
      (bind (storage_usage e directory) (\<lambda>usage.
         require (pu_limit_bytes usage = ql_bytes PROBE_LIMIT \<and>
                  pu_limit_inodes usage = ql_inodes PROBE_LIMIT) Other_Error)))))"

definition fs_type_char :: "char \<Rightarrow> bool" where
  "fs_type_char c \<longleftrightarrow> is_lower c \<or> is_digit c \<or> c \<in> set ''_.-''"

definition reported_fs_type :: "mount_entry option \<Rightarrow> string option" where
  "reported_fs_type mount =
     (case mount of
        None \<Rightarrow> None
      | Some m \<Rightarrow>
          let fsType = filter fs_type_char (take 32 (me_fs_type m)) in
          if fsType = '''' then None else Some fsType)"

definition quota_mount :: "mount_entry option \<Rightarrow> bool" where
  "quota_mount mount \<longleftrightarrow>
     (case mount of
        None \<Rightarrow> False
      | Some m \<Rightarrow> me_fs_type m = ''xfs'' \<and> ''prjquota'' \<in> set (me_options m) \<and>
                  ''pqnoenforce'' \<notin> set (me_options m))"

definition last_mount :: "string \<Rightarrow> mount_entry list \<Rightarrow> mount_entry option" where
  "last_mount managedRoot mounts = first_row (rev (filter (\<lambda>m. me_point m = managedRoot) mounts))"

text \<open>What \<open>check\<close> does after the status of the mount was read; logging is left out.\<close>

definition check_mount ::
  "'n quota_env \<Rightarrow> storage_controller \<Rightarrow> string \<Rightarrow> mount_entry option \<Rightarrow> fs_stats
   \<Rightarrow> ('n, storage_controller) quota_act" where
  "check_mount e c managedRoot mount stats =
     (let status = \<lparr>wss_enforced = False, wss_fs_type = reported_fs_type mount,
                    wss_total = Some (st_blocks stats * st_bsize stats),
                    wss_free = Some (st_bavail stats * st_bsize stats)\<rparr>;
          c1 = c\<lparr>sc_mount := Some managedRoot\<rparr>
      in if \<not> quota_mount mount then pure (c\<lparr>sc_status := status, sc_probed := False\<rparr>)
         else try_catch
           (andThen (if sc_probed c then pure () else probe e managedRoot)
              (pure (c1\<lparr>sc_status := status\<lparr>wss_enforced := True\<rparr>, sc_probed := True\<rparr>)))
           (\<lambda>_. pure (c1\<lparr>sc_status := (sc_status c)\<lparr>wss_enforced := False\<rparr>, sc_probed := False\<rparr>)))"

definition storage_check ::
  "'n quota_env \<Rightarrow> storage_controller \<Rightarrow> ('n, storage_controller) quota_act" where
  "storage_check e c =
     try_catch
       (bind (observe (qe_realpath e (qe_root e))) (\<lambda>managedRoot.
        bind (observe (qe_mountinfo e)) (\<lambda>contents.
        bind (observe (qe_statfs e managedRoot)) (\<lambda>stats.
          check_mount e c managedRoot (last_mount managedRoot (parseMountInfo contents)) stats))))
       (\<lambda>_. pure (c\<lparr>sc_status := (sc_status c)\<lparr>wss_enforced := False\<rparr>, sc_probed := False\<rparr>))"

definition requireMount :: "storage_controller \<Rightarrow> ('n, string) quota_act" where
  "requireMount c =
     (case sc_mount c of
        None \<Rightarrow> raise (Storage_Quota_Error Storage_Quota_Unenforced False)
      | Some mount \<Rightarrow>
          if storage_isEnforced c then pure mount
          else raise (Storage_Quota_Error Storage_Quota_Unenforced False))"

record workspace_quota =
  wq_data_project :: nat
  wq_pi_project :: nat

record quota_directories =
  qd_workspace :: string
  qd_home :: string
  qd_tmp :: string
  qd_pi :: string

definition close_to :: "nat \<Rightarrow> nat \<Rightarrow> bool" where
  "close_to actual expected \<longleftrightarrow> \<bar>int actual - int expected\<bar> < 64 * 1024"

definition limits_took_effect ::
  "storage_policy \<Rightarrow> nat \<Rightarrow> project_usage \<Rightarrow> project_usage \<Rightarrow> bool" where
  "limits_took_effect policy dataLimitBytes data pi_usage \<longleftrightarrow>
     close_to (pu_limit_bytes data) dataLimitBytes \<and>
     pu_limit_inodes data = sp_data_inodes policy \<and>
     close_to (pu_limit_bytes pi_usage) (sp_pi_bytes policy) \<and>
     pu_limit_inodes pi_usage = sp_pi_inodes policy"

definition applyLimits ::
  "'n quota_env \<Rightarrow> string \<Rightarrow> quota_directories \<Rightarrow> workspace_quota \<Rightarrow> nat \<Rightarrow> ('n, unit) quota_act" where
  "applyLimits e mount directories quota dataLimitBytes =
     andThen (setLimit e mount (wq_data_project quota)
                \<lparr>ql_bytes = dataLimitBytes, ql_inodes = sp_data_inodes (qe_policy e)\<rparr>)
     (andThen (setLimit e mount (wq_pi_project quota)
                \<lparr>ql_bytes = sp_pi_bytes (qe_policy e), ql_inodes = sp_pi_inodes (qe_policy e)\<rparr>)
     (bind (storage_usage e (qd_workspace directories)) (\<lambda>data.
      bind (storage_usage e (qd_pi directories)) (\<lambda>pi_usage.
        require (limits_took_effect (qe_policy e) dataLimitBytes data pi_usage)
          (Storage_Quota_Error Storage_Quota_Apply_Failed True)))))"

text \<open>A failure of the quota tool is reported as the limit not having been applied.\<close>

definition as_storage_error :: "quota_thrown \<Rightarrow> quota_thrown" where
  "as_storage_error x =
     (case x of Storage_Quota_Error _ _ \<Rightarrow> x | _ \<Rightarrow> Storage_Quota_Error Storage_Quota_Apply_Failed True)"

definition tag_directory :: "'n quota_env \<Rightarrow> string \<Rightarrow> string \<times> nat \<Rightarrow> ('n, unit) quota_act" where
  "tag_directory e mount assignment =
     (case assignment of (directory, projectId) \<Rightarrow>
        bind (readProject e directory) (\<lambda>current.
          if pa_project current \<noteq> projectId \<or> \<not> pa_inherit current
          then setProject e mount directory projectId else pure ()))"

definition project_assignments :: "quota_directories \<Rightarrow> workspace_quota \<Rightarrow> (string \<times> nat) list" where
  "project_assignments directories quota =
     [(qd_workspace directories, wq_data_project quota), (qd_home directories, wq_data_project quota),
      (qd_tmp directories, wq_data_project quota), (qd_pi directories, wq_pi_project quota)]"

definition prepareWorkspace ::
  "'n quota_env \<Rightarrow> storage_controller \<Rightarrow> quota_directories \<Rightarrow> workspace_quota \<Rightarrow> nat
   \<Rightarrow> ('n, unit) quota_act" where
  "prepareWorkspace e c directories quota dataLimitBytes =
     bind (requireMount c) (\<lambda>mount.
       try_catch
         (andThen (for_all (tag_directory e mount) (project_assignments directories quota))
            (applyLimits e mount directories quota dataLimitBytes))
         (\<lambda>x. raise (as_storage_error x)))"

definition setDataLimit ::
  "'n quota_env \<Rightarrow> storage_controller \<Rightarrow> quota_directories \<Rightarrow> workspace_quota \<Rightarrow> nat
   \<Rightarrow> ('n, project_usage) quota_act" where
  "setDataLimit e c directories quota dataLimitBytes =
     bind (requireMount c) (\<lambda>mount.
       try_catch
         (andThen (applyLimits e mount directories quota dataLimitBytes)
            (storage_usage e (qd_workspace directories)))
         (\<lambda>x. raise (as_storage_error x)))"

definition releaseWorkspace ::
  "'n quota_env \<Rightarrow> storage_controller \<Rightarrow> workspace_quota \<Rightarrow> ('n, unit) quota_act" where
  "releaseWorkspace e c quota =
     bind (requireMount c) (\<lambda>mount.
       for_all (\<lambda>projectId. setLimit e mount projectId \<lparr>ql_bytes = 0, ql_inodes = 0\<rparr>)
         [wq_data_project quota, wq_pi_project quota])"

section \<open>What preparing a Workspace does\<close>

text \<open>
  A directory carries a project once \<open>lsattr\<close> showed the project with its inherit flag, or
  \<open>xfs_quota\<close> tagged the tree; a limit is set once \<open>xfs_quota\<close> accepted it.
\<close>

definition ran_ok :: "'n quota_env \<Rightarrow> string \<Rightarrow> string \<Rightarrow> quota_event list \<Rightarrow> bool" where
  "ran_ok e mount command es \<longleftrightarrow>
     (\<exists>result. Ran (qe_xfs_quota e) [''-x'', ''-c'', command, mount] result \<in> set es \<and>
        \<not> command_failed result)"

definition carries_project :: "'n quota_env \<Rightarrow> string \<Rightarrow> quota_event list \<Rightarrow> string \<times> nat \<Rightarrow> bool" where
  "carries_project e mount es a \<longleftrightarrow>
     (\<exists>result. Ran (qe_lsattr e) [''-pd'', fst a] result \<in> set es \<and>
        parse_lsattr (fst a) result = Some \<lparr>pa_project = snd a, pa_inherit = True\<rparr>) \<or>
     ran_ok e mount (project_command (fst a) (snd a)) es"

lemma ran_ok_append [simp]: "ran_ok e m c es \<Longrightarrow> ran_ok e m c (es @ fs)"
  by (auto simp: ran_ok_def)

lemma carries_append [simp]: "carries_project e m es a \<Longrightarrow> carries_project e m (es @ fs) a"
  by (auto simp: carries_project_def)

lemma xfsQuota_ensures:
  assumes "\<And>x new. E x (es @ new)" "\<And>new. ran_ok e m c (es @ new) \<Longrightarrow> Q () (es @ new)"
  shows "ensures (xfsQuota e m c) Q E es"
  unfolding xfsQuota_def run_command_def
  by (intro ensures) (auto simp: assms(1) intro!: assms(2), auto simp: ran_ok_def)

lemma setProject_ensures:
  assumes "\<And>x new. E x (es @ new)"
    "\<And>new. ran_ok e m (project_command d p) (es @ new) \<Longrightarrow> Q () (es @ new)"
  shows "ensures (setProject e m d p) Q E es"
  unfolding setProject_def
  using assms(1) [of _ "[]"] by (intro ensures xfsQuota_ensures) (auto simp: assms)

lemma setLimit_ensures:
  assumes "\<And>x new. E x (es @ new)"
    "\<And>new. ran_ok e m (limit_command p l) (es @ new) \<Longrightarrow> Q () (es @ new)"
  shows "ensures (setLimit e m p l) Q E es"
  unfolding setLimit_def
  using assms(1) [of _ "[]"] by (intro ensures xfsQuota_ensures) (auto simp: assms)

lemma tag_ensures:
  assumes "\<And>x new. E x (es @ new)" "\<And>new. carries_project e m (es @ new) a \<Longrightarrow> Q () (es @ new)"
  shows "ensures (tag_directory e m a) Q E es"
proof -
  obtain d p where a: "a = (d, p)" by fastforce
  have read: "Q () (es @ [Ran (qe_lsattr e) [''-pd'', d] r])"
    if "parse_lsattr d r = Some current" "\<not> (pa_project current \<noteq> p \<or> \<not> pa_inherit current)" for r current
    using that by (intro assms(2)) (cases current; auto simp: carries_project_def a)
  have set: "Q () (es @ new)" if "ran_ok e m (project_command d p) (es @ new)" for new
    using assms(2) that by (simp add: carries_project_def a)
  show ?thesis
    unfolding a tag_directory_def readProject_def run_command_def prod.case
    using assms(1) [of _ "[]"] assms(1)
    by (intro ensures setProject_ensures) (auto simp: read intro: set)
qed

lemma applyLimits_ensures:
  assumes "\<And>x new. E x (es @ new)"
    "\<And>new data pi_usage. ran_ok e m (limit_command (wq_data_project q)
        \<lparr>ql_bytes = limit, ql_inodes = sp_data_inodes (qe_policy e)\<rparr>) (es @ new) \<Longrightarrow>
      ran_ok e m (limit_command (wq_pi_project q)
        \<lparr>ql_bytes = sp_pi_bytes (qe_policy e), ql_inodes = sp_pi_inodes (qe_policy e)\<rparr>) (es @ new) \<Longrightarrow>
      limits_took_effect (qe_policy e) limit data pi_usage \<Longrightarrow>
      Q () (es @ new @ [Usage_Read (qd_workspace dirs) data, Usage_Read (qd_pi dirs) pi_usage])"
  shows "ensures (applyLimits e m dirs q limit) Q E es"
proof -
  have final: "Q () (es @ new @ more @
      [Usage_Read (qd_workspace dirs) data, Usage_Read (qd_pi dirs) pi_usage])"
    if "ran_ok e m (limit_command (wq_data_project q)
        \<lparr>ql_bytes = limit, ql_inodes = sp_data_inodes (qe_policy e)\<rparr>) (es @ new)"
      "ran_ok e m (limit_command (wq_pi_project q)
        \<lparr>ql_bytes = sp_pi_bytes (qe_policy e), ql_inodes = sp_pi_inodes (qe_policy e)\<rparr>)
        (es @ new @ more)"
      "limits_took_effect (qe_policy e) limit data pi_usage" for new more data pi_usage
    using assms(2) [of "new @ more"] ran_ok_append [OF that(1), of more] that(2,3) by simp
  show ?thesis
    unfolding applyLimits_def storage_usage_def
    by (intro ensures setLimit_ensures) (simp_all add: assms(1) final)
qed

definition prepared ::
  "'n quota_env \<Rightarrow> string \<Rightarrow> quota_directories \<Rightarrow> workspace_quota \<Rightarrow> nat \<Rightarrow> quota_event list \<Rightarrow> bool" where
  "prepared e mount dirs quota limit es \<longleftrightarrow>
     list_all (carries_project e mount es) (project_assignments dirs quota) \<and>
     ran_ok e mount (limit_command (wq_data_project quota)
       \<lparr>ql_bytes = limit, ql_inodes = sp_data_inodes (qe_policy e)\<rparr>) es \<and>
     ran_ok e mount (limit_command (wq_pi_project quota)
       \<lparr>ql_bytes = sp_pi_bytes (qe_policy e), ql_inodes = sp_pi_inodes (qe_policy e)\<rparr>) es \<and>
     (\<exists>done data pi_usage. es = done @ [Usage_Read (qd_workspace dirs) data, Usage_Read (qd_pi dirs) pi_usage] \<and>
        \<bar>int (pu_limit_bytes data) - int limit\<bar> < 65536 \<and>
        pu_limit_inodes data = sp_data_inodes (qe_policy e) \<and>
        \<bar>int (pu_limit_bytes pi_usage) - int (sp_pi_bytes (qe_policy e))\<bar> < 65536 \<and>
        pu_limit_inodes pi_usage = sp_pi_inodes (qe_policy e))"

text \<open>The four directories one after the other, the trace only growing.\<close>

lemma tag_all_ensures:
  assumes "\<And>x new. E x (es @ new)"
    "\<And>new. list_all (carries_project e m (es @ new)) as \<Longrightarrow> Q () (es @ new)"
  shows "ensures (for_all (tag_directory e m) as) Q E es"
proof -
  have each: "ensures (for_each (tag_directory e m) as)
      (\<lambda>_ fs. \<exists>new. fs = gs @ new \<and> list_all (carries_project e m fs) as) (\<lambda>_ fs. \<exists>new. fs = gs @ new) gs"
    for gs
  proof (induction as arbitrary: gs)
    case Nil
    then show ?case by (simp add: ensures_pure)
  next
    case (Cons a as)
    have rest: "ensures (bind (for_each (tag_directory e m) as) (\<lambda>bs. pure (b # bs)))
        (\<lambda>_ fs. \<exists>new. fs = gs @ new \<and> list_all (carries_project e m fs) (a # as))
        (\<lambda>_ fs. \<exists>new. fs = gs @ new) (gs @ seen)"
      if "carries_project e m (gs @ seen) a" for b seen
    proof (rule ensures_bind, rule ensures_mono [OF Cons.IH])
      fix fs bs
      assume "\<exists>new. fs = (gs @ seen) @ new \<and> list_all (carries_project e m fs) as"
      then obtain new where fs: "fs = (gs @ seen) @ new" "list_all (carries_project e m fs) as" by blast
      then have "fs = gs @ (seen @ new) \<and> list_all (carries_project e m fs) (a # as)"
        using carries_append [OF that, of new] by simp
      then show "ensures (pure (b # bs)) (\<lambda>_ fs. \<exists>new. fs = gs @ new \<and>
          list_all (carries_project e m fs) (a # as)) (\<lambda>_ fs. \<exists>new. fs = gs @ new) fs"
        by (intro ensures_pure exI [of _ "seen @ new"])
    next
      fix fs x
      assume "\<exists>new. fs = (gs @ seen) @ new"
      then show "\<exists>new. fs = gs @ new" by auto
    qed
    show ?case unfolding for_each.simps
      by (rule ensures_bind, rule tag_ensures) (blast, erule rest)
  qed
  show ?thesis
    unfolding for_all_def
    by (intro ensures_bind ensures_mono [OF each [of es]]) (auto intro!: ensures_pure assms)
qed

lemma prepareWorkspace_ensures:
  assumes "sc_mount c = Some m" "storage_isEnforced c"
  shows "ensures (prepareWorkspace e c dirs q limit) (\<lambda>_. prepared e m dirs q limit) (\<lambda>_ _. True) es"
proof -
  have final: "prepared e m dirs q limit
      (es @ new @ more @ [Usage_Read (qd_workspace dirs) data, Usage_Read (qd_pi dirs) pi_usage])"
    if "list_all (carries_project e m (es @ new)) (project_assignments dirs q)"
      "ran_ok e m (limit_command (wq_data_project q)
        \<lparr>ql_bytes = limit, ql_inodes = sp_data_inodes (qe_policy e)\<rparr>) (es @ new @ more)"
      "ran_ok e m (limit_command (wq_pi_project q)
        \<lparr>ql_bytes = sp_pi_bytes (qe_policy e), ql_inodes = sp_pi_inodes (qe_policy e)\<rparr>)
        (es @ new @ more)"
      "limits_took_effect (qe_policy e) limit data pi_usage" for new more data pi_usage
  proof -
    have grow: "carries_project e m (es @ new) a \<Longrightarrow> carries_project e m ((es @ new) @ fs) a" for fs a
      by (rule carries_append)
    show ?thesis
      unfolding prepared_def
      using that(1) that(4) grow ran_ok_append [OF that(2)] ran_ok_append [OF that(3)]
      by (intro conjI exI [of _ "es @ new @ more"])
        (auto simp: list_all_iff limits_took_effect_def close_to_def)
  qed
  have mount: "requireMount c = pure m" using assms by (simp add: requireMount_def)
  show ?thesis
    unfolding prepareWorkspace_def mount
    by (intro ensures tag_all_ensures applyLimits_ensures TrueI) (simp add: final)
qed

section \<open>What an enforced status stands for\<close>

lemma last_mount_Some:
  "last_mount managedRoot mounts = Some m \<Longrightarrow>
    \<exists>before after. mounts = before @ m # after \<and> me_point m = managedRoot \<and>
      managedRoot \<notin> me_point ` set after"
proof (induction mounts rule: rev_induct)
  case Nil
  then show ?case by (simp add: last_mount_def)
next
  case (snoc x xs)
  show ?case
  proof (cases "me_point x = managedRoot")
    case True
    with snoc.prems have "x = m" by (simp add: last_mount_def)
    with True show ?thesis by (intro exI [of _ xs] exI [of _ "[]"]) simp
  next
    case False
    with snoc.prems have "last_mount managedRoot xs = Some m" by (simp add: last_mount_def)
    from snoc.IH [OF this] obtain before after where
        "xs = before @ m # after" "me_point m = managedRoot" "managedRoot \<notin> me_point ` set after"
      by blast
    with False show ?thesis by (intro exI [of _ before] exI [of _ "after @ [x]"]) simp
  qed
qed

definition probe_read_back :: "string \<Rightarrow> quota_event list \<Rightarrow> bool" where
  "probe_read_back managedRoot es \<longleftrightarrow>
     (\<exists>usage. Usage_Read (managedRoot @ ''/quota-probe'') usage \<in> set es \<and>
        pu_limit_bytes usage = 64 * 1024 * 1024 \<and> pu_limit_inodes usage = 64)"

lemma probe_ensures:
  "ensures (probe e managedRoot) (\<lambda>_. probe_read_back managedRoot) (\<lambda>_ _. True) es"
  unfolding probe_def storage_usage_def Let_def
  by (intro ensures setProject_ensures setLimit_ensures TrueI)
    (auto simp: probe_read_back_def PROBE_LIMIT_def)

lemma check_mount_enforced:
  assumes "check_mount e c managedRoot mount stats s = (Inr c', t)" "storage_isEnforced c'" "trace s = []"
  shows "quota_mount mount \<and> sc_mount c' = Some managedRoot \<and> sc_probed c' \<and>
    (sc_probed c \<or> probe_read_back managedRoot (trace t))"
proof -
  have "ensures (check_mount e c managedRoot mount stats)
      (\<lambda>c' es. storage_isEnforced c' \<longrightarrow> quota_mount mount \<and> sc_mount c' = Some managedRoot \<and> sc_probed c' \<and>
         (sc_probed c \<or> probe_read_back managedRoot es)) (\<lambda>_ _. True) []"
    unfolding check_mount_def Let_def
    by (intro ensures_if ensures_pure ensures_try_catch ensures_andThen ensures_mono [OF probe_ensures])
      (simp_all add: storage_isEnforced_def)
  from ensures_returns [OF this [folded assms(3)] assms(1)] assms(2) show ?thesis by blast
qed


text \<open>C28. When preparing a Workspace returns, each of its four directories carries its project (read
  back with the inherit flag, or tagged), both limits were set with the requested bytes and the
  policy's inodes, and the last readings of both trees show limits that took effect.\<close>

theorem prepared_directories_are_limited:
  assumes "sc_mount c = Some m" "storage_isEnforced c" "trace s = []"
    "prepareWorkspace e c dirs q limit s = (Inr (), t)"
  shows "prepared e m dirs q limit (trace t)"
  using ensures_returns [OF prepareWorkspace_ensures [OF assms(1,2)] assms(4)] assms(3) by simp

section \<open>A concrete Worker\<close>

text \<open>Quotas on \<open>/w\<close>: \<open>lsattr\<close> shows project 5 with its flag everywhere, commands succeed.\<close>

definition quiet_ok :: "string \<Rightarrow> tool_result" where
  "quiet_ok out = \<lparr>tr_code = Some 0, tr_stdout = out, tr_stderr = ''''\<rparr>"

definition demo_stats :: "string \<Rightarrow> fs_stats" where
  "demo_stats path =
     (if ends_with ''/pi'' path then
        \<lparr>st_bsize = 4096, st_blocks = 256, st_bfree = 200, st_bavail = 200, st_files = 64, st_ffree = 60\<rparr>
      else
        \<lparr>st_bsize = 4096, st_blocks = 16384, st_bfree = 10000, st_bavail = 10000, st_files = 64, st_ffree = 60\<rparr>)"

definition demo_quota_env :: "unit quota_env" where
  "demo_quota_env =
     \<lparr>qe_run = \<lambda>file args timeout n. (Inr (quiet_ok
          (if file = ''lsattr'' then ''5 -----P-- '' @ last args else '''')), n),
      qe_xfs_quota = ''xfs_quota'', qe_lsattr = ''lsattr'', qe_timeout = 600000,
      qe_realpath = \<lambda>path n. (Inr path, n),
      qe_mountinfo = \<lambda>n. (Inr ''20 1 8:1 / /w rw - xfs /dev/sda1 rw,prjquota'', n),
      qe_statfs = \<lambda>path n. (Inr (demo_stats path), n),
      qe_mkdir = \<lambda>path n. (Inr (), n),
      qe_root = ''/w'',
      qe_policy = \<lparr>sp_project_min = 4, sp_data_inodes = 64, sp_pi_bytes = 1048576, sp_pi_inodes = 64\<rparr>\<rparr>"

definition demo_quota_start :: "(unit, quota_event) outside" where
  "demo_quota_start = \<lparr>world = (), trace = []\<rparr>"

lemmas quota_demo_defs = demo_quota_env_def demo_quota_start_def quiet_ok_def demo_stats_def

lemmas char_class_defs = safe_path_char_def is_digit_def is_lower_def is_upper_def fs_type_char_def
  octal_digit_def digit_value_def

lemma demo_mounts:
  "parseMountInfo ''20 1 8:1 / /w rw - xfs /dev/sda1 rw,prjquota'' =
    [\<lparr>me_point = ''/w'', me_fs_type = ''xfs'', me_options = [''rw'', ''prjquota'']\<rparr>]"
  by (simp add: parseMountInfo_def parse_mount_line_def List.map_filter_def starts_with_def
      octal_digit_def Let_def)

lemma demo_safe [simp]:
  "assertSafeQuotaPath ''/w''" "assertSafeQuotaPath ''/w/quota-probe''"
  "assertSafeQuotaPath ''/w/a/workspace''" "assertSafeQuotaPath ''/w/a/home''"
  "assertSafeQuotaPath ''/w/a/tmp''" "assertSafeQuotaPath ''/w/a/pi''"
  by (simp_all add: assertSafeQuotaPath_def char_class_defs)

definition demo_directories :: quota_directories where
  "demo_directories =
     \<lparr>qd_workspace = ''/w/a/workspace'', qd_home = ''/w/a/home'', qd_tmp = ''/w/a/tmp'', qd_pi = ''/w/a/pi''\<rparr>"

definition demo_enforced :: storage_controller where
  "demo_enforced = new_storage_controller\<lparr>
     sc_status := (sc_status new_storage_controller)\<lparr>wss_enforced := True\<rparr>, sc_mount := Some ''/w'', sc_probed := True\<rparr>"

lemma demo_lsattr [simp]:
  "parse_lsattr ''/w/a/workspace'' (quiet_ok ''5 -----P-- /w/a/workspace'') =
     Some \<lparr>pa_project = 5, pa_inherit = True\<rparr>"
  "parse_lsattr ''/w/a/home'' (quiet_ok ''5 -----P-- /w/a/home'') = Some \<lparr>pa_project = 5, pa_inherit = True\<rparr>"
  "parse_lsattr ''/w/a/tmp'' (quiet_ok ''5 -----P-- /w/a/tmp'') = Some \<lparr>pa_project = 5, pa_inherit = True\<rparr>"
  "parse_lsattr ''/w/a/pi'' (quiet_ok ''5 -----P-- /w/a/pi'') = Some \<lparr>pa_project = 5, pa_inherit = True\<rparr>"
  by (simp_all add: parse_lsattr_def lsattr_fields_def quiet_ok_def trim_def js_space_def char_class_defs
      number_of_def Let_def)

lemma quiet_ok_succeeds [simp]: "tr_code (quiet_ok out) = Some 0" "\<not> command_failed (quiet_ok out)"
  by (simp_all add: quiet_ok_def command_failed_def to_lower_def contains_any_def contains_text_def
      starts_with_def)

lemma demo_env_fields [simp]:
  "qe_run demo_quota_env file args timeout n = (Inr (quiet_ok
     (if file = ''lsattr'' then ''5 -----P-- '' @ last args else '''')), n)"
  "qe_xfs_quota demo_quota_env = ''xfs_quota''" "qe_lsattr demo_quota_env = ''lsattr''"
  "qe_realpath demo_quota_env path n = (Inr path, n)"
  "qe_mountinfo demo_quota_env n = (Inr ''20 1 8:1 / /w rw - xfs /dev/sda1 rw,prjquota'', n)"
  "qe_statfs demo_quota_env path n = (Inr (demo_stats path), n)"
  "qe_mkdir demo_quota_env path n = (Inr (), n)" "qe_root demo_quota_env = ''/w''"
  "sp_project_min (qe_policy demo_quota_env) = 4" "sp_data_inodes (qe_policy demo_quota_env) = 64"
  "sp_pi_bytes (qe_policy demo_quota_env) = 1048576" "sp_pi_inodes (qe_policy demo_quota_env) = 64"
  by (simp_all add: demo_quota_env_def)

lemma demo_usage [simp]:
  "project_usage_of (demo_stats ''/w/quota-probe'') = \<lparr>pu_used_bytes = 26148864,
     pu_limit_bytes = 67108864, pu_used_inodes = 4, pu_limit_inodes = 64\<rparr>"
  "project_usage_of (demo_stats ''/w/a/workspace'') = \<lparr>pu_used_bytes = 26148864,
     pu_limit_bytes = 67108864, pu_used_inodes = 4, pu_limit_inodes = 64\<rparr>"
  "project_usage_of (demo_stats ''/w/a/pi'') = \<lparr>pu_used_bytes = 229376,
     pu_limit_bytes = 1048576, pu_used_inodes = 4, pu_limit_inodes = 64\<rparr>"
  by (simp_all add: project_usage_of_def demo_stats_def ends_with_def)

lemmas action_defs = pure_def raise_def bind_def andThen_def try_catch_def require_def external_def
  observe_def

lemmas quota_action_defs = action_defs run_command_def xfsQuota_def setProject_def setLimit_def
  readProject_def storage_usage_def applyLimits_def for_all_def tag_directory_def
  project_assignments_def requireMount_def

lemma demo_checked:
  "\<exists>c' t. storage_check demo_quota_env new_storage_controller demo_quota_start = (Inr c', t) \<and>
    storage_isEnforced c'"
  by (simp add: storage_check_def check_mount_def probe_def quota_action_defs demo_mounts
      last_mount_def quota_mount_def new_storage_controller_def storage_isEnforced_def PROBE_LIMIT_def
      assertProjectId_def MAX_PROJECT_ID_def assertLimit_def MAX_SAFE_INTEGER_def Let_def)

lemma demo_quota_prepared:
  "\<exists>t. prepareWorkspace demo_quota_env demo_enforced demo_directories
     \<lparr>wq_data_project = 5, wq_pi_project = 6\<rparr> 67108864 demo_quota_start = (Inr (), t)"
  by (simp add: prepareWorkspace_def quota_action_defs demo_enforced_def demo_directories_def
      storage_isEnforced_def assertProjectId_def MAX_PROJECT_ID_def assertLimit_def MAX_SAFE_INTEGER_def
      limits_took_effect_def close_to_def)


theorem prepared_directories_are_limited_witness:
  "\<exists>t :: (unit, quota_event) outside. prepared demo_quota_env ''/w'' demo_directories \<lparr>wq_data_project = 5, wq_pi_project = 6\<rparr>
     67108864 (trace t)"
proof -
  obtain t where "prepareWorkspace demo_quota_env demo_enforced demo_directories
      \<lparr>wq_data_project = 5, wq_pi_project = 6\<rparr> 67108864 demo_quota_start = (Inr (), t)"
    using demo_quota_prepared by blast
  from prepared_directories_are_limited [OF _ _ _ this, of "''/w''"] show ?thesis
    by (auto simp: demo_enforced_def storage_isEnforced_def demo_quota_start_def)
qed

end
