(* ===== verification/Containers.thy ===== *)
theory Containers
  imports Ruleset Quota
begin

text \<open>
  \<open>apps/worker/src/runtime.ts\<close>, part one: what the Worker knows about a Workspace's container, network
  and metadata file, and the checks it makes on them. An inspection is the part of the Docker answer
  that the code reads. A check returns its verdict or what it throws; messages are left out. JavaScript
  objects are association lists, an absent property is \<open>None\<close>. A resource limit is the rational the
  JavaScript number denotes.
\<close>

section \<open>Errors\<close>

datatype runtime_code =
    Workspace_Not_Managed | Workspace_Metadata_Mismatch | Unmanaged_Container_Conflict
  | Unmanaged_Network_Conflict | Runtime_Configuration_Mismatch | Runtime_Start_Failed
  | Runtime_Not_Ready | Runtime_Engine_Error | Egress_Unenforced | Egress_Network_Legacy
  | Disk_Quota_Unenforced | Disk_Quota_Apply_Failed | Storage_Migration_Required
  | Runtime_Image_Unavailable | Workspace_Running

text \<open>
  What a method throws: an error of its own with \<open>retryable\<close>, one of the storage gate, one of the
  Docker client with its status, one of the file system with its code, or any other. \<open>Still_Waiting\<close> is
  the model's own: a polling loop used up the fuel it was given.
\<close>

datatype thrown =
    Runtime_Error runtime_code bool
  | Quota_Error storage_code bool
  | Engine_Failure "nat option"
  | Node_Error string
  | Plain_Error
  | Still_Waiting

definition dockerStatus :: "thrown \<Rightarrow> nat option" where
  "dockerStatus error = (case error of Engine_Failure status \<Rightarrow> status | _ \<Rightarrow> None)"

definition isNodeError :: "thrown \<Rightarrow> string \<Rightarrow> bool" where
  "isNodeError error code \<longleftrightarrow> error = Node_Error code"

definition engineError :: "thrown \<Rightarrow> thrown" where
  "engineError error =
     (case error of
        Runtime_Error _ _ \<Rightarrow> error
      | _ \<Rightarrow> Runtime_Error Runtime_Engine_Error
               (case dockerStatus error of None \<Rightarrow> True | Some status \<Rightarrow> 500 \<le> status))"

definition storage_runtime_code :: "storage_code \<Rightarrow> runtime_code" where
  "storage_runtime_code code =
     (case code of Storage_Quota_Unenforced \<Rightarrow> Disk_Quota_Unenforced
                 | Storage_Quota_Apply_Failed \<Rightarrow> Disk_Quota_Apply_Failed)"

definition storageError :: "thrown \<Rightarrow> thrown" where
  "storageError error =
     (case error of
        Runtime_Error _ _ \<Rightarrow> error
      | Quota_Error code retryable \<Rightarrow> Runtime_Error (storage_runtime_code code) retryable
      | _ \<Rightarrow> Runtime_Error Disk_Quota_Apply_Failed True)"

section \<open>Labels and names\<close>

type_synonym labels = "(string \<times> string) list"

definition APP_LABEL :: string where "APP_LABEL = ''agent-runtime-platform''"
definition MANAGED_BY_LABEL :: string where "MANAGED_BY_LABEL = ''worker''"
definition PI_WEB_PORT :: string where "PI_WEB_PORT = ''30141/tcp''"
definition PI_WEB_DEFAULT_CWD_ENV :: string where
  "PI_WEB_DEFAULT_CWD_ENV = ''PI_WEB_DEFAULT_CWD=/workspace''"
definition RESOURCE_NAME_PREFIX :: string where "RESOURCE_NAME_PREFIX = ''agent-runtime-''"
definition BRIDGE_NAME_OPTION :: string where "BRIDGE_NAME_OPTION = ''com.docker.network.bridge.name''"
definition CARGO_HOME_ENV :: string where "CARGO_HOME_ENV = ''CARGO_HOME=/home/agent/.cargo''"

definition WORKSPACE_TMPFS :: "(string \<times> string) list" where
  "WORKSPACE_TMPFS =
     [(''/run'', ''rw,nosuid,nodev,noexec,size=16m,mode=755''),
      (''/run/lock'', ''rw,nosuid,nodev,noexec,size=1m,mode=1777''),
      (''/var/tmp'', ''rw,nosuid,nodev,size=256m,mode=1777'')]"

definition managedLabels :: "string \<Rightarrow> string \<Rightarrow> labels" where
  "managedLabels workerId workspaceId =
     [(''app'', APP_LABEL), (''managed_by'', MANAGED_BY_LABEL), (''worker_id'', workerId),
      (''workspace_id'', workspaceId)]"

definition label_value :: "labels option \<Rightarrow> string \<Rightarrow> string option" where
  "label_value labels key = (case labels of None \<Rightarrow> None | Some kvs \<Rightarrow> map_of kvs key)"

definition labelsMatch :: "labels option \<Rightarrow> labels \<Rightarrow> bool" where
  "labelsMatch labels expected \<longleftrightarrow> list_all (\<lambda>(key, v). label_value labels key = Some v) expected"

definition containerName :: "string \<Rightarrow> string" where
  "containerName workspaceId = RESOURCE_NAME_PREFIX @ workspaceId"

definition networkName :: "string \<Rightarrow> string" where
  "networkName workspaceId = RESOURCE_NAME_PREFIX @ workspaceId"

section \<open>Configuration\<close>

record workspace_resources =
  res_cpu :: rat
  res_memory :: int
  res_pids :: int

text \<open>\<open>Math.round(cpuCount * 1_000_000_000)\<close>; \<open>Math.round\<close> takes a half up.\<close>

definition nano_cpus :: "rat \<Rightarrow> int" where
  "nano_cpus cpuCount = \<lfloor>cpuCount * 1000000000 + 1 / 2\<rfloor>"

text \<open>\<open>rc_uuid\<close> is the identifier check of the schema library.\<close>

record runtime_config =
  rc_worker :: string
  rc_uid :: nat
  rc_gid :: nat
  rc_start_timeout :: int
  rc_resources :: workspace_resources
  rc_hostname :: string
  rc_nofile :: int
  rc_root :: string
  rc_uuid :: "string \<Rightarrow> bool"
  rc_project_min :: nat

definition runtimeUser :: "runtime_config \<Rightarrow> string" where
  "runtimeUser cfg = decimal (rc_uid cfg) @ '':'' @ decimal (rc_gid cfg)"

definition imageDigest :: "string \<Rightarrow> bool" where
  "imageDigest s \<longleftrightarrow>
     take 7 s = ''sha256:'' \<and> length s = 71 \<and> list_all is_lower_hex (drop 7 s)"

section \<open>The metadata file\<close>

record quota_metadata =
  qm_data :: nat
  qm_pi :: nat
  qm_limit :: nat

record workspace_metadata =
  md_workspace :: string
  md_worker :: string
  md_image :: string
  md_quota :: "quota_metadata option"
  md_home :: "bool option"
  md_provider :: "string option"
  md_image_id :: "string option"
  md_previous :: "string option"

definition PI_BUILT_IN_PROVIDER_IDS :: "string list" where
  "PI_BUILT_IN_PROVIDER_IDS =
    [''amazon-bedrock'', ''ant-ling'', ''anthropic'', ''azure-openai-responses'', ''baseten'', ''cerebras'',
     ''cloudflare-ai-gateway'', ''cloudflare-workers-ai'', ''deepseek'', ''fireworks'', ''github-copilot'',
     ''google-vertex'', ''google'', ''groq'', ''huggingface'', ''kimi-coding'', ''minimax-cn'', ''minimax'',
     ''mistral'', ''moonshotai-cn'', ''moonshotai'', ''nvidia'', ''openai-codex'', ''openai'', ''opencode-go'',
     ''opencode'', ''openrouter'', ''qwen-token-plan-cn'', ''qwen-token-plan-individual'',
     ''qwen-token-plan'', ''radius'', ''together'', ''vercel-ai-gateway'', ''xai'', ''xiaomi-token-plan-ams'',
     ''xiaomi-token-plan-cn'', ''xiaomi-token-plan-sgp'', ''xiaomi'', ''zai-coding-cn'', ''zai'']"

definition modelProviderId :: "string \<Rightarrow> bool" where
  "modelProviderId s \<longleftrightarrow>
     (case s of [] \<Rightarrow> False
      | c # rest \<Rightarrow> is_lower c \<and> length rest \<le> 31 \<and>
          list_all (\<lambda>x. is_lower x \<or> is_digit x \<or> x = CHR ''-'') rest) \<and>
     s \<notin> set PI_BUILT_IN_PROVIDER_IDS"

text \<open>A reader of an object's property; the outer \<open>None\<close> is a schema failure.\<close>

definition required_text :: "string \<Rightarrow> (string \<times> json) list \<Rightarrow> (string \<Rightarrow> bool) \<Rightarrow> string option" where
  "required_text key obj ok =
     (case map_of obj key of Some (JStr s) \<Rightarrow> if ok s then Some s else None | _ \<Rightarrow> None)"

definition optional_text ::
  "string \<Rightarrow> (string \<times> json) list \<Rightarrow> (string \<Rightarrow> bool) \<Rightarrow> string option option" where
  "optional_text key obj ok =
     (case map_of obj key of
        None \<Rightarrow> Some None
      | Some (JStr s) \<Rightarrow> if ok s then Some (Some s) else None
      | _ \<Rightarrow> None)"

definition optional_flag :: "string \<Rightarrow> (string \<times> json) list \<Rightarrow> bool option option" where
  "optional_flag key obj =
     (case map_of obj key of None \<Rightarrow> Some None | Some (JBool b) \<Rightarrow> Some (Some b) | _ \<Rightarrow> None)"

definition required_number :: "string \<Rightarrow> (string \<times> json) list \<Rightarrow> nat \<Rightarrow> nat option" where
  "required_number key obj most =
     (case map_of obj key of
        Some (JNum n) \<Rightarrow> if 1 \<le> n \<and> n \<le> int most then Some (nat n) else None | _ \<Rightarrow> None)"

definition only_keys :: "string list \<Rightarrow> (string \<times> json) list \<Rightarrow> bool" where
  "only_keys keys obj \<longleftrightarrow> list_all (\<lambda>(key, _). key \<in> set keys) obj"

definition parse_quota :: "(string \<times> json) list \<Rightarrow> quota_metadata option" where
  "parse_quota obj =
     (case (required_number ''dataProjectId'' obj MAX_PROJECT_ID,
            required_number ''piProjectId'' obj MAX_PROJECT_ID,
            required_number ''dataLimitBytes'' obj MAX_SAFE_INTEGER,
            only_keys [''dataProjectId'', ''piProjectId'', ''dataLimitBytes''] obj) of
        (Some data, Some pi_project, Some limit, True) \<Rightarrow>
          Some \<lparr>qm_data = data, qm_pi = pi_project, qm_limit = limit\<rparr>
      | _ \<Rightarrow> None)"

definition optional_quota :: "(string \<times> json) list \<Rightarrow> quota_metadata option option" where
  "optional_quota obj =
     (case map_of obj ''quota'' of
        None \<Rightarrow> Some None
      | Some (JObj kvs) \<Rightarrow> map_option Some (parse_quota kvs)
      | _ \<Rightarrow> None)"

definition METADATA_KEYS :: "string list" where
  "METADATA_KEYS = [''version'', ''workspaceId'', ''workerId'', ''runtimeImage'', ''quota'',
     ''homeInitialized'', ''modelProviderId'', ''runtimeImageId'', ''previousRuntimeImage'']"

text \<open>\<open>MetadataSchema\<close>, a strict object schema.\<close>

definition parse_metadata :: "runtime_config \<Rightarrow> json \<Rightarrow> workspace_metadata option" where
  "parse_metadata cfg decoded =
     (case decoded of
        JObj obj \<Rightarrow>
          (case (required_text ''workspaceId'' obj (rc_uuid cfg),
                 required_text ''workerId'' obj (\<lambda>_. True),
                 required_text ''runtimeImage'' obj (\<lambda>s. s \<noteq> []),
                 optional_quota obj, optional_flag ''homeInitialized'' obj,
                 optional_text ''modelProviderId'' obj modelProviderId,
                 optional_text ''runtimeImageId'' obj imageDigest,
                 optional_text ''previousRuntimeImage'' obj (\<lambda>s. 1 \<le> length s \<and> length s \<le> 255),
                 map_of obj ''version'' = Some (JNum 1) \<and> only_keys METADATA_KEYS obj) of
             (Some wid, Some worker, Some runtimeImage, Some quota, Some home, Some provider, Some imageId,
              Some previous, True) \<Rightarrow>
               Some \<lparr>md_workspace = wid, md_worker = worker, md_image = runtimeImage, md_quota = quota,
                     md_home = home, md_provider = provider, md_image_id = imageId,
                     md_previous = previous\<rparr>
           | _ \<Rightarrow> None)
      | _ \<Rightarrow> None)"

text \<open>\<open>JSON.stringify\<close> of a metadata object: absent properties are left out.\<close>

definition json_property :: "string \<Rightarrow> ('a \<Rightarrow> json) \<Rightarrow> 'a option \<Rightarrow> (string \<times> json) list" where
  "json_property key f v = (case v of None \<Rightarrow> [] | Some a \<Rightarrow> [(key, f a)])"

definition render_quota :: "quota_metadata \<Rightarrow> json" where
  "render_quota q =
     JObj [(''dataProjectId'', JNum (int (qm_data q))), (''piProjectId'', JNum (int (qm_pi q))),
           (''dataLimitBytes'', JNum (int (qm_limit q)))]"

definition render_metadata :: "workspace_metadata \<Rightarrow> json" where
  "render_metadata m =
     JObj ([(''version'', JNum 1), (''workspaceId'', JStr (md_workspace m)),
            (''workerId'', JStr (md_worker m)), (''runtimeImage'', JStr (md_image m))] @
           json_property ''quota'' render_quota (md_quota m) @
           json_property ''homeInitialized'' JBool (md_home m) @
           json_property ''modelProviderId'' JStr (md_provider m) @
           json_property ''runtimeImageId'' JStr (md_image_id m) @
           json_property ''previousRuntimeImage'' JStr (md_previous m))"

definition metadata_valid :: "runtime_config \<Rightarrow> workspace_metadata \<Rightarrow> bool" where
  "metadata_valid cfg m \<longleftrightarrow>
     rc_uuid cfg (md_workspace m) \<and> md_image m \<noteq> [] \<and>
     (case md_quota m of None \<Rightarrow> True
      | Some q \<Rightarrow> assertProjectId (qm_data q) \<and> assertProjectId (qm_pi q) \<and>
          1 \<le> qm_limit q \<and> qm_limit q \<le> MAX_SAFE_INTEGER) \<and>
     (case md_provider m of None \<Rightarrow> True | Some p \<Rightarrow> modelProviderId p) \<and>
     (case md_image_id m of None \<Rightarrow> True | Some i \<Rightarrow> imageDigest i) \<and>
     (case md_previous m of None \<Rightarrow> True | Some p \<Rightarrow> 1 \<le> length p \<and> length p \<le> 255)"

lemma map_of_json_property:
  "map_of (json_property key f v) k = (if k = key then map_option f v else None)"
  by (cases v) (simp_all add: json_property_def)

lemma parse_quota_render:
  "assertProjectId (qm_data q) \<Longrightarrow> assertProjectId (qm_pi q) \<Longrightarrow> 1 \<le> qm_limit q \<Longrightarrow>
    qm_limit q \<le> MAX_SAFE_INTEGER \<Longrightarrow>
    parse_quota [(''dataProjectId'', JNum (int (qm_data q))), (''piProjectId'', JNum (int (qm_pi q))),
      (''dataLimitBytes'', JNum (int (qm_limit q)))] = Some q"
  by (simp add: parse_quota_def required_number_def only_keys_def assertProjectId_def)

lemma metadata_keys [simp]:
  "only_keys METADATA_KEYS (xs @ ys) \<longleftrightarrow> only_keys METADATA_KEYS xs \<and> only_keys METADATA_KEYS ys"
  "only_keys METADATA_KEYS (json_property key f v) \<longleftrightarrow> v = None \<or> key \<in> set METADATA_KEYS"
  by (auto simp: only_keys_def json_property_def split: option.split)

lemma map_of_rendered:
  assumes "render_metadata m = JObj obj"
  shows "map_of obj ''version'' = Some (JNum 1)" "map_of obj ''workspaceId'' = Some (JStr (md_workspace m))"
    "map_of obj ''workerId'' = Some (JStr (md_worker m))"
    "map_of obj ''runtimeImage'' = Some (JStr (md_image m))"
    "map_of obj ''quota'' = map_option render_quota (md_quota m)"
    "map_of obj ''homeInitialized'' = map_option JBool (md_home m)"
    "map_of obj ''modelProviderId'' = map_option JStr (md_provider m)"
    "map_of obj ''runtimeImageId'' = map_option JStr (md_image_id m)"
    "map_of obj ''previousRuntimeImage'' = map_option JStr (md_previous m)"
    "only_keys METADATA_KEYS obj"
proof -
  have obj: "obj = [(''version'', JNum 1), (''workspaceId'', JStr (md_workspace m)),
      (''workerId'', JStr (md_worker m)), (''runtimeImage'', JStr (md_image m))] @
      json_property ''quota'' render_quota (md_quota m) @
      json_property ''homeInitialized'' JBool (md_home m) @
      json_property ''modelProviderId'' JStr (md_provider m) @
      json_property ''runtimeImageId'' JStr (md_image_id m) @
      json_property ''previousRuntimeImage'' JStr (md_previous m)"
    using assms by (simp add: render_metadata_def)
  show "only_keys METADATA_KEYS obj"
    unfolding obj metadata_keys by (simp add: only_keys_def METADATA_KEYS_def)
qed (use assms in \<open>auto simp: render_metadata_def map_add_def map_of_json_property split: option.split\<close>)


section \<open>Paths\<close>

record workspace_paths =
  wp_root :: string
  wp_workspace :: string
  wp_home :: string
  wp_tmp :: string
  wp_pi :: string
  wp_metadata :: string
  wp_file :: string

record managed_paths =
  mw_paths :: workspace_paths
  mw_image :: string
  mw_managed :: workspace_metadata

definition workspaces_root :: "runtime_config \<Rightarrow> string" where
  "workspaces_root cfg = rc_root cfg @ ''/workspaces''"

definition paths_of :: "runtime_config \<Rightarrow> string \<Rightarrow> workspace_paths" where
  "paths_of cfg workspaceId =
     (let base = workspaces_root cfg @ ''/'' @ workspaceId in
      \<lparr>wp_root = base, wp_workspace = base @ ''/workspace'', wp_home = base @ ''/home'',
       wp_tmp = base @ ''/tmp'', wp_pi = base @ ''/pi'', wp_metadata = base @ ''/metadata'',
       wp_file = base @ ''/metadata/managed.json''\<rparr>)"

text \<open>The source and the target of each bind mount.\<close>

definition workspaceMounts :: "workspace_paths \<Rightarrow> (string \<times> string) list" where
  "workspaceMounts paths =
     [(wp_workspace paths, ''/workspace''), (wp_home paths, ''/home/agent''), (wp_tmp paths, ''/tmp''),
      (wp_pi paths, ''/agent/pi'')]"

section \<open>Containers\<close>

record port_binding =
  pb_ip :: "string option"
  pb_port :: "string option"

record mount_point =
  mp_type :: string
  mp_source :: string
  mp_destination :: string
  mp_rw :: bool

record resource_limit =
  rl_name :: string
  rl_soft :: int
  rl_hard :: int

record log_config =
  lc_type :: string
  lc_config :: "(string \<times> string) list option"

record container_config =
  cc_image :: string
  cc_user :: string
  cc_working_dir :: string
  cc_env :: "string list"
  cc_labels :: "labels option"

type_synonym port_map = "(string \<times> port_binding list) list"

record host_config =
  hc_privileged :: bool
  hc_network_mode :: string
  hc_cap_drop :: "string list option"
  hc_security_opt :: "string list option"
  hc_port_bindings :: "port_map option"
  hc_readonly :: "bool option"
  hc_binds :: "string list option"
  hc_tmpfs :: "(string \<times> string) list option"
  hc_ulimits :: "resource_limit list option"
  hc_log :: "log_config option"
  hc_memory :: "int option"
  hc_nano_cpus :: "int option"
  hc_pids :: "int option"
  hc_restart :: "string option"

record container_state =
  cs_running :: bool
  cs_restarting :: bool
  cs_paused :: bool
  cs_dead :: bool

record container_inspection =
  in_id :: string
  in_name :: string
  in_image :: string
  in_config :: container_config
  in_host :: host_config
  in_state :: container_state
  in_ports :: port_map
  in_networks :: "string list"
  in_mounts :: "mount_point list"

text \<open>What \<open>createContainer\<close> is given; \<open>Mounts\<close> as source, target and \<open>ReadOnly\<close>.\<close>

record container_spec =
  sp_name :: string
  sp_config :: container_config
  sp_exposed :: "string list"
  sp_host :: host_config
  sp_mounts :: "(string \<times> string \<times> bool) list"

definition WORKSPACE_LOG_CONFIG :: log_config where
  "WORKSPACE_LOG_CONFIG =
     \<lparr>lc_type = ''json-file'', lc_config = Some [(''max-size'', ''10m''), (''max-file'', ''3'')]\<rparr>"

definition container_environment :: "runtime_config \<Rightarrow> string \<Rightarrow> string list" where
  "container_environment cfg workspaceId =
     [''HOME=/home/agent'', ''PI_CODING_AGENT_DIR=/agent/pi'', PI_WEB_DEFAULT_CWD_ENV,
      ''PI_WEB_HOSTNAME=0.0.0.0'', ''PI_WEB_NO_OPEN=1'', ''PI_WEB_SKIP_VERSION_CHECK=1'',
      ''PI_WEB_IDLE_TIMEOUT_MS=0'',
      ''PI_WEB_ALLOWED_HOSTS='' @ workspaceId @ ''.'' @ rc_hostname cfg, ''PORT=30141'', CARGO_HOME_ENV]"

definition workspace_container ::
  "runtime_config \<Rightarrow> string \<Rightarrow> workspace_paths \<Rightarrow> string \<Rightarrow> workspace_resources \<Rightarrow> container_spec" where
  "workspace_container cfg workspaceId paths offeredImage resources =
     \<lparr>sp_name = containerName workspaceId,
      sp_config =
        \<lparr>cc_image = offeredImage, cc_user = runtimeUser cfg, cc_working_dir = ''/workspace'',
         cc_env = container_environment cfg workspaceId,
         cc_labels = Some (managedLabels (rc_worker cfg) workspaceId)\<rparr>,
      sp_exposed = [PI_WEB_PORT],
      sp_host =
        \<lparr>hc_privileged = False, hc_network_mode = networkName workspaceId, hc_cap_drop = Some [''ALL''],
         hc_security_opt = Some [''no-new-privileges:true''],
         hc_port_bindings =
           Some [(PI_WEB_PORT, [\<lparr>pb_ip = Some ''127.0.0.1'', pb_port = Some ''''\<rparr>])],
         hc_readonly = Some True, hc_binds = None, hc_tmpfs = Some WORKSPACE_TMPFS,
         hc_ulimits =
           Some [\<lparr>rl_name = ''nofile'', rl_soft = rc_nofile cfg, rl_hard = rc_nofile cfg\<rparr>,
                 \<lparr>rl_name = ''core'', rl_soft = 0, rl_hard = 0\<rparr>],
         hc_log = Some WORKSPACE_LOG_CONFIG,
         hc_memory = Some (res_memory resources), hc_nano_cpus = Some (nano_cpus (res_cpu resources)),
         hc_pids = Some (res_pids resources), hc_restart = Some ''unless-stopped''\<rparr>,
      sp_mounts = map (\<lambda>(source, target). (source, target, False)) (workspaceMounts paths)\<rparr>"

section \<open>Checks of a container\<close>

datatype generation = Current | Legacy

definition mismatch :: thrown where
  "mismatch = Runtime_Error Runtime_Configuration_Mismatch False"

definition first_binding :: "port_map option \<Rightarrow> string \<Rightarrow> port_binding option" where
  "first_binding ports port =
     (case ports of
        None \<Rightarrow> None
      | Some kvs \<Rightarrow> (case map_of kvs port of None \<Rightarrow> None | Some bindings \<Rightarrow> first_row bindings))"

definition includes_text :: "string list option \<Rightarrow> string \<Rightarrow> bool" where
  "includes_text xs x \<longleftrightarrow> (case xs of None \<Rightarrow> False | Some ys \<Rightarrow> x \<in> set ys)"

definition loopback_request :: "port_binding option \<Rightarrow> bool" where
  "loopback_request binding \<longleftrightarrow>
     (case binding of None \<Rightarrow> False
      | Some b \<Rightarrow> pb_ip b = Some ''127.0.0.1'' \<and> pb_port b = Some '''')"

definition security_baseline ::
  "runtime_config \<Rightarrow> container_inspection \<Rightarrow> string \<Rightarrow> managed_paths \<Rightarrow> string \<Rightarrow> bool" where
  "security_baseline cfg i workspaceId paths network \<longleftrightarrow>
     in_name i = CHR ''/'' # containerName workspaceId \<and>
     cc_image (in_config i) = mw_image paths \<and>
     (case md_image_id (mw_managed paths) of None \<Rightarrow> True | Some pinned \<Rightarrow> in_image i = pinned) \<and>
     cc_user (in_config i) = runtimeUser cfg \<and>
     cc_working_dir (in_config i) = ''/workspace'' \<and>
     ''PI_CODING_AGENT_DIR=/agent/pi'' \<in> set (cc_env (in_config i)) \<and>
     \<not> hc_privileged (in_host i) \<and>
     hc_network_mode (in_host i) = network \<and>
     includes_text (hc_cap_drop (in_host i)) ''ALL'' \<and>
     includes_text (hc_security_opt (in_host i)) ''no-new-privileges:true'' \<and>
     loopback_request (first_binding (hc_port_bindings (in_host i)) PI_WEB_PORT) \<and>
     labelsMatch (cc_labels (in_config i)) (managedLabels (rc_worker cfg) workspaceId)"

text \<open>A \<open>Map\<close> of the mounts by destination: the last of equal keys.\<close>

definition mounts_match :: "mount_point list \<Rightarrow> (string \<times> string) list \<Rightarrow> bool" where
  "mounts_match mounts expected \<longleftrightarrow>
     length mounts = length expected \<and>
     list_all (\<lambda>(source, target).
       case map_of (rev (map (\<lambda>m. (mp_destination m, m)) mounts)) target of
         None \<Rightarrow> False
       | Some m \<Rightarrow> mp_type m = ''bind'' \<and> mp_source m = source \<and> mp_rw m) expected"

definition legacy_mounts :: "workspace_paths \<Rightarrow> (string \<times> string) list" where
  "legacy_mounts paths =
     filter (\<lambda>(_, target). target = ''/workspace'' \<or> target = ''/agent/pi'') (workspaceMounts paths)"

definition verifyManagedContainerIdentity ::
  "runtime_config \<Rightarrow> container_inspection \<Rightarrow> string \<Rightarrow> managed_paths \<Rightarrow> string \<Rightarrow> thrown + generation" where
  "verifyManagedContainerIdentity cfg i workspaceId paths network =
     (if \<not> security_baseline cfg i workspaceId paths network then Inl mismatch
      else if mounts_match (in_mounts i) (workspaceMounts (mw_paths paths)) \<and>
              hc_readonly (in_host i) = Some True \<and>
              (case hc_binds (in_host i) of None \<Rightarrow> True | Some binds \<Rightarrow> binds = [])
      then Inr Current
      else if mounts_match (in_mounts i) (legacy_mounts (mw_paths paths)) \<and>
              hc_readonly (in_host i) \<noteq> Some True
      then Inr Legacy
      else Inl mismatch)"

definition assertCurrentGeneration :: "generation \<Rightarrow> thrown option" where
  "assertCurrentGeneration g =
     (if g = Legacy then Some (Runtime_Error Storage_Migration_Required False) else None)"

definition verifyResourceConfiguration :: "container_inspection \<Rightarrow> workspace_resources \<Rightarrow> thrown option" where
  "verifyResourceConfiguration i resources =
     (if hc_memory (in_host i) \<noteq> Some (res_memory resources) \<or>
         hc_nano_cpus (in_host i) \<noteq> Some (nano_cpus (res_cpu resources)) \<or>
         hc_pids (in_host i) \<noteq> Some (res_pids resources)
      then Some mismatch else None)"

definition limit_named :: "resource_limit list \<Rightarrow> string \<Rightarrow> resource_limit option" where
  "limit_named limits name = map_of (rev (map (\<lambda>l. (rl_name l, l)) limits)) name"

definition limit_is :: "resource_limit list \<Rightarrow> string \<Rightarrow> int \<Rightarrow> bool" where
  "limit_is limits name n \<longleftrightarrow>
     (case limit_named limits name of None \<Rightarrow> False | Some l \<Rightarrow> rl_soft l = n \<and> rl_hard l = n)"

definition log_limited :: "log_config option \<Rightarrow> bool" where
  "log_limited logging \<longleftrightarrow>
     (case logging of
        None \<Rightarrow> False
      | Some l \<Rightarrow> lc_type l = lc_type WORKSPACE_LOG_CONFIG \<and>
          label_value (lc_config l) ''max-size'' = Some ''10m'' \<and>
          label_value (lc_config l) ''max-file'' = Some ''3'')"

definition verifyStorageConfiguration :: "runtime_config \<Rightarrow> container_inspection \<Rightarrow> thrown option" where
  "verifyStorageConfiguration cfg i =
     (let limits = (case hc_ulimits (in_host i) of None \<Rightarrow> [] | Some ls \<Rightarrow> ls);
          tmpfs = (case hc_tmpfs (in_host i) of None \<Rightarrow> [] | Some kvs \<Rightarrow> kvs)
      in if hc_readonly (in_host i) \<noteq> Some True \<or>
            length tmpfs \<noteq> length WORKSPACE_TMPFS \<or>
            list_ex (\<lambda>(path, options). map_of tmpfs path \<noteq> Some options) WORKSPACE_TMPFS \<or>
            card (rl_name ` set limits) \<noteq> 2 \<or>
            \<not> limit_is limits ''nofile'' (rc_nofile cfg) \<or> \<not> limit_is limits ''core'' 0 \<or>
            \<not> log_limited (hc_log (in_host i)) \<or>
            CARGO_HOME_ENV \<notin> set (cc_env (in_config i))
         then Some mismatch else None)"

definition defaultCwdEntries :: "container_inspection \<Rightarrow> string list" where
  "defaultCwdEntries i = filter (starts_with ''PI_WEB_DEFAULT_CWD='') (cc_env (in_config i))"

definition verifyLegacyCompatibleDefaultCwd :: "container_inspection \<Rightarrow> thrown option" where
  "verifyLegacyCompatibleDefaultCwd i =
     (if length (defaultCwdEntries i) > 1 \<or>
         (length (defaultCwdEntries i) = 1 \<and> hd (defaultCwdEntries i) \<noteq> PI_WEB_DEFAULT_CWD_ENV)
      then Some mismatch else None)"

definition or_else :: "thrown option \<Rightarrow> thrown option \<Rightarrow> thrown option" where
  "or_else first second = (case first of None \<Rightarrow> second | Some x \<Rightarrow> Some x)"

definition verifyCurrentRuntimeConfiguration ::
  "runtime_config \<Rightarrow> container_inspection \<Rightarrow> workspace_resources \<Rightarrow> thrown option" where
  "verifyCurrentRuntimeConfiguration cfg i resources =
     (if defaultCwdEntries i \<noteq> [PI_WEB_DEFAULT_CWD_ENV] \<or> hc_restart (in_host i) \<noteq> Some ''unless-stopped''
      then Some mismatch
      else or_else (verifyResourceConfiguration i resources) (verifyStorageConfiguration cfg i))"

definition verifyLegacyRuntimeConfiguration ::
  "container_inspection \<Rightarrow> workspace_resources \<Rightarrow> thrown option" where
  "verifyLegacyRuntimeConfiguration i resources =
     or_else (verifyLegacyCompatibleDefaultCwd i) (verifyResourceConfiguration i resources)"

section \<open>Networks\<close>

record network_inspection =
  ni_id :: string
  ni_name :: string
  ni_driver :: string
  ni_internal :: bool
  ni_attachable :: bool
  ni_ipv6 :: bool
  ni_options :: "(string \<times> string) list option"
  ni_labels :: "labels option"
  ni_gateways :: "string option list option"

record network_spec =
  ns_name :: string
  ns_driver :: string
  ns_internal :: bool
  ns_attachable :: bool
  ns_ipv6 :: bool
  ns_labels :: labels
  ns_options :: "(string \<times> string) list"

definition workspace_network :: "runtime_config \<Rightarrow> string \<Rightarrow> string \<Rightarrow> network_spec" where
  "workspace_network cfg workspaceId name =
     \<lparr>ns_name = name, ns_driver = ''bridge'', ns_internal = False, ns_attachable = False, ns_ipv6 = False,
      ns_labels = managedLabels (rc_worker cfg) workspaceId,
      ns_options =
        [(''com.docker.network.bridge.enable_icc'', ''false''),
         (''com.docker.network.bridge.host_binding_ipv4'', ''127.0.0.1''),
         (BRIDGE_NAME_OPTION, workspaceBridgeName workspaceId)]\<rparr>"

definition verifyManagedNetwork ::
  "runtime_config \<Rightarrow> network_inspection \<Rightarrow> string \<Rightarrow> string \<Rightarrow> thrown + generation" where
  "verifyManagedNetwork cfg i workspaceId name =
     (let bridgeName = label_value (ni_options i) BRIDGE_NAME_OPTION in
      if ni_name i \<noteq> name \<or> ni_driver i \<noteq> ''bridge'' \<or> ni_internal i \<or> ni_attachable i \<or> ni_ipv6 i \<or>
         label_value (ni_options i) ''com.docker.network.bridge.enable_icc'' \<noteq> Some ''false'' \<or>
         label_value (ni_options i) ''com.docker.network.bridge.host_binding_ipv4'' \<noteq> Some ''127.0.0.1'' \<or>
         (bridgeName \<noteq> None \<and> bridgeName \<noteq> Some (workspaceBridgeName workspaceId)) \<or>
         \<not> labelsMatch (ni_labels i) (managedLabels (rc_worker cfg) workspaceId)
      then Inl (Runtime_Error Unmanaged_Network_Conflict False)
      else Inr (if bridgeName = None then Legacy else Current))"

section \<open>Which Workspace a resource belongs to\<close>

definition parse_workspace_id :: "runtime_config \<Rightarrow> string option \<Rightarrow> string option" where
  "parse_workspace_id cfg v =
     (case v of None \<Rightarrow> None | Some s \<Rightarrow> if rc_uuid cfg s then Some s else None)"

definition workspaceIdFromResourceName :: "runtime_config \<Rightarrow> string option \<Rightarrow> string option" where
  "workspaceIdFromResourceName cfg resourceName =
     (case resourceName of
        None \<Rightarrow> None
      | Some name \<Rightarrow>
          if \<not> starts_with RESOURCE_NAME_PREFIX name then None
          else parse_workspace_id cfg (Some (drop (length RESOURCE_NAME_PREFIX) name)))"

definition resourceWorkspaceId :: "runtime_config \<Rightarrow> string option \<Rightarrow> string option \<Rightarrow> string option" where
  "resourceWorkspaceId cfg resourceName labelWorkspaceId =
     (case parse_workspace_id cfg labelWorkspaceId of
        Some wid \<Rightarrow> Some wid | None \<Rightarrow> workspaceIdFromResourceName cfg resourceName)"

datatype issue_class = Unknown_Resource | Foreign_Managed_Resource | Managed_Orphan

definition resourceClassification ::
  "runtime_config \<Rightarrow> labels option \<Rightarrow> string option \<Rightarrow> string option \<Rightarrow> issue_class" where
  "resourceClassification cfg labels workspaceId resourceName =
     (if label_value labels ''app'' = Some APP_LABEL \<and>
         label_value labels ''managed_by'' = Some MANAGED_BY_LABEL \<and>
         label_value labels ''worker_id'' \<noteq> None \<and>
         label_value labels ''worker_id'' \<noteq> Some (rc_worker cfg)
      then Foreign_Managed_Resource
      else case workspaceId of
             None \<Rightarrow> Unknown_Resource
           | Some wid \<Rightarrow>
               if resourceName = Some (RESOURCE_NAME_PREFIX @ wid) \<and>
                  labelsMatch labels (managedLabels (rc_worker cfg) wid)
               then Managed_Orphan else Unknown_Resource)"

definition managedWorkspaceId :: "runtime_config \<Rightarrow> labels option \<Rightarrow> string option" where
  "managedWorkspaceId cfg labels =
     (case parse_workspace_id cfg (label_value labels ''workspace_id'') of
        None \<Rightarrow> None
      | Some wid \<Rightarrow> if labelsMatch labels (managedLabels (rc_worker cfg) wid) then Some wid else None)"

section \<open>What is created passes the checks\<close>

text \<open>
  \<open>reflects s i\<close>: the inspection \<open>i\<close> of a container created from \<open>s\<close> repeats its name and its
  configuration and lists its mounts, as the Engine documents. The image content is whatever the
  reference resolved to.
\<close>

definition reflects :: "container_spec \<Rightarrow> container_inspection \<Rightarrow> bool" where
  "reflects s i \<longleftrightarrow>
     in_name i = CHR ''/'' # sp_name s \<and> in_config i = sp_config s \<and> in_host i = sp_host s \<and>
     in_mounts i = map (\<lambda>(source, target, readOnly). \<lparr>mp_type = ''bind'', mp_source = source,
       mp_destination = target, mp_rw = \<not> readOnly\<rparr>) (sp_mounts s)"

definition network_reflects :: "network_spec \<Rightarrow> network_inspection \<Rightarrow> bool" where
  "network_reflects s i \<longleftrightarrow>
     ni_name i = ns_name s \<and> ni_driver i = ns_driver s \<and> ni_internal i = ns_internal s \<and>
     ni_attachable i = ns_attachable s \<and> ni_ipv6 i = ns_ipv6 s \<and>
     ni_options i = Some (ns_options s) \<and> ni_labels i = Some (ns_labels s)"

lemma managed_labels_match [simp]: "labelsMatch (Some (managedLabels k w)) (managedLabels k w)"
  by (simp add: labelsMatch_def managedLabels_def label_value_def)

lemma defaultCwd_created:
  "filter (starts_with ''PI_WEB_DEFAULT_CWD='') (container_environment cfg wid) = [PI_WEB_DEFAULT_CWD_ENV]"
  by (simp add: container_environment_def starts_with_def PI_WEB_DEFAULT_CWD_ENV_def CARGO_HOME_ENV_def)

lemma created_identity:
  assumes "reflects (workspace_container cfg wid paths offered resources) i"
    "case md_image_id m of None \<Rightarrow> True | Some pinned \<Rightarrow> in_image i = pinned"
  shows "verifyManagedContainerIdentity cfg i wid \<lparr>mw_paths = paths, mw_image = offered, mw_managed = m\<rparr>
    (networkName wid) = Inr Current"
proof -
  have "security_baseline cfg i wid \<lparr>mw_paths = paths, mw_image = offered, mw_managed = m\<rparr> (networkName wid)"
    using assms
    by (simp add: reflects_def workspace_container_def security_baseline_def includes_text_def
        container_environment_def first_binding_def loopback_request_def)
  moreover have "mounts_match (in_mounts i) (workspaceMounts paths)"
    using assms(1) by (simp add: reflects_def workspace_container_def mounts_match_def workspaceMounts_def)
  ultimately show ?thesis
    using assms(1)
    by (simp add: verifyManagedContainerIdentity_def reflects_def workspace_container_def)
qed

lemma created_configuration:
  assumes "reflects (workspace_container cfg wid paths offered resources) i"
  shows "verifyCurrentRuntimeConfiguration cfg i resources = None"
proof -
  have "defaultCwdEntries i = [PI_WEB_DEFAULT_CWD_ENV]"
    using assms by (simp add: defaultCwdEntries_def reflects_def workspace_container_def defaultCwd_created)
  moreover have "CARGO_HOME_ENV \<in> set (cc_env (in_config i))"
    using assms by (simp add: reflects_def workspace_container_def container_environment_def)
  ultimately show ?thesis
    using assms
    by (simp add: verifyCurrentRuntimeConfiguration_def verifyResourceConfiguration_def or_else_def
        verifyStorageConfiguration_def reflects_def workspace_container_def limit_is_def limit_named_def
        log_limited_def WORKSPACE_LOG_CONFIG_def WORKSPACE_TMPFS_def label_value_def)
qed

lemma created_network:
  assumes "network_reflects (workspace_network cfg wid name) i"
  shows "verifyManagedNetwork cfg i wid name = Inr Current"
  using assms
  by (simp add: network_reflects_def workspace_network_def verifyManagedNetwork_def label_value_def
      BRIDGE_NAME_OPTION_def)

text \<open>Mounts that match are exactly the expected ones, in some order.\<close>

lemma mounts_match_set:
  assumes "mounts_match mounts expected" "distinct (map snd expected)"
  shows "(\<lambda>m. (mp_type m, mp_source m, mp_destination m, mp_rw m)) ` set mounts =
    (\<lambda>(source, target). (''bind'', source, target, True)) ` set expected"
proof -
  let ?entries = "rev (map (\<lambda>m. (mp_destination m, m)) mounts)"
  have found: "\<exists>m \<in> set mounts. mp_destination m = target \<and> mp_type m = ''bind'' \<and> mp_source m = source \<and> mp_rw m"
    if "(source, target) \<in> set expected" for source target
  proof -
    from that assms(1) obtain m where "map_of ?entries target = Some m" "mp_type m = ''bind''"
        "mp_source m = source" "mp_rw m"
      by (fastforce simp: mounts_match_def list_all_iff split: option.splits)
    moreover from this(1) have "(target, m) \<in> set ?entries" by (rule map_of_SomeD)
    ultimately show ?thesis by auto
  qed
  have targets: "snd ` set expected \<subseteq> mp_destination ` set mounts" using found by force
  have "card (snd ` set expected) = length mounts"
    using assms by (metis distinct_card length_map mounts_match_def set_map)
  then have "card (mp_destination ` set mounts) \<le> card (snd ` set expected)"
    using card_image_le [of "set mounts" mp_destination] card_length [of mounts] by simp
  with targets have same: "mp_destination ` set mounts = snd ` set expected"
    by (metis card_subset_eq card_mono finite_imageI List.finite_set le_antisym)
  moreover have "distinct (map mp_destination mounts)"
    using \<open>card (snd ` set expected) = length mounts\<close> same
    by (intro card_distinct) simp
  then have unique: "m = m'" if "m \<in> set mounts" "m' \<in> set mounts" "mp_destination m = mp_destination m'" for m m'
    using that by (metis distinct_map_inj)
  show ?thesis
  proof (intro equalityI subsetI)
    fix x
    assume "x \<in> (\<lambda>m. (mp_type m, mp_source m, mp_destination m, mp_rw m)) ` set mounts"
    then obtain m where m: "m \<in> set mounts" "x = (mp_type m, mp_source m, mp_destination m, mp_rw m)" by blast
    with same obtain source where "(source, mp_destination m) \<in> set expected" by force
    moreover from found [OF this] unique m(1) have "mp_type m = ''bind'' \<and> mp_source m = source \<and> mp_rw m"
      by metis
    ultimately show "x \<in> (\<lambda>(source, target). (''bind'', source, target, True)) ` set expected"
      using m(2) by force
  next
    fix x
    assume "x \<in> (\<lambda>(source, target). (''bind'', source, target, True)) ` set expected"
    then obtain source target where "(source, target) \<in> set expected" "x = (''bind'', source, target, True)" by auto
    with found show "x \<in> (\<lambda>m. (mp_type m, mp_source m, mp_destination m, mp_rw m)) ` set mounts"
      by force
  qed
qed


text \<open>C30. A container accepted as current is confined: it is unprivileged with all capabilities dropped, no
  new privileges, a read-only root and the Workspace's network, its port is asked for on the
  loopback address, it carries this Worker's labels and the pinned image content, and its mounts
  are exactly the four directories of its Workspace.\<close>

theorem accepted_container_is_confined:
  assumes "verifyManagedContainerIdentity cfg i wid paths network = Inr Current"
  shows "\<not> hc_privileged (in_host i) \<and> includes_text (hc_cap_drop (in_host i)) ''ALL'' \<and>
    includes_text (hc_security_opt (in_host i)) ''no-new-privileges:true'' \<and>
    hc_readonly (in_host i) = Some True \<and> hc_network_mode (in_host i) = network \<and>
    map_option pb_ip (first_binding (hc_port_bindings (in_host i)) PI_WEB_PORT) = Some (Some ''127.0.0.1'') \<and>
    managedWorkspaceId (cfg\<lparr>rc_uuid := (\<lambda>_. True)\<rparr>) (cc_labels (in_config i)) = Some wid \<and>
    md_image_id (mw_managed paths) \<in> {None, Some (in_image i)} \<and>
    (\<lambda>m. (mp_type m, mp_source m, mp_destination m, mp_rw m)) ` set (in_mounts i) =
      {(''bind'', wp_workspace (mw_paths paths), ''/workspace'', True),
       (''bind'', wp_home (mw_paths paths), ''/home/agent'', True),
       (''bind'', wp_tmp (mw_paths paths), ''/tmp'', True),
       (''bind'', wp_pi (mw_paths paths), ''/agent/pi'', True)}"
proof -
  have baseline: "security_baseline cfg i wid paths network"
    and mounts: "mounts_match (in_mounts i) (workspaceMounts (mw_paths paths))"
    and ro: "hc_readonly (in_host i) = Some True"
    using assms by (auto simp: verifyManagedContainerIdentity_def split: if_splits)
  have labels: "labelsMatch (cc_labels (in_config i)) (managedLabels (rc_worker cfg) wid)"
    using baseline by (simp add: security_baseline_def)
  then have "label_value (cc_labels (in_config i)) ''workspace_id'' = Some wid"
    by (simp add: labelsMatch_def managedLabels_def)
  with labels have "managedWorkspaceId (cfg\<lparr>rc_uuid := (\<lambda>_. True)\<rparr>) (cc_labels (in_config i)) = Some wid"
    by (simp add: managedWorkspaceId_def parse_workspace_id_def)
  moreover have "md_image_id (mw_managed paths) \<in> {None, Some (in_image i)}"
    using baseline by (auto simp: security_baseline_def split: option.splits)
  moreover have "map_option pb_ip (first_binding (hc_port_bindings (in_host i)) PI_WEB_PORT) = Some (Some ''127.0.0.1'')"
    using baseline by (auto simp: security_baseline_def loopback_request_def split: option.splits)
  moreover have "distinct (map snd (workspaceMounts (mw_paths paths)))" by (simp add: workspaceMounts_def)
  note mounts_match_set [OF mounts this]
  ultimately show ?thesis
    using baseline ro by (simp add: security_baseline_def workspaceMounts_def)
qed

section \<open>A concrete Workspace\<close>

definition demo_runtime_config :: runtime_config where
  "demo_runtime_config =
     \<lparr>rc_worker = ''w1'', rc_uid = 1000, rc_gid = 1000, rc_start_timeout = 60000,
      rc_resources = \<lparr>res_cpu = 3 / 2, res_memory = 4294967296, res_pids = 512\<rparr>,
      rc_hostname = ''apps.test'', rc_nofile = 65536, rc_root = ''/w'', rc_uuid = (\<lambda>s. s = ''a''),
      rc_project_min = 1000000\<rparr>"

definition demo_metadata :: workspace_metadata where
  "demo_metadata =
     \<lparr>md_workspace = ''a'', md_worker = ''w1'', md_image = ''img:1'', md_quota = None, md_home = Some True,
      md_provider = None, md_image_id = Some ''content-1'', md_previous = None\<rparr>"

definition demo_managed :: managed_paths where
  "demo_managed = \<lparr>mw_paths = paths_of demo_runtime_config ''a'', mw_image = ''img:1'', mw_managed = demo_metadata\<rparr>"

definition demo_container :: container_spec where
  "demo_container = workspace_container demo_runtime_config ''a'' (paths_of demo_runtime_config ''a'')
     ''img:1'' (rc_resources demo_runtime_config)"

definition demo_inspection :: container_inspection where
  "demo_inspection =
     \<lparr>in_id = ''c1'', in_name = CHR ''/'' # sp_name demo_container, in_image = ''content-1'',
      in_config = sp_config demo_container, in_host = sp_host demo_container,
      in_state = \<lparr>cs_running = False, cs_restarting = False, cs_paused = False, cs_dead = False\<rparr>,
      in_ports = [], in_networks = [networkName ''a''],
      in_mounts = map (\<lambda>(source, target, readOnly). \<lparr>mp_type = ''bind'', mp_source = source,
        mp_destination = target, mp_rw = \<not> readOnly\<rparr>) (sp_mounts demo_container)\<rparr>"

definition demo_network :: network_inspection where
  "demo_network =
     (let s = workspace_network demo_runtime_config ''a'' (networkName ''a'') in
      \<lparr>ni_id = ''n1'', ni_name = ns_name s, ni_driver = ns_driver s, ni_internal = False,
       ni_attachable = False, ni_ipv6 = False, ni_options = Some (ns_options s),
       ni_labels = Some (ns_labels s), ni_gateways = Some [Some ''172.20.0.1'']\<rparr>)"

lemma demo_reflects:
  "reflects demo_container demo_inspection"
  "network_reflects (workspace_network demo_runtime_config ''a'' (networkName ''a'')) demo_network"
  by (simp_all add: reflects_def demo_inspection_def network_reflects_def demo_network_def Let_def
      workspace_network_def)

lemma demo_identity: "verifyManagedContainerIdentity demo_runtime_config demo_inspection ''a'' demo_managed
    (networkName ''a'') = Inr Current"
  using created_identity [OF demo_reflects(1) [unfolded demo_container_def], of demo_metadata]
  by (simp add: demo_managed_def demo_metadata_def demo_inspection_def)


theorem accepted_container_is_confined_witness:
  "verifyManagedContainerIdentity demo_runtime_config demo_inspection ''a'' demo_managed
      (networkName ''a'') = Inr Current \<and>
    md_image_id demo_metadata \<in> {None, Some (in_image demo_inspection)}"
  using accepted_container_is_confined [OF demo_identity] demo_identity
  by (simp add: demo_managed_def)

end
