(* ===== verification/PiConfig.thy ===== *)
theory PiConfig
  imports Containers
begin

text \<open>
  \<open>apps/worker/src/model-relay/pi-config.ts\<close>: how the platform provider gets into a Workspace's
  \<open>models.json\<close>, a file the Agent may write too. File calls are operations of the outside world on a
  path, none of which follows a link; the trace has every file that was replaced, with what was
  written. \<open>po_read_json\<close> is \<open>JSON.parse\<close> of the file's text; numbers and key order are as in the
  document.
\<close>

record model_gateway_config =
  mg_provider :: string
  mg_default :: string
  mg_models :: "json list"

datatype model_config_result =
    Applied | Removed | User_Config_Invalid | Write_Failed | Unchanged_Running

record 'n pi_env =
  po_open_read :: "string \<Rightarrow> 'n \<Rightarrow> (thrown + unit) \<times> 'n"
  po_is_file :: "string \<Rightarrow> 'n \<Rightarrow> (thrown + bool) \<times> 'n"
  po_read_json :: "string \<Rightarrow> 'n \<Rightarrow> (thrown + json) \<times> 'n"
  po_close :: "string \<Rightarrow> 'n \<Rightarrow> (thrown + unit) \<times> 'n"
  po_random :: "'n \<Rightarrow> string \<times> 'n"
  po_open_new :: "string \<Rightarrow> 'n \<Rightarrow> (thrown + unit) \<times> 'n"
  po_write :: "string \<Rightarrow> json \<Rightarrow> 'n \<Rightarrow> (thrown + unit) \<times> 'n"
  po_owner :: "string \<Rightarrow> 'n \<Rightarrow> (thrown + nat \<times> nat) \<times> 'n"
  po_chown :: "string \<Rightarrow> nat \<Rightarrow> nat \<Rightarrow> 'n \<Rightarrow> (thrown + unit) \<times> 'n"
  po_sync :: "string \<Rightarrow> 'n \<Rightarrow> (thrown + unit) \<times> 'n"
  po_unlink :: "string \<Rightarrow> 'n \<Rightarrow> (thrown + unit) \<times> 'n"
  po_rename :: "string \<Rightarrow> string \<Rightarrow> 'n \<Rightarrow> (thrown + unit) \<times> 'n"
  po_lstat :: "string \<Rightarrow> 'n \<Rightarrow> (thrown + unit) \<times> 'n"

datatype pi_event = Document_Read string json | Not_Read string | File_Replaced string json

type_synonym ('n, 'a) pi_act = "('n, pi_event, thrown, 'a) act"

datatype read_result = Absent | Invalid_File | Parsed "(string \<times> json) list"

definition read_json_object :: "'n pi_env \<Rightarrow> string \<Rightarrow> ('n, read_result) pi_act" where
  "read_json_object e path =
     bind (try_catch (andThen (observe (po_open_read e path)) (pure None))
        (\<lambda>x. pure (Some (if isNodeError x ''ENOENT'' then Absent else Invalid_File)))) (\<lambda>early.
       case early of
         Some r \<Rightarrow> pure r
       | None \<Rightarrow>
           try_finally
             (try_catch
               (bind (observe (po_is_file e path)) (\<lambda>file.
                  if \<not> file then pure Invalid_File
                  else bind (external (\<lambda>r. case r of Inl _ \<Rightarrow> Not_Read path | Inr j \<Rightarrow> Document_Read path j)
                      (po_read_json e path)) (\<lambda>j.
                    pure (case j of JObj kvs \<Rightarrow> Parsed kvs | _ \<Rightarrow> Invalid_File))))
               (\<lambda>_. pure Invalid_File))
             (observe (po_close e path)))"

text \<open>\<open>open\<close>, write, own, sync, then rename over the path; a temporary left behind is removed.\<close>

definition quietly :: "('n, unit) pi_act \<Rightarrow> ('n, unit) pi_act" where
  "quietly m = try_catch m (\<lambda>_. pure ())"

definition writeOwnedFile ::
  "'n pi_env \<Rightarrow> string \<Rightarrow> string \<Rightarrow> json \<Rightarrow> nat \<Rightarrow> nat \<Rightarrow> ('n, unit) pi_act" where
  "writeOwnedFile e directory path content uid gid =
     bind (observe (\<lambda>n. let (r, n') = po_random e n in (Inr r, n'))) (\<lambda>random.
       let temporary = directory @ ''/.agent-runtime-'' @ random @ ''.tmp'' in
       andThen (observe (po_open_new e temporary))
       (andThen (try_catch
          (andThen (observe (po_write e temporary content))
          (bind (observe (po_owner e temporary)) (\<lambda>owner.
           andThen (if owner \<noteq> (uid, gid) then observe (po_chown e temporary uid gid) else pure ())
             (observe (po_sync e temporary)))))
          (\<lambda>x. andThen (observe (po_close e temporary))
                 (andThen (quietly (observe (po_unlink e temporary))) (raise x))))
       (andThen (observe (po_close e temporary))
       (try_catch
          (external (\<lambda>r. case r of Inl _ \<Rightarrow> Not_Read path | Inr _ \<Rightarrow> File_Replaced path content)
             (po_rename e temporary path))
          (\<lambda>x. andThen (quietly (observe (po_unlink e temporary))) (raise x))))))"

definition MODEL_RELAY_PLACEHOLDER_API_KEY :: string where
  "MODEL_RELAY_PLACEHOLDER_API_KEY = ''agent-runtime-relay''"

definition modelApiBasePath :: "string \<Rightarrow> string" where
  "modelApiBasePath api = (if api = ''anthropic-messages'' then '''' else ''/v1'')"

definition model_api :: "json \<Rightarrow> string" where
  "model_api model = (case field ''api'' model of JStr api \<Rightarrow> api | _ \<Rightarrow> ''openai-completions'')"

definition renderPlatformProvider :: "model_gateway_config \<Rightarrow> string \<Rightarrow> json" where
  "renderPlatformProvider config relayOrigin =
     (let api = (case mg_models config of [] \<Rightarrow> ''openai-completions'' | m # _ \<Rightarrow> model_api m) in
      JObj [(''baseUrl'', JStr (relayOrigin @ modelApiBasePath api)), (''api'', JStr api),
            (''apiKey'', JStr MODEL_RELAY_PLACEHOLDER_API_KEY), (''models'', JArr (mg_models config))])"

record pi_target =
  pt_directory :: string
  pt_config :: "model_gateway_config option"
  pt_origin :: "string option"
  pt_previous :: "string option"
  pt_uid :: nat
  pt_gid :: nat

type_synonym pi_write = "model_config_result \<times> string option"

definition enabled_provider :: "pi_target \<Rightarrow> (model_gateway_config \<times> string) option" where
  "enabled_provider target =
     (case (pt_config target, pt_origin target) of
        (Some config, Some origin) \<Rightarrow> Some (config, origin) | _ \<Rightarrow> None)"

definition stale_provider :: "pi_target \<Rightarrow> string option" where
  "stale_provider target =
     (if pt_previous target \<noteq> None \<and>
         pt_previous target \<noteq> map_option (\<lambda>(config, _). mg_provider config) (enabled_provider target)
      then pt_previous target else None)"

text \<open>The providers of a document; \<open>None\<close> when they are not an object.\<close>

definition document_providers :: "(string \<times> json) list \<Rightarrow> (string \<times> json) list option" where
  "document_providers document =
     (case map_of document ''providers'' of
        None \<Rightarrow> Some [] | Some (JObj kvs) \<Rightarrow> Some kvs | Some _ \<Rightarrow> None)"

definition updated_providers :: "pi_target \<Rightarrow> (string \<times> json) list \<Rightarrow> (string \<times> json) list" where
  "updated_providers target providers =
     (let kept = (case stale_provider target of None \<Rightarrow> providers | Some s \<Rightarrow> obj_delete s providers) in
      case enabled_provider target of
        None \<Rightarrow> kept
      | Some (config, origin) \<Rightarrow> obj_set (mg_provider config) (renderPlatformProvider config origin) kept)"

definition default_settings :: "model_gateway_config \<Rightarrow> json" where
  "default_settings config =
     JObj [(''defaultProvider'', JStr (mg_provider config)), (''defaultModel'', JStr (mg_default config))]"

definition write_settings ::
  "'n pi_env \<Rightarrow> pi_target \<Rightarrow> model_gateway_config \<Rightarrow> ('n, pi_write) pi_act" where
  "write_settings e target config =
     (let path = pt_directory target @ ''/settings.json'' in
      bind (try_catch (andThen (observe (po_lstat e path)) (pure True))
          (\<lambda>x. pure (\<not> isNodeError x ''ENOENT''))) (\<lambda>present.
        if present then pure (Applied, Some (mg_provider config))
        else try_catch
          (andThen (writeOwnedFile e (pt_directory target) path (default_settings config)
              (pt_uid target) (pt_gid target))
            (pure (Applied, Some (mg_provider config))))
          (\<lambda>_. pure (Write_Failed, Some (mg_provider config)))))"

definition write_models ::
  "'n pi_env \<Rightarrow> pi_target \<Rightarrow> (string \<times> json) list \<Rightarrow> (string \<times> json) list \<Rightarrow> ('n, pi_write) pi_act" where
  "write_models e target document providers =
     bind (try_catch
         (andThen (writeOwnedFile e (pt_directory target) (pt_directory target @ ''/models.json'')
            (JObj (obj_set ''providers'' (JObj (updated_providers target providers)) document))
            (pt_uid target) (pt_gid target)) (pure True))
         (\<lambda>_. pure False)) (\<lambda>written.
       if \<not> written then pure (Write_Failed, pt_previous target)
       else case enabled_provider target of
              None \<Rightarrow> pure (Removed, None)
            | Some (config, _) \<Rightarrow> write_settings e target config)"

definition writePlatformProvider :: "'n pi_env \<Rightarrow> pi_target \<Rightarrow> ('n, pi_write) pi_act" where
  "writePlatformProvider e target =
     bind (read_json_object e (pt_directory target @ ''/models.json'')) (\<lambda>current.
       if current = Invalid_File then pure (User_Config_Invalid, pt_previous target)
       else
         let document = (case current of Parsed kvs \<Rightarrow> kvs | _ \<Rightarrow> []) in
         case document_providers document of
           None \<Rightarrow> pure (User_Config_Invalid, pt_previous target)
         | Some providers \<Rightarrow>
             if enabled_provider target = None \<and>
                (case stale_provider target of None \<Rightarrow> True | Some s \<Rightarrow> s \<notin> fst ` set providers)
             then pure (Removed, None)
             else write_models e target document providers)"

section \<open>What it may change\<close>

text \<open>The new document: the old one but for the platform's entry among the providers.\<close>

definition only_provider_changed :: "pi_target \<Rightarrow> (string \<times> json) list \<Rightarrow> json \<Rightarrow> bool" where
  "only_provider_changed target document content \<longleftrightarrow>
     (\<exists>obj old new. content = JObj obj \<and> document_providers document = Some old \<and>
        map_of obj ''providers'' = Some (JObj new) \<and>
        (\<forall>k. k \<noteq> ''providers'' \<longrightarrow> map_of obj k = map_of document k) \<and>
        (\<forall>p. Some p \<noteq> pt_previous target \<and>
             Some p \<noteq> map_option (\<lambda>(config, _). mg_provider config) (enabled_provider target) \<longrightarrow>
             map_of new p = map_of old p) \<and>
        (case enabled_provider target of
           None \<Rightarrow> (\<forall>p. pt_previous target = Some p \<longrightarrow> map_of new p = None)
         | Some (config, origin) \<Rightarrow>
             map_of new (mg_provider config) = Some (renderPlatformProvider config origin)))"

lemma updated_document:
  assumes "document_providers document = Some old"
  shows "only_provider_changed target document
    (JObj (obj_set ''providers'' (JObj (updated_providers target old)) document))"
  unfolding only_provider_changed_def using assms
  by (intro exI [of _ "obj_set ''providers'' (JObj (updated_providers target old)) document"]
      exI [of _ old] exI [of _ "updated_providers target old"])
    (auto simp: updated_providers_def stale_provider_def Let_def split: option.splits prod.splits if_splits)

text \<open>An invariant of the trace that the possible events keep.\<close>

lemma writeOwnedFile_ensures:
  assumes "I es" "\<And>fs. I fs \<Longrightarrow> I (fs @ [Not_Read path])"
    "\<And>fs. I fs \<Longrightarrow> I (fs @ [File_Replaced path content])"
  shows "ensures (writeOwnedFile e directory path content uid gid) (\<lambda>_. I) (\<lambda>_. I) es"
  unfolding writeOwnedFile_def quietly_def Let_def
  by (intro ensures) (simp_all add: assms)

lemma write_models_ensures:
  fixes target document
  defines "models \<equiv> pt_directory target @ ''/models.json''"
    and "settings \<equiv> pt_directory target @ ''/settings.json''"
  assumes "I es" "\<And>fs path. I fs \<Longrightarrow> I (fs @ [Not_Read path])"
    "\<And>fs. I fs \<Longrightarrow> I (fs @ [File_Replaced models
        (JObj (obj_set ''providers'' (JObj (updated_providers target old)) document))])"
    "\<And>fs config. I fs \<Longrightarrow> I (fs @ [File_Replaced settings (default_settings config)])"
  shows "ensures (write_models e target document old) (\<lambda>_. I) (\<lambda>_. I) es"
  unfolding write_models_def write_settings_def Let_def
  by (intro ensures ensures_mono [OF writeOwnedFile_ensures])
    (simp_all add: assms(3-) flip: models_def settings_def)

definition pi_change :: "pi_target \<Rightarrow> string \<Rightarrow> (string \<times> json) list \<Rightarrow> json \<Rightarrow> bool" where
  "pi_change target path document content \<longleftrightarrow>
     path = pt_directory target @ ''/models.json'' \<and> only_provider_changed target document content \<or>
     path = pt_directory target @ ''/settings.json'' \<and> (\<exists>config. content = default_settings config)"

lemma write_models_changes:
  assumes "document_providers document = Some old" "D \<subseteq> set es"
    "\<And>path content. File_Replaced path content \<notin> set es"
  shows "ensures (write_models e target document old)
    (\<lambda>_ fs. D \<subseteq> set fs \<and> (\<forall>path content. File_Replaced path content \<in> set fs \<longrightarrow>
       pi_change target path document content))
    (\<lambda>_ fs. D \<subseteq> set fs \<and> (\<forall>path content. File_Replaced path content \<in> set fs \<longrightarrow>
       pi_change target path document content)) es"
  by (rule write_models_ensures) (use assms updated_document [OF assms(1)] in \<open>auto simp: pi_change_def\<close>)

lemma read_json_ensures:
  "ensures (read_json_object e path)
    (\<lambda>r es. (\<forall>path content. File_Replaced path content \<notin> set es) \<and>
       (case r of Parsed kvs \<Rightarrow> Document_Read path (JObj kvs) \<in> set es | _ \<Rightarrow> True))
    (\<lambda>_ es. \<forall>path content. File_Replaced path content \<notin> set es) []"
  unfolding read_json_object_def
  by (intro ensures) (auto split: json.split read_result.split)

lemma write_platform_ensures:
  fixes target
  defines "Q \<equiv> \<lambda>es. \<exists>document. (document = [] \<or>
      Document_Read (pt_directory target @ ''/models.json'') (JObj document) \<in> set es) \<and>
      (\<forall>path content. File_Replaced path content \<in> set es \<longrightarrow> pi_change target path document content)"
  shows "ensures (writePlatformProvider e target) (\<lambda>_. Q) (\<lambda>_. Q) []"
proof -
  have untouched: "Q es" if "\<forall>path content. File_Replaced path content \<notin> set es" for es
    using that by (auto simp: Q_def)
  have writes: "ensures (write_models e target document old) (\<lambda>_. Q) (\<lambda>_. Q) es"
    if "document_providers document = Some old" "\<forall>path content. File_Replaced path content \<notin> set es"
      "document = [] \<or> Document_Read (pt_directory target @ ''/models.json'') (JObj document) \<in> set es"
    for document old es
  proof (cases "document = []")
    case True
    show ?thesis
      by (rule ensures_mono [OF write_models_changes [OF that(1), of "{}" es]])
        (use that(2) True in \<open>auto simp: Q_def\<close>)
  next
    case False
    show ?thesis
      by (rule ensures_mono [OF write_models_changes [OF that(1),
            of "{Document_Read (pt_directory target @ ''/models.json'') (JObj document)}" es]])
        (use that(2,3) False in \<open>auto simp: Q_def\<close>)
  qed
  show ?thesis
    unfolding writePlatformProvider_def Let_def
    by (intro ensures ensures_mono [OF read_json_ensures] writes)
      (auto intro: untouched split: read_result.splits)
qed


definition demo_pi_env :: "unit pi_env" where
  "demo_pi_env =
     \<lparr>po_open_read = \<lambda>path n. (Inr (), n), po_is_file = \<lambda>path n. (Inr True, n),
      po_read_json = \<lambda>path n. (Inr (JObj [(''theme'', JStr ''dark''),
        (''providers'', JObj [(''mine'', JNull), (''old'', JNull)])]), n),
      po_close = \<lambda>path n. (Inr (), n), po_random = \<lambda>n. (''r'', n), po_open_new = \<lambda>path n. (Inr (), n),
      po_write = \<lambda>path j n. (Inr (), n), po_owner = \<lambda>path n. (Inr (0, 0), n),
      po_chown = \<lambda>path u g n. (Inr (), n), po_sync = \<lambda>path n. (Inr (), n),
      po_unlink = \<lambda>path n. (Inr (), n), po_rename = \<lambda>a b n. (Inr (), n),
      po_lstat = \<lambda>path n. (Inl (Node_Error ''ENOENT''), n)\<rparr>"

definition demo_target :: pi_target where
  "demo_target =
     \<lparr>pt_directory = ''/pi'', pt_config = Some \<lparr>mg_provider = ''platform'', mg_default = ''m'', mg_models = []\<rparr>,
      pt_origin = Some ''http://10.0.0.1:3101'', pt_previous = Some ''old'', pt_uid = 1000, pt_gid = 1000\<rparr>"

lemma demo_written:
  "\<exists>t. writePlatformProvider demo_pi_env demo_target \<lparr>world = (), trace = []\<rparr> =
      (Inr (Applied, Some ''platform''), t) \<and>
    trace t = [Document_Read ''/pi/models.json'' (JObj [(''theme'', JStr ''dark''),
        (''providers'', JObj [(''mine'', JNull), (''old'', JNull)])]),
      File_Replaced ''/pi/models.json'' (JObj [(''theme'', JStr ''dark''), (''providers'', JObj
        [(''mine'', JNull), (''platform'', renderPlatformProvider
          \<lparr>mg_provider = ''platform'', mg_default = ''m'', mg_models = []\<rparr> ''http://10.0.0.1:3101'')])]),
      File_Replaced ''/pi/settings.json'' (default_settings
        \<lparr>mg_provider = ''platform'', mg_default = ''m'', mg_models = []\<rparr>)]"
  by (simp add: writePlatformProvider_def read_json_object_def write_models_def writeOwnedFile_def
      write_settings_def demo_pi_env_def demo_target_def action_defs try_finally_def
      document_providers_def enabled_provider_def stale_provider_def updated_providers_def obj_set_def
      obj_delete_def isNodeError_def quietly_def Let_def)


end
