(* ===== verification/Runtime.thy ===== *)
theory Runtime
  imports Containers Routes
begin

text \<open>
  \<open>apps/worker/src/runtime.ts\<close>, part two: the operations of \<open>DockerWorkspaceRuntime\<close>, each with all its
  calls in order. The Docker Engine, the file system, the egress and storage gates, the offered images,
  the readiness probe and the clock are operations of the outside world; they may answer anything.
  What changes a container, a network, a directory or the metadata is in the trace, with what the lists
  and gates said. Log lines and error messages are left out; one operation runs at a time.
\<close>

section \<open>The outside world\<close>

record container_info =
  ci_id :: string
  ci_names :: "string list"
  ci_labels :: "labels option"
  ci_networks :: "(string \<times> string \<times> string) list option"

record network_info =
  nw_id :: string
  nw_name :: string
  nw_labels :: "labels option"

record container_filter =
  cf_all :: bool
  cf_name :: "string option"
  cf_labels :: "string list"
  cf_status :: "string list"

record offered_image =
  of_image :: string
  of_image_id :: "string option"

record file_kind =
  fk_dir :: bool
  fk_file :: bool
  fk_link :: bool

datatype runtime_event =
    Containers_Listed "container_info list"
  | Networks_Listed "network_info list"
  | Container_Inspected string container_inspection
  | Network_Inspected string network_inspection
  | Container_Created container_spec
  | Container_Started string
  | Container_Stopped string
  | Container_Removed string bool
  | Home_Created container_spec
  | Home_Started string
  | Home_Removed string
  | Network_Created network_spec
  | Network_Removed string
  | Network_Connected string string
  | Network_Disconnected string string
  | Egress_Checked bool
  | Egress_Seen bool
  | Storage_Seen bool
  | Storage_Prepared workspace_paths quota_metadata nat
  | Data_Limit_Set workspace_paths quota_metadata nat
  | Projects_Released quota_metadata
  | Metadata_Read string json
  | Metadata_Replaced string workspace_metadata
  | Directory_Made string
  | Metadata_Created string workspace_metadata
  | Directory_Removed string
  | Entry_Removed string
  | Ready_Seen string bool
  | Failed_Call

text \<open>
  \<open>re_initialized\<close> and \<open>re_set_initialized\<close> are the private flag of the object. \<open>re_read_json\<close> is
  \<open>JSON.parse(await readFile(..))\<close>; the atomic write is its five calls.
\<close>

record 'n runtime_env =
  re_list :: "container_filter \<Rightarrow> 'n \<Rightarrow> (thrown + container_info list) \<times> 'n"
  re_inspect :: "string \<Rightarrow> 'n \<Rightarrow> (thrown + container_inspection) \<times> 'n"
  re_create :: "container_spec \<Rightarrow> 'n \<Rightarrow> (thrown + unit) \<times> 'n"
  re_start :: "string \<Rightarrow> 'n \<Rightarrow> (thrown + unit) \<times> 'n"
  re_stop :: "string \<Rightarrow> 'n \<Rightarrow> (thrown + unit) \<times> 'n"
  re_remove :: "string \<Rightarrow> bool \<Rightarrow> 'n \<Rightarrow> (thrown + unit) \<times> 'n"
  re_create_home :: "container_spec \<Rightarrow> 'n \<Rightarrow> (thrown + string) \<times> 'n"
  re_wait :: "string \<Rightarrow> 'n \<Rightarrow> (thrown + nat option) \<times> 'n"
  re_networks :: "string option \<Rightarrow> 'n \<Rightarrow> (thrown + network_info list) \<times> 'n"
  re_inspect_network :: "string \<Rightarrow> 'n \<Rightarrow> (thrown + network_inspection) \<times> 'n"
  re_create_network :: "network_spec \<Rightarrow> 'n \<Rightarrow> (thrown + unit) \<times> 'n"
  re_remove_network :: "string \<Rightarrow> 'n \<Rightarrow> (thrown + unit) \<times> 'n"
  re_connect :: "string \<Rightarrow> string \<Rightarrow> 'n \<Rightarrow> (thrown + unit) \<times> 'n"
  re_disconnect :: "string \<Rightarrow> string \<Rightarrow> 'n \<Rightarrow> (thrown + unit) \<times> 'n"
  re_egress_enforced :: "'n \<Rightarrow> bool"
  re_egress_ensure :: "'n \<Rightarrow> (thrown + bool) \<times> 'n"
  re_storage_enforced :: "'n \<Rightarrow> bool"
  re_prepare :: "workspace_paths \<Rightarrow> quota_metadata \<Rightarrow> nat \<Rightarrow> 'n \<Rightarrow> (thrown + unit) \<times> 'n"
  re_set_limit :: "workspace_paths \<Rightarrow> quota_metadata \<Rightarrow> nat \<Rightarrow> 'n \<Rightarrow> (thrown + project_usage) \<times> 'n"
  re_release :: "quota_metadata \<Rightarrow> 'n \<Rightarrow> (thrown + unit) \<times> 'n"
  re_usage :: "string \<Rightarrow> 'n \<Rightarrow> (thrown + project_usage) \<times> 'n"
  re_offered :: "string \<Rightarrow> 'n \<Rightarrow> offered_image option"
  re_ready :: "string \<Rightarrow> 'n \<Rightarrow> (thrown + bool) \<times> 'n"
  re_now :: "'n \<Rightarrow> int"
  re_delay :: "'n \<Rightarrow> 'n"
  re_uuid :: "'n \<Rightarrow> string \<times> 'n"
  re_initialized :: "'n \<Rightarrow> bool"
  re_set_initialized :: "'n \<Rightarrow> 'n"
  re_mkdir :: "string \<Rightarrow> bool \<Rightarrow> 'n \<Rightarrow> (thrown + unit) \<times> 'n"
  re_chown :: "string \<Rightarrow> nat \<Rightarrow> nat \<Rightarrow> 'n \<Rightarrow> (thrown + unit) \<times> 'n"
  re_chmod :: "string \<Rightarrow> 'n \<Rightarrow> (thrown + unit) \<times> 'n"
  re_lstat :: "string \<Rightarrow> 'n \<Rightarrow> (thrown + file_kind) \<times> 'n"
  re_realpath :: "string \<Rightarrow> 'n \<Rightarrow> (thrown + string) \<times> 'n"
  re_access :: "string \<Rightarrow> 'n \<Rightarrow> (thrown + unit) \<times> 'n"
  re_read_json :: "string \<Rightarrow> 'n \<Rightarrow> (thrown + json) \<times> 'n"
  re_write_json :: "string \<Rightarrow> json \<Rightarrow> 'n \<Rightarrow> (thrown + unit) \<times> 'n"
  re_open_new :: "string \<Rightarrow> 'n \<Rightarrow> (thrown + unit) \<times> 'n"
  re_write_open :: "string \<Rightarrow> json \<Rightarrow> 'n \<Rightarrow> (thrown + unit) \<times> 'n"
  re_sync :: "string \<Rightarrow> 'n \<Rightarrow> (thrown + unit) \<times> 'n"
  re_close :: "string \<Rightarrow> 'n \<Rightarrow> (thrown + unit) \<times> 'n"
  re_rename :: "string \<Rightarrow> string \<Rightarrow> 'n \<Rightarrow> (thrown + unit) \<times> 'n"
  re_readdir :: "string \<Rightarrow> 'n \<Rightarrow> (thrown + (string \<times> bool) list) \<times> 'n"
  re_rm :: "string \<Rightarrow> 'n \<Rightarrow> (thrown + unit) \<times> 'n"

type_synonym ('n, 'a) rt = "('n, runtime_event, thrown, 'a) act"

text \<open>What a call leaves in the trace: its result, or the attempt whatever comes of it.\<close>

definition on_success :: "('a \<Rightarrow> runtime_event) \<Rightarrow> thrown + 'a \<Rightarrow> runtime_event" where
  "on_success ev r = (case r of Inl _ \<Rightarrow> Failed_Call | Inr a \<Rightarrow> ev a)"

definition attempt :: "runtime_event \<Rightarrow> thrown + 'a \<Rightarrow> runtime_event" where
  "attempt ev r = ev"

definition sense :: "('a \<Rightarrow> runtime_event) \<Rightarrow> ('n \<Rightarrow> 'a) \<Rightarrow> ('n, 'a) rt" where
  "sense ev f = external (on_success ev) (\<lambda>n. (Inr (f n), n))"

definition list_containers :: "'n runtime_env \<Rightarrow> container_filter \<Rightarrow> ('n, container_info list) rt" where
  "list_containers e query = external (on_success Containers_Listed) (re_list e query)"

definition list_networks :: "'n runtime_env \<Rightarrow> string option \<Rightarrow> ('n, network_info list) rt" where
  "list_networks e name = external (on_success Networks_Listed) (re_networks e name)"

definition inspect_container :: "'n runtime_env \<Rightarrow> string \<Rightarrow> ('n, container_inspection) rt" where
  "inspect_container e cid = external (on_success (Container_Inspected cid)) (re_inspect e cid)"

definition inspect_network :: "'n runtime_env \<Rightarrow> string \<Rightarrow> ('n, network_inspection) rt" where
  "inspect_network e nid = external (on_success (Network_Inspected nid)) (re_inspect_network e nid)"

definition start_container :: "'n runtime_env \<Rightarrow> string \<Rightarrow> ('n, unit) rt" where
  "start_container e cid = external (attempt (Container_Started cid)) (re_start e cid)"

definition stop_container :: "'n runtime_env \<Rightarrow> string \<Rightarrow> ('n, unit) rt" where
  "stop_container e cid = external (attempt (Container_Stopped cid)) (re_stop e cid)"

definition remove_container :: "'n runtime_env \<Rightarrow> string \<Rightarrow> bool \<Rightarrow> ('n, unit) rt" where
  "remove_container e cid force = external (attempt (Container_Removed cid force)) (re_remove e cid force)"

definition storage_seen :: "'n runtime_env \<Rightarrow> ('n, bool) rt" where
  "storage_seen e = sense Storage_Seen (re_storage_enforced e)"

definition egress_seen :: "'n runtime_env \<Rightarrow> ('n, bool) rt" where
  "egress_seen e = sense Egress_Seen (re_egress_enforced e)"

text \<open>A check that passes or throws; a verdict or what is thrown.\<close>

definition passes :: "thrown option \<Rightarrow> ('n, unit) rt" where
  "passes check = (case check of None \<Rightarrow> pure () | Some x \<Rightarrow> raise x)"

definition verdict :: "thrown + 'a \<Rightarrow> ('n, 'a) rt" where
  "verdict r = (case r of Inl x \<Rightarrow> raise x | Inr a \<Rightarrow> pure a)"

definition refuse :: "runtime_code \<Rightarrow> thrown" where
  "refuse code = Runtime_Error code False"

definition or_engine_error :: "('n, 'a) rt \<Rightarrow> ('n, 'a) rt" where
  "or_engine_error m = try_catch m (\<lambda>x. raise (engineError x))"

text \<open>A status the Engine answers when there is nothing left to do.\<close>

definition unless_status :: "nat \<Rightarrow> ('n, unit) rt \<Rightarrow> ('n, unit) rt" where
  "unless_status status m =
     try_catch m (\<lambda>x. if dockerStatus x = Some status then pure () else raise (engineError x))"

section \<open>Finding resources\<close>

definition by_name :: "string \<Rightarrow> container_filter" where
  "by_name name = \<lparr>cf_all = True, cf_name = Some name, cf_labels = [], cf_status = []\<rparr>"

definition own_labels :: "runtime_config \<Rightarrow> string list" where
  "own_labels cfg = [''app='' @ APP_LABEL, ''managed_by='' @ MANAGED_BY_LABEL, ''worker_id='' @ rc_worker cfg]"

definition findNamedContainer :: "'n runtime_env \<Rightarrow> runtime_config \<Rightarrow> string \<Rightarrow> ('n, string option) rt" where
  "findNamedContainer e cfg wid =
     bind (or_engine_error (list_containers e (by_name (containerName wid)))) (\<lambda>containers.
       let exact = filter (\<lambda>c. CHR ''/'' # containerName wid \<in> set (ci_names c)) containers in
       if exact = [] then pure None
       else if length exact \<noteq> 1 \<or> \<not> labelsMatch (ci_labels (hd exact)) (managedLabels (rc_worker cfg) wid)
       then raise (refuse Unmanaged_Container_Conflict)
       else pure (Some (ci_id (hd exact))))"

definition requireManagedContainer :: "'n runtime_env \<Rightarrow> runtime_config \<Rightarrow> string \<Rightarrow> ('n, string) rt" where
  "requireManagedContainer e cfg wid =
     bind (findNamedContainer e cfg wid) (\<lambda>found.
       case found of None \<Rightarrow> raise (refuse Workspace_Not_Managed) | Some cid \<Rightarrow> pure cid)"

definition findNamedNetwork :: "'n runtime_env \<Rightarrow> string \<Rightarrow> ('n, string option) rt" where
  "findNamedNetwork e wid =
     bind (or_engine_error (list_networks e (Some (networkName wid)))) (\<lambda>networks.
       let exact = filter (\<lambda>n. nw_name n = networkName wid) networks in
       if exact = [] then pure None
       else if length exact \<noteq> 1 then raise (refuse Unmanaged_Network_Conflict)
       else pure (Some (nw_id (hd exact))))"

section \<open>Directories and metadata\<close>

definition initialize :: "'n runtime_env \<Rightarrow> runtime_config \<Rightarrow> ('n, unit) rt" where
  "initialize e cfg =
     bind (observe (\<lambda>n. (Inr (re_initialized e n), n))) (\<lambda>done.
       if done then pure ()
       else
         andThen (observe (re_mkdir e (workspaces_root cfg) True))
         (bind (observe (re_realpath e (rc_root cfg))) (\<lambda>base.
          bind (observe (re_realpath e (workspaces_root cfg))) (\<lambda>workspaces.
            if workspaces \<noteq> base @ ''/workspaces'' then raise (refuse Workspace_Metadata_Mismatch)
            else observe (\<lambda>n. (Inr (), re_set_initialized e n))))))"

text \<open>\<open>dirname(join(root, id))\<close> is the root exactly for a plain name; every UUID is one.\<close>

definition plain_name :: "string \<Rightarrow> bool" where
  "plain_name s \<longleftrightarrow> s \<notin> set ['''', ''.'', ''..''] \<and> CHR ''/'' \<notin> set s"

definition workspacePaths :: "'n runtime_env \<Rightarrow> runtime_config \<Rightarrow> string \<Rightarrow> ('n, workspace_paths) rt" where
  "workspacePaths e cfg wid =
     andThen (initialize e cfg)
     (andThen (require (rc_uuid cfg wid) Plain_Error)
     (andThen (require (plain_name wid) (refuse Workspace_Metadata_Mismatch))
     (pure (paths_of cfg wid))))"

definition read_metadata :: "'n runtime_env \<Rightarrow> string \<Rightarrow> ('n, json) rt" where
  "read_metadata e path = external (on_success (Metadata_Read path)) (re_read_json e path)"

definition verifyMetadata ::
  "'n runtime_env \<Rightarrow> runtime_config \<Rightarrow> workspace_paths \<Rightarrow> string \<Rightarrow> ('n, workspace_metadata) rt" where
  "verifyMetadata e cfg paths wid =
     bind (try_catch
         (bind (observe (re_lstat e (wp_file paths))) (\<lambda>kind.
            if \<not> fk_file kind \<or> fk_link kind then raise Plain_Error
            else read_metadata e (wp_file paths)))
         (\<lambda>_. raise (refuse Workspace_Metadata_Mismatch)))
       (\<lambda>decoded.
         case parse_metadata cfg decoded of
           None \<Rightarrow> raise (refuse Workspace_Metadata_Mismatch)
         | Some m \<Rightarrow>
             if md_workspace m \<noteq> wid \<or> md_worker m \<noteq> rc_worker cfg
             then raise (refuse Workspace_Metadata_Mismatch) else pure m)"

text \<open>Write to a new file, sync it, rename it over the metadata file.\<close>

definition writeMetadata ::
  "'n runtime_env \<Rightarrow> runtime_config \<Rightarrow> workspace_paths \<Rightarrow> workspace_metadata \<Rightarrow> ('n, unit) rt" where
  "writeMetadata e cfg paths m =
     bind (observe (\<lambda>n. let (u, n') = re_uuid e n in (Inr u, n'))) (\<lambda>unique.
       let temporary = wp_file paths @ ''.'' @ unique @ ''.tmp'' in
       andThen (observe (re_open_new e temporary))
       (andThen (try_finally
          (if parse_metadata cfg (render_metadata m) = None then raise Plain_Error
           else andThen (observe (re_write_open e temporary (render_metadata m)))
                  (observe (re_sync e temporary)))
          (observe (re_close e temporary)))
       (external (on_success (\<lambda>_. Metadata_Replaced (wp_file paths) m))
          (re_rename e temporary (wp_file paths)))))"

fun assert_real :: "'n runtime_env \<Rightarrow> bool \<Rightarrow> workspace_paths \<Rightarrow> string list \<Rightarrow> ('n, unit) rt" where
  "assert_real e requireAll paths [] = pure ()"
| "assert_real e requireAll paths (path # rest) =
     bind (try_catch (bind (observe (re_lstat e path)) (\<lambda>kind. pure (Some kind)))
         (\<lambda>x. if \<not> requireAll \<and> path \<in> {wp_home paths, wp_tmp paths} \<and> isNodeError x ''ENOENT''
              then pure None else raise x))
       (\<lambda>stat. case stat of
           None \<Rightarrow> assert_real e requireAll paths rest
         | Some kind \<Rightarrow>
             if \<not> fk_dir kind \<or> fk_link kind then raise (refuse Workspace_Metadata_Mismatch)
             else bind (observe (re_realpath e path)) (\<lambda>actual.
               if actual \<noteq> path then raise (refuse Workspace_Metadata_Mismatch)
               else assert_real e requireAll paths rest))"

definition assertRealDirectories :: "'n runtime_env \<Rightarrow> workspace_paths \<Rightarrow> bool \<Rightarrow> ('n, unit) rt" where
  "assertRealDirectories e paths requireAll =
     assert_real e requireAll paths
       [wp_root paths, wp_workspace paths, wp_home paths, wp_tmp paths, wp_pi paths, wp_metadata paths]"

definition managed :: "workspace_paths \<Rightarrow> workspace_metadata \<Rightarrow> managed_paths" where
  "managed paths m = \<lparr>mw_paths = paths, mw_image = md_image m, mw_managed = m\<rparr>"

definition requireWorkspacePaths :: "'n runtime_env \<Rightarrow> runtime_config \<Rightarrow> string \<Rightarrow> ('n, managed_paths) rt" where
  "requireWorkspacePaths e cfg wid =
     bind (workspacePaths e cfg wid) (\<lambda>paths.
       andThen (try_catch (observe (re_access e (wp_file paths)))
         (\<lambda>_. raise (refuse Workspace_Not_Managed)))
       (bind (verifyMetadata e cfg paths wid) (\<lambda>m.
        andThen (assertRealDirectories e paths False) (pure (managed paths m)))))"

definition make_directory :: "'n runtime_env \<Rightarrow> bool \<Rightarrow> string \<Rightarrow> ('n, unit) rt" where
  "make_directory e recursive path = external (on_success (\<lambda>_. Directory_Made path)) (re_mkdir e path recursive)"

definition new_metadata :: "runtime_config \<Rightarrow> string \<Rightarrow> string \<Rightarrow> workspace_metadata" where
  "new_metadata cfg wid runtimeImage =
     \<lparr>md_workspace = wid, md_worker = rc_worker cfg, md_image = runtimeImage, md_quota = None,
      md_home = None, md_provider = None, md_image_id = None, md_previous = None\<rparr>"

definition assertWorkspaceImage :: "string \<Rightarrow> string \<Rightarrow> thrown option" where
  "assertWorkspaceImage recorded requested = (if recorded \<noteq> requested then Some mismatch else None)"

definition ensureWorkspacePaths ::
  "'n runtime_env \<Rightarrow> runtime_config \<Rightarrow> string \<Rightarrow> string \<Rightarrow> ('n, managed_paths) rt" where
  "ensureWorkspacePaths e cfg wid runtimeImage =
     bind (workspacePaths e cfg wid) (\<lambda>paths.
     bind (try_catch (andThen (make_directory e False (wp_root paths)) (pure True))
         (\<lambda>x. if isNodeError x ''EEXIST'' then pure False else raise x)) (\<lambda>created.
     andThen (if created then pure ()
        else bind (verifyMetadata e cfg paths wid) (\<lambda>m. passes (assertWorkspaceImage (md_image m) runtimeImage)))
     (andThen (for_all (make_directory e True)
        [wp_workspace paths, wp_home paths, wp_tmp paths, wp_pi paths, wp_metadata paths])
     (andThen (or_engine_error
        (andThen (for_all (\<lambda>d. observe (re_chown e d (rc_uid cfg) (rc_gid cfg)))
            [wp_workspace paths, wp_home paths, wp_tmp paths, wp_pi paths])
          (observe (re_chmod e (wp_tmp paths)))))
     (andThen (if created
        then external (on_success (\<lambda>_. Metadata_Created (wp_file paths) (new_metadata cfg wid runtimeImage)))
               (re_write_json e (wp_file paths) (render_metadata (new_metadata cfg wid runtimeImage)))
        else pure ())
     (andThen (assertRealDirectories e paths True)
     (bind (verifyMetadata e cfg paths wid) (\<lambda>m. pure (managed paths m)))))))))"

section \<open>Storage\<close>

definition quota_ids :: "json option \<Rightarrow> runtime_config \<Rightarrow> nat list" where
  "quota_ids decoded cfg =
     (case decoded of
        None \<Rightarrow> []
      | Some j \<Rightarrow>
          (case parse_metadata cfg j of
             None \<Rightarrow> []
           | Some m \<Rightarrow> (case md_quota m of None \<Rightarrow> [] | Some q \<Rightarrow> [qm_data q, qm_pi q])))"

definition used_project_ids ::
  "'n runtime_env \<Rightarrow> runtime_config \<Rightarrow> (string \<times> bool) \<Rightarrow> ('n, nat list) rt" where
  "used_project_ids e cfg entry =
     (case entry of (name, directory) \<Rightarrow>
        if \<not> rc_uuid cfg name \<or> \<not> directory then pure []
        else bind (try_catch
            (bind (read_metadata e (wp_file (paths_of cfg name))) (\<lambda>j. pure (Some j))) (\<lambda>_. pure None))
          (\<lambda>decoded. pure (quota_ids decoded cfg)))"

text \<open>
  \<open>for (candidate = first; ids.length < count && candidate < first + 2 ** 20; ..)\<close>: the second
  argument is how many candidates are left.
\<close>

fun unused_from :: "nat list \<Rightarrow> nat \<Rightarrow> nat \<Rightarrow> nat \<Rightarrow> nat list" where
  "unused_from used 0 candidate wanted = []"
| "unused_from used (Suc left) candidate wanted =
     (if wanted = 0 then []
      else if candidate \<in> set used then unused_from used left (candidate + 1) wanted
      else candidate # unused_from used left (candidate + 1) (wanted - 1))"

definition unusedProjectIds :: "'n runtime_env \<Rightarrow> runtime_config \<Rightarrow> nat \<Rightarrow> ('n, nat list) rt" where
  "unusedProjectIds e cfg wanted =
     bind (observe (re_readdir e (workspaces_root cfg))) (\<lambda>entries.
     bind (for_each (used_project_ids e cfg) entries) (\<lambda>used.
       pure (unused_from (concat used) (2 ^ 20) (rc_project_min cfg + 1) wanted)))"

definition with_managed :: "managed_paths \<Rightarrow> workspace_metadata \<Rightarrow> managed_paths" where
  "with_managed paths m = paths\<lparr>mw_managed := m\<rparr>"

definition allocate_quota ::
  "'n runtime_env \<Rightarrow> runtime_config \<Rightarrow> managed_paths \<Rightarrow> nat \<Rightarrow> ('n, workspace_metadata \<times> quota_metadata) rt" where
  "allocate_quota e cfg paths limit =
     bind (unusedProjectIds e cfg 2) (\<lambda>ids.
       case ids of
         [data, pi_project] \<Rightarrow>
           let q = \<lparr>qm_data = data, qm_pi = pi_project, qm_limit = limit\<rparr>;
               m = (mw_managed paths)\<lparr>md_quota := Some q\<rparr>
           in andThen (writeMetadata e cfg (mw_paths paths) m) (pure (m, q))
       | _ \<Rightarrow> raise (refuse Disk_Quota_Apply_Failed))"

definition prepareStorage ::
  "'n runtime_env \<Rightarrow> runtime_config \<Rightarrow> managed_paths \<Rightarrow> nat \<Rightarrow> ('n, managed_paths) rt" where
  "prepareStorage e cfg paths limit =
     bind (storage_seen e) (\<lambda>enforced.
     andThen (require enforced (refuse Disk_Quota_Unenforced))
     (bind (case md_quota (mw_managed paths) of
              None \<Rightarrow> allocate_quota e cfg paths limit
            | Some q \<Rightarrow>
                if qm_limit q \<noteq> limit then
                  let q' = q\<lparr>qm_limit := limit\<rparr>; m = (mw_managed paths)\<lparr>md_quota := Some q'\<rparr>
                  in andThen (writeMetadata e cfg (mw_paths paths) m) (pure (m, q'))
                else pure (mw_managed paths, q))
       (\<lambda>(m, q).
         andThen (try_catch
            (external (on_success (\<lambda>_. Storage_Prepared (mw_paths paths) q limit))
               (re_prepare e (mw_paths paths) q limit))
            (\<lambda>x. raise (storageError x)))
         (pure (with_managed paths m)))))"

section \<open>Networks\<close>

definition createNetwork :: "'n runtime_env \<Rightarrow> runtime_config \<Rightarrow> string \<Rightarrow> string \<Rightarrow> ('n, unit) rt" where
  "createNetwork e cfg wid name =
     or_engine_error (external (attempt (Network_Created (workspace_network cfg wid name)))
       (re_create_network e (workspace_network cfg wid name)))"

definition identity_of ::
  "'n runtime_env \<Rightarrow> runtime_config \<Rightarrow> string \<Rightarrow> managed_paths \<Rightarrow> container_inspection \<Rightarrow> ('n, generation) rt" where
  "identity_of e cfg wid paths i = verdict (verifyManagedContainerIdentity cfg i wid paths (networkName wid))"

definition current_identity ::
  "'n runtime_env \<Rightarrow> runtime_config \<Rightarrow> string \<Rightarrow> managed_paths \<Rightarrow> container_inspection \<Rightarrow> ('n, unit) rt" where
  "current_identity e cfg wid paths i =
     bind (identity_of e cfg wid paths i) (\<lambda>g. passes (assertCurrentGeneration g))"

definition detach_legacy ::
  "'n runtime_env \<Rightarrow> runtime_config \<Rightarrow> string \<Rightarrow> managed_paths \<Rightarrow> string \<Rightarrow> string \<Rightarrow> ('n, unit) rt" where
  "detach_legacy e cfg wid paths nid cid =
     bind (inspect_container e cid) (\<lambda>i.
     bind (identity_of e cfg wid paths i) (\<lambda>_.
       if cs_running (in_state i) then raise (refuse Egress_Network_Legacy)
       else if networkName wid \<in> set (in_networks i)
       then or_engine_error (external (attempt (Network_Disconnected nid (in_id i))) (re_disconnect e nid (in_id i)))
       else pure ()))"

definition attach_migrated ::
  "'n runtime_env \<Rightarrow> string \<Rightarrow> string \<Rightarrow> ('n, unit) rt" where
  "attach_migrated e wid cid =
     bind (findNamedNetwork e wid) (\<lambda>found.
       case found of
         None \<Rightarrow> raise (refuse Unmanaged_Network_Conflict)
       | Some nid \<Rightarrow>
           or_engine_error (bind (inspect_container e cid) (\<lambda>i.
             external (attempt (Network_Connected nid (in_id i))) (re_connect e nid (in_id i)))))"

definition ensureNetwork ::
  "'n runtime_env \<Rightarrow> runtime_config \<Rightarrow> string \<Rightarrow> managed_paths \<Rightarrow> ('n, unit) rt" where
  "ensureNetwork e cfg wid paths =
     bind (findNamedNetwork e wid) (\<lambda>existing.
       case existing of
         None \<Rightarrow> createNetwork e cfg wid (networkName wid)
       | Some nid \<Rightarrow>
           bind (inspect_network e nid) (\<lambda>i.
           bind (verdict (verifyManagedNetwork cfg i wid (networkName wid))) (\<lambda>g.
             if g = Current then pure ()
             else bind (findNamedContainer e cfg wid) (\<lambda>container.
               andThen (case container of
                   None \<Rightarrow> pure () | Some cid \<Rightarrow> detach_legacy e cfg wid paths nid cid)
               (andThen (or_engine_error (external (attempt (Network_Removed nid)) (re_remove_network e nid)))
               (andThen (createNetwork e cfg wid (networkName wid))
               (case container of None \<Rightarrow> pure () | Some cid \<Rightarrow> attach_migrated e wid cid)))))))"

definition assertEgressEnforced :: "'n runtime_env \<Rightarrow> ('n, unit) rt" where
  "assertEgressEnforced e =
     bind (try_catch (external (on_success Egress_Checked) (re_egress_ensure e)) (\<lambda>_. pure False))
       (\<lambda>enforced. require enforced (refuse Egress_Unenforced))"

definition clearTemporaryDirectory :: "'n runtime_env \<Rightarrow> workspace_paths \<Rightarrow> ('n, unit) rt" where
  "clearTemporaryDirectory e paths =
     bind (observe (re_lstat e (wp_tmp paths))) (\<lambda>kind.
     andThen (require (fk_dir kind \<and> \<not> fk_link kind) (refuse Workspace_Metadata_Mismatch))
     (bind (observe (re_readdir e (wp_tmp paths))) (\<lambda>entries.
       for_all (\<lambda>entry. let path = wp_tmp paths @ ''/'' @ fst entry in
          external (attempt (Entry_Removed path)) (re_rm e path)) entries)))"

section \<open>Creating a container\<close>

definition HOME_INIT_PREFIX :: string where "HOME_INIT_PREFIX = ''agent-runtime-home-init-''"

text \<open>The sandbox that seeds a home; its entry point, a fixed shell command, is left out.\<close>

definition home_container :: "runtime_config \<Rightarrow> managed_paths \<Rightarrow> string \<Rightarrow> container_spec" where
  "home_container cfg paths name =
     \<lparr>sp_name = name,
      sp_config = \<lparr>cc_image = mw_image paths, cc_user = runtimeUser cfg, cc_working_dir = '''',
        cc_env = [], cc_labels = None\<rparr>,
      sp_exposed = [],
      sp_host =
        \<lparr>hc_privileged = False, hc_network_mode = ''none'', hc_cap_drop = Some [''ALL''],
         hc_security_opt = Some [''no-new-privileges:true''], hc_port_bindings = None,
         hc_readonly = Some True, hc_binds = None, hc_tmpfs = None, hc_ulimits = None, hc_log = None,
         hc_memory = Some (256 * 1024 ^ 2), hc_nano_cpus = None, hc_pids = Some 32, hc_restart = None\<rparr>,
      sp_mounts = [(wp_home (mw_paths paths), ''/home/agent'', False)]\<rparr>"

definition home_sandbox :: "'n runtime_env \<Rightarrow> container_spec \<Rightarrow> ('n, unit) rt" where
  "home_sandbox e h =
     or_engine_error
       (bind (external (attempt (Home_Created h)) (re_create_home e h)) (\<lambda>cid.
          try_finally
            (andThen (external (attempt (Home_Started cid)) (re_start e cid))
             (bind (observe (re_wait e cid)) (\<lambda>status. require (status = Some 0) Plain_Error)))
            (try_catch (external (attempt (Home_Removed cid)) (re_remove e cid True)) (\<lambda>_. pure ()))))"

definition initializeHome ::
  "'n runtime_env \<Rightarrow> runtime_config \<Rightarrow> managed_paths \<Rightarrow> ('n, managed_paths) rt" where
  "initializeHome e cfg paths =
     (if md_home (mw_managed paths) = Some True then pure paths
      else bind (observe (\<lambda>n. let (u, n') = re_uuid e n in (Inr u, n'))) (\<lambda>unique.
        andThen (home_sandbox e (home_container cfg paths (HOME_INIT_PREFIX @ unique)))
        (let m = (mw_managed paths)\<lparr>md_home := Some True\<rparr> in
         andThen (writeMetadata e cfg (mw_paths paths) m) (pure (with_managed paths m)))))"

definition pin_image ::
  "'n runtime_env \<Rightarrow> runtime_config \<Rightarrow> managed_paths \<Rightarrow> string \<Rightarrow> ('n, managed_paths) rt" where
  "pin_image e cfg paths imageId =
     (if \<not> imageDigest imageId then pure paths
      else let m = (mw_managed paths)\<lparr>md_image_id := Some imageId\<rparr> in
        andThen (writeMetadata e cfg (mw_paths paths) m) (pure (with_managed paths m)))"

definition pinImageId ::
  "'n runtime_env \<Rightarrow> runtime_config \<Rightarrow> managed_paths \<Rightarrow> container_inspection \<Rightarrow> ('n, managed_paths) rt" where
  "pinImageId e cfg paths i =
     (if md_image_id (mw_managed paths) \<noteq> None then pure paths else pin_image e cfg paths (in_image i))"

definition createContainer ::
  "'n runtime_env \<Rightarrow> runtime_config \<Rightarrow> string \<Rightarrow> managed_paths \<Rightarrow> offered_image \<Rightarrow> workspace_resources
   \<Rightarrow> ('n, managed_paths) rt" where
  "createContainer e cfg wid paths offered resources =
     (let spec = workspace_container cfg wid (mw_paths paths) (of_image offered) resources in
      andThen (or_engine_error (external (attempt (Container_Created spec)) (re_create e spec)))
      (bind (requireManagedContainer e cfg wid) (\<lambda>cid.
       bind (inspect_container e cid) (\<lambda>i.
         if of_image_id offered \<noteq> None \<and> of_image_id offered \<noteq> Some (in_image i)
         then andThen (try_catch (remove_container e cid True) (\<lambda>_. pure ()))
                (raise (refuse Runtime_Image_Unavailable))
         else pin_image e cfg paths (in_image i)))))"

definition requireOffered :: "'n runtime_env \<Rightarrow> string \<Rightarrow> ('n, offered_image) rt" where
  "requireOffered e runtimeImage =
     bind (observe (\<lambda>n. (Inr (re_offered e runtimeImage n), n))) (\<lambda>found.
       case found of None \<Rightarrow> raise (refuse Runtime_Image_Unavailable) | Some offered \<Rightarrow> pure offered)"

definition assertResources :: "runtime_config \<Rightarrow> workspace_resources \<Rightarrow> thrown option" where
  "assertResources cfg resources = (if resources \<noteq> rc_resources cfg then Some mismatch else None)"

definition runtime_observation :: "string \<Rightarrow> ws_state \<Rightarrow> string \<Rightarrow> observation" where
  "runtime_observation wid state runtimeImage =
     \<lparr>obs_workspace = wid, obs_state = state, obs_image = runtimeImage\<rparr>"

definition running_state :: "container_inspection \<Rightarrow> ws_state" where
  "running_state i = (if cs_running (in_state i) then RUNNING else STOPPED)"

section \<open>Waiting until pi-web answers\<close>

text \<open>
  \<open>while (Date.now() < deadline)\<close>: true once the probe answered, false when the deadline passed. The
  first argument is fuel, one unit per round.
\<close>

definition probe_binding :: "'n runtime_env \<Rightarrow> port_binding option \<Rightarrow> ('n, bool) rt" where
  "probe_binding e binding =
     (case binding of
        None \<Rightarrow> pure False
      | Some b \<Rightarrow>
          (case (pb_ip b, pb_port b) of
             (Some ip, Some port) \<Rightarrow>
               if ip = ''127.0.0.1'' then external (on_success (Ready_Seen port)) (re_ready e port) else pure False
           | _ \<Rightarrow> pure False))"

fun wait_ready :: "nat \<Rightarrow> 'n runtime_env \<Rightarrow> string \<Rightarrow> int \<Rightarrow> ('n, bool) rt" where
  "wait_ready 0 e cid deadline = raise Still_Waiting"
| "wait_ready (Suc fuel) e cid deadline =
     bind (observe (\<lambda>n. (Inr (re_now e n), n))) (\<lambda>now.
       if deadline \<le> now then pure False
       else bind (inspect_container e cid) (\<lambda>i.
         if \<not> cs_running (in_state i) then raise (refuse Runtime_Start_Failed)
         else bind (probe_binding e (first_binding (Some (in_ports i)) PI_WEB_PORT)) (\<lambda>ready.
           if ready then pure True
           else andThen (observe (\<lambda>n. (Inr (), re_delay e n))) (wait_ready fuel e cid deadline))))"

definition become_ready ::
  "nat \<Rightarrow> 'n runtime_env \<Rightarrow> runtime_config \<Rightarrow> string \<Rightarrow> string \<Rightarrow> string \<Rightarrow> ('n, observation) rt" where
  "become_ready fuel e cfg cid wid runtimeImage =
     bind (observe (\<lambda>n. (Inr (re_now e n + rc_start_timeout cfg), n))) (\<lambda>deadline.
     bind (wait_ready fuel e cid deadline) (\<lambda>ready.
       if ready then pure (runtime_observation wid RUNNING runtimeImage)
       else raise (Runtime_Error Runtime_Not_Ready True)))"

section \<open>The operations\<close>

definition ensure_existing ::
  "'n runtime_env \<Rightarrow> runtime_config \<Rightarrow> string \<Rightarrow> managed_paths \<Rightarrow> string option \<Rightarrow> ('n, unit) rt" where
  "ensure_existing e cfg wid paths existing =
     (case existing of
        None \<Rightarrow> pure ()
      | Some cid \<Rightarrow> bind (inspect_container e cid) (current_identity e cfg wid paths))"

definition ensure_created ::
  "'n runtime_env \<Rightarrow> runtime_config \<Rightarrow> string \<Rightarrow> managed_paths \<Rightarrow> offered_image \<Rightarrow> workspace_resources
   \<Rightarrow> bool \<Rightarrow> ('n, managed_paths) rt" where
  "ensure_created e cfg wid paths offered resources created =
     (if created
      then bind (initializeHome e cfg paths) (\<lambda>p. createContainer e cfg wid p offered resources)
      else pure paths)"

definition ensure_verified ::
  "'n runtime_env \<Rightarrow> runtime_config \<Rightarrow> string \<Rightarrow> managed_paths \<Rightarrow> workspace_resources \<Rightarrow> bool
   \<Rightarrow> ('n, observation) rt" where
  "ensure_verified e cfg wid paths resources created =
     bind (requireManagedContainer e cfg wid) (\<lambda>cid.
     bind (inspect_container e cid) (\<lambda>i.
     andThen (current_identity e cfg wid paths i)
     (bind (if created
        then andThen (passes (verifyCurrentRuntimeConfiguration cfg i resources)) (pure paths)
        else andThen (passes (verifyLegacyRuntimeConfiguration i resources)) (pinImageId e cfg paths i))
       (\<lambda>p. pure (runtime_observation wid (running_state i) (mw_image p))))))"

definition runtime_ensure ::
  "'n runtime_env \<Rightarrow> runtime_config \<Rightarrow> string \<Rightarrow> string \<Rightarrow> workspace_resources \<Rightarrow> nat \<Rightarrow> ('n, observation) rt" where
  "runtime_ensure e cfg wid runtimeImage resources limit =
     bind (requireOffered e runtimeImage) (\<lambda>offered.
     andThen (passes (assertResources cfg resources))
     (bind (ensureWorkspacePaths e cfg wid runtimeImage) (\<lambda>paths.
      bind (findNamedContainer e cfg wid) (\<lambda>existing.
      andThen (ensure_existing e cfg wid paths existing)
      (bind (prepareStorage e cfg paths limit) (\<lambda>paths1.
       andThen (ensureNetwork e cfg wid paths1)
       (bind (ensure_created e cfg wid paths1 offered resources (existing = None)) (\<lambda>paths2.
         ensure_verified e cfg wid paths2 resources (existing = None)))))))))"

definition start_stopped ::
  "'n runtime_env \<Rightarrow> runtime_config \<Rightarrow> managed_paths \<Rightarrow> string \<Rightarrow> ('n, unit) rt" where
  "start_stopped e cfg paths cid =
     andThen (assertEgressEnforced e)
     (case md_quota (mw_managed paths) of
        None \<Rightarrow> raise (refuse Disk_Quota_Unenforced)
      | Some q \<Rightarrow>
          bind (prepareStorage e cfg paths (qm_limit q)) (\<lambda>_.
          andThen (clearTemporaryDirectory e (mw_paths paths))
            (unless_status 304 (start_container e cid))))"

definition runtime_start ::
  "nat \<Rightarrow> 'n runtime_env \<Rightarrow> runtime_config \<Rightarrow> string \<Rightarrow> ('n, observation) rt" where
  "runtime_start fuel e cfg wid =
     bind (requireWorkspacePaths e cfg wid) (\<lambda>paths.
     bind (requireOffered e (mw_image paths)) (\<lambda>_.
     bind (requireManagedContainer e cfg wid) (\<lambda>cid.
     bind (inspect_container e cid) (\<lambda>i.
     andThen (current_identity e cfg wid paths i)
     (andThen (passes (verifyLegacyCompatibleDefaultCwd i))
     (andThen (ensureNetwork e cfg wid paths)
     (andThen (if \<not> cs_running (in_state i) then start_stopped e cfg paths cid else pure ())
       (become_ready fuel e cfg cid wid (mw_image paths)))))))))"

definition runtime_stop :: "'n runtime_env \<Rightarrow> runtime_config \<Rightarrow> string \<Rightarrow> ('n, observation) rt" where
  "runtime_stop e cfg wid =
     bind (requireWorkspacePaths e cfg wid) (\<lambda>paths.
     bind (requireManagedContainer e cfg wid) (\<lambda>cid.
     bind (inspect_container e cid) (\<lambda>i.
     bind (identity_of e cfg wid paths i) (\<lambda>_.
     andThen (if cs_running (in_state i) then unless_status 304 (stop_container e cid) else pure ())
       (pure (runtime_observation wid STOPPED (mw_image paths)))))))"

text \<open>What an existing container was created from: the recorded image or, after an interrupted change, the
  previous one, whose content is not pinned any more.\<close>

definition created_from :: "managed_paths \<Rightarrow> container_inspection \<Rightarrow> managed_paths option" where
  "created_from paths i =
     (if cc_image (in_config i) = mw_image paths then Some paths
      else if Some (cc_image (in_config i)) = md_previous (mw_managed paths)
      then Some (paths\<lparr>mw_image := cc_image (in_config i),
                       mw_managed := (mw_managed paths)\<lparr>md_image_id := None\<rparr>\<rparr>)
      else None)"

text \<open>Checks the existing container; true when it already runs from the target.\<close>

definition change_settled ::
  "'n runtime_env \<Rightarrow> runtime_config \<Rightarrow> string \<Rightarrow> managed_paths \<Rightarrow> offered_image \<Rightarrow> string \<Rightarrow> string option
   \<Rightarrow> ('n, bool) rt" where
  "change_settled e cfg wid paths target toImage container =
     (case container of
        None \<Rightarrow> pure False
      | Some cid \<Rightarrow>
          bind (inspect_container e cid) (\<lambda>i.
            case created_from paths i of
              None \<Rightarrow> raise mismatch
            | Some created \<Rightarrow>
                andThen (current_identity e cfg wid created i)
                (if cs_running (in_state i) \<or> cs_restarting (in_state i) \<or> cs_paused (in_state i)
                 then raise (refuse Workspace_Running)
                 else pure (mw_image paths = toImage \<and> cc_image (in_config i) = toImage \<and>
                        (of_image_id target = None \<or> of_image_id target = Some (in_image i))))))"

definition switch_metadata ::
  "'n runtime_env \<Rightarrow> runtime_config \<Rightarrow> managed_paths \<Rightarrow> string \<Rightarrow> string \<Rightarrow> ('n, managed_paths) rt" where
  "switch_metadata e cfg paths fromImage toImage =
     (if mw_image paths \<noteq> toImage then
        let m = (mw_managed paths)\<lparr>md_image := toImage, md_previous := Some fromImage, md_image_id := None\<rparr>
        in andThen (writeMetadata e cfg (mw_paths paths) m)
             (pure (paths\<lparr>mw_image := toImage, mw_managed := m\<rparr>))
      else pure paths)"

definition replace_container ::
  "'n runtime_env \<Rightarrow> runtime_config \<Rightarrow> string \<Rightarrow> managed_paths \<Rightarrow> offered_image \<Rightarrow> string \<Rightarrow> string option
   \<Rightarrow> ('n, observation) rt" where
  "replace_container e cfg wid paths target toImage container =
     andThen (case container of None \<Rightarrow> pure () | Some cid \<Rightarrow> unless_status 404 (remove_container e cid False))
     (bind (createContainer e cfg wid paths target (rc_resources cfg)) (\<lambda>paths1.
      bind (requireManagedContainer e cfg wid) (\<lambda>cid.
      bind (inspect_container e cid) (\<lambda>i.
      andThen (current_identity e cfg wid paths1 i)
      (andThen (passes (verifyCurrentRuntimeConfiguration cfg i (rc_resources cfg)))
        (pure (runtime_observation wid STOPPED toImage)))))))"

definition runtime_set ::
  "'n runtime_env \<Rightarrow> runtime_config \<Rightarrow> string \<Rightarrow> string \<Rightarrow> string \<Rightarrow> ('n, observation) rt" where
  "runtime_set e cfg wid fromImage toImage =
     bind (requireOffered e toImage) (\<lambda>target.
     bind (requireWorkspacePaths e cfg wid) (\<lambda>paths.
     andThen (require (mw_image paths = fromImage \<or> mw_image paths = toImage)
        (refuse Workspace_Metadata_Mismatch))
     (bind (findNamedContainer e cfg wid) (\<lambda>container.
      bind (change_settled e cfg wid paths target toImage container) (\<lambda>settled.
        if settled then pure (runtime_observation wid STOPPED toImage)
        else bind (switch_metadata e cfg paths fromImage toImage) (\<lambda>paths1.
          replace_container e cfg wid paths1 target toImage container))))))"

definition runtime_inspect :: "'n runtime_env \<Rightarrow> runtime_config \<Rightarrow> string \<Rightarrow> ('n, observation) rt" where
  "runtime_inspect e cfg wid =
     bind (requireWorkspacePaths e cfg wid) (\<lambda>paths.
     bind (findNamedContainer e cfg wid) (\<lambda>container.
       case container of
         None \<Rightarrow> pure (runtime_observation wid CREATED (mw_image paths))
       | Some cid \<Rightarrow>
           bind (inspect_container e cid) (\<lambda>i.
           bind (identity_of e cfg wid paths i) (\<lambda>_.
             pure (runtime_observation wid (running_state i) (mw_image paths))))))"

definition check_deletable ::
  "'n runtime_env \<Rightarrow> runtime_config \<Rightarrow> string \<Rightarrow> managed_paths \<Rightarrow> string option \<Rightarrow> ('n, unit) rt" where
  "check_deletable e cfg wid paths container =
     (case container of
        None \<Rightarrow> pure ()
      | Some cid \<Rightarrow>
          bind (inspect_container e cid) (\<lambda>i. bind (identity_of e cfg wid paths i) (\<lambda>_. pure ())))"

definition check_network_owned ::
  "'n runtime_env \<Rightarrow> runtime_config \<Rightarrow> string \<Rightarrow> string option \<Rightarrow> ('n, unit) rt" where
  "check_network_owned e cfg wid network =
     (case network of
        None \<Rightarrow> pure ()
      | Some nid \<Rightarrow>
          bind (inspect_network e nid) (\<lambda>i.
            require (ni_name i = networkName wid \<and>
                labelsMatch (ni_labels i) (managedLabels (rc_worker cfg) wid))
              (refuse Unmanaged_Network_Conflict)))"

definition release_projects :: "'n runtime_env \<Rightarrow> managed_paths \<Rightarrow> ('n, unit) rt" where
  "release_projects e paths =
     (case md_quota (mw_managed paths) of
        None \<Rightarrow> pure ()
      | Some q \<Rightarrow>
          bind (storage_seen e) (\<lambda>enforced.
            if enforced
            then try_catch (external (attempt (Projects_Released q)) (re_release e q)) (\<lambda>_. pure ())
            else pure ()))"

definition runtime_delete :: "'n runtime_env \<Rightarrow> runtime_config \<Rightarrow> string \<Rightarrow> ('n, observation) rt" where
  "runtime_delete e cfg wid =
     bind (requireWorkspacePaths e cfg wid) (\<lambda>paths.
     bind (findNamedContainer e cfg wid) (\<lambda>container.
     andThen (check_deletable e cfg wid paths container)
     (bind (findNamedNetwork e wid) (\<lambda>network.
      andThen (check_network_owned e cfg wid network)
      (andThen (case container of
           None \<Rightarrow> pure () | Some cid \<Rightarrow> unless_status 404 (remove_container e cid True))
      (andThen (case network of
           None \<Rightarrow> pure ()
         | Some nid \<Rightarrow> unless_status 404 (external (attempt (Network_Removed nid)) (re_remove_network e nid)))
      (andThen (external (attempt (Directory_Removed (wp_root (mw_paths paths)))) (re_rm e (wp_root (mw_paths paths))))
      (andThen (release_projects e paths)
        (pure (runtime_observation wid CREATED (mw_image paths)))))))))))"

end
