(* ===== verification/Fleet.thy ===== *)
theory Fleet
  imports Runtime PiConfig
begin

text \<open>
  \<open>apps/worker/src/runtime.ts\<close>, part three: the operations that look at all Workspaces of the Worker - the
  fail-closed stop, counting, sampling, the model relay's endpoints and reconciliation - and those that
  read a running Workspace for the gateway and the model provider.
\<close>

section \<open>Limits and counts\<close>

definition runtime_setDiskLimit ::
  "'n runtime_env \<Rightarrow> runtime_config \<Rightarrow> string \<Rightarrow> nat \<Rightarrow> ('n, nat \<times> int) rt" where
  "runtime_setDiskLimit e cfg wid limit =
     bind (requireWorkspacePaths e cfg wid) (\<lambda>paths.
       case md_quota (mw_managed paths) of
         None \<Rightarrow> pure (limit, 0)
       | Some q \<Rightarrow>
           bind (try_catch (external (on_success (\<lambda>_. Data_Limit_Set (mw_paths paths) q limit))
               (re_set_limit e (mw_paths paths) q limit)) (\<lambda>x. raise (storageError x))) (\<lambda>u.
           andThen (writeMetadata e cfg (mw_paths paths)
               ((mw_managed paths)\<lparr>md_quota := Some (q\<lparr>qm_limit := limit\<rparr>)\<rparr>))
             (pure (limit, pu_used_bytes u))))"

definition own_containers :: "runtime_config \<Rightarrow> bool \<Rightarrow> string list \<Rightarrow> container_filter" where
  "own_containers cfg every status =
     \<lparr>cf_all = every, cf_name = None, cf_labels = own_labels cfg, cf_status = status\<rparr>"

definition allocatedWorkspaces :: "'n runtime_env \<Rightarrow> runtime_config \<Rightarrow> ('n, nat) rt" where
  "allocatedWorkspaces e cfg =
     bind (or_engine_error (list_containers e (own_containers cfg True []))) (\<lambda>cs. pure (length cs))"

text \<open>A listed container that is exactly this Worker's for the Workspace its label names.\<close>

definition own_workspace :: "runtime_config \<Rightarrow> container_info \<Rightarrow> string option" where
  "own_workspace cfg c =
     (case managedWorkspaceId cfg (ci_labels c) of
        None \<Rightarrow> None
      | Some wid \<Rightarrow> if CHR ''/'' # containerName wid \<in> set (ci_names c) then Some wid else None)"

fun stop_own :: "'n runtime_env \<Rightarrow> runtime_config \<Rightarrow> container_info list \<Rightarrow> ('n, string list) rt" where
  "stop_own e cfg [] = pure []"
| "stop_own e cfg (c # cs) =
     (case own_workspace cfg c of
        None \<Rightarrow> stop_own e cfg cs
      | Some wid \<Rightarrow>
          andThen (unless_status 304 (stop_container e (ci_id c)))
          (bind (stop_own e cfg cs) (\<lambda>stopped. pure (wid # stopped))))"

definition stopRunningWorkspaces :: "'n runtime_env \<Rightarrow> runtime_config \<Rightarrow> ('n, string list) rt" where
  "stopRunningWorkspaces e cfg =
     bind (or_engine_error (list_containers e (own_containers cfg False [''running'', ''restarting''])))
       (stop_own e cfg)"

definition runningWorkspaceContainers ::
  "'n runtime_env \<Rightarrow> runtime_config \<Rightarrow> ('n, (string \<times> string) list) rt" where
  "runningWorkspaceContainers e cfg =
     bind (or_engine_error (list_containers e (own_containers cfg False [''running'']))) (\<lambda>cs.
       pure (List.map_filter (\<lambda>c. map_option (\<lambda>wid. (wid, ci_id c)) (own_workspace cfg c)) cs))"

record relay_endpoint =
  ep_workspace :: string
  ep_gateway :: string
  ep_container :: string

definition endpoint_of :: "runtime_config \<Rightarrow> container_info \<Rightarrow> relay_endpoint option" where
  "endpoint_of cfg c =
     (case own_workspace cfg c of
        None \<Rightarrow> None
      | Some wid \<Rightarrow>
          (case (case ci_networks c of None \<Rightarrow> [] | Some ns \<Rightarrow> ns) of
             [(name, address, gateway)] \<Rightarrow>
               if name = networkName wid \<and> address \<noteq> '''' \<and> gateway \<noteq> ''''
               then Some \<lparr>ep_workspace = wid, ep_gateway = gateway, ep_container = address\<rparr> else None
           | _ \<Rightarrow> None))"

definition relayEndpoints :: "'n runtime_env \<Rightarrow> runtime_config \<Rightarrow> ('n, relay_endpoint list) rt" where
  "relayEndpoints e cfg =
     bind (or_engine_error (list_containers e (own_containers cfg False [''running''])))
       (\<lambda>cs. pure (List.map_filter (endpoint_of cfg) cs))"

record disk_usage =
  du_workspace :: string
  du_data_used :: int
  du_data_limit :: nat
  du_data_inodes :: int
  du_pi_used :: int
  du_pi_limit :: nat

definition sample_disk :: "'n runtime_env \<Rightarrow> runtime_config \<Rightarrow> string \<Rightarrow> ('n, disk_usage option) rt" where
  "sample_disk e cfg wid =
     try_catch
       (bind (requireWorkspacePaths e cfg wid) (\<lambda>paths.
         case md_quota (mw_managed paths) of
           None \<Rightarrow> pure None
         | Some q \<Rightarrow>
             bind (observe (re_usage e (wp_workspace (mw_paths paths)))) (\<lambda>data.
             bind (observe (re_usage e (wp_pi (mw_paths paths)))) (\<lambda>p.
               pure (Some \<lparr>du_workspace = wid, du_data_used = pu_used_bytes data,
                 du_data_limit = pu_limit_bytes data, du_data_inodes = pu_used_inodes data,
                 du_pi_used = pu_used_bytes p, du_pi_limit = pu_limit_bytes p\<rparr>)))))
       (\<lambda>_. pure None)"

fun sample_disks ::
  "'n runtime_env \<Rightarrow> runtime_config \<Rightarrow> disk_usage list \<Rightarrow> (string \<times> bool) list \<Rightarrow> ('n, disk_usage list) rt" where
  "sample_disks e cfg samples [] = pure samples"
| "sample_disks e cfg samples ((name, directory) # entries) =
     (if \<not> rc_uuid cfg name \<or> \<not> directory then sample_disks e cfg samples entries
      else bind (sample_disk e cfg name) (\<lambda>s.
        let more = (case s of None \<Rightarrow> samples | Some u \<Rightarrow> samples @ [u]) in
        if length more \<ge> 10000 then pure more else sample_disks e cfg more entries))"

definition diskUsage :: "'n runtime_env \<Rightarrow> runtime_config \<Rightarrow> ('n, disk_usage list) rt" where
  "diskUsage e cfg =
     bind (storage_seen e) (\<lambda>enforced.
       if \<not> enforced then pure []
       else andThen (initialize e cfg)
         (bind (observe (re_readdir e (workspaces_root cfg))) (sample_disks e cfg [])))"

section \<open>A running Workspace\<close>

definition port_number :: "port_binding list \<Rightarrow> nat option" where
  "port_number bindings =
     (case bindings of
        [b] \<Rightarrow>
          (case (pb_ip b, pb_port b) of
             (Some ip, Some port) \<Rightarrow>
               if ip = ''127.0.0.1'' \<and> 1 \<le> length port \<and> length port \<le> 5 \<and> list_all is_digit port \<and>
                  1 \<le> number_of port \<and> number_of port \<le> 65535
               then Some (number_of port) else None
           | _ \<Rightarrow> None)
      | _ \<Rightarrow> None)"

text \<open>The answer is the port of \<open>http://127.0.0.1:port\<close>.\<close>

definition gatewayTarget :: "'n runtime_env \<Rightarrow> runtime_config \<Rightarrow> string \<Rightarrow> ('n, nat) rt" where
  "gatewayTarget e cfg wid =
     bind (requireWorkspacePaths e cfg wid) (\<lambda>paths.
     bind (requireManagedContainer e cfg wid) (\<lambda>cid.
     bind (inspect_container e cid) (\<lambda>i.
     andThen (current_identity e cfg wid paths i)
     (andThen (passes (verifyLegacyCompatibleDefaultCwd i))
     (andThen (require (cs_running (in_state i)) (Runtime_Error Runtime_Not_Ready True))
     (bind (storage_seen e) (\<lambda>storage.
      andThen (require storage (Runtime_Error Disk_Quota_Unenforced True))
      (bind (egress_seen e) (\<lambda>egress.
       andThen (require egress (Runtime_Error Egress_Unenforced True))
       (case port_number (case map_of (in_ports i) PI_WEB_PORT of None \<Rightarrow> [] | Some bs \<Rightarrow> bs) of
          None \<Rightarrow> raise mismatch
        | Some port \<Rightarrow> pure port))))))))))"

definition ipv4_shape :: "string \<Rightarrow> bool" where
  "ipv4_shape s \<longleftrightarrow>
     length (split_on CHR ''.'' s) = 4 \<and>
     list_all (\<lambda>part. part \<noteq> '''' \<and> list_all is_digit part) (split_on CHR ''.'' s)"

definition networkGatewayAddress ::
  "'n runtime_env \<Rightarrow> runtime_config \<Rightarrow> string \<Rightarrow> ('n, string option) rt" where
  "networkGatewayAddress e cfg wid =
     bind (findNamedNetwork e wid) (\<lambda>network.
       case network of
         None \<Rightarrow> pure None
       | Some nid \<Rightarrow>
           bind (inspect_network e nid) (\<lambda>i.
           bind (verdict (verifyManagedNetwork cfg i wid (networkName wid))) (\<lambda>g.
             pure (if g \<noteq> Current then None
                   else first_row (List.map_filter
                     (\<lambda>gw. case gw of None \<Rightarrow> None | Some s \<Rightarrow> if ipv4_shape s then Some s else None)
                     (case ni_gateways i of None \<Rightarrow> [] | Some gs \<Rightarrow> gs))))))"

text \<open>\<open>write\<close> stands for \<open>writePlatformProvider\<close> on the same outside world.\<close>

definition write_provider ::
  "(pi_target \<Rightarrow> ('n, pi_write) rt) \<Rightarrow> 'n runtime_env \<Rightarrow> runtime_config \<Rightarrow> managed_paths
   \<Rightarrow> model_gateway_config option \<Rightarrow> string option \<Rightarrow> ('n, model_config_result) rt" where
  "write_provider write_pi e cfg paths config origin =
     bind (write_pi \<lparr>pt_directory = wp_pi (mw_paths paths), pt_config = config, pt_origin = origin,
         pt_previous = md_provider (mw_managed paths), pt_uid = rc_uid cfg, pt_gid = rc_gid cfg\<rparr>)
       (\<lambda>(result, provider).
         andThen (if provider \<noteq> md_provider (mw_managed paths)
            then writeMetadata e cfg (mw_paths paths) ((mw_managed paths)\<lparr>md_provider := provider\<rparr>)
            else pure ())
           (pure result))"

definition configureModelProvider ::
  "(pi_target \<Rightarrow> ('n, pi_write) rt) \<Rightarrow> 'n runtime_env \<Rightarrow> runtime_config \<Rightarrow> string
   \<Rightarrow> model_gateway_config option \<Rightarrow> nat option \<Rightarrow> ('n, model_config_result) rt" where
  "configureModelProvider write_pi e cfg wid config relayPort =
     bind (requireWorkspacePaths e cfg wid) (\<lambda>paths.
     bind (findNamedContainer e cfg wid) (\<lambda>container.
     bind (case container of
         None \<Rightarrow> pure False
       | Some cid \<Rightarrow>
           bind (inspect_container e cid) (\<lambda>i.
           bind (identity_of e cfg wid paths i) (\<lambda>_. pure (cs_running (in_state i))))) (\<lambda>running.
       if running then pure Unchanged_Running
       else case (config, relayPort) of
              (Some _, Some port) \<Rightarrow>
                bind (networkGatewayAddress e cfg wid) (\<lambda>gateway.
                  case gateway of
                    None \<Rightarrow> pure Write_Failed
                  | Some address \<Rightarrow>
                      write_provider write_pi e cfg paths config
                        (Some (''http://'' @ address @ '':'' @ decimal port)))
            | _ \<Rightarrow> write_provider write_pi e cfg paths config None)))"

section \<open>Reconciliation: resources nobody assigned\<close>

datatype issue_resource = Container_Resource | Network_Resource | Directory_Resource
datatype issue_code = Unassigned_Local_Resource | Invalid_Managed_Root_Entry

record recovery_issue =
  ri_class :: issue_class
  ri_resource :: issue_resource
  ri_workspace :: "string option"
  ri_code :: issue_code

definition platform_labeled :: "labels option \<Rightarrow> bool" where
  "platform_labeled labels \<longleftrightarrow>
     label_value labels ''app'' = Some APP_LABEL \<and> label_value labels ''managed_by'' = Some MANAGED_BY_LABEL"

text \<open>The Workspaces a container or network names: by its name, then by its label.\<close>

definition resource_ids :: "runtime_config \<Rightarrow> string option \<Rightarrow> labels option \<Rightarrow> string list" where
  "resource_ids cfg name labels =
     (case workspaceIdFromResourceName cfg name of None \<Rightarrow> [] | Some wid \<Rightarrow> [wid]) @
     (case parse_workspace_id cfg (label_value labels ''workspace_id'') of None \<Rightarrow> [] | Some wid \<Rightarrow> [wid])"

definition resource_issue ::
  "runtime_config \<Rightarrow> string list \<Rightarrow> issue_resource \<Rightarrow> string option \<Rightarrow> labels option \<Rightarrow> recovery_issue option" where
  "resource_issue cfg assigned kind name labels =
     (let ids = resource_ids cfg name labels;
          workspaceId = (case find (\<lambda>wid. wid \<notin> set assigned) ids of
              Some wid \<Rightarrow> Some wid
            | None \<Rightarrow> resourceWorkspaceId cfg name (label_value labels ''workspace_id''))
      in if ids \<noteq> [] \<and> list_all (\<lambda>wid. wid \<in> set assigned) ids then None
         else Some \<lparr>ri_class = resourceClassification cfg labels workspaceId name, ri_resource = kind,
                    ri_workspace = workspaceId, ri_code = Unassigned_Local_Resource\<rparr>)"

definition container_resource_name :: "container_info \<Rightarrow> string option" where
  "container_resource_name c =
     map_option (drop 1) (find (starts_with (CHR ''/'' # RESOURCE_NAME_PREFIX)) (ci_names c))"

definition container_relevant :: "container_info \<Rightarrow> bool" where
  "container_relevant c \<longleftrightarrow> container_resource_name c \<noteq> None \<or> platform_labeled (ci_labels c)"

definition network_relevant :: "network_info \<Rightarrow> bool" where
  "network_relevant n \<longleftrightarrow> starts_with RESOURCE_NAME_PREFIX (nw_name n) \<or> platform_labeled (nw_labels n)"

definition container_issues :: "runtime_config \<Rightarrow> string list \<Rightarrow> container_info list \<Rightarrow> recovery_issue list" where
  "container_issues cfg assigned containers =
     List.map_filter (\<lambda>c. resource_issue cfg assigned Container_Resource (container_resource_name c) (ci_labels c))
       (filter container_relevant containers)"

definition network_issues :: "runtime_config \<Rightarrow> string list \<Rightarrow> network_info list \<Rightarrow> recovery_issue list" where
  "network_issues cfg assigned networks =
     List.map_filter (\<lambda>n. resource_issue cfg assigned Network_Resource (Some (nw_name n)) (nw_labels n))
       (filter network_relevant networks)"

text \<open>The Workspaces that have something on this Worker.\<close>

definition local_ids ::
  "runtime_config \<Rightarrow> container_info list \<Rightarrow> network_info list \<Rightarrow> (string \<times> bool) list \<Rightarrow> string list" where
  "local_ids cfg containers networks directories =
     concat (map (\<lambda>c. resource_ids cfg (container_resource_name c) (ci_labels c))
       (filter container_relevant containers)) @
     concat (map (\<lambda>n. resource_ids cfg (Some (nw_name n)) (nw_labels n)) (filter network_relevant networks)) @
     filter (rc_uuid cfg) (map fst directories)"

definition directoryClassification :: "'n runtime_env \<Rightarrow> runtime_config \<Rightarrow> string \<Rightarrow> ('n, issue_class) rt" where
  "directoryClassification e cfg wid =
     bind (workspacePaths e cfg wid) (\<lambda>paths.
     bind (try_catch (bind (read_metadata e (wp_file paths)) (\<lambda>j. pure (parse_metadata cfg j))) (\<lambda>_. pure None))
       (\<lambda>parsed. pure (case parsed of
           None \<Rightarrow> Unknown_Resource
         | Some m \<Rightarrow>
             if md_workspace m \<noteq> wid then Unknown_Resource
             else if md_worker m = rc_worker cfg then Managed_Orphan else Foreign_Managed_Resource)))"

definition too_many :: thrown where
  "too_many = Runtime_Error Runtime_Engine_Error False"

fun directory_issues ::
  "'n runtime_env \<Rightarrow> runtime_config \<Rightarrow> string list \<Rightarrow> recovery_issue list \<Rightarrow> (string \<times> bool) list
   \<Rightarrow> ('n, recovery_issue list) rt" where
  "directory_issues e cfg assigned issues [] = pure issues"
| "directory_issues e cfg assigned issues ((name, directory) # entries) =
     (if rc_uuid cfg name \<and> name \<in> set assigned then directory_issues e cfg assigned issues entries
      else bind (if rc_uuid cfg name \<and> directory then directoryClassification e cfg name
                 else pure Unknown_Resource) (\<lambda>class.
        if length issues \<ge> 10000 then raise too_many
        else directory_issues e cfg assigned
          (issues @ [\<lparr>ri_class = class, ri_resource = Directory_Resource,
             ri_workspace = (if rc_uuid cfg name then Some name else None),
             ri_code = (if directory then Unassigned_Local_Resource else Invalid_Managed_Root_Entry)\<rparr>])
          entries))"

section \<open>Reconciliation: the assigned Workspaces\<close>

record worker_assignment =
  wa_workspace :: string
  wa_image :: string
  wa_limit :: nat

datatype workspace_report =
    Observed_Workspace observation
  | Missing_Workspace string
  | Invalid_Workspace string runtime_code bool

definition recordRecoveredDiskLimit ::
  "'n runtime_env \<Rightarrow> runtime_config \<Rightarrow> managed_paths \<Rightarrow> nat \<Rightarrow> ('n, unit) rt" where
  "recordRecoveredDiskLimit e cfg paths limit =
     (case md_quota (mw_managed paths) of
        None \<Rightarrow> pure ()
      | Some q \<Rightarrow>
          if qm_limit q = limit then pure ()
          else bind (storage_seen e) (\<lambda>enforced.
            if \<not> enforced then pure ()
            else try_catch
              (bind (external (on_success (\<lambda>_. Data_Limit_Set (mw_paths paths) q limit))
                  (re_set_limit e (mw_paths paths) q limit)) (\<lambda>_.
                writeMetadata e cfg (mw_paths paths)
                  ((mw_managed paths)\<lparr>md_quota := Some (q\<lparr>qm_limit := limit\<rparr>)\<rparr>)))
              (\<lambda>_. pure ())))"

text \<open>\<open>a || !gate.isEnforced()\<close>: the gate is asked only when \<open>a\<close> is false.\<close>

definition unsafe_unless :: "bool \<Rightarrow> ('n, bool) rt \<Rightarrow> ('n, bool) rt" where
  "unsafe_unless already gate = (if already then pure True else bind gate (\<lambda>enforced. pure (\<not> enforced)))"

definition stop_failing :: "'n runtime_env \<Rightarrow> string \<Rightarrow> thrown \<Rightarrow> ('n, unit) rt" where
  "stop_failing e cid reason = andThen (unless_status 304 (stop_container e cid)) (raise reason)"

definition recovery_gates ::
  "'n runtime_env \<Rightarrow> runtime_config \<Rightarrow> managed_paths \<Rightarrow> nat \<Rightarrow> string \<Rightarrow> bool \<Rightarrow> generation \<Rightarrow> generation
   \<Rightarrow> ('n, unit) rt" where
  "recovery_gates e cfg paths limit cid running container network =
     bind (if running then unsafe_unless (container = Legacy) (storage_seen e) else pure False) (\<lambda>unquoted.
     andThen (if unquoted
        then stop_failing e cid (if container = Legacy then refuse Storage_Migration_Required
               else refuse Disk_Quota_Unenforced)
        else pure ())
     (andThen (recordRecoveredDiskLimit e cfg paths limit)
     (bind (if running then unsafe_unless (network = Legacy) (egress_seen e) else pure False) (\<lambda>exposed.
       if exposed
       then stop_failing e cid (if network = Legacy then refuse Egress_Network_Legacy
              else refuse Egress_Unenforced)
       else pure ()))))"

definition inspectForRecovery ::
  "nat \<Rightarrow> 'n runtime_env \<Rightarrow> runtime_config \<Rightarrow> worker_assignment \<Rightarrow> ('n, observation) rt" where
  "inspectForRecovery fuel e cfg a =
     (let wid = wa_workspace a in
      bind (requireWorkspacePaths e cfg wid) (\<lambda>paths.
      andThen (passes (assertWorkspaceImage (mw_image paths) (wa_image a)))
      (bind (requireManagedContainer e cfg wid) (\<lambda>cid.
       bind (findNamedNetwork e wid) (\<lambda>found.
        case found of
          None \<Rightarrow> raise (refuse Unmanaged_Network_Conflict)
        | Some nid \<Rightarrow>
            bind (inspect_network e nid) (\<lambda>ni.
            bind (verdict (verifyManagedNetwork cfg ni wid (networkName wid))) (\<lambda>network.
            bind (inspect_container e cid) (\<lambda>i.
            bind (identity_of e cfg wid paths i) (\<lambda>container.
            andThen (passes (verifyLegacyRuntimeConfiguration i (rc_resources cfg)))
            (andThen (recovery_gates e cfg paths (wa_limit a) cid (cs_running (in_state i)) container network)
            (if cs_restarting (in_state i) \<or> cs_paused (in_state i) \<or> cs_dead (in_state i)
             then raise (Runtime_Error Runtime_Not_Ready True)
             else if \<not> cs_running (in_state i)
             then pure (runtime_observation wid STOPPED (mw_image paths))
             else become_ready fuel e cfg cid wid (mw_image paths))))))))))))"

definition error_report :: "string \<Rightarrow> thrown \<Rightarrow> workspace_report" where
  "error_report wid x =
     (case engineError x of
        Runtime_Error code retryable \<Rightarrow> Invalid_Workspace wid code retryable
      | _ \<Rightarrow> Invalid_Workspace wid Runtime_Engine_Error True)"

definition report_one ::
  "nat \<Rightarrow> 'n runtime_env \<Rightarrow> runtime_config \<Rightarrow> string list \<Rightarrow> worker_assignment \<Rightarrow> ('n, workspace_report) rt" where
  "report_one fuel e cfg ids a =
     (if wa_workspace a \<notin> set ids then pure (Missing_Workspace (wa_workspace a))
      else try_catch (bind (inspectForRecovery fuel e cfg a) (\<lambda>ob. pure (Observed_Workspace ob)))
        (\<lambda>x. pure (error_report (wa_workspace a) x)))"

definition inventory ::
  "'n runtime_env \<Rightarrow> runtime_config
   \<Rightarrow> ('n, container_info list \<times> network_info list \<times> (string \<times> bool) list) rt" where
  "inventory e cfg =
     or_engine_error
       (bind (list_containers e \<lparr>cf_all = True, cf_name = None, cf_labels = [], cf_status = []\<rparr>) (\<lambda>containers.
        bind (list_networks e None) (\<lambda>networks.
        bind (observe (re_readdir e (workspaces_root cfg))) (\<lambda>directories.
          pure (containers, networks, directories)))))"

definition runtime_reconcile ::
  "nat \<Rightarrow> 'n runtime_env \<Rightarrow> runtime_config \<Rightarrow> worker_assignment list
   \<Rightarrow> ('n, workspace_report list \<times> recovery_issue list) rt" where
  "runtime_reconcile fuel e cfg assignments =
     andThen (initialize e cfg)
     (bind (inventory e cfg) (\<lambda>(containers, networks, directories).
        let assigned = map wa_workspace assignments;
            found = container_issues cfg assigned containers @ network_issues cfg assigned networks in
        andThen (require (length found \<le> 10000) too_many)
        (bind (directory_issues e cfg assigned found directories) (\<lambda>issues.
         bind (for_each (report_one fuel e cfg (local_ids cfg containers networks directories)) assignments)
           (\<lambda>reports. pure (reports, issues))))))"

end
