(* ===== verification/Laws.thy ===== *)
theory Laws
  imports Effects
begin

text \<open>
  Laws about what an action does, in order: a law says of an event which earlier events it needs. An
  action is lawful when every event it adds to any trace obeys the law there, whether it returns or
  throws. The rules follow the structure of the action and carry the facts known of the trace along.
\<close>

section \<open>Facts about a trace\<close>

definition known :: "('e \<Rightarrow> bool) \<Rightarrow> 'e list \<Rightarrow> bool" where
  "known F es \<longleftrightarrow> (\<exists>ev \<in> set es. F ev)"

lemma known_simps [simp]:
  "\<not> known F []"
  "known F (ev # es) \<longleftrightarrow> F ev \<or> known F es"
  "known F (es @ fs) \<longleftrightarrow> known F es \<or> known F fs"
  by (auto simp: known_def)

lemma knownI: "ev \<in> set es \<Longrightarrow> F ev \<Longrightarrow> known F es"
  by (auto simp: known_def)

lemma knownE: "known F es \<Longrightarrow> (\<And>ev. ev \<in> set es \<Longrightarrow> F ev \<Longrightarrow> P) \<Longrightarrow> P"
  by (auto simp: known_def)

section \<open>Lawful continuations\<close>

text \<open>\<open>kept J es fs\<close>: \<open>fs\<close> continues \<open>es\<close>, and every new event obeys the law after what precedes it.\<close>

inductive kept :: "('e list \<Rightarrow> 'e \<Rightarrow> bool) \<Rightarrow> 'e list \<Rightarrow> 'e list \<Rightarrow> bool" for J es where
  kept_refl: "kept J es es"
| kept_snoc: "kept J es fs \<Longrightarrow> J fs ev \<Longrightarrow> kept J es (fs @ [ev])"

lemma kept_trans: "kept J fs gs \<Longrightarrow> kept J es fs \<Longrightarrow> kept J es gs"
  by (induction rule: kept.induct) (auto intro: kept.intros)

lemma kept_extends: "kept J es fs \<Longrightarrow> \<exists>new. fs = es @ new"
  by (induction rule: kept.induct) auto

lemma kept_mono: "kept J es fs \<Longrightarrow> (\<And>gs ev. J gs ev \<Longrightarrow> J' gs ev) \<Longrightarrow> kept J' es fs"
  by (induction rule: kept.induct) (auto intro: kept.intros)

lemma kept_known: "kept J es fs \<Longrightarrow> known F es \<Longrightarrow> known F fs"
  using kept_extends by fastforce

lemma kept_set: "kept J es fs \<Longrightarrow> ev \<in> set es \<Longrightarrow> ev \<in> set fs"
  using kept_extends by fastforce

lemma kept_at: "kept J es fs \<Longrightarrow> fs = es @ pre @ ev # post \<Longrightarrow> J (es @ pre) ev"
proof (induction arbitrary: post rule: kept.induct)
  case kept_refl
  then show ?case by simp
next
  case (kept_snoc fs e)
  then show ?case
    by (cases post rule: rev_cases) auto
qed

section \<open>Lawful actions\<close>

named_theorems lawful "which actions obey a law, by their structure"

text \<open>On the trace \<open>es\<close> the action obeys the law, and when it returns its value satisfies \<open>Q\<close>.\<close>

definition obeys ::
  "('e list \<Rightarrow> 'e \<Rightarrow> bool) \<Rightarrow> ('n, 'e, 'x, 'a) act \<Rightarrow> ('a \<Rightarrow> 'e list \<Rightarrow> bool) \<Rightarrow> 'e list \<Rightarrow> bool" where
  "obeys J m Q es \<longleftrightarrow> ensures m (\<lambda>a fs. kept J es fs \<and> Q a fs) (\<lambda>_ fs. kept J es fs) es"

lemma obeys_pure [lawful]: "Q a es \<Longrightarrow> obeys J (pure a) Q es"
  by (simp add: obeys_def ensures_pure kept_refl)

lemma obeys_raise [lawful]: "obeys J (raise x) Q es"
  by (simp add: obeys_def ensures_raise kept_refl)

lemma obeys_bind [lawful]:
  assumes "obeys J m P es" "\<And>a fs. kept J es fs \<Longrightarrow> P a fs \<Longrightarrow> obeys J (f a) Q fs"
  shows "obeys J (bind m f) Q es"
  unfolding obeys_def
proof (rule ensures_bind, rule ensures_mono [OF assms(1) [unfolded obeys_def]])
  fix a fs
  assume at: "kept J es fs \<and> P a fs"
  show "ensures (f a) (\<lambda>b gs. kept J es gs \<and> Q b gs) (\<lambda>_ gs. kept J es gs) fs"
    by (rule ensures_mono [OF assms(2) [of fs a, unfolded obeys_def]])
      (use at in \<open>auto intro: kept_trans\<close>)
qed simp

lemma obeys_andThen [lawful]:
  assumes "obeys J m P es" "\<And>fs. kept J es fs \<Longrightarrow> P () fs \<Longrightarrow> obeys J k Q fs"
  shows "obeys J (andThen m k) Q es"
  unfolding andThen_def by (rule obeys_bind [OF assms(1)]) (use assms(2) in auto)

lemma obeys_try_catch [lawful]:
  assumes "obeys J m Q es" "\<And>x fs. kept J es fs \<Longrightarrow> obeys J (h x) Q fs"
  shows "obeys J (try_catch m h) Q es"
  unfolding obeys_def
proof (rule ensures_try_catch, rule ensures_mono [OF assms(1) [unfolded obeys_def]])
  fix x fs
  assume at: "kept J es fs"
  show "ensures (h x) (\<lambda>b gs. kept J es gs \<and> Q b gs) (\<lambda>_ gs. kept J es gs) fs"
    by (rule ensures_mono [OF assms(2) [OF at, unfolded obeys_def]]) (use at in \<open>auto intro: kept_trans\<close>)
qed simp

lemma obeys_try_finally [lawful]:
  assumes "obeys J m P es" "\<And>fs. kept J es fs \<Longrightarrow> obeys J k (\<lambda>_ _. True) fs"
    "\<And>a fs gs. P a fs \<Longrightarrow> kept J fs gs \<Longrightarrow> Q a gs"
  shows "obeys J (try_finally m k) Q es"
  unfolding obeys_def
proof (rule ensures_try_finally, rule ensures_mono [OF assms(1) [unfolded obeys_def]])
  fix a fs
  assume at: "kept J es fs \<and> P a fs"
  show "ensures k (\<lambda>_ gs. kept J es gs \<and> Q a gs) (\<lambda>_ gs. kept J es gs) fs"
    by (rule ensures_mono [OF assms(2) [of fs, unfolded obeys_def]])
      (use at assms(3) in \<open>auto intro: kept_trans\<close>)
next
  fix x fs
  assume at: "kept J es fs"
  show "ensures k (\<lambda>_ gs. kept J es gs) (\<lambda>_ gs. kept J es gs) fs"
    by (rule ensures_mono [OF assms(2) [of fs, unfolded obeys_def]]) (use at in \<open>auto intro: kept_trans\<close>)
qed

lemma obeys_require [lawful]: "(c \<Longrightarrow> Q () es) \<Longrightarrow> obeys J (require c x) Q es"
  by (simp add: require_def obeys_pure obeys_raise)

lemma obeys_external:
  assumes "\<And>r. J es (ev r)" "\<And>a. Q a (es @ [ev (Inr a)])"
  shows "obeys J (external ev f) Q es"
  unfolding obeys_def
  by (rule ensures_external) (use assms in \<open>auto intro: kept.intros\<close>)

lemma obeys_observe [lawful]: "(\<And>a. Q a es) \<Longrightarrow> obeys J (observe f) Q es"
  unfolding obeys_def by (rule ensures_observe) (auto intro: kept_refl)

lemma obeys_if [lawful]:
  "(c \<Longrightarrow> obeys J m Q es) \<Longrightarrow> (\<not> c \<Longrightarrow> obeys J k Q es) \<Longrightarrow> obeys J (if c then m else k) Q es"
  by simp

lemma obeys_Let [lawful]: "obeys J (f v) Q es \<Longrightarrow> obeys J (let x = v in f x) Q es"
  by simp

lemma obeys_option [lawful]:
  "(v = None \<Longrightarrow> obeys J m Q es) \<Longrightarrow> (\<And>a. v = Some a \<Longrightarrow> obeys J (f a) Q es) \<Longrightarrow>
    obeys J (case v of None \<Rightarrow> m | Some a \<Rightarrow> f a) Q es"
  by (cases v) simp_all

lemma obeys_prod [lawful]:
  "(\<And>a b. v = (a, b) \<Longrightarrow> obeys J (f a b) Q es) \<Longrightarrow> obeys J (case v of (a, b) \<Rightarrow> f a b) Q es"
  by (cases v) simp_all

lemma obeys_weaken:
  "obeys J m Q es \<Longrightarrow> (\<And>a fs. kept J es fs \<Longrightarrow> Q a fs \<Longrightarrow> Q' a fs) \<Longrightarrow> obeys J m Q' es"
  unfolding obeys_def by (erule ensures_mono) auto

lemma obeys_mono:
  "obeys J m Q es \<Longrightarrow> (\<And>fs ev. J fs ev \<Longrightarrow> J' fs ev) \<Longrightarrow> obeys J' m Q es"
  unfolding obeys_def by (erule ensures_mono) (auto intro: kept_mono)

lemma obeys_for_each [lawful]:
  assumes "\<And>a fs. a \<in> set as \<Longrightarrow> kept J es fs \<Longrightarrow> obeys J (f a) (\<lambda>_ _. True) fs"
  shows "obeys J (for_each f as) (\<lambda>_ _. True) es"
  unfolding obeys_def
  by (rule ensures_mono [OF ensures_for_each [where I = "kept J es"]])
    (auto intro: kept_refl kept_trans intro!: ensures_mono [OF assms [unfolded obeys_def]])

lemma obeys_for_all [lawful]:
  assumes "\<And>a fs. a \<in> set as \<Longrightarrow> kept J es fs \<Longrightarrow> obeys J (f a) (\<lambda>_ _. True) fs"
  shows "obeys J (for_all f as) (\<lambda>_ _. True) es"
  unfolding for_all_def
  by (rule obeys_bind, rule obeys_for_each) (auto intro: assms obeys_pure)

text \<open>What a run of a lawful action shows: at every new event the law holds, and a result is as promised.\<close>

lemma obeys_run: "obeys J m Q (trace s) \<Longrightarrow> m s = (r, t) \<Longrightarrow> kept J (trace s) (trace t)"
  unfolding obeys_def by (cases r) (auto dest: ensures_returns ensures_throws)

lemma obeys_returned: "obeys J m Q (trace s) \<Longrightarrow> m s = (Inr a, t) \<Longrightarrow> Q a (trace t)"
  unfolding obeys_def by (drule ensures_returns) auto

lemma obeys_at:
  assumes "obeys J m Q (trace s)" "m s = (r, t)" "trace t = trace s @ pre @ ev # post"
  shows "J (trace s @ pre) ev"
  by (rule kept_at [OF obeys_run [OF assms(1,2)] assms(3)])

end
