(* ===== verification/RuntimeLaws.thy ===== *)
theory RuntimeLaws
  imports Laws Fleet
begin

text \<open>
  What the operations of the Worker Runtime may do to the outside world, and in which order. The law of a
  Workspace says for every change to a container, network, directory, quota or metadata file what the
  operation must have seen or done before; each operation obeys it whatever the Engine, the file system
  and the gates answer, and wherever it stops.
\<close>

section \<open>What an operation has seen\<close>

definition named_container :: "runtime_config \<Rightarrow> string \<Rightarrow> string \<Rightarrow> container_info \<Rightarrow> bool" where
  "named_container cfg wid cid c \<longleftrightarrow>
     ci_id c = cid \<and> CHR ''/'' # containerName wid \<in> set (ci_names c) \<and>
     labelsMatch (ci_labels c) (managedLabels (rc_worker cfg) wid)"

text \<open>The Engine listed the container under the Workspace's name with this Worker's labels.\<close>

definition listed :: "runtime_config \<Rightarrow> string \<Rightarrow> string \<Rightarrow> runtime_event \<Rightarrow> bool" where
  "listed cfg wid cid ev \<longleftrightarrow>
     (case ev of Containers_Listed cs \<Rightarrow> list_ex (named_container cfg wid cid) cs | _ \<Rightarrow> False)"

definition network_listed :: "string \<Rightarrow> string \<Rightarrow> runtime_event \<Rightarrow> bool" where
  "network_listed wid nid ev \<longleftrightarrow>
     (case ev of
        Networks_Listed ns \<Rightarrow> list_ex (\<lambda>n. nw_id n = nid \<and> nw_name n = networkName wid) ns
      | _ \<Rightarrow> False)"

text \<open>The Engine showed the network with the Workspace's name and this Worker's labels.\<close>

definition network_owned :: "runtime_config \<Rightarrow> string \<Rightarrow> string \<Rightarrow> runtime_event \<Rightarrow> bool" where
  "network_owned cfg wid nid ev \<longleftrightarrow>
     (case ev of
        Network_Inspected n i \<Rightarrow> n = nid \<and> ni_name i = networkName wid \<and>
          labelsMatch (ni_labels i) (managedLabels (rc_worker cfg) wid)
      | _ \<Rightarrow> False)"

text \<open>The metadata file was read as \<open>m\<close> or replaced by it.\<close>

definition record_of :: "runtime_config \<Rightarrow> string \<Rightarrow> workspace_metadata \<Rightarrow> runtime_event \<Rightarrow> bool" where
  "record_of cfg wid m ev \<longleftrightarrow>
     (case ev of
        Metadata_Read path j \<Rightarrow> path = wp_file (paths_of cfg wid) \<and> parse_metadata cfg j = Some m
      | Metadata_Replaced path m' \<Rightarrow> path = wp_file (paths_of cfg wid) \<and> m' = m
      | _ \<Rightarrow> False)"

definition own_metadata :: "runtime_config \<Rightarrow> string \<Rightarrow> workspace_metadata \<Rightarrow> bool" where
  "own_metadata cfg wid m \<longleftrightarrow> md_workspace m = wid \<and> md_worker m = rc_worker cfg"

definition on_disk :: "runtime_config \<Rightarrow> string \<Rightarrow> managed_paths \<Rightarrow> runtime_event list \<Rightarrow> bool" where
  "on_disk cfg wid p es \<longleftrightarrow>
     mw_paths p = paths_of cfg wid \<and> mw_image p = md_image (mw_managed p) \<and>
     own_metadata cfg wid (mw_managed p) \<and> known (record_of cfg wid (mw_managed p)) es"

definition quota_recorded :: "runtime_config \<Rightarrow> string \<Rightarrow> quota_metadata \<Rightarrow> runtime_event list \<Rightarrow> bool" where
  "quota_recorded cfg wid q es \<longleftrightarrow>
     (\<exists>m. known (record_of cfg wid m) es \<and> own_metadata cfg wid m \<and> md_quota m = Some q)"

section \<open>The law\<close>

text \<open>When a stopped container may be started.\<close>

definition start_allowed :: "runtime_config \<Rightarrow> string \<Rightarrow> string \<Rightarrow> runtime_event list \<Rightarrow> bool" where
  "start_allowed cfg wid cid es \<longleftrightarrow>
     known (listed cfg wid cid) es \<and>
     (\<exists>p q i. on_disk cfg wid p es \<and> md_quota (mw_managed p) = Some q \<and>
        Container_Inspected cid i \<in> set es \<and> \<not> cs_running (in_state i) \<and>
        verifyManagedContainerIdentity cfg i wid p (networkName wid) = Inr Current \<and>
        verifyLegacyCompatibleDefaultCwd i = None \<and>
        Storage_Prepared (paths_of cfg wid) q (qm_limit q) \<in> set es) \<and>
     Egress_Checked True \<in> set es"

definition idle :: "container_inspection \<Rightarrow> bool" where
  "idle i \<longleftrightarrow> \<not> cs_running (in_state i) \<and> \<not> cs_restarting (in_state i) \<and> \<not> cs_paused (in_state i)"

fun worker_law :: "runtime_config \<Rightarrow> string \<Rightarrow> runtime_event list \<Rightarrow> runtime_event \<Rightarrow> bool" where
  "worker_law cfg wid es (Container_Started cid) = start_allowed cfg wid cid es"
| "worker_law cfg wid es (Container_Stopped cid) = known (listed cfg wid cid) es"
| "worker_law cfg wid es (Container_Removed cid force) =
     (known (listed cfg wid cid) es \<and> (force \<or> (\<exists>i. Container_Inspected cid i \<in> set es \<and> idle i)))"
| "worker_law cfg wid es (Container_Created spec) =
     (\<exists>runtimeImage resources. spec = workspace_container cfg wid (paths_of cfg wid) runtimeImage resources)"
| "worker_law cfg wid es (Home_Created spec) =
     (\<exists>p name. mw_paths p = paths_of cfg wid \<and> spec = home_container cfg p name)"
| "worker_law cfg wid es (Network_Created spec) = (spec = workspace_network cfg wid (networkName wid))"
| "worker_law cfg wid es (Network_Removed nid) = known (network_owned cfg wid nid) es"
| "worker_law cfg wid es (Network_Connected nid cid) =
     (known (network_listed wid nid) es \<and>
      (\<exists>c i. known (listed cfg wid c) es \<and> Container_Inspected c i \<in> set es \<and> in_id i = cid))"
| "worker_law cfg wid es (Network_Disconnected nid cid) =
     (known (network_owned cfg wid nid) es \<and>
      (\<exists>c i. known (listed cfg wid c) es \<and> Container_Inspected c i \<in> set es \<and> in_id i = cid \<and>
         \<not> cs_running (in_state i)))"
| "worker_law cfg wid es (Storage_Prepared paths q limit) =
     (paths = paths_of cfg wid \<and> qm_limit q = limit \<and> quota_recorded cfg wid q es \<and>
      Storage_Seen True \<in> set es)"
| "worker_law cfg wid es (Data_Limit_Set paths q limit) =
     (paths = paths_of cfg wid \<and> quota_recorded cfg wid q es)"
| "worker_law cfg wid es (Projects_Released q) =
     (Directory_Removed (wp_root (paths_of cfg wid)) \<in> set es \<and> quota_recorded cfg wid q es \<and>
      Storage_Seen True \<in> set es)"
| "worker_law cfg wid es (Metadata_Replaced path m) =
     (path = wp_file (paths_of cfg wid) \<and> own_metadata cfg wid m \<and>
      parse_metadata cfg (render_metadata m) \<noteq> None)"
| "worker_law cfg wid es (Metadata_Created path m) =
     (path = wp_file (paths_of cfg wid) \<and> own_metadata cfg wid m \<and>
      Directory_Made (wp_root (paths_of cfg wid)) \<in> set es)"
| "worker_law cfg wid es (Directory_Made path) =
     (path \<in> {wp_root (paths_of cfg wid), wp_workspace (paths_of cfg wid), wp_home (paths_of cfg wid),
        wp_tmp (paths_of cfg wid), wp_pi (paths_of cfg wid), wp_metadata (paths_of cfg wid)})"
| "worker_law cfg wid es (Directory_Removed path) =
     (path = wp_root (paths_of cfg wid) \<and>
      (\<exists>m. known (record_of cfg wid m) es \<and> own_metadata cfg wid m))"
| "worker_law cfg wid es (Entry_Removed path) = starts_with (wp_tmp (paths_of cfg wid) @ ''/'') path"
| "worker_law cfg wid es _ = True"

section \<open>Laws that let an operation look\<close>

fun reads :: "runtime_event \<Rightarrow> bool" where
  "reads (Containers_Listed _) = True"
| "reads (Networks_Listed _) = True"
| "reads (Container_Inspected _ _) = True"
| "reads (Network_Inspected _ _) = True"
| "reads (Egress_Checked _) = True"
| "reads (Egress_Seen _) = True"
| "reads (Storage_Seen _) = True"
| "reads (Metadata_Read _ _) = True"
| "reads (Ready_Seen _ _) = True"
| "reads Failed_Call = True"
| "reads _ = False"

lemma worker_law_reads: "reads ev \<Longrightarrow> worker_law cfg wid es ev"
  by (cases ev) simp_all

lemma on_disk_kept: "kept J es fs \<Longrightarrow> on_disk cfg wid p es \<Longrightarrow> on_disk cfg wid p fs"
  by (auto simp: on_disk_def intro: kept_known)

lemma quota_recorded_kept: "kept J es fs \<Longrightarrow> quota_recorded cfg wid q es \<Longrightarrow> quota_recorded cfg wid q fs"
  by (auto simp: quota_recorded_def intro: kept_known)

lemma on_disk_quota: "on_disk cfg wid p es \<Longrightarrow> md_quota (mw_managed p) = Some q \<Longrightarrow> quota_recorded cfg wid q es"
  by (auto simp: on_disk_def quota_recorded_def)

lemmas remembered = kept_known kept_set on_disk_kept quota_recorded_kept

lemma obeys_or_engine_error [lawful]: "obeys J m Q es \<Longrightarrow> obeys J (or_engine_error m) Q es"
  unfolding or_engine_error_def by (rule obeys_try_catch) (auto intro: lawful)

lemma obeys_unless_status [lawful]:
  "obeys J m Q es \<Longrightarrow> (\<And>fs. kept J es fs \<Longrightarrow> Q () fs) \<Longrightarrow> obeys J (unless_status status m) Q es"
  unfolding unless_status_def by (rule obeys_try_catch) (auto intro!: lawful)

lemma obeys_passes [lawful]: "(check = None \<Longrightarrow> Q () es) \<Longrightarrow> obeys J (passes check) Q es"
  by (cases check) (simp_all add: passes_def obeys_pure obeys_raise)

lemma obeys_verdict [lawful]: "(\<And>a. r = Inr a \<Longrightarrow> Q a es) \<Longrightarrow> obeys J (verdict r) Q es"
  by (cases r) (simp_all add: verdict_def obeys_pure obeys_raise)

lemma obeys_observed: "obeys J (observe f) (\<lambda>_ _. True) es"
  by (rule obeys_observe) simp

lemma obeys_passed: "obeys J (passes check) (\<lambda>_ _. check = None) es"
  by (rule obeys_passes)

lemma obeys_judged: "obeys J (verdict r) (\<lambda>a _. r = Inr a) es"
  by (rule obeys_verdict)

lemma obeys_required: "obeys J (require c x) (\<lambda>_ _. c) es"
  by (rule obeys_require)

locale reading_law =
  fixes law :: "runtime_event list \<Rightarrow> runtime_event \<Rightarrow> bool"
  assumes law_reads: "reads ev \<Longrightarrow> law es ev"
begin

lemma obeys_sensed:
  "(\<And>a. reads (ev a)) \<Longrightarrow> obeys law (external (on_success ev) f) (\<lambda>a fs. ev a \<in> set fs) es"
  by (rule obeys_external) (auto simp: on_success_def law_reads split: sum.split)

lemma obeys_inspect:
  "obeys law (inspect_container e cid) (\<lambda>i fs. Container_Inspected cid i \<in> set fs) es"
  unfolding inspect_container_def by (rule obeys_sensed) simp

lemma obeys_inspect_network:
  "obeys law (inspect_network e nid) (\<lambda>i fs. Network_Inspected nid i \<in> set fs) es"
  unfolding inspect_network_def by (rule obeys_sensed) simp

lemma obeys_storage_seen: "obeys law (storage_seen e) (\<lambda>b fs. Storage_Seen b \<in> set fs) es"
  unfolding storage_seen_def sense_def by (rule obeys_sensed) simp

lemma obeys_egress_seen: "obeys law (egress_seen e) (\<lambda>b fs. Egress_Seen b \<in> set fs) es"
  unfolding egress_seen_def sense_def by (rule obeys_sensed) simp

lemma obeys_list_containers:
  "obeys law (list_containers e query) (\<lambda>cs fs. Containers_Listed cs \<in> set fs) es"
  unfolding list_containers_def by (rule obeys_sensed) simp

lemma obeys_list_networks:
  "obeys law (list_networks e name) (\<lambda>ns fs. Networks_Listed ns \<in> set fs) es"
  unfolding list_networks_def by (rule obeys_sensed) simp

lemma obeys_find_container:
  "obeys law (findNamedContainer e cfg wid)
     (\<lambda>found fs. \<forall>cid. found = Some cid \<longrightarrow> known (listed cfg wid cid) fs) es"
proof -
  have listing: "known (listed cfg wid cid) fs"
    if "Containers_Listed cs \<in> set fs" "exact = filter (\<lambda>c. CHR ''/'' # containerName wid \<in> set (ci_names c)) cs"
      "exact \<noteq> []" "labelsMatch (ci_labels (hd exact)) (managedLabels (rc_worker cfg) wid)"
      "cid = ci_id (hd exact)" for cs exact cid fs
  proof (rule knownI [OF that(1)])
    have "hd exact \<in> set exact" using that(3) by simp
    then have "hd exact \<in> set cs" "CHR ''/'' # containerName wid \<in> set (ci_names (hd exact))"
      unfolding that(2) by simp_all
    then show "listed cfg wid cid (Containers_Listed cs)"
      using that(4,5) by (auto simp: listed_def list_ex_iff named_container_def)
  qed
  show ?thesis
    unfolding findNamedContainer_def Let_def
    by (rule obeys_bind, rule obeys_or_engine_error, rule obeys_list_containers)
      (auto intro!: obeys_if obeys_pure obeys_raise listing)
qed

lemma obeys_require_container:
  "obeys law (requireManagedContainer e cfg wid) (\<lambda>cid fs. known (listed cfg wid cid) fs) es"
  unfolding requireManagedContainer_def
  by (rule obeys_bind, rule obeys_find_container) (auto intro!: obeys_option obeys_pure obeys_raise)

lemma obeys_find_network:
  "obeys law (findNamedNetwork e wid)
     (\<lambda>found fs. \<forall>nid. found = Some nid \<longrightarrow> known (network_listed wid nid) fs) es"
proof -
  have listing: "known (network_listed wid (nw_id (hd exact))) fs"
    if "Networks_Listed ns \<in> set fs" "exact = filter (\<lambda>n. nw_name n = networkName wid) ns" "exact \<noteq> []"
    for ns exact fs
  proof (rule knownI [OF that(1)])
    have "hd exact \<in> set exact" using that(3) by simp
    then have "hd exact \<in> set ns" "nw_name (hd exact) = networkName wid" unfolding that(2) by simp_all
    then show "network_listed wid (nw_id (hd exact)) (Networks_Listed ns)"
      by (auto simp: network_listed_def list_ex_iff)
  qed
  show ?thesis
    unfolding findNamedNetwork_def Let_def
    by (rule obeys_bind, rule obeys_or_engine_error, rule obeys_list_networks)
      (auto intro!: obeys_if obeys_pure obeys_raise listing)
qed

lemma obeys_offered: "obeys law (requireOffered e runtimeImage) (\<lambda>_ _. True) es"
  unfolding requireOffered_def
  by (rule obeys_bind, rule obeys_observed) (auto intro!: obeys_option obeys_pure obeys_raise)

lemma obeys_read_metadata: "obeys law (read_metadata e path) (\<lambda>j fs. Metadata_Read path j \<in> set fs) es"
  unfolding read_metadata_def by (rule obeys_sensed) simp

lemma obeys_initialize: "obeys law (initialize e cfg) (\<lambda>_ _. True) es"
  unfolding initialize_def
  by (rule obeys_bind, rule obeys_observed, rule obeys_if)
    (auto intro!: obeys_pure obeys_raise obeys_andThen [where P = "\<lambda>_ _. True"] obeys_if
      obeys_bind [where P = "\<lambda>_ _. True"] obeys_observed)

lemma obeys_paths: "obeys law (workspacePaths e cfg wid) (\<lambda>p _. p = paths_of cfg wid) es"
  unfolding workspacePaths_def
  by (rule obeys_andThen, rule obeys_initialize, rule obeys_andThen, rule obeys_required, rule obeys_andThen,
      rule obeys_required, rule obeys_pure) simp

lemma obeys_verify_metadata:
  "obeys law (verifyMetadata e cfg (paths_of cfg wid) wid)
     (\<lambda>m fs. own_metadata cfg wid m \<and> known (record_of cfg wid m) fs) es"
proof -
  have seen: "known (record_of cfg w m) fs"
    if "Metadata_Read (wp_file (paths_of cfg w)) j \<in> set fs" "parse_metadata cfg j = Some m" for j m fs w
    by (rule knownI [OF that(1)]) (simp add: record_of_def that(2))
  have "obeys law (try_catch
      (bind (observe (re_lstat e (wp_file (paths_of cfg wid)))) (\<lambda>kind.
        if \<not> fk_file kind \<or> fk_link kind then raise Plain_Error else read_metadata e (wp_file (paths_of cfg wid))))
      (\<lambda>_. raise (refuse Workspace_Metadata_Mismatch)))
      (\<lambda>j fs. Metadata_Read (wp_file (paths_of cfg wid)) j \<in> set fs) es"
    by (rule obeys_try_catch, rule obeys_bind, rule obeys_observed)
      (auto intro: obeys_if obeys_raise obeys_read_metadata)
  then show ?thesis
    unfolding verifyMetadata_def
    by (rule obeys_bind) (auto intro!: obeys_option obeys_if obeys_raise obeys_pure simp: own_metadata_def seen)
qed

lemma obeys_assert_real: "obeys law (assert_real e every paths ps) (\<lambda>_ _. True) es"
proof (induction e every paths ps arbitrary: es rule: assert_real.induct)
  case (2 e every paths path rest)
  show ?case
    unfolding assert_real.simps
    by (rule obeys_bind [where P = "\<lambda>_ _. True"])
      (auto intro!: obeys_try_catch obeys_bind [where P = "\<lambda>_ _. True"] obeys_observed obeys_pure obeys_if
        obeys_raise obeys_option 2)
qed (simp add: obeys_pure)

lemma obeys_assert_directories: "obeys law (assertRealDirectories e paths every) (\<lambda>_ _. True) es"
  unfolding assertRealDirectories_def by (rule obeys_assert_real)

lemma obeys_require_paths:
  "obeys law (requireWorkspacePaths e cfg wid) (\<lambda>p fs. on_disk cfg wid p fs) es"
  unfolding requireWorkspacePaths_def
proof (rule obeys_bind, rule obeys_paths)
  fix paths fs
  assume "paths = paths_of cfg wid"
  then show "obeys law (andThen (try_catch (observe (re_access e (wp_file paths)))
      (\<lambda>_. raise (refuse Workspace_Not_Managed)))
      (bind (verifyMetadata e cfg paths wid)
        (\<lambda>m. andThen (assertRealDirectories e paths False) (pure (managed paths m))))) (on_disk cfg wid) fs"
    by (auto intro!: obeys_andThen [where P = "\<lambda>_ _. True"] obeys_try_catch obeys_observed obeys_raise
        obeys_bind [OF obeys_verify_metadata] obeys_assert_directories obeys_pure
        simp: on_disk_def managed_def intro: kept_known)
qed

end

section \<open>Laws that let an operation record metadata and create the container\<close>

text \<open>Recording new metadata keeps what the file says and what the code holds together.\<close>

lemma on_disk_written:
  "on_disk cfg wid p es \<Longrightarrow> own_metadata cfg wid m \<Longrightarrow> md_image m = mw_image p \<Longrightarrow>
    known (record_of cfg wid m) fs \<Longrightarrow> on_disk cfg wid (with_managed p m) fs"
  by (simp add: on_disk_def with_managed_def)

lemma on_disk_paths:
  "on_disk cfg wid p es \<Longrightarrow> mw_paths p = paths_of cfg wid"
  "on_disk cfg wid p es \<Longrightarrow> own_metadata cfg wid (mw_managed p)"
  "on_disk cfg wid p es \<Longrightarrow> mw_image p = md_image (mw_managed p)"
  by (simp_all add: on_disk_def)

lemma own_metadata_changed [simp]:
  "own_metadata cfg wid (m\<lparr>md_quota := q\<rparr>) = own_metadata cfg wid m"
  "own_metadata cfg wid (m\<lparr>md_home := h\<rparr>) = own_metadata cfg wid m"
  "own_metadata cfg wid (m\<lparr>md_provider := v\<rparr>) = own_metadata cfg wid m"
  "own_metadata cfg wid (m\<lparr>md_image_id := i\<rparr>) = own_metadata cfg wid m"
  "own_metadata cfg wid (m\<lparr>md_image := s\<rparr>) = own_metadata cfg wid m"
  "own_metadata cfg wid (m\<lparr>md_previous := t\<rparr>) = own_metadata cfg wid m"
  by (simp_all add: own_metadata_def)

lemma obeys_identity:
  "obeys J (identity_of e cfg wid p i)
     (\<lambda>g _. verifyManagedContainerIdentity cfg i wid p (networkName wid) = Inr g) es"
  unfolding identity_of_def by (rule obeys_judged)

lemma obeys_current:
  "obeys J (current_identity e cfg wid p i)
     (\<lambda>_ _. verifyManagedContainerIdentity cfg i wid p (networkName wid) = Inr Current) es"
  unfolding current_identity_def
proof (rule obeys_bind, rule obeys_identity, rule obeys_passes)
  fix g
  assume "verifyManagedContainerIdentity cfg i wid p (networkName wid) = Inr g" "assertCurrentGeneration g = None"
  then show "verifyManagedContainerIdentity cfg i wid p (networkName wid) = Inr Current"
    by (cases g) (simp_all add: assertCurrentGeneration_def)
qed

text \<open>\<open>admissible\<close> says which metadata the operation may record.\<close>

locale metadata_law = reading_law +
  fixes cfg :: runtime_config and wid :: string and admissible :: "workspace_metadata \<Rightarrow> bool"
  assumes law_metadata: "admissible m \<Longrightarrow> own_metadata cfg wid m \<Longrightarrow>
      parse_metadata cfg (render_metadata m) \<noteq> None \<Longrightarrow> law es (Metadata_Replaced (wp_file (paths_of cfg wid)) m)"
    and law_created: "on_disk cfg wid p es \<Longrightarrow> admissible (mw_managed p) \<Longrightarrow>
      law es (Container_Created (workspace_container cfg wid (paths_of cfg wid) runtimeImage resources))"
    and law_removed: "known (listed cfg wid cid) es \<Longrightarrow> on_disk cfg wid p es \<Longrightarrow> admissible (mw_managed p) \<Longrightarrow>
      law es (Container_Removed cid True)"
    and admissible_pinned: "admissible m \<Longrightarrow> admissible (m\<lparr>md_image_id := v\<rparr>)"
begin

lemma obeys_write_metadata:
  assumes "own_metadata cfg wid m" "admissible m"
  shows "obeys law (writeMetadata e cfg (paths_of cfg wid) m) (\<lambda>_ fs. known (record_of cfg wid m) fs) es"
proof -
  have rendered: "obeys law (try_finally
      (if parse_metadata cfg (render_metadata m) = None then raise Plain_Error
       else andThen (observe (re_write_open e temporary (render_metadata m))) (observe (re_sync e temporary)))
      (observe (re_close e temporary))) (\<lambda>_ _. parse_metadata cfg (render_metadata m) \<noteq> None) fs"
    for temporary fs
    by (rule obeys_try_finally [where P = "\<lambda>_ _. parse_metadata cfg (render_metadata m) \<noteq> None"])
      (auto intro!: obeys_raise obeys_observe obeys_andThen [where P = "\<lambda>_ _. True"])
  show ?thesis
    unfolding writeMetadata_def Let_def
    by (rule obeys_bind, rule obeys_observed, rule obeys_andThen, rule obeys_observed,
        rule obeys_andThen, rule rendered, rule obeys_external)
      (auto simp: on_success_def law_metadata [OF assms(2,1)] law_reads record_of_def split: sum.split)
qed

text \<open>Writing changed metadata and going on with it.\<close>

lemma obeys_record:
  assumes "on_disk cfg wid p es" "own_metadata cfg wid m" "admissible m" "md_image m = mw_image p"
  shows "obeys law (andThen (writeMetadata e cfg (mw_paths p) m) (pure r))
    (\<lambda>a fs. a = r \<and> on_disk cfg wid (with_managed p m) fs) es"
  unfolding on_disk_paths(1) [OF assms(1)]
  by (rule obeys_andThen, rule obeys_write_metadata [OF assms(2,3)], rule obeys_pure)
    (simp add: on_disk_written [OF assms(1,2,4)])

lemma obeys_pin:
  assumes "on_disk cfg wid p es" "admissible (mw_managed p)"
  shows "obeys law (pin_image e cfg p imageId)
    (\<lambda>p' fs. on_disk cfg wid p' fs \<and> mw_image p' = mw_image p) es"
  unfolding pin_image_def Let_def
  by (rule obeys_if, rule obeys_pure, simp add: assms, rule obeys_weaken [OF obeys_record [OF assms(1)]])
    (use on_disk_paths(2,3) [OF assms(1)] assms(2) in \<open>simp_all add: with_managed_def admissible_pinned\<close>)

lemma obeys_create_container:
  assumes "on_disk cfg wid p es" "admissible (mw_managed p)"
  shows "obeys law (createContainer e cfg wid p offered resources)
    (\<lambda>p' fs. on_disk cfg wid p' fs \<and> mw_image p' = mw_image p) es"
  unfolding createContainer_def Let_def on_disk_paths(1) [OF assms(1)]
proof (rule obeys_andThen [where P = "\<lambda>_ _. True"], rule obeys_or_engine_error, rule obeys_external)
  fix r
  show "law es (attempt (Container_Created
      (workspace_container cfg wid (paths_of cfg wid) (of_image offered) resources)) r)"
    unfolding attempt_def by (rule law_created [OF assms])
next
  fix fs
  assume k1: "kept law es fs"
  show "obeys law (bind (requireManagedContainer e cfg wid) (\<lambda>cid.
       bind (inspect_container e cid) (\<lambda>i.
         if of_image_id offered \<noteq> None \<and> of_image_id offered \<noteq> Some (in_image i)
         then andThen (try_catch (remove_container e cid True) (\<lambda>_. pure ()))
                (raise (refuse Runtime_Image_Unavailable))
         else pin_image e cfg p (in_image i))))
      (\<lambda>p' fs. on_disk cfg wid p' fs \<and> mw_image p' = mw_image p) fs"
  proof (rule obeys_bind, rule obeys_require_container, rule obeys_bind, rule obeys_inspect, rule obeys_if)
    fix cid gs i hs
    assume k2: "kept law fs gs" "known (listed cfg wid cid) gs" "kept law gs hs"
    have "law hs (Container_Removed cid True)"
      by (rule law_removed [of _ _ p]) (use k1 k2 assms in \<open>blast intro: kept_known on_disk_kept\<close>)+
    then have "obeys law (remove_container e cid True) (\<lambda>_ _. True) hs"
      unfolding remove_container_def by (intro obeys_external) (simp_all add: attempt_def)
    then show "obeys law (andThen (try_catch (remove_container e cid True) (\<lambda>_. pure ()))
        (raise (refuse Runtime_Image_Unavailable))) (\<lambda>p' fs. on_disk cfg wid p' fs \<and> mw_image p' = mw_image p) hs"
      by (intro obeys_andThen [where P = "\<lambda>_ _. True"] obeys_try_catch obeys_pure obeys_raise TrueI)
    show "obeys law (pin_image e cfg p (in_image i))
        (\<lambda>p' fs. on_disk cfg wid p' fs \<and> mw_image p' = mw_image p) hs"
      by (rule obeys_pin [OF _ assms(2)]) (use k1 k2 assms(1) in \<open>blast intro: on_disk_kept\<close>)
  qed
qed simp

end

section \<open>The operations obey the law\<close>

interpretation wl: metadata_law "worker_law cfg wid" cfg wid "\<lambda>_. True" for cfg wid
  by unfold_locales (auto simp: worker_law_reads)

lemma worker_unused_ids: "obeys (worker_law cfg wid) (unusedProjectIds e cfg wanted) (\<lambda>_ _. True) es"
proof -
  have "obeys (worker_law cfg wid) (used_project_ids e cfg entry) (\<lambda>_ _. True) fs" for entry fs
    unfolding used_project_ids_def
    by (auto intro!: obeys_prod obeys_if obeys_pure obeys_bind [where P = "\<lambda>_ _. True"] obeys_try_catch
        obeys_weaken [OF wl.obeys_read_metadata])
  then show ?thesis
    unfolding unusedProjectIds_def
    by (auto intro!: obeys_bind [where P = "\<lambda>_ _. True"] obeys_observed obeys_for_each obeys_pure)
qed

text \<open>What a quota is prepared with: the metadata file says so, and its limit is the requested one.\<close>

definition quota_chosen ::
  "runtime_config \<Rightarrow> string \<Rightarrow> managed_paths \<Rightarrow> nat \<Rightarrow> workspace_metadata \<times> quota_metadata \<Rightarrow>
   runtime_event list \<Rightarrow> bool" where
  "quota_chosen cfg wid p limit r es \<longleftrightarrow>
     on_disk cfg wid (with_managed p (fst r)) es \<and> md_quota (fst r) = Some (snd r) \<and>
     qm_limit (snd r) = limit \<and>
     (\<forall>q. md_quota (mw_managed p) = Some q \<longrightarrow> qm_limit q = limit \<longrightarrow> snd r = q)"

lemma worker_allocate:
  assumes "on_disk cfg wid p es" "md_quota (mw_managed p) = None"
  shows "obeys (worker_law cfg wid) (allocate_quota e cfg p limit) (quota_chosen cfg wid p limit) es"
  unfolding allocate_quota_def Let_def
proof (rule obeys_bind, rule worker_unused_ids)
  fix ids fs
  assume "kept (worker_law cfg wid) es fs"
  then have at: "on_disk cfg wid p fs" using assms(1) by (rule on_disk_kept)
  then have image: "md_image (mw_managed p) = mw_image p" by (simp add: on_disk_def)
  have recording: "obeys (worker_law cfg wid)
      (andThen (writeMetadata e cfg (mw_paths p) ((mw_managed p)\<lparr>md_quota := Some q\<rparr>))
        (pure ((mw_managed p)\<lparr>md_quota := Some q\<rparr>, q))) (quota_chosen cfg wid p limit) fs"
    if "qm_limit q = limit" for q
    by (rule obeys_weaken [OF wl.obeys_record [OF at]])
      (use on_disk_paths(2) [OF at] that assms(2) in \<open>simp_all add: image quota_chosen_def\<close>)
  then show "obeys (worker_law cfg wid) (case ids of [data, pi_project] \<Rightarrow>
      andThen (writeMetadata e cfg (mw_paths p) ((mw_managed p)\<lparr>md_quota :=
          Some \<lparr>qm_data = data, qm_pi = pi_project, qm_limit = limit\<rparr>\<rparr>))
        (pure ((mw_managed p)\<lparr>md_quota := Some \<lparr>qm_data = data, qm_pi = pi_project, qm_limit = limit\<rparr>\<rparr>,
           \<lparr>qm_data = data, qm_pi = pi_project, qm_limit = limit\<rparr>))
    | _ \<Rightarrow> raise (refuse Disk_Quota_Apply_Failed)) (quota_chosen cfg wid p limit) fs"
    by (simp add: obeys_raise split: list.split)
qed

lemma worker_choose:
  assumes "on_disk cfg wid p es"
  shows "obeys (worker_law cfg wid)
      (case md_quota (mw_managed p) of
         None \<Rightarrow> allocate_quota e cfg p limit
       | Some q \<Rightarrow>
           if qm_limit q \<noteq> limit then
             let q' = q\<lparr>qm_limit := limit\<rparr>; m = (mw_managed p)\<lparr>md_quota := Some q'\<rparr>
             in andThen (writeMetadata e cfg (mw_paths p) m) (pure (m, q'))
           else pure (mw_managed p, q)) (quota_chosen cfg wid p limit) es"
  unfolding Let_def
proof (rule obeys_option)
  show "md_quota (mw_managed p) = None \<Longrightarrow>
      obeys (worker_law cfg wid) (allocate_quota e cfg p limit) (quota_chosen cfg wid p limit) es"
    by (rule worker_allocate [OF assms])
  fix q
  assume q: "md_quota (mw_managed p) = Some q"
  show "obeys (worker_law cfg wid)
      (if qm_limit q \<noteq> limit
       then andThen (writeMetadata e cfg (mw_paths p)
               ((mw_managed p)\<lparr>md_quota := Some (q\<lparr>qm_limit := limit\<rparr>)\<rparr>))
              (pure ((mw_managed p)\<lparr>md_quota := Some (q\<lparr>qm_limit := limit\<rparr>)\<rparr>, q\<lparr>qm_limit := limit\<rparr>))
       else pure (mw_managed p, q)) (quota_chosen cfg wid p limit) es"
  proof (rule obeys_if, rule obeys_weaken [OF wl.obeys_record [OF assms]], goal_cases)
    case 5
    then show ?case using q assms by (intro obeys_pure) (simp add: quota_chosen_def with_managed_def)
  qed (use on_disk_paths(2,3) [OF assms] q in \<open>simp_all add: quota_chosen_def\<close>)
qed

lemma worker_apply_quota:
  assumes "quota_chosen cfg wid p limit (m, q) es" "Storage_Seen True \<in> set es"
  shows "obeys (worker_law cfg wid)
      (andThen (try_catch
          (external (on_success (\<lambda>_. Storage_Prepared (mw_paths p) q limit)) (re_prepare e (mw_paths p) q limit))
          (\<lambda>x. raise (storageError x))) (pure (with_managed p m)))
      (\<lambda>p' fs. on_disk cfg wid p' fs \<and> mw_image p' = mw_image p \<and>
         Storage_Prepared (paths_of cfg wid) q limit \<in> set fs) es"
proof -
  have q: "on_disk cfg wid (with_managed p m) es" "md_quota m = Some q" "qm_limit q = limit"
    using assms(1) by (simp_all add: quota_chosen_def)
  have at: "mw_paths p = paths_of cfg wid" using on_disk_paths(1) [OF q(1)] by (simp add: with_managed_def)
  have recorded: "quota_recorded cfg wid q es"
    by (rule on_disk_quota [OF q(1)]) (simp add: with_managed_def q(2))
  have "obeys (worker_law cfg wid) (try_catch
      (external (on_success (\<lambda>_. Storage_Prepared (mw_paths p) q limit)) (re_prepare e (mw_paths p) q limit))
      (\<lambda>x. raise (storageError x))) (\<lambda>_ gs. Storage_Prepared (paths_of cfg wid) q limit \<in> set gs) es"
    by (rule obeys_try_catch, rule obeys_external)
      (simp_all add: on_success_def at q(3) recorded assms(2) obeys_raise split: sum.split)
  then show ?thesis
    by (rule obeys_andThen) (auto intro!: obeys_pure intro: on_disk_kept q(1) [unfolded with_managed_def] simp: with_managed_def)
qed

lemma worker_prepare_storage:
  assumes "on_disk cfg wid p es"
  shows "obeys (worker_law cfg wid) (prepareStorage e cfg p limit)
    (\<lambda>p' fs. on_disk cfg wid p' fs \<and> mw_image p' = mw_image p \<and>
       (\<exists>q. Storage_Prepared (paths_of cfg wid) q limit \<in> set fs \<and>
          (\<forall>q'. md_quota (mw_managed p) = Some q' \<longrightarrow> qm_limit q' = limit \<longrightarrow> q' = q))) es"
  unfolding prepareStorage_def
proof (rule obeys_bind, rule wl.obeys_storage_seen, rule obeys_andThen, rule obeys_required, rule obeys_bind,
    rule worker_choose)
  fix enforced fs gs
  assume k: "kept (worker_law cfg wid) es fs" "Storage_Seen enforced \<in> set fs"
    "kept (worker_law cfg wid) fs gs" "enforced"
  then show "on_disk cfg wid p gs" using assms by (blast intro: on_disk_kept)
  fix r hs
  assume more: "kept (worker_law cfg wid) gs hs" "quota_chosen cfg wid p limit r hs"
  obtain m q where r: "r = (m, q)" by (cases r)
  have seen: "Storage_Seen True \<in> set hs" using k more(1) by (auto intro: kept_set)
  show "obeys (worker_law cfg wid) (case r of (m, q) \<Rightarrow>
      andThen (try_catch
          (external (on_success (\<lambda>_. Storage_Prepared (mw_paths p) q limit))
             (re_prepare e (mw_paths p) q limit))
          (\<lambda>x. raise (storageError x)))
       (pure (with_managed p m)))
     (\<lambda>p' fs. on_disk cfg wid p' fs \<and> mw_image p' = mw_image p \<and>
     (\<exists>q. Storage_Prepared (paths_of cfg wid) q limit \<in> set fs \<and>
        (\<forall>q'. md_quota (mw_managed p) = Some q' \<longrightarrow> qm_limit q' = limit \<longrightarrow> q' = q))) hs"
    unfolding r prod.case
    by (rule obeys_weaken [OF worker_apply_quota [OF more(2) [unfolded r] seen]])
      (use more(2) in \<open>auto simp: r quota_chosen_def\<close>)
qed

lemma accepted_network_owned:
  "verifyManagedNetwork cfg i wid (networkName wid) = Inr g \<Longrightarrow> network_owned cfg wid nid (Network_Inspected nid i)"
  by (simp add: verifyManagedNetwork_def Let_def network_owned_def split: if_splits)

lemma worker_create_network:
  "obeys (worker_law cfg wid) (createNetwork e cfg wid (networkName wid)) (\<lambda>_ _. True) es"
  unfolding createNetwork_def
  by (rule obeys_or_engine_error, rule obeys_external) (simp_all add: attempt_def)

lemma worker_detach:
  assumes "known (network_owned cfg wid nid) es" "known (listed cfg wid cid) es"
  shows "obeys (worker_law cfg wid) (detach_legacy e cfg wid p nid cid) (\<lambda>_ _. True) es"
  unfolding detach_legacy_def
proof (rule obeys_bind, rule wl.obeys_inspect, rule obeys_bind, rule obeys_identity)
  fix i fs g gs
  assume k: "kept (worker_law cfg wid) es fs" "Container_Inspected cid i \<in> set fs"
    "kept (worker_law cfg wid) fs gs"
  then have seen: "known (network_owned cfg wid nid) gs" "known (listed cfg wid cid) gs"
    "Container_Inspected cid i \<in> set gs"
    using assms by (blast intro: kept_known kept_set)+
  then have "\<not> cs_running (in_state i) \<Longrightarrow> worker_law cfg wid gs (Network_Disconnected nid (in_id i))"
    unfolding worker_law.simps by blast
  then show "obeys (worker_law cfg wid)
      (if cs_running (in_state i) then raise (refuse Egress_Network_Legacy)
       else if networkName wid \<in> set (in_networks i)
       then or_engine_error (external (attempt (Network_Disconnected nid (in_id i))) (re_disconnect e nid (in_id i)))
       else pure ()) (\<lambda>_ _. True) gs"
    by (auto intro!: obeys_if obeys_raise obeys_or_engine_error obeys_external obeys_pure
        simp: attempt_def simp del: worker_law.simps)
qed

lemma worker_attach:
  assumes "known (listed cfg wid cid) es"
  shows "obeys (worker_law cfg wid) (attach_migrated e wid cid) (\<lambda>_ _. True) es"
  unfolding attach_migrated_def
proof (rule obeys_bind, rule wl.obeys_find_network, rule obeys_option, rule obeys_raise,
    rule obeys_or_engine_error, rule obeys_bind, rule wl.obeys_inspect, rule obeys_external)
  fix found fs nid i gs r
  assume k: "kept (worker_law cfg wid) es fs" "\<forall>nid. found = Some nid \<longrightarrow> known (network_listed wid nid) fs"
    "found = Some nid" "kept (worker_law cfg wid) fs gs" "Container_Inspected cid i \<in> set gs"
  then have "known (network_listed wid nid) gs" "known (listed cfg wid cid) gs"
    using assms by (blast intro: kept_known)+
  with k(5) show "worker_law cfg wid gs (attempt (Network_Connected nid (in_id i)) r)"
    by (auto simp: attempt_def)
qed simp

lemma worker_ensure_network:
  "obeys (worker_law cfg wid) (ensureNetwork e cfg wid p) (\<lambda>_ _. True) es"
  unfolding ensureNetwork_def
proof (rule obeys_bind, rule wl.obeys_find_network, rule obeys_option, rule worker_create_network,
    rule obeys_bind, rule wl.obeys_inspect_network, rule obeys_bind, rule obeys_judged, rule obeys_if,
    rule obeys_pure, rule TrueI, rule obeys_bind, rule wl.obeys_find_container)
  fix nid i fs g gs container hs
  assume k: "Network_Inspected nid i \<in> set fs" "verifyManagedNetwork cfg i wid (networkName wid) = Inr g"
    "kept (worker_law cfg wid) fs gs" "kept (worker_law cfg wid) gs hs"
    "\<forall>cid. container = Some cid \<longrightarrow> known (listed cfg wid cid) hs"
  then have owned: "known (network_owned cfg wid nid) hs"
    by (blast intro: kept_known knownI [OF k(1)] accepted_network_owned)
  show "obeys (worker_law cfg wid)
      (andThen (case container of None \<Rightarrow> pure () | Some cid \<Rightarrow> detach_legacy e cfg wid p nid cid)
       (andThen (or_engine_error (external (attempt (Network_Removed nid)) (re_remove_network e nid)))
       (andThen (createNetwork e cfg wid (networkName wid))
       (case container of None \<Rightarrow> pure () | Some cid \<Rightarrow> attach_migrated e wid cid)))) (\<lambda>_ _. True) hs"
  proof (rule obeys_andThen [where P = "\<lambda>_ _. True"])
    show "obeys (worker_law cfg wid)
        (case container of None \<Rightarrow> pure () | Some cid \<Rightarrow> detach_legacy e cfg wid p nid cid) (\<lambda>_ _. True) hs"
      using owned k(5) by (auto intro!: obeys_option obeys_pure worker_detach)
    fix us
    assume "kept (worker_law cfg wid) hs us"
    then have later: "known (network_owned cfg wid nid) us"
      "\<And>cid. container = Some cid \<Longrightarrow> known (listed cfg wid cid) us"
      using owned k(5) by (blast intro: kept_known)+
    show "obeys (worker_law cfg wid)
        (andThen (or_engine_error (external (attempt (Network_Removed nid)) (re_remove_network e nid)))
         (andThen (createNetwork e cfg wid (networkName wid))
         (case container of None \<Rightarrow> pure () | Some cid \<Rightarrow> attach_migrated e wid cid))) (\<lambda>_ _. True) us"
    proof (rule obeys_andThen [where P = "\<lambda>_ _. True"], goal_cases)
      case 1
      show ?case by (rule obeys_or_engine_error, rule obeys_external) (simp_all add: attempt_def later)
    next
      case (2 js)
      show ?case
      proof (rule obeys_andThen, rule worker_create_network, rule obeys_option, rule obeys_pure, rule TrueI,
          rule worker_attach)
        fix ks cid
        assume "kept (worker_law cfg wid) js ks" "container = Some cid"
        then show "known (listed cfg wid cid) ks" using 2 later(2) by (blast intro: kept_known)
      qed
    qed
  qed
qed

text \<open>An attempted call on a container the operation has seen listed.\<close>

lemma worker_stop_listed:
  "known (listed cfg wid cid) es \<Longrightarrow>
    obeys (worker_law cfg wid) (unless_status n (stop_container e cid)) (\<lambda>_ _. True) es"
  unfolding stop_container_def
  by (rule obeys_unless_status, rule obeys_external) (simp_all add: attempt_def)

lemma worker_remove_listed:
  "known (listed cfg wid cid) es \<Longrightarrow>
    obeys (worker_law cfg wid) (remove_container e cid True) (\<lambda>_ _. True) es"
  unfolding remove_container_def by (rule obeys_external) (simp_all add: attempt_def)

lemma worker_pinned:
  assumes "on_disk cfg wid p es"
  shows "obeys (worker_law cfg wid) (pinImageId e cfg p i)
    (\<lambda>p' fs. on_disk cfg wid p' fs \<and> mw_image p' = mw_image p) es"
  unfolding pinImageId_def by (rule obeys_if, rule obeys_pure, simp add: assms, rule wl.obeys_pin [OF assms TrueI])

lemma worker_home_sandbox:
  assumes "mw_paths p = paths_of cfg wid"
  shows "obeys (worker_law cfg wid) (home_sandbox e (home_container cfg p name)) (\<lambda>_ _. True) es"
  unfolding home_sandbox_def
proof (rule obeys_or_engine_error, rule obeys_bind [where P = "\<lambda>_ _. True"], rule obeys_external, goal_cases)
  case 1
  then show ?case using assms by (auto simp: attempt_def)
next
  case (3 cid fs)
  show ?case
    by (rule obeys_try_finally [where P = "\<lambda>_ _. True"])
      (auto intro!: obeys_andThen [where P = "\<lambda>_ _. True"] obeys_external obeys_observed obeys_require
        obeys_bind [where P = "\<lambda>_ _. True"] obeys_try_catch obeys_pure simp: attempt_def)
qed simp

lemma worker_initialize_home:
  assumes "on_disk cfg wid p es"
  shows "obeys (worker_law cfg wid) (initializeHome e cfg p)
    (\<lambda>p' fs. on_disk cfg wid p' fs \<and> mw_image p' = mw_image p) es"
  unfolding initializeHome_def Let_def
proof (rule obeys_if, rule obeys_pure, simp add: assms, rule obeys_bind, rule obeys_observed, rule obeys_andThen,
    rule worker_home_sandbox, rule on_disk_paths(1) [OF assms])
  fix fs gs :: "runtime_event list"
  assume "kept (worker_law cfg wid) es fs" "kept (worker_law cfg wid) fs gs"
  then have at: "on_disk cfg wid p gs" using assms by (blast intro: on_disk_kept)
  show "obeys (worker_law cfg wid) (andThen (writeMetadata e cfg (mw_paths p) ((mw_managed p)\<lparr>md_home := Some True\<rparr>))
      (pure (with_managed p ((mw_managed p)\<lparr>md_home := Some True\<rparr>))))
      (\<lambda>p' fs. on_disk cfg wid p' fs \<and> mw_image p' = mw_image p) gs"
    by (rule obeys_weaken [OF wl.obeys_record [OF at]])
      (use on_disk_paths [OF at] in \<open>auto simp: with_managed_def\<close>)
qed

lemma worker_make_directory:
  assumes "path \<in> {wp_root (paths_of cfg wid), wp_workspace (paths_of cfg wid), wp_home (paths_of cfg wid),
    wp_tmp (paths_of cfg wid), wp_pi (paths_of cfg wid), wp_metadata (paths_of cfg wid)}"
  shows "obeys (worker_law cfg wid) (make_directory e recursive path) (\<lambda>_ fs. Directory_Made path \<in> set fs) es"
  unfolding make_directory_def
  by (rule obeys_external) (use assms in \<open>auto simp: on_success_def split: sum.split\<close>)

lemma worker_ensure_paths:
  "obeys (worker_law cfg wid) (ensureWorkspacePaths e cfg wid runtimeImage) (\<lambda>p fs. on_disk cfg wid p fs) es"
  unfolding ensureWorkspacePaths_def
proof (rule obeys_bind, rule wl.obeys_paths)
  fix paths fs
  assume p: "paths = paths_of cfg wid"
  have made: "obeys (worker_law cfg wid) (try_catch (andThen (make_directory e False (wp_root paths)) (pure True))
      (\<lambda>x. if isNodeError x ''EEXIST'' then pure False else raise x))
      (\<lambda>created gs. created \<longrightarrow> Directory_Made (wp_root (paths_of cfg wid)) \<in> set gs) fs"
    by (rule obeys_try_catch, rule obeys_andThen, unfold p, rule worker_make_directory)
      (auto intro!: obeys_pure obeys_if obeys_raise)
  have checked: "obeys (worker_law cfg wid)
      (if created then pure () else bind (verifyMetadata e cfg paths wid)
        (\<lambda>m. passes (assertWorkspaceImage (md_image m) runtimeImage))) (\<lambda>_ _. True) gs" for created gs
    unfolding p by (auto intro!: obeys_if obeys_pure obeys_bind [OF wl.obeys_verify_metadata] obeys_passes)
  have directories: "obeys (worker_law cfg wid) (for_all (make_directory e True)
      [wp_workspace paths, wp_home paths, wp_tmp paths, wp_pi paths, wp_metadata paths]) (\<lambda>_ _. True) gs" for gs
    unfolding p
    by (rule obeys_for_all, rule obeys_weaken [OF worker_make_directory]) auto
  have owner: "obeys (worker_law cfg wid) (or_engine_error
      (andThen (for_all (\<lambda>d. observe (re_chown e d (rc_uid cfg) (rc_gid cfg)))
         [wp_workspace paths, wp_home paths, wp_tmp paths, wp_pi paths])
       (observe (re_chmod e (wp_tmp paths))))) (\<lambda>_ _. True) gs" for gs
    by (rule obeys_or_engine_error, rule obeys_andThen [where P = "\<lambda>_ _. True"], rule obeys_for_all)
      (auto intro: obeys_observed)
  have first: "obeys (worker_law cfg wid)
      (if created
       then external (on_success (\<lambda>_. Metadata_Created (wp_file paths) (new_metadata cfg wid runtimeImage)))
              (re_write_json e (wp_file paths) (render_metadata (new_metadata cfg wid runtimeImage)))
       else pure ()) (\<lambda>_ _. True) gs"
    if "created \<longrightarrow> Directory_Made (wp_root (paths_of cfg wid)) \<in> set gs" for created gs
    unfolding p using that
    by (auto intro!: obeys_if obeys_pure obeys_external
        simp: on_success_def new_metadata_def own_metadata_def split: sum.split)
  show "obeys (worker_law cfg wid) (bind (try_catch (andThen (make_directory e False (wp_root paths)) (pure True))
         (\<lambda>x. if isNodeError x ''EEXIST'' then pure False else raise x)) (\<lambda>created.
     andThen (if created then pure ()
        else bind (verifyMetadata e cfg paths wid) (\<lambda>m. passes (assertWorkspaceImage (md_image m) runtimeImage)))
     (andThen (for_all (make_directory e True)
        [wp_workspace paths, wp_home paths, wp_tmp paths, wp_pi paths, wp_metadata paths])
     (andThen (or_engine_error
        (andThen (for_all (\<lambda>d. observe (re_chown e d (rc_uid cfg) (rc_gid cfg)))
            [wp_workspace paths, wp_home paths, wp_tmp paths, wp_pi paths])
          (observe (re_chmod e (wp_tmp paths)))))
     (andThen (if created
        then external (on_success (\<lambda>_. Metadata_Created (wp_file paths) (new_metadata cfg wid runtimeImage)))
               (re_write_json e (wp_file paths) (render_metadata (new_metadata cfg wid runtimeImage)))
        else pure ())
     (andThen (assertRealDirectories e paths True)
     (bind (verifyMetadata e cfg paths wid) (\<lambda>m. pure (managed paths m)))))))))
     (\<lambda>p fs. on_disk cfg wid p fs) fs"
    by (rule obeys_bind, rule made, rule obeys_andThen, rule checked, rule obeys_andThen, rule directories,
        rule obeys_andThen, rule owner, rule obeys_andThen, rule first, blast intro: kept_set,
        rule obeys_andThen, rule wl.obeys_assert_directories, rule obeys_bind, unfold p,
        rule wl.obeys_verify_metadata, rule obeys_pure)
      (simp add: on_disk_def managed_def)
qed

section \<open>The commands obey the law\<close>

lemma worker_ensure_verified:
  assumes "on_disk cfg wid p es"
  shows "obeys (worker_law cfg wid) (ensure_verified e cfg wid p resources created) (\<lambda>_ _. True) es"
  unfolding ensure_verified_def
proof (rule obeys_bind, rule wl.obeys_require_container, rule obeys_bind, rule wl.obeys_inspect, rule obeys_andThen,
    rule obeys_current)
  fix cid fs i gs hs
  assume "kept (worker_law cfg wid) es fs" "kept (worker_law cfg wid) fs gs" "kept (worker_law cfg wid) gs hs"
  then have at: "on_disk cfg wid p hs" using assms by (blast intro: on_disk_kept)
  show "obeys (worker_law cfg wid)
      (bind (if created then andThen (passes (verifyCurrentRuntimeConfiguration cfg i resources)) (pure p)
         else andThen (passes (verifyLegacyRuntimeConfiguration i resources)) (pinImageId e cfg p i))
       (\<lambda>p. pure (runtime_observation wid (running_state i) (mw_image p)))) (\<lambda>_ _. True) hs"
    by (rule obeys_bind [where P = "\<lambda>_ _. True"], rule obeys_if)
      (auto intro!: obeys_andThen [OF obeys_passed] obeys_pure obeys_weaken [OF worker_pinned]
        intro: on_disk_kept [OF _ at])
qed

lemma worker_ensure_existing:
  "obeys (worker_law cfg wid) (ensure_existing e cfg wid p existing) (\<lambda>_ _. True) es"
  unfolding ensure_existing_def
  by (rule obeys_option, rule obeys_pure, rule TrueI, rule obeys_bind, rule wl.obeys_inspect,
      rule obeys_weaken [OF obeys_current], rule TrueI)

lemma worker_ensure_created:
  assumes "on_disk cfg wid p es"
  shows "obeys (worker_law cfg wid) (ensure_created e cfg wid p offered resources created)
    (\<lambda>p' fs. on_disk cfg wid p' fs) es"
  unfolding ensure_created_def
  by (rule obeys_if, rule obeys_bind, rule worker_initialize_home [OF assms])
    (auto intro!: obeys_weaken [OF wl.obeys_create_container] obeys_pure assms)

lemma worker_ensure:
  "obeys (worker_law cfg wid) (runtime_ensure e cfg wid runtimeImage resources limit) (\<lambda>_ _. True) es"
  unfolding runtime_ensure_def
proof (rule obeys_bind, rule wl.obeys_offered, rule obeys_andThen, rule obeys_passed, rule obeys_bind,
    rule worker_ensure_paths, rule obeys_bind, rule wl.obeys_find_container, rule obeys_andThen,
    rule worker_ensure_existing, rule obeys_bind, rule worker_prepare_storage, goal_cases)
  case (1 offered _ _ p fs existing gs hs)
  then show ?case by (blast intro: on_disk_kept)
next
  case (2 offered _ _ p fs existing gs hs p1 is1)
  show ?case
  proof (rule obeys_andThen, rule worker_ensure_network, rule obeys_bind, rule worker_ensure_created, goal_cases)
    case (1 js)
    then show ?case using 2 by (blast intro: on_disk_kept)
  next
    case (2 js p2 ks)
    then show ?case by (intro worker_ensure_verified)
  qed
qed

lemma worker_clear_temporary:
  "obeys (worker_law cfg wid) (clearTemporaryDirectory e (paths_of cfg wid)) (\<lambda>_ _. True) es"
  unfolding clearTemporaryDirectory_def
proof (rule obeys_bind, rule obeys_observed, rule obeys_andThen, rule obeys_required, rule obeys_bind,
    rule obeys_observed, rule obeys_for_all)
  fix entry :: "string \<times> bool" and fs
  show "obeys (worker_law cfg wid) (let path = wp_tmp (paths_of cfg wid) @ ''/'' @ fst entry
      in external (attempt (Entry_Removed path)) (re_rm e path)) (\<lambda>_ _. True) fs"
    unfolding Let_def by (rule obeys_external) (simp_all add: attempt_def starts_with_def)
qed

lemma worker_egress:
  "obeys (worker_law cfg wid) (assertEgressEnforced e) (\<lambda>_ fs. Egress_Checked True \<in> set fs) es"
proof -
  have "obeys (worker_law cfg wid)
      (try_catch (external (on_success Egress_Checked) (re_egress_ensure e)) (\<lambda>_. pure False))
      (\<lambda>b fs. b \<longrightarrow> Egress_Checked True \<in> set fs) es"
    by (rule obeys_try_catch, rule obeys_weaken [OF wl.obeys_sensed]) (auto intro: obeys_pure)
  then show ?thesis
    unfolding assertEgressEnforced_def by (rule obeys_bind) (auto intro!: obeys_require)
qed

text \<open>Starting a stopped container: the gates are passed in this run, right before it.\<close>

lemma worker_start_stopped:
  assumes "on_disk cfg wid p es" "known (listed cfg wid cid) es" "Container_Inspected cid i \<in> set es"
    "\<not> cs_running (in_state i)" "verifyManagedContainerIdentity cfg i wid p (networkName wid) = Inr Current"
    "verifyLegacyCompatibleDefaultCwd i = None"
  shows "obeys (worker_law cfg wid) (start_stopped e cfg p cid) (\<lambda>_ _. True) es"
  unfolding start_stopped_def
proof (rule obeys_andThen, rule worker_egress, rule obeys_option, rule obeys_raise, rule obeys_bind,
    rule worker_prepare_storage, goal_cases)
  case (1 fs q)
  then show ?case using assms(1) by (blast intro: on_disk_kept)
next
  case (2 fs q p' gs)
  obtain q' where q': "Storage_Prepared (paths_of cfg wid) q' (qm_limit q) \<in> set gs" "q' = q"
    using 2(5) 2(3) by blast
  show ?case
    unfolding on_disk_paths(1) [OF assms(1)]
  proof (rule obeys_andThen, rule worker_clear_temporary, rule obeys_unless_status)
    fix hs
    assume k: "kept (worker_law cfg wid) gs hs"
    then have all: "kept (worker_law cfg wid) es hs" using 2(1,4) by (blast intro: kept_trans)
    have "start_allowed cfg wid cid hs"
      unfolding start_allowed_def
    proof (intro conjI exI)
      show "known (listed cfg wid cid) hs" by (rule kept_known [OF all assms(2)])
      show "on_disk cfg wid p hs" by (rule on_disk_kept [OF all assms(1)])
      show "Container_Inspected cid i \<in> set hs" by (rule kept_set [OF all assms(3)])
      show "Storage_Prepared (paths_of cfg wid) q (qm_limit q) \<in> set hs"
        using q' kept_set [OF k] by simp
      show "Egress_Checked True \<in> set hs" using 2(2,4) k by (blast intro: kept_set)
    qed (use assms 2(3) in simp_all)
    then show "obeys (worker_law cfg wid) (start_container e cid) (\<lambda>_ _. True) hs"
      unfolding start_container_def by (intro obeys_external) (simp_all add: attempt_def)
  qed simp
qed

text \<open>Pi-web answered on the loopback port the running container was seen to publish.\<close>

definition seen_ready :: "string \<Rightarrow> runtime_event list \<Rightarrow> bool" where
  "seen_ready cid es \<longleftrightarrow>
     (\<exists>i b port. Container_Inspected cid i \<in> set es \<and> cs_running (in_state i) \<and>
        first_binding (Some (in_ports i)) PI_WEB_PORT = Some b \<and> pb_ip b = Some ''127.0.0.1'' \<and>
        pb_port b = Some port \<and> Ready_Seen port True \<in> set es)"

lemma seen_ready_kept: "kept J es fs \<Longrightarrow> seen_ready cid es \<Longrightarrow> seen_ready cid fs"
  unfolding seen_ready_def by (blast intro: kept_set)

context reading_law begin

lemma obeys_probe:
  "obeys law (probe_binding e binding)
     (\<lambda>r fs. r \<longrightarrow> (\<exists>b port. binding = Some b \<and> pb_ip b = Some ''127.0.0.1'' \<and> pb_port b = Some port \<and>
        Ready_Seen port True \<in> set fs)) es"
  unfolding probe_binding_def
  by (auto split: option.split intro!: obeys_pure obeys_weaken [OF obeys_sensed])

lemma obeys_wait_ready:
  "obeys law (wait_ready fuel e cid deadline) (\<lambda>b fs. b \<longrightarrow> seen_ready cid fs) es"
proof (induction fuel arbitrary: es)
  case 0
  then show ?case by (simp add: obeys_raise)
next
  case (Suc fuel)
  show ?case
    unfolding wait_ready.simps
  proof (rule obeys_bind, rule obeys_observed, rule obeys_if, rule obeys_pure, simp, rule obeys_bind,
      rule obeys_inspect, rule obeys_if, rule obeys_raise, rule obeys_bind, rule obeys_probe, rule obeys_if,
      rule obeys_pure, goal_cases)
    case (1 n f1 i f2 ready f3)
    then show ?case unfolding seen_ready_def by (blast intro: kept_set)
  next
    case 2
    show ?case by (rule obeys_andThen, rule obeys_observed, rule Suc.IH)
  qed
qed

lemma obeys_become_ready:
  "obeys law (become_ready fuel e cfg cid wid runtimeImage)
     (\<lambda>ob fs. ob = runtime_observation wid RUNNING runtimeImage \<and> seen_ready cid fs) es"
  unfolding become_ready_def
  by (rule obeys_bind, rule obeys_observed, rule obeys_bind, rule obeys_wait_ready, rule obeys_if, rule obeys_pure)
    (auto intro: obeys_raise)

lemma obeys_gateway_address: "obeys law (networkGatewayAddress e cfg wid) (\<lambda>_ _. True) es"
  unfolding networkGatewayAddress_def
  by (rule obeys_bind, rule obeys_find_network, rule obeys_option, rule obeys_pure, rule TrueI, rule obeys_bind,
      rule obeys_inspect_network, rule obeys_bind, rule obeys_judged, rule obeys_pure, rule TrueI)

lemma obeys_inspect_operation: "obeys law (runtime_inspect e cfg wid) (\<lambda>_ _. True) es"
  unfolding runtime_inspect_def
  by (rule obeys_bind, rule obeys_require_paths, rule obeys_bind, rule obeys_find_container, rule obeys_option,
      rule obeys_pure, rule TrueI, rule obeys_bind, rule obeys_inspect, rule obeys_bind, rule obeys_identity,
      rule obeys_pure, rule TrueI)

lemma obeys_check_deletable: "obeys law (check_deletable e cfg wid p container) (\<lambda>_ _. True) es"
  unfolding check_deletable_def
  by (rule obeys_option, rule obeys_pure, rule TrueI, rule obeys_bind, rule obeys_inspect, rule obeys_bind,
      rule obeys_identity, rule obeys_pure, rule TrueI)

lemma obeys_check_network:
  "obeys law (check_network_owned e cfg wid network)
     (\<lambda>_ fs. \<forall>nid. network = Some nid \<longrightarrow> known (network_owned cfg wid nid) fs) es"
  unfolding check_network_owned_def
  by (rule obeys_option, rule obeys_pure, simp, rule obeys_bind, rule obeys_inspect_network, rule obeys_require)
    (auto intro!: knownI simp: network_owned_def)

end

lemma worker_start: "obeys (worker_law cfg wid) (runtime_start fuel e cfg wid) (\<lambda>_ _. True) es"
  unfolding runtime_start_def
proof (rule obeys_bind, rule wl.obeys_require_paths, rule obeys_bind, rule wl.obeys_offered, rule obeys_bind,
    rule wl.obeys_require_container, rule obeys_bind, rule wl.obeys_inspect, rule obeys_andThen, rule obeys_current,
    rule obeys_andThen, rule obeys_passed, rule obeys_andThen, rule worker_ensure_network,
    rule obeys_andThen [where P = "\<lambda>_ _. True"], goal_cases)
  case (1 p f1 x f2 cid f3 i f4 f5 f6 f7)
  then have seen: "on_disk cfg wid p f7" "known (listed cfg wid cid) f7" "Container_Inspected cid i \<in> set f7"
    by (blast intro: on_disk_kept kept_known kept_set)+
  show ?case
    by (rule obeys_if, rule worker_start_stopped [OF seen])
      (use 1 in \<open>auto intro: obeys_pure\<close>)
next
  case 2
  show ?case by (rule obeys_weaken [OF wl.obeys_become_ready]) simp
qed

lemma worker_stop: "obeys (worker_law cfg wid) (runtime_stop e cfg wid) (\<lambda>_ _. True) es"
  unfolding runtime_stop_def
proof (rule obeys_bind, rule wl.obeys_require_paths, rule obeys_bind, rule wl.obeys_require_container,
    rule obeys_bind, rule wl.obeys_inspect, rule obeys_bind, rule obeys_identity, rule obeys_andThen, rule obeys_if,
    rule worker_stop_listed, goal_cases)
  case 1
  then show ?case by (blast intro: kept_known)
qed (auto intro: obeys_pure)

lemma worker_switch:
  assumes "on_disk cfg wid p es"
  shows "obeys (worker_law cfg wid) (switch_metadata e cfg p fromImage toImage)
    (\<lambda>p' fs. on_disk cfg wid p' fs) es"
  unfolding switch_metadata_def Let_def
proof (rule obeys_if)
  show "obeys (worker_law cfg wid)
      (andThen (writeMetadata e cfg (mw_paths p)
          ((mw_managed p)\<lparr>md_image := toImage, md_previous := Some fromImage, md_image_id := None\<rparr>))
        (pure (p\<lparr>mw_image := toImage, mw_managed :=
          (mw_managed p)\<lparr>md_image := toImage, md_previous := Some fromImage, md_image_id := None\<rparr>\<rparr>)))
      (\<lambda>p' fs. on_disk cfg wid p' fs) es"
    unfolding on_disk_paths(1) [OF assms]
    by (rule obeys_andThen, rule wl.obeys_write_metadata)
      (use assms in \<open>auto intro!: obeys_pure simp: on_disk_def own_metadata_def\<close>)
qed (auto intro: obeys_pure assms)

text \<open>A container that \<open>setRuntime\<close> goes on to replace is listed and idle.\<close>

definition replaceable :: "runtime_config \<Rightarrow> string \<Rightarrow> string option \<Rightarrow> runtime_event list \<Rightarrow> bool" where
  "replaceable cfg wid container es \<longleftrightarrow>
     (\<forall>cid. container = Some cid \<longrightarrow> known (listed cfg wid cid) es \<and>
        (\<exists>i. Container_Inspected cid i \<in> set es \<and> idle i))"

lemma replaceable_kept: "kept J es fs \<Longrightarrow> replaceable cfg wid container es \<Longrightarrow> replaceable cfg wid container fs"
  unfolding replaceable_def by (blast intro: kept_known kept_set)

lemma worker_change_settled:
  assumes "\<forall>cid. container = Some cid \<longrightarrow> known (listed cfg wid cid) es"
  shows "obeys (worker_law cfg wid) (change_settled e cfg wid p target toImage container)
    (\<lambda>_ fs. replaceable cfg wid container fs) es"
  unfolding change_settled_def
proof (rule obeys_option, rule obeys_pure, simp add: replaceable_def, rule obeys_bind, rule wl.obeys_inspect,
    rule obeys_option, rule obeys_raise, rule obeys_andThen, rule obeys_current, rule obeys_if, rule obeys_raise,
    rule obeys_pure, goal_cases)
  case (1 cid i fs created gs)
  then have "known (listed cfg wid cid) gs" "Container_Inspected cid i \<in> set gs"
    using assms by (blast intro: kept_known kept_set)+
  with 1 show ?case by (auto simp: replaceable_def idle_def)
qed

lemma worker_replace:
  assumes "on_disk cfg wid p es" "replaceable cfg wid container es"
  shows "obeys (worker_law cfg wid) (replace_container e cfg wid p target toImage container) (\<lambda>_ _. True) es"
  unfolding replace_container_def
proof (rule obeys_andThen [where P = "\<lambda>_ _. True"], rule obeys_option, rule obeys_pure, rule TrueI,
    rule obeys_unless_status, goal_cases)
  case (1 cid)
  then show ?case
    using assms(2) unfolding remove_container_def
    by (intro obeys_external) (auto simp: attempt_def replaceable_def)
next
  case (3 fs)
  then have "on_disk cfg wid p fs" using assms(1) by (blast intro: on_disk_kept)
  then show ?case
    by (auto intro!: obeys_bind [OF wl.obeys_create_container] obeys_bind [OF wl.obeys_require_container]
        obeys_bind [OF wl.obeys_inspect] obeys_andThen [OF obeys_current] obeys_andThen [OF obeys_passed] obeys_pure)
qed simp

lemma worker_set: "obeys (worker_law cfg wid) (runtime_set e cfg wid fromImage toImage) (\<lambda>_ _. True) es"
  unfolding runtime_set_def
proof (rule obeys_bind, rule wl.obeys_offered, rule obeys_bind, rule wl.obeys_require_paths, rule obeys_andThen,
    rule obeys_required, rule obeys_bind, rule wl.obeys_find_container, rule obeys_bind,
    rule worker_change_settled, assumption, rule obeys_if, rule obeys_pure, rule TrueI, rule obeys_bind,
    rule worker_switch, goal_cases)
  case 1
  then show ?case by (blast intro: on_disk_kept)
next
  case (2 target f1 p f2 f3 container f4 settled f5 p1 f6)
  then show ?case by (intro worker_replace) (auto intro: replaceable_kept)
qed

lemma worker_release:
  assumes "on_disk cfg wid p es" "Directory_Removed (wp_root (paths_of cfg wid)) \<in> set es"
  shows "obeys (worker_law cfg wid) (release_projects e p) (\<lambda>_ _. True) es"
  unfolding release_projects_def
proof (rule obeys_option, rule obeys_pure, rule TrueI, rule obeys_bind, rule wl.obeys_storage_seen, rule obeys_if,
    rule obeys_try_catch, rule obeys_external, goal_cases)
  case (1 q enforced fs r)
  then show ?case
    using on_disk_quota [OF assms(1)] assms(2)
    by (auto simp: attempt_def intro: quota_recorded_kept kept_set)
qed (auto intro: obeys_pure)

lemma worker_delete: "obeys (worker_law cfg wid) (runtime_delete e cfg wid) (\<lambda>_ _. True) es"
  unfolding runtime_delete_def
proof (rule obeys_bind, rule wl.obeys_require_paths, rule obeys_bind, rule wl.obeys_find_container,
    rule obeys_andThen, rule wl.obeys_check_deletable, rule obeys_bind, rule wl.obeys_find_network,
    rule obeys_andThen, rule wl.obeys_check_network, rule obeys_andThen [where P = "\<lambda>_ _. True"], goal_cases)
  case (1 p f1 container f2 f3 network f4 f5)
  then show ?case
    by (auto intro!: obeys_option obeys_pure obeys_unless_status worker_remove_listed) (blast intro: kept_known)
next
  case (2 p f1 container f2 f3 network f4 f5 f6)
  then have owned: "\<And>nid. network = Some nid \<Longrightarrow> known (network_owned cfg wid nid) f6"
    by (blast intro: kept_known)
  have at: "on_disk cfg wid p f6" using 2 by (meson on_disk_kept)
  show ?case
    unfolding on_disk_paths(1) [OF at]
  proof (rule obeys_andThen [where P = "\<lambda>_ _. True"], goal_cases)
    case 1
    then show ?case
      by (auto intro!: obeys_option obeys_pure obeys_unless_status obeys_external simp: attempt_def owned)
  next
    case (2 f7)
    then have later: "on_disk cfg wid p f7" using at by (blast intro: on_disk_kept)
    then have recorded: "\<exists>m. known (record_of cfg wid m) f7 \<and> own_metadata cfg wid m"
      by (auto simp: on_disk_def)
    show ?case
    proof (rule obeys_andThen [where P = "\<lambda>_ fs. Directory_Removed (wp_root (paths_of cfg wid)) \<in> set fs"],
        rule obeys_external)
      fix f8
      assume "kept (worker_law cfg wid) f7 f8" "Directory_Removed (wp_root (paths_of cfg wid)) \<in> set f8"
      with later show "obeys (worker_law cfg wid) (andThen (release_projects e p)
          (pure (runtime_observation wid CREATED (mw_image p)))) (\<lambda>_ _. True) f8"
        by (intro obeys_andThen [OF worker_release] obeys_pure) (auto intro: on_disk_kept)
    qed (simp_all add: attempt_def recorded)
  qed
qed

section \<open>Limits and the model provider\<close>

lemma worker_set_disk_limit:
  "obeys (worker_law cfg wid) (runtime_setDiskLimit e cfg wid limit) (\<lambda>_ _. True) es"
  unfolding runtime_setDiskLimit_def
proof (rule obeys_bind, rule wl.obeys_require_paths, rule obeys_option, rule obeys_pure, rule TrueI,
    rule obeys_bind [where P = "\<lambda>_ _. True"], rule obeys_try_catch, rule obeys_external, goal_cases)
  case (1 p fs q r)
  then show ?case
    using on_disk_quota [OF 1(2,3)] on_disk_paths(1) [OF 1(2)] by (cases r) (simp_all add: on_success_def)
next
  case (4 p fs q u gs)
  then have at: "on_disk cfg wid p gs" by (blast intro: on_disk_kept)
  show ?case
    by (rule obeys_weaken [OF wl.obeys_record [OF at]])
      (use on_disk_paths(2,3) [OF at] in simp_all)
qed (auto intro: obeys_raise)

lemma worker_write_provider:
  assumes "on_disk cfg wid p es" "\<And>target fs. obeys (worker_law cfg wid) (write_pi target) (\<lambda>_ _. True) fs"
  shows "obeys (worker_law cfg wid) (write_provider write_pi e cfg p config origin) (\<lambda>_ _. True) es"
  unfolding write_provider_def
proof (rule obeys_bind, rule assms(2), rule obeys_prod, rule obeys_andThen [where P = "\<lambda>_ _. True"],
    rule obeys_if, goal_cases)
  case (1 r fs result provider)
  then have at: "on_disk cfg wid p fs" using assms(1) by (blast intro: on_disk_kept)
  show ?case
    unfolding on_disk_paths(1) [OF at]
    by (rule obeys_weaken [OF wl.obeys_write_metadata]) (use on_disk_paths(2) [OF at] in simp_all)
qed (auto intro: obeys_pure)

lemma worker_configure_provider:
  assumes "\<And>target fs. obeys (worker_law cfg wid) (write_pi target) (\<lambda>_ _. True) fs"
  shows "obeys (worker_law cfg wid) (configureModelProvider write_pi e cfg wid config relayPort) (\<lambda>_ _. True) es"
  unfolding configureModelProvider_def
proof (rule obeys_bind, rule wl.obeys_require_paths, rule obeys_bind, rule wl.obeys_find_container,
    rule obeys_bind [where P = "\<lambda>_ _. True"], goal_cases)
  case (1 p f1 container f2)
  then show ?case
    by (auto intro!: obeys_option obeys_pure obeys_bind [OF wl.obeys_inspect] obeys_bind [OF obeys_identity])
next
  case (2 p f1 container f2 running f3)
  then have at: "on_disk cfg wid p f3" by (blast intro: on_disk_kept)
  have written: "obeys (worker_law cfg wid) (write_provider write_pi e cfg p config origin) (\<lambda>_ _. True) fs"
    if "kept (worker_law cfg wid) f3 fs" for config origin fs
    by (rule worker_write_provider [OF on_disk_kept [OF that at] assms])
  show ?case
    by (auto split: option.split intro!: obeys_if obeys_pure obeys_bind [OF wl.obeys_gateway_address] written
        intro: kept_refl)
qed

section \<open>A Runtime change\<close>

text \<open>
  Changing the image touches only the container and the metadata file, and only after the metadata file
  names the new image.
\<close>

definition image_recorded :: "runtime_config \<Rightarrow> string \<Rightarrow> string \<Rightarrow> runtime_event list \<Rightarrow> bool" where
  "image_recorded cfg wid runtimeImage es \<longleftrightarrow>
     (\<exists>m. known (record_of cfg wid m) es \<and> own_metadata cfg wid m \<and> md_image m = runtimeImage)"

fun change_law :: "runtime_config \<Rightarrow> string \<Rightarrow> string \<Rightarrow> runtime_event list \<Rightarrow> runtime_event \<Rightarrow> bool" where
  "change_law cfg wid toImage es (Metadata_Replaced path m) = (md_image m = toImage)"
| "change_law cfg wid toImage es (Container_Removed cid force) = image_recorded cfg wid toImage es"
| "change_law cfg wid toImage es (Container_Created spec) = image_recorded cfg wid toImage es"
| "change_law cfg wid toImage es ev = reads ev"

lemma on_disk_image:
  "on_disk cfg wid p es \<Longrightarrow> md_image (mw_managed p) = toImage \<Longrightarrow> image_recorded cfg wid toImage es"
  by (auto simp: on_disk_def image_recorded_def)

lemma change_law_reads: "reads ev \<Longrightarrow> change_law cfg wid toImage es ev"
  by (cases ev) simp_all

interpretation cl: metadata_law "change_law cfg wid toImage" cfg wid "\<lambda>m. md_image m = toImage"
  for cfg wid toImage
  by unfold_locales (auto simp: change_law_reads intro: on_disk_image)

lemma change_switch:
  assumes "on_disk cfg wid p es"
  shows "obeys (change_law cfg wid toImage) (switch_metadata e cfg p fromImage toImage)
    (\<lambda>p' fs. on_disk cfg wid p' fs \<and> mw_image p' = toImage) es"
  unfolding switch_metadata_def Let_def
proof (rule obeys_if)
  show "obeys (change_law cfg wid toImage)
      (andThen (writeMetadata e cfg (mw_paths p)
          ((mw_managed p)\<lparr>md_image := toImage, md_previous := Some fromImage, md_image_id := None\<rparr>))
        (pure (p\<lparr>mw_image := toImage, mw_managed :=
          (mw_managed p)\<lparr>md_image := toImage, md_previous := Some fromImage, md_image_id := None\<rparr>\<rparr>)))
      (\<lambda>p' fs. on_disk cfg wid p' fs \<and> mw_image p' = toImage) es"
    unfolding on_disk_paths(1) [OF assms]
    by (rule obeys_andThen, rule cl.obeys_write_metadata)
      (use assms in \<open>auto intro!: obeys_pure simp: on_disk_def own_metadata_def\<close>)
qed (auto intro: obeys_pure assms)

text \<open>What the existing container was found to be.\<close>

lemma change_settled_obeys:
  "obeys (change_law cfg wid toImage) (change_settled e cfg wid p target toImage container) (\<lambda>_ _. True) es"
  unfolding change_settled_def
  by (rule obeys_option, rule obeys_pure, rule TrueI, rule obeys_bind, rule cl.obeys_inspect, rule obeys_option,
      rule obeys_raise, rule obeys_andThen, rule obeys_current, rule obeys_if, rule obeys_raise, rule obeys_pure,
      rule TrueI)

lemma change_replace:
  assumes "on_disk cfg wid p es" "mw_image p = toImage"
  shows "obeys (change_law cfg wid toImage) (replace_container e cfg wid p target toImage container)
    (\<lambda>_ _. True) es"
proof -
  have admissible: "md_image (mw_managed p) = toImage" using assms by (simp add: on_disk_def)
  show ?thesis
    unfolding replace_container_def
  proof (rule obeys_andThen [where P = "\<lambda>_ _. True"], rule obeys_option, rule obeys_pure, rule TrueI,
      rule obeys_unless_status, goal_cases)
    case (1 cid)
    show ?case
      unfolding remove_container_def
      by (rule obeys_external) (simp_all add: attempt_def on_disk_image [OF assms(1) admissible])
  next
    case (3 fs)
    then have "on_disk cfg wid p fs" using assms(1) by (blast intro: on_disk_kept)
    then show ?case
      using admissible
      by (auto intro!: obeys_bind [OF cl.obeys_create_container] obeys_bind [OF cl.obeys_require_container]
          obeys_bind [OF cl.obeys_inspect] obeys_andThen [OF obeys_current] obeys_andThen [OF obeys_passed]
          obeys_pure)
  qed simp
qed

lemma change_set:
  "obeys (change_law cfg wid toImage) (runtime_set e cfg wid fromImage toImage) (\<lambda>_ _. True) es"
  unfolding runtime_set_def
proof (rule obeys_bind, rule cl.obeys_offered, rule obeys_bind, rule cl.obeys_require_paths, rule obeys_andThen,
    rule obeys_required, rule obeys_bind, rule cl.obeys_find_container, rule obeys_bind,
    rule change_settled_obeys, rule obeys_if, rule obeys_pure, rule TrueI, rule obeys_bind,
    rule change_switch, goal_cases)
  case 1
  then show ?case by (blast intro: on_disk_kept)
next
  case (2 target f1 p f2 f3 container f4 settled f5 p1 f6)
  then show ?case by (intro change_replace) simp_all
qed

section \<open>Recovery\<close>

lemma worker_record_limit:
  assumes "on_disk cfg wid p es"
  shows "obeys (worker_law cfg wid) (recordRecoveredDiskLimit e cfg p limit) (\<lambda>_ _. True) es"
  unfolding recordRecoveredDiskLimit_def
proof (rule obeys_option, rule obeys_pure, rule TrueI, rule obeys_if, rule obeys_pure, rule TrueI, rule obeys_bind,
    rule wl.obeys_storage_seen, rule obeys_if, rule obeys_pure, rule TrueI, rule obeys_try_catch,
    rule obeys_bind [where P = "\<lambda>_ _. True"], rule obeys_external, goal_cases)
  case (1 q enforced fs r)
  then have "on_disk cfg wid p fs" using assms by (blast intro: on_disk_kept)
  then show ?case
    using on_disk_quota [OF _ 1(1)] on_disk_paths(1) [OF assms] by (cases r) (simp_all add: on_success_def)
next
  case (3 q enforced fs u gs)
  then have at: "on_disk cfg wid p gs" using assms by (blast intro: on_disk_kept)
  show ?case
    unfolding on_disk_paths(1) [OF at]
    by (rule obeys_weaken [OF wl.obeys_write_metadata]) (use on_disk_paths(2) [OF at] in simp_all)
qed (auto intro: obeys_pure)

text \<open>A running Workspace is observed running only when both gates said so in this run; else it is stopped.\<close>

lemma worker_stop_failing:
  "known (listed cfg wid cid) es \<Longrightarrow> obeys (worker_law cfg wid) (stop_failing e cid reason) (\<lambda>_ _. False) es"
  unfolding stop_failing_def by (rule obeys_andThen, rule worker_stop_listed) (auto intro: obeys_raise)

lemma worker_unsafe:
  assumes "\<And>fs. obeys (worker_law cfg wid) gate (\<lambda>b gs. ev b \<in> set gs) fs"
  shows "obeys (worker_law cfg wid) (if running then unsafe_unless already gate else pure False)
    (\<lambda>b gs. running \<longrightarrow> \<not> b \<longrightarrow> \<not> already \<and> ev True \<in> set gs) es"
  unfolding unsafe_unless_def
  by (rule obeys_if, rule obeys_if, rule obeys_pure, simp, rule obeys_bind, rule assms)
    (auto intro!: obeys_pure)

lemma worker_gates:
  assumes "on_disk cfg wid p es" "known (listed cfg wid cid) es"
  shows "obeys (worker_law cfg wid) (recovery_gates e cfg p limit cid running container network)
    (\<lambda>_ fs. running \<longrightarrow> container \<noteq> Legacy \<and> network \<noteq> Legacy \<and> Storage_Seen True \<in> set fs \<and>
       Egress_Seen True \<in> set fs) es"
  unfolding recovery_gates_def
proof (rule obeys_bind, rule worker_unsafe, rule wl.obeys_storage_seen, rule obeys_andThen [where
      P = "\<lambda>_ fs. running \<longrightarrow> container \<noteq> Legacy \<and> Storage_Seen True \<in> set fs"], rule obeys_if, goal_cases)
  case (1 unquoted fs)
  then have "known (listed cfg wid cid) fs" using assms(2) by (blast intro: kept_known)
  then show ?case by (rule obeys_weaken [OF worker_stop_failing]) simp
next
  case (2 unquoted fs)
  then show ?case by (intro obeys_pure) auto
next
  case (3 unquoted fs gs)
  show ?case
  proof (rule obeys_andThen, rule worker_record_limit, goal_cases)
    case 1
    then show ?case using 3 assms(1) by (blast intro: on_disk_kept)
  next
    case (2 hs)
    then have seen: "running \<longrightarrow> container \<noteq> Legacy \<and> Storage_Seen True \<in> set hs" "known (listed cfg wid cid) hs"
      using 3 assms(2) by (blast intro: kept_set kept_known)+
    show ?case
    proof (rule obeys_bind, rule worker_unsafe, rule wl.obeys_egress_seen, rule obeys_if, goal_cases)
      case (1 exposed is1)
      then have "known (listed cfg wid cid) is1" using seen(2) by (blast intro: kept_known)
      then show ?case by (rule obeys_weaken [OF worker_stop_failing]) simp
    next
      case (2 exposed is1)
      then show ?case using seen(1) by (intro obeys_pure) (auto intro: kept_set)
    qed
  qed
qed

definition recovered :: "runtime_config \<Rightarrow> worker_assignment \<Rightarrow> observation \<Rightarrow> runtime_event list \<Rightarrow> bool" where
  "recovered cfg a ob fs \<longleftrightarrow>
     obs_workspace ob = wa_workspace a \<and> obs_image ob = wa_image a \<and> obs_state ob \<in> {RUNNING, STOPPED} \<and>
     (obs_state ob = RUNNING \<longrightarrow> Storage_Seen True \<in> set fs \<and> Egress_Seen True \<in> set fs \<and>
        (\<exists>cid. known (listed cfg (wa_workspace a) cid) fs \<and> seen_ready cid fs))"

lemma worker_recovery:
  "obeys (worker_law cfg (wa_workspace a)) (inspectForRecovery fuel e cfg a) (recovered cfg a) es"
  unfolding inspectForRecovery_def Let_def
proof (rule obeys_bind, rule wl.obeys_require_paths, rule obeys_andThen, rule obeys_passed, rule obeys_bind,
    rule wl.obeys_require_container, rule obeys_bind, rule wl.obeys_find_network, rule obeys_option,
    rule obeys_raise, rule obeys_bind, rule wl.obeys_inspect_network, rule obeys_bind, rule obeys_judged,
    rule obeys_bind, rule wl.obeys_inspect, rule obeys_bind, rule obeys_identity, rule obeys_andThen,
    rule obeys_passed, rule obeys_andThen, rule worker_gates, goal_cases)
  case 1
  then show ?case by (meson on_disk_kept)
next
  case 2
  then show ?case by (meson kept_known)
next
  case (3 p f1 f2 cid f3 found f4 nid ni f5 network f6 i f7 container f8 f9 f10)
  then have ours: "known (listed cfg (wa_workspace a) cid) f10"
    by (meson kept_known)
  have pic: "mw_image p = wa_image a"
    using 3(4) by (simp add: assertWorkspaceImage_def split: if_splits)
  show ?case
  proof (rule obeys_if, rule obeys_raise, rule obeys_if, rule obeys_pure, goal_cases)
    case 1
    then show ?case by (simp add: recovered_def runtime_observation_def pic)
  next
    case 2
    then show ?case
      using 3 ours by (intro obeys_weaken [OF wl.obeys_become_ready])
        (auto simp: recovered_def runtime_observation_def pic intro: kept_set kept_known)
  qed
qed

section \<open>Reports of a reconciliation\<close>

fun report_workspace :: "workspace_report \<Rightarrow> string" where
  "report_workspace (Observed_Workspace ob) = obs_workspace ob"
| "report_workspace (Missing_Workspace wid) = wid"
| "report_workspace (Invalid_Workspace wid code retryable) = wid"

text \<open>What a reconciliation may do: what the law of one of the assigned Workspaces allows.\<close>

definition fleet_law :: "runtime_config \<Rightarrow> string set \<Rightarrow> runtime_event list \<Rightarrow> runtime_event \<Rightarrow> bool" where
  "fleet_law cfg wids es ev \<longleftrightarrow> reads ev \<or> (\<exists>wid \<in> wids. worker_law cfg wid es ev)"

interpretation fl: reading_law "fleet_law cfg wids" for cfg wids
  by unfold_locales (simp add: fleet_law_def)

text \<open>A report is about the assigned Workspace, and says of one found in order what its recovery saw.\<close>

definition reported :: "runtime_config \<Rightarrow> runtime_event list \<Rightarrow> worker_assignment \<Rightarrow> workspace_report \<Rightarrow> bool" where
  "reported cfg es a r \<longleftrightarrow>
     report_workspace r = wa_workspace a \<and> (\<forall>ob. r = Observed_Workspace ob \<longrightarrow> recovered cfg a ob es)"

lemma recovered_kept: "kept J es fs \<Longrightarrow> recovered cfg a ob es \<Longrightarrow> recovered cfg a ob fs"
  by (auto simp: recovered_def intro: kept_set kept_known seen_ready_kept)

lemma reported_kept: "kept J es fs \<Longrightarrow> reported cfg es a r \<Longrightarrow> reported cfg fs a r"
  by (auto simp: reported_def intro: recovered_kept)

lemma fleet_report_one:
  assumes "wa_workspace a \<in> wids"
  shows "obeys (fleet_law cfg wids) (report_one fuel e cfg ids a) (\<lambda>r fs. reported cfg fs a r) es"
proof -
  have "obeys (fleet_law cfg wids) (inspectForRecovery fuel e cfg a) (recovered cfg a) fs" for fs
    by (rule obeys_mono [OF worker_recovery]) (use assms in \<open>auto simp: fleet_law_def\<close>)
  then have "obeys (fleet_law cfg wids) (try_catch (bind (inspectForRecovery fuel e cfg a)
      (\<lambda>ob. pure (Observed_Workspace ob))) (\<lambda>x. pure (error_report (wa_workspace a) x)))
      (\<lambda>r fs. reported cfg fs a r) es"
    by (intro obeys_try_catch obeys_bind [where P = "recovered cfg a"])
      (auto intro!: obeys_pure simp: reported_def recovered_def error_report_def split: thrown.split)
  then show ?thesis
    unfolding report_one_def by (intro obeys_if obeys_pure) (simp_all add: reported_def)
qed

lemma fleet_reports:
  assumes "wa_workspace ` set as \<subseteq> wids"
  shows "obeys (fleet_law cfg wids) (for_each (report_one fuel e cfg ids) as)
    (\<lambda>rs fs. list_all2 (reported cfg fs) as rs) es"
  using assms
proof (induction as arbitrary: es)
  case Nil
  then show ?case by (simp add: obeys_pure)
next
  case (Cons a as)
  show ?case
    unfolding for_each.simps
    by (rule obeys_bind, rule fleet_report_one, use Cons.prems in simp, rule obeys_bind, rule Cons.IH)
      (use Cons.prems in \<open>auto intro!: obeys_pure intro: reported_kept\<close>)
qed

text \<open>An issue never names an assigned Workspace.\<close>

definition issue_unassigned :: "string list \<Rightarrow> recovery_issue \<Rightarrow> bool" where
  "issue_unassigned assigned entry \<longleftrightarrow> (\<forall>wid. ri_workspace entry = Some wid \<longrightarrow> wid \<notin> set assigned)"

lemma resource_ids_none:
  "resource_ids cfg name labels = [] \<Longrightarrow> resourceWorkspaceId cfg name (label_value labels ''workspace_id'') = None"
  by (auto simp: resource_ids_def resourceWorkspaceId_def split: option.splits)

lemma resource_issue_unassigned:
  assumes "resource_issue cfg assigned kind name labels = Some entry"
  shows "issue_unassigned assigned entry"
proof -
  define ids where "ids = resource_ids cfg name labels"
  have entry: "ri_workspace entry = (case find (\<lambda>wid. wid \<notin> set assigned) ids of Some wid \<Rightarrow> Some wid
      | None \<Rightarrow> resourceWorkspaceId cfg name (label_value labels ''workspace_id''))"
    "ids = [] \<or> \<not> list_all (\<lambda>wid. wid \<in> set assigned) ids"
    using assms by (auto simp: resource_issue_def Let_def ids_def split: if_splits)
  show ?thesis
  proof (cases "find (\<lambda>wid. wid \<notin> set assigned) ids")
    case None
    then have "list_all (\<lambda>wid. wid \<in> set assigned) ids" by (simp add: find_None_iff list_all_iff)
    with entry(2) have "ids = []" by simp
    with entry(1) None show ?thesis
      using resource_ids_none [of cfg name labels] by (simp add: ids_def issue_unassigned_def)
  next
    case (Some wid)
    then have "wid \<notin> set assigned" by (auto simp: find_Some_iff)
    then show ?thesis using entry(1) Some by (simp add: issue_unassigned_def)
  qed
qed

lemma found_issues_unassigned:
  "entry \<in> set (container_issues cfg assigned cs @ network_issues cfg assigned ns) \<Longrightarrow>
    issue_unassigned assigned entry"
  by (auto simp: container_issues_def network_issues_def List.map_filter_def intro: resource_issue_unassigned)

lemma fleet_directory_issues:
  assumes "length issues \<le> 10000" "\<forall>entry \<in> set issues. issue_unassigned assigned entry"
  shows "obeys (fleet_law cfg wids) (directory_issues e cfg assigned issues entries)
    (\<lambda>all _. length all \<le> 10000 \<and> (\<forall>entry \<in> set all. issue_unassigned assigned entry)) es"
  using assms
proof (induction e cfg assigned issues entries arbitrary: es rule: directory_issues.induct)
  case (1 e cfg assigned issues)
  then show ?case by (auto intro: obeys_pure)
next
  case (2 e cfg assigned issues name directory entries)
  have found: "obeys (fleet_law cfg wids)
      (if rc_uuid cfg name \<and> directory then directoryClassification e cfg name else pure Unknown_Resource)
      (\<lambda>_ _. True) fs" for fs
    unfolding directoryClassification_def
    by (rule obeys_if, rule obeys_bind, rule fl.obeys_paths, rule obeys_bind [where P = "\<lambda>_ _. True"])
      (auto intro!: obeys_try_catch obeys_bind [OF fl.obeys_read_metadata] obeys_pure)
  show ?case
    unfolding directory_issues.simps
  proof (rule obeys_if, goal_cases)
    case 1
    then show ?case using 2 by simp
  next
    case more: 2
    show ?case
    proof (rule obeys_bind, rule found, rule obeys_if, rule obeys_raise, goal_cases)
      case (1 kind fs)
      show ?case by (rule "2.IH"(2) [OF more 1(3)]) (use 1 2 more in \<open>auto simp: issue_unassigned_def\<close>)
    qed
  qed
qed

text \<open>One report per assignment in order, a bounded list of issues, none about an assigned Workspace.\<close>

definition reconciled ::
  "runtime_config \<Rightarrow> worker_assignment list \<Rightarrow> runtime_event list \<Rightarrow> workspace_report list \<times> recovery_issue list \<Rightarrow> bool" where
  "reconciled cfg assignments es r \<longleftrightarrow>
     list_all2 (reported cfg es) assignments (fst r) \<and>
     length (snd r) \<le> 10000 \<and> (\<forall>entry \<in> set (snd r). issue_unassigned (map wa_workspace assignments) entry)"

lemma fleet_reconcile:
  "obeys (fleet_law cfg (wa_workspace ` set assignments)) (runtime_reconcile fuel e cfg assignments)
     (\<lambda>r fs. reconciled cfg assignments fs r) es"
proof -
  have listing: "obeys (fleet_law cfg (wa_workspace ` set assignments)) (inventory e cfg) (\<lambda>_ _. True) fs" for fs
    unfolding inventory_def
    by (rule obeys_or_engine_error, rule obeys_bind, rule fl.obeys_list_containers, rule obeys_bind,
        rule fl.obeys_list_networks, rule obeys_bind, rule obeys_observed, rule obeys_pure, rule TrueI)
  show ?thesis
    unfolding runtime_reconcile_def Let_def
  proof (rule obeys_andThen, rule fl.obeys_initialize, rule obeys_bind, rule listing, rule obeys_prod,
      rule obeys_prod, rule obeys_andThen, rule obeys_required, rule obeys_bind, rule fleet_directory_issues,
      goal_cases)
    case 1
    then show ?case by simp
  next
    case 2
    then show ?case by (meson found_issues_unassigned)
  next
    case 3
    then show ?case
      by (intro obeys_bind [OF fleet_reports]) (auto intro!: obeys_pure simp: reconciled_def)
  qed
qed

section \<open>Stopping everything\<close>

text \<open>The containers of this Worker in a listing, whatever Workspace they belong to.\<close>

definition own_listed :: "runtime_config \<Rightarrow> string \<Rightarrow> runtime_event \<Rightarrow> bool" where
  "own_listed cfg cid ev \<longleftrightarrow> (\<exists>wid. rc_uuid cfg wid \<and> listed cfg wid cid ev)"

fun stop_law :: "runtime_config \<Rightarrow> runtime_event list \<Rightarrow> runtime_event \<Rightarrow> bool" where
  "stop_law cfg es (Container_Stopped cid) = known (own_listed cfg cid) es"
| "stop_law cfg es ev = reads ev"

lemma stop_law_reads: "reads ev \<Longrightarrow> stop_law cfg es ev"
  by (cases ev) simp_all

interpretation sl: reading_law "stop_law cfg" for cfg
  by unfold_locales (rule stop_law_reads)

definition all_stopped :: "runtime_config \<Rightarrow> container_info list \<Rightarrow> runtime_event list \<Rightarrow> bool" where
  "all_stopped cfg cs es \<longleftrightarrow>
     (\<forall>c \<in> set cs. own_workspace cfg c \<noteq> None \<longrightarrow> Container_Stopped (ci_id c) \<in> set es)"

lemma own_workspace_listed:
  assumes "own_workspace cfg c = Some wid" "Containers_Listed cs \<in> set es" "c \<in> set cs"
  shows "known (own_listed cfg (ci_id c)) es"
proof (rule knownI [OF assms(2)])
  have "rc_uuid cfg wid" "named_container cfg wid (ci_id c) c"
    using assms(1) by (auto simp: own_workspace_def managedWorkspaceId_def parse_workspace_id_def
        named_container_def split: option.splits if_splits)
  then show "own_listed cfg (ci_id c) (Containers_Listed cs)"
    using assms(3) by (auto simp: own_listed_def listed_def list_ex_iff)
qed

lemma stop_attempt:
  assumes "known (own_listed cfg cid) es"
  shows "obeys (stop_law cfg) (unless_status n (stop_container e cid))
    (\<lambda>_ fs. Container_Stopped cid \<in> set fs) es"
proof -
  have "kept (stop_law cfg) es (es @ [Container_Stopped cid])"
    by (intro kept.intros) (simp add: assms)
  then show ?thesis
    unfolding obeys_def unless_status_def stop_container_def
    by (intro ensures_try_catch ensures_external ensures_if ensures_pure ensures_raise) (simp_all add: attempt_def)
qed

lemma stop_own_stops:
  assumes "set cs \<subseteq> set every" "Containers_Listed every \<in> set es"
  shows "obeys (stop_law cfg) (stop_own e cfg cs)
    (\<lambda>stopped fs. all_stopped cfg cs fs \<and> stopped = List.map_filter (own_workspace cfg) cs) es"
  using assms
proof (induction e cfg cs arbitrary: es rule: stop_own.induct)
  case (1 e cfg)
  then show ?case by (simp add: obeys_pure all_stopped_def map_filter_simps)
next
  case (2 e cfg c cs)
  show ?case
    unfolding stop_own.simps
  proof (rule obeys_option, goal_cases)
    case 1
    show ?case
      by (rule obeys_weaken [OF "2.IH"(1) [OF 1]]) (use "2.prems" 1 in \<open>auto simp: all_stopped_def map_filter_simps\<close>)
  next
    case (2 wid)
    then have own: "known (own_listed cfg (ci_id c)) es"
      using own_workspace_listed "2.prems" by force
    show ?case
    proof (rule obeys_andThen, rule stop_attempt [OF own], rule obeys_bind, rule "2.IH"(2) [OF 2], goal_cases)
      case 1
      then show ?case using "2.prems" by simp
    next
      case 2
      then show ?case using "2.prems" by (blast intro: kept_set)
    next
      case (3 fs stopped gs)
      then show ?case
        using \<open>own_workspace cfg c = Some wid\<close>
        by (intro obeys_pure) (auto simp: all_stopped_def map_filter_simps intro: kept_set)
    qed
  qed
qed

lemma stop_running_stops:
  "obeys (stop_law cfg) (stopRunningWorkspaces e cfg)
     (\<lambda>stopped fs. \<exists>cs. Containers_Listed cs \<in> set fs \<and> all_stopped cfg cs fs \<and>
        stopped = List.map_filter (own_workspace cfg) cs) es"
  unfolding stopRunningWorkspaces_def
proof (rule obeys_bind, rule obeys_or_engine_error, rule sl.obeys_list_containers)
  fix cs fs
  assume "Containers_Listed cs \<in> set fs"
  then show "obeys (stop_law cfg) (stop_own e cfg cs)
      (\<lambda>stopped fs. \<exists>cs. Containers_Listed cs \<in> set fs \<and> all_stopped cfg cs fs \<and>
        stopped = List.map_filter (own_workspace cfg) cs) fs"
    by (intro obeys_weaken [OF stop_own_stops]) (auto intro: kept_set)
qed

end
