(* ===== verification/RelayKeys.thy ===== *)
theory RelayKeys
  imports PiConfig WorkerChannel
begin

text \<open>
  \<open>apps/worker/src/model-relay/keys.ts\<close> and \<open>access.ts\<close>: the virtual keys of the Worker's Workspaces. The
  map of held keys is passed explicitly, in insertion order; an operation that can fail after it changed
  the map returns the map beside its result. File calls are operations of the outside world, and the
  trace records the key files that were written and removed. \<open>localeCompare\<close> is an argument.
\<close>

section \<open>Key files\<close>

record held_key =
  hk_alias :: string
  hk_secret :: string

type_synonym held_keys = "(string \<times> held_key) list"

definition uuid_shape :: "string \<Rightarrow> bool" where
  "uuid_shape s \<longleftrightarrow>
     map length (split_on CHR ''-'' s) = [8, 4, 4, 4, 12] \<and>
     list_all (list_all is_lower_hex) (split_on CHR ''-'' s)"

definition modelKeyAlias :: "string \<Rightarrow> bool" where
  "modelKeyAlias s \<longleftrightarrow>
     take 4 s = ''arw-'' \<and> uuid_shape (take 36 (drop 4 s)) \<and>
     (case drop 40 s of
        dash # c # rest \<Rightarrow> dash = CHR ''-'' \<and> is_digit c \<and> c \<noteq> CHR ''0'' \<and> length rest \<le> 9 \<and>
          list_all is_digit rest
      | _ \<Rightarrow> False)"

definition modelKeySecret :: "string \<Rightarrow> bool" where
  "modelKeySecret s \<longleftrightarrow>
     16 \<le> length s \<and> length s \<le> 512 \<and>
     list_all (\<lambda>c. 33 \<le> (of_char c :: nat) \<and> (of_char c :: nat) \<le> 126) s"

definition modelKeyAliasWorkspaceId :: "string \<Rightarrow> string" where
  "modelKeyAliasWorkspaceId alias = take 36 (drop 4 alias)"

definition MODEL_KEY_FILE :: string where "MODEL_KEY_FILE = ''model-key.json''"

definition key_path :: "string \<Rightarrow> string" where
  "key_path directory = directory @ ''/'' @ MODEL_KEY_FILE"

definition parse_key_file :: "json \<Rightarrow> held_key option" where
  "parse_key_file decoded =
     (case decoded of
        JObj obj \<Rightarrow>
          (case (required_text ''keyAlias'' obj modelKeyAlias, required_text ''secret'' obj modelKeySecret,
                 map_of obj ''version'' = Some (JNum 1) \<and>
                 only_keys [''version'', ''keyAlias'', ''secret''] obj) of
             (Some alias, Some secret, True) \<Rightarrow> Some \<lparr>hk_alias = alias, hk_secret = secret\<rparr>
           | _ \<Rightarrow> None)
      | _ \<Rightarrow> None)"

definition render_key_file :: "string \<Rightarrow> string \<Rightarrow> json" where
  "render_key_file keyAlias secret =
     JObj [(''version'', JNum 1), (''keyAlias'', JStr keyAlias), (''secret'', JStr secret)]"

datatype key_event = Key_File_Written string json | Key_File_Removed string | Key_Call_Failed

type_synonym ('n, 'a) key_act = "('n, key_event, thrown, 'a) act"

datatype key_read = Key_Absent | Key_Invalid | Key_Read held_key

definition readKeyFile :: "'n pi_env \<Rightarrow> string \<Rightarrow> ('n, key_read) key_act" where
  "readKeyFile e directory =
     bind (try_catch (andThen (observe (po_open_read e (key_path directory))) (pure None))
        (\<lambda>x. pure (Some (if isNodeError x ''ENOENT'' then Key_Absent else Key_Invalid)))) (\<lambda>early.
       case early of
         Some r \<Rightarrow> pure r
       | None \<Rightarrow>
           try_finally
             (try_catch
               (bind (observe (po_is_file e (key_path directory))) (\<lambda>file.
                 if \<not> file then pure Key_Invalid
                 else bind (observe (po_read_json e (key_path directory))) (\<lambda>j.
                   pure (case parse_key_file j of None \<Rightarrow> Key_Invalid | Some k \<Rightarrow> Key_Read k))))
               (\<lambda>_. pure Key_Invalid))
             (observe (po_close e (key_path directory))))"

definition ignoring :: "('n, unit) key_act \<Rightarrow> ('n, unit) key_act" where
  "ignoring m = try_catch m (\<lambda>_. pure ())"

definition writePrivateFile :: "'n pi_env \<Rightarrow> string \<Rightarrow> json \<Rightarrow> ('n, unit) key_act" where
  "writePrivateFile e path content =
     bind (observe (\<lambda>n. let (r, n') = po_random e n in (Inr r, n'))) (\<lambda>random.
       let temporary = path @ ''.'' @ random @ ''.tmp'' in
       andThen (observe (po_open_new e temporary))
       (andThen (try_catch
          (andThen (observe (po_write e temporary content)) (observe (po_sync e temporary)))
          (\<lambda>x. andThen (observe (po_close e temporary))
                 (andThen (ignoring (observe (po_unlink e temporary))) (raise x))))
       (andThen (observe (po_close e temporary))
       (try_catch
          (external (\<lambda>r. case r of Inl _ \<Rightarrow> Key_Call_Failed | Inr _ \<Rightarrow> Key_File_Written path content)
             (po_rename e temporary path))
          (\<lambda>x. andThen (ignoring (observe (po_unlink e temporary))) (raise x))))))"

section \<open>The key store\<close>

definition keys_get :: "string \<Rightarrow> held_keys \<Rightarrow> string option" where
  "keys_get workspaceId keys = map_option hk_secret (map_of keys workspaceId)"

definition holdings :: "(string \<Rightarrow> string \<Rightarrow> int) \<Rightarrow> held_keys \<Rightarrow> (string \<times> string) list" where
  "holdings localeCompare keys =
     js_sort (\<lambda>a b. localeCompare (fst a) (fst b)) (map (\<lambda>(workspaceId, k). (workspaceId, hk_alias k)) keys)"

text \<open>The counts of loaded and ignored files, and the keys.\<close>

fun load_entries ::
  "'n pi_env \<Rightarrow> (string \<Rightarrow> bool) \<Rightarrow> string \<Rightarrow> nat \<times> nat \<times> held_keys \<Rightarrow> string list
   \<Rightarrow> ('n, nat \<times> nat \<times> held_keys) key_act" where
  "load_entries e valid_id base result [] = pure result"
| "load_entries e valid_id base (loaded, ignored, keys) (name # entries) =
     (if \<not> valid_id name then load_entries e valid_id base (loaded, ignored, keys) entries
      else bind (readKeyFile e (base @ ''/'' @ name @ ''/metadata'')) (\<lambda>r.
        case r of
          Key_Absent \<Rightarrow> load_entries e valid_id base (loaded, ignored, keys) entries
        | Key_Invalid \<Rightarrow> load_entries e valid_id base (loaded, ignored + 1, keys) entries
        | Key_Read k \<Rightarrow>
            if modelKeyAliasWorkspaceId (hk_alias k) \<noteq> name
            then load_entries e valid_id base (loaded, ignored + 1, keys) entries
            else load_entries e valid_id base (loaded + 1, ignored, map_set name k keys) entries))"

text \<open>\<open>readdir\<close> may fail: nothing is loaded then. A failing close fails the whole load.\<close>

definition keys_load ::
  "'n pi_env \<Rightarrow> (string \<Rightarrow> 'n \<Rightarrow> (thrown + string list) \<times> 'n) \<Rightarrow> (string \<Rightarrow> bool) \<Rightarrow> string \<Rightarrow> held_keys
   \<Rightarrow> ('n, nat \<times> nat \<times> held_keys) key_act" where
  "keys_load e readdir valid_id base keys =
     bind (try_catch (observe (readdir base)) (\<lambda>_. pure [])) (load_entries e valid_id base (0, 0, keys))"

text \<open>Persists first, then serves.\<close>

definition keys_set ::
  "'n pi_env \<Rightarrow> string \<Rightarrow> string \<Rightarrow> string \<Rightarrow> string \<Rightarrow> held_keys \<Rightarrow> ('n, held_keys) key_act" where
  "keys_set e workspaceId directory keyAlias secret keys =
     andThen (writePrivateFile e (key_path directory) (render_key_file keyAlias secret))
       (pure (map_set workspaceId \<lparr>hk_alias = keyAlias, hk_secret = secret\<rparr> keys))"

text \<open>Stops serving first; what then fails is in the result, beside the changed map.\<close>

definition remove_key_file ::
  "'n pi_env \<Rightarrow> (string \<Rightarrow> 'n \<Rightarrow> (thrown + unit) \<times> 'n) \<Rightarrow> string \<Rightarrow> string \<Rightarrow> ('n, unit) key_act" where
  "remove_key_file e rm directory keyAlias =
     bind (readKeyFile e directory) (\<lambda>r.
       let gone = external (\<lambda>r. case r of Inl _ \<Rightarrow> Key_Call_Failed | Inr _ \<Rightarrow> Key_File_Removed (key_path directory))
             (rm (key_path directory)) in
       case r of
         Key_Absent \<Rightarrow> pure ()
       | Key_Invalid \<Rightarrow> gone
       | Key_Read k \<Rightarrow> if hk_alias k = keyAlias then gone else pure ())"

definition dropped_key ::
  "'n pi_env \<Rightarrow> (string \<Rightarrow> 'n \<Rightarrow> (thrown + unit) \<times> 'n) \<Rightarrow> string \<Rightarrow> string option \<Rightarrow> string \<Rightarrow> held_keys
   \<Rightarrow> ('n, (thrown + string option) \<times> held_keys) key_act" where
  "dropped_key e rm workspaceId directory keyAlias keys =
     try_catch
       (andThen (case directory of None \<Rightarrow> pure () | Some d \<Rightarrow> remove_key_file e rm d keyAlias)
         (pure (Inr None, map_delete workspaceId keys)))
       (\<lambda>x. pure (Inl x, map_delete workspaceId keys))"

definition keys_clear ::
  "'n pi_env \<Rightarrow> (string \<Rightarrow> 'n \<Rightarrow> (thrown + unit) \<times> 'n) \<Rightarrow> string \<Rightarrow> string option \<Rightarrow> string \<Rightarrow> held_keys
   \<Rightarrow> ('n, (thrown + string option) \<times> held_keys) key_act" where
  "keys_clear e rm workspaceId directory keyAlias keys =
     (case map_option hk_alias (map_of keys workspaceId) of
        Some held \<Rightarrow>
          if held \<noteq> keyAlias then pure (Inr (Some held), keys)
          else dropped_key e rm workspaceId directory keyAlias keys
      | None \<Rightarrow> dropped_key e rm workspaceId directory keyAlias keys)"

definition keys_forget :: "string \<Rightarrow> held_keys \<Rightarrow> held_keys" where
  "keys_forget workspaceId keys = map_delete workspaceId keys"

end
