(* ===== verification/ModelRelay.thy ===== *)
theory ModelRelay
  imports RelayKeys Http Fleet
begin

text \<open>
  \<open>apps/worker/src/model-relay/relay.ts\<close>: the listener through which Workspaces reach the model gateway.
  Sockets and requests are numbered. The listener reacts to events: a request arrives, a refresh of the
  endpoints settles, something happens to a forwarded request. A request that waits for a refresh is in
  \<open>ry_waiting\<close>; the parts between two awaits run without interruption, so an event is one step. Log
  lines are reduced to what is counted; the bodies themselves are not modelled.
\<close>

section \<open>Options and state\<close>

datatype relay_result =
    Result_2xx | Result_4xx | Result_5xx | No_Key | Gateway_Unavailable | Rejected_Path | Body_Too_Large
  | Concurrency_Limited

record relay_options =
  ro_port :: nat
  ro_max_body :: nat
  ro_max_concurrent :: nat
  ro_refresh_interval :: int
  ro_base_path :: string

record relay_request =
  rr_socket :: nat
  rr_local :: "string option"
  rr_remote :: "string option"
  rr_method :: string
  rr_url :: "string option"
  rr_headers :: headers

record forward_state =
  fo_workspace :: string
  fo_bytes_in :: nat
  fo_bytes_out :: nat
  fo_status :: nat
  fo_result :: "relay_result option"
  fo_settled :: bool
  fo_headers_sent :: bool
  fo_destroyed :: bool

record relay_state =
  ry_listening :: bool
  ry_endpoints :: "(string \<times> string) list"
  ry_last_refresh :: int
  ry_active :: "(string \<times> nat) list"
  ry_identities :: "(nat \<times> string) list"
  ry_results :: "relay_result \<Rightarrow> nat"
  ry_rejected :: nat
  ry_waiting :: "(nat \<times> relay_request) list"
  ry_forwards :: "(nat \<times> forward_state) list"

definition new_relay :: relay_state where
  "new_relay =
     \<lparr>ry_listening = False, ry_endpoints = [], ry_last_refresh = 0, ry_active = [], ry_identities = [],
      ry_results = (\<lambda>_. 0), ry_rejected = 0, ry_waiting = [], ry_forwards = []\<rparr>"

datatype relay_effect =
    Socket_Destroyed nat
  | Answered nat nat string
  | Forwarded nat string "(string \<times> string) list"
  | Head_Written nat nat headers
  | Response_Destroyed nat
  | Outgoing_Destroyed nat
  | Request_Logged nat string nat nat nat relay_result

definition ALLOWED_RELAY_PATHS :: "string list" where
  "ALLOWED_RELAY_PATHS =
     [''/v1/chat/completions'', ''/v1/responses'', ''/v1/messages'', ''/v1/messages/count_tokens'']"

definition FORWARDED_HEADERS :: "string list" where
  "FORWARDED_HEADERS =
     [''content-type'', ''content-length'', ''accept'', ''user-agent'', ''openai-beta'', ''anthropic-version'',
      ''anthropic-beta'', ''session_id'', ''x-client-request-id'', ''x-session-affinity'']"

definition STRIPPED_RESPONSE_HEADERS :: "string list" where
  "STRIPPED_RESPONSE_HEADERS =
     [''connection'', ''keep-alive'', ''proxy-authenticate'', ''proxy-connection'', ''transfer-encoding'',
      ''upgrade'', ''set-cookie'']"

definition relay_header :: "string \<Rightarrow> bool" where
  "relay_header name \<longleftrightarrow> name \<in> set FORWARDED_HEADERS \<or> starts_with ''x-stainless-'' name"

definition forwardedRequestHeaders :: "headers \<Rightarrow> string \<Rightarrow> (string \<times> string) list" where
  "forwardedRequestHeaders hs virtualKey =
     obj_set ''authorization'' (''Bearer '' @ virtualKey)
       (foldl (\<lambda>forwarded (name, v).
          case v of
            Some (Text s) \<Rightarrow> if relay_header (to_lower name) then obj_set (to_lower name) s forwarded else forwarded
          | _ \<Rightarrow> forwarded) [] hs)"

definition plainAddress :: "string option \<Rightarrow> string" where
  "plainAddress address =
     (case address of
        None \<Rightarrow> ''''
      | Some a \<Rightarrow> if starts_with ''::ffff:'' a then drop 7 a else a)"

definition endpointKey :: "string \<Rightarrow> string \<Rightarrow> string" where
  "endpointKey local remote = local @ ''|'' @ remote"

definition statusResult :: "nat \<Rightarrow> relay_result" where
  "statusResult status = (if 500 \<le> status then Result_5xx else if 400 \<le> status then Result_4xx else Result_2xx)"

text \<open>\<open>status()\<close>: whether it listens, the requests by result, the rejected connections and the active ones.\<close>

definition relay_status :: "relay_state \<Rightarrow> bool \<times> (relay_result \<Rightarrow> nat) \<times> nat \<times> nat" where
  "relay_status rs =
     (ry_listening rs, ry_results rs, ry_rejected rs, sum_list (map snd (ry_active rs)))"

section \<open>Endpoints\<close>

text \<open>A refresh that failed keeps the endpoints; either way it is the last one now.\<close>

definition refreshed :: "thrown + relay_endpoint list \<Rightarrow> int \<Rightarrow> relay_state \<Rightarrow> relay_state" where
  "refreshed r now rs =
     (case r of
        Inl _ \<Rightarrow> rs
      | Inr endpoints \<Rightarrow>
          rs\<lparr>ry_endpoints := foldl (\<lambda>m p.
            map_set (endpointKey (ep_gateway p) (ep_container p)) (ep_workspace p) m) [] endpoints\<rparr>)
     \<lparr>ry_last_refresh := now\<rparr>"

definition request_key :: "relay_request \<Rightarrow> string" where
  "request_key req = endpointKey (plainAddress (rr_local req)) (plainAddress (rr_remote req))"

definition identity_of_socket :: "relay_request \<Rightarrow> relay_state \<Rightarrow> string option" where
  "identity_of_socket req rs =
     (case map_of (ry_identities rs) (rr_socket req) of
        Some wid \<Rightarrow> Some wid
      | None \<Rightarrow> map_of (ry_endpoints rs) (request_key req))"

section \<open>Handling a request\<close>

definition counted :: "relay_result \<Rightarrow> relay_state \<Rightarrow> relay_state" where
  "counted r rs = rs\<lparr>ry_results := (ry_results rs)(r := ry_results rs r + 1)\<rparr>"

definition reject_connection :: "relay_request \<Rightarrow> relay_state \<Rightarrow> relay_effect list \<times> relay_state" where
  "reject_connection req rs = ([Socket_Destroyed (rr_socket req)], rs\<lparr>ry_rejected := ry_rejected rs + 1\<rparr>)"

definition refuse_request ::
  "nat \<Rightarrow> string \<Rightarrow> nat \<Rightarrow> string \<Rightarrow> relay_result \<Rightarrow> relay_state \<Rightarrow> relay_effect list \<times> relay_state" where
  "refuse_request n wid status code r rs = ([Answered n status code, Request_Logged n wid status 0 0 r], counted r rs)"

text \<open>\<open>Number(header ?? "0")\<close>, finite: the HTTP parser admits only digits.\<close>

definition declared_length :: "headers \<Rightarrow> nat option" where
  "declared_length hs =
     (case text_header ''content-length'' hs of
        None \<Rightarrow> Some 0
      | Some s \<Rightarrow> if list_all is_digit s then Some (number_of s) else None)"

definition active_of :: "relay_state \<Rightarrow> string \<Rightarrow> nat option" where
  "active_of rs wid = map_of (ry_active rs) wid"

definition active_count :: "relay_state \<Rightarrow> string \<Rightarrow> nat" where
  "active_count rs wid = (case active_of rs wid of None \<Rightarrow> 0 | Some k \<Rightarrow> k)"

definition new_forward :: "string \<Rightarrow> forward_state" where
  "new_forward wid =
     \<lparr>fo_workspace = wid, fo_bytes_in = 0, fo_bytes_out = 0, fo_status = 502, fo_result = None,
      fo_settled = False, fo_headers_sent = False, fo_destroyed = False\<rparr>"

text \<open>From the identified Workspace on, up to the first await of the forwarded request.\<close>

definition admit_request ::
  "relay_options \<Rightarrow> held_keys \<Rightarrow> nat \<Rightarrow> relay_request \<Rightarrow> string \<Rightarrow> relay_state
   \<Rightarrow> relay_effect list \<times> relay_state" where
  "admit_request opts keys n req wid rs =
     (let path = (case rr_url req of None \<Rightarrow> '''' | Some s \<Rightarrow> s) in
      if rr_method req \<noteq> ''POST'' \<or> path \<notin> set ALLOWED_RELAY_PATHS
      then refuse_request n wid 404 ''MODEL_RELAY_ROUTE_NOT_FOUND'' Rejected_Path rs
      else case keys_get wid keys of
             None \<Rightarrow> refuse_request n wid 403 ''MODEL_KEY_UNAVAILABLE'' No_Key rs
           | Some virtualKey \<Rightarrow>
               (case declared_length (rr_headers req) of
                  None \<Rightarrow> refuse_request n wid 413 ''MODEL_RELAY_BODY_TOO_LARGE'' Body_Too_Large rs
                | Some size_in \<Rightarrow>
                    if size_in > ro_max_body opts
                    then refuse_request n wid 413 ''MODEL_RELAY_BODY_TOO_LARGE'' Body_Too_Large rs
                    else if active_count rs wid \<ge> ro_max_concurrent opts
                    then refuse_request n wid 429 ''MODEL_RELAY_BUSY'' Concurrency_Limited rs
                    else ([Forwarded n (ro_base_path opts @ path) (forwardedRequestHeaders (rr_headers req) virtualKey)],
                          rs\<lparr>ry_active := map_set wid (active_count rs wid + 1) (ry_active rs),
                             ry_forwards := map_set n (new_forward wid) (ry_forwards rs)\<rparr>)))"

definition identified ::
  "relay_options \<Rightarrow> held_keys \<Rightarrow> nat \<Rightarrow> relay_request \<Rightarrow> relay_state \<Rightarrow> relay_effect list \<times> relay_state" where
  "identified opts keys n req rs =
     (case identity_of_socket req rs of
        None \<Rightarrow> reject_connection req rs
      | Some wid \<Rightarrow>
          admit_request opts keys n req wid
            (rs\<lparr>ry_identities := map_set (rr_socket req) wid (ry_identities rs)\<rparr>))"

fun resume_waiting ::
  "relay_options \<Rightarrow> held_keys \<Rightarrow> (nat \<times> relay_request) list \<Rightarrow> relay_state \<Rightarrow> relay_effect list \<times> relay_state" where
  "resume_waiting opts keys [] rs = ([], rs)"
| "resume_waiting opts keys ((n, req) # rest) rs =
     (case identified opts keys n req rs of (effs, rs1) \<Rightarrow>
        case resume_waiting opts keys rest rs1 of (effs2, rs2) \<Rightarrow> (effs @ effs2, rs2))"

section \<open>A forwarded request\<close>

text \<open>\<open>finish\<close>: logs and counts once, and gives the place of the Workspace back.\<close>

definition give_back :: "string \<Rightarrow> relay_state \<Rightarrow> relay_state" where
  "give_back wid rs =
     (let active = (case active_of rs wid of None \<Rightarrow> 1 | Some k \<Rightarrow> k) in
      if active \<le> 1 then rs\<lparr>ry_active := map_delete wid (ry_active rs)\<rparr>
      else rs\<lparr>ry_active := map_set wid (active - 1) (ry_active rs)\<rparr>)"

definition finish_forward ::
  "nat \<Rightarrow> forward_state \<Rightarrow> relay_state \<Rightarrow> relay_effect list \<times> relay_state" where
  "finish_forward n f rs =
     (if fo_settled f then ([], rs\<lparr>ry_forwards := map_set n f (ry_forwards rs)\<rparr>)
      else
        let r = (case fo_result f of None \<Rightarrow> statusResult (fo_status f) | Some r \<Rightarrow> r) in
        ([Request_Logged n (fo_workspace f) (fo_status f) (fo_bytes_in f) (fo_bytes_out f) r],
         give_back (fo_workspace f)
           (counted r (rs\<lparr>ry_forwards := map_set n (f\<lparr>fo_settled := True\<rparr>) (ry_forwards rs)\<rparr>))))"

definition send_error ::
  "nat \<Rightarrow> nat \<Rightarrow> string \<Rightarrow> forward_state \<Rightarrow> relay_effect list \<times> forward_state" where
  "send_error n status code f =
     (if fo_headers_sent f then ([Response_Destroyed n], f)
      else ([Answered n status code], f\<lparr>fo_headers_sent := True\<rparr>))"

text \<open>What happens to a forwarded request. A destroyed outgoing request answers no more.\<close>

datatype forward_event =
    Upstream_Head nat headers
  | Upstream_Data nat
  | Upstream_End
  | Upstream_Broken
  | Outgoing_Failed
  | Client_Closed bool
  | Client_Data nat

definition relay_response_headers :: "headers \<Rightarrow> headers" where
  "relay_response_headers hs =
     filter (\<lambda>(name, v). v \<noteq> None \<and> to_lower name \<notin> set STRIPPED_RESPONSE_HEADERS) hs"

definition keep_forward :: "nat \<Rightarrow> forward_state \<Rightarrow> relay_state \<Rightarrow> relay_state" where
  "keep_forward n f rs = rs\<lparr>ry_forwards := map_set n f (ry_forwards rs)\<rparr>"

fun on_forward ::
  "relay_options \<Rightarrow> nat \<Rightarrow> forward_state \<Rightarrow> forward_event \<Rightarrow> relay_state \<Rightarrow> relay_effect list \<times> relay_state" where
  "on_forward opts n f (Upstream_Head status hs) rs =
     (if fo_destroyed f \<or> fo_headers_sent f then ([], rs)
      else ([Head_Written n status (relay_response_headers hs)],
            keep_forward n (f\<lparr>fo_status := status, fo_headers_sent := True\<rparr>) rs))"
| "on_forward opts n f (Upstream_Data size_out) rs =
     ([], keep_forward n (f\<lparr>fo_bytes_out := fo_bytes_out f + size_out\<rparr>) rs)"
| "on_forward opts n f Upstream_End rs = finish_forward n f rs"
| "on_forward opts n f Upstream_Broken rs =
     (case finish_forward n f rs of (effs, rs1) \<Rightarrow> (Response_Destroyed n # effs, rs1))"
| "on_forward opts n f Outgoing_Failed rs =
     (if fo_settled f then ([], rs)
      else if fo_headers_sent f
      then (case finish_forward n f rs of (effs, rs1) \<Rightarrow> (Response_Destroyed n # effs, rs1))
      else (case send_error n 502 ''MODEL_GATEWAY_UNAVAILABLE''
                   (f\<lparr>fo_status := 502, fo_result := Some Gateway_Unavailable\<rparr>) of
              (effs, f1) \<Rightarrow> (case finish_forward n f1 rs of (effs2, rs1) \<Rightarrow> (effs @ effs2, rs1))))"
| "on_forward opts n f (Client_Closed finished) rs =
     (let f1 = (if finished then f else f\<lparr>fo_destroyed := True\<rparr>) in
      case finish_forward n f1 rs of (effs, rs1) \<Rightarrow>
        (if finished then effs else Outgoing_Destroyed n # effs, rs1))"
| "on_forward opts n f (Client_Data size_in) rs =
     (let f1 = f\<lparr>fo_bytes_in := fo_bytes_in f + size_in\<rparr> in
      if fo_bytes_in f1 > ro_max_body opts then
        (case send_error n 413 ''MODEL_RELAY_BODY_TOO_LARGE''
                (f1\<lparr>fo_destroyed := True, fo_status := 413, fo_result := Some Body_Too_Large\<rparr>) of
           (effs, f2) \<Rightarrow> (case finish_forward n f2 rs of (effs2, rs1) \<Rightarrow>
             (Outgoing_Destroyed n # effs @ effs2, rs1)))
      else ([], keep_forward n f1 rs))"

section \<open>The listener\<close>

datatype relay_input =
    Request_Arrived nat relay_request int held_keys
  | Refresh_Settled "thrown + relay_endpoint list" int held_keys
  | Forward_Event nat forward_event
  | Relay_Listening
  | Relay_Stopped

text \<open>A request number is new; the keys are those held at that moment.\<close>

fun relay_step :: "relay_options \<Rightarrow> relay_input \<Rightarrow> relay_state \<Rightarrow> relay_effect list \<times> relay_state" where
  "relay_step opts (Request_Arrived n req now keys) rs =
     (if identity_of_socket req rs = None \<and> now - ry_last_refresh rs \<ge> ro_refresh_interval opts
      then ([], rs\<lparr>ry_waiting := ry_waiting rs @ [(n, req)]\<rparr>)
      else identified opts keys n req rs)"
| "relay_step opts (Refresh_Settled r now keys) rs =
     resume_waiting opts keys (ry_waiting rs) ((refreshed r now rs)\<lparr>ry_waiting := []\<rparr>)"
| "relay_step opts (Forward_Event n ev) rs =
     (case map_of (ry_forwards rs) n of None \<Rightarrow> ([], rs) | Some f \<Rightarrow> on_forward opts n f ev rs)"
| "relay_step opts Relay_Listening rs = ([], rs\<lparr>ry_listening := True\<rparr>)"
| "relay_step opts Relay_Stopped rs = ([], rs\<lparr>ry_listening := False\<rparr>)"

fun relay_run ::
  "relay_options \<Rightarrow> relay_input list \<Rightarrow> relay_state \<Rightarrow> relay_effect list \<times> relay_state" where
  "relay_run opts [] rs = ([], rs)"
| "relay_run opts (i # rest) rs =
     (case relay_step opts i rs of (effs, rs1) \<Rightarrow>
        case relay_run opts rest rs1 of (effs2, rs2) \<Rightarrow> (effs @ effs2, rs2))"

end
