(* ===== verification/RelaySafety.thy ===== *)
theory RelaySafety
  imports ModelRelay
begin

text \<open>
  What reaches the model gateway through the relay, and how its places and counters are kept, over any
  sequence of events.
\<close>

section \<open>Headers\<close>

lemma set_obj_set: "(k, v) \<in> set (obj_set name x obj) \<Longrightarrow> k = name \<and> v = x \<or> k \<noteq> name \<and> (k, v) \<in> set obj"
  by (force simp: obj_set_def split: if_splits)

lemma forwarded_header_cases:
  assumes "(k, v) \<in> set (forwardedRequestHeaders hs virtualKey)"
  shows "k = ''authorization'' \<and> v = ''Bearer '' @ virtualKey \<or>
    k \<noteq> ''authorization'' \<and> relay_header k \<and> (\<exists>name. (name, Some (Text v)) \<in> set hs \<and> to_lower name = k)"
proof -
  define step where "step = (\<lambda>forwarded (name, v).
      case v of
        Some (Text s) \<Rightarrow> if relay_header (to_lower name) then obj_set (to_lower name) s forwarded else forwarded
      | _ \<Rightarrow> (forwarded :: (string \<times> string) list))"
  have kept: "\<forall>(k, v) \<in> set (foldl step start hs). (k, v) \<in> set start \<or>
      relay_header k \<and> (\<exists>name. (name, Some (Text v)) \<in> set hs \<and> to_lower name = k)" for start
  proof (induction hs arbitrary: start)
    case (Cons h hs)
    have "\<forall>(k, v) \<in> set (step start h). (k, v) \<in> set start \<or>
        relay_header k \<and> (\<exists>name. (name, Some (Text v)) = h \<and> to_lower name = k)"
      by (cases h) (auto simp: step_def dest!: set_obj_set split: option.splits header_value.splits if_splits)
    with Cons.IH [of "step start h"] show ?case by fastforce
  qed simp
  show ?thesis
    using set_obj_set [OF assms [unfolded forwardedRequestHeaders_def]] kept [of "[]"]
    unfolding step_def by auto
qed

section \<open>What is forwarded\<close>

text \<open>The Workspace of a connection: some refresh listed the addresses of the connection for it.\<close>

definition located :: "relay_input set \<Rightarrow> string \<Rightarrow> string \<Rightarrow> bool" where
  "located H key wid \<longleftrightarrow>
     (\<exists>endpoints now keys p. Refresh_Settled (Inr endpoints) now keys \<in> H \<and> p \<in> set endpoints \<and>
        ep_workspace p = wid \<and> endpointKey (ep_gateway p) (ep_container p) = key)"

definition arrived :: "relay_input set \<Rightarrow> nat \<Rightarrow> relay_request \<Rightarrow> bool" where
  "arrived H n req \<longleftrightarrow> (\<exists>now keys. Request_Arrived n req now keys \<in> H)"

definition connection_of :: "relay_input set \<Rightarrow> nat \<Rightarrow> string \<Rightarrow> bool" where
  "connection_of H socket wid \<longleftrightarrow>
     (\<exists>n req. arrived H n req \<and> rr_socket req = socket \<and> located H (request_key req) wid)"

fun given_keys :: "relay_input \<Rightarrow> held_keys" where
  "given_keys (Request_Arrived n req now keys) = keys"
| "given_keys (Refresh_Settled r now keys) = keys"
| "given_keys _ = []"

definition forward_allowed ::
  "relay_options \<Rightarrow> relay_input set \<Rightarrow> nat \<Rightarrow> string \<Rightarrow> (string \<times> string) list \<Rightarrow> bool" where
  "forward_allowed opts H n path hs \<longleftrightarrow>
     (\<exists>req wid url i virtualKey.
        arrived H n req \<and> rr_method req = ''POST'' \<and>
        rr_url req = Some url \<and> url \<in> set ALLOWED_RELAY_PATHS \<and> path = ro_base_path opts @ url \<and>
        connection_of H (rr_socket req) wid \<and>
        i \<in> H \<and> keys_get wid (given_keys i) = Some virtualKey \<and>
        hs = forwardedRequestHeaders (rr_headers req) virtualKey)"

definition effects_allowed :: "relay_options \<Rightarrow> relay_input set \<Rightarrow> relay_effect list \<Rightarrow> bool" where
  "effects_allowed opts H effs \<longleftrightarrow>
     (\<forall>n path hs. Forwarded n path hs \<in> set effs \<longrightarrow> forward_allowed opts H n path hs)"

lemma effects_allowed_simps [simp]:
  "effects_allowed opts H []"
  "effects_allowed opts H (xs @ ys) \<longleftrightarrow> effects_allowed opts H xs \<and> effects_allowed opts H ys"
  by (auto simp: effects_allowed_def)

definition relay_known :: "relay_input set \<Rightarrow> relay_state \<Rightarrow> bool" where
  "relay_known H rs \<longleftrightarrow>
     (\<forall>key wid. map_of (ry_endpoints rs) key = Some wid \<longrightarrow> located H key wid) \<and>
     (\<forall>socket wid. map_of (ry_identities rs) socket = Some wid \<longrightarrow> connection_of H socket wid) \<and>
     (\<forall>(n, req) \<in> set (ry_waiting rs). arrived H n req)"

lemma relay_known_frame:
  "ry_endpoints rs' = ry_endpoints rs \<Longrightarrow> ry_identities rs' = ry_identities rs \<Longrightarrow>
    ry_waiting rs' = ry_waiting rs \<Longrightarrow> relay_known H rs \<Longrightarrow> relay_known H rs'"
  by (simp add: relay_known_def)

lemma admitted:
  assumes "admit_request opts keys n req wid rs = (effs, rs')"
  shows "ry_endpoints rs' = ry_endpoints rs" "ry_identities rs' = ry_identities rs"
    "ry_waiting rs' = ry_waiting rs"
    "\<And>m path hs. Forwarded m path hs \<in> set effs \<Longrightarrow>
      m = n \<and> rr_method req = ''POST'' \<and> (\<exists>url. rr_url req = Some url \<and> url \<in> set ALLOWED_RELAY_PATHS \<and>
        path = ro_base_path opts @ url) \<and>
      (\<exists>virtualKey. keys_get wid keys = Some virtualKey \<and>
        hs = forwardedRequestHeaders (rr_headers req) virtualKey)"
proof -
  show "ry_endpoints rs' = ry_endpoints rs" "ry_identities rs' = ry_identities rs"
    "ry_waiting rs' = ry_waiting rs"
    using assms by (auto simp: admit_request_def Let_def refuse_request_def counted_def
        split: if_splits option.splits)
  have url: "(case v of None \<Rightarrow> '''' | Some s \<Rightarrow> s) \<in> set ALLOWED_RELAY_PATHS \<Longrightarrow> \<exists>url. v = Some url" for v
    by (cases v) (simp_all add: ALLOWED_RELAY_PATHS_def)
  show "m = n \<and> rr_method req = ''POST'' \<and> (\<exists>url. rr_url req = Some url \<and> url \<in> set ALLOWED_RELAY_PATHS \<and>
        path = ro_base_path opts @ url) \<and>
      (\<exists>virtualKey. keys_get wid keys = Some virtualKey \<and>
        hs = forwardedRequestHeaders (rr_headers req) virtualKey)"
    if "Forwarded m path hs \<in> set effs" for m path hs
    using assms that url [of "rr_url req"]
    by (auto simp: admit_request_def Let_def refuse_request_def split: if_splits option.splits)
qed

lemma identified_known:
  assumes "identified opts keys n req rs = (effs, rs')" "relay_known H rs" "arrived H n req"
    "i \<in> H" "given_keys i = keys"
  shows "relay_known H rs' \<and> effects_allowed opts H effs"
proof (cases "identity_of_socket req rs")
  case None
  then show ?thesis
    using assms(1,2) by (auto simp: identified_def reject_connection_def effects_allowed_def relay_known_def)
next
  case (Some wid)
  define rs1 where "rs1 = rs\<lparr>ry_identities := map_set (rr_socket req) wid (ry_identities rs)\<rparr>"
  have owner: "connection_of H (rr_socket req) wid"
    using Some assms(2,3) unfolding identity_of_socket_def relay_known_def connection_of_def
    by (auto split: option.splits)
  have run: "admit_request opts keys n req wid rs1 = (effs, rs')"
    using assms(1) Some by (simp add: identified_def rs1_def)
  have "relay_known H rs1" using assms(2) owner by (simp add: relay_known_def rs1_def)
  then have "relay_known H rs'" by (rule relay_known_frame [OF admitted(1-3) [OF run]])
  moreover have "effects_allowed opts H effs"
    unfolding effects_allowed_def forward_allowed_def
  proof (intro allI impI)
    fix m path hs
    assume "Forwarded m path hs \<in> set effs"
    from admitted(4) [OF run this] show "\<exists>req wid url i virtualKey.
        arrived H m req \<and> rr_method req = ''POST'' \<and> rr_url req = Some url \<and> url \<in> set ALLOWED_RELAY_PATHS \<and>
        path = ro_base_path opts @ url \<and> connection_of H (rr_socket req) wid \<and> i \<in> H \<and>
        keys_get wid (given_keys i) = Some virtualKey \<and> hs = forwardedRequestHeaders (rr_headers req) virtualKey"
      using assms(3-5) owner by metis
  qed
  ultimately show ?thesis by simp
qed

lemma resumed_known:
  "resume_waiting opts keys ws rs = (effs, rs') \<Longrightarrow> relay_known H rs \<Longrightarrow>
    (\<forall>(n, req) \<in> set ws. arrived H n req) \<Longrightarrow> i \<in> H \<Longrightarrow> given_keys i = keys \<Longrightarrow>
    relay_known H rs' \<and> effects_allowed opts H effs"
proof (induction opts keys ws rs arbitrary: effs rs' rule: resume_waiting.induct)
  case (2 opts keys n req rest rs)
  obtain e1 rs1 e2 where run: "identified opts keys n req rs = (e1, rs1)"
    "resume_waiting opts keys rest rs1 = (e2, rs')" "effs = e1 @ e2"
    using "2.prems"(1) by (auto split: prod.splits)
  have "relay_known H rs1 \<and> effects_allowed opts H e1"
    by (rule identified_known [OF run(1)]) (use "2.prems" in auto)
  moreover have "relay_known H rs' \<and> effects_allowed opts H e2"
    using "2.IH" [OF run(1) [symmetric] run(2)] "2.prems" calculation by auto
  ultimately show ?case by (simp add: run(3))
qed simp

section \<open>Effects\<close>

fun logged_as :: "relay_result \<Rightarrow> relay_effect \<Rightarrow> bool" where
  "logged_as r (Request_Logged n wid status size_in size_out r') = (r' = r)"
| "logged_as r _ = False"

fun logged_for :: "nat \<Rightarrow> relay_effect \<Rightarrow> bool" where
  "logged_for n (Request_Logged m wid status size_in size_out r) = (m = n)"
| "logged_for n _ = False"

fun forwarded_for :: "nat \<Rightarrow> relay_effect \<Rightarrow> bool" where
  "forwarded_for n (Forwarded m path hs) = (m = n)"
| "forwarded_for n _ = False"

definition how_many :: "('e \<Rightarrow> bool) \<Rightarrow> 'e list \<Rightarrow> nat" where
  "how_many P effs = length (filter P effs)"

lemma how_many_simps [simp]:
  "how_many P [] = 0" "how_many P (e # es) = of_bool (P e) + how_many P es" "how_many P (xs @ ys) = how_many P xs + how_many P ys"
  by (simp_all add: how_many_def)

definition unseen :: "relay_effect list \<Rightarrow> bool" where
  "unseen new \<longleftrightarrow> (\<forall>eff \<in> set new. (\<forall>r. \<not> logged_as r eff) \<and> (\<forall>n. \<not> logged_for n eff) \<and> (\<forall>n. \<not> forwarded_for n eff))"

lemma unseen_simps [simp]:
  "unseen []"
  "unseen (x # xs) \<longleftrightarrow>
    (\<forall>r. \<not> logged_as r x) \<and> (\<forall>n. \<not> logged_for n x) \<and> (\<forall>n. \<not> forwarded_for n x) \<and> unseen xs"
  "unseen (xs @ ys) \<longleftrightarrow> unseen xs \<and> unseen ys"
  by (auto simp: unseen_def)

lemma unseen_counts:
  assumes "unseen new"
  shows "how_many (logged_as r) new = 0" "how_many (logged_for n) new = 0" "how_many (forwarded_for n) new = 0"
  using assms by (auto simp: unseen_def how_many_def filter_empty_conv)

section \<open>Events on a forwarded request\<close>

text \<open>
  An event on a forwarded request changes nothing but its own entry, the places and the counters; it
  forwards nothing and logs only that request.
\<close>

definition only_forwards :: "nat \<Rightarrow> relay_effect list \<times> relay_state \<Rightarrow> relay_state \<Rightarrow> bool" where
  "only_forwards n r rs \<longleftrightarrow>
     ry_endpoints (snd r) = ry_endpoints rs \<and> ry_identities (snd r) = ry_identities rs \<and>
     ry_waiting (snd r) = ry_waiting rs \<and>
     (\<forall>m. m \<noteq> n \<longrightarrow> map_of (ry_forwards (snd r)) m = map_of (ry_forwards rs) m) \<and>
     (\<forall>eff \<in> set (fst r). \<forall>m. \<not> forwarded_for m eff \<and> (logged_for m eff \<longrightarrow> m = n))"

lemma finish_only: "only_forwards n (finish_forward n f rs) rs"
  by (auto simp: only_forwards_def finish_forward_def Let_def give_back_def counted_def)

lemma only_forwards_prefix:
  "only_forwards n r rs \<Longrightarrow> unseen effs \<Longrightarrow>
    only_forwards n (case r of (effs2, rs1) \<Rightarrow> (effs @ effs2, rs1)) rs"
  by (cases r) (auto simp: only_forwards_def unseen_def)

lemma send_error_unseen: "unseen (fst (send_error n status code f))"
  by (simp add: send_error_def)

lemma send_then_finish:
  "only_forwards n (case send_error n status code f of (effs, f1) \<Rightarrow>
      (case finish_forward n f1 rs of (effs2, rs1) \<Rightarrow> (start @ effs @ effs2, rs1))) rs" if "unseen start"
proof -
  obtain e1 f1 where sent: "send_error n status code f = (e1, f1)" by fastforce
  have "unseen (start @ e1)" using send_error_unseen [of n status code f] that by (simp add: sent)
  from only_forwards_prefix [OF finish_only this] show ?thesis by (simp add: sent)
qed

lemma on_forward_only: "only_forwards n (on_forward opts n f ev rs) rs"
proof (cases ev)
  case (Client_Data size_in)
  then show ?thesis
    using send_then_finish [of "[Outgoing_Destroyed n]"]
    by (simp add: Let_def only_forwards_def [of n "([], x)" for x] keep_forward_def)
next
  case Outgoing_Failed
  then show ?thesis
    using send_then_finish [of "[]"] only_forwards_prefix [OF finish_only, of "[Response_Destroyed n]"]
    by (simp add: only_forwards_def [of n "([], x)" for x])
next
  case (Client_Closed finished)
  then show ?thesis
    using finish_only only_forwards_prefix [OF finish_only, of "[Outgoing_Destroyed n]"]
    by (cases finished) (simp_all add: Let_def)
next
  case Upstream_Broken
  then show ?thesis using only_forwards_prefix [OF finish_only, of "[Response_Destroyed n]"] by simp
qed (simp_all add: finish_only, simp_all add: only_forwards_def keep_forward_def)

section \<open>The listener knows its Workspaces\<close>

lemma forwarded_for_all: "(\<forall>m. \<not> forwarded_for m eff) \<longleftrightarrow> (\<forall>n path hs. eff \<noteq> Forwarded n path hs)"
  by (cases eff) simp_all

lemma only_forwards_allowed: "only_forwards n r rs \<Longrightarrow> effects_allowed opts H (fst r)"
  unfolding only_forwards_def effects_allowed_def using forwarded_for_all by blast

lemma refreshed_known:
  assumes "relay_known H rs" "Refresh_Settled r now keys \<in> H"
  shows "relay_known H ((refreshed r now rs)\<lparr>ry_waiting := []\<rparr>)"
proof -
  define add where "add = (\<lambda>m (p :: relay_endpoint). map_set (endpointKey (ep_gateway p) (ep_container p)) (ep_workspace p) m)"
  have listed: "\<forall>key wid. map_of (foldl add start ps) key = Some wid \<longrightarrow>
      map_of start key = Some wid \<or>
      (\<exists>p \<in> set ps. ep_workspace p = wid \<and> endpointKey (ep_gateway p) (ep_container p) = key)" for start ps
  proof (induction ps arbitrary: start)
    case (Cons p ps)
    have "map_of (add start p) key = (if key = endpointKey (ep_gateway p) (ep_container p)
        then Some (ep_workspace p) else map_of start key)" for key
      by (simp add: add_def)
    then show ?case using Cons.IH [of "add start p"] by (auto split: if_splits)
  qed simp
  have "map_of (foldl add [] ps) key = Some wid \<Longrightarrow> located H key wid" if "r = Inr ps" for ps key wid
    using listed [of "[]" ps] assms(2) that by (fastforce simp: located_def)
  then show ?thesis
    using assms(1) by (cases r) (auto simp: relay_known_def refreshed_def add_def [symmetric])
qed

lemma relay_step_known:
  assumes "relay_step opts i rs = (effs, rs')" "i \<in> H" "relay_known H rs"
  shows "relay_known H rs' \<and> effects_allowed opts H effs"
proof (cases i)
  case (Request_Arrived n req now keys)
  then have at: "arrived H n req" using assms(2) by (auto simp: arrived_def)
  show ?thesis
  proof (cases "identity_of_socket req rs = None \<and> now - ry_last_refresh rs \<ge> ro_refresh_interval opts")
    case True
    then show ?thesis using assms(1,3) at by (auto simp: Request_Arrived relay_known_def)
  next
    case False
    then have run: "identified opts keys n req rs = (effs, rs')"
      using assms(1) unfolding Request_Arrived relay_step.simps by (simp only: if_False)
    show ?thesis by (rule identified_known [OF run assms(3) at assms(2)]) (simp add: Request_Arrived)
  qed
next
  case (Refresh_Settled r now keys)
  have run: "resume_waiting opts keys (ry_waiting rs) ((refreshed r now rs)\<lparr>ry_waiting := []\<rparr>) = (effs, rs')"
    using assms(1) by (simp add: Refresh_Settled)
  show ?thesis
    by (rule resumed_known [OF run refreshed_known _ assms(2)])
      (use assms in \<open>auto simp: Refresh_Settled relay_known_def\<close>)
next
  case (Forward_Event n ev)
  show ?thesis
  proof (cases "map_of (ry_forwards rs) n")
    case None
    then show ?thesis using assms by (simp add: Forward_Event)
  next
    case (Some f)
    then have run: "on_forward opts n f ev rs = (effs, rs')" using assms(1) by (simp add: Forward_Event)
    have only: "only_forwards n (effs, rs') rs" using on_forward_only [of n opts f ev rs] by (simp add: run)
    then have "relay_known H rs'" using assms(3) by (auto simp: only_forwards_def intro: relay_known_frame)
    with only_forwards_allowed [OF only] show ?thesis by simp
  qed
qed (use assms in \<open>auto simp: relay_known_def\<close>)

lemma relay_run_known:
  "relay_run opts inputs rs = (effs, rs') \<Longrightarrow> set inputs \<subseteq> H \<Longrightarrow> relay_known H rs \<Longrightarrow>
    relay_known H rs' \<and> effects_allowed opts H effs"
proof (induction inputs arbitrary: rs effs)
  case (Cons i rest)
  obtain e1 rs1 e2 where run: "relay_step opts i rs = (e1, rs1)" "relay_run opts rest rs1 = (e2, rs')"
    "effs = e1 @ e2"
    using Cons.prems(1) by (auto split: prod.splits)
  have "relay_known H rs1 \<and> effects_allowed opts H e1"
    by (rule relay_step_known [OF run(1)]) (use Cons.prems in auto)
  moreover have "relay_known H rs' \<and> effects_allowed opts H e2"
    using Cons.IH [OF run(2)] Cons.prems calculation by auto
  ultimately show ?case by (simp add: run(3))
qed simp

section \<open>Places and counters\<close>

definition is_open :: "string \<Rightarrow> nat \<times> forward_state \<Rightarrow> bool" where
  "is_open wid entry \<longleftrightarrow> fo_workspace (snd entry) = wid \<and> \<not> fo_settled (snd entry)"

definition open_forwards :: "relay_state \<Rightarrow> string \<Rightarrow> nat" where
  "open_forwards rs wid = length (filter (is_open wid) (ry_forwards rs))"

definition running_forward :: "relay_state \<Rightarrow> nat \<Rightarrow> bool" where
  "running_forward rs n \<longleftrightarrow> (\<exists>f. map_of (ry_forwards rs) n = Some f \<and> \<not> fo_settled f)"

definition untouched :: "nat \<Rightarrow> relay_effect list \<Rightarrow> relay_state \<Rightarrow> bool" where
  "untouched n effs rs \<longleftrightarrow>
     map_of (ry_forwards rs) n = None \<and> how_many (logged_for n) effs = 0 \<and> how_many (forwarded_for n) effs = 0"

text \<open>
  The books of the listener after the effects \<open>effs\<close>: its places are those of the requests still being
  forwarded and within the limit, its counters are the logged requests, and no request is logged or
  forwarded twice; a forwarded one is logged when it is no longer running.
\<close>

definition relay_books :: "relay_options \<Rightarrow> relay_effect list \<Rightarrow> relay_state \<Rightarrow> bool" where
  "relay_books opts effs rs \<longleftrightarrow>
     (\<forall>wid. active_count rs wid = open_forwards rs wid \<and> open_forwards rs wid \<le> ro_max_concurrent opts) \<and>
     (\<forall>r. ry_results rs r = how_many (logged_as r) effs) \<and>
     (\<forall>n. how_many (logged_for n) effs \<le> 1 \<and> how_many (forwarded_for n) effs \<le> 1 \<and>
        (running_forward rs n \<longrightarrow> how_many (logged_for n) effs = 0) \<and>
        (how_many (forwarded_for n) effs = 1 \<longrightarrow>
           how_many (logged_for n) effs + of_bool (running_forward rs n) = 1))"

lemma filter_map_set:
  "map_of m k = None \<Longrightarrow> length (filter P (map_set k v m)) = length (filter P m) + of_bool (P (k, v))"
  "map_of m k = Some w \<Longrightarrow>
    length (filter P (map_set k v m)) + of_bool (P (k, w)) = length (filter P m) + of_bool (P (k, v))"
  by (induction k v m rule: map_set.induct) (auto split: if_splits)

text \<open>Effects that say nothing about a request, and states that differ elsewhere.\<close>

lemma same_books:
  "ry_active rs' = ry_active rs \<Longrightarrow> active_count rs' wid = active_count rs wid"
  "ry_forwards rs' = ry_forwards rs \<Longrightarrow> open_forwards rs' wid = open_forwards rs wid"
  "ry_forwards rs' = ry_forwards rs \<Longrightarrow> running_forward rs' n = running_forward rs n"
  by (simp_all add: active_count_def active_of_def open_forwards_def running_forward_def)

lemma books_frame:
  assumes "relay_books opts effs rs" "ry_active rs' = ry_active rs" "ry_results rs' = ry_results rs"
    "ry_forwards rs' = ry_forwards rs" "\<And>r. how_many (logged_as r) new = 0"
    "\<And>n. how_many (logged_for n) new = 0" "\<And>n. how_many (forwarded_for n) new = 0"
  shows "relay_books opts (effs @ new) rs'"
  using assms(1) by (simp add: relay_books_def same_books(1) [OF assms(2)] same_books(2,3) [OF assms(4)] assms(3,5-7))

lemma books_bounded: "relay_books opts effs rs \<Longrightarrow> open_forwards rs wid \<le> ro_max_concurrent opts"
  unfolding relay_books_def by metis

lemma untouched_not_running: "untouched n effs rs \<Longrightarrow> \<not> running_forward rs n"
  by (simp add: untouched_def running_forward_def)

lemma books_refuse:
  assumes "relay_books opts effs rs" "untouched n effs rs" "refuse_request n wid status code r rs = (new, rs')"
  shows "relay_books opts (effs @ new) rs'"
proof -
  have new: "new = [Answered n status code, Request_Logged n wid status 0 0 r]" "rs' = counted r rs"
    using assms(3) by (simp_all add: refuse_request_def)
  have same: "ry_active rs' = ry_active rs" "ry_forwards rs' = ry_forwards rs" by (simp_all add: new counted_def)
  show ?thesis
    using assms(1,2) untouched_not_running [OF assms(2)]
    by (auto simp: relay_books_def same_books(1) [OF same(1)] same_books(2,3) [OF same(2)] untouched_def new(1))
      (simp_all add: new(2) counted_def)
qed

lemma books_forward:
  assumes "relay_books opts effs rs" "untouched n effs rs" "active_count rs wid < ro_max_concurrent opts"
    "rs' = rs\<lparr>ry_active := map_set wid (active_count rs wid + 1) (ry_active rs),
      ry_forwards := map_set n (new_forward wid) (ry_forwards rs)\<rparr>"
  shows "relay_books opts (effs @ [Forwarded n path hs]) rs'"
proof -
  have count: "active_count rs' w = active_count rs w + of_bool (w = wid)" for w
    by (simp add: assms(4) active_count_def active_of_def)
  have opened: "open_forwards rs' w = open_forwards rs w + of_bool (w = wid)" for w
    using assms(2) by (auto simp: assms(4) open_forwards_def filter_map_set(1) untouched_def is_open_def new_forward_def)
  have running: "running_forward rs' m \<longleftrightarrow> m = n \<or> running_forward rs m" for m
    by (simp add: assms(4) running_forward_def new_forward_def)
  have results: "ry_results rs' = ry_results rs" by (simp add: assms(4))
  have "open_forwards rs w \<le> ro_max_concurrent opts" for w using books_bounded [OF assms(1)] .
  then show ?thesis
    using assms(1-3) untouched_not_running [OF assms(2)]
    by (auto simp: relay_books_def count opened running results untouched_def)
qed

lemma books_unseen: "relay_books opts effs rs \<Longrightarrow> unseen new \<Longrightarrow> relay_books opts (effs @ new) rs"
  by (rule books_frame) (simp_all add: unseen_counts)

text \<open>The bookkeeping of a forward after an event: its Workspace and whether it is settled stay.\<close>

definition same_forward :: "forward_state \<Rightarrow> forward_state \<Rightarrow> bool" where
  "same_forward f f' \<longleftrightarrow> fo_workspace f' = fo_workspace f \<and> fo_settled f' = fo_settled f"

lemma kept_forward:
  assumes "map_of (ry_forwards rs) n = Some f" "same_forward f f'" "ry_forwards rs' = map_set n f' (ry_forwards rs)"
  shows "open_forwards rs' wid = open_forwards rs wid" "running_forward rs' m = running_forward rs m"
proof -
  have "is_open wid (n, f') = is_open wid (n, f)" using assms(2) by (simp add: is_open_def same_forward_def)
  then show "open_forwards rs' wid = open_forwards rs wid"
    using filter_map_set(2) [OF assms(1), of "is_open wid" f'] by (simp add: open_forwards_def assms(3))
  show "running_forward rs' m = running_forward rs m"
    using assms(1,2) by (auto simp: running_forward_def assms(3) same_forward_def)
qed

lemma books_keep:
  assumes "relay_books opts effs rs" "map_of (ry_forwards rs) n = Some f" "same_forward f f'"
  shows "relay_books opts effs (keep_forward n f' rs)"
proof -
  have after: "ry_forwards (keep_forward n f' rs) = map_set n f' (ry_forwards rs)"
    "ry_active (keep_forward n f' rs) = ry_active rs" "ry_results (keep_forward n f' rs) = ry_results rs"
    by (simp_all add: keep_forward_def)
  show ?thesis
    using assms(1) by (simp add: relay_books_def kept_forward [OF assms(2,3) after(1)] same_books(1) [OF after(2)] after(3))
qed

lemma given_back:
  assumes "active_count rs wid = Suc k"
  shows "active_count (give_back wid rs) w = (if w = wid then k else active_count rs w)"
    "ry_forwards (give_back wid rs) = ry_forwards rs" "ry_results (give_back wid rs) = ry_results rs"
proof -
  obtain m where "map_of (ry_active rs) wid = Some m" "m = Suc k"
    using assms by (auto simp: active_count_def active_of_def split: option.splits)
  then show "active_count (give_back wid rs) w = (if w = wid then k else active_count rs w)"
    by (cases k) (simp_all add: give_back_def active_of_def active_count_def Let_def)
  show "ry_forwards (give_back wid rs) = ry_forwards rs" "ry_results (give_back wid rs) = ry_results rs"
    by (simp_all add: give_back_def Let_def)
qed

lemma books_finish:
  assumes books: "relay_books opts effs rs" and found: "map_of (ry_forwards rs) n = Some f"
    and same: "same_forward f f'" and run: "finish_forward n f' rs = (new, rs')"
  shows "relay_books opts (effs @ new) rs'"
proof (cases "fo_settled f")
  case True
  then show ?thesis
    using books_keep [OF books found same] same run
    by (simp add: finish_forward_def same_forward_def keep_forward_def)
next
  case False
  define wid where "wid = fo_workspace f"
  define r where "r = (case fo_result f' of None \<Rightarrow> statusResult (fo_status f') | Some r \<Rightarrow> r)"
  define mid where "mid = counted r (rs\<lparr>ry_forwards := map_set n (f'\<lparr>fo_settled := True\<rparr>) (ry_forwards rs)\<rparr>)"
  have new: "new = [Request_Logged n wid (fo_status f') (fo_bytes_in f') (fo_bytes_out f') r]"
    "rs' = give_back wid mid"
    using run False same by (auto simp: finish_forward_def same_forward_def Let_def wid_def r_def mid_def)
  have mid: "ry_forwards mid = map_set n (f'\<lparr>fo_settled := True\<rparr>) (ry_forwards rs)"
    "active_count mid w = active_count rs w" "ry_results mid = (ry_results rs)(r := ry_results rs r + 1)" for w
    by (simp_all add: mid_def counted_def active_count_def active_of_def)
  have fewer: "open_forwards rs w = open_forwards mid w + of_bool (w = wid)" for w
    using filter_map_set(2) [OF found, of "is_open w" "f'\<lparr>fo_settled := True\<rparr>"] False
    by (auto simp: open_forwards_def mid(1) is_open_def wid_def)
  have places: "active_count rs w = open_forwards rs w" for w using books by (simp add: relay_books_def)
  have freed: "active_count rs' w = open_forwards mid w" "ry_forwards rs' = ry_forwards mid"
    "ry_results rs' = ry_results mid" for w
    using given_back [of mid wid "open_forwards mid wid"] fewer [of w] fewer [of wid]
    by (simp_all add: new(2) mid(2) places)
  have running: "running_forward rs n" "running_forward rs' m \<longleftrightarrow> m \<noteq> n \<and> running_forward rs m" for m
    using found False by (simp_all add: running_forward_def freed(2) mid(1))
  have "open_forwards rs' w \<le> ro_max_concurrent opts" for w
    using books_bounded [OF books, of w] fewer [of w] by (simp add: same_books(2) [OF freed(2)])
  moreover have "active_count rs' w = open_forwards rs' w" for w by (simp add: freed(1) same_books(2) [OF freed(2)])
  moreover have "how_many (logged_for n) effs = 0" using books running(1) by (simp add: relay_books_def)
  ultimately show ?thesis
    using books running by (auto simp: relay_books_def new(1) freed(3) mid(3))
qed

lemma books_send_finish:
  assumes "relay_books opts effs rs" "map_of (ry_forwards rs) n = Some f" "same_forward f f'" "unseen start"
    "(case send_error n status code f' of (e1, f1) \<Rightarrow>
        (case finish_forward n f1 rs of (e2, rs1) \<Rightarrow> (start @ e1 @ e2, rs1))) = (new, rs')"
  shows "relay_books opts (effs @ new) rs'"
proof -
  obtain e1 f1 e2 where run: "send_error n status code f' = (e1, f1)" "finish_forward n f1 rs = (e2, rs')"
    "new = (start @ e1) @ e2"
    using assms(5) by (auto split: prod.splits)
  have "unseen (start @ e1)" using send_error_unseen [of n status code f'] assms(4) run(1) by simp
  then have "relay_books opts (effs @ start @ e1) rs" by (rule books_unseen [OF assms(1)])
  moreover have "same_forward f f1"
    using assms(3) run(1) by (auto simp: same_forward_def send_error_def split: if_splits)
  ultimately show ?thesis using books_finish [OF _ assms(2) _ run(2)] run(3) by fastforce
qed

lemma books_prefix_finish:
  assumes "relay_books opts effs rs" "map_of (ry_forwards rs) n = Some f" "same_forward f f'" "unseen start"
    "(case finish_forward n f' rs of (e2, rs1) \<Rightarrow> (start @ e2, rs1)) = (new, rs')"
  shows "relay_books opts (effs @ new) rs'"
proof -
  obtain e2 where run: "finish_forward n f' rs = (e2, rs')" "new = start @ e2"
    using assms(5) by (auto split: prod.splits)
  have "relay_books opts (effs @ start) rs" by (rule books_unseen [OF assms(1,4)])
  from books_finish [OF this assms(2,3) run(1)] show ?thesis by (simp add: run(2))
qed

lemma books_on_forward:
  assumes "relay_books opts effs rs" "map_of (ry_forwards rs) n = Some f"
    "on_forward opts n f ev rs = (new, rs')"
  shows "relay_books opts (effs @ new) rs'"
proof (cases ev)
  case (Upstream_Head status hs)
  then show ?thesis
    using assms books_unseen [OF books_keep [OF assms(1,2)], of "f\<lparr>fo_status := status, fo_headers_sent := True\<rparr>"]
    by (auto simp: same_forward_def split: if_splits)
next
  case (Upstream_Data size_out)
  then show ?thesis
    using assms books_keep [OF assms(1,2)] by (auto simp: same_forward_def)
next
  case Upstream_End
  then show ?thesis using assms(3) books_finish [OF assms(1,2)] by (simp add: same_forward_def)
next
  case Upstream_Broken
  then show ?thesis
    using assms(3) books_prefix_finish [OF assms(1,2), of f "[Response_Destroyed n]"] by (simp add: same_forward_def)
next
  case Outgoing_Failed
  show ?thesis
  proof (cases "fo_settled f \<or> fo_headers_sent f")
    case True
    then show ?thesis
      using assms(1,3) Outgoing_Failed books_prefix_finish [OF assms(1,2), of f "[Response_Destroyed n]"]
      by (auto simp: same_forward_def split: if_splits)
  next
    case False
    then show ?thesis
      using assms(3) Outgoing_Failed books_send_finish [OF assms(1,2) _ _, of
          "f\<lparr>fo_status := 502, fo_result := Some Gateway_Unavailable\<rparr>" "[]"]
      by (simp add: same_forward_def)
  qed
next
  case (Client_Closed finished)
  then show ?thesis
    using assms(3) books_finish [OF assms(1,2), of f] books_prefix_finish [OF assms(1,2), of
        "f\<lparr>fo_destroyed := True\<rparr>" "[Outgoing_Destroyed n]"]
    by (cases finished) (simp_all add: Let_def same_forward_def split: prod.splits)
next
  case (Client_Data size_in)
  define f1 where "f1 = f\<lparr>fo_bytes_in := fo_bytes_in f + size_in\<rparr>"
  show ?thesis
  proof (cases "fo_bytes_in f1 > ro_max_body opts")
    case True
    then show ?thesis
      using assms(3) books_send_finish [OF assms(1,2) _ _, of
          "f1\<lparr>fo_destroyed := True, fo_status := 413, fo_result := Some Body_Too_Large\<rparr>" "[Outgoing_Destroyed n]"]
      by (simp add: Client_Data Let_def f1_def same_forward_def)
  next
    case False
    then show ?thesis
      using assms(3) books_keep [OF assms(1,2), of f1] by (auto simp: Client_Data Let_def f1_def same_forward_def)
  qed
qed

lemma admit_cases:
  assumes "admit_request opts keys n req wid rs = (new, rs')"
  obtains (Refused) status code r where "refuse_request n wid status code r rs = (new, rs')"
  | (Admitted) path hs where "new = [Forwarded n path hs]" "active_count rs wid < ro_max_concurrent opts"
      "rs' = rs\<lparr>ry_active := map_set wid (active_count rs wid + 1) (ry_active rs),
        ry_forwards := map_set n (new_forward wid) (ry_forwards rs)\<rparr>"
proof -
  show thesis
    using assms unfolding admit_request_def Let_def
    by (auto split: if_splits option.splits simp: not_le intro: Refused Admitted)
qed

text \<open>A request that is handled for the first time; the others are not concerned.\<close>

lemma books_identified:
  assumes "relay_books opts effs rs" "untouched n effs rs" "identified opts keys n req rs = (new, rs')"
  shows "relay_books opts (effs @ new) rs' \<and> ry_waiting rs' = ry_waiting rs \<and>
    (\<forall>m. m \<noteq> n \<longrightarrow> untouched m effs rs \<longrightarrow> untouched m (effs @ new) rs')"
proof (cases "identity_of_socket req rs")
  case None
  then show ?thesis
    using assms(1,3) books_frame [OF assms(1), of rs' new]
    by (auto simp: identified_def reject_connection_def untouched_def)
next
  case (Some wid)
  define rs1 where "rs1 = rs\<lparr>ry_identities := map_set (rr_socket req) wid (ry_identities rs)\<rparr>"
  have run: "admit_request opts keys n req wid rs1 = (new, rs')"
    using assms(3) Some by (simp add: identified_def rs1_def)
  have books: "relay_books opts effs rs1" "untouched n effs rs1"
    using books_frame [OF assms(1), of rs1 "[]"] assms(2) by (simp_all add: rs1_def untouched_def)
  from run show ?thesis
  proof (cases rule: admit_cases)
    case (Refused status code r)
    then show ?thesis
      using books_refuse [OF books Refused] by (auto simp: refuse_request_def counted_def rs1_def untouched_def)
  next
    case (Admitted path hs)
    then show ?thesis
      using books_forward [OF books Admitted(2,3)] by (auto simp: rs1_def untouched_def)
  qed
qed

lemma books_resumed:
  assumes "resume_waiting opts keys ws rs = (new, rs')" "relay_books opts effs rs" "distinct (map fst ws)"
    "\<forall>n \<in> fst ` set ws. untouched n effs rs"
  shows "relay_books opts (effs @ new) rs' \<and> ry_waiting rs' = ry_waiting rs \<and>
    (\<forall>m. m \<notin> fst ` set ws \<longrightarrow> untouched m effs rs \<longrightarrow> untouched m (effs @ new) rs')"
  using assms
proof (induction opts keys ws rs arbitrary: effs new rs' rule: resume_waiting.induct)
  case (2 opts keys n req rest rs)
  obtain e1 rs1 e2 where run: "identified opts keys n req rs = (e1, rs1)"
    "resume_waiting opts keys rest rs1 = (e2, rs')" "new = e1 @ e2"
    using "2.prems"(1) by (auto split: prod.splits)
  have one: "relay_books opts (effs @ e1) rs1" "ry_waiting rs1 = ry_waiting rs"
    "\<And>m. m \<noteq> n \<Longrightarrow> untouched m effs rs \<Longrightarrow> untouched m (effs @ e1) rs1"
    using books_identified [OF "2.prems"(2) _ run(1)] "2.prems"(4) by auto
  have "\<forall>m \<in> fst ` set rest. untouched m (effs @ e1) rs1"
  proof
    fix m
    assume m: "m \<in> fst ` set rest"
    then have "m \<noteq> n" using "2.prems"(3) by auto
    moreover have "untouched m effs rs" using "2.prems"(4) m by auto
    ultimately show "untouched m (effs @ e1) rs1" by (rule one(3))
  qed
  with "2.IH" [OF run(1) [symmetric] run(2) one(1)] "2.prems"(3)
  have "relay_books opts ((effs @ e1) @ e2) rs' \<and> ry_waiting rs' = ry_waiting rs1 \<and>
      (\<forall>m. m \<notin> fst ` set rest \<longrightarrow> untouched m (effs @ e1) rs1 \<longrightarrow> untouched m ((effs @ e1) @ e2) rs')"
    by simp
  then show ?case using one(2,3) by (simp add: run(3))
qed simp

definition relay_inv :: "relay_options \<Rightarrow> nat set \<Rightarrow> relay_effect list \<Rightarrow> relay_state \<Rightarrow> bool" where
  "relay_inv opts used effs rs \<longleftrightarrow>
     relay_books opts effs rs \<and> distinct (map fst (ry_waiting rs)) \<and> fst ` set (ry_waiting rs) \<subseteq> used \<and>
     (\<forall>n. n \<in> fst ` set (ry_waiting rs) \<or> n \<notin> used \<longrightarrow> untouched n effs rs)"

lemma relay_inv_frame:
  assumes "relay_inv opts used effs rs" "ry_active rs' = ry_active rs" "ry_results rs' = ry_results rs"
    "ry_forwards rs' = ry_forwards rs" "ry_waiting rs' = ry_waiting rs"
  shows "relay_inv opts used effs rs'"
  using assms(1) books_frame [OF _ assms(2-4), of opts effs "[]"]
  unfolding relay_inv_def untouched_def assms(4,5) by simp

fun arrival :: "relay_input \<Rightarrow> nat list" where
  "arrival (Request_Arrived n req now keys) = [n]"
| "arrival _ = []"

definition arrivals :: "relay_input list \<Rightarrow> nat list" where
  "arrivals inputs = concat (map arrival inputs)"

lemma relay_inv_step:
  assumes "relay_inv opts used effs rs" "relay_step opts i rs = (new, rs')" "set (arrival i) \<inter> used = {}"
  shows "relay_inv opts (used \<union> set (arrival i)) (effs @ new) rs'"
proof -
  have inv: "relay_books opts effs rs" "distinct (map fst (ry_waiting rs))" "fst ` set (ry_waiting rs) \<subseteq> used"
    "\<And>n. n \<in> fst ` set (ry_waiting rs) \<or> n \<notin> used \<Longrightarrow> untouched n effs rs"
    using assms(1) unfolding relay_inv_def by blast+
  show ?thesis
  proof (cases i)
    case (Request_Arrived n req now keys)
    then have fresh: "n \<notin> used" using assms(3) by simp
    show ?thesis
    proof (cases "identity_of_socket req rs = None \<and> now - ry_last_refresh rs \<ge> ro_refresh_interval opts")
      case True
      then have now: "new = []" "rs' = rs\<lparr>ry_waiting := ry_waiting rs @ [(n, req)]\<rparr>"
        using assms(2) by (simp_all add: Request_Arrived)
      have "relay_books opts effs rs'" using books_frame [OF inv(1), of rs' "[]"] by (simp add: now)
      then show ?thesis
        using inv fresh by (auto simp: relay_inv_def Request_Arrived now untouched_def)
    next
      case False
      then have run: "identified opts keys n req rs = (new, rs')"
        using assms(2) unfolding Request_Arrived relay_step.simps by (simp only: if_False)
      have "untouched n effs rs" using inv(4) fresh by simp
      note after = books_identified [OF inv(1) this run]
      have "untouched m (effs @ new) rs'" if "m \<in> fst ` set (ry_waiting rs) \<or> m \<notin> insert n used" for m
      proof -
        have "m \<noteq> n" using that inv(3) fresh by blast
        moreover have "untouched m effs rs" by (rule inv(4)) (use that in blast)
        ultimately show ?thesis using after by blast
      qed
      then show ?thesis
        using inv(2,3) after by (simp add: relay_inv_def Request_Arrived) blast
    qed
  next
    case (Refresh_Settled r now keys)
    define rs1 where "rs1 = (refreshed r now rs)\<lparr>ry_waiting := []\<rparr>"
    have same: "ry_active rs1 = ry_active rs" "ry_results rs1 = ry_results rs" "ry_forwards rs1 = ry_forwards rs"
      by (cases r; simp add: rs1_def refreshed_def)+
    have run: "resume_waiting opts keys (ry_waiting rs) rs1 = (new, rs')"
      using assms(2) by (simp add: Refresh_Settled rs1_def)
    have books: "relay_books opts effs rs1" using books_frame [OF inv(1) same, of "[]"] by simp
    have still: "\<And>n. n \<in> fst ` set (ry_waiting rs) \<or> n \<notin> used \<Longrightarrow> untouched n effs rs1"
      using inv(4) by (simp add: untouched_def same(3))
    have after: "relay_books opts (effs @ new) rs'" "ry_waiting rs' = ry_waiting rs1"
      "\<And>m. m \<notin> fst ` set (ry_waiting rs) \<Longrightarrow> untouched m effs rs1 \<Longrightarrow> untouched m (effs @ new) rs'"
      using books_resumed [OF run books inv(2)] still by blast+
    have "untouched m (effs @ new) rs'" if "m \<notin> used" for m
      by (rule after(3)) (use that inv(3) still in blast)+
    moreover have "ry_waiting rs1 = []" by (simp add: rs1_def)
    ultimately show ?thesis using after(1,2) by (simp add: relay_inv_def Refresh_Settled)
  next
    case (Forward_Event n ev)
    show ?thesis
    proof (cases "map_of (ry_forwards rs) n")
      case None
      then show ?thesis using assms(1,2) by (simp add: Forward_Event)
    next
      case (Some f)
      then have run: "on_forward opts n f ev rs = (new, rs')" using assms(2) by (simp add: Forward_Event)
      have only: "only_forwards n (new, rs') rs" using on_forward_only [of n opts f ev rs] by (simp add: run)
      have "untouched m (effs @ new) rs'" if "untouched m effs rs" for m
      proof -
        have "m \<noteq> n" using that Some by (auto simp: untouched_def)
        then have "how_many (logged_for m) new = 0" "how_many (forwarded_for m) new = 0"
          using only by (auto simp: only_forwards_def how_many_def filter_empty_conv)
        then show ?thesis using that only \<open>m \<noteq> n\<close> by (simp add: untouched_def only_forwards_def)
      qed
      then show ?thesis
        using books_on_forward [OF inv(1) Some run] inv(2-4) only
        by (auto simp: relay_inv_def Forward_Event only_forwards_def)
    qed
  qed (use assms(1,2) relay_inv_frame [OF assms(1), of rs'] in auto)
qed

lemma relay_inv_run:
  "relay_inv opts used effs rs \<Longrightarrow> relay_run opts inputs rs = (new, rs') \<Longrightarrow> distinct (arrivals inputs) \<Longrightarrow>
    set (arrivals inputs) \<inter> used = {} \<Longrightarrow> relay_books opts (effs @ new) rs'"
proof (induction inputs arbitrary: used effs rs new)
  case Nil
  then show ?case by (simp add: relay_inv_def)
next
  case (Cons i rest)
  obtain e1 rs1 e2 where run: "relay_step opts i rs = (e1, rs1)" "relay_run opts rest rs1 = (e2, rs')"
    "new = e1 @ e2"
    using Cons.prems(2) by (auto split: prod.splits)
  have "relay_inv opts (used \<union> set (arrival i)) (effs @ e1) rs1"
    by (rule relay_inv_step [OF Cons.prems(1) run(1)]) (use Cons.prems(4) in \<open>auto simp: arrivals_def\<close>)
  from Cons.IH [OF this run(2)] show ?case
    using Cons.prems(3,4) by (auto simp: arrivals_def run(3))
qed

lemma new_relay_inv: "relay_inv opts {} [] new_relay"
  by (simp add: relay_inv_def relay_books_def new_relay_def active_count_def active_of_def open_forwards_def
      untouched_def running_forward_def)

section \<open>Properties\<close>

text \<open>C33. The relay forwards a request only for a Workspace whose bridge addresses some refresh listed for
  the request's connection, only to an inference route, and with nothing but allow-listed headers of the
  client beside the key held for that very Workspace; no credential of the client passes.\<close>

theorem relay_forwards_only_own_key:
  assumes "relay_run opts inputs new_relay = (effs, rs)" "Forwarded n path hs \<in> set effs"
  shows "\<exists>req wid url i virtualKey.
    arrived (set inputs) n req \<and> rr_method req = ''POST'' \<and>
    rr_url req = Some url \<and> url \<in> set ALLOWED_RELAY_PATHS \<and> path = ro_base_path opts @ url \<and>
    connection_of (set inputs) (rr_socket req) wid \<and>
    i \<in> set inputs \<and> keys_get wid (given_keys i) = Some virtualKey \<and>
    map_of hs ''authorization'' = Some (''Bearer '' @ virtualKey) \<and>
    list_all (\<lambda>(k, v). k = ''authorization'' \<and> v = ''Bearer '' @ virtualKey \<or>
      k \<noteq> ''authorization'' \<and> relay_header k \<and> (\<exists>name. (name, Some (Text v)) \<in> set (rr_headers req))) hs"
proof -
  have "relay_known (set inputs) new_relay" by (simp add: relay_known_def new_relay_def)
  from relay_run_known [OF assms(1) subset_refl this] assms(2)
  have "forward_allowed opts (set inputs) n path hs" by (simp add: effects_allowed_def)
  then obtain req wid url i virtualKey where f: "arrived (set inputs) n req" "rr_method req = ''POST''"
    "rr_url req = Some url" "url \<in> set ALLOWED_RELAY_PATHS" "path = ro_base_path opts @ url"
    "connection_of (set inputs) (rr_socket req) wid" "i \<in> set inputs"
    "keys_get wid (given_keys i) = Some virtualKey" "hs = forwardedRequestHeaders (rr_headers req) virtualKey"
    unfolding forward_allowed_def by blast
  have "map_of hs ''authorization'' = Some (''Bearer '' @ virtualKey)"
    by (simp add: f(9) forwardedRequestHeaders_def)
  moreover have "list_all (\<lambda>(k, v). k = ''authorization'' \<and> v = ''Bearer '' @ virtualKey \<or>
      k \<noteq> ''authorization'' \<and> relay_header k \<and> (\<exists>name. (name, Some (Text v)) \<in> set (rr_headers req))) hs"
    unfolding list_all_iff f(9) using forwarded_header_cases by blast
  ultimately show ?thesis using f by blast
qed


section \<open>A run\<close>

definition demo_relay :: relay_options where
  "demo_relay = \<lparr>ro_port = 3101, ro_max_body = 10, ro_max_concurrent = 1, ro_refresh_interval = 1000,
     ro_base_path = ''''\<rparr>"

definition demo_relay_request :: relay_request where
  "demo_relay_request =
     \<lparr>rr_socket = 7, rr_local = Some ''::ffff:10.0.0.1'', rr_remote = Some ''10.0.0.2'', rr_method = ''POST'',
      rr_url = Some ''/v1/messages'',
      rr_headers = [(''Authorization'', Some (Text ''Bearer mine'')), (''Accept'', Some (Text ''*/*''))]\<rparr>"

definition demo_relay_inputs :: "relay_input list" where
  "demo_relay_inputs =
     (let keys = [(''a'', \<lparr>hk_alias = ''arw-a-1'', hk_secret = ''k''\<rparr>)] in
      [Request_Arrived 1 demo_relay_request 5000 keys,
       Refresh_Settled (Inr [\<lparr>ep_workspace = ''a'', ep_gateway = ''10.0.0.1'', ep_container = ''10.0.0.2''\<rparr>]) 5001 keys,
       Request_Arrived 2 demo_relay_request 5002 keys,
       Forward_Event 1 (Client_Data 11),
       Forward_Event 1 (Client_Closed True),
       Request_Arrived 3 demo_relay_request 5003 keys])"

definition demo_relay_effects :: "relay_effect list" where
  "demo_relay_effects =
     [Forwarded 1 ''/v1/messages'' [(''accept'', ''*/*''), (''authorization'', ''Bearer k'')],
      Answered 2 429 ''MODEL_RELAY_BUSY'', Request_Logged 2 ''a'' 429 0 0 Concurrency_Limited,
      Outgoing_Destroyed 1, Answered 1 413 ''MODEL_RELAY_BODY_TOO_LARGE'',
      Request_Logged 1 ''a'' 413 11 0 Body_Too_Large,
      Forwarded 3 ''/v1/messages'' [(''accept'', ''*/*''), (''authorization'', ''Bearer k'')]]"

lemma demo_relay_run: "fst (relay_run demo_relay demo_relay_inputs new_relay) = demo_relay_effects"
  by code_simp

theorem relay_forwards_only_own_key_witness:
  "\<exists>req. arrived (set demo_relay_inputs) 1 req \<and> connection_of (set demo_relay_inputs) (rr_socket req) ''a''"
proof -
  obtain rs where run: "relay_run demo_relay demo_relay_inputs new_relay = (demo_relay_effects, rs)"
    using demo_relay_run by (metis fst_conv surj_pair)
  have "Forwarded 1 ''/v1/messages'' [(''accept'', ''*/*''), (''authorization'', ''Bearer k'')]
      \<in> set demo_relay_effects"
    by (simp add: demo_relay_effects_def)
  from relay_forwards_only_own_key [OF run this] obtain req wid i virtualKey where
    "arrived (set demo_relay_inputs) 1 req" "connection_of (set demo_relay_inputs) (rr_socket req) wid"
    "i \<in> set demo_relay_inputs" "keys_get wid (given_keys i) = Some virtualKey"
    by blast
  moreover from this(3,4) have "wid = ''a''"
    by (auto simp: demo_relay_inputs_def Let_def keys_get_def split: if_splits)
  ultimately show ?thesis by blast
qed


end
