(* ===== verification/Usage.thy ===== *)
theory Usage
  imports Fleet WorkerChannel
begin

text \<open>
  \<open>apps/worker/src/usage\<close>: container and host samples and the count of out-of-memory events. A JavaScript
  number is the rational it denotes; rounding of quotients is left out. The four concurrent sampling
  workers are represented by the order in which the containers answered.
\<close>

section \<open>Container statistics\<close>

record container_stats =
  csx_cpu :: int
  csx_usage :: int
  csx_inactive :: int
  csx_limit :: int
  csx_pids :: int
  csx_pids_limit :: int
  csx_rx :: int
  csx_tx :: int

definition safe_count :: "int \<Rightarrow> int" where
  "safe_count n = (if 0 \<le> n \<and> n \<le> int MAX_SAFE_INTEGER then n else 0)"

definition usage_count :: "json \<Rightarrow> int" where
  "usage_count v =
     (case v of
        JNum n \<Rightarrow> safe_count n
      | JRat r \<Rightarrow> if of_int \<lfloor>r\<rfloor> = r then safe_count \<lfloor>r\<rfloor> else 0
      | _ \<Rightarrow> 0)"

definition is_number :: "json \<Rightarrow> bool" where
  "is_number v \<longleftrightarrow> (case v of JNum _ \<Rightarrow> True | JRat _ \<Rightarrow> True | _ \<Rightarrow> False)"

text \<open>\<open>Object.values(networks ?? {})\<close>; reading a property of a null entry throws.\<close>

definition network_entries :: "json \<Rightarrow> json list" where
  "network_entries v = (case v of JObj kvs \<Rightarrow> map snd kvs | JArr vs \<Rightarrow> vs | _ \<Rightarrow> [])"

definition or_undefined :: "json \<Rightarrow> json \<Rightarrow> json" where
  "or_undefined v w = (if v = JNull then w else v)"

definition parseDockerStats :: "json \<Rightarrow> thrown + container_stats option" where
  "parseDockerStats raw =
     (let cpu = field ''total_usage'' (field ''cpu_usage'' (field ''cpu_stats'' raw));
          memory = field ''memory_stats'' raw;
          memory_usage = field ''usage'' memory;
          stats = field ''stats'' memory;
          networks = network_entries (field ''networks'' raw)
      in if \<not> is_number cpu \<or> \<not> is_number memory_usage then Inr None
         else if JNull \<in> set networks then Inl Plain_Error
         else
           let inactive = usage_count (or_undefined (field ''inactive_file'' stats)
                 (field ''total_inactive_file'' stats));
               rx = sum_list (map (\<lambda>n. usage_count (field ''rx_bytes'' n)) networks);
               tx = sum_list (map (\<lambda>n. usage_count (field ''tx_bytes'' n)) networks)
           in Inr (Some
                \<lparr>csx_cpu = usage_count cpu, csx_usage = usage_count memory_usage,
                 csx_inactive = (if inactive < usage_count memory_usage then inactive else 0),
                 csx_limit = usage_count (field ''limit'' memory),
                 csx_pids = usage_count (field ''current'' (field ''pids_stats'' raw)),
                 csx_pids_limit = usage_count (field ''limit'' (field ''pids_stats'' raw)),
                 csx_rx = min rx (int MAX_SAFE_INTEGER), csx_tx = min tx (int MAX_SAFE_INTEGER)\<rparr>))"

definition containerStats ::
  "(string \<Rightarrow> 'n \<Rightarrow> (thrown + json) \<times> 'n) \<Rightarrow> string \<Rightarrow> ('n, container_stats) rt" where
  "containerStats stats cid =
     bind (or_engine_error (observe (stats cid))) (\<lambda>raw.
     bind (verdict (parseDockerStats raw)) (\<lambda>sample.
       case sample of
         None \<Rightarrow> raise (Runtime_Error Runtime_Engine_Error True)
       | Some s \<Rightarrow> pure s))"

section \<open>Sampling Workspaces\<close>

record cpu_reading =
  cpx_nanos :: int
  cpx_at :: int

record workspace_usage =
  wu_workspace :: string
  wu_sampled :: int
  wu_nanos :: int
  wu_cores :: "rat option"
  wu_limit_cores :: rat
  wu_memory :: int
  wu_memory_limit :: int
  wu_pids :: int
  wu_pids_limit :: int
  wu_rx :: int
  wu_tx :: int
  wu_oom :: nat

definition cpuCores :: "cpu_reading option \<Rightarrow> int \<Rightarrow> int \<Rightarrow> rat option" where
  "cpuCores previous nanos tm =
     (case previous of
        None \<Rightarrow> None
      | Some p \<Rightarrow>
          let elapsed = tm - cpx_at p; used = nanos - cpx_nanos p in
          if elapsed \<le> 0 \<or> used < 0 then None
          else Some (min 1024 (of_int used / 1000000000 / (of_int elapsed / 1000))))"

definition workspace_sample ::
  "rat \<Rightarrow> (string \<Rightarrow> nat) \<Rightarrow> (string \<times> cpu_reading) list \<Rightarrow> string \<Rightarrow> container_stats \<Rightarrow> int \<Rightarrow> workspace_usage" where
  "workspace_sample limit_cores oom previous wid s tm =
     \<lparr>wu_workspace = wid, wu_sampled = tm, wu_nanos = csx_cpu s,
      wu_cores = cpuCores (map_of previous wid) (csx_cpu s) tm, wu_limit_cores = limit_cores,
      wu_memory = csx_usage s - csx_inactive s, wu_memory_limit = csx_limit s, wu_pids = csx_pids s,
      wu_pids_limit = csx_pids_limit s, wu_rx = csx_rx s, wu_tx = csx_tx s, wu_oom = oom wid\<rparr>"

text \<open>
  \<open>answers\<close>: the containers that answered in time, in that order, with when; the others are left out. The
  first 10000 running containers are asked.
\<close>

definition sampled_containers :: "(string \<times> string) list \<Rightarrow> (string \<times> string) list" where
  "sampled_containers containers = take 10000 containers"

definition sample_round ::
  "rat \<Rightarrow> (string \<Rightarrow> nat) \<Rightarrow> (string \<times> cpu_reading) list \<Rightarrow> (string \<times> container_stats \<times> int) list
   \<Rightarrow> workspace_usage list \<times> (string \<times> cpu_reading) list" where
  "sample_round limit_cores oom previous answers =
     (map (\<lambda>(wid, s, tm). workspace_sample limit_cores oom previous wid s tm) answers,
      foldl (\<lambda>m (wid, s, tm). map_set wid \<lparr>cpx_nanos = csx_cpu s, cpx_at = tm\<rparr> m) [] answers)"

text \<open>The reporter keeps the latest round and does not overlap rounds.\<close>

record usage_reporter =
  ur_latest :: "workspace_usage list option"
  ur_sampling :: bool

definition usage_begin :: "usage_reporter \<Rightarrow> bool \<times> usage_reporter" where
  "usage_begin u = (if ur_sampling u then (False, u) else (True, u\<lparr>ur_sampling := True\<rparr>))"

definition usage_finish :: "thrown + workspace_usage list \<Rightarrow> usage_reporter \<Rightarrow> usage_reporter" where
  "usage_finish r u =
     (case r of Inl _ \<Rightarrow> u | Inr samples \<Rightarrow> u\<lparr>ur_latest := Some samples\<rparr>)\<lparr>ur_sampling := False\<rparr>"

section \<open>The host\<close>

record host_usage =
  hu_cpu :: "rat option"
  hu_total :: int
  hu_available :: int
  hu_load :: rat

record cpu_times =
  ct_busy :: int
  ct_total :: int

definition host_sample ::
  "cpu_times \<Rightarrow> rat \<times> rat \<Rightarrow> rat \<Rightarrow> cpu_times option \<Rightarrow> host_usage \<times> cpu_times option" where
  "host_sample cpu_now memory load previous =
     (let utilization = (case previous of
            None \<Rightarrow> None
          | Some p \<Rightarrow>
              let total = ct_total cpu_now - ct_total p; busy = ct_busy cpu_now - ct_busy p in
              if total > 0 \<and> busy \<ge> 0 then Some (min 1 (of_int busy / of_int total)) else None);
          memory_total = max 0 \<lfloor>fst memory\<rfloor>
      in (\<lparr>hu_cpu = utilization, hu_total = memory_total,
           hu_available = min memory_total (max 0 \<lfloor>snd memory\<rfloor>), hu_load = max 0 load\<rparr>,
          Some cpu_now))"

text \<open>\<open>readCpuTimes\<close>: user, nice, sys, irq and idle of each CPU.\<close>

definition readCpuTimes :: "(int \<times> int \<times> int \<times> int \<times> int) list \<Rightarrow> cpu_times" where
  "readCpuTimes cpus =
     \<lparr>ct_busy = sum_list (map (\<lambda>(user, nice, sys, irq, idle). user + nice + sys + irq) cpus),
      ct_total = sum_list (map (\<lambda>(user, nice, sys, irq, idle). user + nice + sys + irq + idle) cpus)\<rparr>"

section \<open>Out-of-memory events\<close>

record oom_counter =
  oc_counts :: "(string \<times> nat) list"
  oc_stream :: "nat option"
  oc_buffers :: "(nat \<times> string) list"
  oc_retry :: bool
  oc_backoff :: nat
  oc_stopped :: bool

datatype oom_effect = Subscribe | Retry_After nat | Stream_Destroyed nat

definition oom_count :: "oom_counter \<Rightarrow> string \<Rightarrow> nat" where
  "oom_count c wid = (case map_of (oc_counts c) wid of None \<Rightarrow> 0 | Some n \<Rightarrow> n)"

definition text_fields :: "json \<Rightarrow> labels option" where
  "text_fields v =
     (case v of
        JObj kvs \<Rightarrow> Some (List.map_filter (\<lambda>(k, x). case x of JStr s \<Rightarrow> Some (k, s) | _ \<Rightarrow> None) kvs)
      | JArr _ \<Rightarrow> Some []
      | _ \<Rightarrow> None)"

definition record_oom :: "runtime_config \<Rightarrow> json \<Rightarrow> oom_counter \<Rightarrow> oom_counter" where
  "record_oom cfg ev c =
     (if field ''Type'' ev \<noteq> JStr ''container'' \<or> field ''Action'' ev \<noteq> JStr ''oom'' then c
      else case text_fields (field ''Attributes'' (field ''Actor'' ev)) of
             None \<Rightarrow> c
           | Some labels \<Rightarrow>
               (case managedWorkspaceId cfg (Some labels) of
                  None \<Rightarrow> c
                | Some wid \<Rightarrow> c\<lparr>oc_counts := map_set wid (oom_count c wid + 1) (oc_counts c)\<rparr>))"

definition oom_schedule :: "nat \<Rightarrow> oom_counter \<Rightarrow> oom_effect list \<times> oom_counter" where
  "oom_schedule most c =
     (if oc_stopped c \<or> oc_retry c then ([], c)
      else ([Retry_After (oc_backoff c)],
            c\<lparr>oc_backoff := min most (oc_backoff c * 2), oc_retry := True\<rparr>))"

text \<open>The lines of a chunk, each decoded by \<open>JSON.parse\<close>; what cannot be decoded is skipped.\<close>

definition oom_data ::
  "runtime_config \<Rightarrow> (string \<Rightarrow> json option) \<Rightarrow> nat \<Rightarrow> nat \<Rightarrow> string \<Rightarrow> oom_counter \<Rightarrow> oom_counter" where
  "oom_data cfg decode initial n chunk c =
     (let parts = split_on (CHR 0x0A) ((case map_of (oc_buffers c) n of None \<Rightarrow> '''' | Some b \<Rightarrow> b) @ chunk);
          events = List.map_filter (\<lambda>line. if trim line = '''' then None else decode (trim line)) (butlast parts);
          remainder = last parts
      in (foldl (\<lambda>c ev. record_oom cfg ev c) c events)
           \<lparr>oc_backoff := initial,
            oc_buffers := map_set n (if length remainder > 1000000 then '''' else remainder) (oc_buffers c)\<rparr>)"

datatype oom_event =
    Oom_Start
  | Oom_Stop
  | Oom_Subscribed nat
  | Oom_Subscribe_Failed
  | Oom_Data nat string
  | Oom_Stream_Ended nat
  | Oom_Retry

definition oom_start :: "oom_counter \<Rightarrow> oom_effect list \<times> oom_counter" where
  "oom_start c = (if \<not> oc_stopped c then ([], c) else ([Subscribe], c\<lparr>oc_stopped := False\<rparr>))"

definition oom_stop :: "oom_counter \<Rightarrow> oom_effect list \<times> oom_counter" where
  "oom_stop c =
     ((case oc_stream c of None \<Rightarrow> [] | Some n \<Rightarrow> [Stream_Destroyed n]),
      c\<lparr>oc_stopped := True, oc_retry := False, oc_stream := None\<rparr>)"

definition oom_subscribed :: "nat \<Rightarrow> oom_counter \<Rightarrow> oom_effect list \<times> oom_counter" where
  "oom_subscribed n c =
     (if oc_stopped c then ([Stream_Destroyed n], c)
      else ([], c\<lparr>oc_stream := Some n, oc_buffers := map_set n '''' (oc_buffers c)\<rparr>))"

fun oom_step ::
  "runtime_config \<Rightarrow> (string \<Rightarrow> json option) \<Rightarrow> nat \<Rightarrow> nat \<Rightarrow> oom_event \<Rightarrow> oom_counter
   \<Rightarrow> oom_effect list \<times> oom_counter" where
  "oom_step cfg decode initial most Oom_Start c = oom_start c"
| "oom_step cfg decode initial most Oom_Stop c = oom_stop c"
| "oom_step cfg decode initial most (Oom_Subscribed n) c = oom_subscribed n c"
| "oom_step cfg decode initial most Oom_Subscribe_Failed c = oom_schedule most c"
| "oom_step cfg decode initial most (Oom_Data n chunk) c = ([], oom_data cfg decode initial n chunk c)"
| "oom_step cfg decode initial most (Oom_Stream_Ended n) c =
     (if oc_stream c \<noteq> Some n then ([], c) else oom_schedule most (c\<lparr>oc_stream := None\<rparr>))"
| "oom_step cfg decode initial most Oom_Retry c =
     (if \<not> oc_retry c then ([], c)
      else (if oc_stopped c then [] else [Subscribe], c\<lparr>oc_retry := False\<rparr>))"

section \<open>The Control Plane's registry\<close>

text \<open>\<open>apps/control-plane/src/metrics/usage-registry.ts\<close>: the latest usage each Worker reported, in memory.\<close>

record 'r usage_entry =
  ue_worker :: string
  ue_received :: int
  ue_host :: host_usage
  ue_relay :: "'r option"
  ue_workspaces :: "workspace_usage list"

definition MAX_FUTURE_SKEW_MS :: int where "MAX_FUTURE_SKEW_MS = 60000"

definition sample_accepted :: "string list \<Rightarrow> int \<Rightarrow> workspace_usage \<Rightarrow> bool" where
  "sample_accepted assigned received u \<longleftrightarrow>
     wu_workspace u \<in> set assigned \<and> wu_sampled u \<le> received + MAX_FUTURE_SKEW_MS"

definition registry_record ::
  "'r usage_entry \<Rightarrow> string list \<Rightarrow> (string \<times> 'r usage_entry) list
   \<Rightarrow> nat \<times> (string \<times> 'r usage_entry) list" where
  "registry_record input assigned entries =
     (let accepted = filter (sample_accepted assigned (ue_received input)) (ue_workspaces input) in
      (length (ue_workspaces input) - length accepted,
       map_set (ue_worker input) (input\<lparr>ue_workspaces := accepted\<rparr>) entries))"

definition registry_forget :: "string \<Rightarrow> (string \<times> 'r usage_entry) list \<Rightarrow> (string \<times> 'r usage_entry) list" where
  "registry_forget workerId entries = map_delete workerId entries"

definition fresh_at :: "int \<Rightarrow> int \<Rightarrow> int \<Rightarrow> bool" where
  "fresh_at stale now time \<longleftrightarrow> now - time \<le> stale"

definition registry_entries ::
  "int \<Rightarrow> (string \<Rightarrow> bool) \<Rightarrow> (string \<Rightarrow> string \<Rightarrow> int) \<Rightarrow> int \<Rightarrow> (string \<times> 'r usage_entry) list
   \<Rightarrow> 'r usage_entry list" where
  "registry_entries stale online localeCompare now entries =
     js_sort (\<lambda>a b. localeCompare (ue_worker a) (ue_worker b))
       (map (\<lambda>(_, en). en\<lparr>ue_workspaces := filter (\<lambda>u. fresh_at stale now (wu_sampled u)) (ue_workspaces en)\<rparr>)
         (filter (\<lambda>(_, en). online (ue_worker en) \<and> fresh_at stale now (ue_received en)) entries))"

definition registry_workspace ::
  "'r usage_entry list \<Rightarrow> string \<Rightarrow> string option \<Rightarrow> workspace_usage option" where
  "registry_workspace entries workspaceId workerId =
     (case workerId of
        None \<Rightarrow> None
      | Some k \<Rightarrow>
          (case find (\<lambda>en. ue_worker en = k) entries of
             None \<Rightarrow> None
           | Some en \<Rightarrow> find (\<lambda>u. wu_workspace u = workspaceId) (ue_workspaces en)))"

record worker_usage_view =
  wv_host :: host_usage
  wv_cores :: rat
  wv_memory :: int
  wv_running :: nat
  wv_sampled :: int

definition registry_worker :: "'r usage_entry list \<Rightarrow> string \<Rightarrow> worker_usage_view option" where
  "registry_worker entries workerId =
     map_option (\<lambda>en.
       \<lparr>wv_host = ue_host en,
        wv_cores = sum_list (map (\<lambda>u. case wu_cores u of None \<Rightarrow> 0 | Some c \<Rightarrow> c) (ue_workspaces en)),
        wv_memory = sum_list (map wu_memory (ue_workspaces en)),
        wv_running = length (ue_workspaces en), wv_sampled = ue_received en\<rparr>)
       (find (\<lambda>en. ue_worker en = workerId) entries)"

section \<open>What is shown is fresh and owned\<close>

lemma shown_entry_fresh:
  assumes "en \<in> set (registry_entries stale online cmp now entries)"
  shows "online (ue_worker en)" "now - ue_received en \<le> stale"
    "\<And>u. u \<in> set (ue_workspaces en) \<Longrightarrow> now - wu_sampled u \<le> stale"
  using assms by (auto simp: registry_entries_def fresh_at_def)

lemma recorded_samples_assigned:
  assumes "registry_record input assigned entries = (ignored, entries')"
    "map_of entries' (ue_worker input) = Some en" "u \<in> set (ue_workspaces en)"
  shows "wu_workspace u \<in> set assigned" "u \<in> set (ue_workspaces input)"
    "ignored + length (ue_workspaces en) = length (ue_workspaces input)"
  using assms by (auto simp: registry_record_def Let_def sample_accepted_def)

text \<open>The share of the host's processors lies between 0 and 1, the available memory within the total.\<close>

lemma host_sample_bounds:
  assumes "host_sample cpu_now memory load previous = (h, next_times)"
  shows "\<forall>c. hu_cpu h = Some c \<longrightarrow> 0 \<le> c \<and> c \<le> 1" "0 \<le> hu_available h" "hu_available h \<le> hu_total h"
    "0 \<le> hu_load h"
  using assms by (auto simp: host_sample_def Let_def divide_simps split: option.splits if_splits)

lemma cpuCores_bounds: "cpuCores previous nanos tm = Some c \<Longrightarrow> 0 \<le> c \<and> c \<le> 1024"
  by (auto simp: cpuCores_def Let_def divide_simps split: option.splits if_splits)

end
