(* ===== verification/Daemon.thy ===== *)
theory Daemon
  imports ModelRelay RuntimeLaws Usage
begin

text \<open>
  \<open>apps/worker/src/daemon.ts\<close> and \<open>model-relay/access.ts\<close>: the process that executes the Control Plane's
  commands one after the other. Its world is the outside world of the Runtime together with the keys it
  holds and the endpoint refreshes it asked the relay for. Answers are values; a command never throws.
\<close>

section \<open>The daemon's world\<close>

record 'n daemon_world =
  dw_outside :: 'n
  dw_keys :: held_keys
  dw_refreshes :: "(thrown + relay_endpoint list) list"

type_synonym ('n, 'x, 'a) dm = "('n daemon_world, runtime_event, 'x, 'a) act"

text \<open>An action of the Runtime, and one of the key store, whose own trace is not kept.\<close>

definition on_outside :: "('n, 'a) rt \<Rightarrow> ('n, thrown, 'a) dm" where
  "on_outside m s =
     (case m \<lparr>world = dw_outside (world s), trace = trace s\<rparr> of
        (r, t) \<Rightarrow> (r, \<lparr>world = (world s)\<lparr>dw_outside := world t\<rparr>, trace = trace t\<rparr>))"

definition embedded :: "('n, 'e, 'x, 'a) act \<Rightarrow> ('n, 'f, 'x, 'a) act" where
  "embedded m = observe (\<lambda>n. case m \<lparr>world = n, trace = []\<rparr> of (r, t) \<Rightarrow> (r, world t))"

section \<open>Model access\<close>

datatype access_code = Model_Relay_Disabled | Model_Key_Store_Failed

datatype failure =
    Thrown thrown
  | Access_Error access_code bool
  | Egress_Apply_Error

text \<open>\<open>de_relay_port\<close> is \<open>None\<close> on a Worker without the relay (\<open>DISABLED_MODEL_ACCESS\<close>).\<close>

record 'n daemon_env =
  de_runtime :: "'n runtime_env"
  de_config :: runtime_config
  de_files :: "'n pi_env"
  de_rm :: "string \<Rightarrow> 'n \<Rightarrow> (thrown + unit) \<times> 'n"
  de_relay_port :: "nat option"
  de_compare :: "string \<Rightarrow> string \<Rightarrow> int"
  de_egress_apply :: "egress_policy \<Rightarrow> 'n \<Rightarrow> (failure + worker_egress_status) \<times> 'n"
  de_egress_ensure :: "'n \<Rightarrow> (failure + worker_egress_status) \<times> 'n"
  de_storage_check :: "'n \<Rightarrow> (failure + bool) \<times> 'n"

definition lifted :: "('n, thrown, 'a) dm \<Rightarrow> ('n, failure, 'a) dm" where
  "lifted m = try_catch m (\<lambda>x. raise (Thrown x))"

definition get_keys :: "('n, 'x, held_keys) dm" where
  "get_keys = observe (\<lambda>w. (Inr (dw_keys w), w))"

definition put_keys :: "held_keys \<Rightarrow> ('n, 'x, unit) dm" where
  "put_keys keys = observe (\<lambda>w. (Inr (), w\<lparr>dw_keys := keys\<rparr>))"

definition modelKeyDirectory :: "'n runtime_env \<Rightarrow> runtime_config \<Rightarrow> string \<Rightarrow> ('n, string) rt" where
  "modelKeyDirectory e cfg wid = bind (requireWorkspacePaths e cfg wid) (\<lambda>p. pure (wp_metadata (mw_paths p)))"

definition setKey :: "'n daemon_env \<Rightarrow> string \<Rightarrow> string \<Rightarrow> string \<Rightarrow> ('n, failure, unit) dm" where
  "setKey d wid keyAlias secret =
     (if de_relay_port d = None then raise (Access_Error Model_Relay_Disabled False)
      else bind (lifted (on_outside (modelKeyDirectory (de_runtime d) (de_config d) wid))) (\<lambda>directory.
        bind get_keys (\<lambda>keys.
        bind (try_catch (on_outside (embedded (keys_set (de_files d) wid directory keyAlias secret keys)))
            (\<lambda>_. raise (Access_Error Model_Key_Store_Failed True))) put_keys)))"

definition clearKey :: "'n daemon_env \<Rightarrow> string \<Rightarrow> string \<Rightarrow> ('n, failure, string option) dm" where
  "clearKey d wid keyAlias =
     (if de_relay_port d = None then pure None
      else bind (lifted (try_catch
            (bind (on_outside (modelKeyDirectory (de_runtime d) (de_config d) wid)) (\<lambda>path. pure (Some path)))
            (\<lambda>_. pure None))) (\<lambda>directory.
        bind get_keys (\<lambda>keys.
        bind (lifted (on_outside (embedded (keys_clear (de_files d) (de_rm d) wid directory keyAlias keys))))
          (\<lambda>(r, keys'). andThen (put_keys keys')
             (case r of Inl x \<Rightarrow> raise (Thrown x) | Inr held \<Rightarrow> pure held)))))"

definition forgetKey :: "'n daemon_env \<Rightarrow> string \<Rightarrow> ('n, failure, unit) dm" where
  "forgetKey d wid =
     (if de_relay_port d = None then pure () else bind get_keys (\<lambda>keys. put_keys (keys_forget wid keys)))"

text \<open>\<open>refresh()\<close> never throws: what the Runtime answered goes to the relay.\<close>

definition refreshEndpoints :: "'n daemon_env \<Rightarrow> ('n, failure, unit) dm" where
  "refreshEndpoints d =
     (if de_relay_port d = None then pure ()
      else bind (lifted (try_catch
          (bind (on_outside (relayEndpoints (de_runtime d) (de_config d))) (\<lambda>ps. pure (Inr ps)))
          (\<lambda>x. pure (Inl x))))
        (\<lambda>r. observe (\<lambda>w. (Inr (), w\<lparr>dw_refreshes := dw_refreshes w @ [r]\<rparr>))))"

definition held_aliases :: "'n daemon_env \<Rightarrow> ('n, failure, (string \<times> string) list) dm" where
  "held_aliases d =
     (if de_relay_port d = None then pure []
      else bind get_keys (\<lambda>keys. pure (holdings (de_compare d) keys)))"

section \<open>Messages\<close>

datatype control_command =
    Reconcile "worker_assignment list"
  | Egress_Apply egress_policy
  | Workspace_Ensure string string workspace_resources nat "model_gateway_config option"
  | Workspace_Start string
  | Workspace_Stop string
  | Workspace_Delete string
  | Workspace_Inspect string
  | Storage_Set string nat
  | Model_Key_Set string string string
  | Model_Key_Clear string string
  | Runtime_Set string string string

datatype command_answer =
    Ans_Workspace observation "model_config_result option"
  | Ans_Reconciled "workspace_report list" "recovery_issue list" "(string \<times> string) list"
  | Ans_Storage string nat int
  | Ans_Model_Key string "string option"
  | Ans_Egress worker_egress_status
  | Ans_Error string bool

text \<open>The schema of a command, beyond the types of its parts.\<close>

definition runtimeImageRef :: "string \<Rightarrow> bool" where
  "runtimeImageRef s \<longleftrightarrow>
     (case s of
        [] \<Rightarrow> False
      | c # rest \<Rightarrow> length s \<le> 255 \<and> (is_lower c \<or> is_digit c) \<and>
          list_all (\<lambda>x. is_lower x \<or> is_upper x \<or> is_digit x \<or> x \<in> set ''._/:-'') rest)"

definition diskLimitBytes :: "nat \<Rightarrow> bool" where
  "diskLimitBytes n \<longleftrightarrow> 1024 ^ 3 \<le> n \<and> n \<le> 2 ^ 50"

definition short_text :: "string \<Rightarrow> bool" where
  "short_text s \<longleftrightarrow> 1 \<le> length s \<and> length s \<le> 255"

definition resources_valid :: "workspace_resources \<Rightarrow> bool" where
  "resources_valid r \<longleftrightarrow> 0 < res_cpu r \<and> res_cpu r \<le> 256 \<and> 0 < res_memory r \<and> 0 < res_pids r"

fun command_valid :: "(string \<Rightarrow> bool) \<Rightarrow> (egress_policy \<Rightarrow> bool) \<Rightarrow> control_command \<Rightarrow> bool" where
  "command_valid uuid policy (Reconcile assignments) =
     (length assignments \<le> 10000 \<and> distinct (map wa_workspace assignments) \<and>
      list_all (\<lambda>a. uuid (wa_workspace a) \<and> short_text (wa_image a) \<and> diskLimitBytes (wa_limit a)) assignments)"
| "command_valid uuid policy (Egress_Apply p) = policy p"
| "command_valid uuid policy (Workspace_Ensure wid runtimeImage resources limit gateway) =
     (uuid wid \<and> short_text runtimeImage \<and> resources_valid resources \<and> diskLimitBytes limit)"
| "command_valid uuid policy (Workspace_Start wid) = uuid wid"
| "command_valid uuid policy (Workspace_Stop wid) = uuid wid"
| "command_valid uuid policy (Workspace_Delete wid) = uuid wid"
| "command_valid uuid policy (Workspace_Inspect wid) = uuid wid"
| "command_valid uuid policy (Storage_Set wid limit) = (uuid wid \<and> diskLimitBytes limit)"
| "command_valid uuid policy (Model_Key_Set wid keyAlias secret) =
     (uuid wid \<and> modelKeyAlias keyAlias \<and> modelKeySecret secret \<and> modelKeyAliasWorkspaceId keyAlias = wid)"
| "command_valid uuid policy (Model_Key_Clear wid keyAlias) =
     (uuid wid \<and> modelKeyAlias keyAlias \<and> modelKeyAliasWorkspaceId keyAlias = wid)"
| "command_valid uuid policy (Runtime_Set wid fromImage toImage) =
     (uuid wid \<and> runtimeImageRef fromImage \<and> runtimeImageRef toImage \<and> fromImage \<noteq> toImage)"

section \<open>Executing a command\<close>

definition runtime_code_text :: "runtime_code \<Rightarrow> string" where
  "runtime_code_text code =
     (case code of
        Workspace_Not_Managed \<Rightarrow> ''WORKSPACE_NOT_MANAGED''
      | Workspace_Metadata_Mismatch \<Rightarrow> ''WORKSPACE_METADATA_MISMATCH''
      | Unmanaged_Container_Conflict \<Rightarrow> ''UNMANAGED_CONTAINER_CONFLICT''
      | Unmanaged_Network_Conflict \<Rightarrow> ''UNMANAGED_NETWORK_CONFLICT''
      | Runtime_Configuration_Mismatch \<Rightarrow> ''RUNTIME_CONFIGURATION_MISMATCH''
      | Runtime_Start_Failed \<Rightarrow> ''RUNTIME_START_FAILED''
      | Runtime_Not_Ready \<Rightarrow> ''RUNTIME_NOT_READY''
      | Runtime_Engine_Error \<Rightarrow> ''RUNTIME_ENGINE_ERROR''
      | Egress_Unenforced \<Rightarrow> ''EGRESS_UNENFORCED''
      | Egress_Network_Legacy \<Rightarrow> ''EGRESS_NETWORK_LEGACY''
      | Disk_Quota_Unenforced \<Rightarrow> ''STORAGE_QUOTA_UNENFORCED''
      | Disk_Quota_Apply_Failed \<Rightarrow> ''STORAGE_QUOTA_APPLY_FAILED''
      | Storage_Migration_Required \<Rightarrow> ''STORAGE_MIGRATION_REQUIRED''
      | Runtime_Image_Unavailable \<Rightarrow> ''RUNTIME_IMAGE_UNAVAILABLE''
      | Workspace_Running \<Rightarrow> ''WORKSPACE_RUNNING'')"

definition access_code_text :: "access_code \<Rightarrow> string" where
  "access_code_text code =
     (case code of Model_Relay_Disabled \<Rightarrow> ''MODEL_RELAY_DISABLED''
                 | Model_Key_Store_Failed \<Rightarrow> ''MODEL_KEY_STORE_FAILED'')"

definition failure_answer :: "failure \<Rightarrow> command_answer" where
  "failure_answer x =
     (case x of
        Thrown (Runtime_Error code retryable) \<Rightarrow> Ans_Error (runtime_code_text code) retryable
      | Access_Error code retryable \<Rightarrow> Ans_Error (access_code_text code) retryable
      | Egress_Apply_Error \<Rightarrow> Ans_Error ''EGRESS_APPLY_FAILED'' True
      | _ \<Rightarrow> Ans_Error ''RUNTIME_ENGINE_ERROR'' True)"

definition of_runtime :: "('n, 'a) rt \<Rightarrow> ('n, failure, 'a) dm" where
  "of_runtime m = lifted (on_outside m)"

text \<open>A failure to write the provider never fails the command.\<close>

definition configure_provider ::
  "'n daemon_env \<Rightarrow> string \<Rightarrow> model_gateway_config option \<Rightarrow> ('n, failure, model_config_result) dm" where
  "configure_provider d wid config =
     try_catch
       (of_runtime (configureModelProvider (\<lambda>target. embedded (writePlatformProvider (de_files d) target))
          (de_runtime d) (de_config d) wid config (de_relay_port d)))
       (\<lambda>_. pure Write_Failed)"

fun execute_command :: "nat \<Rightarrow> 'n daemon_env \<Rightarrow> control_command \<Rightarrow> ('n, failure, command_answer) dm" where
  "execute_command fuel d (Reconcile assignments) =
     bind (of_runtime (runtime_reconcile fuel (de_runtime d) (de_config d) assignments)) (\<lambda>(reports, issues).
     andThen (refreshEndpoints d)
     (bind (held_aliases d) (\<lambda>held. pure (Ans_Reconciled reports issues held))))"
| "execute_command fuel d (Model_Key_Set wid keyAlias secret) =
     andThen (setKey d wid keyAlias secret) (pure (Ans_Model_Key wid (Some keyAlias)))"
| "execute_command fuel d (Model_Key_Clear wid keyAlias) =
     bind (clearKey d wid keyAlias) (\<lambda>held. pure (Ans_Model_Key wid held))"
| "execute_command fuel d (Egress_Apply policy) =
     bind (observe (\<lambda>w. case de_egress_apply d policy (dw_outside w) of (r, n) \<Rightarrow> (r, w\<lparr>dw_outside := n\<rparr>)))
       (\<lambda>status. pure (Ans_Egress status))"
| "execute_command fuel d (Storage_Set wid limit) =
     bind (of_runtime (runtime_setDiskLimit (de_runtime d) (de_config d) wid limit))
       (\<lambda>(data_limit, used). pure (Ans_Storage wid data_limit used))"
| "execute_command fuel d (Workspace_Ensure wid runtimeImage resources limit gateway) =
     bind (of_runtime (runtime_ensure (de_runtime d) (de_config d) wid runtimeImage resources limit)) (\<lambda>ob.
     bind (configure_provider d wid gateway) (\<lambda>r. pure (Ans_Workspace ob (Some r))))"
| "execute_command fuel d (Workspace_Start wid) =
     bind (of_runtime (runtime_start fuel (de_runtime d) (de_config d) wid)) (\<lambda>ob.
     andThen (refreshEndpoints d) (pure (Ans_Workspace ob None)))"
| "execute_command fuel d (Workspace_Stop wid) =
     bind (of_runtime (runtime_stop (de_runtime d) (de_config d) wid)) (\<lambda>ob.
     andThen (refreshEndpoints d) (pure (Ans_Workspace ob None)))"
| "execute_command fuel d (Workspace_Delete wid) =
     bind (of_runtime (runtime_delete (de_runtime d) (de_config d) wid)) (\<lambda>ob.
     andThen (forgetKey d wid) (andThen (refreshEndpoints d) (pure (Ans_Workspace ob None))))"
| "execute_command fuel d (Workspace_Inspect wid) =
     bind (of_runtime (runtime_inspect (de_runtime d) (de_config d) wid)) (\<lambda>ob. pure (Ans_Workspace ob None))"
| "execute_command fuel d (Runtime_Set wid fromImage toImage) =
     bind (of_runtime (runtime_set (de_runtime d) (de_config d) wid fromImage toImage))
       (\<lambda>ob. pure (Ans_Workspace ob None))"

text \<open>\<open>#handleCommand\<close>: the answer carries the request's number back to the Control Plane.\<close>

definition handle_command ::
  "nat \<Rightarrow> 'n daemon_env \<Rightarrow> string \<Rightarrow> control_command \<Rightarrow> ('n, failure, string \<times> command_answer) dm" where
  "handle_command fuel d requestId command =
     bind (try_catch (execute_command fuel d command) (\<lambda>x. pure (failure_answer x)))
       (\<lambda>answer. pure (requestId, answer))"

text \<open>The queue runs the commands one after the other.\<close>

definition command_queue ::
  "nat \<Rightarrow> 'n daemon_env \<Rightarrow> (string \<times> control_command) list \<Rightarrow> ('n, failure, (string \<times> command_answer) list) dm" where
  "command_queue fuel d commands =
     for_each (\<lambda>(requestId, command). handle_command fuel d requestId command) commands"

section \<open>Checking the gates\<close>

definition stop_running :: "'n daemon_env \<Rightarrow> ('n, failure, unit) dm" where
  "stop_running d =
     try_catch (bind (of_runtime (stopRunningWorkspaces (de_runtime d) (de_config d))) (\<lambda>_. pure ()))
       (\<lambda>_. pure ())"

definition checkEgress :: "'n daemon_env \<Rightarrow> ('n, failure, worker_egress_status) dm" where
  "checkEgress d =
     bind (observe (\<lambda>w. case de_egress_ensure d (dw_outside w) of (r, n) \<Rightarrow> (r, w\<lparr>dw_outside := n\<rparr>))) (\<lambda>status.
     andThen (if egs_enforced status then pure () else stop_running d) (pure status))"

definition checkStorage :: "'n daemon_env \<Rightarrow> ('n, failure, bool) dm" where
  "checkStorage d =
     bind (observe (\<lambda>w. case de_storage_check d (dw_outside w) of (r, n) \<Rightarrow> (r, w\<lparr>dw_outside := n\<rparr>))) (\<lambda>enforced.
     andThen (if enforced then pure () else stop_running d) (pure enforced))"

section \<open>The control connection\<close>

text \<open>
  Sockets are numbered as they are opened. An event is what a timer, a socket or the caller does; the
  effects are what follows. Whether a socket is open is part of the event that asks for it.
\<close>

record daemon_limits =
  dl_reconnect_initial :: nat
  dl_reconnect_max :: nat

record connection =
  cx_socket :: "nat option"
  cx_opened :: nat
  cx_heartbeat :: bool
  cx_checks :: bool
  cx_reconnect :: bool
  cx_delay :: nat
  cx_stopping :: bool
  cx_disk :: "disk_usage list option"
  cx_queue :: "control_command list"

datatype connection_effect =
    Open_Socket nat
  | Begin_Reporting nat
  | Close_Control nat nat
  | Reconnect_After nat
  | Send_Hello nat
  | Send_Heartbeat nat "disk_usage list option"

datatype control_frame = Binary_Frame | Not_Json | Not_A_Command | Command_Frame control_command

datatype connection_event =
    Start_Called
  | Stop_Called
  | Opened nat
  | Frame_Received nat control_frame
  | Control_Closed nat
  | Reconnect_Timer
  | Disk_Sampled "disk_usage list"
  | Hello_Ready nat bool
  | Hello_Failed nat
  | Heartbeat_Ready nat bool
  | Heartbeat_Failed nat

definition new_connection :: "daemon_limits \<Rightarrow> connection" where
  "new_connection limits =
     \<lparr>cx_socket = None, cx_opened = 0, cx_heartbeat = False, cx_checks = False, cx_reconnect = False,
      cx_delay = dl_reconnect_initial limits, cx_stopping = False, cx_disk = None, cx_queue = []\<rparr>"

definition connect :: "connection \<Rightarrow> connection_effect list \<times> connection" where
  "connect c = ([Open_Socket (cx_opened c)], c\<lparr>cx_socket := Some (cx_opened c), cx_opened := cx_opened c + 1\<rparr>)"

definition schedule_reconnect :: "daemon_limits \<Rightarrow> connection \<Rightarrow> connection_effect list \<times> connection" where
  "schedule_reconnect limits c =
     (if cx_reconnect c then ([], c)
      else ([Reconnect_After (cx_delay c)],
            c\<lparr>cx_delay := min (cx_delay c * 2) (dl_reconnect_max limits), cx_reconnect := True\<rparr>))"

definition connection_start :: "connection \<Rightarrow> connection_effect list \<times> connection" where
  "connection_start c =
     (if cx_socket c \<noteq> None \<or> cx_reconnect c then ([], c)
      else connect (c\<lparr>cx_stopping := False, cx_checks := True\<rparr>))"

definition connection_stop :: "connection \<Rightarrow> connection_effect list \<times> connection" where
  "connection_stop c =
     ((case cx_socket c of None \<Rightarrow> [] | Some n \<Rightarrow> [Close_Control n 1000]),
      c\<lparr>cx_stopping := True, cx_heartbeat := False, cx_checks := False, cx_reconnect := False,
        cx_socket := None\<rparr>)"

definition connection_frame :: "nat \<Rightarrow> control_frame \<Rightarrow> connection \<Rightarrow> connection_effect list \<times> connection" where
  "connection_frame n frame c =
     (case frame of
        Command_Frame command \<Rightarrow> ([], c\<lparr>cx_queue := cx_queue c @ [command]\<rparr>)
      | _ \<Rightarrow> ([Close_Control n 1008], c))"

definition connection_closed :: "daemon_limits \<Rightarrow> nat \<Rightarrow> connection \<Rightarrow> connection_effect list \<times> connection" where
  "connection_closed limits n c =
     (let c1 = c\<lparr>cx_heartbeat := False, cx_socket := (if cx_socket c = Some n then None else cx_socket c)\<rparr> in
      if cx_stopping c then ([], c1) else schedule_reconnect limits c1)"

text \<open>After the awaits of \<open>#beginReporting\<close> and \<open>#sendHeartbeat\<close>: only on the current, open socket.\<close>

definition hello_ready :: "nat \<Rightarrow> bool \<Rightarrow> connection \<Rightarrow> connection_effect list \<times> connection" where
  "hello_ready n is_open c =
     (if cx_socket c \<noteq> Some n \<or> \<not> is_open then ([], c) else ([Send_Hello n], c\<lparr>cx_heartbeat := True\<rparr>))"

definition heartbeat_ready :: "nat \<Rightarrow> bool \<Rightarrow> connection \<Rightarrow> connection_effect list \<times> connection" where
  "heartbeat_ready n is_open c =
     (if cx_socket c \<noteq> Some n \<or> \<not> is_open then ([], c)
      else ([Send_Heartbeat n (cx_disk c)], c\<lparr>cx_disk := None\<rparr>))"

fun connection_step ::
  "daemon_limits \<Rightarrow> connection_event \<Rightarrow> connection \<Rightarrow> connection_effect list \<times> connection" where
  "connection_step limits Start_Called c = connection_start c"
| "connection_step limits Stop_Called c = connection_stop c"
| "connection_step limits (Opened n) c = ([Begin_Reporting n], c\<lparr>cx_delay := dl_reconnect_initial limits\<rparr>)"
| "connection_step limits (Frame_Received n frame) c = connection_frame n frame c"
| "connection_step limits (Control_Closed n) c = connection_closed limits n c"
| "connection_step limits Reconnect_Timer c =
     (if cx_reconnect c then connect (c\<lparr>cx_reconnect := False\<rparr>) else ([], c))"
| "connection_step limits (Disk_Sampled samples) c = ([], c\<lparr>cx_disk := Some samples\<rparr>)"
| "connection_step limits (Hello_Ready n is_open) c = hello_ready n is_open c"
| "connection_step limits (Hello_Failed n) c = ([Close_Control n 1011], c)"
| "connection_step limits (Heartbeat_Ready n is_open) c = heartbeat_ready n is_open c"
| "connection_step limits (Heartbeat_Failed n) c = ([Close_Control n 1011], c)"

lemmas connection_defs = connect_def schedule_reconnect_def connection_start_def connection_stop_def
  connection_frame_def connection_closed_def hello_ready_def heartbeat_ready_def Let_def

text \<open>What a hello and a heartbeat say.\<close>

definition currentArchitecture :: "string \<Rightarrow> architecture option" where
  "currentArchitecture name =
     (if name = ''x64'' then Some Amd64 else if name = ''arm64'' then Some Arm64 else None)"

record hello_payload =
  wh_worker :: string
  wh_version :: string
  wh_hostname :: string
  wh_arch :: architecture
  wh_images :: "runtime_image list"
  wh_max :: nat
  wh_allocated :: nat
  wh_cpus :: nat
  wh_memory :: int
  wh_egress :: worker_egress_status
  wh_storage :: worker_storage_status
  wh_relay :: model_relay_status

definition buildWorkerHello ::
  "runtime_config \<Rightarrow> string \<Rightarrow> nat \<Rightarrow> string \<times> architecture \<times> nat \<times> int \<Rightarrow> runtime_image list
   \<Rightarrow> worker_egress_status \<Rightarrow> worker_storage_status \<Rightarrow> nat \<Rightarrow> model_relay_status \<Rightarrow> hello_payload" where
  "buildWorkerHello cfg version most system images egress storage allocated relay =
     (case system of (hostname, arch, cpus, memory) \<Rightarrow>
       \<lparr>wh_worker = rc_worker cfg, wh_version = version, wh_hostname = hostname, wh_arch = arch,
        wh_images = images, wh_max = most, wh_allocated = allocated, wh_cpus = cpus, wh_memory = memory,
        wh_egress = egress, wh_storage = storage, wh_relay = relay\<rparr>)"

record heartbeat_payload =
  wb_worker :: string
  wb_allocated :: nat
  wb_egress :: worker_egress_status
  wb_storage :: worker_storage_status
  wb_relay :: model_relay_status
  wb_disk :: "disk_usage list option"
  wb_host :: host_usage
  wb_usage :: "workspace_usage list option"
  wb_observed :: instant

definition buildWorkerHeartbeat ::
  "string \<Rightarrow> instant \<Rightarrow> worker_egress_status \<Rightarrow> worker_storage_status \<Rightarrow> host_usage \<Rightarrow> nat
   \<Rightarrow> disk_usage list option \<Rightarrow> model_relay_status \<Rightarrow> workspace_usage list option \<Rightarrow> heartbeat_payload" where
  "buildWorkerHeartbeat workerId observed egress storage host allocated disk relay usage =
     \<lparr>wb_worker = workerId, wb_allocated = allocated, wb_egress = egress, wb_storage = storage,
      wb_relay = relay, wb_disk = disk, wb_host = host, wb_usage = usage, wb_observed = observed\<rparr>"

text \<open>The schema of a hello and of a heartbeat; the parts have theirs.\<close>

definition hello_valid :: "(runtime_image \<Rightarrow> bool) \<Rightarrow> hello_payload \<Rightarrow> bool" where
  "hello_valid report_valid h \<longleftrightarrow>
     short_text (wh_hostname h) \<and>
     1 \<le> length (wh_images h) \<and> length (wh_images h) \<le> 4 \<and> list_all report_valid (wh_images h) \<and>
     distinct (map rti_image (wh_images h)) \<and> distinct (map rti_version (wh_images h)) \<and>
     0 < wh_max h \<and> wh_max h \<le> 10000 \<and> wh_allocated h \<le> 10000 \<and> wh_allocated h \<le> wh_max h \<and>
     0 < wh_cpus h \<and> wh_cpus h \<le> 4096 \<and> 0 < wh_memory h \<and> wh_memory h \<le> int MAX_SAFE_INTEGER"

definition heartbeat_valid :: "heartbeat_payload \<Rightarrow> bool" where
  "heartbeat_valid h \<longleftrightarrow>
     wb_allocated h \<le> 10000 \<and>
     (case wb_disk h of None \<Rightarrow> True | Some ds \<Rightarrow> length ds \<le> 10000) \<and>
     (case wb_usage h of None \<Rightarrow> True | Some us \<Rightarrow> length us \<le> 10000)"

section \<open>The reconnection delay\<close>

lemma connection_delay:
  assumes "connection_step limits ev c = (effs, c')" "dl_reconnect_initial limits \<le> dl_reconnect_max limits"
    "dl_reconnect_initial limits \<le> cx_delay c" "cx_delay c \<le> dl_reconnect_max limits"
  shows "dl_reconnect_initial limits \<le> cx_delay c' \<and> cx_delay c' \<le> dl_reconnect_max limits \<and>
    (\<forall>delay. Reconnect_After delay \<in> set effs \<longrightarrow> delay \<le> dl_reconnect_max limits)"
  using assms
  by (cases ev) (auto simp: connection_defs split: if_splits option.splits control_frame.splits)

end
