(* ===== verification/DaemonDemo.thy ===== *)
theory DaemonDemo
  imports Daemon
begin

text \<open>A machine with one Workspace, on which commands run: the container it has, the metadata file, the gates.\<close>

record demo_machine =
  dm_present :: bool
  dm_running :: bool
  dm_image :: string
  dm_file :: json
  dm_pending :: json
  dm_clock :: int

definition demo_limits_metadata :: workspace_metadata where
  "demo_limits_metadata = demo_metadata\<lparr>md_quota :=
     Some \<lparr>qm_data = 3, qm_pi = 4, qm_limit = 5\<rparr>, md_image_id := None\<rparr>"

definition demo_machine :: "bool \<Rightarrow> demo_machine" where
  "demo_machine running =
     \<lparr>dm_present = True, dm_running = running, dm_image = ''img:1'',
      dm_file = render_metadata demo_limits_metadata, dm_pending = JNull, dm_clock = 0\<rparr>"

definition demo_listed :: container_info where
  "demo_listed =
     \<lparr>ci_id = ''c1'', ci_names = [CHR ''/'' # containerName ''a''],
      ci_labels = Some (managedLabels ''w1'' ''a''), ci_networks = None\<rparr>"

definition demo_seen :: "demo_machine \<Rightarrow> container_inspection" where
  "demo_seen n =
     (let spec = workspace_container demo_runtime_config ''a'' (paths_of demo_runtime_config ''a'')
         (dm_image n) (rc_resources demo_runtime_config) in
      demo_inspection\<lparr>in_config := sp_config spec,
        in_state := \<lparr>cs_running = dm_running n, cs_restarting = False, cs_paused = False, cs_dead = False\<rparr>,
        in_ports := [(PI_WEB_PORT, [\<lparr>pb_ip = Some ''127.0.0.1'', pb_port = Some ''4000''\<rparr>])]\<rparr>)"

definition demo_usage :: project_usage where
  "demo_usage = \<lparr>pu_used_bytes = 0, pu_limit_bytes = 0, pu_used_inodes = 0, pu_limit_inodes = 0\<rparr>"

definition demo_runtime_env :: "demo_machine runtime_env" where
  "demo_runtime_env =
     \<lparr>re_list = \<lambda>query n. (Inr (if dm_present n then [demo_listed] else []), n),
      re_inspect = \<lambda>cid n. (Inr (demo_seen n), n),
      re_create = \<lambda>spec n. (Inr (), n\<lparr>dm_present := True, dm_image := cc_image (sp_config spec)\<rparr>),
      re_start = \<lambda>cid n. (Inr (), n\<lparr>dm_running := True\<rparr>),
      re_stop = \<lambda>cid n. (Inr (), n\<lparr>dm_running := False\<rparr>),
      re_remove = \<lambda>cid force n. (Inr (), n\<lparr>dm_present := False\<rparr>),
      re_create_home = \<lambda>spec n. (Inr ''h1'', n), re_wait = \<lambda>cid n. (Inr (Some 0), n),
      re_networks = \<lambda>name n. (Inr [\<lparr>nw_id = ''n1'', nw_name = networkName ''a'',
        nw_labels = Some (managedLabels ''w1'' ''a'')\<rparr>], n),
      re_inspect_network = \<lambda>nid n. (Inr demo_network, n), re_create_network = \<lambda>spec n. (Inr (), n),
      re_remove_network = \<lambda>nid n. (Inr (), n), re_connect = \<lambda>nid cid n. (Inr (), n),
      re_disconnect = \<lambda>nid cid n. (Inr (), n), re_egress_enforced = \<lambda>n. True,
      re_egress_ensure = \<lambda>n. (Inr True, n), re_storage_enforced = \<lambda>n. True,
      re_prepare = \<lambda>paths q limit n. (Inr (), n),
      re_set_limit = \<lambda>paths q limit n. (Inr demo_usage, n),
      re_release = \<lambda>q n. (Inr (), n), re_usage = \<lambda>path n. (Inr demo_usage, n),
      re_offered = \<lambda>runtimeImage n. Some \<lparr>of_image = runtimeImage, of_image_id = None\<rparr>,
      re_ready = \<lambda>port n. (Inr (dm_running n), n), re_now = dm_clock,
      re_delay = (\<lambda>n. n\<lparr>dm_clock := dm_clock n + 250\<rparr>), re_uuid = \<lambda>n. (''u'', n),
      re_initialized = \<lambda>n. True, re_set_initialized = \<lambda>n. n, re_mkdir = \<lambda>path recursive n. (Inr (), n),
      re_chown = \<lambda>path u g n. (Inr (), n), re_chmod = \<lambda>path n. (Inr (), n),
      re_lstat = \<lambda>path n. (Inr (if path = wp_file (paths_of demo_runtime_config ''a'')
        then \<lparr>fk_dir = False, fk_file = True, fk_link = False\<rparr>
        else \<lparr>fk_dir = True, fk_file = False, fk_link = False\<rparr>), n),
      re_realpath = \<lambda>path n. (Inr path, n), re_access = \<lambda>path n. (Inr (), n),
      re_read_json = \<lambda>path n. (Inr (dm_file n), n), re_write_json = \<lambda>path j n. (Inr (), n\<lparr>dm_file := j\<rparr>),
      re_open_new = \<lambda>path n. (Inr (), n), re_write_open = \<lambda>path j n. (Inr (), n\<lparr>dm_pending := j\<rparr>),
      re_sync = \<lambda>path n. (Inr (), n), re_close = \<lambda>path n. (Inr (), n),
      re_rename = \<lambda>a b n. (Inr (), n\<lparr>dm_file := dm_pending n\<rparr>),
      re_readdir = \<lambda>path n. (Inr (if path = workspaces_root demo_runtime_config then [(''a'', True)] else []), n),
      re_rm = \<lambda>path n. (Inr (), n)\<rparr>"

definition demo_files :: "demo_machine pi_env" where
  "demo_files =
     \<lparr>po_open_read = \<lambda>path n. (Inr (), n), po_is_file = \<lambda>path n. (Inr True, n),
      po_read_json = \<lambda>path n. (Inr (JObj []), n), po_close = \<lambda>path n. (Inr (), n),
      po_random = \<lambda>n. (''r'', n), po_open_new = \<lambda>path n. (Inr (), n), po_write = \<lambda>path j n. (Inr (), n),
      po_owner = \<lambda>path n. (Inr (0, 0), n), po_chown = \<lambda>path u g n. (Inr (), n),
      po_sync = \<lambda>path n. (Inr (), n), po_unlink = \<lambda>path n. (Inr (), n), po_rename = \<lambda>a b n. (Inr (), n),
      po_lstat = \<lambda>path n. (Inr (), n)\<rparr>"

definition demo_daemon :: "demo_machine daemon_env" where
  "demo_daemon =
     \<lparr>de_runtime = demo_runtime_env, de_config = demo_runtime_config, de_files = demo_files,
      de_rm = \<lambda>path n. (Inr (), n), de_relay_port = None, de_compare = \<lambda>a b. 0,
      de_egress_apply = \<lambda>policy n. (Inr \<lparr>egs_enforced = True, egs_revision = None\<rparr>, n),
      de_egress_ensure = \<lambda>n. (Inr \<lparr>egs_enforced = False, egs_revision = None\<rparr>, n),
      de_storage_check = \<lambda>n. (Inr False, n)\<rparr>"

definition demo_start :: "bool \<Rightarrow> (demo_machine daemon_world, runtime_event) outside" where
  "demo_start running =
     \<lparr>world = \<lparr>dw_outside = demo_machine running, dw_keys = [], dw_refreshes = []\<rparr>, trace = []\<rparr>"

section \<open>Runs on the machine\<close>

text \<open>What the outside world answers, one operation at a time.\<close>

lemma demo_env [simp]:
  "re_list demo_runtime_env = (\<lambda>query n. (Inr (if dm_present n then [demo_listed] else []), n))"
  "re_inspect demo_runtime_env = (\<lambda>cid n. (Inr (demo_seen n), n))"
  "re_create demo_runtime_env = (\<lambda>spec n. (Inr (), n\<lparr>dm_present := True, dm_image := cc_image (sp_config spec)\<rparr>))"
  "re_start demo_runtime_env = (\<lambda>cid n. (Inr (), n\<lparr>dm_running := True\<rparr>))"
  "re_stop demo_runtime_env = (\<lambda>cid n. (Inr (), n\<lparr>dm_running := False\<rparr>))"
  "re_remove demo_runtime_env = (\<lambda>cid force n. (Inr (), n\<lparr>dm_present := False\<rparr>))"
  "re_create_home demo_runtime_env = (\<lambda>spec n. (Inr ''h1'', n))"
  "re_wait demo_runtime_env = (\<lambda>cid n. (Inr (Some 0), n))"
  "re_networks demo_runtime_env = (\<lambda>name n. (Inr [\<lparr>nw_id = ''n1'', nw_name = networkName ''a'', nw_labels = Some (managedLabels ''w1'' ''a'')\<rparr>], n))"
  "re_inspect_network demo_runtime_env = (\<lambda>nid n. (Inr demo_network, n))"
  "re_create_network demo_runtime_env = (\<lambda>spec n. (Inr (), n))"
  "re_remove_network demo_runtime_env = (\<lambda>nid n. (Inr (), n))"
  "re_connect demo_runtime_env = (\<lambda>nid cid n. (Inr (), n))"
  "re_disconnect demo_runtime_env = (\<lambda>nid cid n. (Inr (), n))"
  "re_egress_enforced demo_runtime_env = (\<lambda>n. True)"
  "re_egress_ensure demo_runtime_env = (\<lambda>n. (Inr True, n))"
  "re_storage_enforced demo_runtime_env = (\<lambda>n. True)"
  "re_prepare demo_runtime_env = (\<lambda>paths q limit n. (Inr (), n))"
  "re_set_limit demo_runtime_env = (\<lambda>paths q limit n. (Inr demo_usage, n))"
  "re_release demo_runtime_env = (\<lambda>q n. (Inr (), n))"
  "re_usage demo_runtime_env = (\<lambda>path n. (Inr demo_usage, n))"
  "re_offered demo_runtime_env = (\<lambda>runtimeImage n. Some \<lparr>of_image = runtimeImage, of_image_id = None\<rparr>)"
  "re_ready demo_runtime_env = (\<lambda>port n. (Inr (dm_running n), n))"
  "re_now demo_runtime_env = dm_clock"
  "re_delay demo_runtime_env = (\<lambda>n. n\<lparr>dm_clock := dm_clock n + 250\<rparr>)"
  "re_uuid demo_runtime_env = (\<lambda>n. (''u'', n))"
  "re_initialized demo_runtime_env = (\<lambda>n. True)"
  "re_set_initialized demo_runtime_env = (\<lambda>n. n)"
  "re_mkdir demo_runtime_env = (\<lambda>path recursive n. (Inr (), n))"
  "re_chown demo_runtime_env = (\<lambda>path u g n. (Inr (), n))"
  "re_chmod demo_runtime_env = (\<lambda>path n. (Inr (), n))"
  "re_lstat demo_runtime_env = (\<lambda>path n. (Inr (if path = wp_file (paths_of demo_runtime_config ''a'') then \<lparr>fk_dir = False, fk_file = True, fk_link = False\<rparr> else \<lparr>fk_dir = True, fk_file = False, fk_link = False\<rparr>), n))"
  "re_realpath demo_runtime_env = (\<lambda>path n. (Inr path, n))"
  "re_access demo_runtime_env = (\<lambda>path n. (Inr (), n))"
  "re_read_json demo_runtime_env = (\<lambda>path n. (Inr (dm_file n), n))"
  "re_write_json demo_runtime_env = (\<lambda>path j n. (Inr (), n\<lparr>dm_file := j\<rparr>))"
  "re_open_new demo_runtime_env = (\<lambda>path n. (Inr (), n))"
  "re_write_open demo_runtime_env = (\<lambda>path j n. (Inr (), n\<lparr>dm_pending := j\<rparr>))"
  "re_sync demo_runtime_env = (\<lambda>path n. (Inr (), n))"
  "re_close demo_runtime_env = (\<lambda>path n. (Inr (), n))"
  "re_rename demo_runtime_env = (\<lambda>a b n. (Inr (), n\<lparr>dm_file := dm_pending n\<rparr>))"
  "re_readdir demo_runtime_env = (\<lambda>path n. (Inr (if path = workspaces_root demo_runtime_config then [(''a'', True)] else []), n))"
  "re_rm demo_runtime_env = (\<lambda>path n. (Inr (), n))"
  by (simp_all add: demo_runtime_env_def)

lemma demo_parse:
  "parse_metadata demo_runtime_config (render_metadata demo_limits_metadata) = Some demo_limits_metadata"
  by (simp add: parse_metadata_def render_metadata_def json_property_def required_text_def optional_text_def
      optional_flag_def optional_quota_def only_keys_def METADATA_KEYS_def demo_limits_metadata_def
      demo_metadata_def demo_runtime_config_def render_quota_def parse_quota_def required_number_def
      assertProjectId_def MAX_SAFE_INTEGER_def MAX_PROJECT_ID_def)

abbreviation demo_paths :: workspace_paths where
  "demo_paths \<equiv> paths_of demo_runtime_config ''a''"

lemma demo_directories [simp]:
  "wp_root demo_paths \<noteq> wp_file demo_paths" "wp_workspace demo_paths \<noteq> wp_file demo_paths"
  "wp_home demo_paths \<noteq> wp_file demo_paths" "wp_tmp demo_paths \<noteq> wp_file demo_paths"
  "wp_pi demo_paths \<noteq> wp_file demo_paths" "wp_metadata demo_paths \<noteq> wp_file demo_paths"
  "wp_tmp demo_paths \<noteq> workspaces_root demo_runtime_config"
  by (simp_all add: paths_of_def Let_def)

lemma demo_config [simp]:
  "rc_worker demo_runtime_config = ''w1''" "rc_uuid demo_runtime_config ''a''"
  "rc_start_timeout demo_runtime_config = 60000" "plain_name ''a''"
  by (simp_all add: demo_runtime_config_def plain_name_def)

lemma demo_require:
  assumes "dm_file n = render_metadata demo_limits_metadata"
  shows "requireWorkspacePaths demo_runtime_env demo_runtime_config ''a'' \<lparr>world = n, trace = es\<rparr> =
    (Inr (managed demo_paths demo_limits_metadata),
     \<lparr>world = n, trace = es @ [Metadata_Read (wp_file demo_paths) (dm_file n)]\<rparr>)"
proof -
  have "md_workspace demo_limits_metadata = ''a''" "md_worker demo_limits_metadata = ''w1''"
    by (simp_all add: demo_limits_metadata_def demo_metadata_def)
  then show ?thesis
    using assms
    by (simp add: requireWorkspacePaths_def workspacePaths_def initialize_def verifyMetadata_def read_metadata_def
        assertRealDirectories_def action_defs on_success_def demo_parse)
qed

lemma demo_find:
  assumes "dm_present n"
  shows "findNamedContainer demo_runtime_env demo_runtime_config ''a'' \<lparr>world = n, trace = es\<rparr> =
    (Inr (Some ''c1''), \<lparr>world = n, trace = es @ [Containers_Listed [demo_listed]]\<rparr>)"
  using assms
  by (simp add: findNamedContainer_def or_engine_error_def list_containers_def by_name_def action_defs
      on_success_def demo_listed_def Let_def)

lemma demo_find_network:
  "findNamedNetwork demo_runtime_env ''a'' \<lparr>world = n, trace = es\<rparr> =
    (Inr (Some ''n1''), \<lparr>world = n, trace = es @ [Networks_Listed [\<lparr>nw_id = ''n1'', nw_name = networkName ''a'',
        nw_labels = Some (managedLabels ''w1'' ''a'')\<rparr>]]\<rparr>)"
  by (simp add: findNamedNetwork_def or_engine_error_def list_networks_def action_defs on_success_def Let_def)

lemma demo_reflected:
  "reflects (workspace_container demo_runtime_config ''a'' demo_paths (dm_image n) (rc_resources demo_runtime_config))
     (demo_seen n)"
  by (simp add: reflects_def demo_seen_def demo_inspection_def demo_container_def Let_def workspace_container_def)

lemma demo_seen_state [simp]:
  "cs_running (in_state (demo_seen n)) = dm_running n" "in_image (demo_seen n) = ''content-1''"
  "cs_restarting (in_state (demo_seen n)) = False" "cs_paused (in_state (demo_seen n)) = False"
  "cs_dead (in_state (demo_seen n)) = False" "in_id (demo_seen n) = ''c1''"
  "cc_image (in_config (demo_seen n)) = dm_image n"
  "first_binding (Some (in_ports (demo_seen n))) PI_WEB_PORT =
     Some \<lparr>pb_ip = Some ''127.0.0.1'', pb_port = Some ''4000''\<rparr>"
  by (simp_all add: demo_seen_def demo_inspection_def Let_def workspace_container_def first_binding_def)

lemma demo_seen_identity:
  "md_image_id m = None \<Longrightarrow> verifyManagedContainerIdentity demo_runtime_config (demo_seen n) ''a''
     \<lparr>mw_paths = demo_paths, mw_image = dm_image n, mw_managed = m\<rparr> (networkName ''a'') = Inr Current"
  by (rule created_identity [OF demo_reflected]) simp

lemma demo_cwd [simp]: "verifyLegacyCompatibleDefaultCwd (demo_seen n) = None"
  "verifyCurrentRuntimeConfiguration demo_runtime_config (demo_seen n) (rc_resources demo_runtime_config) = None"
proof -
  show "verifyCurrentRuntimeConfiguration demo_runtime_config (demo_seen n) (rc_resources demo_runtime_config) = None"
    by (rule created_configuration [OF demo_reflected])
  show "verifyLegacyCompatibleDefaultCwd (demo_seen n) = None"
    by (simp add: verifyLegacyCompatibleDefaultCwd_def defaultCwdEntries_def demo_seen_def demo_inspection_def
        Let_def workspace_container_def defaultCwd_created)
qed

lemma demo_legacy:
  "verifyLegacyRuntimeConfiguration (demo_seen n) (rc_resources demo_runtime_config) = None"
proof -
  have "verifyResourceConfiguration (demo_seen n) (rc_resources demo_runtime_config) = None"
    using demo_cwd(2) [of n] by (auto simp: verifyCurrentRuntimeConfiguration_def or_else_def split: option.splits if_splits)
  then show ?thesis by (simp add: verifyLegacyRuntimeConfiguration_def or_else_def)
qed

lemma demo_network_current [simp]:
  "verifyManagedNetwork demo_runtime_config demo_network ''a'' (networkName ''a'') = Inr Current"
  by (rule created_network [OF demo_reflects(2)])

lemma demo_ensure_network:
  "\<exists>fs. ensureNetwork demo_runtime_env demo_runtime_config ''a'' p \<lparr>world = n, trace = es\<rparr> =
    (Inr (), \<lparr>world = n, trace = fs\<rparr>)"
  by (simp add: ensureNetwork_def demo_find_network inspect_network_def verdict_def action_defs on_success_def)

lemmas demo_run_defs = action_defs on_success_def attempt_def requireOffered_def requireManagedContainer_def
  inspect_container_def current_identity_def identity_of_def verdict_def passes_def assertCurrentGeneration_def

lemma demo_start_runs:
  assumes "dm_file n = render_metadata demo_limits_metadata" "dm_present n" "\<not> dm_running n" "dm_image n = ''img:1''"
  shows "\<exists>tr. runtime_start 1 demo_runtime_env demo_runtime_config ''a'' \<lparr>world = n, trace = []\<rparr> =
    (Inr (runtime_observation ''a'' RUNNING ''img:1''), \<lparr>world = n\<lparr>dm_running := True\<rparr>, trace = tr\<rparr>) \<and>
    Container_Started ''c1'' \<in> set tr"
proof -
  have identity: "verifyManagedContainerIdentity demo_runtime_config (demo_seen n) ''a''
      (managed demo_paths demo_limits_metadata) (networkName ''a'') = Inr Current"
    using demo_seen_identity [of demo_limits_metadata n] assms(4)
    by (simp add: managed_def demo_limits_metadata_def demo_metadata_def)
  have recorded: "mw_image (managed demo_paths demo_limits_metadata) = ''img:1''"
    "md_quota (mw_managed (managed demo_paths demo_limits_metadata)) = Some \<lparr>qm_data = 3, qm_pi = 4, qm_limit = 5\<rparr>"
    "mw_paths (managed demo_paths demo_limits_metadata) = demo_paths"
    by (simp_all add: managed_def demo_limits_metadata_def demo_metadata_def)
  show ?thesis
    using assms
    by (simp add: runtime_start_def demo_require demo_find demo_run_defs identity recorded
        ensureNetwork_def demo_find_network inspect_network_def
        start_stopped_def assertEgressEnforced_def prepareStorage_def storage_seen_def sense_def
        clearTemporaryDirectory_def for_all_def unless_status_def start_container_def become_ready_def
        probe_binding_def)
qed

text \<open>The change to another image removes the stopped container and creates it from the new one.\<close>

definition demo_changed_metadata :: workspace_metadata where
  "demo_changed_metadata = demo_limits_metadata\<lparr>md_image := ''img:2'', md_previous := Some ''img:1'', md_image_id := None\<rparr>"

lemma demo_parse_changed:
  "parse_metadata demo_runtime_config (render_metadata demo_changed_metadata) = Some demo_changed_metadata"
  by (simp add: parse_metadata_def render_metadata_def json_property_def required_text_def optional_text_def
      optional_flag_def optional_quota_def only_keys_def METADATA_KEYS_def demo_changed_metadata_def
      demo_limits_metadata_def
      demo_metadata_def demo_runtime_config_def render_quota_def parse_quota_def required_number_def
      assertProjectId_def MAX_SAFE_INTEGER_def MAX_PROJECT_ID_def)

lemma created_image [simp]:
  "cc_image (sp_config (workspace_container cfg wid paths runtimeImage resources)) = runtimeImage"
  by (simp add: workspace_container_def)

lemma demo_change_runs:
  assumes "dm_file n = render_metadata demo_limits_metadata" "dm_present n" "\<not> dm_running n" "dm_image n = ''img:1''"
  shows "\<exists>tr m. runtime_set demo_runtime_env demo_runtime_config ''a'' ''img:1'' ''img:2'' \<lparr>world = n, trace = []\<rparr> =
    (Inr (runtime_observation ''a'' STOPPED ''img:2''), \<lparr>world = m, trace = tr\<rparr>) \<and>
    Container_Removed ''c1'' False \<in> set tr"
proof -
  have identity: "verifyManagedContainerIdentity demo_runtime_config (demo_seen n) ''a''
      (managed demo_paths demo_limits_metadata) (networkName ''a'') = Inr Current"
    using demo_seen_identity [of demo_limits_metadata n] assms(4)
    by (simp add: managed_def demo_limits_metadata_def demo_metadata_def)
  have changed: "verifyManagedContainerIdentity demo_runtime_config (demo_seen k) ''a''
      \<lparr>mw_paths = demo_paths, mw_image = ''img:2'', mw_managed = demo_changed_metadata\<rparr> (networkName ''a'') = Inr Current"
    if "dm_image k = ''img:2''" for k
    using demo_seen_identity [of demo_changed_metadata k] that by (simp add: demo_changed_metadata_def)
  have managed: "managed demo_paths demo_limits_metadata =
    \<lparr>mw_paths = demo_paths, mw_image = ''img:1'', mw_managed = demo_limits_metadata\<rparr>"
    by (simp add: managed_def demo_limits_metadata_def demo_metadata_def)
  show ?thesis
    using assms identity
    by (simp add: runtime_set_def demo_require demo_find demo_run_defs managed change_settled_def
        created_from_def switch_metadata_def replace_container_def writeMetadata_def try_finally_def
        unless_status_def remove_container_def createContainer_def or_engine_error_def pin_image_def
        imageDigest_def demo_changed_metadata_def [symmetric] demo_parse_changed changed Let_def)
qed

text \<open>Stopping everything stops it.\<close>

lemma demo_own: "own_workspace demo_runtime_config demo_listed = Some ''a''"
  by (simp add: own_workspace_def managedWorkspaceId_def parse_workspace_id_def demo_listed_def
      labelsMatch_def managedLabels_def label_value_def)

lemma demo_stop_runs:
  "stopRunningWorkspaces demo_runtime_env demo_runtime_config \<lparr>world = n, trace = es\<rparr> =
    (Inr (if dm_present n then [''a''] else []),
     \<lparr>world = n\<lparr>dm_running := dm_running n \<and> \<not> dm_present n\<rparr>, trace = es @ (if dm_present n
       then [Containers_Listed [demo_listed], Container_Stopped ''c1''] else [Containers_Listed []])\<rparr>)"
  by (simp add: stopRunningWorkspaces_def or_engine_error_def list_containers_def demo_run_defs demo_own
      unless_status_def stop_container_def)
    (simp add: demo_listed_def)

text \<open>A reconciliation reports the running Workspace.\<close>

lemma demo_ids:
  "resource_ids demo_runtime_config (container_resource_name demo_listed) (ci_labels demo_listed) = [''a'', ''a'']"
  "resource_ids demo_runtime_config (Some (networkName ''a'')) (Some (managedLabels ''w1'' ''a'')) = [''a'', ''a'']"
  by (simp_all add: resource_ids_def container_resource_name_def demo_listed_def workspaceIdFromResourceName_def
      parse_workspace_id_def label_value_def managedLabels_def networkName_def containerName_def
      RESOURCE_NAME_PREFIX_def starts_with_def)

lemma demo_no_issues:
  "container_issues demo_runtime_config [''a''] [demo_listed] = []"
  "network_issues demo_runtime_config [''a''] [\<lparr>nw_id = ''n1'', nw_name = networkName ''a'',
     nw_labels = Some (managedLabels ''w1'' ''a'')\<rparr>] = []"
  by (simp_all add: container_issues_def network_issues_def map_filter_simps resource_issue_def demo_ids)

lemma demo_local: "''a'' \<in> set (local_ids demo_runtime_config containers networks [(''a'', True)])"
  by (simp add: local_ids_def)

lemma demo_reconcile_runs:
  assumes "dm_file n = render_metadata demo_limits_metadata" "dm_present n" "dm_running n" "dm_image n = ''img:1''"
  shows "\<exists>tr. runtime_reconcile 1 demo_runtime_env demo_runtime_config
      [\<lparr>wa_workspace = ''a'', wa_image = ''img:1'', wa_limit = 5\<rparr>] \<lparr>world = n, trace = []\<rparr> =
    (Inr ([Observed_Workspace (runtime_observation ''a'' RUNNING ''img:1'')], []), \<lparr>world = n, trace = tr\<rparr>)"
proof -
  have identity: "verifyManagedContainerIdentity demo_runtime_config (demo_seen n) ''a''
      (managed demo_paths demo_limits_metadata) (networkName ''a'') = Inr Current"
    using demo_seen_identity [of demo_limits_metadata n] assms(4)
    by (simp add: managed_def demo_limits_metadata_def demo_metadata_def)
  have recorded: "mw_image (managed demo_paths demo_limits_metadata) = ''img:1''"
    "md_quota (mw_managed (managed demo_paths demo_limits_metadata)) = Some \<lparr>qm_data = 3, qm_pi = 4, qm_limit = 5\<rparr>"
    "mw_paths (managed demo_paths demo_limits_metadata) = demo_paths"
    by (simp_all add: managed_def demo_limits_metadata_def demo_metadata_def)
  show ?thesis
    using assms
    by (simp add: runtime_reconcile_def inventory_def or_engine_error_def list_containers_def list_networks_def
        initialize_def demo_no_issues demo_local report_one_def inspectForRecovery_def assertWorkspaceImage_def
        recovery_gates_def unsafe_unless_def storage_seen_def egress_seen_def sense_def recordRecoveredDiskLimit_def
        become_ready_def probe_binding_def demo_legacy
        demo_require demo_find demo_find_network demo_run_defs identity recorded inspect_network_def Let_def)
qed

section \<open>Commands on the machine\<close>

lemma of_runtime_runs:
  "m \<lparr>world = dw_outside w, trace = es\<rparr> = (Inr a, \<lparr>world = n, trace = tr\<rparr>) \<Longrightarrow>
    of_runtime m \<lparr>world = w, trace = es\<rparr> = (Inr a, \<lparr>world = w\<lparr>dw_outside := n\<rparr>, trace = tr\<rparr>)"
  by (simp add: of_runtime_def lifted_def on_outside_def try_catch_def)

lemma demo_daemon_parts [simp]:
  "de_runtime demo_daemon = demo_runtime_env" "de_config demo_daemon = demo_runtime_config"
  "de_relay_port demo_daemon = None"
  "de_egress_ensure demo_daemon = (\<lambda>n. (Inr \<lparr>egs_enforced = False, egs_revision = None\<rparr>, n))"
  "de_storage_check demo_daemon = (\<lambda>n. (Inr False, n))"
  by (simp_all add: demo_daemon_def)

lemma demo_machine_parts [simp]:
  "dm_file (demo_machine running) = render_metadata demo_limits_metadata" "dm_present (demo_machine running)"
  "dm_running (demo_machine running) = running" "dm_image (demo_machine running) = ''img:1''"
  by (simp_all add: demo_machine_def)

lemma demo_start_command:
  "\<exists>tr w. handle_command 1 demo_daemon ''r1'' (Workspace_Start ''a'') (demo_start False) =
     (Inr (''r1'', Ans_Workspace (runtime_observation ''a'' RUNNING ''img:1'') None), \<lparr>world = w, trace = tr\<rparr>) \<and>
     Container_Started ''c1'' \<in> set tr"
proof -
  obtain tr where "runtime_start 1 demo_runtime_env demo_runtime_config ''a''
      \<lparr>world = demo_machine False, trace = []\<rparr> = (Inr (runtime_observation ''a'' RUNNING ''img:1''),
      \<lparr>world = (demo_machine False)\<lparr>dm_running := True\<rparr>, trace = tr\<rparr>)" "Container_Started ''c1'' \<in> set tr"
    using demo_start_runs [of "demo_machine False"] by auto
  then show ?thesis
    by (simp add: handle_command_def demo_start_def of_runtime_runs refreshEndpoints_def action_defs)
qed

lemma demo_change_command:
  "\<exists>tr w. handle_command 1 demo_daemon ''r1'' (Runtime_Set ''a'' ''img:1'' ''img:2'') (demo_start False) =
     (Inr (''r1'', Ans_Workspace (runtime_observation ''a'' STOPPED ''img:2'') None), \<lparr>world = w, trace = tr\<rparr>) \<and>
     Container_Removed ''c1'' False \<in> set tr"
proof -
  obtain tr m where "runtime_set demo_runtime_env demo_runtime_config ''a'' ''img:1'' ''img:2''
      \<lparr>world = demo_machine False, trace = []\<rparr> = (Inr (runtime_observation ''a'' STOPPED ''img:2''),
      \<lparr>world = m, trace = tr\<rparr>)" "Container_Removed ''c1'' False \<in> set tr"
    using demo_change_runs [of "demo_machine False"] by auto
  then show ?thesis
    by (simp add: handle_command_def demo_start_def of_runtime_runs action_defs)
qed

abbreviation demo_assignment :: worker_assignment where
  "demo_assignment \<equiv> \<lparr>wa_workspace = ''a'', wa_image = ''img:1'', wa_limit = 5\<rparr>"

lemma demo_reconcile_command:
  "\<exists>tr w. handle_command 1 demo_daemon ''r1'' (Reconcile [demo_assignment]) (demo_start True) =
     (Inr (''r1'', Ans_Reconciled [Observed_Workspace (runtime_observation ''a'' RUNNING ''img:1'')] [] []),
      \<lparr>world = w, trace = tr\<rparr>)"
proof -
  obtain tr where "runtime_reconcile 1 demo_runtime_env demo_runtime_config [demo_assignment]
      \<lparr>world = demo_machine True, trace = []\<rparr> =
      (Inr ([Observed_Workspace (runtime_observation ''a'' RUNNING ''img:1'')], []),
       \<lparr>world = demo_machine True, trace = tr\<rparr>)"
    using demo_reconcile_runs [of "demo_machine True"] by auto
  then show ?thesis
    by (simp add: handle_command_def demo_start_def of_runtime_runs refreshEndpoints_def held_aliases_def
        action_defs)
qed

lemma demo_egress_check:
  "checkEgress demo_daemon (demo_start True) = (Inr \<lparr>egs_enforced = False, egs_revision = None\<rparr>,
     \<lparr>world = (world (demo_start True))\<lparr>dw_outside := (demo_machine True)\<lparr>dm_running := False\<rparr>\<rparr>,
      trace = [Containers_Listed [demo_listed], Container_Stopped ''c1'']\<rparr>)"
  using demo_stop_runs [of "demo_machine True" "[]"]
  by (simp add: checkEgress_def stop_running_def demo_start_def of_runtime_runs action_defs)

end
