(* ===== verification/RuntimeSafety.thy ===== *)
theory RuntimeSafety
  imports DaemonDemo
begin

text \<open>
  What the process of a Worker does to its machine when it executes commands: the laws of \<open>RuntimeLaws\<close>
  carried over to the commands of \<open>Daemon\<close>, and the properties that follow.
\<close>

section \<open>From the Runtime to the daemon\<close>

lemma obeys_on_outside:
  assumes "obeys J m Q es"
  shows "obeys J (on_outside m) Q es"
  unfolding obeys_def ensures_def
proof (intro allI impI)
  fix s :: "('a daemon_world, runtime_event) outside"
  assume at: "trace s = es"
  obtain r t where ran: "m \<lparr>world = dw_outside (world s), trace = trace s\<rparr> = (r, t)"
    using prod.exhaust by blast
  have "case (r, t) of (Inl x, t) \<Rightarrow> kept J es (trace t)
      | (Inr a, t) \<Rightarrow> kept J es (trace t) \<and> Q a (trace t)"
    using assms at unfolding obeys_def ensures_def ran [symmetric] by simp
  then show "case on_outside m s of (Inl x, t) \<Rightarrow> kept J es (trace t)
      | (Inr a, t) \<Rightarrow> kept J es (trace t) \<and> Q a (trace t)"
    by (cases r) (simp_all add: on_outside_def ran)
qed

lemma obeys_embedded: "obeys J (embedded m) (\<lambda>_ _. True) es"
  unfolding embedded_def by (rule obeys_observed)

lemma obeys_lifted: "obeys J m Q es \<Longrightarrow> obeys J (lifted m) Q es"
  unfolding lifted_def by (rule obeys_try_catch) (auto intro: obeys_raise)

lemma obeys_of_runtime: "obeys J m Q es \<Longrightarrow> obeys J (of_runtime m) Q es"
  unfolding of_runtime_def by (intro obeys_lifted obeys_on_outside)

lemma obeys_get_keys: "obeys J get_keys (\<lambda>_ _. True) es"
  unfolding get_keys_def by (rule obeys_observed)

lemma obeys_put_keys: "obeys J (put_keys keys) (\<lambda>_ _. True) es"
  unfolding put_keys_def by (rule obeys_observed)

lemma obeys_held_aliases: "obeys J (held_aliases d) (\<lambda>_ _. True) es"
  unfolding held_aliases_def
  by (rule obeys_if, rule obeys_pure, rule TrueI, rule obeys_bind, rule obeys_get_keys, rule obeys_pure, rule TrueI)

lemma obeys_forget_key: "obeys J (forgetKey d wid) (\<lambda>_ _. True) es"
  unfolding forgetKey_def
  by (rule obeys_if, rule obeys_pure, rule TrueI, rule obeys_bind, rule obeys_get_keys, rule obeys_put_keys)

text \<open>What every command may do: look, use the keys, write the provider's files.\<close>

context reading_law begin

lemma obeys_key_directory: "obeys law (modelKeyDirectory e cfg wid) (\<lambda>_ _. True) es"
  unfolding modelKeyDirectory_def
  by (rule obeys_bind, rule obeys_require_paths, rule obeys_pure, rule TrueI)

lemma obeys_set_key: "obeys law (setKey d wid keyAlias secret) (\<lambda>_ _. True) es"
  unfolding setKey_def
  by (rule obeys_if, rule obeys_raise, rule obeys_bind, rule obeys_lifted, rule obeys_on_outside,
      rule obeys_key_directory, rule obeys_bind, rule obeys_get_keys, rule obeys_bind, rule obeys_try_catch,
      rule obeys_on_outside, rule obeys_embedded, rule obeys_raise, rule obeys_put_keys)

lemma obeys_clear_key: "obeys law (clearKey d wid keyAlias) (\<lambda>_ _. True) es"
  unfolding clearKey_def
proof (rule obeys_if, rule obeys_pure, rule TrueI, rule obeys_bind, rule obeys_lifted, rule obeys_try_catch,
    rule obeys_bind, rule obeys_on_outside, rule obeys_key_directory, rule obeys_pure, rule TrueI,
    rule obeys_pure, rule TrueI, rule obeys_bind, rule obeys_get_keys, rule obeys_bind, rule obeys_lifted,
    rule obeys_on_outside, rule obeys_embedded, rule obeys_prod, rule obeys_andThen, rule obeys_put_keys, goal_cases)
  case (1 a fs keys fsa b fsb r keys' fsc)
  then show ?case by (cases r) (simp_all add: obeys_raise obeys_pure)
qed

lemma obeys_refresh: "obeys law (refreshEndpoints d) (\<lambda>_ _. True) es"
proof -
  have listing: "obeys law (relayEndpoints e cfg) (\<lambda>_ _. True) fs" for e :: "'n runtime_env" and cfg fs
    unfolding relayEndpoints_def
    by (rule obeys_bind, rule obeys_or_engine_error, rule obeys_list_containers, rule obeys_pure, rule TrueI)
  show ?thesis
    unfolding refreshEndpoints_def
    by (rule obeys_if, rule obeys_pure, rule TrueI, rule obeys_bind, rule obeys_lifted, rule obeys_try_catch,
        rule obeys_bind, rule obeys_on_outside, rule listing, rule obeys_pure, rule TrueI, rule obeys_pure,
        rule TrueI, rule obeys_observed)
qed

end

section \<open>The law of a command\<close>

fun command_workspaces :: "control_command \<Rightarrow> string set" where
  "command_workspaces (Reconcile assignments) = wa_workspace ` set assignments"
| "command_workspaces (Egress_Apply policy) = {}"
| "command_workspaces (Workspace_Ensure wid runtimeImage resources limit gateway) = {wid}"
| "command_workspaces (Workspace_Start wid) = {wid}"
| "command_workspaces (Workspace_Stop wid) = {wid}"
| "command_workspaces (Workspace_Delete wid) = {wid}"
| "command_workspaces (Workspace_Inspect wid) = {wid}"
| "command_workspaces (Storage_Set wid limit) = {wid}"
| "command_workspaces (Model_Key_Set wid keyAlias secret) = {wid}"
| "command_workspaces (Model_Key_Clear wid keyAlias) = {wid}"
| "command_workspaces (Runtime_Set wid fromImage toImage) = {wid}"

text \<open>What an answer of a reconciliation says.\<close>

definition answer_backed ::
  "runtime_config \<Rightarrow> control_command \<Rightarrow> command_answer \<Rightarrow> runtime_event list \<Rightarrow> bool" where
  "answer_backed cfg command answer es \<longleftrightarrow>
     (\<forall>assignments reports issues held. command = Reconcile assignments \<longrightarrow>
        answer = Ans_Reconciled reports issues held \<longrightarrow> reconciled cfg assignments es (reports, issues))"

lemma reconciled_kept: "kept J es fs \<Longrightarrow> reconciled cfg assignments es r \<Longrightarrow> reconciled cfg assignments fs r"
  unfolding reconciled_def by (auto elim: list_all2_mono intro: reported_kept)

lemma fleet_of_worker:
  "obeys (worker_law cfg wid) m Q es \<Longrightarrow> wid \<in> wids \<Longrightarrow> obeys (fleet_law cfg wids) m Q es"
  by (erule obeys_mono) (auto simp: fleet_law_def)

lemma command_obeys:
  "obeys (fleet_law (de_config d) (command_workspaces command)) (execute_command fuel d command)
     (answer_backed (de_config d) command) es"
proof (cases command)
  case (Reconcile assignments)
  show ?thesis
    unfolding Reconcile execute_command.simps
  proof (rule obeys_bind, rule obeys_of_runtime, simp only: command_workspaces.simps, rule fleet_reconcile,
      rule obeys_prod, rule obeys_andThen, rule fl.obeys_refresh, rule obeys_bind, rule obeys_held_aliases,
      rule obeys_pure, goal_cases)
    case (1 r fs reports issues gs held hs)
    then show ?case by (auto simp: answer_backed_def intro: reconciled_kept)
  qed
next
  case (Egress_Apply policy)
  show ?thesis
    unfolding Egress_Apply execute_command.simps
    by (rule obeys_bind, rule obeys_observed, rule obeys_pure) (simp add: answer_backed_def)
next
  case (Workspace_Ensure wid runtimeImage resources limit gateway)
  have provider: "obeys (fleet_law (de_config d) {wid}) (configure_provider d wid gateway) (\<lambda>_ _. True) fs" for fs
    unfolding configure_provider_def
    by (rule obeys_try_catch, rule obeys_of_runtime, rule fleet_of_worker, rule worker_configure_provider)
      (auto intro: obeys_embedded obeys_pure)
  show ?thesis
    unfolding Workspace_Ensure execute_command.simps command_workspaces.simps
    by (rule obeys_bind, rule obeys_of_runtime, rule fleet_of_worker, rule worker_ensure, simp, rule obeys_bind,
        rule provider, rule obeys_pure) (simp add: answer_backed_def)
next
  case (Workspace_Start wid)
  show ?thesis
    unfolding Workspace_Start execute_command.simps command_workspaces.simps
    by (rule obeys_bind, rule obeys_of_runtime, rule fleet_of_worker, rule worker_start, simp, rule obeys_andThen,
        rule fl.obeys_refresh, rule obeys_pure) (simp add: answer_backed_def)
next
  case (Workspace_Stop wid)
  show ?thesis
    unfolding Workspace_Stop execute_command.simps command_workspaces.simps
    by (rule obeys_bind, rule obeys_of_runtime, rule fleet_of_worker, rule worker_stop, simp, rule obeys_andThen,
        rule fl.obeys_refresh, rule obeys_pure) (simp add: answer_backed_def)
next
  case (Workspace_Delete wid)
  show ?thesis
    unfolding Workspace_Delete execute_command.simps command_workspaces.simps
    by (rule obeys_bind, rule obeys_of_runtime, rule fleet_of_worker, rule worker_delete, simp, rule obeys_andThen,
        rule obeys_forget_key, rule obeys_andThen, rule fl.obeys_refresh, rule obeys_pure)
      (simp add: answer_backed_def)
next
  case (Workspace_Inspect wid)
  show ?thesis
    unfolding Workspace_Inspect execute_command.simps command_workspaces.simps
    by (rule obeys_bind, rule obeys_of_runtime, rule fleet_of_worker, rule wl.obeys_inspect_operation, simp,
        rule obeys_pure) (simp add: answer_backed_def)
next
  case (Storage_Set wid limit)
  show ?thesis
    unfolding Storage_Set execute_command.simps command_workspaces.simps
    by (rule obeys_bind, rule obeys_of_runtime, rule fleet_of_worker, rule worker_set_disk_limit, simp,
        rule obeys_prod, rule obeys_pure) (simp add: answer_backed_def)
next
  case (Model_Key_Set wid keyAlias secret)
  show ?thesis
    unfolding Model_Key_Set execute_command.simps command_workspaces.simps
    by (rule obeys_andThen, rule fl.obeys_set_key, rule obeys_pure) (simp add: answer_backed_def)
next
  case (Model_Key_Clear wid keyAlias)
  show ?thesis
    unfolding Model_Key_Clear execute_command.simps command_workspaces.simps
    by (rule obeys_bind, rule fl.obeys_clear_key, rule obeys_pure) (simp add: answer_backed_def)
next
  case (Runtime_Set wid fromImage toImage)
  show ?thesis
    unfolding Runtime_Set execute_command.simps command_workspaces.simps
    by (rule obeys_bind, rule obeys_of_runtime, rule fleet_of_worker, rule worker_set, simp,
        rule obeys_pure) (simp add: answer_backed_def)
qed

lemma handled_obeys:
  "obeys (fleet_law (de_config d) (command_workspaces command)) (handle_command fuel d requestId command)
     (\<lambda>(n, answer) fs. n = requestId \<and> answer_backed (de_config d) command answer fs) es"
  unfolding handle_command_def
proof (rule obeys_bind, rule obeys_try_catch, rule command_obeys, rule obeys_pure, goal_cases)
  case (1 x fs)
  then show ?case
    by (auto simp: answer_backed_def failure_answer_def split: failure.splits thrown.splits)
next
  case (2 answer fs)
  then show ?case by (auto intro: obeys_pure)
qed

section \<open>Commands and what they do\<close>

lemma command_event:
  assumes "handle_command fuel d requestId command s = (r, t)" "trace s = []" "trace t = pre @ ev # post"
  shows "fleet_law (de_config d) (command_workspaces command) pre ev"
  using obeys_at [OF handled_obeys assms(1), of pre ev post] assms(2,3) by simp

lemma on_disk_managed:
  assumes "on_disk cfg wid p es"
  shows "p = managed (paths_of cfg wid) (mw_managed p)"
  using assms by (cases p) (simp add: on_disk_def managed_def)

text \<open>C35. A command starts only a container that this very command found and checked: the Engine listed
it under the name of one of the command's Workspaces with this Worker's labels, it was inspected not running
and verified as current against the metadata on disk, the egress rules were checked and enforced, and the
quota recorded for the Workspace was applied to its directories. Nothing the outside world answers changes
this.\<close>

theorem started_containers_are_gated:
  assumes "handle_command fuel d requestId command s = (r, t)" "trace s = []"
    "trace t = pre @ Container_Started cid # post"
  shows "\<exists>wid \<in> command_workspaces command. \<exists>m q i.
    known (listed (de_config d) wid cid) pre \<and> known (record_of (de_config d) wid m) pre \<and>
    own_metadata (de_config d) wid m \<and> md_quota m = Some q \<and>
    Container_Inspected cid i \<in> set pre \<and> \<not> cs_running (in_state i) \<and>
    verifyManagedContainerIdentity (de_config d) i wid (managed (paths_of (de_config d) wid) m) (networkName wid) =
      Inr Current \<and>
    Egress_Checked True \<in> set pre \<and>
    Storage_Prepared (paths_of (de_config d) wid) q (qm_limit q) \<in> set pre"
proof -
  obtain wid where wid: "wid \<in> command_workspaces command" "start_allowed (de_config d) wid cid pre"
    using command_event [OF assms] by (auto simp: fleet_law_def)
  then obtain p q i where at: "on_disk (de_config d) wid p pre" "md_quota (mw_managed p) = Some q"
    "Container_Inspected cid i \<in> set pre" "\<not> cs_running (in_state i)"
    "verifyManagedContainerIdentity (de_config d) i wid p (networkName wid) = Inr Current"
    "Storage_Prepared (paths_of (de_config d) wid) q (qm_limit q) \<in> set pre"
    by (auto simp: start_allowed_def)
  have "known (record_of (de_config d) wid (mw_managed p)) pre" "own_metadata (de_config d) wid (mw_managed p)"
    using at(1) by (simp_all add: on_disk_def)
  moreover have "known (listed (de_config d) wid cid) pre" "Egress_Checked True \<in> set pre"
    using wid(2) by (simp_all add: start_allowed_def)
  ultimately show ?thesis
    using wid(1) at(2-6) on_disk_managed [OF at(1)] by metis
qed

theorem started_containers_are_gated_witness:
  "\<exists>pre post. trace (snd (handle_command 1 demo_daemon ''r1'' (Workspace_Start ''a'') (demo_start False))) =
      pre @ Container_Started ''c1'' # post \<and>
    known (listed demo_runtime_config ''a'' ''c1'') pre \<and> Egress_Checked True \<in> set pre"
proof -
  obtain tr w where run: "handle_command 1 demo_daemon ''r1'' (Workspace_Start ''a'') (demo_start False) =
      (Inr (''r1'', Ans_Workspace (runtime_observation ''a'' RUNNING ''img:1'') None), \<lparr>world = w, trace = tr\<rparr>)"
    "Container_Started ''c1'' \<in> set tr"
    using demo_start_command by blast
  obtain pre post where split: "tr = pre @ Container_Started ''c1'' # post"
    using split_list [OF run(2)] by blast
  show ?thesis
    using started_containers_are_gated [OF run(1), of pre "''c1''" post] split run(1)
    by (auto simp: demo_start_def)
qed

text \<open>C36. A command destroys only what belongs to one of its Workspaces and this Worker: it stops and
removes only containers the Engine listed under the Workspace's name with this Worker's labels, removes
without force only one seen idle, removes only networks whose inspected name and labels are the
Workspace's, deletes only the Workspace's own directory after reading or writing metadata there that names
this Worker, empties only its temporary directory, and releases only quota projects recorded for it, after its
directory is gone.\<close>

theorem destroyed_things_are_owned:
  assumes "handle_command fuel d requestId command s = (r, t)" "trace s = []" "trace t = pre @ ev # post"
  shows "
    (\<forall>cid. ev = Container_Stopped cid \<longrightarrow>
       (\<exists>wid \<in> command_workspaces command. known (listed (de_config d) wid cid) pre)) \<and>
    (\<forall>cid force. ev = Container_Removed cid force \<longrightarrow>
       (\<exists>wid \<in> command_workspaces command. known (listed (de_config d) wid cid) pre \<and>
          (force \<or> (\<exists>i. Container_Inspected cid i \<in> set pre \<and> idle i)))) \<and>
    (\<forall>nid. ev = Network_Removed nid \<longrightarrow>
       (\<exists>wid \<in> command_workspaces command. known (network_owned (de_config d) wid nid) pre)) \<and>
    (\<forall>path. ev = Directory_Removed path \<longrightarrow>
       (\<exists>wid \<in> command_workspaces command. path = wp_root (paths_of (de_config d) wid) \<and>
          (\<exists>m. known (record_of (de_config d) wid m) pre \<and> own_metadata (de_config d) wid m))) \<and>
    (\<forall>path. ev = Entry_Removed path \<longrightarrow>
       (\<exists>wid \<in> command_workspaces command. starts_with (wp_tmp (paths_of (de_config d) wid) @ ''/'') path)) \<and>
    (\<forall>q. ev = Projects_Released q \<longrightarrow>
       (\<exists>wid \<in> command_workspaces command. Directory_Removed (wp_root (paths_of (de_config d) wid)) \<in> set pre \<and>
          quota_recorded (de_config d) wid q pre))"
  using command_event [OF assms] unfolding fleet_law_def by (cases ev) auto

theorem destroyed_things_are_owned_witness:
  "\<exists>pre post. trace (snd (handle_command 1 demo_daemon ''r1'' (Runtime_Set ''a'' ''img:1'' ''img:2'')
      (demo_start False))) = pre @ Container_Removed ''c1'' False # post \<and>
    known (listed demo_runtime_config ''a'' ''c1'') pre \<and>
    (\<exists>i. Container_Inspected ''c1'' i \<in> set pre \<and> idle i)"
proof -
  obtain tr w where run: "handle_command 1 demo_daemon ''r1'' (Runtime_Set ''a'' ''img:1'' ''img:2'') (demo_start False) =
      (Inr (''r1'', Ans_Workspace (runtime_observation ''a'' STOPPED ''img:2'') None), \<lparr>world = w, trace = tr\<rparr>)"
    "Container_Removed ''c1'' False \<in> set tr"
    using demo_change_command by blast
  obtain pre post where split: "tr = pre @ Container_Removed ''c1'' False # post"
    using split_list [OF run(2)] by blast
  show ?thesis
    using destroyed_things_are_owned [OF run(1), of pre "Container_Removed ''c1'' False" post] split run(1)
    by (auto simp: demo_start_def)
qed

section \<open>A Runtime change\<close>

lemma change_command_obeys:
  "obeys (change_law (de_config d) wid toImage) (handle_command fuel d requestId (Runtime_Set wid fromImage toImage))
     (\<lambda>_ _. True) es"
  unfolding handle_command_def execute_command.simps
  by (rule obeys_bind, rule obeys_try_catch, rule obeys_bind, rule obeys_of_runtime, rule change_set,
      rule obeys_pure, rule TrueI, rule obeys_pure, rule TrueI, rule obeys_pure, rule TrueI)

text \<open>C37. Changing the Runtime image only looks at the machine until the metadata on disk names the new
image: whatever is written to the metadata names it, and the container is removed and created only after
metadata of this Workspace and Worker with the new image was read or written. A change interrupted anywhere
therefore never leaves a container of the new image with metadata of the old one.\<close>

theorem change_is_recorded_first:
  assumes "handle_command fuel d requestId (Runtime_Set wid fromImage toImage) s = (r, t)" "trace s = []"
    "trace t = pre @ ev # post"
  shows "reads ev \<or> (\<exists>path m. ev = Metadata_Replaced path m \<and> md_image m = toImage) \<or>
    ((\<exists>cid force. ev = Container_Removed cid force) \<or> (\<exists>spec. ev = Container_Created spec)) \<and>
      (\<exists>m. known (record_of (de_config d) wid m) pre \<and> own_metadata (de_config d) wid m \<and> md_image m = toImage)"
proof -
  have "change_law (de_config d) wid toImage pre ev"
    using obeys_at [OF change_command_obeys assms(1), of pre ev post] assms(2,3) by simp
  then show ?thesis by (cases ev) (simp_all add: image_recorded_def)
qed

theorem change_is_recorded_first_witness:
  "\<exists>pre post m. trace (snd (handle_command 1 demo_daemon ''r1'' (Runtime_Set ''a'' ''img:1'' ''img:2'')
      (demo_start False))) = pre @ Container_Removed ''c1'' False # post \<and>
    known (record_of demo_runtime_config ''a'' m) pre \<and> md_image m = ''img:2''"
proof -
  obtain tr w where run: "handle_command 1 demo_daemon ''r1'' (Runtime_Set ''a'' ''img:1'' ''img:2'') (demo_start False) =
      (Inr (''r1'', Ans_Workspace (runtime_observation ''a'' STOPPED ''img:2'') None), \<lparr>world = w, trace = tr\<rparr>)"
    "Container_Removed ''c1'' False \<in> set tr"
    using demo_change_command by blast
  obtain pre post where split: "tr = pre @ Container_Removed ''c1'' False # post"
    using split_list [OF run(2)] by blast
  show ?thesis
    using change_is_recorded_first [OF run(1), of pre "Container_Removed ''c1'' False" post] split run(1)
    by (auto simp: demo_start_def)
qed

section \<open>A reconciliation\<close>

lemma reported_workspaces: "list_all2 (reported cfg es) as rs \<Longrightarrow> map report_workspace rs = map wa_workspace as"
  by (induction rule: list_all2_induct) (simp_all add: reported_def)

text \<open>C38. A reconciliation answers with exactly one report per assignment, in their order, and at most
10000 issues, none of them about an assigned Workspace; it reports a Workspace as running only when, during
this reconciliation, both gates said they are enforced and pi-web answered on the loopback port that a running
container listed as that Workspace's publishes.\<close>

theorem reconcile_reports_every_assignment:
  assumes "handle_command fuel d requestId (Reconcile assignments) s =
    (Inr (n, Ans_Reconciled reports issues held), t)" "trace s = []"
  shows "n = requestId \<and> map report_workspace reports = map wa_workspace assignments \<and> length issues \<le> 10000 \<and>
    (\<forall>entry \<in> set issues. \<forall>wid. ri_workspace entry = Some wid \<longrightarrow> wid \<notin> wa_workspace ` set assignments) \<and>
    (\<forall>ob. Observed_Workspace ob \<in> set reports \<longrightarrow> obs_state ob = RUNNING \<longrightarrow>
       Storage_Seen True \<in> set (trace t) \<and> Egress_Seen True \<in> set (trace t) \<and>
       (\<exists>cid. known (listed (de_config d) (obs_workspace ob) cid) (trace t) \<and> seen_ready cid (trace t)))"
proof -
  have "n = requestId \<and> answer_backed (de_config d) (Reconcile assignments) (Ans_Reconciled reports issues held) (trace t)"
    using obeys_returned [OF handled_obeys assms(1)] by simp
  then have n: "n = requestId" and at: "reconciled (de_config d) assignments (trace t) (reports, issues)"
    by (simp_all add: answer_backed_def)
  have running: "Storage_Seen True \<in> set (trace t) \<and> Egress_Seen True \<in> set (trace t) \<and>
      (\<exists>cid. known (listed (de_config d) (obs_workspace ob) cid) (trace t) \<and> seen_ready cid (trace t))"
    if "Observed_Workspace ob \<in> set reports" "obs_state ob = RUNNING" for ob
  proof -
    obtain i where "i < length reports" "reports ! i = Observed_Workspace ob"
      using \<open>Observed_Workspace ob \<in> set reports\<close> by (auto simp: in_set_conv_nth)
    then have "reported (de_config d) (trace t) (assignments ! i) (Observed_Workspace ob)"
      using at by (auto simp: reconciled_def dest: list_all2_nthD2)
    then show ?thesis using \<open>obs_state ob = RUNNING\<close> by (auto simp: reported_def recovered_def)
  qed
  show ?thesis
    using n at reported_workspaces [of "de_config d" "trace t" assignments reports] running
    by (auto simp: reconciled_def issue_unassigned_def)
qed

theorem reconcile_reports_every_assignment_witness:
  "\<exists>cid. known (listed demo_runtime_config ''a'' cid)
      (trace (snd (handle_command 1 demo_daemon ''r1'' (Reconcile [demo_assignment]) (demo_start True)))) \<and>
    seen_ready cid (trace (snd (handle_command 1 demo_daemon ''r1'' (Reconcile [demo_assignment]) (demo_start True))))"
proof -
  obtain tr w where run: "handle_command 1 demo_daemon ''r1'' (Reconcile [demo_assignment]) (demo_start True) =
      (Inr (''r1'', Ans_Reconciled [Observed_Workspace (runtime_observation ''a'' RUNNING ''img:1'')] [] []),
       \<lparr>world = w, trace = tr\<rparr>)"
    using demo_reconcile_command by blast
  show ?thesis
    using reconcile_reports_every_assignment [OF run] run by (auto simp: demo_start_def runtime_observation_def)
qed

section \<open>A gate that is lost\<close>

lemma stop_own_returns:
  assumes "\<And>cid n x n'. re_stop e cid n = (Inl x, n') \<Longrightarrow> dockerStatus x = Some 304"
  shows "\<exists>stopped t. stop_own e cfg cs s = (Inr stopped, t)"
proof (induction cs arbitrary: s)
  case Nil
  then show ?case by (simp add: pure_def)
next
  case (Cons c cs)
  have "\<exists>u. unless_status 304 (stop_container e (ci_id c)) s = (Inr (), u)"
    by (auto simp: unless_status_def stop_container_def action_defs dest: assms split: prod.split sum.split)
  then obtain u where stopped: "unless_status 304 (stop_container e (ci_id c)) s = (Inr (), u)" by blast
  obtain names v where rest: "stop_own e cfg cs u = (Inr names, v)" using Cons.IH by blast
  show ?case
    using Cons.IH [of s] by (cases "own_workspace cfg c") (simp_all add: action_defs stopped rest)
qed

lemma stop_running_returns:
  assumes "\<And>query n. \<exists>cs n'. re_list e query n = (Inr cs, n')"
    "\<And>cid n x n'. re_stop e cid n = (Inl x, n') \<Longrightarrow> dockerStatus x = Some 304"
  shows "\<exists>stopped t. stopRunningWorkspaces e cfg s = (Inr stopped, t)"
proof -
  obtain cs n where listing: "re_list e (own_containers cfg False [''running'', ''restarting'']) (world s) = (Inr cs, n)"
    using assms(1) by blast
  show ?thesis
    using stop_own_returns [OF assms(2), where cfg = cfg and cs = cs]
    by (simp add: stopRunningWorkspaces_def or_engine_error_def list_containers_def action_defs listing)
qed

lemma stop_running_all:
  assumes "\<And>query n. \<exists>cs n'. re_list (de_runtime d) query n = (Inr cs, n')"
    "\<And>cid n x n'. re_stop (de_runtime d) cid n = (Inl x, n') \<Longrightarrow> dockerStatus x = Some 304"
    "trace s = []"
  shows "\<exists>t. stop_running d s = (Inr (), t) \<and> (\<forall>cid. Container_Stopped cid \<in> set (trace t) \<longrightarrow>
      known (own_listed (de_config d) cid) (trace t)) \<and>
    (\<exists>cs. Containers_Listed cs \<in> set (trace t) \<and> all_stopped (de_config d) cs (trace t))"
proof -
  let ?o = "\<lparr>world = dw_outside (world s), trace = trace s\<rparr>"
  have "\<exists>stopped u. stopRunningWorkspaces (de_runtime d) (de_config d) ?o = (Inr stopped, u)"
    by (rule stop_running_returns) (use assms(1,2) in auto)
  then obtain stopped u where run: "stopRunningWorkspaces (de_runtime d) (de_config d) ?o = (Inr stopped, u)"
    by blast
  have law: "kept (stop_law (de_config d)) (trace ?o) (trace u)"
    by (rule obeys_run [OF stop_running_stops run])
  have "\<exists>cs. Containers_Listed cs \<in> set (trace u) \<and> all_stopped (de_config d) cs (trace u)"
    using obeys_returned [OF stop_running_stops run] by blast
  moreover have "known (own_listed (de_config d) cid) (trace u)" if "Container_Stopped cid \<in> set (trace u)" for cid
  proof -
    obtain pre post where "trace u = pre @ Container_Stopped cid # post"
      using split_list [OF \<open>Container_Stopped cid \<in> set (trace u)\<close>] by blast
    then show ?thesis using kept_at [OF law, of pre _ post] assms(3) by simp
  qed
  ultimately show ?thesis
    using run by (simp add: stop_running_def of_runtime_def lifted_def on_outside_def action_defs)
qed



section \<open>Waiting for pi-web ends\<close>

lemma wait_ready_ends:
  assumes "\<And>n. re_now e n + 250 \<le> re_now e (re_delay e n)"
    "\<And>cid n r n'. re_inspect e cid n = (r, n') \<Longrightarrow> re_now e n \<le> re_now e n' \<and> r \<noteq> Inl Still_Waiting"
    "\<And>port n r n'. re_ready e port n = (r, n') \<Longrightarrow> re_now e n \<le> re_now e n' \<and> r \<noteq> Inl Still_Waiting"
    "deadline - re_now e (world s) \<le> 250 * (int fuel - 1)" "0 < fuel"
  shows "fst (wait_ready fuel e cid deadline s) \<noteq> Inl Still_Waiting \<and>
    wait_ready (fuel + k) e cid deadline s = wait_ready fuel e cid deadline s"
  using assms(4,5)
proof (induction fuel arbitrary: s)
  case 0
  then show ?case by simp
next
  case (Suc fuel)
  have step: "fst (wait_ready fuel e cid deadline u) \<noteq> Inl Still_Waiting \<and>
      wait_ready (fuel + k) e cid deadline u = wait_ready fuel e cid deadline u"
    if "\<not> deadline \<le> re_now e (world s)" "re_now e (world s) + 250 \<le> re_now e (world u)" for u
    by (rule Suc.IH) (use that Suc.prems in auto)
  have later: "re_now e (world s) + 250 \<le> re_now e (re_delay e m)" if "re_now e (world s) \<le> re_now e m" for m
    using assms(1) [of m] that by simp
  show ?case
    by (auto simp: action_defs inspect_container_def probe_binding_def on_success_def refuse_def
        split: prod.split sum.split option.split dest!: assms(2,3) intro!: step later)
qed

text \<open>C40. Waiting for pi-web ends: when the clock never goes back, a pause between two probes takes at least the
250 ms it asks for, and the configured timeout in milliseconds fits into the given rounds, the wait does not
run out of rounds, and more rounds change nothing. The start of a Workspace then returns or fails.\<close>

theorem readiness_wait_ends:
  assumes "\<And>n. re_now e n + 250 \<le> re_now e (re_delay e n)"
    "\<And>cid n r n'. re_inspect e cid n = (r, n') \<Longrightarrow> re_now e n \<le> re_now e n' \<and> r \<noteq> Inl Still_Waiting"
    "\<And>port n r n'. re_ready e port n = (r, n') \<Longrightarrow> re_now e n \<le> re_now e n' \<and> r \<noteq> Inl Still_Waiting"
    "rc_start_timeout cfg \<le> 250 * (int fuel - 1)" "0 < fuel"
  shows "fst (become_ready fuel e cfg cid wid runtimeImage s) \<noteq> Inl Still_Waiting \<and>
    become_ready (fuel + k) e cfg cid wid runtimeImage s = become_ready fuel e cfg cid wid runtimeImage s"
proof -
  have "fst (wait_ready fuel e cid (re_now e (world s) + rc_start_timeout cfg) s) \<noteq> Inl Still_Waiting \<and>
      wait_ready (fuel + k) e cid (re_now e (world s) + rc_start_timeout cfg) s =
        wait_ready fuel e cid (re_now e (world s) + rc_start_timeout cfg) s"
    by (rule wait_ready_ends) (use assms in auto)
  then show ?thesis
    by (auto simp: become_ready_def action_defs split: prod.split sum.split)
qed

theorem readiness_wait_ends_witness:
  "fst (become_ready 241 demo_runtime_env demo_runtime_config ''c1'' ''a'' ''img:1''
      \<lparr>world = demo_machine True, trace = []\<rparr>) \<noteq> Inl Still_Waiting"
  using readiness_wait_ends [of demo_runtime_env demo_runtime_config 241 "''c1''" "''a''" "''img:1''"
      "\<lparr>world = demo_machine True, trace = []\<rparr>"]
  by auto

end
