(* ===== verification/KeyManager.thy ===== *)
theory KeyManager
  imports ModelKeys RelayKeys Ruleset Laws
begin

text \<open>
  \<open>apps/control-plane/src/model-gateway/key-manager.ts\<close>: issues, delivers, rotates and revokes the
  virtual keys. The manager's world is the database, its own fields, and the gateway and the Workers
  outside. Every statement, gateway call and command is preceded by whatever other requests did to the
  database and the fields in the meantime: the operations of the environment take and return the whole
  world. A statement may fail. Log lines are left out.
\<close>

section \<open>The manager's world\<close>

datatype gateway_code = Gateway_Unreachable | Gateway_Rejected | Gateway_Invalid_Response

datatype key_failure = Gateway_Failure gateway_code | Statement_Failure

record model_usage =
  mu_spend :: rat
  mu_budget :: "rat option"
  mu_reset :: "string option"

record 'n key_world =
  kw_db :: db
  kw_outside :: 'n
  kw_running :: bool
  kw_again :: bool
  kw_in_pass :: bool
  kw_down :: bool
  kw_configs :: "(string \<times> model_config_result) list"
  kw_usage :: "(string \<times> int \<times> model_usage option) list"
  kw_models :: "(int \<times> string list option) option"

datatype key_command = Send_Set string string string | Send_Clear string string

datatype key_reply = Key_Answer string "string option" | Other_Answer

text \<open>\<open>ke_statement\<close> says whether the next statement fails; budgets are in cents.\<close>

record 'n key_env =
  ke_statement :: "'n key_world \<Rightarrow> bool \<times> 'n key_world"
  ke_now :: "'n key_world \<Rightarrow> instant"
  ke_new_id :: "'n key_world \<Rightarrow> string"
  ke_ensure_user :: "string \<Rightarrow> int option \<Rightarrow> 'n key_world \<Rightarrow> (key_failure + unit) \<times> 'n key_world"
  ke_generate :: "string \<Rightarrow> string \<Rightarrow> string \<Rightarrow> 'n key_world \<Rightarrow> (key_failure + string) \<times> 'n key_world"
  ke_delete :: "string \<Rightarrow> 'n key_world \<Rightarrow> (key_failure + unit) \<times> 'n key_world"
  ke_list_models :: "'n key_world \<Rightarrow> (key_failure + string list) \<times> 'n key_world"
  ke_user_usage :: "string \<Rightarrow> 'n key_world \<Rightarrow> (key_failure + model_usage option) \<times> 'n key_world"
  ke_connected :: "string \<Rightarrow> 'n key_world \<Rightarrow> bool"
  ke_dispatch :: "string \<Rightarrow> key_command \<Rightarrow> 'n key_world \<Rightarrow> (channel_error + key_reply) \<times> 'n key_world"
  ke_default_budget :: "int option"
  ke_catalog :: model_gateway_config

datatype key_action =
    Issue_Begun model_key_issue
  | User_Ensured string "int option"
  | Key_Generated string string
  | Activation_Recorded string bool
  | Command_Sent string key_command
  | Revoke_Asked revoke_request
  | Due_Listed "pending_revocation list"
  | Gateway_Deleted string
  | Revocation_Recorded string revoke_result
  | Active_Listed "(string \<times> string \<times> string) list"
  | Pass_Kicked
  | Maintenance_Failed
  | Nothing_Done

type_synonym ('n, 'a) km = "('n key_world, key_action, key_failure, 'a) act"

text \<open>A statement on the database, at the time it runs.\<close>

definition stored ::
  "'n key_env \<Rightarrow> (instant \<Rightarrow> db \<Rightarrow> 'a \<times> db) \<Rightarrow> 'n key_world \<Rightarrow> (key_failure + 'a) \<times> 'n key_world" where
  "stored e f w =
     (case ke_statement e w of (failed, w1) \<Rightarrow>
        if failed then (Inl Statement_Failure, w1)
        else (case f (ke_now e w1) (kw_db w1) of (a, d) \<Rightarrow> (Inr a, w1\<lparr>kw_db := d\<rparr>)))"

definition recorded :: "('a \<Rightarrow> key_action) \<Rightarrow> key_failure + 'a \<Rightarrow> key_action" where
  "recorded ev r = (case r of Inl _ \<Rightarrow> Nothing_Done | Inr a \<Rightarrow> ev a)"

definition the_field :: "('n key_world \<Rightarrow> 'a) \<Rightarrow> ('n, 'a) km" where
  "the_field f = observe (\<lambda>w. (Inr (f w), w))"

definition set_field :: "('n key_world \<Rightarrow> 'n key_world) \<Rightarrow> ('n, unit) km" where
  "set_field f = observe (\<lambda>w. (Inr (), f w))"

definition gatewayErrorCode :: "key_failure \<Rightarrow> gateway_code" where
  "gatewayErrorCode x = (case x of Gateway_Failure code \<Rightarrow> code | Statement_Failure \<Rightarrow> Gateway_Unreachable)"

definition gateway_code_text :: "gateway_code \<Rightarrow> string" where
  "gateway_code_text code =
     (case code of
        Gateway_Unreachable \<Rightarrow> ''MODEL_GATEWAY_UNAVAILABLE''
      | Gateway_Rejected \<Rightarrow> ''MODEL_GATEWAY_REJECTED''
      | Gateway_Invalid_Response \<Rightarrow> ''MODEL_GATEWAY_INVALID_RESPONSE'')"

text \<open>\<open>kick\<close> starts a pass that nobody waits for, except from within one.\<close>

definition kick :: "('n, unit) km" where
  "kick = bind (the_field kw_in_pass) (\<lambda>busy.
     if busy then pure () else external (\<lambda>_. Pass_Kicked) (\<lambda>w. (Inr (), w)))"

definition revoke_key_request :: "string list \<Rightarrow> revoke_reason \<Rightarrow> string \<Rightarrow> revoke_request" where
  "revoke_key_request ids reason errorCode =
     \<lparr>rr_keys = Some ids, rr_workspace = None, rr_user = None, rr_reason = reason,
      rr_error = Some errorCode, rr_actor = None, rr_request = None\<rparr>"

definition ask_revoke :: "'n key_env \<Rightarrow> revoke_request \<Rightarrow> ('n, nat) km" where
  "ask_revoke e r = external (\<lambda>_. Revoke_Asked r) (stored e (\<lambda>t. requestModelKeyRevoke t r))"

definition revokeOne :: "'n key_env \<Rightarrow> string \<Rightarrow> revoke_reason \<Rightarrow> string \<Rightarrow> ('n, unit) km" where
  "revokeOne e keyId reason errorCode =
     andThen (try_catch (bind (ask_revoke e (revoke_key_request [keyId] reason errorCode)) (\<lambda>_. pure ()))
       (\<lambda>_. pure ()))
     kick"

fun reply_accepted :: "key_command \<Rightarrow> key_reply \<Rightarrow> bool" where
  "reply_accepted (Send_Set wid keyAlias secret) (Key_Answer answered held) \<longleftrightarrow>
     answered = wid \<and> held = Some keyAlias"
| "reply_accepted (Send_Clear wid keyAlias) (Key_Answer answered held) \<longleftrightarrow> answered = wid"
| "reply_accepted command Other_Answer \<longleftrightarrow> False"

definition send_key :: "'n key_env \<Rightarrow> string \<Rightarrow> key_command \<Rightarrow> ('n, bool) km" where
  "send_key e workerId command =
     external (\<lambda>_. Command_Sent workerId command)
       (\<lambda>w. case ke_dispatch e workerId command w of
          (Inl _, w1) \<Rightarrow> (Inr False, w1) | (Inr reply, w1) \<Rightarrow> (Inr (reply_accepted command reply), w1))"

section \<open>Issuing a key\<close>

datatype key_availability = Key_Available | Key_Unavailable

definition budget_of :: "'n key_env \<Rightarrow> int option \<Rightarrow> int option" where
  "budget_of e budget = (case budget of None \<Rightarrow> ke_default_budget e | Some b \<Rightarrow> Some b)"

definition ensure_gateway_user :: "'n key_env \<Rightarrow> string \<Rightarrow> int option \<Rightarrow> ('n, unit) km" where
  "ensure_gateway_user e userId budget =
     external (recorded (\<lambda>_. User_Ensured userId budget)) (ke_ensure_user e userId budget)"

definition obtain_secret :: "'n key_env \<Rightarrow> model_key_issue \<Rightarrow> ('n, string) km" where
  "obtain_secret e key =
     bind (observe (stored e (\<lambda>t d. (findUserModelBudget (mki_user key) d, d)))) (\<lambda>(found, budget).
     andThen (ensure_gateway_user e (mki_user key) (budget_of e budget))
     (external (recorded (Key_Generated (mki_alias key)))
        (ke_generate e (mki_user key) (mki_workspace key) (mki_alias key))))"

definition deliver_key :: "'n key_env \<Rightarrow> model_key_issue \<Rightarrow> string \<Rightarrow> ('n, key_availability) km" where
  "deliver_key e key secret =
     bind (external (recorded (Activation_Recorded (mki_id key)))
             (stored e (\<lambda>t. activateModelKey t (mki_id key)))) (\<lambda>activated.
       if \<not> activated then andThen kick (pure Key_Unavailable)
       else bind (send_key e (mki_worker key) (Send_Set (mki_workspace key) (mki_alias key) secret)) (\<lambda>delivered.
         if \<not> delivered
         then andThen (revokeOne e (mki_id key) Lost ''MODEL_KEY_DELIVERY_FAILED'') (pure Key_Unavailable)
         else pure Key_Available))"

definition note_down :: "gateway_code \<Rightarrow> ('n, unit) km" where
  "note_down code =
     (if code = Gateway_Unreachable then set_field (\<lambda>w. w\<lparr>kw_down := True\<rparr>) else pure ())"

definition issue_key :: "'n key_env \<Rightarrow> model_key_issue \<Rightarrow> ('n, key_availability) km" where
  "issue_key e key =
     bind (try_catch (bind (obtain_secret e key) (\<lambda>secret. pure (Inr secret)))
         (\<lambda>x. pure (Inl (gatewayErrorCode x)))) (\<lambda>r.
       case r of
         Inl code \<Rightarrow>
           andThen (note_down code)
           (andThen (revokeOne e (mki_id key) Issue_Failed (gateway_code_text code))
           (pure Key_Unavailable))
       | Inr secret \<Rightarrow> deliver_key e key secret)"

definition issue_event :: "begin_issue_result \<Rightarrow> key_action" where
  "issue_event r = (case r of Issue_ISSUING key \<Rightarrow> Issue_Begun key | _ \<Rightarrow> Nothing_Done)"

definition begin_issue :: "'n key_env \<Rightarrow> string \<Rightarrow> issue_reason \<Rightarrow> ('n, begin_issue_result) km" where
  "begin_issue e workspaceId reason =
     bind (the_field (ke_new_id e)) (\<lambda>keyId.
       external (recorded issue_event) (stored e (\<lambda>t. beginModelKeyIssue t keyId workspaceId reason)))"

definition ensureWorkspaceKey :: "'n key_env \<Rightarrow> string \<Rightarrow> issue_reason \<Rightarrow> ('n, key_availability) km" where
  "ensureWorkspaceKey e workspaceId reason =
     bind (try_catch (bind (begin_issue e workspaceId reason) (\<lambda>r. pure (Some r))) (\<lambda>_. pure None)) (\<lambda>begun.
       case begun of
         Some (Issue_ALREADY_LIVE keyAlias status) \<Rightarrow>
           pure (if status = Key_Active then Key_Available else Key_Unavailable)
       | Some (Issue_ISSUING key) \<Rightarrow> issue_key e key
       | _ \<Rightarrow> pure Key_Unavailable)"

section \<open>What a Worker holds\<close>

text \<open>\<open>new Map(pairs)\<close>: the last of equal keys.\<close>

definition last_entry :: "('k \<times> 'v) list \<Rightarrow> 'k \<Rightarrow> 'v option" where
  "last_entry kvs = map_of (rev kvs)"

definition expected_alias :: "(string \<times> string \<times> string) list \<Rightarrow> string \<Rightarrow> string option" where
  "expected_alias active = last_entry (map (\<lambda>(keyId, wid, keyAlias). (wid, keyAlias)) active)"

definition clear_unexpected ::
  "'n key_env \<Rightarrow> string \<Rightarrow> (string \<times> string \<times> string) list \<Rightarrow> string \<times> string \<Rightarrow> ('n, unit) km" where
  "clear_unexpected e workerId active holding =
     (case holding of (wid, keyAlias) \<Rightarrow>
        if expected_alias active wid \<noteq> Some keyAlias
        then bind (send_key e workerId (Send_Clear wid keyAlias)) (\<lambda>_. pure ()) else pure ())"

definition lost_keys :: "(string \<times> string \<times> string) list \<Rightarrow> (string \<times> string) list \<Rightarrow> string list" where
  "lost_keys active held =
     map fst (filter (\<lambda>(keyId, wid, keyAlias). last_entry held wid \<noteq> Some keyAlias) active)"

definition reconcileWorker :: "'n key_env \<Rightarrow> string \<Rightarrow> (string \<times> string) list \<Rightarrow> ('n, unit) km" where
  "reconcileWorker e workerId held =
     bind (external (recorded Active_Listed)
             (stored e (\<lambda>t d. (listActiveModelKeysForWorker workerId d, d)))) (\<lambda>active.
     andThen (for_all (clear_unexpected e workerId active) held)
     (andThen (if lost_keys active held \<noteq> []
        then bind (ask_revoke e (revoke_key_request (lost_keys active held) Lost ''MODEL_KEY_NOT_HELD''))
               (\<lambda>_. pure ())
        else pure ())
     kick))"

section \<open>Maintenance\<close>

definition record_result :: "'n key_env \<Rightarrow> string \<Rightarrow> revoke_result \<Rightarrow> ('n, unit) km" where
  "record_result e keyId r =
     external (recorded (\<lambda>_. Revocation_Recorded keyId r))
       (stored e (\<lambda>t d. ((), recordModelKeyRevokeResult t keyId r d)))"

definition stop_using :: "'n key_env \<Rightarrow> pending_revocation \<Rightarrow> ('n, unit) km" where
  "stop_using e p =
     (case (pr_workspace p, pr_worker p) of
        (Some wid, Some workerId) \<Rightarrow>
          bind (the_field (ke_connected e workerId)) (\<lambda>online.
            if online then bind (send_key e workerId (Send_Clear wid (pr_alias p))) (\<lambda>_. pure ()) else pure ())
      | _ \<Rightarrow> pure ())"

definition revoke_pending :: "'n key_env \<Rightarrow> pending_revocation \<Rightarrow> ('n, unit) km" where
  "revoke_pending e p =
     andThen (stop_using e p)
     (try_catch
       (andThen (external (recorded (\<lambda>_. Gateway_Deleted (pr_alias p))) (ke_delete e (pr_alias p)))
          (record_result e (pr_id p) Revoke_Ok))
       (\<lambda>x. andThen (note_down (gatewayErrorCode x))
          (record_result e (pr_id p) (Revoke_Failed (gateway_code_text (gatewayErrorCode x))))))"

text \<open>\<open>for .. of\<close> over the Workspaces without a key, left as soon as the gateway is known to be down.\<close>

fun issue_needed :: "'n key_env \<Rightarrow> (string \<times> string option) list \<Rightarrow> ('n, unit) km" where
  "issue_needed e [] = pure ()"
| "issue_needed e ((wid, workerId) # rest) =
     bind (the_field (\<lambda>w. case workerId of None \<Rightarrow> False | Some k \<Rightarrow> ke_connected e k w)) (\<lambda>online.
       if \<not> online then issue_needed e rest
       else bind (ensureWorkspaceKey e wid Reissue) (\<lambda>_.
         bind (the_field kw_down) (\<lambda>down. if down then pure () else issue_needed e rest)))"

definition ISSUE_STALE_MS :: instant where "ISSUE_STALE_MS = 60000"

definition maintenance_pass :: "'n key_env \<Rightarrow> ('n, unit) km" where
  "maintenance_pass e =
     bind (observe (stored e (\<lambda>t. expireStaleModelKeyIssues t (t - ISSUE_STALE_MS)))) (\<lambda>_.
     bind (external (recorded Due_Listed)
             (stored e (\<lambda>t d. (listDueModelKeyRevocations t 50 d, d)))) (\<lambda>due.
     andThen (for_all (revoke_pending e) due)
     (bind (the_field kw_down) (\<lambda>down.
        if down then pure ()
        else bind (observe (stored e (\<lambda>t d. (listWorkspacesNeedingModelKey 20 d, d)))) (issue_needed e)))))"

text \<open>One round of the loop of \<open>processPending\<close>: it never throws.\<close>

definition guarded_pass :: "'n key_env \<Rightarrow> ('n, unit) km" where
  "guarded_pass e =
     andThen (set_field (\<lambda>w. w\<lparr>kw_again := False, kw_in_pass := True, kw_down := False\<rparr>))
     (try_finally
       (try_catch (maintenance_pass e)
         (\<lambda>_. external (\<lambda>_. Maintenance_Failed) (\<lambda>w. (Inr (), w))))
       (set_field (\<lambda>w. w\<lparr>kw_in_pass := False\<rparr>)))"

text \<open>At most one more pass for requests that arrived meanwhile; a request during a run only asks for it.\<close>

definition processPending :: "'n key_env \<Rightarrow> ('n, unit) km" where
  "processPending e =
     bind (the_field kw_running) (\<lambda>running.
       if running then set_field (\<lambda>w. w\<lparr>kw_again := True\<rparr>)
       else
         andThen (set_field (\<lambda>w. w\<lparr>kw_running := True\<rparr>))
         (andThen (guarded_pass e)
         (bind (the_field kw_again) (\<lambda>again.
          andThen (if again then guarded_pass e else pure ())
            (set_field (\<lambda>w. w\<lparr>kw_running := False\<rparr>))))))"

definition rotate_request :: "string option \<Rightarrow> string option \<Rightarrow> string \<Rightarrow> string \<Rightarrow> revoke_request" where
  "rotate_request userId workspaceId actor requestId =
     \<lparr>rr_keys = None, rr_workspace = workspaceId, rr_user = userId, rr_reason = By_Admin, rr_error = None,
      rr_actor = Some actor, rr_request = Some requestId\<rparr>"

definition rotate_keys ::
  "'n key_env \<Rightarrow> string option \<Rightarrow> string option \<Rightarrow> string \<Rightarrow> string \<Rightarrow> ('n, nat) km" where
  "rotate_keys e userId workspaceId actor requestId =
     bind (ask_revoke e (rotate_request userId workspaceId actor requestId)) (\<lambda>revoked.
     andThen (processPending e) (pure revoked))"

section \<open>Model access of a Workspace\<close>

definition recordModelConfig ::
  "string \<Rightarrow> model_config_result option \<Rightarrow> (string \<times> model_config_result) list
   \<Rightarrow> (string \<times> model_config_result) list" where
  "recordModelConfig workspaceId result configs =
     (case result of
        None \<Rightarrow> configs
      | Some r \<Rightarrow> if r = Unchanged_Running then configs else map_set workspaceId r configs)"

datatype model_access = Access_Available | Access_Pending | Access_Unavailable string

definition access_entry ::
  "model_config_result option \<Rightarrow> workspace_key_state option \<Rightarrow> ws_state \<Rightarrow> model_access" where
  "access_entry config state workspace =
     (if config = Some User_Config_Invalid then Access_Unavailable ''USER_CONFIG_INVALID''
      else
        case state of
          Some s \<Rightarrow>
            if wks_status s = Some Key_Active \<and> wks_relay s then Access_Available
            else if \<not> wks_relay s \<and> workspace \<noteq> CREATED then Access_Unavailable ''MODEL_RELAY_DISABLED''
            else if workspace = RUNNING then Access_Unavailable ''MODEL_KEY_PENDING''
            else Access_Pending
        | None \<Rightarrow>
            if workspace = RUNNING then Access_Unavailable ''MODEL_KEY_PENDING'' else Access_Pending)"

definition access_entries ::
  "(string \<times> model_config_result) list \<Rightarrow> workspace_key_state list \<Rightarrow> (string \<times> ws_state) list
   \<Rightarrow> (string \<times> model_access) list" where
  "access_entries configs states workspaces =
     fold (\<lambda>(wid, state) access.
         map_set wid (access_entry (map_of configs wid)
           (last_entry (map (\<lambda>s. (wks_workspace s, s)) states) wid) state) access)
       workspaces []"

definition workspaceAccess ::
  "'n key_env \<Rightarrow> (string \<times> ws_state) list \<Rightarrow> ('n, (string \<times> model_access) list) km" where
  "workspaceAccess e workspaces =
     bind (observe (stored e (\<lambda>t d. (listWorkspaceModelKeyStates (map fst workspaces) d, d)))) (\<lambda>states.
     bind (the_field kw_configs) (\<lambda>configs.
       pure (access_entries configs states workspaces)))"

section \<open>Usage, budgets and status\<close>

definition USAGE_TTL_MS :: instant where "USAGE_TTL_MS = 60000"

definition GATEWAY_MODELS_TTL_MS :: instant where "GATEWAY_MODELS_TTL_MS = 600000"

datatype usage_answer = Usage_Known "model_usage option" | Usage_Unavailable

definition cached_usage :: "instant \<Rightarrow> string \<Rightarrow> 'n key_world \<Rightarrow> model_usage option option" where
  "cached_usage now userId w =
     (case map_of (kw_usage w) userId of
        None \<Rightarrow> None | Some (since, u) \<Rightarrow> if now - since < USAGE_TTL_MS then Some u else None)"

definition gateway_usage :: "'n key_env \<Rightarrow> string \<Rightarrow> ('n, usage_answer) km" where
  "gateway_usage e userId =
     bind (the_field (\<lambda>w. cached_usage (ke_now e w) userId w)) (\<lambda>cached.
       case cached of
         Some u \<Rightarrow> pure (Usage_Known u)
       | None \<Rightarrow>
           try_catch
             (bind (observe (ke_user_usage e userId)) (\<lambda>u.
              andThen (set_field (\<lambda>w. w\<lparr>kw_usage := map_set userId (ke_now e w, u) (kw_usage w)\<rparr>))
              (pure (Usage_Known u))))
             (\<lambda>_. pure Usage_Unavailable))"

definition applyBudget :: "'n key_env \<Rightarrow> string \<Rightarrow> ('n, bool) km" where
  "applyBudget e userId =
     try_catch
       (bind (observe (stored e (\<lambda>t d. (findUserModelBudget userId d, d)))) (\<lambda>(found, budget).
          if \<not> found then pure False
          else andThen (ensure_gateway_user e userId (budget_of e budget))
            (andThen (set_field (\<lambda>w. w\<lparr>kw_usage := map_delete userId (kw_usage w)\<rparr>)) (pure True))))
       (\<lambda>_. pure False)"

definition cached_models :: "instant \<Rightarrow> 'n key_world \<Rightarrow> string list option option" where
  "cached_models now w =
     (case kw_models w of
        None \<Rightarrow> None | Some (since, models) \<Rightarrow> if now - since < GATEWAY_MODELS_TTL_MS then Some models else None)"

definition gatewayModelNames :: "'n key_env \<Rightarrow> ('n, string list option) km" where
  "gatewayModelNames e =
     bind (the_field (\<lambda>w. cached_models (ke_now e w) w)) (\<lambda>cached.
       case cached of
         Some models \<Rightarrow> pure models
       | None \<Rightarrow>
           bind (try_catch (bind (observe (ke_list_models e)) (\<lambda>models. pure (Some models)))
                  (\<lambda>_. pure None)) (\<lambda>models.
           andThen (set_field (\<lambda>w. w\<lparr>kw_models := Some (ke_now e w, models)\<rparr>)) (pure models)))"

record gateway_status =
  gst_reachable :: bool
  gst_provider :: string
  gst_catalog :: "(json \<times> json \<times> bool option) list"
  gst_overview :: model_key_overview

definition gateway_status_of :: "'n key_env \<Rightarrow> ('n, gateway_status) km" where
  "gateway_status_of e =
     bind (gatewayModelNames e) (\<lambda>models.
     bind (observe (stored e (\<lambda>t d. (modelKeyOverview d, d)))) (\<lambda>overview.
       pure \<lparr>gst_reachable = (models \<noteq> None), gst_provider = mg_provider (ke_catalog e),
             gst_catalog = map (\<lambda>m. (field ''id'' m, field ''name'' m,
                 map_option (\<lambda>names. \<exists>n \<in> set names. field ''id'' m = JStr n) models))
               (mg_models (ke_catalog e)),
             gst_overview = overview\<rparr>))"

end
