(* ===== verification/KeySafety.thy ===== *)
theory KeySafety
  imports KeyManager Demo
begin

text \<open>
  In which order the key manager touches the gateway, the database and the Workers, whatever they answer
  and whoever else writes to the database in between; and what an issue that did not deliver leaves behind.
\<close>

section \<open>The order of events\<close>

text \<open>
  What each event needs before it: a secret is generated only for a key that was reserved, after the
  owner exists at the gateway; it becomes active after it was generated; it is sent after it became
  active, to the Worker and for the Workspace it was reserved for. A key is deleted, and a revocation
  recorded, only for a row that was due, and as done only after the gateway deleted it. A Worker is told
  to drop a key only when the row is due or the key is not the active one of the Workspace.
\<close>

definition due_row :: "key_action list \<Rightarrow> pending_revocation \<Rightarrow> bool" where
  "due_row es p \<longleftrightarrow> (\<exists>due. Due_Listed due \<in> set es \<and> p \<in> set due)"

definition generated :: "key_action list \<Rightarrow> model_key_issue \<Rightarrow> string \<Rightarrow> bool" where
  "generated es key secret \<longleftrightarrow>
     Issue_Begun key \<in> set es \<and> (\<exists>budget. User_Ensured (mki_user key) budget \<in> set es) \<and>
     Key_Generated (mki_alias key) secret \<in> set es"

fun key_law :: "key_action list \<Rightarrow> key_action \<Rightarrow> bool" where
  "key_law es (Key_Generated keyAlias secret) \<longleftrightarrow>
     (\<exists>key budget. Issue_Begun key \<in> set es \<and> mki_alias key = keyAlias \<and>
        User_Ensured (mki_user key) budget \<in> set es)"
| "key_law es (Activation_Recorded keyId activated) \<longleftrightarrow>
     (\<exists>key secret. generated es key secret \<and> mki_id key = keyId)"
| "key_law es (Command_Sent workerId (Send_Set wid keyAlias secret)) \<longleftrightarrow>
     (\<exists>key. generated es key secret \<and> Activation_Recorded (mki_id key) True \<in> set es \<and>
        mki_worker key = workerId \<and> mki_workspace key = wid \<and> mki_alias key = keyAlias)"
| "key_law es (Command_Sent workerId (Send_Clear wid keyAlias)) \<longleftrightarrow>
     (\<exists>p. due_row es p \<and> pr_alias p = keyAlias \<and> pr_workspace p = Some wid \<and> pr_worker p = Some workerId) \<or>
     (\<exists>active. Active_Listed active \<in> set es \<and> expected_alias active wid \<noteq> Some keyAlias)"
| "key_law es (Gateway_Deleted keyAlias) \<longleftrightarrow> (\<exists>p. due_row es p \<and> pr_alias p = keyAlias)"
| "key_law es (Revocation_Recorded keyId r) \<longleftrightarrow>
     (\<exists>p. due_row es p \<and> pr_id p = keyId \<and> (r = Revoke_Ok \<longrightarrow> Gateway_Deleted (pr_alias p) \<in> set es))"
| "key_law es _ \<longleftrightarrow> True"

lemma due_row_kept: "kept J es fs \<Longrightarrow> due_row es p \<Longrightarrow> due_row fs p"
  by (auto simp: due_row_def dest: kept_set)

lemma generated_kept: "kept J es fs \<Longrightarrow> generated es key secret \<Longrightarrow> generated fs key secret"
  by (auto simp: generated_def dest: kept_set)

lemma obeys_any: "obeys J m Q es \<Longrightarrow> obeys J m (\<lambda>_ _. True) es"
  by (erule obeys_weaken) simp

text \<open>An operation of the world that leaves an event, and says in its result what that event was.\<close>

lemma obeys_recorded:
  assumes "J es Nothing_Done" "\<And>a. J es (ev a)" "\<And>a. Q a (es @ [ev a])"
  shows "obeys J (external (recorded ev) f) Q es"
  by (rule obeys_external) (auto simp: recorded_def assms split: sum.split)

lemma obeys_field [lawful]: "(\<And>a. Q a es) \<Longrightarrow> obeys J (the_field f) Q es"
  unfolding the_field_def by (rule obeys_observe)

lemma obeys_set_field [lawful]: "Q () es \<Longrightarrow> obeys J (set_field f) Q es"
  unfolding set_field_def by (rule obeys_observe) simp

text \<open>Actions that leave only events every trace allows.\<close>

named_theorems harmless "actions that keep the order whatever happened before"

lemma kick_harmless [harmless]: "obeys key_law kick (\<lambda>_ _. True) es"
  unfolding kick_def
  by (rule obeys_bind [where P = "\<lambda>_ _. True"]) (auto intro: obeys_field obeys_pure obeys_external)

lemma ask_revoke_harmless [harmless]: "obeys key_law (ask_revoke e r) (\<lambda>_ _. True) es"
  unfolding ask_revoke_def by (rule obeys_external) simp_all

lemma revokeOne_harmless [harmless]: "obeys key_law (revokeOne e keyId reason errorCode) (\<lambda>_ _. True) es"
  unfolding revokeOne_def
  by (rule obeys_andThen [where P = "\<lambda>_ _. True"], rule obeys_try_catch,
      rule obeys_bind [OF ask_revoke_harmless]) (auto intro: obeys_pure harmless)

lemma note_down_harmless [harmless]: "obeys key_law (note_down code) (\<lambda>_ _. True) es"
  unfolding note_down_def by (auto intro: obeys_set_field obeys_pure)

lemma set_field_harmless [harmless]: "obeys key_law (set_field f) (\<lambda>_ _. True) es"
  by (rule obeys_set_field) simp

lemma observe_harmless [harmless]: "obeys key_law (observe f) (\<lambda>_ _. True) es"
  by (rule obeys_observe) simp

lemmas any_bind = obeys_bind [where P = "\<lambda>_ _. True"]

lemmas any_andThen = obeys_andThen [where P = "\<lambda>_ _. True"]

lemma obeys_send_key:
  assumes "key_law es (Command_Sent workerId command)"
  shows "obeys key_law (send_key e workerId command) (\<lambda>_ _. True) es"
  unfolding send_key_def by (rule obeys_external) (use assms in simp_all)

section \<open>Issuing\<close>

lemma obeys_begin_issue:
  "obeys key_law (begin_issue e workspaceId reason)
     (\<lambda>r fs. \<forall>key. r = Issue_ISSUING key \<longrightarrow> Issue_Begun key \<in> set fs) es"
  unfolding begin_issue_def
  by (rule obeys_bind [where P = "\<lambda>_ _. True"], rule obeys_field, simp, rule obeys_recorded)
    (auto simp: issue_event_def split: begin_issue_result.splits)

lemma obeys_ensure_user:
  "obeys key_law (ensure_gateway_user e userId budget) (\<lambda>_ fs. User_Ensured userId budget \<in> set fs) es"
  unfolding ensure_gateway_user_def by (rule obeys_recorded) auto

lemma obeys_obtain_secret:
  assumes "Issue_Begun key \<in> set es"
  shows "obeys key_law (obtain_secret e key) (\<lambda>secret fs. generated fs key secret) es"
  unfolding obtain_secret_def
proof (rule any_bind, rule observe_harmless, goal_cases)
  case (1 x fs)
  obtain found budget where x: "x = (found, budget)" by (cases x)
  have "obeys key_law (external (recorded (Key_Generated (mki_alias key))) g)
      (\<lambda>secret gs. generated gs key secret) gs"
    if "kept key_law fs gs" "User_Ensured (mki_user key) (budget_of e budget) \<in> set gs" for g gs
    using that kept_set [OF that(1) kept_set [OF 1(1) assms]]
    by (intro obeys_recorded) (auto simp: generated_def)
  then show ?case unfolding x by (simp, intro obeys_andThen [OF obeys_ensure_user])
qed

lemma obeys_deliver_key:
  assumes "generated es key secret"
  shows "obeys key_law (deliver_key e key secret) (\<lambda>_ _. True) es"
  unfolding deliver_key_def
proof (rule obeys_bind [where P = "\<lambda>a fs. Activation_Recorded (mki_id key) a \<in> set fs"], goal_cases)
  case 1
  show ?case by (rule obeys_recorded) (use assms in auto)
next
  case (2 activated fs)
  have gen: "generated fs key secret" by (rule generated_kept [OF 2(1) assms])
  show ?case
  proof (cases activated)
    case False
    then show ?thesis
      by (simp, intro any_andThen harmless obeys_pure) simp
  next
    case True
    have "key_law fs (Command_Sent (mki_worker key) (Send_Set (mki_workspace key) (mki_alias key) secret))"
      using gen 2(2) True by auto
    note sent = obeys_send_key [OF this]
    show ?thesis
      using True by (simp, intro any_bind [OF sent]) (auto intro!: any_andThen harmless obeys_pure)
  qed
qed

lemma obeys_issue_key:
  assumes "Issue_Begun key \<in> set es"
  shows "obeys key_law (issue_key e key) (\<lambda>_ _. True) es"
  unfolding issue_key_def
proof (rule obeys_bind [where P = "\<lambda>r fs. \<forall>secret. r = Inr secret \<longrightarrow> generated fs key secret"], goal_cases)
  case 1
  show ?case
    by (rule obeys_try_catch, rule obeys_bind [OF obeys_obtain_secret [OF assms]]) (auto intro: obeys_pure)
next
  case (2 r fs)
  then show ?case
    by (cases r) (auto intro!: any_andThen obeys_pure obeys_deliver_key harmless)
qed

lemma obeys_ensureWorkspaceKey: "obeys key_law (ensureWorkspaceKey e workspaceId reason) (\<lambda>_ _. True) es"
  unfolding ensureWorkspaceKey_def
proof (rule obeys_bind [where P = "\<lambda>r fs. \<forall>key. r = Some (Issue_ISSUING key) \<longrightarrow> Issue_Begun key \<in> set fs"],
    goal_cases)
  case 1
  show ?case
    by (rule obeys_try_catch, rule obeys_bind [OF obeys_begin_issue]) (auto intro: obeys_pure)
next
  case (2 begun fs)
  then show ?case
    by (auto intro!: obeys_pure obeys_issue_key split: option.split begin_issue_result.split)
qed

section \<open>Reconciling with a Worker\<close>

lemma obeys_clear_unexpected:
  assumes "Active_Listed active \<in> set es"
  shows "obeys key_law (clear_unexpected e workerId active holding) (\<lambda>_ _. True) es"
proof (cases holding)
  case (Pair wid keyAlias)
  show ?thesis
    unfolding clear_unexpected_def Pair prod.case
    by (rule obeys_if, rule any_bind [OF obeys_send_key])
      (use assms in \<open>auto intro: obeys_pure\<close>)
qed

lemma obeys_reconcileWorker: "obeys key_law (reconcileWorker e workerId held) (\<lambda>_ _. True) es"
  unfolding reconcileWorker_def
proof (rule obeys_bind [where P = "\<lambda>active fs. Active_Listed active \<in> set fs"], goal_cases)
  case 1
  show ?case by (rule obeys_recorded) auto
next
  case (2 active fs)
  have cleared: "obeys key_law (for_all (clear_unexpected e workerId active) held) (\<lambda>_ _. True) fs"
    by (rule obeys_for_all, rule obeys_clear_unexpected) (auto intro: kept_set 2(2))
  show ?case
    by (rule any_andThen [OF cleared], rule any_andThen) (auto intro!: any_bind harmless obeys_pure)
qed

section \<open>Maintenance\<close>

lemma obeys_stop_using:
  assumes "due_row es p"
  shows "obeys key_law (stop_using e p) (\<lambda>_ _. True) es"
proof -
  have sent: "obeys key_law (send_key e workerId (Send_Clear wid (pr_alias p))) (\<lambda>_ _. True) fs"
    if "kept key_law es fs" "pr_workspace p = Some wid" "pr_worker p = Some workerId" for fs wid workerId
    by (rule obeys_send_key) (use that due_row_kept [OF that(1) assms] in auto)
  show ?thesis
    unfolding stop_using_def
    by (auto intro!: any_bind [OF obeys_field] any_bind [OF sent] obeys_pure split: option.split)
qed

lemma obeys_record_result:
  assumes "due_row es p" "r = Revoke_Ok \<Longrightarrow> Gateway_Deleted (pr_alias p) \<in> set es"
  shows "obeys key_law (record_result e (pr_id p) r) (\<lambda>_ _. True) es"
  unfolding record_result_def by (rule obeys_recorded) (use assms in auto)

lemma obeys_revoke_pending:
  assumes "due_row es p"
  shows "obeys key_law (revoke_pending e p) (\<lambda>_ _. True) es"
  unfolding revoke_pending_def
proof (rule any_andThen [OF obeys_stop_using [OF assms]], rule obeys_try_catch, goal_cases)
  case (1 fs)
  have due: "due_row fs p" by (rule due_row_kept [OF 1(1) assms])
  show ?case
    by (rule obeys_andThen [where P = "\<lambda>_ gs. Gateway_Deleted (pr_alias p) \<in> set gs"], rule obeys_recorded)
      (use due in \<open>auto intro: obeys_record_result due_row_kept\<close>)
next
  case (2 fs x gs)
  have "due_row gs p" by (rule due_row_kept [OF 2(3) due_row_kept [OF 2(1) assms]])
  then show ?case
    by (intro any_andThen [OF note_down_harmless] obeys_record_result) (auto intro: due_row_kept)
qed

lemma obeys_issue_needed: "obeys key_law (issue_needed e needed) (\<lambda>_ _. True) es"
proof (induction needed arbitrary: es)
  case Nil
  then show ?case by (simp add: obeys_pure)
next
  case (Cons a needed)
  obtain wid workerId where a: "a = (wid, workerId)" by (cases a)
  have rest: "obeys key_law (bind (the_field kw_down) (\<lambda>down. if down then pure () else issue_needed e needed))
      (\<lambda>_ _. True) fs" for fs
    by (rule any_bind [OF obeys_field], simp, rule obeys_if) (simp_all add: obeys_pure Cons.IH)
  show ?case
    unfolding a issue_needed.simps
    by (rule any_bind [OF obeys_field], simp, rule obeys_if, rule Cons.IH,
        rule any_bind [OF obeys_ensureWorkspaceKey rest])
qed

lemma obeys_maintenance_pass: "obeys key_law (maintenance_pass e) (\<lambda>_ _. True) es"
  unfolding maintenance_pass_def
proof (rule any_bind [OF observe_harmless], rule obeys_bind [where P = "\<lambda>due fs. Due_Listed due \<in> set fs"],
    goal_cases)
  case (1 x fs)
  show ?case by (rule obeys_recorded) auto
next
  case (2 x fs due gs)
  have revoked: "obeys key_law (for_all (revoke_pending e) due) (\<lambda>_ _. True) gs"
    by (rule obeys_for_all, rule obeys_revoke_pending) (auto simp: due_row_def intro!: exI [of _ due] intro: kept_set 2(4))
  show ?case
    by (rule any_andThen [OF revoked], rule any_bind [OF obeys_field], simp)
      (auto intro!: any_bind [OF observe_harmless] obeys_issue_needed obeys_pure)
qed

lemma obeys_guarded_pass: "obeys key_law (guarded_pass e) (\<lambda>_ _. True) es"
  unfolding guarded_pass_def
  by (rule any_andThen [OF set_field_harmless], rule obeys_try_finally [where P = "\<lambda>_ _. True"],
      rule obeys_try_catch [OF obeys_maintenance_pass])
    (auto intro: harmless obeys_external)

lemma obeys_processPending: "obeys key_law (processPending e) (\<lambda>_ _. True) es"
  unfolding processPending_def
  by (rule any_bind [OF obeys_field], simp)
    (auto intro!: any_andThen [OF set_field_harmless] any_andThen [OF obeys_guarded_pass]
      any_andThen any_bind [OF obeys_field] harmless obeys_guarded_pass obeys_pure)

section \<open>What callers ask of the manager\<close>

datatype key_request =
    Ensure_Key string
  | Reconcile_Worker string "(string \<times> string) list"
  | Run_Maintenance
  | Rotate_Keys "string option" "string option" string string
  | Apply_Budget string

fun serve_keys :: "'n key_env \<Rightarrow> key_request \<Rightarrow> ('n, unit) km" where
  "serve_keys e (Ensure_Key wid) = bind (ensureWorkspaceKey e wid Start) (\<lambda>_. pure ())"
| "serve_keys e (Reconcile_Worker workerId held) = reconcileWorker e workerId held"
| "serve_keys e Run_Maintenance = processPending e"
| "serve_keys e (Rotate_Keys userId workspaceId actor requestId) =
     bind (rotate_keys e userId workspaceId actor requestId) (\<lambda>_. pure ())"
| "serve_keys e (Apply_Budget userId) = bind (applyBudget e userId) (\<lambda>_. pure ())"

lemma obeys_rotate_keys: "obeys key_law (rotate_keys e u w actor requestId) (\<lambda>_ _. True) es"
  unfolding rotate_keys_def
  by (rule any_bind [OF ask_revoke_harmless], rule any_andThen [OF obeys_processPending]) (simp add: obeys_pure)

lemma obeys_applyBudget: "obeys key_law (applyBudget e userId) (\<lambda>_ _. True) es"
  unfolding applyBudget_def
  by (rule obeys_try_catch, rule any_bind [OF observe_harmless])
    (auto intro!: any_andThen [OF obeys_weaken [OF obeys_ensure_user]] any_andThen [OF set_field_harmless]
      obeys_pure)

lemma obeys_serve_keys: "obeys key_law (serve_keys e q) (\<lambda>_ _. True) es"
  by (cases q) (auto intro: any_bind obeys_ensureWorkspaceKey obeys_rotate_keys obeys_applyBudget
      obeys_reconcileWorker obeys_processPending obeys_pure)

section \<open>Keys that were not delivered\<close>

text \<open>
  An issue that was begun ends in one of three ways: it says that the key is available, after it was sent
  to its Worker; the key was no longer being issued when it should become active; or its revocation was
  asked for. The revocation itself may fail to be recorded; the row then stays as it is until the pass that
  expires stale issues, or until its Worker reconciles.
\<close>

definition settled :: "model_key_issue \<Rightarrow> key_availability \<Rightarrow> key_action list \<Rightarrow> bool" where
  "settled key v es \<longleftrightarrow>
     (if v = Key_Available
      then \<exists>secret. Command_Sent (mki_worker key) (Send_Set (mki_workspace key) (mki_alias key) secret) \<in> set es
      else Activation_Recorded (mki_id key) False \<in> set es \<or>
        (\<exists>reason code. Revoke_Asked (revoke_key_request [mki_id key] reason code) \<in> set es))"

definition reserved :: "key_action list \<Rightarrow> model_key_issue list" where
  "reserved es = List.map_filter (\<lambda>ev. case ev of Issue_Begun key \<Rightarrow> Some key | _ \<Rightarrow> None) es"

lemma reserved_simps [simp]:
  "reserved [] = []" "reserved (es @ fs) = reserved es @ reserved fs"
  "reserved (ev # es) = (case ev of Issue_Begun key \<Rightarrow> [key] | _ \<Rightarrow> []) @ reserved es"
  by (auto simp: reserved_def List.map_filter_def split: key_action.split)

lemma reserved_recorded [simp]:
  "(\<And>a. reserved [ev a] = []) \<Longrightarrow> reserved [recorded ev r] = []"
  by (cases r) (simp_all add: recorded_def)

text \<open>The events of one issue, on the trace that has only its reservation.\<close>

lemma kick_ensures [ensures]:
  "Q () es \<Longrightarrow> Q () (es @ [Pass_Kicked]) \<Longrightarrow> (\<And>x. E x es) \<Longrightarrow> (\<And>x. E x (es @ [Pass_Kicked])) \<Longrightarrow> ensures kick Q E es"
  unfolding kick_def the_field_def by (auto intro!: ensures)

definition settles_issue :: "model_key_issue \<Rightarrow> key_availability \<Rightarrow> key_action list \<Rightarrow> bool" where
  "settles_issue key v es \<longleftrightarrow> settled key v es \<and> reserved es = [key]"

lemma revokeOne_settles:
  assumes "reserved es = [key]"
  shows "ensures (andThen (revokeOne e (mki_id key) reason code) (pure Key_Unavailable))
    (settles_issue key) (\<lambda>_ _. True) es"
proof -
  have asked: "settles_issue key Key_Unavailable (es @ Revoke_Asked (revoke_key_request [mki_id key] reason code) # rest)"
    if "reserved rest = []" for rest
    using assms that unfolding settles_issue_def settled_def by auto
  show ?thesis
    unfolding revokeOne_def ask_revoke_def by (auto intro!: ensures asked)
qed

lemma deliver_settles:
  assumes "reserved es = [key]"
  shows "ensures (deliver_key e key secret) (settles_issue key) (\<lambda>_ _. True) es"
  unfolding deliver_key_def send_key_def
  by (auto intro!: ensures revokeOne_settles simp: settles_issue_def settled_def assms recorded_def)

lemma issue_settles:
  assumes "reserved es = [key]"
  shows "ensures (issue_key e key) (settles_issue key) (\<lambda>_ _. True) es"
proof -
  have failed: "ensures (andThen (note_down code)
      (andThen (revokeOne e (mki_id key) Issue_Failed (gateway_code_text code)) (pure Key_Unavailable)))
      (settles_issue key) (\<lambda>_ _. True) fs" if "reserved fs = [key]" for code fs
    unfolding note_down_def set_field_def by (auto intro!: ensures revokeOne_settles that)
  show ?thesis
    unfolding issue_key_def obtain_secret_def ensure_gateway_user_def
    by (auto intro!: ensures failed deliver_settles simp: assms recorded_def split: prod.split)
qed

lemma ensureWorkspaceKey_settles:
  "ensures (ensureWorkspaceKey e workspaceId reason)
     (\<lambda>v fs. case reserved fs of [] \<Rightarrow> True | [key] \<Rightarrow> settled key v fs | _ \<Rightarrow> False) (\<lambda>_ _. True) []"
proof -
  have issued: "ensures (issue_key e key)
      (\<lambda>v fs. case reserved fs of [] \<Rightarrow> True | [key] \<Rightarrow> settled key v fs | _ \<Rightarrow> False) (\<lambda>_ _. True) es"
    if "reserved es = [key]" for key es
    by (rule ensures_mono [OF issue_settles [OF that]]) (auto simp: settles_issue_def)
  show ?thesis
    unfolding ensureWorkspaceKey_def begin_issue_def the_field_def
    by (auto intro!: ensures issued simp: recorded_def issue_event_def split: begin_issue_result.splits option.splits)
qed

section \<open>What a reconciliation sends\<close>

definition sent_commands :: "key_action list \<Rightarrow> (string \<times> key_command) list" where
  "sent_commands es =
     List.map_filter (\<lambda>ev. case ev of Command_Sent workerId command \<Rightarrow> Some (workerId, command) | _ \<Rightarrow> None) es"

definition asked_revocations :: "key_action list \<Rightarrow> revoke_request list" where
  "asked_revocations es = List.map_filter (\<lambda>ev. case ev of Revoke_Asked r \<Rightarrow> Some r | _ \<Rightarrow> None) es"

lemma sent_commands_simps [simp]:
  "sent_commands [] = []" "sent_commands (es @ fs) = sent_commands es @ sent_commands fs"
  "sent_commands (ev # es) =
     (case ev of Command_Sent workerId command \<Rightarrow> [(workerId, command)] | _ \<Rightarrow> []) @ sent_commands es"
  by (auto simp: sent_commands_def List.map_filter_def split: key_action.split)

lemma asked_revocations_simps [simp]:
  "asked_revocations [] = []" "asked_revocations (es @ fs) = asked_revocations es @ asked_revocations fs"
  "asked_revocations (ev # es) = (case ev of Revoke_Asked r \<Rightarrow> [r] | _ \<Rightarrow> []) @ asked_revocations es"
  by (auto simp: asked_revocations_def List.map_filter_def split: key_action.split)

definition unexpected_commands ::
  "string \<Rightarrow> (string \<times> string \<times> string) list \<Rightarrow> (string \<times> string) list \<Rightarrow> (string \<times> key_command) list" where
  "unexpected_commands workerId active held =
     map (\<lambda>(wid, keyAlias). (workerId, Send_Clear wid keyAlias))
       (filter (\<lambda>(wid, keyAlias). expected_alias active wid \<noteq> Some keyAlias) held)"

lemma clear_unexpected_sends:
  "ensures (for_each (clear_unexpected e workerId active) held)
     (\<lambda>_ fs. fs = es @ map (\<lambda>(k, c). Command_Sent k c) (unexpected_commands workerId active held))
     (\<lambda>_ _. True) es"
proof (induction held arbitrary: es)
  case Nil
  then show ?case by (simp add: unexpected_commands_def ensures_pure)
next
  case (Cons holding held)
  obtain wid keyAlias where holding: "holding = (wid, keyAlias)" by (cases holding)
  have rest: "ensures (bind (for_each (clear_unexpected e workerId active) held) (\<lambda>bs. pure (b # bs)))
      (\<lambda>_ fs. fs = es' @ map (\<lambda>(k, c). Command_Sent k c) (unexpected_commands workerId active held))
      (\<lambda>_ _. True) es'" for b es'
    by (rule ensures_bind, rule ensures_mono [OF Cons.IH]) (auto intro: ensures_pure)
  have next_rest: "ensures (bind (for_each (clear_unexpected e workerId active) held) (\<lambda>bs. pure (b # bs)))
      (\<lambda>_ fs. fs = es @ map (\<lambda>(k, c). Command_Sent k c) (unexpected_commands workerId active (holding # held)))
      (\<lambda>_ _. True) es'"
    if "es' = es @ (if expected_alias active wid \<noteq> Some keyAlias
                    then [Command_Sent workerId (Send_Clear wid keyAlias)] else [])" for b es'
    by (rule ensures_mono [OF rest]) (auto simp: that holding unexpected_commands_def)
  show ?case
    unfolding for_each.simps clear_unexpected_def holding prod.case send_key_def
    by (rule ensures_bind, rule ensures_if)
      (auto intro!: ensures_bind ensures_external ensures_pure next_rest [unfolded holding clear_unexpected_def send_key_def])
qed

lemma reconcile_sends:
  "ensures (reconcileWorker e workerId held)
     (\<lambda>_ fs. \<exists>active. Active_Listed active \<in> set fs \<and>
        sent_commands fs = unexpected_commands workerId active held \<and>
        asked_revocations fs = (if lost_keys active held = [] then []
          else [revoke_key_request (lost_keys active held) Lost ''MODEL_KEY_NOT_HELD'']))
     (\<lambda>_ _. True) []"
proof -
  have sent: "sent_commands (map (\<lambda>(k, c). Command_Sent k c) cs) = cs"
    "asked_revocations (map (\<lambda>(k, c). Command_Sent k c) cs) = []" for cs
    by (induction cs) auto
  have cleared: "ensures (for_all (clear_unexpected e workerId active) held) Q (\<lambda>_ _. True) es"
    if "Q () (es @ map (\<lambda>(k, c). Command_Sent k c) (unexpected_commands workerId active held))" for Q active es
    unfolding for_all_def
    by (rule ensures_bind, rule ensures_mono [OF clear_unexpected_sends]) (auto intro: ensures_pure that)
  let ?P = "\<lambda>active fs. Active_Listed active \<in> set fs \<and>
        sent_commands fs = unexpected_commands workerId active held \<and>
        asked_revocations fs = (if lost_keys active held = [] then []
          else [revoke_key_request (lost_keys active held) Lost ''MODEL_KEY_NOT_HELD''])"
  have kicked: "ensures kick (\<lambda>_ fs. \<exists>active. ?P active fs) (\<lambda>_ _. True) es" if "?P active es" for active es
    by (rule kick_ensures) (use that in \<open>auto intro: exI [of _ active]\<close>)
  have asked: "ensures (if lost_keys active held \<noteq> [] then bind (ask_revoke e
        (revoke_key_request (lost_keys active held) Lost ''MODEL_KEY_NOT_HELD'')) (\<lambda>_. pure ()) else pure ())
      (\<lambda>_. ?P active) (\<lambda>_ _. True)
      (Active_Listed active # map (\<lambda>(k, c). Command_Sent k c) (unexpected_commands workerId active held))" for active
    unfolding ask_revoke_def
    by (rule ensures_if, rule ensures_bind, rule ensures_external) (auto intro: ensures_pure simp: sent)
  have listed: "ensures (andThen (for_all (clear_unexpected e workerId active) held)
        (andThen (if lost_keys active held \<noteq> [] then bind (ask_revoke e
            (revoke_key_request (lost_keys active held) Lost ''MODEL_KEY_NOT_HELD'')) (\<lambda>_. pure ()) else pure ())
          kick)) (\<lambda>_ fs. \<exists>active. ?P active fs) (\<lambda>_ _. True) [Active_Listed active]" for active
    by (rule ensures_andThen, rule cleared, rule ensures_andThen, simp only: append.simps,
        rule ensures_mono [OF asked kicked])
  show ?thesis
    unfolding reconcileWorker_def
    by (rule ensures_bind, rule ensures_external) (simp_all add: recorded_def listed)
qed

section \<open>Properties\<close>

text \<open>C14. Whatever the gateway, the Workers and the database answer, and whatever else happens in between: a
virtual key is generated only for a reserved row of an owner the gateway knows, becomes active after that,
and is sent only then, to its own Worker for its own Workspace; a key is deleted at the gateway, and
recorded as revoked, only for a row that was due, and recorded only after the gateway deleted it; and a
Worker is told to drop a key only when its row is due or it is not the active one of its Workspace.\<close>

theorem virtual_keys_follow_order:
  assumes "serve_keys e q s = (r, t)" "trace t = trace s @ pre @ ev # post"
  shows "key_law (trace s @ pre) ev"
  by (rule obeys_at [OF obeys_serve_keys assms])


text \<open>Reconciling with a Worker tells it to drop exactly the keys it holds that are not the active ones of
their Workspaces, in the order it named them, and asks to revoke exactly the active keys it does not hold.\<close>

theorem reconciliation_clears_exactly:
  assumes "reconcileWorker e workerId held s = (Inr (), t)" "trace s = []"
  shows "\<exists>active. Active_Listed active \<in> set (trace t) \<and>
    sent_commands (trace t) = unexpected_commands workerId active held \<and>
    asked_revocations (trace t) = (if lost_keys active held = [] then []
      else [revoke_key_request (lost_keys active held) Lost ''MODEL_KEY_NOT_HELD''])"
  by (rule ensures_returns [OF reconcile_sends [folded assms(2)] assms(1)])

section \<open>Witnesses\<close>

text \<open>A gateway and a Worker that answer; \<open>sent\<close> says whether the Worker confirms a key.\<close>

definition demo_key_env :: "bool \<Rightarrow> unit key_env" where
  "demo_key_env sent =
     \<lparr>ke_statement = \<lambda>w. (False, w), ke_now = \<lambda>_. 6, ke_new_id = \<lambda>_. ''m1'',
      ke_ensure_user = \<lambda>_ _ w. (Inr (), w), ke_generate = \<lambda>_ _ _ w. (Inr ''sk-0123456789abcdef'', w),
      ke_delete = \<lambda>_ w. (Inr (), w), ke_list_models = \<lambda>w. (Inr [], w), ke_user_usage = \<lambda>_ w. (Inr None, w),
      ke_connected = \<lambda>_ _. True,
      ke_dispatch = \<lambda>_ command w. (if sent then Inr (case command of
            Send_Set wid keyAlias _ \<Rightarrow> Key_Answer wid (Some keyAlias) | Send_Clear wid _ \<Rightarrow> Key_Answer wid None)
          else Inl WORKER_COMMAND_TIMEOUT, w),
      ke_default_budget = None,
      ke_catalog = \<lparr>mg_provider = ''p'', mg_default = ''m'', mg_models = []\<rparr>\<rparr>"

definition key_start :: "db \<Rightarrow> (unit key_world, key_action) outside" where
  "key_start d =
     \<lparr>world = \<lparr>kw_db = d, kw_outside = (), kw_running = False, kw_again = False, kw_in_pass = False,
       kw_down = False, kw_configs = [], kw_usage = [], kw_models = None\<rparr>, trace = []\<rparr>"

lemma demo_issue_begun: "beginModelKeyIssue 6 ''m1'' ''w1'' Start demo_running = (Issue_ISSUING demo_issue, demo_keyed)"
  using demo_running_tables(4)
  by (simp add: beginModelKeyIssue_def demo_prepared demo_keyed_def finish_issue_def)

lemma demo_activated: "fst (activateModelKey 6 ''m1'' demo_keyed)"
  by (simp add: activateModelKey_def demo_keyed_keys returning_def issued_row_def demo_issue_def Let_def)

lemmas key_defs = ensureWorkspaceKey_def begin_issue_def the_field_def set_field_def stored_def recorded_def
  issue_event_def issue_key_def obtain_secret_def ensure_gateway_user_def deliver_key_def send_key_def
  revokeOne_def ask_revoke_def kick_def bind_def andThen_def try_catch_def observe_def external_def pure_def

lemma demo_issue_run:
  "ensureWorkspaceKey (demo_key_env sent) ''w1'' Start (key_start demo_running) = (v, t) \<Longrightarrow>
     v = Inr (if sent then Key_Available else Key_Unavailable) \<and>
     trace t = [Issue_Begun demo_issue, User_Ensured ''u1'' None, Key_Generated ''arw-w1-1'' ''sk-0123456789abcdef'',
       Activation_Recorded ''m1'' True, Command_Sent ''k1'' (Send_Set ''w1'' ''arw-w1-1'' ''sk-0123456789abcdef'')] @
       (if sent then [] else [Revoke_Asked (revoke_key_request [''m1''] Lost ''MODEL_KEY_DELIVERY_FAILED''),
          Pass_Kicked])"
  using demo_issue_begun demo_activated
  by (auto simp: key_defs key_start_def demo_key_env_def demo_issue_def findUserModelBudget_def demo_keyed_tables
      demo_user_def new_user_def budget_of_def split: prod.splits)

lemma virtual_keys_follow_order_witness:
  "key_law [Issue_Begun demo_issue, User_Ensured ''u1'' None,
      Key_Generated ''arw-w1-1'' ''sk-0123456789abcdef'', Activation_Recorded ''m1'' True]
     (Command_Sent ''k1'' (Send_Set ''w1'' ''arw-w1-1'' ''sk-0123456789abcdef''))"
proof -
  obtain v t where run: "ensureWorkspaceKey (demo_key_env True) ''w1'' Start (key_start demo_running) = (v, t)"
    by fastforce
  note result = demo_issue_run [OF run]
  have served: "serve_keys (demo_key_env True) (Ensure_Key ''w1'') (key_start demo_running) = (Inr (), t)"
    using run result by (simp add: bind_def pure_def)
  have start: "trace (key_start demo_running) = []" by (simp add: key_start_def)
  have "trace t = trace (key_start demo_running) @
      [Issue_Begun demo_issue, User_Ensured ''u1'' None, Key_Generated ''arw-w1-1'' ''sk-0123456789abcdef'',
       Activation_Recorded ''m1'' True] @
      Command_Sent ''k1'' (Send_Set ''w1'' ''arw-w1-1'' ''sk-0123456789abcdef'') # []"
    using result start by simp
  from virtual_keys_follow_order [OF served this] show ?thesis unfolding start append_Nil .
qed


lemma reconciliation_clears_exactly_witness:
  "\<exists>t. reconcileWorker (demo_key_env True) ''k1'' [(''w1'', ''arw-w1-1'')] (key_start demo_running) = (Inr (), t) \<and>
     sent_commands (trace t) = [(''k1'', Send_Clear ''w1'' ''arw-w1-1'')]"
proof -
  obtain v t where run:
    "reconcileWorker (demo_key_env True) ''k1'' [(''w1'', ''arw-w1-1'')] (key_start demo_running) = (v, t)"
    by fastforce
  then have ran: "v = Inr () \<and> (\<forall>active. Active_Listed active \<in> set (trace t) \<longrightarrow> active = [])"
    using demo_running_tables(4)
    by (auto simp: reconcileWorker_def for_all_def clear_unexpected_def expected_alias_def last_entry_def
        lost_keys_def listActiveModelKeysForWorker_def key_defs key_start_def demo_key_env_def split: prod.splits)
  have start: "trace (key_start demo_running) = []" by (simp add: key_start_def)
  obtain active where "Active_Listed active \<in> set (trace t)"
    "sent_commands (trace t) = unexpected_commands ''k1'' active [(''w1'', ''arw-w1-1'')]"
    using reconciliation_clears_exactly [of "demo_key_env True" "''k1''" "[(''w1'', ''arw-w1-1'')]"] run ran start
    by blast
  with run ran show ?thesis by (auto simp: unexpected_commands_def expected_alias_def last_entry_def)
qed

end
