(* ===== verification/AdminClient.thy ===== *)
theory AdminClient
  imports KeySafety
begin

text \<open>
  \<open>apps/control-plane/src/model-gateway/admin-client.ts\<close>: the management API of the model gateway as
  the key manager uses it. \<open>fetch\<close> is an operation of the outside world: it fails, or answers with a
  status and the JSON of its body (\<open>JNull\<close> when the body is not JSON). The authorization header and the
  timeout are part of \<open>fetch\<close>; error messages are left out. A budget is in cents, a limit a number.
\<close>

section \<open>One call\<close>

datatype gateway_method = Get_Method | Post_Method

type_synonym 'n fetch =
  "gateway_method \<Rightarrow> string \<Rightarrow> json option \<Rightarrow> 'n \<Rightarrow> (unit + nat \<times> json) \<times> 'n"

type_synonym ('n, 'a) gateway_op = "'n \<Rightarrow> (key_failure + 'a) \<times> 'n"

definition gateway_origin :: "string \<Rightarrow> string" where
  "gateway_origin adminUrl = rev (dropWhile (\<lambda>c. c = CHR ''/'') (rev adminUrl))"

definition gateway_call ::
  "'n fetch \<Rightarrow> string \<Rightarrow> gateway_method \<Rightarrow> string \<Rightarrow> json option \<Rightarrow> ('n, nat \<times> json) gateway_op" where
  "gateway_call fetch origin method path body n =
     (case fetch method (origin @ path) body n of
        (Inl _, n1) \<Rightarrow> (Inl (Gateway_Failure Gateway_Unreachable), n1)
      | (Inr (status, decoded), n1) \<Rightarrow>
          if 500 \<le> status then (Inl (Gateway_Failure Gateway_Unreachable), n1)
          else (Inr (status, decoded), n1))"

text \<open>The rest of a method: what it makes of the status and the body.\<close>

definition on_answer ::
  "('n, nat \<times> json) gateway_op \<Rightarrow> (nat \<Rightarrow> json \<Rightarrow> gateway_code + 'a) \<Rightarrow> ('n, 'a) gateway_op" where
  "on_answer call f n =
     (case call n of
        (Inl x, n1) \<Rightarrow> (Inl x, n1)
      | (Inr (status, decoded), n1) \<Rightarrow>
          (case f status decoded of Inl code \<Rightarrow> Inl (Gateway_Failure code) | Inr a \<Rightarrow> Inr a, n1))"

section \<open>The operations\<close>

record gateway_limits =
  gl_duration :: string
  gl_rpm :: int
  gl_tpm :: "int option"

definition budget_fields :: "gateway_limits \<Rightarrow> int option \<Rightarrow> (string \<times> json) list" where
  "budget_fields l budget =
     [(''max_budget'', json_budget budget), (''budget_duration'', JStr (gl_duration l))]"

definition ensureUser ::
  "'n fetch \<Rightarrow> string \<Rightarrow> gateway_limits \<Rightarrow> string \<Rightarrow> int option \<Rightarrow> ('n, unit) gateway_op" where
  "ensureUser fetch origin l userId budget n =
     (case gateway_call fetch origin Post_Method ''/user/new''
             (Some (JObj ([(''user_id'', JStr userId), (''user_role'', JStr ''internal_user_viewer'')] @
                          budget_fields l budget))) n of
        (Inl x, n1) \<Rightarrow> (Inl x, n1)
      | (Inr (status, _), n1) \<Rightarrow>
          if status = 200 then (Inr (), n1)
          else if status \<noteq> 409 then (Inl (Gateway_Failure Gateway_Rejected), n1)
          else on_answer
            (gateway_call fetch origin Post_Method ''/user/update''
               (Some (JObj ((''user_id'', JStr userId) # budget_fields l budget))))
            (\<lambda>updated _. if updated \<noteq> 200 then Inl Gateway_Rejected else Inr ()) n1)"

definition generate_request ::
  "gateway_limits \<Rightarrow> string list \<Rightarrow> string \<Rightarrow> string \<Rightarrow> string \<Rightarrow> json" where
  "generate_request l models userId workspaceId keyAlias =
     JObj ([(''user_id'', JStr userId), (''key_alias'', JStr keyAlias), (''key_type'', JStr ''llm_api''),
            (''models'', JArr (map JStr models)), (''rpm_limit'', JNum (gl_rpm l))] @
           (case gl_tpm l of None \<Rightarrow> [] | Some n \<Rightarrow> [(''tpm_limit'', JNum n)]) @
           [(''metadata'', JObj [(''platform_workspace_id'', JStr workspaceId)])])"

definition generated_key :: "json \<Rightarrow> string option" where
  "generated_key decoded =
     (case field ''key'' decoded of JStr s \<Rightarrow> if modelKeySecret s then Some s else None | _ \<Rightarrow> None)"

definition generateKey ::
  "'n fetch \<Rightarrow> string \<Rightarrow> gateway_limits \<Rightarrow> string list \<Rightarrow> string \<Rightarrow> string \<Rightarrow> string \<Rightarrow> ('n, string) gateway_op" where
  "generateKey fetch origin l models userId workspaceId keyAlias =
     on_answer
       (gateway_call fetch origin Post_Method ''/key/generate''
          (Some (generate_request l models userId workspaceId keyAlias)))
       (\<lambda>status decoded.
          if status \<noteq> 200 then Inl Gateway_Rejected
          else case generated_key decoded of None \<Rightarrow> Inl Gateway_Invalid_Response | Some s \<Rightarrow> Inr s)"

text \<open>\<open>404\<close> counts as deleted.\<close>

definition deleteKey :: "'n fetch \<Rightarrow> string \<Rightarrow> string \<Rightarrow> ('n, unit) gateway_op" where
  "deleteKey fetch origin keyAlias =
     on_answer
       (gateway_call fetch origin Post_Method ''/key/delete''
          (Some (JObj [(''key_aliases'', JArr [JStr keyAlias])])))
       (\<lambda>status _. if status = 200 \<or> status = 404 then Inr () else Inl Gateway_Rejected)"

fun model_names :: "json list \<Rightarrow> string list option" where
  "model_names [] = Some []"
| "model_names (m # ms) =
     (case (field ''model_name'' m, model_names ms) of (JStr s, Some names) \<Rightarrow> Some (s # names) | _ \<Rightarrow> None)"

definition listModels :: "'n fetch \<Rightarrow> string \<Rightarrow> ('n, string list) gateway_op" where
  "listModels fetch origin =
     on_answer (gateway_call fetch origin Get_Method ''/model/info'' None)
       (\<lambda>status decoded.
          if status \<noteq> 200 then Inl Gateway_Rejected
          else case field ''data'' decoded of
              JArr ms \<Rightarrow> (case model_names ms of
                  None \<Rightarrow> Inl Gateway_Invalid_Response | Some names \<Rightarrow> Inr (sort (remdups names)))
            | _ \<Rightarrow> Inl Gateway_Invalid_Response)"

text \<open>\<open>encodeURIComponent\<close> of ASCII text.\<close>

definition uri_unreserved :: "char \<Rightarrow> bool" where
  "uri_unreserved c \<longleftrightarrow>
     (let n = of_char c :: nat in
      48 \<le> n \<and> n \<le> 57 \<or> 65 \<le> n \<and> n \<le> 90 \<or> 97 \<le> n \<and> n \<le> 122) \<or>
     c \<in> set ''-_.!~*()'' \<or> c = CHR 0x27"

definition upper_hex :: "nat \<Rightarrow> char" where
  "upper_hex n = (if n < 10 then char_of (48 + n) else char_of (55 + n))"

definition encodeURIComponent :: "string \<Rightarrow> string" where
  "encodeURIComponent s =
     concat (map (\<lambda>c. if uri_unreserved c then [c]
       else [CHR ''%'', upper_hex (of_char c div 16), upper_hex (of_char c mod 16)]) s)"

text \<open>\<open>z.number().nonnegative().nullable().optional()\<close>: \<open>None\<close> when it does not match.\<close>

definition optional_amount :: "json \<Rightarrow> rat option option" where
  "optional_amount v =
     (case v of
        JNull \<Rightarrow> Some None
      | JNum n \<Rightarrow> if 0 \<le> n then Some (Some (of_int n)) else None
      | JRat r \<Rightarrow> if 0 \<le> r then Some (Some r) else None
      | _ \<Rightarrow> None)"

definition optional_string :: "json \<Rightarrow> string option option" where
  "optional_string v = (case v of JNull \<Rightarrow> Some None | JStr s \<Rightarrow> Some (Some s) | _ \<Rightarrow> None)"

definition parse_usage :: "json \<Rightarrow> model_usage option" where
  "parse_usage decoded =
     (let info = field ''user_info'' decoded in
      if \<not> isRecord info then None
      else case (optional_amount (field ''spend'' info), optional_amount (field ''max_budget'' info),
                 optional_string (field ''budget_reset_at'' info)) of
          (Some spend, Some budget, Some reset) \<Rightarrow>
            Some \<lparr>mu_spend = (case spend of None \<Rightarrow> 0 | Some r \<Rightarrow> r), mu_budget = budget, mu_reset = reset\<rparr>
        | _ \<Rightarrow> None)"

definition userUsage :: "'n fetch \<Rightarrow> string \<Rightarrow> string \<Rightarrow> ('n, model_usage option) gateway_op" where
  "userUsage fetch origin userId =
     on_answer
       (gateway_call fetch origin Get_Method (''/user/info?user_id='' @ encodeURIComponent userId) None)
       (\<lambda>status decoded.
          if status = 404 then Inr None
          else if status \<noteq> 200 then Inl Gateway_Rejected
          else case parse_usage decoded of None \<Rightarrow> Inl Gateway_Invalid_Response | Some u \<Rightarrow> Inr (Some u))"

section \<open>Counting the calls\<close>

datatype call_result = Call_Ok | Call_Unreachable | Call_Error

definition metered :: "(call_result \<Rightarrow> 'n \<Rightarrow> 'n) \<Rightarrow> ('n, 'a) gateway_op \<Rightarrow> ('n, 'a) gateway_op" where
  "metered count_call call n =
     (case call n of
        (Inr a, n1) \<Rightarrow> (Inr a, count_call Call_Ok n1)
      | (Inl x, n1) \<Rightarrow>
          (Inl x, count_call (if x = Gateway_Failure Gateway_Unreachable then Call_Unreachable else Call_Error) n1))"

text \<open>The key manager over this client; the models of a key are those of the catalog.\<close>

definition catalog_models :: "model_gateway_config \<Rightarrow> string list" where
  "catalog_models config =
     List.map_filter (\<lambda>m. case field ''id'' m of JStr s \<Rightarrow> Some s | _ \<Rightarrow> None) (mg_models config)"

definition meteredModelGatewayAdmin ::
  "(string \<Rightarrow> call_result \<Rightarrow> 'n key_world \<Rightarrow> 'n key_world) \<Rightarrow> 'n key_world fetch \<Rightarrow> string \<Rightarrow> gateway_limits
   \<Rightarrow> 'n key_env \<Rightarrow> 'n key_env" where
  "meteredModelGatewayAdmin count_call fetch adminUrl l e =
     (let origin = gateway_origin adminUrl in
      e\<lparr>ke_ensure_user := \<lambda>userId budget. metered (count_call ''ensure_user'') (ensureUser fetch origin l userId budget),
        ke_generate := \<lambda>userId wid keyAlias. metered (count_call ''generate_key'')
          (generateKey fetch origin l (catalog_models (ke_catalog e)) userId wid keyAlias),
        ke_delete := \<lambda>keyAlias. metered (count_call ''delete_key'') (deleteKey fetch origin keyAlias),
        ke_list_models := metered (count_call ''list_models'') (listModels fetch origin),
        ke_user_usage := \<lambda>userId. metered (count_call ''user_info'') (userUsage fetch origin userId)\<rparr>)"

section \<open>What an answer means\<close>

lemma on_answer_Inr:
  "on_answer call f n = (Inr a, n') \<longleftrightarrow>
     (\<exists>status decoded. call n = (Inr (status, decoded), n') \<and> f status decoded = Inr a)"
  by (auto simp: on_answer_def split: prod.splits sum.splits)

lemma gateway_call_Inr:
  "gateway_call fetch origin method path body n = (Inr (status, decoded), n') \<longleftrightarrow>
     fetch method (origin @ path) body n = (Inr (status, decoded), n') \<and> status < 500"
  by (auto simp: gateway_call_def split: prod.splits sum.splits)

lemma metered_Inr:
  "metered count_call call n = (Inr a, n') \<longleftrightarrow> (\<exists>n1. call n = (Inr a, n1) \<and> n' = count_call Call_Ok n1)"
  by (auto simp: metered_def split: prod.splits sum.splits)

lemma deleteKey_confirms:
  "deleteKey fetch origin keyAlias n = (Inr (), n') \<longleftrightarrow>
     (\<exists>status decoded. fetch Post_Method (origin @ ''/key/delete'')
        (Some (JObj [(''key_aliases'', JArr [JStr keyAlias])])) n = (Inr (status, decoded), n') \<and>
        (status = 200 \<or> status = 404))"
  by (auto simp: deleteKey_def on_answer_Inr gateway_call_Inr split: if_splits)
    (rule exI [of _ 200], simp, rule exI [of _ 404], simp)

lemma generateKey_valid:
  "generateKey fetch origin l models userId wid keyAlias n = (Inr secret, n') \<Longrightarrow> modelKeySecret secret"
  by (auto simp: generateKey_def on_answer_Inr generated_key_def split: if_splits option.splits json.splits)

lemma listModels_sorted:
  "listModels fetch origin n = (Inr names, n') \<Longrightarrow> sorted names \<and> distinct names"
  by (auto simp: listModels_def on_answer_Inr split: if_splits option.splits json.splits)

end
