(* ===== verification/WorkerControl.thy ===== *)
theory WorkerControl
  imports GatewayChain Daemon IdleStop
begin

text \<open>
  \<open>apps/control-plane/src/worker-control.ts\<close>: the control connections of the Workers. A socket's messages
  run one after the other, but a message that waits for the database lets everything else happen: the
  statement it waits for runs at its own time, its result is picked up later, and the socket may close in
  between. Messages are what the schema made of them. Log lines are left out.
\<close>

section \<open>Messages and connections\<close>

datatype 'r control_message =
    Hello_Message hello_payload
  | Heartbeat_Message heartbeat_payload "'r option"
  | Response_Message worker_response
  | Event_Message string

text \<open>\<open>Other_Shape\<close> is JSON of another shape, with its \<open>version\<close> when that is a number.\<close>

datatype 'r control_input =
    Binary_Input | Text_Input | Other_Shape "rat option" | Message_Input "'r control_message"

text \<open>What a message waits for, with the instant it was taken for the statement.\<close>

datatype 'r awaited =
    Aw_Hello hello_payload instant
  | Aw_Credential "'r control_message"
  | Aw_Beat heartbeat_payload "'r option" instant
  | Aw_Assigned heartbeat_payload "'r option"

datatype awaited_answer =
    An_Thrown
  | An_Recorded bool
  | An_Identity "worker_identity option"
  | An_Beat "int option"
  | An_Assigned "string list"

record 'r control_conn =
  cn_worker :: string
  cn_hash :: string
  cn_hello :: bool
  cn_rejected :: bool
  cn_queue :: "'r control_input list"
  cn_wait :: "('r awaited \<times> awaited_answer option) option"
  cn_closed :: bool

datatype control_effect =
    Closed_With nat nat string
  | Hello_Accepted string
  | Heartbeat_Counted string bool
  | Command_Effect effect

record 'r control_plane =
  cl_db :: db
  cl_channel :: channel
  cl_usage :: "(string \<times> 'r usage_entry) list"
  cl_compute :: compute_tracker
  cl_conns :: "nat \<rightharpoonup> 'r control_conn"
  cl_open :: "nat \<Rightarrow> bool"
  cl_out :: "control_effect list"

text \<open>\<open>cs_usage\<close> and \<open>cs_threshold\<close>: whether usage and CPU activity are recorded.\<close>

record control_settings =
  cs_hash :: "string \<Rightarrow> string"
  cs_report_valid :: "runtime_image \<Rightarrow> bool"
  cs_usage :: bool
  cs_threshold :: "rat option"

definition PROTOCOL_VERSION :: nat where "PROTOCOL_VERSION = 7"

definition message_valid :: "control_settings \<Rightarrow> 'r control_message \<Rightarrow> bool" where
  "message_valid cfg m =
     (case m of
        Hello_Message h \<Rightarrow> hello_valid (cs_report_valid cfg) h
      | Heartbeat_Message hb _ \<Rightarrow> heartbeat_valid hb
      | _ \<Rightarrow> True)"

section \<open>Connecting\<close>

definition control_token :: "headers \<Rightarrow> string option" where
  "control_token hs =
     (case text_header ''authorization'' hs of
        None \<Rightarrow> None
      | Some h \<Rightarrow>
          if \<not> starts_with ''Bearer '' h then None
          else let token = drop 7 h in if WorkerTokenSchema token then Some token else None)"

definition control_identity :: "control_settings \<Rightarrow> headers \<Rightarrow> db \<Rightarrow> (string \<times> string) option" where
  "control_identity cfg hs d =
     (case control_token hs of
        None \<Rightarrow> None
      | Some token \<Rightarrow>
          (case findWorkerByCredentialHash (cs_hash cfg token) d of
             None \<Rightarrow> None
           | Some i \<Rightarrow> if wi_enabled i then Some (wi_worker i, cs_hash cfg token) else None))"

definition new_conn :: "string \<Rightarrow> string \<Rightarrow> 'r control_conn" where
  "new_conn workerId credentialHash =
     \<lparr>cn_worker = workerId, cn_hash = credentialHash, cn_hello = False, cn_rejected = False,
      cn_queue = [], cn_wait = None, cn_closed = False\<rparr>"

definition set_conn :: "nat \<Rightarrow> 'r control_conn \<Rightarrow> 'r control_plane \<Rightarrow> 'r control_plane" where
  "set_conn s c st = st\<lparr>cl_conns := (cl_conns st)(s \<mapsto> c)\<rparr>"

definition ctl_connect :: "control_settings \<Rightarrow> nat \<Rightarrow> headers \<Rightarrow> 'r control_plane \<Rightarrow> 'r control_plane" where
  "ctl_connect cfg s hs st =
     (if cl_conns st s \<noteq> None then st
      else case control_identity cfg hs (cl_db st) of
          None \<Rightarrow> st
        | Some (workerId, credentialHash) \<Rightarrow>
            (set_conn s (new_conn workerId credentialHash) st)\<lparr>cl_open := (cl_open st)(s := True)\<rparr>)"

section \<open>Messages\<close>

definition close_socket :: "nat \<Rightarrow> nat \<Rightarrow> string \<Rightarrow> 'r control_plane \<Rightarrow> 'r control_plane" where
  "close_socket s code reason st =
     st\<lparr>cl_open := (cl_open st)(s := False), cl_out := cl_out st @ [Closed_With s code reason]\<rparr>"

text \<open>\<open>closeForPolicy\<close>, and the \<open>catch\<close> of a message.\<close>

definition reject_conn ::
  "nat \<Rightarrow> nat \<Rightarrow> string \<Rightarrow> 'r control_conn \<Rightarrow> 'r control_plane \<Rightarrow> 'r control_plane" where
  "reject_conn s code reason c st =
     close_socket s code reason (set_conn s (c\<lparr>cn_rejected := True, cn_wait := None\<rparr>) st)"

definition close_for_policy :: "nat \<Rightarrow> 'r control_conn \<Rightarrow> 'r control_plane \<Rightarrow> 'r control_plane" where
  "close_for_policy s c st = reject_conn s 1008 ''Worker protocol rejected'' c st"

text \<open>A Worker on another protocol version is told which one this Control Plane speaks.\<close>

definition version_reason :: "rat \<Rightarrow> string" where
  "version_reason v =
     ''Worker protocol version '' @
     (if of_int \<lfloor>v\<rfloor> = v \<and> \<bar>\<lfloor>v\<rfloor>\<bar> \<le> int MAX_SAFE_INTEGER then int_text \<lfloor>v\<rfloor> else ''?'') @
     '' unsupported; Control Plane speaks '' @ decimal PROTOCOL_VERSION"

definition wait_for :: "nat \<Rightarrow> 'r awaited \<Rightarrow> 'r control_conn \<Rightarrow> 'r control_plane \<Rightarrow> 'r control_plane" where
  "wait_for s a c st = set_conn s (c\<lparr>cn_wait := Some (a, None)\<rparr>) st"

text \<open>A message up to its first await; \<open>True\<close> when it waits now.\<close>

definition begin_input ::
  "control_settings \<Rightarrow> nat \<Rightarrow> instant \<Rightarrow> 'r control_input \<Rightarrow> 'r control_conn \<Rightarrow> 'r control_plane
   \<Rightarrow> bool \<times> 'r control_plane" where
  "begin_input cfg s now i c st =
     (if cn_rejected c then (False, st)
      else case i of
          Message_Input m \<Rightarrow>
            if \<not> message_valid cfg m then (False, close_for_policy s c st)
            else (case m of
                Hello_Message h \<Rightarrow>
                  if cn_hello c \<or> wh_worker h \<noteq> cn_worker c then (False, close_for_policy s c st)
                  else (True, wait_for s (Aw_Hello h now) c st)
              | _ \<Rightarrow>
                  if \<not> cn_hello c then (False, close_for_policy s c st)
                  else (True, wait_for s (Aw_Credential m) c st))
        | Other_Shape (Some v) \<Rightarrow>
            (False, if v \<noteq> of_nat PROTOCOL_VERSION then reject_conn s 1008 (version_reason v) c st
                    else close_for_policy s c st)
        | _ \<Rightarrow> (False, close_for_policy s c st))"

text \<open>The promise chain of a socket: queued messages run until one of them waits.\<close>

fun run_inputs ::
  "control_settings \<Rightarrow> nat \<Rightarrow> instant \<Rightarrow> 'r control_input list \<Rightarrow> 'r control_plane \<Rightarrow> 'r control_plane" where
  "run_inputs cfg s now [] st =
     (case cl_conns st s of None \<Rightarrow> st | Some c \<Rightarrow> set_conn s (c\<lparr>cn_queue := []\<rparr>) st)"
| "run_inputs cfg s now (i # queue) st =
     (case cl_conns st s of
        None \<Rightarrow> st
      | Some c \<Rightarrow>
          (case begin_input cfg s now i (c\<lparr>cn_queue := queue\<rparr>) st of
             (True, st1) \<Rightarrow> st1
           | (False, st1) \<Rightarrow> run_inputs cfg s now queue st1))"

definition ctl_message ::
  "control_settings \<Rightarrow> nat \<Rightarrow> instant \<Rightarrow> 'r control_input \<Rightarrow> 'r control_plane \<Rightarrow> 'r control_plane" where
  "ctl_message cfg s now i st =
     (case cl_conns st s of
        None \<Rightarrow> st
      | Some c \<Rightarrow>
          if cn_closed c then st
          else if cn_wait c \<noteq> None then set_conn s (c\<lparr>cn_queue := cn_queue c @ [i]\<rparr>) st
          else run_inputs cfg s now [i] st)"

section \<open>The awaited statements\<close>

definition hello_row :: "'r control_conn \<Rightarrow> hello_payload \<Rightarrow> instant \<Rightarrow> worker_hello" where
  "hello_row c h received =
     \<lparr>hel_credential = cn_hash c, hel_worker = cn_worker c, hel_version = wh_version h,
      hel_hostname = wh_hostname h, hel_arch = wh_arch h, hel_images = wh_images h,
      hel_max = wh_max h, hel_allocated = wh_allocated h,
      hel_resources = \<lparr>wsr_cpu_count = Some (wh_cpus h), wsr_memory = Some (wh_memory h)\<rparr>,
      hel_egress = wh_egress h, hel_storage = wh_storage h, hel_relay = wh_relay h,
      hel_received = received\<rparr>"

definition disk_row :: "disk_usage \<Rightarrow> workspace_disk_usage" where
  "disk_row u =
     \<lparr>wdu_workspace = du_workspace u, wdu_data_used = du_data_used u,
      wdu_data_limit = int (du_data_limit u), wdu_data_inodes = du_data_inodes u,
      wdu_pi_used = du_pi_used u, wdu_pi_limit = int (du_pi_limit u)\<rparr>"

definition heartbeat_row :: "'r control_conn \<Rightarrow> heartbeat_payload \<Rightarrow> instant \<Rightarrow> worker_heartbeat" where
  "heartbeat_row c hb received =
     \<lparr>hb_credential = cn_hash c, hb_worker = cn_worker c, hb_allocated = wb_allocated hb,
      hb_egress = wb_egress hb, hb_storage = wb_storage hb, hb_relay = wb_relay hb,
      hb_disk = (case wb_disk hb of None \<Rightarrow> [] | Some us \<Rightarrow> map disk_row us), hb_received = received\<rparr>"

text \<open>\<open>activeAssignedWorkspaceIds\<close> of \<open>packages/database/src/metrics.ts\<close>.\<close>

definition activeAssignedWorkspaceIds :: "string \<Rightarrow> string list \<Rightarrow> db \<Rightarrow> string list" where
  "activeAssignedWorkspaceIds workerId ids d =
     map ws_id (filter (\<lambda>w. ws_worker w = Some workerId \<and> ws_state w \<in> {RUNNING, STARTING} \<and>
                            ws_id w \<in> set ids) (db_workspaces d))"

definition reported_usage :: "heartbeat_payload \<Rightarrow> workspace_usage list" where
  "reported_usage hb = (case wb_usage hb of None \<Rightarrow> [] | Some us \<Rightarrow> us)"

definition run_statement :: "instant \<Rightarrow> 'r control_conn \<Rightarrow> 'r awaited \<Rightarrow> db \<Rightarrow> awaited_answer \<times> db" where
  "run_statement t c a d =
     (case a of
        Aw_Hello h received \<Rightarrow>
          (case recordWorkerHello t (hello_row c h received) d of
             Inl _ \<Rightarrow> (An_Thrown, d) | Inr (recorded, d1) \<Rightarrow> (An_Recorded recorded, d1))
      | Aw_Credential _ \<Rightarrow> (An_Identity (findWorkerByCredentialHash (cn_hash c) d), d)
      | Aw_Beat hb _ received \<Rightarrow>
          (case recordWorkerHeartbeat t (heartbeat_row c hb received) d of
             Inl _ \<Rightarrow> (An_Thrown, d) | Inr (r, d1) \<Rightarrow> (An_Beat r, d1))
      | Aw_Assigned hb _ \<Rightarrow>
          (An_Assigned (activeAssignedWorkspaceIds (cn_worker c) (map wu_workspace (reported_usage hb)) d), d))"

text \<open>The statement runs once; the connection to the database may fail instead.\<close>

definition ctl_statement :: "nat \<Rightarrow> instant \<Rightarrow> bool \<Rightarrow> 'r control_plane \<Rightarrow> 'r control_plane" where
  "ctl_statement s t failed st =
     (case cl_conns st s of
        None \<Rightarrow> st
      | Some c \<Rightarrow>
          (case cn_wait c of
             Some (a, None) \<Rightarrow>
               if failed then set_conn s (c\<lparr>cn_wait := Some (a, Some An_Thrown)\<rparr>) st
               else (case run_statement t c a (cl_db st) of
                   (ans, d) \<Rightarrow> (set_conn s (c\<lparr>cn_wait := Some (a, Some ans)\<rparr>) st)\<lparr>cl_db := d\<rparr>)
           | _ \<Rightarrow> st))"

section \<open>After the await\<close>

text \<open>An effect of the channel; closing a socket changes its state at once.\<close>

definition channel_effect :: "effect \<Rightarrow> 'r control_plane \<Rightarrow> 'r control_plane" where
  "channel_effect ef st =
     (case ef of
        Close_Socket s code \<Rightarrow> close_socket s code ''Worker connection superseded'' st
      | _ \<Rightarrow> st\<lparr>cl_out := cl_out st @ [Command_Effect ef]\<rparr>)"

definition channel_effects :: "effect list \<Rightarrow> 'r control_plane \<Rightarrow> 'r control_plane" where
  "channel_effects efs st = fold channel_effect efs st"

definition credential_valid :: "'r control_conn \<Rightarrow> worker_identity option \<Rightarrow> bool" where
  "credential_valid c current \<longleftrightarrow>
     (case current of None \<Rightarrow> False | Some i \<Rightarrow> wi_enabled i \<and> wi_worker i = cn_worker c)"

definition resume_hello :: "nat \<Rightarrow> bool \<Rightarrow> 'r control_conn \<Rightarrow> 'r control_plane \<Rightarrow> 'r control_plane" where
  "resume_hello s recorded c st =
     (if \<not> recorded then close_for_policy s c st
      else
        let st1 = set_conn s (c\<lparr>cn_hello := True, cn_wait := None\<rparr>) st;
            (efs, ch) = register (cn_worker c) s (cl_channel st1);
            st2 = channel_effects efs (st1\<lparr>cl_channel := ch\<rparr>)
        in st2\<lparr>cl_out := cl_out st2 @ [Hello_Accepted (cn_worker c)]\<rparr>)"

definition resume_other :: "nat \<Rightarrow> 'r control_message \<Rightarrow> 'r control_conn \<Rightarrow> 'r control_plane \<Rightarrow> 'r control_plane" where
  "resume_other s m c st =
     (case m of
        Event_Message workerId \<Rightarrow>
          if workerId \<noteq> cn_worker c then close_for_policy s c st
          else set_conn s (c\<lparr>cn_wait := None\<rparr>) st
      | Response_Message r \<Rightarrow>
          (case acceptResponse (cn_worker c) r (cl_channel st) of
             (_, efs, ch) \<Rightarrow>
               channel_effects efs ((set_conn s (c\<lparr>cn_wait := None\<rparr>) st)\<lparr>cl_channel := ch\<rparr>))
      | _ \<Rightarrow> set_conn s (c\<lparr>cn_wait := None\<rparr>) st)"

definition resume_credential ::
  "nat \<Rightarrow> instant \<Rightarrow> 'r control_message \<Rightarrow> worker_identity option \<Rightarrow> 'r control_conn \<Rightarrow> 'r control_plane
   \<Rightarrow> 'r control_plane" where
  "resume_credential s now m current c st =
     (if \<not> credential_valid c current then close_for_policy s c st
      else case m of
          Heartbeat_Message hb stats \<Rightarrow>
            if wb_worker hb \<noteq> cn_worker c then close_for_policy s c st
            else wait_for s (Aw_Beat hb stats now) c st
        | _ \<Rightarrow> resume_other s m c st)"

definition resume_beat ::
  "control_settings \<Rightarrow> nat \<Rightarrow> heartbeat_payload \<Rightarrow> 'r option \<Rightarrow> int option \<Rightarrow> 'r control_conn
   \<Rightarrow> 'r control_plane \<Rightarrow> 'r control_plane" where
  "resume_beat cfg s hb stats recorded c st =
     (let st1 = st\<lparr>cl_out := cl_out st @ [Heartbeat_Counted (cn_worker c) (recorded \<noteq> None)]\<rparr> in
      if recorded = None then close_for_policy s c st1
      else if cs_usage cfg then wait_for s (Aw_Assigned hb stats) c st1
      else set_conn s (c\<lparr>cn_wait := None\<rparr>) st1)"

definition cpu_samples :: "string list \<Rightarrow> heartbeat_payload \<Rightarrow> cpu_sample list" where
  "cpu_samples assigned hb =
     map (\<lambda>u. \<lparr>sm_workspace = wu_workspace u, sm_at = Some (wu_sampled u), sm_nanos = wu_nanos u\<rparr>)
       (filter (\<lambda>u. wu_workspace u \<in> set assigned) (reported_usage hb))"

definition resume_assigned ::
  "control_settings \<Rightarrow> nat \<Rightarrow> instant \<Rightarrow> heartbeat_payload \<Rightarrow> 'r option \<Rightarrow> string list \<Rightarrow> 'r control_conn
   \<Rightarrow> 'r control_plane \<Rightarrow> 'r control_plane" where
  "resume_assigned cfg s now hb stats assigned c st =
     (let st1 = set_conn s (c\<lparr>cn_wait := None\<rparr>) st in
      st1\<lparr>cl_compute := (case cs_threshold cfg of
              None \<Rightarrow> cl_compute st1
            | Some threshold \<Rightarrow>
                record_samples threshold (cn_worker c) (cpu_samples assigned hb) (cl_compute st1)),
          cl_usage := snd (registry_record
            \<lparr>ue_worker = cn_worker c, ue_received = now, ue_host = wb_host hb, ue_relay = stats,
             ue_workspaces = reported_usage hb\<rparr> assigned (cl_usage st1))\<rparr>)"

definition resume_answer ::
  "control_settings \<Rightarrow> nat \<Rightarrow> instant \<Rightarrow> 'r awaited \<Rightarrow> awaited_answer \<Rightarrow> 'r control_conn
   \<Rightarrow> 'r control_plane \<Rightarrow> 'r control_plane" where
  "resume_answer cfg s now a ans c st =
     (case (a, ans) of
        (Aw_Hello _ _, An_Recorded recorded) \<Rightarrow> resume_hello s recorded c st
      | (Aw_Credential m, An_Identity current) \<Rightarrow> resume_credential s now m current c st
      | (Aw_Beat hb stats _, An_Beat recorded) \<Rightarrow> resume_beat cfg s hb stats recorded c st
      | (Aw_Assigned hb stats, An_Assigned assigned) \<Rightarrow> resume_assigned cfg s now hb stats assigned c st
      | _ \<Rightarrow> reject_conn s 1011 ''Worker message processing failed'' c st)"

definition ctl_resume :: "control_settings \<Rightarrow> nat \<Rightarrow> instant \<Rightarrow> 'r control_plane \<Rightarrow> 'r control_plane" where
  "ctl_resume cfg s now st =
     (case cl_conns st s of
        None \<Rightarrow> st
      | Some c \<Rightarrow>
          (case cn_wait c of
             Some (a, Some ans) \<Rightarrow>
               (let st1 = resume_answer cfg s now a ans c st in
                case cl_conns st1 s of
                  None \<Rightarrow> st1
                | Some c1 \<Rightarrow>
                    if cn_wait c1 \<noteq> None then st1 else run_inputs cfg s now (cn_queue c1) st1)
           | _ \<Rightarrow> st))"

section \<open>Closing\<close>

definition ctl_closed :: "nat \<Rightarrow> 'r control_plane \<Rightarrow> 'r control_plane" where
  "ctl_closed s st =
     (case cl_conns st s of
        None \<Rightarrow> st
      | Some c \<Rightarrow>
          if cn_closed c then st
          else
            let st1 = (set_conn s (c\<lparr>cn_rejected := True, cn_closed := True\<rparr>) st)
                        \<lparr>cl_open := (cl_open st)(s := False)\<rparr>
            in if \<not> cn_hello c then st1
               else
                 let (efs, ch) = unregister (cn_worker c) s (cl_channel st1);
                     st2 = channel_effects efs (st1\<lparr>cl_channel := ch\<rparr>)
                 in if isConnected (cl_open st2) (cn_worker c) (cl_channel st2) then st2
                    else st2\<lparr>cl_usage := registry_forget (cn_worker c) (cl_usage st2),
                             cl_compute := forgetWorker (cn_worker c) (cl_compute st2)\<rparr>)"

section \<open>Everything that happens\<close>

text \<open>
  Besides the connections: the rest of the platform changes the database, and its requests dispatch
  commands, which may time out, and close the connection of a Worker.
\<close>

datatype 'r control_event =
    Ev_Connect nat headers
  | Ev_Message nat instant "'r control_input"
  | Ev_Statement nat instant bool
  | Ev_Resume nat instant
  | Ev_Closed nat
  | Ev_Database db
  | Ev_Dispatch bool string string string
  | Ev_Timeout string
  | Ev_Disconnect string nat string

definition ctl_dispatch ::
  "bool \<Rightarrow> string \<Rightarrow> string \<Rightarrow> string \<Rightarrow> 'r control_plane \<Rightarrow> 'r control_plane" where
  "ctl_dispatch sent workerId requestId type st =
     (case dispatch (cl_open st) sent workerId requestId type (cl_channel st) of
        (Inl _, ch) \<Rightarrow> st\<lparr>cl_channel := ch\<rparr>
      | (Inr efs, ch) \<Rightarrow> channel_effects efs (st\<lparr>cl_channel := ch\<rparr>))"

definition ctl_disconnect :: "string \<Rightarrow> nat \<Rightarrow> string \<Rightarrow> 'r control_plane \<Rightarrow> 'r control_plane" where
  "ctl_disconnect workerId code reason st =
     (case map_of (ch_connections (cl_channel st)) workerId of
        None \<Rightarrow> st | Some s \<Rightarrow> close_socket s code reason st)"

fun control_step :: "control_settings \<Rightarrow> 'r control_event \<Rightarrow> 'r control_plane \<Rightarrow> 'r control_plane" where
  "control_step cfg (Ev_Connect s hs) st = ctl_connect cfg s hs st"
| "control_step cfg (Ev_Message s now i) st = ctl_message cfg s now i st"
| "control_step cfg (Ev_Statement s t failed) st = ctl_statement s t failed st"
| "control_step cfg (Ev_Resume s now) st = ctl_resume cfg s now st"
| "control_step cfg (Ev_Closed s) st = ctl_closed s st"
| "control_step cfg (Ev_Database d) st = st\<lparr>cl_db := d\<rparr>"
| "control_step cfg (Ev_Dispatch sent workerId requestId type) st =
     ctl_dispatch sent workerId requestId type st"
| "control_step cfg (Ev_Timeout requestId) st =
     (case timeout requestId (cl_channel st) of
        (efs, ch) \<Rightarrow> channel_effects efs (st\<lparr>cl_channel := ch\<rparr>))"
| "control_step cfg (Ev_Disconnect workerId code reason) st = ctl_disconnect workerId code reason st"

definition control_run ::
  "control_settings \<Rightarrow> 'r control_event list \<Rightarrow> 'r control_plane \<Rightarrow> 'r control_plane" where
  "control_run cfg evs st = fold (control_step cfg) evs st"

definition control_init :: "db \<Rightarrow> 'r control_plane" where
  "control_init d =
     \<lparr>cl_db = d, cl_channel = new_channel, cl_usage = [], cl_compute = (\<lambda>_. None),
      cl_conns = (\<lambda>_. None), cl_open = (\<lambda>_. False), cl_out = []\<rparr>"

end
