(* ===== verification/ControlSafety.thy ===== *)
theory ControlSafety
  imports WorkerControl Demo
begin

text \<open>
  What the control connections keep, over any sequence of events: who is registered, that an open accepted
  connection is the registered one of its Worker, and what a message may be waiting for.
\<close>

section \<open>The invariant\<close>

fun awaited_ok :: "control_settings \<Rightarrow> string \<Rightarrow> bool \<Rightarrow> 'r awaited \<Rightarrow> bool" where
  "awaited_ok cfg workerId accepted (Aw_Hello h _) \<longleftrightarrow>
     \<not> accepted \<and> wh_worker h = workerId \<and> hello_valid (cs_report_valid cfg) h"
| "awaited_ok cfg workerId accepted (Aw_Credential m) \<longleftrightarrow>
     accepted \<and> message_valid cfg m \<and> (\<forall>h. m \<noteq> Hello_Message h)"
| "awaited_ok cfg workerId accepted (Aw_Beat hb _ _) \<longleftrightarrow>
     accepted \<and> wb_worker hb = workerId \<and> heartbeat_valid hb"
| "awaited_ok cfg workerId accepted (Aw_Assigned hb _) \<longleftrightarrow>
     accepted \<and> wb_worker hb = workerId \<and> heartbeat_valid hb"

definition wait_ok :: "control_settings \<Rightarrow> 'r control_conn \<Rightarrow> bool" where
  "wait_ok cfg c \<longleftrightarrow>
     (\<forall>a ans. cn_wait c = Some (a, ans) \<longrightarrow> awaited_ok cfg (cn_worker c) (cn_hello c) a)"

lemma wait_ok_queue [simp]: "wait_ok cfg (c\<lparr>cn_queue := q\<rparr>) = wait_ok cfg c"
  by (simp add: wait_ok_def)

lemma wait_ok_none [simp]: "wait_ok cfg (c\<lparr>cn_wait := None\<rparr>)"
  by (simp add: wait_ok_def)

definition registered :: "'r control_plane \<Rightarrow> string \<Rightarrow> nat option" where
  "registered st = map_of (ch_connections (cl_channel st))"

definition conn_ok :: "control_settings \<Rightarrow> 'r control_plane \<Rightarrow> nat \<Rightarrow> 'r control_conn \<Rightarrow> bool" where
  "conn_ok cfg st s c \<longleftrightarrow>
     wait_ok cfg c \<and>
     (cl_open st s \<longrightarrow> \<not> cn_rejected c \<and> \<not> cn_closed c \<and>
        (cn_hello c \<longrightarrow> registered st (cn_worker c) = Some s))"

definition control_ok :: "control_settings \<Rightarrow> 'r control_plane \<Rightarrow> bool" where
  "control_ok cfg st \<longleftrightarrow>
     (\<forall>s c. cl_conns st s = Some c \<longrightarrow> conn_ok cfg st s c) \<and>
     (\<forall>s. cl_conns st s = None \<longrightarrow> \<not> cl_open st s) \<and>
     (\<forall>w s. registered st w = Some s \<longrightarrow>
        (\<exists>c. cl_conns st s = Some c \<and> cn_worker c = w \<and> cn_hello c))"

lemma control_okD:
  assumes "control_ok cfg st"
  shows "cl_conns st s = Some c \<Longrightarrow> conn_ok cfg st s c"
    "registered st w = Some s \<Longrightarrow> \<exists>c. cl_conns st s = Some c \<and> cn_worker c = w \<and> cn_hello c"
    "cl_conns st s = None \<Longrightarrow> \<not> cl_open st s"
  using assms by (auto simp: control_ok_def)

lemma control_ok_registered:
  assumes "control_ok cfg st" "registered st w = Some s"
  shows "cl_conns st s = Some c \<Longrightarrow> cn_worker c = w \<and> cn_hello c" "cl_conns st s \<noteq> None"
  using control_okD(2) [OF assms] by auto

lemma control_okI:
  assumes "\<And>s c. cl_conns st s = Some c \<Longrightarrow> conn_ok cfg st s c"
    "\<And>s. cl_open st s \<Longrightarrow> cl_conns st s \<noteq> None"
    "\<And>w s. registered st w = Some s \<Longrightarrow> \<exists>c. cl_conns st s = Some c \<and> cn_worker c = w \<and> cn_hello c"
  shows "control_ok cfg st"
  using assms unfolding control_ok_def by blast

lemma control_ok_init: "control_ok cfg (control_init d)"
  by (simp add: control_ok_def control_init_def registered_def new_channel_def)

text \<open>A connection that keeps its identity and its hello may change in any other way that suits the invariant.\<close>

lemma control_ok_set:
  assumes "control_ok cfg st" "cl_conns st s = Some c" "cn_worker c' = cn_worker c" "cn_hello c' = cn_hello c"
    "wait_ok cfg c'" "cl_open st s \<Longrightarrow> cn_rejected c' = cn_rejected c \<and> cn_closed c' = cn_closed c"
  shows "control_ok cfg (set_conn s c' st)"
  using assms unfolding control_ok_def conn_ok_def set_conn_def registered_def
  by (auto 4 4)

lemma control_ok_close: "control_ok cfg st \<Longrightarrow> control_ok cfg (close_socket s code reason st)"
  unfolding control_ok_def conn_ok_def close_socket_def registered_def by auto

lemma control_ok_shut:
  "control_ok cfg st \<Longrightarrow> control_ok cfg (st\<lparr>cl_open := (cl_open st)(s := False)\<rparr>)"
  unfolding control_ok_def conn_ok_def registered_def by auto

lemma control_ok_frame [simp]:
  "control_ok cfg (st\<lparr>cl_out := out\<rparr>) = control_ok cfg st"
  "control_ok cfg (st\<lparr>cl_db := d\<rparr>) = control_ok cfg st"
  "control_ok cfg (st\<lparr>cl_usage := u\<rparr>) = control_ok cfg st"
  "control_ok cfg (st\<lparr>cl_compute := m\<rparr>) = control_ok cfg st"
  by (simp_all add: control_ok_def conn_ok_def registered_def)

lemma control_ok_reject:
  assumes "control_ok cfg st" "cl_conns st s = Some c0" "cn_worker c = cn_worker c0" "cn_hello c = cn_hello c0"
  shows "control_ok cfg (reject_conn s code reason c st)"
proof -
  have "reject_conn s code reason c st =
      (set_conn s (c\<lparr>cn_rejected := True, cn_wait := None\<rparr>) (st\<lparr>cl_open := (cl_open st)(s := False)\<rparr>))
        \<lparr>cl_out := cl_out st @ [Closed_With s code reason]\<rparr>"
    by (simp add: reject_conn_def close_socket_def set_conn_def)
  moreover have "control_ok cfg (set_conn s (c\<lparr>cn_rejected := True, cn_wait := None\<rparr>)
      (st\<lparr>cl_open := (cl_open st)(s := False)\<rparr>))"
    by (rule control_ok_set [OF control_ok_shut [OF assms(1)]]) (use assms in \<open>auto simp: wait_ok_def\<close>)
  ultimately show ?thesis by simp
qed

lemmas control_ok_policy = control_ok_reject [where code = 1008 and reason = "''Worker protocol rejected''",
    folded close_for_policy_def]

lemma control_ok_effects: "control_ok cfg st \<Longrightarrow> control_ok cfg (channel_effects efs st)"
  unfolding channel_effects_def
  by (induction efs arbitrary: st) (auto simp: channel_effect_def control_ok_close split: effect.split)

text \<open>The channel may lose commands, not connections.\<close>

lemma control_ok_channel:
  assumes "control_ok cfg st" "ch_connections ch = ch_connections (cl_channel st)"
  shows "control_ok cfg (st\<lparr>cl_channel := ch\<rparr>)"
  using assms unfolding control_ok_def conn_ok_def registered_def by simp

section \<open>Messages keep it\<close>

lemma control_ok_wait:
  assumes "control_ok cfg st" "cl_conns st s = Some c0" "cn_worker c = cn_worker c0" "cn_hello c = cn_hello c0"
    "cn_rejected c = cn_rejected c0" "cn_closed c = cn_closed c0" "wait_ok cfg (c\<lparr>cn_wait := Some (a, None)\<rparr>)"
  shows "control_ok cfg (wait_for s a c st)"
  unfolding wait_for_def by (rule control_ok_set [OF assms(1,2)]) (use assms in auto)

lemma control_ok_begin:
  assumes "control_ok cfg st" "cl_conns st s = Some c0" "c = c0\<lparr>cn_queue := queue\<rparr>"
    "begin_input cfg s now i c st = (b, st')"
  shows "control_ok cfg st'"
  using assms(4) assms(1) unfolding begin_input_def
  by (auto simp: assms(3) split: if_splits control_input.splits control_message.splits option.splits
      intro!: control_ok_policy control_ok_reject control_ok_wait assms(2) simp: wait_ok_def message_valid_def)

lemma control_ok_run_inputs:
  "control_ok cfg st \<Longrightarrow> control_ok cfg (run_inputs cfg s now is st)"
proof (induction cfg s now "is" st rule: run_inputs.induct)
  case (1 cfg s now st)
  then show ?case
    by (auto split: option.split intro!: control_ok_set dest: control_okD(1) simp: conn_ok_def)
next
  case (2 cfg s now i queue st)
  show ?case
  proof (cases "cl_conns st s")
    case None
    then show ?thesis using 2 by simp
  next
    case (Some c)
    obtain b st1 where begun: "begin_input cfg s now i (c\<lparr>cn_queue := queue\<rparr>) st = (b, st1)" by fastforce
    then have "control_ok cfg st1" by (rule control_ok_begin [OF 2(2) Some refl])
    then show ?thesis using 2 Some begun by (cases b) auto
  qed
qed

lemma control_ok_connect:
  assumes ok: "control_ok cfg st"
  shows "control_ok cfg (ctl_connect cfg s hs st)"
proof -
  have "control_ok cfg ((set_conn s (new_conn w h) st)\<lparr>cl_open := (cl_open st)(s := True)\<rparr>)" (is "control_ok cfg ?st")
    if new: "cl_conns st s = None" for w h
  proof (rule control_okI)
    fix s' c
    assume "cl_conns ?st s' = Some c"
    then show "conn_ok cfg ?st s' c"
      using control_okD(1) [OF ok, of s' c]
      by (auto simp: set_conn_def conn_ok_def registered_def new_conn_def wait_ok_def split: if_splits)
  next
    fix s'
    assume "cl_open ?st s'"
    then show "cl_conns ?st s' \<noteq> None"
      using control_okD(3) [OF ok, of s'] by (auto simp: set_conn_def split: if_splits)
  next
    fix w' s'
    assume "registered ?st w' = Some s'"
    then have "registered st w' = Some s'" by (simp add: registered_def set_conn_def)
    from control_okD(2) [OF ok this] new
    show "\<exists>c. cl_conns ?st s' = Some c \<and> cn_worker c = w' \<and> cn_hello c"
      by (cases "s' = s") (auto simp: set_conn_def)
  qed
  then show ?thesis unfolding ctl_connect_def using ok by (auto split: option.split)
qed

lemma control_ok_statement: "control_ok cfg st \<Longrightarrow> control_ok cfg (ctl_statement s t failed st)"
proof -
  assume ok: "control_ok cfg st"
  have answered: "control_ok cfg (set_conn s (c\<lparr>cn_wait := Some (a, Some ans)\<rparr>) st)"
    if "cl_conns st s = Some c" "cn_wait c = Some (a, None)" for c a ans
    by (rule control_ok_set [OF ok that(1)])
      (use control_okD(1) [OF ok that(1)] that(2) in \<open>auto simp: conn_ok_def wait_ok_def\<close>)
  show ?thesis
    unfolding ctl_statement_def using ok
    by (auto intro: answered split: option.split prod.split)
qed

section \<open>Registration keeps it\<close>

definition accept_conn :: "nat \<Rightarrow> 'r control_conn \<Rightarrow> 'r control_plane \<Rightarrow> 'r control_plane" where
  "accept_conn s c st =
     (let st1 = set_conn s (c\<lparr>cn_hello := True, cn_wait := None\<rparr>) st in
      st1\<lparr>cl_channel := snd (register (cn_worker c) s (cl_channel st1)),
          cl_open := (\<lambda>s'. cl_open st s' \<and> (s' = s \<or> registered st (cn_worker c) \<noteq> Some s'))\<rparr>)"

lemma resume_hello_accepts:
  "recorded \<Longrightarrow> \<exists>out. resume_hello s recorded c st = (accept_conn s c st)\<lparr>cl_out := out\<rparr>"
  by (rule exI [of _ "cl_out (resume_hello s recorded c st)"], rule control_plane.equality)
    (auto simp: resume_hello_def accept_conn_def register_def registered_def Let_def set_conn_def
      channel_effects_def channel_effect_def close_socket_def fun_eq_iff split: option.split)

lemma control_ok_accept:
  assumes ok: "control_ok cfg st" and conn: "cl_conns st s = Some c" and "new": "\<not> cn_hello c"
  shows "control_ok cfg (accept_conn s c st)"
proof (rule control_okI)
  have reg: "registered (accept_conn s c st) w = (if w = cn_worker c then Some s else registered st w)" for w
    by (simp add: accept_conn_def Let_def register_def registered_def set_conn_def)
  have conns: "cl_conns (accept_conn s c st) =
      (cl_conns st)(s \<mapsto> c\<lparr>cn_hello := True, cn_wait := None\<rparr>)"
    by (simp add: accept_conn_def Let_def set_conn_def)
  have opened: "cl_open (accept_conn s c st) s' \<longleftrightarrow>
      cl_open st s' \<and> (s' = s \<or> registered st (cn_worker c) \<noteq> Some s')" for s'
    by (simp add: accept_conn_def Let_def)
  {
    fix s' c'
    assume "cl_conns (accept_conn s c st) s' = Some c'"
    then show "conn_ok cfg (accept_conn s c st) s' c'"
      using control_okD(1) [OF ok, of s' c'] control_okD(1) [OF ok conn]
      by (auto simp: conn_ok_def reg conns opened wait_ok_def split: if_splits)
  next
    fix s'
    assume "cl_open (accept_conn s c st) s'"
    then show "cl_conns (accept_conn s c st) s' \<noteq> None"
      using control_okD(3) [OF ok, of s'] by (auto simp: conns opened)
  next
    fix w s'
    assume "registered (accept_conn s c st) w = Some s'"
    then show "\<exists>c'. cl_conns (accept_conn s c st) s' = Some c' \<and> cn_worker c' = w \<and> cn_hello c'"
      using control_okD(2) [OF ok, of w s'] conn "new" by (auto simp: reg conns split: if_splits)
  }
qed

lemma control_ok_hello:
  assumes "control_ok cfg st" "cl_conns st s = Some c" "\<not> cn_hello c"
  shows "control_ok cfg (resume_hello s recorded c st)"
proof (cases recorded)
  case False
  then show ?thesis by (simp add: resume_hello_def control_ok_policy [OF assms(1,2)])
next
  case True
  then show ?thesis using resume_hello_accepts [of recorded s c st] control_ok_accept [OF assms] by auto
qed

lemma control_ok_resume_answer:
  assumes "control_ok cfg st" "cl_conns st s = Some c" "cn_wait c = Some (a, Some ans)"
  shows "control_ok cfg (resume_answer cfg s now a ans c st)"
proof -
  have wait: "wait_ok cfg c" using control_okD(1) [OF assms(1,2)] by (simp add: conn_ok_def)
  have idle: "control_ok cfg (set_conn s (c\<lparr>cn_wait := None\<rparr>) st)"
    by (rule control_ok_set [OF assms(1,2)]) simp_all
  have heard: "control_ok cfg ((set_conn s (c\<lparr>cn_wait := None\<rparr>) st)\<lparr>cl_channel := ch\<rparr>)"
    if "acceptResponse w r (cl_channel st) = (x, efs, ch)" for w r x efs ch
    by (rule control_ok_channel [OF idle])
      (use that in \<open>auto simp: acceptResponse_def set_conn_def Let_def split: option.splits if_splits\<close>)
  have waiting: "control_ok cfg (wait_for s a' c st)" if "wait_ok cfg (c\<lparr>cn_wait := Some (a', None)\<rparr>)" for a'
    by (rule control_ok_wait [OF assms(1,2)]) (simp_all add: that)
  note rules = control_ok_policy [OF assms(1,2)] control_ok_reject [OF assms(1,2)]
  have credential: "control_ok cfg (resume_credential s now m current c st)" if "a = Aw_Credential m" for m current
    using wait assms(3) that unfolding resume_credential_def resume_other_def
    by (auto intro!: rules waiting idle control_ok_effects heard
        simp: wait_ok_def message_valid_def split: control_message.splits prod.splits)
  have beat: "control_ok cfg (resume_beat cfg s hb stats recorded c st)" if "a = Aw_Beat hb stats t" for hb stats t recorded
  proof -
    define st1 where "st1 = st\<lparr>cl_out := cl_out st @ [Heartbeat_Counted (cn_worker c) (recorded \<noteq> None)]\<rparr>"
    have ok1: "control_ok cfg st1" "cl_conns st1 s = Some c" using assms(1,2) by (simp_all add: st1_def)
    have "control_ok cfg (wait_for s (Aw_Assigned hb stats) c st1)"
      by (rule control_ok_wait [OF ok1]) (use wait assms(3) that in \<open>auto simp: wait_ok_def\<close>)
    moreover have "control_ok cfg (set_conn s (c\<lparr>cn_wait := None\<rparr>) st1)"
      by (rule control_ok_set [OF ok1]) simp_all
    ultimately show ?thesis
      unfolding resume_beat_def Let_def st1_def [symmetric]
      by (auto intro: control_ok_policy [OF ok1])
  qed
  have hello: "control_ok cfg (resume_hello s recorded c st)" if "a = Aw_Hello h t" for h t recorded
    by (rule control_ok_hello [OF assms(1,2)]) (use wait assms(3) that in \<open>auto simp: wait_ok_def\<close>)
  show ?thesis
    unfolding resume_answer_def resume_assigned_def
    by (auto intro: rules hello credential beat idle split: awaited.split awaited_answer.split simp: Let_def idle)
qed

lemma control_ok_resume:
  assumes "control_ok cfg st"
  shows "control_ok cfg (ctl_resume cfg s now st)"
  unfolding ctl_resume_def
  using assms by (auto simp: Let_def split: option.split
      intro!: control_ok_run_inputs intro: control_ok_resume_answer)

lemma control_ok_unregister:
  assumes ok: "control_ok cfg st" and shut: "\<not> cl_open st s"
  shows "control_ok cfg (st\<lparr>cl_channel := snd (unregister w s (cl_channel st))\<rparr>)" (is "control_ok cfg ?st")
proof (cases "registered st w = Some s")
  case False
  then show ?thesis using ok by (simp add: unregister_def registered_def)
next
  case True
  have reg: "registered ?st w' = (if w' = w then None else registered st w')" for w'
    using True by (simp add: unregister_def registered_def)
  show ?thesis
  proof (rule control_okI)
    fix s' c'
    assume conn: "cl_conns ?st s' = Some c'"
    with control_okD(1) [OF ok, of s' c'] True shut show "conn_ok cfg ?st s' c'"
      by (auto simp: conn_ok_def reg)
  next
    fix s'
    assume "cl_open ?st s'"
    then show "cl_conns ?st s' \<noteq> None" using control_okD(3) [OF ok, of s'] by auto
  next
    fix w' s'
    assume "registered ?st w' = Some s'"
    then show "\<exists>c. cl_conns ?st s' = Some c \<and> cn_worker c = w' \<and> cn_hello c"
      using control_okD(2) [OF ok, of w' s'] by (auto simp: reg split: if_splits)
  qed
qed

lemma control_ok_closed:
  assumes "control_ok cfg st"
  shows "control_ok cfg (ctl_closed s st)"
proof (cases "cl_conns st s")
  case None
  then show ?thesis by (simp add: ctl_closed_def assms)
next
  case (Some c)
  define st1 where "st1 = (set_conn s (c\<lparr>cn_rejected := True, cn_closed := True\<rparr>) st)
      \<lparr>cl_open := (cl_open st)(s := False)\<rparr>"
  have "st1 = set_conn s (c\<lparr>cn_rejected := True, cn_closed := True\<rparr>) (st\<lparr>cl_open := (cl_open st)(s := False)\<rparr>)"
    by (simp add: st1_def set_conn_def)
  moreover have "control_ok cfg \<dots>"
    by (rule control_ok_set [OF control_ok_shut [OF assms]])
      (use Some control_okD(1) [OF assms Some] in \<open>auto simp: conn_ok_def wait_ok_def\<close>)
  ultimately have ok1: "control_ok cfg st1" by simp
  have shut: "\<not> cl_open st1 s" by (simp add: st1_def)
  have ok2: "control_ok cfg (st1\<lparr>cl_channel := snd (unregister (cn_worker c) s (cl_channel st1))\<rparr>)"
    by (rule control_ok_unregister [OF ok1 shut])
  show ?thesis
    unfolding ctl_closed_def using Some assms ok1 control_ok_effects [OF ok2]
    by (auto simp: Let_def st1_def [symmetric] split: prod.split)
qed

lemma control_ok_dispatch: "control_ok cfg st \<Longrightarrow> control_ok cfg (ctl_dispatch sent w r ty st)"
  unfolding ctl_dispatch_def
  by (auto split: prod.split sum.split intro!: control_ok_effects control_ok_channel
      simp: dispatch_def Let_def split: option.splits if_splits)

lemma control_ok_timeout:
  "control_ok cfg st \<Longrightarrow> timeout r (cl_channel st) = (efs, ch) \<Longrightarrow>
    control_ok cfg (channel_effects efs (st\<lparr>cl_channel := ch\<rparr>))"
  by (rule control_ok_effects, rule control_ok_channel) (auto simp: timeout_def split: if_splits)

lemma control_ok_step: "control_ok cfg st \<Longrightarrow> control_ok cfg (control_step cfg ev st)"
proof (cases ev)
  case (Ev_Message s now i)
  assume ok: "control_ok cfg st"
  have "control_ok cfg (set_conn s (c\<lparr>cn_queue := q\<rparr>) st)" if "cl_conns st s = Some c" for c q
    by (rule control_ok_set [OF ok that]) (use control_okD(1) [OF ok that] in \<open>simp_all add: conn_ok_def\<close>)
  then show ?thesis
    using ok Ev_Message by (auto simp: ctl_message_def simp del: run_inputs.simps intro!: control_ok_run_inputs split: option.split)
qed (auto intro: control_ok_connect control_ok_statement control_ok_resume control_ok_closed
    control_ok_dispatch control_ok_timeout control_ok_close simp: ctl_disconnect_def
    split: prod.split option.split)

lemma control_ok_run: "control_ok cfg st \<Longrightarrow> control_ok cfg (control_run cfg evs st)"
  unfolding control_run_def by (induction evs arbitrary: st) (simp_all add: control_ok_step)

section \<open>A rejected connection does nothing more\<close>

lemma run_inputs_rejected:
  assumes "cl_conns st s = Some c" "cn_rejected c"
  shows "run_inputs cfg s now queue st = set_conn s (c\<lparr>cn_queue := []\<rparr>) st"
  using assms by (induction queue) (simp_all add: begin_input_def)

section \<open>A Worker that connects\<close>

definition demo_control_hello :: hello_payload where
  "demo_control_hello =
     \<lparr>wh_worker = ''k1'', wh_version = ''1'', wh_hostname = ''host'', wh_arch = Amd64,
      wh_images = hel_images demo_hello, wh_max = 2, wh_allocated = 0, wh_cpus = 4, wh_memory = 1000,
      wh_egress = hel_egress demo_hello, wh_storage = hel_storage demo_hello,
      wh_relay = hel_relay demo_hello\<rparr>"

definition demo_settings :: control_settings where
  "demo_settings =
     \<lparr>cs_hash = \<lambda>_. ''hash'', cs_report_valid = \<lambda>_. True, cs_usage = True, cs_threshold = Some 1\<rparr>"

definition demo_control_headers :: headers where
  "demo_control_headers = [(''authorization'', Some (Text (''Bearer '' @ replicate 32 CHR ''t'')))]"

definition hello_known :: "db \<Rightarrow> bool" where
  "hello_known d \<longleftrightarrow> (\<exists>w. db_workers d = [w] \<and> wk_id w = ''k1'' \<and> wk_credential w = ''hash'' \<and> wk_enabled w)"

lemma demo_token: "control_token demo_control_headers = Some (replicate 32 CHR ''t'')"
  by (simp add: control_token_def demo_control_headers_def text_header_def header_def WorkerTokenSchema_def
      worker_token_char_def starts_with_def is_digit_def is_lower_def Let_def list_all_iff)

lemma demo_control_identity:
  "hello_known d \<Longrightarrow> control_identity demo_settings demo_control_headers d = Some (''k1'', ''hash'')"
  by (auto simp: hello_known_def control_identity_def demo_token demo_settings_def
      findWorkerByCredentialHash_def)

lemma update_workers_rows:
  "db_workers (update_workers source t p f d) =
     update_where p (\<lambda>w. workers_enabled_status w (f w)) (db_workers d)"
  using cascadeD(4) [OF cascade_update_workers [where d = d and p = p and f = f and s = source and t = t]] by simp

lemma hello_known_update:
  assumes "hello_known d" "\<And>w. wk_id (f w) = wk_id w \<and> wk_credential (f w) = wk_credential w \<and> wk_enabled (f w) = wk_enabled w"
  shows "hello_known (update_workers source t p f d)"
  using assms unfolding hello_known_def update_workers_rows update_where_def workers_enabled_status_def
  by auto

lemma hello_known_audit [simp]: "hello_known (insert_audit t e a ow w k j d) = hello_known d"
  by (simp add: hello_known_def)

lemma hello_known_reports:
  "hello_known d \<Longrightarrow> hello_known (recordWorkerEgress t workerId (hel_egress demo_hello) now d)"
  "hello_known d \<Longrightarrow> hello_known (recordWorkerStorage t workerId (hel_storage demo_hello) now d)"
  unfolding recordWorkerEgress_def recordWorkerStorage_def Let_def
  by (auto simp: demo_hello_def split: option.split intro: hello_known_update)

lemma demo_hello_recorded:
  assumes "hello_known d" "cn_worker c = ''k1''" "cn_hash c = ''hash''"
  shows "\<exists>d'. recordWorkerHello t (hello_row c demo_control_hello now) d = Inr (True, d') \<and> hello_known d'"
proof -
  obtain w where w: "db_workers d = [w]" "wk_id w = ''k1''" "wk_credential w = ''hash''" "wk_enabled w"
    using assms(1) by (auto simp: hello_known_def)
  obtain image rest where images: "hel_images demo_hello = image # rest" by (simp add: demo_hello_def)
  have known: "hello_known (update_workers default_audit_source t p f d)"
    if "\<And>w. wk_id (f w) = wk_id w \<and> wk_credential (f w) = wk_credential w \<and> wk_enabled (f w) = wk_enabled w" for p f
    by (rule hello_known_update [OF assms(1) that])
  show ?thesis
    by (simp add: recordWorkerHello_def hello_row_def demo_control_hello_def images returning_def Let_def
        within_capacity_def w assms(2,3) hello_known_reports known)
qed

text \<open>The hello of one socket, up to the answer of the database and to the end.\<close>

definition hello_pending :: "nat \<Rightarrow> unit control_plane \<Rightarrow> unit control_plane" where
  "hello_pending s st = control_run demo_settings
     [Ev_Connect s demo_control_headers,
      Ev_Message s 3 (Message_Input (Hello_Message demo_control_hello)), Ev_Statement s 3 False] st"

lemma demo_hello_valid: "message_valid demo_settings (Hello_Message demo_control_hello)"
  by (simp add: message_valid_def demo_settings_def hello_valid_def demo_control_hello_def demo_hello_def
      short_text_def MAX_SAFE_INTEGER_def)

lemma hello_pending_state:
  assumes "hello_known (cl_db st)" "cl_conns st s = None"
  shows "\<exists>d'. hello_known d' \<and>
    hello_pending s st = st\<lparr>cl_db := d', cl_open := (cl_open st)(s := True),
      cl_conns := (cl_conns st)(s \<mapsto> (new_conn ''k1'' ''hash'')
        \<lparr>cn_wait := Some (Aw_Hello demo_control_hello 3, Some (An_Recorded True))\<rparr>)\<rparr>"
proof -
  obtain d' where d': "recordWorkerHello 3 (hello_row ((new_conn ''k1'' ''hash'' :: unit control_conn)
      \<lparr>cn_wait := Some (Aw_Hello demo_control_hello 3, None)\<rparr>) demo_control_hello 3) (cl_db st) = Inr (True, d')"
      "hello_known d'"
    using demo_hello_recorded [OF assms(1), of "(new_conn ''k1'' ''hash'' :: unit control_conn)
      \<lparr>cn_wait := Some (Aw_Hello demo_control_hello 3, None)\<rparr>" 3 3] by (auto simp: new_conn_def)
  have "wh_worker demo_control_hello = ''k1''" by (simp add: demo_control_hello_def)
  then show ?thesis
    using assms d'(2) demo_control_identity [OF assms(1)]
    by (intro exI [of _ d'])
      (simp add: demo_hello_valid d'(1) [unfolded new_conn_def, simplified] hello_pending_def control_run_def ctl_connect_def ctl_message_def begin_input_def
        wait_for_def set_conn_def new_conn_def ctl_statement_def run_statement_def)
qed

definition demo_connected :: "unit control_plane" where
  "demo_connected = control_step demo_settings (Ev_Resume 0 3) (hello_pending 0 (control_init demo_provisioned))"

lemma demo_known: "hello_known demo_provisioned"
  by (simp add: hello_known_def demo_defs audit_workspace_insert_def)

section \<open>Properties\<close>

text \<open>C16. Whatever the order of messages, database answers, closes and commands: a connection over which
the Control Plane sends a Worker its commands was authenticated as that Worker, its hello was accepted, it
was neither rejected nor closed, and it is the only open accepted connection of that Worker.\<close>

theorem commands_reach_accepted_connection:
  assumes "st = control_run cfg evs (control_init d)" "isConnected (cl_open st) workerId (cl_channel st)"
  shows "\<exists>s c. registered st workerId = Some s \<and> cl_open st s \<and> cl_conns st s = Some c \<and>
    cn_worker c = workerId \<and> cn_hello c \<and> \<not> cn_rejected c \<and> \<not> cn_closed c \<and>
    (\<forall>s' c'. cl_conns st s' = Some c' \<and> cn_worker c' = workerId \<and> cn_hello c' \<and> cl_open st s' \<longrightarrow> s' = s)"
proof -
  have ok: "control_ok cfg st" unfolding assms(1) by (rule control_ok_run [OF control_ok_init])
  obtain s where s: "registered st workerId = Some s" "cl_open st s"
    using assms(2) by (auto simp: isConnected_def registered_def split: option.splits)
  obtain c where c: "cl_conns st s = Some c" "cn_worker c = workerId" "cn_hello c"
    using control_okD(2) [OF ok s(1)] by auto
  have only: "s' = s" if "cl_conns st s' = Some c' \<and> cn_worker c' = workerId \<and> cn_hello c' \<and> cl_open st s'" for s' c'
    using control_okD(1) [OF ok, of s' c'] that s(1) by (simp add: conn_ok_def)
  have "\<not> cn_rejected c \<and> \<not> cn_closed c"
    using control_okD(1) [OF ok c(1)] s(2) by (simp add: conn_ok_def)
  with s c only show ?thesis by blast
qed

lemma demo_connected_run:
  "demo_connected = control_run demo_settings
     [Ev_Connect 0 demo_control_headers,
      Ev_Message 0 3 (Message_Input (Hello_Message demo_control_hello)), Ev_Statement 0 3 False,
      Ev_Resume 0 3] (control_init demo_provisioned)"
  by (simp add: demo_connected_def hello_pending_def control_run_def)

text \<open>The answer to a hello is picked up.\<close>

lemma resume_accepted:
  assumes "cl_conns st s = Some c" "cn_wait c = Some (Aw_Hello h t, Some (An_Recorded True))" "cn_queue c = []"
  shows "registered (ctl_resume cfg s now st) (cn_worker c) = Some s"
    "cl_open (ctl_resume cfg s now st) s' \<longleftrightarrow>
       cl_open st s' \<and> (s' = s \<or> registered st (cn_worker c) \<noteq> Some s')"
    "registered st (cn_worker c) = Some s' \<Longrightarrow> s' \<noteq> s \<Longrightarrow>
       Closed_With s' 4000 ''Worker connection superseded'' \<in> set (cl_out (ctl_resume cfg s now st))"
    "s' \<noteq> s \<Longrightarrow> cl_conns (ctl_resume cfg s now st) s' = cl_conns st s'"
proof -
  define st1 where "st1 = resume_hello s True c st"
  have conn: "cl_conns st1 s = Some (c\<lparr>cn_hello := True, cn_wait := None\<rparr>)"
    and reg: "registered st1 (cn_worker c) = Some s"
    and opened: "cl_open st1 s' \<longleftrightarrow> cl_open st s' \<and> (s' = s \<or> registered st (cn_worker c) \<noteq> Some s')"
    using resume_hello_accepts [of True s c st]
    by (auto simp: st1_def accept_conn_def Let_def register_def registered_def set_conn_def)
  have resumed: "ctl_resume cfg s now st = set_conn s (c\<lparr>cn_hello := True, cn_wait := None, cn_queue := []\<rparr>) st1"
    using assms conn by (simp add: ctl_resume_def resume_answer_def st1_def)
  show "cl_conns (ctl_resume cfg s now st) s' = cl_conns st s'" if "s' \<noteq> s"
    using that resume_hello_accepts [of True s c st]
    by (auto simp: resumed st1_def accept_conn_def Let_def set_conn_def)
  show "registered (ctl_resume cfg s now st) (cn_worker c) = Some s"
    using reg by (simp add: resumed set_conn_def registered_def)
  show "cl_open (ctl_resume cfg s now st) s' \<longleftrightarrow>
      cl_open st s' \<and> (s' = s \<or> registered st (cn_worker c) \<noteq> Some s')"
    using opened by (simp add: resumed set_conn_def)
  show "Closed_With s' 4000 ''Worker connection superseded'' \<in> set (cl_out (ctl_resume cfg s now st))"
    if "registered st (cn_worker c) = Some s'" "s' \<noteq> s"
    using that by (simp add: resumed st1_def resume_hello_def register_def registered_def set_conn_def
        channel_effects_def channel_effect_def close_socket_def Let_def)
qed

lemma hello_pending_facts:
  assumes "hello_known (cl_db st)" "cl_conns st s = None"
  shows "hello_known (cl_db (hello_pending s st))"
    "cl_conns (hello_pending s st) = (cl_conns st)(s \<mapsto> (new_conn ''k1'' ''hash'')
        \<lparr>cn_wait := Some (Aw_Hello demo_control_hello 3, Some (An_Recorded True))\<rparr>)"
    "cl_open (hello_pending s st) = (cl_open st)(s := True)"
    "cl_channel (hello_pending s st) = cl_channel st"
  using hello_pending_state [OF assms] by auto

lemma demo_connected_state:
  "registered demo_connected ''k1'' = Some 0" "cl_open demo_connected 0"
proof -
  have init: "hello_known (cl_db (control_init demo_provisioned))" "cl_conns (control_init demo_provisioned) 0 = None"
    by (simp_all add: control_init_def demo_known)
  note pending = hello_pending_facts [OF init]
  have conn: "cl_conns (hello_pending 0 (control_init demo_provisioned)) 0 =
      Some ((new_conn ''k1'' ''hash'')\<lparr>cn_wait := Some (Aw_Hello demo_control_hello 3, Some (An_Recorded True))\<rparr>)"
    by (simp add: pending)
  note resumed = resume_accepted [OF conn, where cfg = demo_settings and now = 3, unfolded new_conn_def, simplified]
  show "registered demo_connected ''k1'' = Some 0" using resumed by (simp add: demo_connected_def)
  show "cl_open demo_connected 0" using resumed pending(3) by (simp add: demo_connected_def)
qed

lemma demo_connected_open: "isConnected (cl_open demo_connected) ''k1'' (cl_channel demo_connected)"
  using demo_connected_state by (simp add: isConnected_def registered_def)

lemma commands_reach_accepted_connection_witness:
  "\<exists>c. cl_conns demo_connected 0 = Some c \<and> cn_hello c \<and> \<not> cn_rejected c"
  using commands_reach_accepted_connection [OF demo_connected_run demo_connected_open] demo_connected_state
  by auto

text \<open>C17. A hello whose answer from the database arrives after its socket closed registers the closed
socket all the same: the open connection the Worker has by then is closed as superseded, and the Worker
counts as disconnected until it connects again.\<close>

theorem late_hello_displaces_connection:
  assumes "st = control_run cfg evs (control_init d)" "cl_conns st s = Some c" "cn_closed c" "cn_queue c = []"
    "cn_wait c = Some (Aw_Hello h t, Some (An_Recorded True))"
    "registered st (cn_worker c) = Some s'" "cl_open st s'"
  shows "registered (control_step cfg (Ev_Resume s now) st) (cn_worker c) = Some s \<and>
    Closed_With s' 4000 ''Worker connection superseded'' \<in> set (cl_out (control_step cfg (Ev_Resume s now) st)) \<and>
    \<not> cl_open (control_step cfg (Ev_Resume s now) st) s' \<and>
    \<not> isConnected (cl_open (control_step cfg (Ev_Resume s now) st)) (cn_worker c)
        (cl_channel (control_step cfg (Ev_Resume s now) st))"
proof -
  have ok: "control_ok cfg st" unfolding assms(1) by (rule control_ok_run [OF control_ok_init])
  have shut: "\<not> cl_open st s" using control_okD(1) [OF ok assms(2)] assms(3) by (auto simp: conn_ok_def)
  then have other: "s' \<noteq> s" using assms(7) by auto
  note resumed = resume_accepted [OF assms(2,5,4), where cfg = cfg and now = now]
  show ?thesis
    using resumed(1) resumed(2) [of s] resumed(2) [of s'] resumed(3) [OF assms(6) other] shut other assms(6)
    by (simp add: isConnected_def registered_def)
qed

text \<open>The socket 1 says hello and closes before its answer arrives; meanwhile the Worker connected again.\<close>

definition demo_late :: "unit control_plane" where
  "demo_late = control_run demo_settings [Ev_Resume 2 3]
     (hello_pending 2 (ctl_closed 1 (hello_pending 1 (control_init demo_provisioned))))"

lemma demo_late_run:
  "demo_late = control_run demo_settings
     [Ev_Connect 1 demo_control_headers,
      Ev_Message 1 3 (Message_Input (Hello_Message demo_control_hello)), Ev_Statement 1 3 False, Ev_Closed 1,
      Ev_Connect 2 demo_control_headers,
      Ev_Message 2 3 (Message_Input (Hello_Message demo_control_hello)), Ev_Statement 2 3 False,
      Ev_Resume 2 3] (control_init demo_provisioned)"
  by (simp add: demo_late_def hello_pending_def control_run_def)

lemma demo_late_state:
  "cl_conns demo_late 1 = Some ((new_conn ''k1'' ''hash'')\<lparr>cn_rejected := True, cn_closed := True,
     cn_wait := Some (Aw_Hello demo_control_hello 3, Some (An_Recorded True))\<rparr>)"
  "registered demo_late ''k1'' = Some 2" "cl_open demo_late 2"
proof -
  let ?waiting = "(new_conn ''k1'' ''hash'' :: unit control_conn)
      \<lparr>cn_wait := Some (Aw_Hello demo_control_hello 3, Some (An_Recorded True))\<rparr>"
  define st where "st = ctl_closed 1 (hello_pending 1 (control_init demo_provisioned))"
  have init: "hello_known (cl_db (control_init demo_provisioned))" "cl_conns (control_init demo_provisioned) 1 = None"
    by (simp_all add: control_init_def demo_known)
  note first = hello_pending_facts [OF init]
  have st: "hello_known (cl_db st)" "cl_conns st 2 = None"
    "cl_conns st 1 = Some (?waiting\<lparr>cn_rejected := True, cn_closed := True\<rparr>)"
    using first by (simp_all add: st_def ctl_closed_def Let_def set_conn_def control_init_def new_conn_def)
  note second = hello_pending_facts [OF st(1,2)]
  have conn: "cl_conns (hello_pending 2 st) 2 = Some ?waiting" by (simp add: second)
  have late: "demo_late = ctl_resume demo_settings 2 3 (hello_pending 2 st)"
    by (simp add: demo_late_def st_def control_run_def)
  note resumed = resume_accepted [OF conn, where cfg = demo_settings and now = 3, unfolded new_conn_def, simplified]
  show "registered demo_late ''k1'' = Some 2" using resumed by (simp add: late)
  show "cl_open demo_late 2" using resumed second(3) by (simp add: late)
  have "cl_conns demo_late 1 = cl_conns (hello_pending 2 st) 1"
    using resumed(4) [where s' = 1] by (simp add: late)
  then show "cl_conns demo_late 1 = Some ((new_conn ''k1'' ''hash'')\<lparr>cn_rejected := True, cn_closed := True,
     cn_wait := Some (Aw_Hello demo_control_hello 3, Some (An_Recorded True))\<rparr>)"
    using st(3) by (simp add: second new_conn_def)
qed

lemma late_hello_displaces_connection_witness:
  "registered (control_step demo_settings (Ev_Resume 1 4) demo_late) ''k1'' = Some 1 \<and>
   \<not> cl_open (control_step demo_settings (Ev_Resume 1 4) demo_late) 2"
proof -
  let ?c = "(new_conn ''k1'' ''hash'')\<lparr>cn_rejected := True, cn_closed := True,
     cn_wait := Some (Aw_Hello demo_control_hello 3, Some (An_Recorded True))\<rparr> :: unit control_conn"
  have "cn_closed ?c" "cn_queue ?c = []"
    "cn_wait ?c = Some (Aw_Hello demo_control_hello 3, Some (An_Recorded True))"
    "registered demo_late (cn_worker ?c) = Some 2"
    using demo_late_state(2) by (simp_all add: new_conn_def)
  from late_hello_displaces_connection [OF demo_late_run demo_late_state(1) this demo_late_state(3)]
  show ?thesis by (simp add: new_conn_def del: control_step.simps)
qed

end
