(* ===== verification/Passwords.thy ===== *)
theory Passwords
  imports Prelude
begin

text \<open>
  \<open>packages/auth/src/index.ts\<close>: how a password is stored and checked. \<open>scrypt\<close> of a password and a salt
  (\<open>None\<close> when it fails) and the base64url codec of Node's \<open>Buffer\<close> are parameters; text is its bytes.
\<close>

definition SCRYPT_PARAMETERS :: string where
  "SCRYPT_PARAMETERS = ''N=16384,r=8,p=1''"

definition SCRYPT_KEY_LENGTH :: nat where "SCRYPT_KEY_LENGTH = 64"

definition SCRYPT_SALT_LENGTH :: nat where "SCRYPT_SALT_LENGTH = 16"

text \<open>\<open>None\<close> is a thrown error; \<open>salt\<close> are 16 random bytes.\<close>

definition hashPassword ::
  "(string \<Rightarrow> string \<Rightarrow> string option) \<Rightarrow> (string \<Rightarrow> string) \<Rightarrow> string \<Rightarrow> string \<Rightarrow> string option" where
  "hashPassword scrypt encode salt password =
     (if length password < 12 \<or> 1024 < length password then None
      else case scrypt password salt of
          None \<Rightarrow> None
        | Some derived \<Rightarrow>
            Some (join_with CHR ''$'' [''scrypt'', SCRYPT_PARAMETERS, encode salt, encode derived]))"

definition verifyPassword ::
  "(string \<Rightarrow> string \<Rightarrow> string option) \<Rightarrow> (string \<Rightarrow> string) \<Rightarrow> string \<Rightarrow> string \<Rightarrow> bool" where
  "verifyPassword scrypt decode password encodedHash =
     (case split_on CHR ''$'' encodedHash of
        [scheme, params, saltPart, keyPart] \<Rightarrow>
          if scheme \<noteq> ''scrypt'' \<or> params \<noteq> SCRYPT_PARAMETERS then False
          else
            let salt = decode saltPart; expected = decode keyPart in
            if length salt \<noteq> SCRYPT_SALT_LENGTH \<or> length expected \<noteq> SCRYPT_KEY_LENGTH then False
            else scrypt password salt = Some expected
      | _ \<Rightarrow> False)"

definition constantTimeTextEqual :: "string \<Rightarrow> string \<Rightarrow> bool" where
  "constantTimeTextEqual left right \<longleftrightarrow> length left = length right \<and> left = right"

section \<open>A stored password is the one that was hashed\<close>

text \<open>What the model needs of the two parameters: the codec inverts, and does not print a dollar sign.\<close>

definition codec_ok :: "(string \<Rightarrow> string) \<Rightarrow> (string \<Rightarrow> string) \<Rightarrow> bool" where
  "codec_ok encode decode \<longleftrightarrow> (\<forall>bytes. decode (encode bytes) = bytes \<and> CHR ''$'' \<notin> set (encode bytes))"

lemma verify_hashed:
  assumes "hashPassword scrypt encode salt password = Some stored" "codec_ok encode decode"
    "length salt = SCRYPT_SALT_LENGTH" "\<forall>p s key. scrypt p s = Some key \<longrightarrow> length key = SCRYPT_KEY_LENGTH"
  shows "verifyPassword scrypt decode other stored \<longleftrightarrow> scrypt other salt = scrypt password salt"
proof -
  obtain derived where derived: "scrypt password salt = Some derived"
    "stored = join_with CHR ''$'' [''scrypt'', SCRYPT_PARAMETERS, encode salt, encode derived]"
    using assms(1) by (auto simp: hashPassword_def split: if_splits option.splits)
  have "split_on CHR ''$'' stored = [''scrypt'', SCRYPT_PARAMETERS, encode salt, encode derived]"
    unfolding derived(2) by (rule split_on_join) (use assms(2) in \<open>auto simp: codec_ok_def SCRYPT_PARAMETERS_def\<close>)
  with assms(2,3,4) derived(1) show ?thesis
    by (auto simp: verifyPassword_def codec_ok_def Let_def)
qed

end
