(* ===== verification/ExternalAuth.thy ===== *)
theory ExternalAuth
  imports Users Containers "HOL-Library.AList"
begin

text \<open>
  Login through an identity provider, below the routes: the transaction stores of
  \<open>apps/control-plane/src/oidc.ts\<close> and \<open>oauth2.ts\<close> (the two classes differ in the nonce only), what is
  read out of an ID token or a UserInfo document, and the OAuth2 client. \<open>openid-client\<close>, the URL class
  and \<open>fetch\<close> are parameters. A store lists its entries in insertion order, as a \<open>Map\<close> does.
\<close>

section \<open>Transactions\<close>

record auth_transaction =
  at_state :: string
  at_nonce :: "string option"
  at_verifier :: string

type_synonym transaction_store = "(string \<times> auth_transaction \<times> instant) list"

definition TRANSACTION_TTL_MS :: instant where "TRANSACTION_TTL_MS = 10 * 60 * 1000"

definition MAX_TRANSACTIONS :: nat where "MAX_TRANSACTIONS = 10000"

definition removeExpired :: "instant \<Rightarrow> transaction_store \<Rightarrow> transaction_store" where
  "removeExpired now store = filter (\<lambda>(_, _, expires). \<not> expires \<le> now) store"

text \<open>\<open>None\<close> is a thrown error: the store is full.\<close>

definition create_transaction ::
  "(string \<Rightarrow> string) \<Rightarrow> nat \<Rightarrow> auth_transaction \<Rightarrow> string \<Rightarrow> instant \<Rightarrow> transaction_store
   \<Rightarrow> string option \<times> transaction_store" where
  "create_transaction hash maxTransactions transaction handle now store =
     (let live = removeExpired now store in
      if maxTransactions \<le> length live then (None, live)
      else (Some handle, AList.update (hash handle) (transaction, now + TRANSACTION_TTL_MS) live))"

definition consume_transaction ::
  "(string \<Rightarrow> string) \<Rightarrow> string \<Rightarrow> instant \<Rightarrow> transaction_store
   \<Rightarrow> auth_transaction option \<times> transaction_store" where
  "consume_transaction hash handle now store =
     (let rest = AList.delete (hash handle) store in
      case map_of store (hash handle) of
        None \<Rightarrow> (None, rest)
      | Some (transaction, expires) \<Rightarrow> (if expires \<le> now then None else Some transaction, rest))"

lemma consumed_is_gone:
  "map_of (snd (consume_transaction hash handle now store)) (hash handle) = None"
  by (simp add: consume_transaction_def Let_def delete_conv split: option.split prod.split)

lemma consume_absent:
  "map_of store (hash handle) = None \<Longrightarrow> fst (consume_transaction hash handle now store) = None"
  by (simp add: consume_transaction_def)

lemma consume_keeps_other:
  "hash other \<noteq> hash handle \<Longrightarrow>
    map_of (snd (consume_transaction hash handle now store)) (hash other) = map_of store (hash other)"
  by (simp add: consume_transaction_def Let_def delete_conv split: option.split prod.split)

lemma transaction_round_trip:
  assumes "create_transaction hash limit transaction handle now store = (Some h, store')"
  shows "fst (consume_transaction hash h later store') =
    (if now + TRANSACTION_TTL_MS \<le> later then None else Some transaction)"
  using assms
  by (auto simp: create_transaction_def consume_transaction_def Let_def update_conv split: if_splits)

lemma update_length_le: "length (AList.update k v al) \<le> Suc (length al)"
  by (induction al) auto

lemma transactions_bounded:
  assumes "length store \<le> limit"
  shows "length (snd (create_transaction hash limit transaction handle now store)) \<le> limit"
proof -
  have "length (removeExpired now store) \<le> limit"
    using assms length_filter_le [of _ store] unfolding removeExpired_def by (meson le_trans)
  then show ?thesis
    using update_length_le [of "hash handle" "(transaction, now + TRANSACTION_TTL_MS)" "removeExpired now store"]
    by (simp add: create_transaction_def Let_def)
qed

section \<open>The profile of an identity\<close>

record external_profile =
  xp_subject :: string
  xp_username :: "string option"
  xp_email :: "string option"
  xp_display :: "string option"

definition snapshotClaim :: "json option \<Rightarrow> nat \<Rightarrow> string option" where
  "snapshotClaim v maxLength =
     (case v of
        Some (JStr s) \<Rightarrow> if 0 < length s \<and> length s \<le> maxLength then Some s else None
      | _ \<Rightarrow> None)"

text \<open>\<open>None\<close>, here and below, is a thrown error.\<close>

definition oidc_profile :: "(string \<times> json) list option \<Rightarrow> external_profile option" where
  "oidc_profile claims =
     (case claims of
        None \<Rightarrow> None
      | Some c \<Rightarrow>
          (case map_of c ''sub'' of
             Some (JStr sub) \<Rightarrow>
               if length sub = 0 \<or> 1024 < length sub then None
               else
                 let username = snapshotClaim (map_of c ''preferred_username'') 256 in
                 Some \<lparr>xp_subject = sub, xp_username = username,
                   xp_email = snapshotClaim (map_of c ''email'') 320,
                   xp_display = (case snapshotClaim (map_of c ''name'') 256 of
                       None \<Rightarrow> username | Some s \<Rightarrow> Some s)\<rparr>
           | _ \<Rightarrow> None))"

section \<open>Fields of a UserInfo document\<close>

definition path_char :: "char \<Rightarrow> bool" where
  "path_char c \<longleftrightarrow> is_lower c \<or> is_upper c \<or> is_digit c \<or> c = CHR ''_'' \<or> c = CHR ''-''"

text \<open>What follows an opening bracket: \<open>\s*"([A-Za-z0-9_-]+)"\s*\]\<close>, the name and the rest.\<close>

definition bracket_segment :: "string \<Rightarrow> (string \<times> string) option" where
  "bracket_segment s =
     (case dropWhile js_space s of
        q # r \<Rightarrow>
          if q \<noteq> CHR 0x22 \<or> takeWhile path_char r = [] then None
          else
            (case dropWhile path_char r of
               q' # r' \<Rightarrow>
                 if q' \<noteq> CHR 0x22 then None
                 else
                   (case dropWhile js_space r' of
                      b # rest \<Rightarrow> if b = CHR '']'' then Some (takeWhile path_char r, rest) else None
                    | [] \<Rightarrow> None)
             | [] \<Rightarrow> None)
      | [] \<Rightarrow> None)"

lemma drop_shorter: "dropWhile p s = x # xs \<Longrightarrow> length xs < length s"
  by (metis length_Cons length_dropWhile_le less_eq_Suc_le)

lemma bracket_shorter: "bracket_segment s = Some (name, rest) \<Longrightarrow> length rest < length s"
  by (auto simp: bracket_segment_def split: list.splits if_splits dest!: drop_shorter)

function expand_brackets :: "string \<Rightarrow> string" where
  "expand_brackets [] = []"
| "expand_brackets (c # cs) =
     (if c = CHR ''['' then
        (case bracket_segment cs of
           None \<Rightarrow> c # expand_brackets cs
         | Some (name, rest) \<Rightarrow> CHR ''.'' # name @ expand_brackets rest)
      else c # expand_brackets cs)"
  by pat_completeness auto
termination
  by (relation "measure length") (auto dest!: bracket_shorter)

definition normalizeJsonPath :: "string \<Rightarrow> string list" where
  "normalizeJsonPath path = filter (\<lambda>segment. segment \<noteq> []) (split_on CHR ''.'' (expand_brackets path))"

text \<open>\<open>None\<close> is \<open>undefined\<close>.\<close>

fun read_segments :: "string list \<Rightarrow> json \<Rightarrow> json option" where
  "read_segments [] current = Some current"
| "read_segments (segment # rest) (JObj members) =
     (case map_of members segment of None \<Rightarrow> None | Some v \<Rightarrow> read_segments rest v)"
| "read_segments (segment # rest) _ = None"

definition readJsonPath :: "(string \<times> json) list \<Rightarrow> string \<Rightarrow> json option" where
  "readJsonPath v path = read_segments (normalizeJsonPath path) (JObj v)"

definition mappedString ::
  "(string \<times> json) list \<Rightarrow> string option \<Rightarrow> bool \<Rightarrow> nat \<Rightarrow> string option option" where
  "mappedString v path required maxLength =
     (case path of
        None \<Rightarrow> Some None
      | Some p \<Rightarrow>
          (case readJsonPath v p of
             None \<Rightarrow> if required then None else Some None
           | Some (JStr s) \<Rightarrow> if length s = 0 \<or> maxLength < length s then None else Some (Some s)
           | Some _ \<Rightarrow> None))"

section \<open>The OAuth2 client\<close>

record oauth2_options =
  oo_client_id :: string
  oo_client_secret :: string
  oo_scope :: string
  oo_subject :: string
  oo_username :: "string option"
  oo_email :: "string option"
  oo_display :: "string option"
  oo_query_token :: bool

definition oauth2_profile :: "oauth2_options \<Rightarrow> (string \<times> json) list \<Rightarrow> external_profile option" where
  "oauth2_profile options profile =
     (case (mappedString profile (Some (oo_subject options)) True 1024,
            mappedString profile (oo_username options) False 256,
            mappedString profile (oo_email options) False 320,
            mappedString profile (oo_display options) False 256) of
        (Some (Some subject), Some username, Some email, Some display) \<Rightarrow>
          Some \<lparr>xp_subject = subject, xp_username = username, xp_email = email, xp_display = display\<rparr>
      | _ \<Rightarrow> None)"

text \<open>The query parameters set on the authorization URL; \<open>challenge\<close> is the SHA-256 code challenge.\<close>

definition oauth2_authorization ::
  "oauth2_options \<Rightarrow> (string \<Rightarrow> string) \<Rightarrow> string \<Rightarrow> string \<Rightarrow> string
   \<Rightarrow> (string \<times> string) list \<times> auth_transaction" where
  "oauth2_authorization options challenge redirectUri state codeVerifier =
     ([(''response_type'', ''code''), (''client_id'', oo_client_id options), (''redirect_uri'', redirectUri),
       (''state'', state), (''code_challenge'', challenge codeVerifier),
       (''code_challenge_method'', ''S256'')] @
      (if oo_scope options \<noteq> [] then [(''scope'', oo_scope options)] else []),
      \<lparr>at_state = state, at_nonce = None, at_verifier = codeVerifier\<rparr>)"

datatype oauth2_call =
    Token_Call "(string \<times> string) list"
  | Userinfo_Query string
  | Userinfo_Bearer string

text \<open>An answer is whether the status is a success and the JSON of the body.\<close>

type_synonym 'w oauth2_fetch = "oauth2_call \<Rightarrow> 'w \<Rightarrow> (bool \<times> json) option \<times> 'w"

definition object_answer :: "(bool \<times> json) option \<Rightarrow> (string \<times> json) list option" where
  "object_answer answer = (case answer of Some (True, JObj members) \<Rightarrow> Some members | _ \<Rightarrow> None)"

definition access_token :: "(string \<times> json) list \<Rightarrow> string option" where
  "access_token payload =
     (case map_of payload ''access_token'' of
        Some (JStr token) \<Rightarrow>
          if length token = 0 \<or> 16384 < length token then None
          else
            (case map_of payload ''token_type'' of
               None \<Rightarrow> Some token
             | Some (JStr kind) \<Rightarrow> if to_lower kind \<noteq> ''bearer'' then None else Some token
             | Some _ \<Rightarrow> None)
      | _ \<Rightarrow> None)"

definition token_form :: "oauth2_options \<Rightarrow> string \<Rightarrow> string \<Rightarrow> auth_transaction \<Rightarrow> (string \<times> string) list" where
  "token_form options redirectUri code transaction =
     [(''grant_type'', ''authorization_code''), (''code'', code), (''redirect_uri'', redirectUri),
      (''client_id'', oo_client_id options), (''client_secret'', oo_client_secret options),
      (''code_verifier'', at_verifier transaction)]"

text \<open>\<open>params\<close> are the parameters of the callback URL.\<close>

definition oauth2_exchange ::
  "oauth2_options \<Rightarrow> 'w oauth2_fetch \<Rightarrow> string \<Rightarrow> (string \<times> string) list \<Rightarrow> auth_transaction \<Rightarrow> 'w
   \<Rightarrow> external_profile option \<times> 'w" where
  "oauth2_exchange options fetch redirectUri params transaction w =
     (case map_of params ''code'' of
        None \<Rightarrow> (None, w)
      | Some code \<Rightarrow>
          if code = [] \<or> map_of params ''state'' \<noteq> Some (at_state transaction) then (None, w)
          else
            (case fetch (Token_Call (token_form options redirectUri code transaction)) w of (answer, w1) \<Rightarrow>
              (case Option.bind (object_answer answer) access_token of
                 None \<Rightarrow> (None, w1)
               | Some token \<Rightarrow>
                   (case fetch (if oo_query_token options then Userinfo_Query token else Userinfo_Bearer token) w1 of
                      (answer, w2) \<Rightarrow> (Option.bind (object_answer answer) (oauth2_profile options), w2)))))"

lemma oauth2_exchange_checks_state:
  "fst (oauth2_exchange options fetch redirectUri params transaction w) = Some profile \<Longrightarrow>
    map_of params ''state'' = Some (at_state transaction) \<and> (\<exists>code. map_of params ''code'' = Some code \<and> code \<noteq> [])"
  by (auto simp: oauth2_exchange_def split: option.splits if_splits)

lemma oauth2_exchange_needs_state:
  "map_of params ''state'' \<noteq> Some (at_state transaction) \<Longrightarrow>
    oauth2_exchange options fetch redirectUri params transaction w = (None, w)"
  by (simp add: oauth2_exchange_def split: option.splits)

lemma mappedString_bounded:
  "mappedString v path required maxLength = Some (Some s) \<Longrightarrow> 0 < length s \<and> length s \<le> maxLength"
  by (auto simp: mappedString_def split: option.splits json.splits if_splits)

lemma oauth2_subject_bounded:
  assumes "oauth2_profile options profile = Some x"
  shows "0 < length (xp_subject x) \<and> length (xp_subject x) \<le> 1024"
proof -
  have "mappedString profile (Some (oo_subject options)) True 1024 = Some (Some (xp_subject x))"
    using assms by (auto simp: oauth2_profile_def split: option.splits)
  then show ?thesis by (rule mappedString_bounded)
qed

lemma oidc_subject_bounded:
  "oidc_profile claims = Some x \<Longrightarrow> 0 < length (xp_subject x) \<and> length (xp_subject x) \<le> 1024"
  by (auto simp: oidc_profile_def Let_def split: option.splits json.splits if_splits)

end
