(* ===== verification/Portal.thy ===== *)
theory Portal
  imports GatewayChain Scheduling AuthThrottle AuditTrail Laws Passwords ExternalAuth
begin

text \<open>
  What every route of the Control Plane's API starts with: \<open>apps/control-plane/src/context.ts\<close> and \<open>http.ts\<close>.
  A request acts on a world that holds the database; other requests may change it before every statement,
  so the operations of the environment take and return the whole world. A statement may fail; a failure
  that a route does not catch ends the request. A reply is what is sent: status, error code, cookies and
  body. Metrics and log lines are left out.
\<close>

section \<open>The world and the environment\<close>

record 'n portal_world =
  pw_db :: db
  pw_oidc :: transaction_store
  pw_oauth2 :: transaction_store
  pw_outside :: 'n

datatype portal_failure = Constraint_Failure db_error | Other_Failure

text \<open>
  An identity provider: its client's two operations answer with the authorization URL and the
  transaction to remember, and with a profile; \<open>None\<close> is a thrown error.
\<close>

record 'n provider =
  pv_id :: string
  pv_redirect :: string
  pv_auto :: bool
  pv_domains :: "string list"
  pv_authorize :: "string \<Rightarrow> 'n portal_world \<Rightarrow> (string \<times> auth_transaction) option \<times> 'n portal_world"
  pv_exchange ::
    "string \<Rightarrow> (string \<times> string) list \<Rightarrow> auth_transaction \<Rightarrow> 'n portal_world \<Rightarrow>
     external_profile option \<times> 'n portal_world"

text \<open>The model gateway as the routes use it: new budgets, rotation, and what a user spent.\<close>

record 'n gateway_port =
  gp_apply :: "string \<Rightarrow> 'n portal_world \<Rightarrow> bool \<times> 'n portal_world"
  gp_rotate :: "string option \<Rightarrow> string option \<Rightarrow> string \<Rightarrow> string \<Rightarrow> 'n portal_world \<Rightarrow> nat option \<times> 'n portal_world"

record 'n portal_env =
  pe_statement :: "'n portal_world \<Rightarrow> bool \<times> 'n portal_world"
  pe_now :: "'n portal_world \<Rightarrow> instant"
  pe_id :: "nat \<Rightarrow> 'n portal_world \<Rightarrow> string"
  pe_token :: "'n portal_world \<Rightarrow> string"
  pe_salt :: "'n portal_world \<Rightarrow> string"
  pe_scrypt :: "string \<Rightarrow> string \<Rightarrow> string option"
  pe_encode :: "string \<Rightarrow> string"
  pe_decode :: "string \<Rightarrow> string"
  pe_hash :: "string \<Rightarrow> string"
  pe_csrf :: "string \<Rightarrow> string"
  pe_uuid :: "string \<Rightarrow> bool"
  pe_email :: "string \<Rightarrow> bool"
  pe_isIP :: "string \<Rightarrow> nat"
  pe_trusted :: "string \<Rightarrow> bool"
  pe_origin :: string
  pe_origins :: "string list"
  pe_secure :: bool
  pe_session_ttl :: int
  pe_guard :: login_guard
  pe_external :: "auth_protocol \<Rightarrow> 'n provider option"
  pe_gateway :: "'n gateway_port option"
  pe_disk_max :: int
  pe_limit_disk :: "string \<Rightarrow> string \<Rightarrow> int \<Rightarrow> 'n portal_world \<Rightarrow> bool \<times> 'n portal_world"

text \<open>\<open>pq_address\<close> is the peer of the connection, \<open>pq_id\<close> the request's number.\<close>

record portal_request =
  pq_headers :: headers
  pq_address :: string
  pq_id :: string

datatype portal_body =
    Empty_Body
  | Session_Body user_record string
  | Me_Body session_user string
  | Users_Body "admin_user_record list"
  | User_Body user_record
  | Managed_Body admin_user_record
  | Identities_Body "identity_record list"
  | Identity_Body identity_record
  | Workspaces_Body "workspace_record list"
  | Locks_Body "auth_lock_record list"
  | Methods_Body "string option" "string option"
  | Worker_Body worker_placement_record
  | Workspace_Body workspace_record bool
  | Budget_Body "int option" bool
  | Rotated_Body nat
  | Events_Body "platform_audit_event list"

record portal_reply =
  rp_status :: nat
  rp_code :: string
  rp_cookies :: "string list"
  rp_retry :: "int option"
  rp_location :: "string option"
  rp_body :: portal_body

definition error_reply :: "nat \<Rightarrow> string \<Rightarrow> portal_reply" where
  "error_reply status code =
     \<lparr>rp_status = status, rp_code = code, rp_cookies = [], rp_retry = None, rp_location = None,
      rp_body = Empty_Body\<rparr>"

definition ok_reply :: "nat \<Rightarrow> portal_body \<Rightarrow> portal_reply" where
  "ok_reply status body =
     \<lparr>rp_status = status, rp_code = [], rp_cookies = [], rp_retry = None, rp_location = None, rp_body = body\<rparr>"

text \<open>What a request does and finds out, in order.\<close>

datatype portal_change =
    Create_User string
  | Update_User string "user_role option" "user_status option"
  | Reset_Password string
  | Revoke_Sessions string
  | Bind_Identity string string string
  | Unbind_Identity string string
  | Clear_Locks lock_target
  | Schedule_Worker string bool
  | Limit_Disk string int
  | Apply_Disk_Limit string string int
  | Set_Budget string "int option"
  | Apply_Budget string
  | Rotate_Model_Keys "string option" "string option"

datatype portal_action =
    Origin_Checked bool
  | Session_Checked string "authenticated_session option"
  | Csrf_Checked string bool
  | Lock_Checked "throttle_key list" "instant option"
  | Hits_Counted "throttle_hit list"
  | Failure_Recorded auth_protocol failure_category
  | User_Found string "user_record option"
  | Password_Checked string string bool
  | Session_Created string string bool
  | Session_Revoked string
  | Throttle_Cleared "throttle_key list"
  | Transaction_Consumed auth_protocol string bool
  | Code_Exchanged auth_protocol string
  | External_Completed external_login external_login_result
  | Change_Made string portal_change
  | Connections_Closed string
  | User_Closed string
  | Keys_Kicked
  | Not_Done

type_synonym ('n, 'a) pm = "('n portal_world, portal_action, portal_failure, 'a) act"

text \<open>A statement at the time it runs; one that may violate a constraint.\<close>

definition statement ::
  "'n portal_env \<Rightarrow> (instant \<Rightarrow> db \<Rightarrow> 'a \<times> db) \<Rightarrow> 'n portal_world \<Rightarrow> (portal_failure + 'a) \<times> 'n portal_world" where
  "statement e f w =
     (case pe_statement e w of (failed, w1) \<Rightarrow>
        if failed then (Inl Other_Failure, w1)
        else (case f (pe_now e w1) (pw_db w1) of (a, d) \<Rightarrow> (Inr a, w1\<lparr>pw_db := d\<rparr>)))"

definition constrained ::
  "'n portal_env \<Rightarrow> (instant \<Rightarrow> db \<Rightarrow> ('a \<times> db) result) \<Rightarrow> 'n portal_world
   \<Rightarrow> (portal_failure + 'a) \<times> 'n portal_world" where
  "constrained e f w =
     (case pe_statement e w of (failed, w1) \<Rightarrow>
        if failed then (Inl Other_Failure, w1)
        else (case f (pe_now e w1) (pw_db w1) of
            Inl x \<Rightarrow> (Inl (Constraint_Failure x), w1) | Inr (a, d) \<Rightarrow> (Inr a, w1\<lparr>pw_db := d\<rparr>)))"

definition noted :: "('a \<Rightarrow> portal_action) \<Rightarrow> portal_failure + 'a \<Rightarrow> portal_action" where
  "noted ev r = (case r of Inl _ \<Rightarrow> Not_Done | Inr a \<Rightarrow> ev a)"

definition looked_up :: "('n portal_world \<Rightarrow> 'a) \<Rightarrow> ('n, 'a) pm" where
  "looked_up f = observe (\<lambda>w. (Inr (f w), w))"

section \<open>The guards of a request\<close>

definition session_cookie_name :: "'n portal_env \<Rightarrow> string" where
  "session_cookie_name e = (if pe_secure e then ''__Host-platform-session'' else ''platform-session'')"

definition transaction_cookie_name :: "'n portal_env \<Rightarrow> auth_protocol \<Rightarrow> string" where
  "transaction_cookie_name e protocol =
     (if pe_secure e then ''__Host-'' else []) @
     (if protocol = OIDC then ''oidc-transaction'' else ''oauth2-transaction'')"

definition clientAddress :: "'n portal_env \<Rightarrow> portal_request \<Rightarrow> string" where
  "clientAddress e rq =
     take 128 (resolveClientAddress (pe_isIP e) (pe_trusted e) (pq_address rq)
       (case header ''x-forwarded-for'' (pq_headers rq) of
          None \<Rightarrow> None | Some (Text s) \<Rightarrow> Some [s] | Some (Texts ss) \<Rightarrow> Some ss))"

definition authenticationAudit ::
  "'n portal_env \<Rightarrow> portal_request \<Rightarrow> auth_protocol \<Rightarrow> string \<Rightarrow> auth_audit" where
  "authenticationAudit e rq protocol providerId =
     \<lparr>aa_protocol = protocol, aa_provider = providerId, aa_request = take 128 (pq_id rq),
      aa_ip = clientAddress e rq,
      aa_agent = map_option (take 512) (text_header ''user-agent'' (pq_headers rq))\<rparr>"

definition origin_allowed :: "'n portal_env \<Rightarrow> portal_request \<Rightarrow> bool" where
  "origin_allowed e rq \<longleftrightarrow>
     (case text_header ''origin'' (pq_headers rq) of
        None \<Rightarrow> False | Some origin \<Rightarrow> origin = pe_origin e \<or> origin \<in> set (pe_origins e))"

text \<open>A guard either answers the request or hands it on.\<close>

definition validateOrigin :: "'n portal_env \<Rightarrow> portal_request \<Rightarrow> ('n, portal_reply) pm \<Rightarrow> ('n, portal_reply) pm" where
  "validateOrigin e rq k =
     andThen (external (\<lambda>_. Origin_Checked (origin_allowed e rq)) (\<lambda>w. (Inr (), w)))
     (if \<not> origin_allowed e rq then pure (error_reply 403 ''INVALID_ORIGIN'') else k)"

definition csrf_valid :: "'n portal_env \<Rightarrow> portal_request \<Rightarrow> string \<Rightarrow> bool" where
  "csrf_valid e rq rawToken \<longleftrightarrow>
     (case text_header ''x-csrf-token'' (pq_headers rq) of
        None \<Rightarrow> False | Some supplied \<Rightarrow> constantTimeTextEqual supplied (pe_csrf e rawToken))"

definition validateCsrf ::
  "'n portal_env \<Rightarrow> portal_request \<Rightarrow> string \<Rightarrow> ('n, portal_reply) pm \<Rightarrow> ('n, portal_reply) pm" where
  "validateCsrf e rq rawToken k =
     andThen (external (\<lambda>_. Csrf_Checked rawToken (csrf_valid e rq rawToken)) (\<lambda>w. (Inr (), w)))
     (if \<not> csrf_valid e rq rawToken then pure (error_reply 403 ''INVALID_CSRF'') else k)"

definition authenticate ::
  "'n portal_env \<Rightarrow> portal_request \<Rightarrow> (string \<Rightarrow> authenticated_session \<Rightarrow> ('n, portal_reply) pm)
   \<Rightarrow> ('n, portal_reply) pm" where
  "authenticate e rq k =
     (case parseCookie (text_header ''cookie'' (pq_headers rq)) (session_cookie_name e) of
        None \<Rightarrow> pure (error_reply 401 ''UNAUTHENTICATED'')
      | Some rawToken \<Rightarrow>
          bind (external (noted (Session_Checked rawToken))
                  (statement e (\<lambda>t d. (findActiveSession (pe_hash e rawToken) t d, d)))) (\<lambda>session.
            case session of
              None \<Rightarrow> pure (error_reply 401 ''UNAUTHENTICATED'')
            | Some s \<Rightarrow> k rawToken s))"

definition authenticateAdmin ::
  "'n portal_env \<Rightarrow> portal_request \<Rightarrow> (string \<Rightarrow> authenticated_session \<Rightarrow> ('n, portal_reply) pm)
   \<Rightarrow> ('n, portal_reply) pm" where
  "authenticateAdmin e rq k =
     authenticate e rq (\<lambda>rawToken s.
       if su_role (as_user s) \<noteq> Admin then pure (error_reply 403 ''FORBIDDEN'') else k rawToken s)"

section \<open>The login throttle\<close>

definition sendRateLimited :: "instant \<Rightarrow> instant \<Rightarrow> portal_reply" where
  "sendRateLimited lockedUntil now =
     (error_reply 429 ''AUTH_RATE_LIMITED'')\<lparr>rp_retry := Some (retryAfterSeconds lockedUntil now)\<rparr>"

definition throttle_unavailable :: portal_reply where
  "throttle_unavailable = error_reply 503 ''AUTH_UNAVAILABLE''"

definition find_lock :: "'n portal_env \<Rightarrow> throttle_key list \<Rightarrow> ('n, portal_reply option) pm" where
  "find_lock e keys =
     bind (external (noted (Lock_Checked keys)) (statement e (\<lambda>t d. (findAuthLock keys t d, d)))) (\<lambda>locked.
       case locked of
         None \<Rightarrow> pure None
       | Some until \<Rightarrow> bind (looked_up (pe_now e)) (\<lambda>now. pure (Some (sendRateLimited until now))))"

definition recordThrottleHits :: "'n portal_env \<Rightarrow> throttle_hit list \<Rightarrow> auth_audit \<Rightarrow> ('n, unit) pm" where
  "recordThrottleHits e hits audit =
     bind (looked_up (\<lambda>w. map (\<lambda>i. pe_id e i w) [0..<length hits])) (\<lambda>ids.
     bind (external (noted (\<lambda>_. Hits_Counted hits))
             (statement e (\<lambda>t. recordAuthThrottleHits t (zip ids hits) t audit))) (\<lambda>_. pure ()))"

text \<open>\<open>try { .. } catch\<close> around the throttle: a failure answers 503, an answer ends the request.\<close>

definition throttled ::
  "('n, portal_reply option) pm \<Rightarrow> ('n, portal_reply) pm \<Rightarrow> ('n, portal_reply) pm" where
  "throttled check k =
     bind (try_catch check (\<lambda>_. pure (Some throttle_unavailable))) (\<lambda>early.
       case early of None \<Rightarrow> k | Some reply \<Rightarrow> pure reply)"

definition record_failure ::
  "'n portal_env \<Rightarrow> portal_request \<Rightarrow> auth_protocol \<Rightarrow> string \<Rightarrow> failure_category \<Rightarrow> ('n, unit) pm" where
  "record_failure e rq protocol providerId category =
     external (noted (\<lambda>_. Failure_Recorded protocol category))
       (statement e (\<lambda>t d. ((), recordAuthenticationFailure t category (authenticationAudit e rq protocol providerId) d)))"

end
