(* ===== verification/Login.thy ===== *)
theory Login
  imports Portal Containers
begin

text \<open>
  How a browser gets and ends a session: \<open>routes/auth-local.ts\<close> (password login, logout, the current
  session), \<open>routes/auth-external.ts\<close> (the two external protocols, which differ in their names only) and
  the transaction stores of \<open>oidc.ts\<close> and \<open>oauth2.ts\<close>. The clients that talk to the identity providers
  are operations of the environment. Request bodies are the JSON that was parsed.
\<close>

section \<open>Local login\<close>

definition parse_login :: "json \<Rightarrow> (string \<times> string) option" where
  "parse_login body =
     (case body of
        JObj obj \<Rightarrow>
          (case (map_of obj ''login'', map_of obj ''password'', only_keys [''login'', ''password''] obj) of
             (Some (JStr login), Some (JStr password), True) \<Rightarrow>
               if 3 \<le> length (trim login) \<and> length (trim login) \<le> 320 \<and>
                  1 \<le> length password \<and> length password \<le> 1024
               then Some (trim login, password) else None
           | _ \<Rightarrow> None)
      | _ \<Rightarrow> None)"

definition INVALID_LOGIN_HASH :: string where
  "INVALID_LOGIN_HASH =
     ''scrypt$N=16384,r=8,p=1$MDEyMzQ1Njc4OWFiY2RlZg$91N6IibOCNGoJIaLSVpuW8f6Qg4lxDxxq0yCck7RYgnoDkMSGEYhoP9aqNjR08hwW6OkhlITEQoD_Hoq0k5wxQ''"

definition password_check :: "'n portal_env \<Rightarrow> string \<Rightarrow> string \<Rightarrow> ('n, bool) pm" where
  "password_check e password hash =
     external (noted (Password_Checked password hash))
       (\<lambda>w. (Inr (verifyPassword (pe_scrypt e) (pe_decode e) password hash), w))"

definition invalid_request_login :: "'n portal_env \<Rightarrow> portal_request \<Rightarrow> ('n, portal_reply) pm" where
  "invalid_request_login e rq =
     throttled
       (bind (find_lock e (addressKeys (pe_guard e) (clientAddress e rq))) (\<lambda>locked.
          case locked of
            Some reply \<Rightarrow> pure (Some reply)
          | None \<Rightarrow>
              andThen (recordThrottleHits e [addressFailureHit (pe_guard e) (clientAddress e rq)]
                        (authenticationAudit e rq LOCAL ''local''))
              (pure None)))
       (andThen (record_failure e rq LOCAL ''local'' Invalid_Request)
         (pure (error_reply 400 ''INVALID_REQUEST'')))"

definition invalid_credentials :: "'n portal_env \<Rightarrow> portal_request \<Rightarrow> ('n, portal_reply) pm" where
  "invalid_credentials e rq =
     andThen (record_failure e rq LOCAL ''local'' Invalid_Credentials)
       (pure (error_reply 401 ''INVALID_CREDENTIALS''))"

definition session_reply :: "'n portal_env \<Rightarrow> string \<Rightarrow> user_record \<Rightarrow> portal_reply" where
  "session_reply e rawToken user =
     (ok_reply 200 (Session_Body user (pe_csrf e rawToken)))
       \<lparr>rp_cookies := [sessionCookie (session_cookie_name e) rawToken (nat (pe_session_ttl e div 1000)) (pe_secure e)]\<rparr>"

definition open_session ::
  "'n portal_env \<Rightarrow> portal_request \<Rightarrow> string \<Rightarrow> user_record \<Rightarrow> ('n, portal_reply) pm" where
  "open_session e rq account user =
     bind (looked_up (\<lambda>w. (pe_token e w, pe_id e 0 w))) (\<lambda>(rawToken, sid).
     bind (external (noted (Session_Created (ur_id user) (pe_hash e rawToken)))
             (constrained e (\<lambda>t. createSession t sid (ur_id user) (pe_hash e rawToken) (t + pe_session_ttl e)
                (Some (authenticationAudit e rq LOCAL ''local''))))) (\<lambda>created.
       if \<not> created then invalid_credentials e rq
       else
         andThen (external (noted (\<lambda>_. Throttle_Cleared [accountAddressKey (pe_guard e) account (clientAddress e rq)]))
                   (statement e (\<lambda>t d. ((), clearAuthThrottle
                      [accountAddressKey (pe_guard e) account (clientAddress e rq)] d))))
         (pure (session_reply e rawToken user))))"

definition user_id_of :: "user_record option \<Rightarrow> string option" where
  "user_id_of user = map_option ur_id user"

definition stored_hash :: "user_record option \<Rightarrow> string" where
  "stored_hash user =
     (case user of
        None \<Rightarrow> INVALID_LOGIN_HASH
      | Some u \<Rightarrow> (case ur_password u of None \<Rightarrow> INVALID_LOGIN_HASH | Some h \<Rightarrow> h))"

text \<open>After the lock was checked: the password is verified even for an unknown login.\<close>

definition check_credentials ::
  "'n portal_env \<Rightarrow> portal_request \<Rightarrow> string \<Rightarrow> user_record option \<Rightarrow> string \<Rightarrow> ('n, portal_reply) pm" where
  "check_credentials e rq account user password =
     bind (password_check e password (stored_hash user)) (\<lambda>matches.
       case (user, matches) of
         (Some u, True) \<Rightarrow>
           if ur_status u = Active then open_session e rq account u
           else throttled
             (andThen (recordThrottleHits e
                (localLoginFailureHits (pe_guard e) account (clientAddress e rq) (user_id_of user))
                (authenticationAudit e rq LOCAL ''local'')) (pure None))
             (invalid_credentials e rq)
       | _ \<Rightarrow>
           throttled
             (andThen (recordThrottleHits e
                (localLoginFailureHits (pe_guard e) account (clientAddress e rq) (user_id_of user))
                (authenticationAudit e rq LOCAL ''local'')) (pure None))
             (invalid_credentials e rq))"

definition local_login :: "'n portal_env \<Rightarrow> portal_request \<Rightarrow> json \<Rightarrow> ('n, portal_reply) pm" where
  "local_login e rq body =
     validateOrigin e rq
       (case parse_login body of
          None \<Rightarrow> invalid_request_login e rq
        | Some (login, password) \<Rightarrow>
            bind (external (noted (User_Found login))
                    (statement e (\<lambda>t d. (findUserByLogin login d, d)))) (\<lambda>user.
              let account = accountKey login (user_id_of user) in
              throttled (find_lock e (localLoginKeys (pe_guard e) account (clientAddress e rq)))
                (check_credentials e rq account user password)))"

section \<open>Logout and the current session\<close>

definition local_logout :: "'n portal_env \<Rightarrow> portal_request \<Rightarrow> ('n, portal_reply) pm" where
  "local_logout e rq =
     authenticate e rq (\<lambda>rawToken s.
     validateOrigin e rq
     (validateCsrf e rq rawToken
     (andThen (external (noted (\<lambda>_. Session_Revoked (pe_hash e rawToken)))
                (statement e (\<lambda>t d. ((), revokeSession t (pe_hash e rawToken) t
                   (Some (su_id (as_user s), authenticationAudit e rq LOCAL ''local'')) d))))
     (andThen (external (\<lambda>_. Connections_Closed (as_session s)) (\<lambda>w. (Inr (), w)))
     (pure ((ok_reply 204 Empty_Body)
        \<lparr>rp_cookies := [sessionCookie (session_cookie_name e) [] 0 (pe_secure e)]\<rparr>))))))"

definition current_session :: "'n portal_env \<Rightarrow> portal_request \<Rightarrow> ('n, portal_reply) pm" where
  "current_session e rq =
     authenticate e rq (\<lambda>rawToken s. pure (ok_reply 200 (Me_Body (as_user s) (pe_csrf e rawToken))))"

end
