(* ===== verification/SignOn.thy ===== *)
theory SignOn
  imports Login
begin

text \<open>
  \<open>apps/control-plane/src/routes/auth-external.ts\<close>: login through OIDC or OAuth2. The routes of the two
  protocols differ in the names only and share their definitions; the query of a callback is its list of
  parameters.
\<close>

section \<open>Provisioning\<close>

text \<open>\<open>None\<close> is \<open>undefined\<close>: no account may be provisioned.\<close>

definition normalizedJitEmail ::
  "(string \<Rightarrow> bool) \<Rightarrow> string option \<Rightarrow> string list \<Rightarrow> string option option" where
  "normalizedJitEmail is_email email allowedDomains =
     (case email of
        None \<Rightarrow> if allowedDomains = [] then Some None else None
      | Some text \<Rightarrow>
          let normalized = to_lower (trim text) in
          if \<not> (is_email normalized \<and> length normalized \<le> 320)
          then (if allowedDomains = [] then Some None else None)
          else
            let domain = last (split_on CHR ''@'' normalized) in
            if allowedDomains \<noteq> [] \<and> domain \<notin> set allowedDomains then None else Some (Some normalized))"

definition normalizedJitUsername :: "string option \<Rightarrow> string option" where
  "normalizedJitUsername username =
     (case username of
        None \<Rightarrow> None
      | Some text \<Rightarrow>
          let normalized = to_lower (trim text) in
          if username_ok (Some normalized) then Some normalized else None)"

lemma jit_email_in_domain:
  "normalizedJitEmail is_email email domains = Some mail \<Longrightarrow> domains \<noteq> [] \<Longrightarrow>
    \<exists>text. mail = Some text \<and> last (split_on CHR ''@'' text) \<in> set domains"
  by (auto simp: normalizedJitEmail_def Let_def split: option.splits if_splits)

section \<open>Admission\<close>

definition protocol_name :: "auth_protocol \<Rightarrow> string" where
  "protocol_name p = (case p of LOCAL \<Rightarrow> ''LOCAL'' | OIDC \<Rightarrow> ''OIDC'' | OAUTH2 \<Rightarrow> ''OAUTH2'')"

definition protocol_code :: "auth_protocol \<Rightarrow> string \<Rightarrow> string" where
  "protocol_code p suffix = protocol_name p @ ''_'' @ suffix"

definition admitSsoStart ::
  "'n portal_env \<Rightarrow> portal_request \<Rightarrow> auth_protocol \<Rightarrow> string \<Rightarrow> ('n, portal_reply) pm
   \<Rightarrow> ('n, portal_reply) pm" where
  "admitSsoStart e rq protocol providerId =
     throttled
       (bind (find_lock e (ssoStartKeys (pe_guard e) (clientAddress e rq))) (\<lambda>locked.
          case locked of
            Some reply \<Rightarrow> pure (Some reply)
          | None \<Rightarrow>
              andThen (recordThrottleHits e [ssoStartHit (pe_guard e) (clientAddress e rq)]
                        (authenticationAudit e rq protocol providerId))
              (pure None)))"

definition admitCallback ::
  "'n portal_env \<Rightarrow> portal_request \<Rightarrow> ('n, portal_reply) pm \<Rightarrow> ('n, portal_reply) pm" where
  "admitCallback e rq = throttled (find_lock e (addressKeys (pe_guard e) (clientAddress e rq)))"

definition countCallbackFailure ::
  "'n portal_env \<Rightarrow> portal_request \<Rightarrow> auth_protocol \<Rightarrow> string \<Rightarrow> ('n, portal_reply) pm
   \<Rightarrow> ('n, portal_reply) pm" where
  "countCallbackFailure e rq protocol providerId =
     throttled
       (andThen (recordThrottleHits e [addressFailureHit (pe_guard e) (clientAddress e rq)]
                  (authenticationAudit e rq protocol providerId))
         (pure None))"

section \<open>The transactions of a protocol\<close>

definition transactions_of :: "auth_protocol \<Rightarrow> 'n portal_world \<Rightarrow> transaction_store" where
  "transactions_of p w = (if p = OIDC then pw_oidc w else pw_oauth2 w)"

definition with_transactions :: "auth_protocol \<Rightarrow> transaction_store \<Rightarrow> 'n portal_world \<Rightarrow> 'n portal_world" where
  "with_transactions p store w = (if p = OIDC then w\<lparr>pw_oidc := store\<rparr> else w\<lparr>pw_oauth2 := store\<rparr>)"

text \<open>Neither access waits for anything.\<close>

definition begin_transaction ::
  "'n portal_env \<Rightarrow> auth_protocol \<Rightarrow> auth_transaction \<Rightarrow> ('n, string) pm" where
  "begin_transaction e p transaction =
     observe (\<lambda>w.
       case create_transaction (pe_hash e) MAX_TRANSACTIONS transaction (pe_token e w) (pe_now e w)
              (transactions_of p w) of
         (None, store) \<Rightarrow> (Inl Other_Failure, with_transactions p store w)
       | (Some handle, store) \<Rightarrow> (Inr handle, with_transactions p store w))"

definition take_transaction ::
  "'n portal_env \<Rightarrow> auth_protocol \<Rightarrow> string \<Rightarrow> ('n, auth_transaction option) pm" where
  "take_transaction e p handle =
     external (noted (\<lambda>t. Transaction_Consumed p handle (t \<noteq> None)))
       (\<lambda>w. case consume_transaction (pe_hash e) handle (pe_now e w) (transactions_of p w) of
              (t, store) \<Rightarrow> (Inr t, with_transactions p store w))"

text \<open>A call of the provider's client, which may throw.\<close>

definition called :: "('n portal_world \<Rightarrow> 'a option \<times> 'n portal_world) \<Rightarrow> 'n portal_world
   \<Rightarrow> (portal_failure + 'a) \<times> 'n portal_world" where
  "called f w = (case f w of (None, w1) \<Rightarrow> (Inl Other_Failure, w1) | (Some a, w1) \<Rightarrow> (Inr a, w1))"

section \<open>Completing a login\<close>

definition external_login_of ::
  "'n portal_env \<Rightarrow> portal_request \<Rightarrow> auth_protocol \<Rightarrow> 'n provider \<Rightarrow> external_profile \<Rightarrow> string
   \<Rightarrow> 'n portal_world \<Rightarrow> external_login" where
  "external_login_of e rq p provider profile rawToken w =
     \<lparr>xl_provider = pv_id provider, xl_subject = xp_subject profile, xl_username = xp_username profile,
      xl_email = xp_email profile, xl_display = xp_display profile, xl_auto = pv_auto provider,
      xl_provisioned =
        (case normalizedJitEmail (pe_email e) (xp_email profile) (pv_domains provider) of
           None \<Rightarrow> None
         | Some email \<Rightarrow>
             Some \<lparr>pu_id = pe_id e 0 w, pu_email = email,
                   pu_username = normalizedJitUsername (xp_username profile)\<rparr>),
      xl_identity = pe_id e 1 w, xl_session = pe_id e 2 w, xl_token = pe_hash e rawToken,
      xl_expires = pe_now e w + pe_session_ttl e, xl_time = pe_now e w,
      xl_audit = Some (authenticationAudit e rq p (pv_id provider))\<rparr>"

definition login_outcome ::
  "'n portal_env \<Rightarrow> auth_protocol \<Rightarrow> string \<Rightarrow> external_login_result \<Rightarrow> portal_reply" where
  "login_outcome e p rawToken result =
     (case result of
        Login_UNKNOWN_IDENTITY \<Rightarrow> error_reply 403 (protocol_code p ''IDENTITY_NOT_BOUND'')
      | Login_PROVISIONING_NOT_ALLOWED \<Rightarrow> error_reply 403 (protocol_code p ''PROVISIONING_NOT_ALLOWED'')
      | Login_USER_DISABLED \<Rightarrow> error_reply 403 (protocol_code p ''USER_DISABLED'')
      | Login_AUTHENTICATED _ _ \<Rightarrow>
          (ok_reply 302 Empty_Body)
            \<lparr>rp_cookies := [sessionCookie (session_cookie_name e) rawToken (nat (pe_session_ttl e div 1000)) (pe_secure e)],
             rp_location := Some (pe_origin e)\<rparr>)"

definition completeExternalAuthentication ::
  "'n portal_env \<Rightarrow> portal_request \<Rightarrow> auth_protocol \<Rightarrow> 'n provider \<Rightarrow> external_profile
   \<Rightarrow> ('n, portal_reply) pm" where
  "completeExternalAuthentication e rq p provider profile =
     bind (looked_up (\<lambda>w. (pe_token e w, external_login_of e rq p provider profile (pe_token e w) w)))
       (\<lambda>(rawToken, login).
     bind (external (noted (External_Completed login)) (constrained e (\<lambda>t. completeExternalLogin t login)))
       (\<lambda>result. pure (login_outcome e p rawToken result)))"

section \<open>The routes\<close>

definition auth_methods :: "'n portal_env \<Rightarrow> ('n, portal_reply) pm" where
  "auth_methods e =
     pure (ok_reply 200 (Methods_Body (map_option pv_id (pe_external e OIDC))
                                      (map_option pv_id (pe_external e OAUTH2))))"

definition transaction_cookie :: "'n portal_env \<Rightarrow> auth_protocol \<Rightarrow> string \<Rightarrow> nat \<Rightarrow> string" where
  "transaction_cookie e p handle seconds = sessionCookie (transaction_cookie_name e p) handle seconds (pe_secure e)"

definition external_start ::
  "'n portal_env \<Rightarrow> portal_request \<Rightarrow> auth_protocol \<Rightarrow> 'n provider \<Rightarrow> ('n, portal_reply) pm" where
  "external_start e rq p provider =
     admitSsoStart e rq p (pv_id provider)
       (try_catch
         (bind (observe (called (pv_authorize provider (pv_redirect provider)))) (\<lambda>(url, transaction).
          bind (begin_transaction e p transaction) (\<lambda>handle.
            pure ((ok_reply 302 Empty_Body)
              \<lparr>rp_cookies := [transaction_cookie e p handle (10 * 60)], rp_location := Some url\<rparr>))))
         (\<lambda>_. andThen (record_failure e rq p (pv_id provider) Provider_Unavailable)
            (pure (error_reply 503 (protocol_code p ''UNAVAILABLE'')))))"

definition callback_failed ::
  "'n portal_env \<Rightarrow> portal_request \<Rightarrow> auth_protocol \<Rightarrow> 'n provider \<Rightarrow> failure_category \<Rightarrow> portal_reply
   \<Rightarrow> ('n, portal_reply) pm" where
  "callback_failed e rq p provider category reply =
     countCallbackFailure e rq p (pv_id provider)
       (andThen (record_failure e rq p (pv_id provider) category) (pure reply))"

definition exchange_code ::
  "auth_protocol \<Rightarrow> 'n provider \<Rightarrow> (string \<times> string) list \<Rightarrow> auth_transaction
   \<Rightarrow> ('n, external_profile) pm" where
  "exchange_code p provider params transaction =
     external (noted (\<lambda>profile. Code_Exchanged p (xp_subject profile)))
       (called (pv_exchange provider (pv_redirect provider) params transaction))"

definition finish_callback ::
  "'n portal_env \<Rightarrow> portal_request \<Rightarrow> auth_protocol \<Rightarrow> 'n provider \<Rightarrow> (string \<times> string) list
   \<Rightarrow> auth_transaction \<Rightarrow> ('n, portal_reply) pm" where
  "finish_callback e rq p provider params transaction =
     bind (try_catch (bind (exchange_code p provider params transaction) (\<lambda>profile. pure (Some profile)))
             (\<lambda>_. pure None)) (\<lambda>identity.
       case identity of
         None \<Rightarrow>
           callback_failed e rq p provider Protocol_Validation_Failed
             (error_reply 401 (protocol_code p ''AUTHENTICATION_FAILED''))
       | Some profile \<Rightarrow> completeExternalAuthentication e rq p provider profile)"

definition external_callback ::
  "'n portal_env \<Rightarrow> portal_request \<Rightarrow> auth_protocol \<Rightarrow> 'n provider \<Rightarrow> (string \<times> string) list
   \<Rightarrow> ('n, portal_reply) pm" where
  "external_callback e rq p provider params =
     admitCallback e rq
       (bind
         (bind
           (case parseCookie (text_header ''cookie'' (pq_headers rq)) (transaction_cookie_name e p) of
              None \<Rightarrow> pure None
            | Some handle \<Rightarrow> take_transaction e p handle)
           (\<lambda>transaction.
             case transaction of
               None \<Rightarrow>
                 callback_failed e rq p provider Transaction_Invalid
                   (error_reply 400 (protocol_code p ''TRANSACTION_INVALID''))
             | Some t \<Rightarrow> finish_callback e rq p provider params t))
         (\<lambda>reply. pure (reply\<lparr>rp_cookies := transaction_cookie e p [] 0 # rp_cookies reply\<rparr>)))"

definition when_enabled ::
  "'n portal_env \<Rightarrow> auth_protocol \<Rightarrow> ('n provider \<Rightarrow> ('n, portal_reply) pm) \<Rightarrow> ('n, portal_reply) pm" where
  "when_enabled e p k =
     (case pe_external e p of
        None \<Rightarrow> pure (error_reply 404 (protocol_code p ''DISABLED''))
      | Some provider \<Rightarrow> k provider)"

definition oidc_login :: "'n portal_env \<Rightarrow> portal_request \<Rightarrow> ('n, portal_reply) pm" where
  "oidc_login e rq = when_enabled e OIDC (external_start e rq OIDC)"

definition oidc_callback ::
  "'n portal_env \<Rightarrow> portal_request \<Rightarrow> (string \<times> string) list \<Rightarrow> ('n, portal_reply) pm" where
  "oidc_callback e rq params = when_enabled e OIDC (\<lambda>provider. external_callback e rq OIDC provider params)"

definition oauth2_login :: "'n portal_env \<Rightarrow> portal_request \<Rightarrow> ('n, portal_reply) pm" where
  "oauth2_login e rq = when_enabled e OAUTH2 (external_start e rq OAUTH2)"

definition oauth2_callback ::
  "'n portal_env \<Rightarrow> portal_request \<Rightarrow> (string \<times> string) list \<Rightarrow> ('n, portal_reply) pm" where
  "oauth2_callback e rq params = when_enabled e OAUTH2 (\<lambda>provider. external_callback e rq OAUTH2 provider params)"

datatype sso_request =
    Oidc_Login
  | Oidc_Callback "(string \<times> string) list"
  | Oauth2_Login
  | Oauth2_Callback "(string \<times> string) list"

fun sso_route :: "'n portal_env \<Rightarrow> portal_request \<Rightarrow> sso_request \<Rightarrow> ('n, portal_reply) pm" where
  "sso_route e rq Oidc_Login = oidc_login e rq"
| "sso_route e rq (Oidc_Callback params) = oidc_callback e rq params"
| "sso_route e rq Oauth2_Login = oauth2_login e rq"
| "sso_route e rq (Oauth2_Callback params) = oauth2_callback e rq params"

end
