(* ===== verification/AdminRoutes.thy ===== *)
theory AdminRoutes
  imports SignOn ModelKeys
begin

text \<open>
  What an administrator changes: \<open>routes/admin-users.ts\<close>, \<open>admin-auth-locks.ts\<close>, the writing routes of
  \<open>admin-workers.ts\<close> and \<open>model-gateway.ts\<close>, and the audit query of \<open>audit.ts\<close>. A body is the JSON that
  was parsed; a reply carries the record that the presenter prints.
\<close>

section \<open>Bodies\<close>

definition as_object :: "json \<Rightarrow> (string \<times> json) list option" where
  "as_object body = (case body of JObj members \<Rightarrow> Some members | _ \<Rightarrow> None)"

definition strict_object :: "string list \<Rightarrow> json \<Rightarrow> (string \<times> json) list option" where
  "strict_object keys body =
     (case as_object body of
        None \<Rightarrow> None | Some members \<Rightarrow> if only_keys keys members then Some members else None)"

definition string_member :: "string \<Rightarrow> (string \<times> json) list \<Rightarrow> string option" where
  "string_member key members = (case map_of members key of Some (JStr s) \<Rightarrow> Some s | _ \<Rightarrow> None)"

definition password_member :: "(string \<times> json) list \<Rightarrow> string option" where
  "password_member members =
     (case string_member ''password'' members of
        None \<Rightarrow> None | Some s \<Rightarrow> if 12 \<le> length s \<and> length s \<le> 1024 then Some s else None)"

definition email_member :: "(string \<Rightarrow> bool) \<Rightarrow> (string \<times> json) list \<Rightarrow> string option" where
  "email_member is_email members =
     (case string_member ''email'' members of
        None \<Rightarrow> None
      | Some s \<Rightarrow>
          let email = to_lower (trim s) in
          if is_email email \<and> length email \<le> 320 then Some email else None)"

text \<open>\<open>None\<close> is a schema error, \<open>Some None\<close> an absent member.\<close>

definition username_member :: "(string \<times> json) list \<Rightarrow> string option option" where
  "username_member members =
     (case map_of members ''username'' of
        None \<Rightarrow> Some None
      | Some (JStr s) \<Rightarrow>
          let username = to_lower (trim s) in
          if username_ok (Some username) then Some (Some username) else None
      | Some _ \<Rightarrow> None)"

definition parse_new_user ::
  "(string \<Rightarrow> bool) \<Rightarrow> json \<Rightarrow> (string \<times> string option \<times> string) option" where
  "parse_new_user is_email body =
     (case strict_object [''email'', ''username'', ''password''] body of
        None \<Rightarrow> None
      | Some members \<Rightarrow>
          (case (email_member is_email members, username_member members, password_member members) of
             (Some email, Some username, Some password) \<Rightarrow> Some (email, username, password)
           | _ \<Rightarrow> None))"

definition role_member :: "(string \<times> json) list \<Rightarrow> user_role option option" where
  "role_member members =
     (case map_of members ''role'' of
        None \<Rightarrow> Some None
      | Some (JStr s) \<Rightarrow>
          if s = ''user'' then Some (Some User) else if s = ''admin'' then Some (Some Admin) else None
      | Some _ \<Rightarrow> None)"

definition status_member :: "(string \<times> json) list \<Rightarrow> user_status option option" where
  "status_member members =
     (case map_of members ''status'' of
        None \<Rightarrow> Some None
      | Some (JStr s) \<Rightarrow>
          if s = ''active'' then Some (Some Active)
          else if s = ''disabled'' then Some (Some Disabled) else None
      | Some _ \<Rightarrow> None)"

definition parse_user_update :: "json \<Rightarrow> (user_role option \<times> user_status option) option" where
  "parse_user_update body =
     (case strict_object [''role'', ''status''] body of
        None \<Rightarrow> None
      | Some members \<Rightarrow>
          (case (role_member members, status_member members) of
             (Some role, Some status) \<Rightarrow> if role = None \<and> status = None then None else Some (role, status)
           | _ \<Rightarrow> None))"

definition parse_password :: "json \<Rightarrow> string option" where
  "parse_password body = Option.bind (strict_object [''password''] body) password_member"

definition bounded_member :: "string \<Rightarrow> nat \<Rightarrow> (string \<times> json) list \<Rightarrow> string option" where
  "bounded_member key most members =
     (case string_member key members of
        None \<Rightarrow> None | Some s \<Rightarrow> if 1 \<le> length s \<and> length s \<le> most then Some s else None)"

definition parse_identity :: "json \<Rightarrow> (string \<times> string) option" where
  "parse_identity body =
     (case strict_object [''providerId'', ''providerSubject''] body of
        None \<Rightarrow> None
      | Some members \<Rightarrow>
          (case (bounded_member ''providerId'' 128 members, bounded_member ''providerSubject'' 1024 members) of
             (Some providerId, Some subject) \<Rightarrow> Some (providerId, subject)
           | _ \<Rightarrow> None))"

definition worker_param :: "string \<Rightarrow> bool" where
  "worker_param s \<longleftrightarrow>
     length s \<le> 64 \<and> s \<noteq> [] \<and>
     list_all (\<lambda>c. is_lower c \<or> is_digit c \<or> c \<in> set ''._-'') s \<and>
     (is_lower (hd s) \<or> is_digit (hd s)) \<and> (is_lower (last s) \<or> is_digit (last s))"

definition parse_schedulable :: "json \<Rightarrow> bool option" where
  "parse_schedulable body =
     (case strict_object [''schedulable''] body of
        None \<Rightarrow> None
      | Some members \<Rightarrow> (case map_of members ''schedulable'' of Some (JBool b) \<Rightarrow> Some b | _ \<Rightarrow> None))"

definition GIB :: int where "GIB = 1024 ^ 3"

definition parse_disk_limit :: "json \<Rightarrow> int option" where
  "parse_disk_limit body =
     (case strict_object [''diskLimitBytes''] body of
        None \<Rightarrow> None
      | Some members \<Rightarrow>
          (case map_of members ''diskLimitBytes'' of
             Some (JNum n) \<Rightarrow> if 0 < n then Some n else None | _ \<Rightarrow> None))"

text \<open>A budget in cents: a multiple of 0.01 between 0 and a million, or \<open>null\<close>.\<close>

definition parse_budget :: "json \<Rightarrow> int option option" where
  "parse_budget body =
     (case strict_object [''budgetUsd''] body of
        None \<Rightarrow> None
      | Some members \<Rightarrow>
          (case map_of members ''budgetUsd'' of
             Some JNull \<Rightarrow> Some None
           | Some (JNum n) \<Rightarrow> if 0 \<le> n \<and> n \<le> 1000000 then Some (Some (100 * n)) else None
           | Some (JRat q) \<Rightarrow>
               let cents = \<lfloor>100 * q\<rfloor> in
               if of_int cents = 100 * q \<and> 0 \<le> q \<and> q \<le> 1000000 then Some (Some cents) else None
           | _ \<Rightarrow> None))"

section \<open>Every change goes through the same guards\<close>

definition admin_change ::
  "'n portal_env \<Rightarrow> portal_request \<Rightarrow> (authenticated_session \<Rightarrow> ('n, portal_reply) pm) \<Rightarrow> ('n, portal_reply) pm" where
  "admin_change e rq k =
     authenticateAdmin e rq (\<lambda>rawToken s. validateOrigin e rq (validateCsrf e rq rawToken (k s)))"

definition actor_of :: "authenticated_session \<Rightarrow> string" where
  "actor_of s = su_id (as_user s)"

definition local_audit ::
  "'n portal_env \<Rightarrow> portal_request \<Rightarrow> authenticated_session \<Rightarrow> string \<times> auth_audit" where
  "local_audit e rq s = (actor_of s, authenticationAudit e rq LOCAL ''local'')"

definition request_id :: "portal_request \<Rightarrow> string" where
  "request_id rq = take 128 (pq_id rq)"

definition request_audit :: "'n portal_env \<Rightarrow> portal_request \<Rightarrow> authenticated_session \<Rightarrow> audit_metadata" where
  "request_audit e rq s =
     \<lparr>am_actor = actor_of s, am_request = request_id rq, am_ip = clientAddress e rq,
      am_agent = map_option (take 512) (text_header ''user-agent'' (pq_headers rq))\<rparr>"

text \<open>A change is noted when its statement ran, whatever the statement found.\<close>

definition change ::
  "'n portal_env \<Rightarrow> authenticated_session \<Rightarrow> portal_change \<Rightarrow> (instant \<Rightarrow> db \<Rightarrow> 'a \<times> db) \<Rightarrow> ('n, 'a) pm" where
  "change e s c f = external (noted (\<lambda>_. Change_Made (actor_of s) c)) (statement e f)"

definition checked_change ::
  "'n portal_env \<Rightarrow> authenticated_session \<Rightarrow> portal_change \<Rightarrow> (instant \<Rightarrow> db \<Rightarrow> ('a \<times> db) result)
   \<Rightarrow> ('n, 'a) pm" where
  "checked_change e s c f = external (noted (\<lambda>_. Change_Made (actor_of s) c)) (constrained e f)"

definition closed_user :: "string \<Rightarrow> ('n, unit) pm" where
  "closed_user userId = external (\<lambda>_. User_Closed userId) (\<lambda>w. (Inr (), w))"

definition bad_request :: portal_reply where "bad_request = error_reply 400 ''INVALID_REQUEST''"

definition user_not_found :: portal_reply where "user_not_found = error_reply 404 ''USER_NOT_FOUND''"

section \<open>Users\<close>

definition list_users_route :: "'n portal_env \<Rightarrow> portal_request \<Rightarrow> ('n, portal_reply) pm" where
  "list_users_route e rq =
     authenticateAdmin e rq (\<lambda>_ _.
       bind (observe (statement e (\<lambda>t d. (listUsers d, d)))) (\<lambda>users. pure (ok_reply 200 (Users_Body users))))"

definition hashed :: "'n portal_env \<Rightarrow> string \<Rightarrow> ('n, string) pm" where
  "hashed e password =
     bind (looked_up (\<lambda>w. hashPassword (pe_scrypt e) (pe_encode e) (pe_salt e w) password)) (\<lambda>h.
       case h of None \<Rightarrow> raise Other_Failure | Some stored \<Rightarrow> pure stored)"

definition is_unique_violation :: "portal_failure \<Rightarrow> bool" where
  "is_unique_violation x \<longleftrightarrow> (case x of Constraint_Failure (Unique_Violation _) \<Rightarrow> True | _ \<Rightarrow> False)"

definition create_user_route :: "'n portal_env \<Rightarrow> portal_request \<Rightarrow> json \<Rightarrow> ('n, portal_reply) pm" where
  "create_user_route e rq body =
     admin_change e rq (\<lambda>s.
       case parse_new_user (pe_email e) body of
         None \<Rightarrow> pure bad_request
       | Some (email, username, password) \<Rightarrow>
           try_catch
             (bind (looked_up (pe_id e 0)) (\<lambda>uid.
              bind (hashed e password) (\<lambda>stored.
              bind (checked_change e s (Create_User email)
                     (\<lambda>t. createUser t uid email username stored User (Some (actor_of s))))
                (\<lambda>user. pure (ok_reply 201 (User_Body user))))))
             (\<lambda>x. if is_unique_violation x then pure (error_reply 409 ''USER_ALREADY_EXISTS'') else raise x))"

definition identities_route :: "'n portal_env \<Rightarrow> portal_request \<Rightarrow> string \<Rightarrow> ('n, portal_reply) pm" where
  "identities_route e rq userId =
     authenticateAdmin e rq (\<lambda>_ _.
       if \<not> pe_uuid e userId then pure bad_request
       else bind (observe (statement e (\<lambda>t d. (listUserIdentities userId d, d)))) (\<lambda>identities.
         case identities of
           None \<Rightarrow> pure user_not_found
         | Some rows \<Rightarrow> pure (ok_reply 200 (Identities_Body rows))))"

definition externalProviderIds :: "'n portal_env \<Rightarrow> string list" where
  "externalProviderIds e = List.map_filter (\<lambda>p. map_option pv_id (pe_external e p)) [OIDC, OAUTH2]"

text \<open>\<open>legacy\<close>: the address names OIDC, and only its provider may be bound.\<close>

definition bindable :: "'n portal_env \<Rightarrow> bool \<Rightarrow> string list" where
  "bindable e legacy =
     (if legacy then (case pe_external e OIDC of None \<Rightarrow> [] | Some p \<Rightarrow> [pv_id p]) else externalProviderIds e)"

definition binding_code :: "bool \<Rightarrow> string \<Rightarrow> string \<Rightarrow> string" where
  "binding_code legacy oidc external_code = (if legacy then oidc else external_code)"

definition bind_identity_route ::
  "'n portal_env \<Rightarrow> portal_request \<Rightarrow> bool \<Rightarrow> string \<Rightarrow> json \<Rightarrow> ('n, portal_reply) pm" where
  "bind_identity_route e rq legacy userId body =
     admin_change e rq (\<lambda>s.
       if bindable e legacy = []
       then pure (error_reply 409 (binding_code legacy ''OIDC_DISABLED'' ''EXTERNAL_AUTH_DISABLED''))
       else if \<not> pe_uuid e userId then pure bad_request
       else case parse_identity body of
           None \<Rightarrow> pure bad_request
         | Some (providerId, subject) \<Rightarrow>
             if providerId \<notin> set (bindable e legacy)
             then pure (error_reply 400 (binding_code legacy ''OIDC_PROVIDER_MISMATCH'' ''EXTERNAL_PROVIDER_MISMATCH''))
             else
               bind (looked_up (pe_id e 0)) (\<lambda>iid.
               bind (checked_change e s (Bind_Identity userId providerId subject)
                      (\<lambda>t. bindExternalIdentity t iid userId providerId subject (actor_of s))) (\<lambda>result.
                 case result of
                   Bind_USER_NOT_FOUND \<Rightarrow> pure user_not_found
                 | Bind_ALREADY_BOUND \<Rightarrow>
                     pure (error_reply 409 (binding_code legacy ''OIDC_IDENTITY_ALREADY_BOUND''
                       ''EXTERNAL_IDENTITY_ALREADY_BOUND''))
                 | Bind_BOUND identity \<Rightarrow> pure (ok_reply 201 (Identity_Body identity)))))"

definition unbind_identity_route ::
  "'n portal_env \<Rightarrow> portal_request \<Rightarrow> string \<Rightarrow> string \<Rightarrow> ('n, portal_reply) pm" where
  "unbind_identity_route e rq userId identityId =
     admin_change e rq (\<lambda>s.
       if \<not> (pe_uuid e userId \<and> pe_uuid e identityId) then pure bad_request
       else
         bind (change e s (Unbind_Identity userId identityId)
                (\<lambda>t. unbindExternalIdentity t identityId userId (actor_of s))) (\<lambda>result.
           case result of
             Unbind_USER_NOT_FOUND \<Rightarrow> pure user_not_found
           | Unbind_IDENTITY_NOT_FOUND \<Rightarrow> pure (error_reply 404 ''IDENTITY_NOT_FOUND'')
           | Unbind_LAST_LOGIN_METHOD \<Rightarrow> pure (error_reply 409 ''LAST_LOGIN_METHOD'')
           | Unbind_UNBOUND \<Rightarrow> pure (ok_reply 204 Empty_Body)))"

definition update_user_route ::
  "'n portal_env \<Rightarrow> portal_request \<Rightarrow> string \<Rightarrow> json \<Rightarrow> ('n, portal_reply) pm" where
  "update_user_route e rq userId body =
     admin_change e rq (\<lambda>s.
       case (pe_uuid e userId, parse_user_update body) of
         (True, Some (role, status)) \<Rightarrow>
           bind (change e s (Update_User userId role status)
                  (\<lambda>t. updateManagedUser t userId role status (Some (local_audit e rq s)))) (\<lambda>result.
             case result of
               Update_NOT_FOUND \<Rightarrow> pure user_not_found
             | Update_LAST_ACTIVE_LOCAL_ADMIN \<Rightarrow> pure (error_reply 409 ''LAST_ACTIVE_LOCAL_ADMIN'')
             | Update_UPDATED user \<Rightarrow>
                 andThen
                   (if aur_status user = Disabled
                    then andThen (closed_user (aur_id user))
                      (if pe_gateway e = None then pure () else external (\<lambda>_. Keys_Kicked) (\<lambda>w. (Inr (), w)))
                    else pure ())
                   (pure (ok_reply 200 (Managed_Body user))))
       | _ \<Rightarrow> pure bad_request)"

definition reset_password_route ::
  "'n portal_env \<Rightarrow> portal_request \<Rightarrow> string \<Rightarrow> json \<Rightarrow> ('n, portal_reply) pm" where
  "reset_password_route e rq userId body =
     admin_change e rq (\<lambda>s.
       case (pe_uuid e userId, parse_password body) of
         (True, Some password) \<Rightarrow>
           bind (hashed e password) (\<lambda>stored.
           bind (change e s (Reset_Password userId)
                  (\<lambda>t. resetLocalPassword t userId stored (Some (local_audit e rq s)))) (\<lambda>updated.
             if \<not> updated then pure (error_reply 404 ''LOCAL_USER_NOT_FOUND'')
             else
               bind (change e s (Clear_Locks (Target_User userId))
                      (\<lambda>t. clearAuthLocks t (Target_User userId) t Source_Password_Reset
                         (Some (actor_of s)) (Some (request_id rq)))) (\<lambda>_.
                 pure (ok_reply 204 Empty_Body))))
       | _ \<Rightarrow> pure bad_request)"

definition revoke_sessions_route :: "'n portal_env \<Rightarrow> portal_request \<Rightarrow> string \<Rightarrow> ('n, portal_reply) pm" where
  "revoke_sessions_route e rq userId =
     admin_change e rq (\<lambda>s.
       if \<not> pe_uuid e userId then pure bad_request
       else
         bind (change e s (Revoke_Sessions userId)
                (\<lambda>t. revokeUserSessions t userId t (Some (local_audit e rq s)))) (\<lambda>revoked.
           if \<not> revoked then pure user_not_found
           else andThen (closed_user userId) (pure (ok_reply 204 Empty_Body))))"

definition user_workspaces_route :: "'n portal_env \<Rightarrow> portal_request \<Rightarrow> string \<Rightarrow> ('n, portal_reply) pm" where
  "user_workspaces_route e rq userId =
     authenticateAdmin e rq (\<lambda>_ _.
       if \<not> pe_uuid e userId then pure user_not_found
       else bind (observe (statement e (\<lambda>t d. (listManagedUserWorkspaces userId d, d)))) (\<lambda>workspaces.
         case workspaces of
           None \<Rightarrow> pure user_not_found
         | Some rows \<Rightarrow> pure (ok_reply 200 (Workspaces_Body rows))))"

section \<open>Login locks\<close>

definition list_locks_route :: "'n portal_env \<Rightarrow> portal_request \<Rightarrow> ('n, portal_reply) pm" where
  "list_locks_route e rq =
     authenticateAdmin e rq (\<lambda>_ _.
       bind (observe (statement e (\<lambda>t d. (listAuthLocks t d, d)))) (\<lambda>locks. pure (ok_reply 200 (Locks_Body locks))))"

definition clear_lock_route :: "'n portal_env \<Rightarrow> portal_request \<Rightarrow> string \<Rightarrow> ('n, portal_reply) pm" where
  "clear_lock_route e rq lockId =
     admin_change e rq (\<lambda>s.
       if \<not> pe_uuid e lockId then pure bad_request
       else
         bind (change e s (Clear_Locks (Target_Id lockId))
                (\<lambda>t. clearAuthLocks t (Target_Id lockId) t Source_Admin (Some (actor_of s))
                   (Some (request_id rq)))) (\<lambda>cleared.
           if cleared = 0 then pure (error_reply 404 ''AUTH_LOCK_NOT_FOUND'')
           else pure (ok_reply 204 Empty_Body)))"

section \<open>Workers and Workspaces\<close>

definition schedule_worker_route ::
  "'n portal_env \<Rightarrow> portal_request \<Rightarrow> string \<Rightarrow> json \<Rightarrow> ('n, portal_reply) pm" where
  "schedule_worker_route e rq workerId body =
     admin_change e rq (\<lambda>s.
       case (worker_param workerId, parse_schedulable body) of
         (True, Some schedulable) \<Rightarrow>
           bind (change e s (Schedule_Worker workerId schedulable)
                  (\<lambda>t. setWorkerSchedulable t workerId schedulable (request_audit e rq s))) (\<lambda>result.
             case result of
               Pause_NOT_FOUND \<Rightarrow> pure (error_reply 404 ''WORKER_NOT_FOUND'')
             | Pause_UPDATED worker \<Rightarrow> pure (ok_reply 200 (Worker_Body worker)))
       | _ \<Rightarrow> pure bad_request)"

definition apply_disk_limit ::
  "'n portal_env \<Rightarrow> authenticated_session \<Rightarrow> workspace_record \<Rightarrow> int \<Rightarrow> ('n, bool) pm" where
  "apply_disk_limit e s workspace limit =
     (case wr_worker workspace of
        None \<Rightarrow> pure False
      | Some workerId \<Rightarrow>
          external (noted (\<lambda>_. Change_Made (actor_of s) (Apply_Disk_Limit workerId (wr_id workspace) limit)))
            (\<lambda>w. case pe_limit_disk e workerId (wr_id workspace) limit w of (ok, w1) \<Rightarrow> (Inr ok, w1)))"

definition limit_disk_route ::
  "'n portal_env \<Rightarrow> portal_request \<Rightarrow> string \<Rightarrow> json \<Rightarrow> ('n, portal_reply) pm" where
  "limit_disk_route e rq workspaceId body =
     admin_change e rq (\<lambda>s.
       case (pe_uuid e workspaceId, parse_disk_limit body) of
         (True, Some limit) \<Rightarrow>
           if limit < GIB \<or> pe_disk_max e < limit then pure (error_reply 400 ''DISK_LIMIT_OUT_OF_RANGE'')
           else
             bind (checked_change e s (Limit_Disk workspaceId limit)
                    (\<lambda>t. updateWorkspaceDiskLimit t workspaceId limit (request_audit e rq s))) (\<lambda>result.
               case result of
                 Limit_NOT_FOUND \<Rightarrow> pure (error_reply 404 ''WORKSPACE_NOT_FOUND'')
               | Limit_UPDATED workspace _ \<Rightarrow>
                   bind (apply_disk_limit e s workspace limit) (\<lambda>applied.
                     pure (ok_reply 200 (Workspace_Body workspace applied))))
       | _ \<Rightarrow> pure bad_request)"

section \<open>Model access\<close>

definition gateway_disabled :: portal_reply where
  "gateway_disabled = error_reply 404 ''MODEL_GATEWAY_DISABLED''"

definition set_budget_route ::
  "'n portal_env \<Rightarrow> portal_request \<Rightarrow> string \<Rightarrow> json \<Rightarrow> ('n, portal_reply) pm" where
  "set_budget_route e rq userId body =
     admin_change e rq (\<lambda>s.
       case (pe_uuid e userId, parse_budget body, pe_gateway e) of
         (True, Some budget, Some gateway) \<Rightarrow>
           bind (checked_change e s (Set_Budget userId budget)
                  (\<lambda>t. setUserModelBudget t userId budget (actor_of s) (request_id rq))) (\<lambda>(found, _).
             if \<not> found then pure user_not_found
             else
               bind (external (noted (\<lambda>_. Change_Made (actor_of s) (Apply_Budget userId)))
                      (\<lambda>w. case gp_apply gateway userId w of (ok, w1) \<Rightarrow> (Inr ok, w1))) (\<lambda>applied.
                 pure (ok_reply 200 (Budget_Body budget applied))))
       | (True, Some _, None) \<Rightarrow> pure gateway_disabled
       | _ \<Rightarrow> pure bad_request)"

definition rotate_route ::
  "'n portal_env \<Rightarrow> portal_request \<Rightarrow> string option \<Rightarrow> string option \<Rightarrow> portal_reply \<Rightarrow> ('n, portal_reply) pm" where
  "rotate_route e rq userId workspaceId not_found =
     admin_change e rq (\<lambda>s.
       if \<not> (case userId of None \<Rightarrow> True | Some i \<Rightarrow> pe_uuid e i) \<or>
          \<not> (case workspaceId of None \<Rightarrow> True | Some i \<Rightarrow> pe_uuid e i) then pure not_found
       else case pe_gateway e of
           None \<Rightarrow> pure gateway_disabled
         | Some gateway \<Rightarrow>
             bind (external (noted (\<lambda>_. Change_Made (actor_of s) (Rotate_Model_Keys userId workspaceId)))
                    (called (gp_rotate gateway userId workspaceId (actor_of s) (request_id rq)))) (\<lambda>revoked.
               pure (ok_reply 200 (Rotated_Body revoked))))"

definition rotate_user_route :: "'n portal_env \<Rightarrow> portal_request \<Rightarrow> string \<Rightarrow> ('n, portal_reply) pm" where
  "rotate_user_route e rq userId = rotate_route e rq (Some userId) None user_not_found"

definition rotate_workspace_route :: "'n portal_env \<Rightarrow> portal_request \<Rightarrow> string \<Rightarrow> ('n, portal_reply) pm" where
  "rotate_workspace_route e rq workspaceId =
     rotate_route e rq None (Some workspaceId) (error_reply 404 ''WORKSPACE_NOT_FOUND'')"

section \<open>The audit trail\<close>

text \<open>What the schema makes of the query string; \<open>None\<close> when it does not fit.\<close>

record audit_query =
  aq_limit :: nat
  aq_before :: "nat option"
  aq_filter :: audit_filter

definition audit_route :: "'n portal_env \<Rightarrow> portal_request \<Rightarrow> audit_query option \<Rightarrow> ('n, portal_reply) pm" where
  "audit_route e rq query =
     authenticate e rq (\<lambda>_ s.
       case query of
         None \<Rightarrow> pure bad_request
       | Some q \<Rightarrow>
           bind (observe (statement e (\<lambda>t d.
             (listAuditEvents (su_id (as_user s)) (su_role (as_user s) = Admin) (aq_limit q) (aq_before q)
                (aq_filter q) d, d))))
             (\<lambda>events. pure (ok_reply 200 (Events_Body events))))"

section \<open>The routes by their addresses\<close>

datatype admin_request =
    Get_Users
  | Post_User json
  | Get_Identities string
  | Post_Identity bool string json
  | Delete_Identity string string
  | Patch_User string json
  | Post_Reset_Password string json
  | Post_Revoke_Sessions string
  | Get_User_Workspaces string
  | Get_Locks
  | Delete_Lock string
  | Patch_Worker string json
  | Patch_Workspace string json
  | Put_Budget string json
  | Post_Rotate_User string
  | Post_Rotate_Workspace string

fun admin_route :: "'n portal_env \<Rightarrow> portal_request \<Rightarrow> admin_request \<Rightarrow> ('n, portal_reply) pm" where
  "admin_route e rq Get_Users = list_users_route e rq"
| "admin_route e rq (Post_User body) = create_user_route e rq body"
| "admin_route e rq (Get_Identities userId) = identities_route e rq userId"
| "admin_route e rq (Post_Identity legacy userId body) = bind_identity_route e rq legacy userId body"
| "admin_route e rq (Delete_Identity userId identityId) = unbind_identity_route e rq userId identityId"
| "admin_route e rq (Patch_User userId body) = update_user_route e rq userId body"
| "admin_route e rq (Post_Reset_Password userId body) = reset_password_route e rq userId body"
| "admin_route e rq (Post_Revoke_Sessions userId) = revoke_sessions_route e rq userId"
| "admin_route e rq (Get_User_Workspaces userId) = user_workspaces_route e rq userId"
| "admin_route e rq Get_Locks = list_locks_route e rq"
| "admin_route e rq (Delete_Lock lockId) = clear_lock_route e rq lockId"
| "admin_route e rq (Patch_Worker workerId body) = schedule_worker_route e rq workerId body"
| "admin_route e rq (Patch_Workspace workspaceId body) = limit_disk_route e rq workspaceId body"
| "admin_route e rq (Put_Budget userId body) = set_budget_route e rq userId body"
| "admin_route e rq (Post_Rotate_User userId) = rotate_user_route e rq userId"
| "admin_route e rq (Post_Rotate_Workspace workspaceId) = rotate_workspace_route e rq workspaceId"

end
