(* ===== verification/PortalSafety.thy ===== *)
theory PortalSafety
  imports AdminRoutes Demo
begin

text \<open>
  What a request to the API must have shown before it gets a session or changes anything, whatever the
  database answers, whichever statement fails, and whoever else writes in between.
\<close>

section \<open>What each event needs before it\<close>

text \<open>
  A password is checked only after the login's own locks were found open, and against the stored hash of
  the account that was found; a session is created only for that account, active, after its password
  matched. A session is read only for the token of the request's cookie. A login through a provider is
  completed only for the subject the provider returned in exchange for the code of a transaction that the
  request's cookie used up; an account is offered for provisioning only when the e-mail address lies in
  an allowed domain, where domains are configured. A change needs an administrator's session, the
  portal's origin and the CSRF token of that session.
\<close>

definition cookie_token :: "'n portal_env \<Rightarrow> portal_request \<Rightarrow> string option" where
  "cookie_token e rq = parseCookie (text_header ''cookie'' (pq_headers rq)) (session_cookie_name e)"

definition transaction_handle :: "'n portal_env \<Rightarrow> portal_request \<Rightarrow> auth_protocol \<Rightarrow> string option" where
  "transaction_handle e rq p = parseCookie (text_header ''cookie'' (pq_headers rq)) (transaction_cookie_name e p)"

definition session_read ::
  "'n portal_env \<Rightarrow> portal_request \<Rightarrow> portal_action list \<Rightarrow> string \<Rightarrow> authenticated_session \<Rightarrow> bool" where
  "session_read e rq es rawToken s \<longleftrightarrow>
     cookie_token e rq = Some rawToken \<and> Session_Checked rawToken (Some s) \<in> set es"

definition own_change ::
  "'n portal_env \<Rightarrow> portal_request \<Rightarrow> portal_action list \<Rightarrow> string \<Rightarrow> authenticated_session \<Rightarrow> bool" where
  "own_change e rq es rawToken s \<longleftrightarrow>
     session_read e rq es rawToken s \<and> origin_allowed e rq \<and> csrf_valid e rq rawToken"

definition locks_open ::
  "'n portal_env \<Rightarrow> portal_request \<Rightarrow> portal_action list \<Rightarrow> string \<Rightarrow> user_record option \<Rightarrow> bool" where
  "locks_open e rq es login user \<longleftrightarrow>
     Lock_Checked (localLoginKeys (pe_guard e) (accountKey login (user_id_of user)) (clientAddress e rq)) None
       \<in> set es"

definition in_domains :: "'n provider \<Rightarrow> external_login \<Rightarrow> bool" where
  "in_domains provider x \<longleftrightarrow>
     (case xl_provisioned x of
        None \<Rightarrow> True
      | Some pu \<Rightarrow>
          pv_domains provider = [] \<or>
          (\<exists>text. pu_email pu = Some text \<and> last (split_on CHR ''@'' text) \<in> set (pv_domains provider)))"

fun portal_law :: "'n portal_env \<Rightarrow> portal_request \<Rightarrow> portal_action list \<Rightarrow> portal_action \<Rightarrow> bool" where
  "portal_law e rq es (Session_Checked rawToken _) \<longleftrightarrow> cookie_token e rq = Some rawToken"
| "portal_law e rq es (Password_Checked password hash _) \<longleftrightarrow>
     origin_allowed e rq \<and>
     (\<exists>login user. User_Found login user \<in> set es \<and> hash = stored_hash user \<and> locks_open e rq es login user)"
| "portal_law e rq es (Session_Created userId _ _) \<longleftrightarrow>
     (\<exists>login password user. User_Found login (Some user) \<in> set es \<and> ur_id user = userId \<and>
        ur_status user = Active \<and> Password_Checked password (stored_hash (Some user)) True \<in> set es)"
| "portal_law e rq es (Session_Revoked hash) \<longleftrightarrow>
     (\<exists>rawToken s. own_change e rq es rawToken s \<and> hash = pe_hash e rawToken)"
| "portal_law e rq es (Transaction_Consumed p handle _) \<longleftrightarrow>
     transaction_handle e rq p = Some handle \<and>
     Lock_Checked (addressKeys (pe_guard e) (clientAddress e rq)) None \<in> set es"
| "portal_law e rq es (Code_Exchanged p subject) \<longleftrightarrow>
     (\<exists>handle. Transaction_Consumed p handle True \<in> set es)"
| "portal_law e rq es (External_Completed x _) \<longleftrightarrow>
     (\<exists>p provider. pe_external e p = Some provider \<and> xl_provider x = pv_id provider \<and>
        Code_Exchanged p (xl_subject x) \<in> set es \<and> in_domains provider x)"
| "portal_law e rq es (Change_Made actor _) \<longleftrightarrow>
     (\<exists>rawToken s. own_change e rq es rawToken s \<and> actor_of s = actor \<and> su_role (as_user s) = Admin)"
| "portal_law e rq es _ \<longleftrightarrow> True"

section \<open>Steps\<close>

lemma session_read_kept: "kept J es fs \<Longrightarrow> session_read e rq es rawToken s \<Longrightarrow> session_read e rq fs rawToken s"
  by (auto simp: session_read_def dest: kept_set)

lemma own_change_kept: "kept J es fs \<Longrightarrow> own_change e rq es rawToken s \<Longrightarrow> own_change e rq fs rawToken s"
  by (auto simp: own_change_def dest: session_read_kept)

lemma locks_open_kept: "kept J es fs \<Longrightarrow> locks_open e rq es login user \<Longrightarrow> locks_open e rq fs login user"
  by (auto simp: locks_open_def dest: kept_set)

lemmas steps = obeys_bind [where P = "\<lambda>_ _. True"] obeys_andThen [where P = "\<lambda>_ _. True"]

lemma obeys_noted:
  assumes "\<And>a. portal_law e rq es (ev a)" "\<And>a. Q a (es @ [ev a])"
  shows "obeys (portal_law e rq) (external (noted ev) f) Q es"
  by (rule obeys_external) (auto simp: noted_def assms split: sum.split)

lemma obeys_plain:
  assumes "portal_law e rq es ev" "\<And>a. Q a (es @ [ev])"
  shows "obeys (portal_law e rq) (external (\<lambda>_. ev) f) Q es"
  by (rule obeys_external) (use assms in auto)

lemma obeys_looked_up [lawful]: "(\<And>a. Q a es) \<Longrightarrow> obeys J (looked_up f) Q es"
  unfolding looked_up_def by (rule obeys_observe)

lemma obeys_looked_up_value: "(\<And>w. Q (f w) es) \<Longrightarrow> obeys J (looked_up f) Q es"
  by (simp add: looked_up_def obeys_def ensures_def observe_def kept_refl)

section \<open>The guards\<close>

lemma obeys_authenticate:
  assumes "Q (error_reply 401 ''UNAUTHENTICATED'') es"
    "\<And>fs. kept (portal_law e rq) es fs \<Longrightarrow> Q (error_reply 401 ''UNAUTHENTICATED'') fs"
    "\<And>rawToken s fs. kept (portal_law e rq) es fs \<Longrightarrow> session_read e rq fs rawToken s \<Longrightarrow>
       obeys (portal_law e rq) (k rawToken s) Q fs"
  shows "obeys (portal_law e rq) (authenticate e rq k) Q es"
  unfolding authenticate_def
proof (rule obeys_option, goal_cases)
  case 1
  show ?case by (rule obeys_pure) (rule assms(1))
next
  case (2 rawToken)
  then have token: "cookie_token e rq = Some rawToken" by (simp add: cookie_token_def)
  show ?case
  proof (rule obeys_bind [where P = "\<lambda>r fs. Session_Checked rawToken r \<in> set fs"], goal_cases)
    case 1
    show ?case by (rule obeys_noted) (use token in auto)
  next
    case (2 r fs)
    then show ?case
      by (intro obeys_option obeys_pure assms(2,3)) (auto simp: session_read_def token)
  qed
qed

lemma obeys_authenticateAdmin:
  assumes "\<And>rawToken s fs. kept (portal_law e rq) es fs \<Longrightarrow> session_read e rq fs rawToken s \<Longrightarrow>
       su_role (as_user s) = Admin \<Longrightarrow> obeys (portal_law e rq) (k rawToken s) (\<lambda>_ _. True) fs"
  shows "obeys (portal_law e rq) (authenticateAdmin e rq k) (\<lambda>_ _. True) es"
  unfolding authenticateAdmin_def
  by (rule obeys_authenticate) (auto intro: assms obeys_pure)

lemma obeys_validateOrigin:
  assumes "\<And>fs. kept (portal_law e rq) es fs \<Longrightarrow> Q (error_reply 403 ''INVALID_ORIGIN'') fs"
    "\<And>fs. kept (portal_law e rq) es fs \<Longrightarrow> origin_allowed e rq \<Longrightarrow> obeys (portal_law e rq) k Q fs"
  shows "obeys (portal_law e rq) (validateOrigin e rq k) Q es"
  unfolding validateOrigin_def
  by (rule steps(2), rule obeys_plain) (auto intro: obeys_pure assms)

lemma obeys_validateCsrf:
  assumes "\<And>fs. kept (portal_law e rq) es fs \<Longrightarrow> Q (error_reply 403 ''INVALID_CSRF'') fs"
    "\<And>fs. kept (portal_law e rq) es fs \<Longrightarrow> csrf_valid e rq rawToken \<Longrightarrow> obeys (portal_law e rq) k Q fs"
  shows "obeys (portal_law e rq) (validateCsrf e rq rawToken k) Q es"
  unfolding validateCsrf_def
  by (rule steps(2), rule obeys_plain) (auto intro: obeys_pure assms)

lemma obeys_admin_change:
  assumes "\<And>rawToken s fs. own_change e rq fs rawToken s \<Longrightarrow> su_role (as_user s) = Admin \<Longrightarrow>
       obeys (portal_law e rq) (k s) (\<lambda>_ _. True) fs"
  shows "obeys (portal_law e rq) (admin_change e rq k) (\<lambda>_ _. True) es"
  unfolding admin_change_def
  by (rule obeys_authenticateAdmin, rule obeys_validateOrigin, simp, rule obeys_validateCsrf, simp,
      rule assms) (auto simp: own_change_def intro: session_read_kept)

section \<open>The administrator's routes\<close>

lemma obeys_change:
  assumes "own_change e rq es rawToken s" "su_role (as_user s) = Admin"
  shows "obeys (portal_law e rq) (change e s c f) (\<lambda>_ _. True) es"
    "obeys (portal_law e rq) (checked_change e s c g) (\<lambda>_ _. True) es"
    "obeys (portal_law e rq) (external (noted (\<lambda>_. Change_Made (actor_of s) c)) h) (\<lambda>_ _. True) es"
  unfolding change_def checked_change_def by (rule obeys_noted; use assms in auto)+

text \<open>Actions without a change.\<close>

named_theorems quiet "actions that obey the law whatever happened before"

lemma closed_user_quiet [quiet]: "obeys (portal_law e rq) (closed_user userId) (\<lambda>_ _. True) es"
  unfolding closed_user_def by (rule obeys_plain) auto

lemma kick_quiet [quiet]: "obeys (portal_law e rq) (external (\<lambda>_. Keys_Kicked) f) (\<lambda>_ _. True) es"
  by (rule obeys_plain) auto

lemma hashed_quiet [quiet]: "obeys (portal_law e rq) (hashed e' password) (\<lambda>_ _. True) es"
  unfolding hashed_def
  by (rule steps(1)) (auto intro: lawful split: option.split)

lemma observe_quiet [quiet]: "obeys J (observe f) (\<lambda>_ _. True) es"
  by (rule obeys_observe) simp

lemma looked_up_quiet [quiet]: "obeys J (looked_up f) (\<lambda>_ _. True) es"
  by (rule obeys_looked_up) simp

lemma pure_quiet [quiet]: "obeys J (pure a) (\<lambda>_ _. True) es"
  by (rule obeys_pure) simp

lemma reading_routes_lawful [quiet]:
  "obeys (portal_law e rq) (list_users_route e rq) (\<lambda>_ _. True) es"
  "obeys (portal_law e rq) (identities_route e rq userId) (\<lambda>_ _. True) es"
  "obeys (portal_law e rq) (user_workspaces_route e rq userId) (\<lambda>_ _. True) es"
  "obeys (portal_law e rq) (list_locks_route e rq) (\<lambda>_ _. True) es"
  unfolding list_users_route_def identities_route_def user_workspaces_route_def list_locks_route_def
  by (rule obeys_authenticateAdmin, (rule obeys_if)?, auto intro!: quiet steps(1) split: option.split)+

text \<open>A change that is followed by anything lawful.\<close>

lemma change_then:
  assumes "own_change e rq es rawToken s" "su_role (as_user s) = Admin"
    "\<And>a fs. own_change e rq fs rawToken s \<Longrightarrow> obeys (portal_law e rq) (k a) (\<lambda>_ _. True) fs"
  shows "obeys (portal_law e rq) (bind (change e s c f) k) (\<lambda>_ _. True) es"
    "obeys (portal_law e rq) (bind (checked_change e s c g) k) (\<lambda>_ _. True) es"
    "obeys (portal_law e rq) (bind (external (noted (\<lambda>_. Change_Made (actor_of s) c)) h) k) (\<lambda>_ _. True) es"
  by (rule steps(1), rule obeys_change [OF assms(1,2)], rule assms(3), erule own_change_kept, rule assms(1))+

lemma quiet_then:
  assumes "own_change e rq es rawToken s" "\<And>gs. obeys (portal_law e rq) m (\<lambda>_ _. True) gs"
    "\<And>a fs. own_change e rq fs rawToken s \<Longrightarrow> obeys (portal_law e rq) (k a) (\<lambda>_ _. True) fs"
  shows "obeys (portal_law e rq) (bind m k) (\<lambda>_ _. True) es"
  by (rule steps(1), rule assms(2), rule assms(3), erule own_change_kept, rule assms(1))

lemma user_routes_lawful [quiet]:
  "obeys (portal_law e rq) (unbind_identity_route e rq userId identityId) (\<lambda>_ _. True) es"
  "obeys (portal_law e rq) (revoke_sessions_route e rq userId) (\<lambda>_ _. True) es"
  "obeys (portal_law e rq) (clear_lock_route e rq lockId) (\<lambda>_ _. True) es"
  "obeys (portal_law e rq) (schedule_worker_route e rq workerId body) (\<lambda>_ _. True) es"
  unfolding unbind_identity_route_def revoke_sessions_route_def clear_lock_route_def schedule_worker_route_def
  by (rule obeys_admin_change,
      auto intro!: quiet change_then steps(2) split: unbind_result.split set_schedulable_result.split
        option.split bool.split)+

lemma update_user_lawful [quiet]:
  "obeys (portal_law e rq) (update_user_route e rq userId body) (\<lambda>_ _. True) es"
  unfolding update_user_route_def
  by (rule obeys_admin_change)
    (auto intro!: quiet change_then steps(2) split: option.split bool.split update_user_result.split)

lemma reset_password_lawful [quiet]:
  "obeys (portal_law e rq) (reset_password_route e rq userId body) (\<lambda>_ _. True) es"
  unfolding reset_password_route_def
  by (rule obeys_admin_change)
    (auto intro!: quiet quiet_then change_then split: option.split bool.split)

lemma create_user_lawful [quiet]:
  "obeys (portal_law e rq) (create_user_route e rq body) (\<lambda>_ _. True) es"
  unfolding create_user_route_def
  by (rule obeys_admin_change)
    (auto intro!: quiet quiet_then obeys_try_catch change_then obeys_raise split: option.split)

lemma bind_identity_lawful [quiet]:
  "obeys (portal_law e rq) (bind_identity_route e rq legacy userId body) (\<lambda>_ _. True) es"
  unfolding bind_identity_route_def
  by (rule obeys_admin_change)
    (auto intro!: quiet quiet_then change_then split: option.split bind_result.split)

lemma limit_disk_lawful [quiet]:
  "obeys (portal_law e rq) (limit_disk_route e rq workspaceId body) (\<lambda>_ _. True) es"
proof -
  have applied: "obeys (portal_law e rq) (bind (apply_disk_limit e s workspace limit) (\<lambda>ok. pure (f ok))) (\<lambda>_ _. True) fs"
    if "own_change e rq fs rawToken s" "su_role (as_user s) = Admin" for rawToken s workspace limit f fs
    unfolding apply_disk_limit_def
    by (rule steps(1)) (auto intro!: quiet obeys_change that split: option.split)
  show ?thesis
    unfolding limit_disk_route_def
    by (rule obeys_admin_change)
      (auto intro!: quiet change_then applied split: option.split bool.split update_disk_limit_result.split)
qed

lemma model_routes_lawful [quiet]:
  "obeys (portal_law e rq) (set_budget_route e rq userId body) (\<lambda>_ _. True) es"
  "obeys (portal_law e rq) (rotate_route e rq user workspace missing) (\<lambda>_ _. True) es"
  unfolding set_budget_route_def rotate_route_def
  by (rule obeys_admin_change, auto intro!: quiet change_then split: option.split bool.split)+

lemma admin_route_lawful: "obeys (portal_law e rq) (admin_route e rq a) (\<lambda>_ _. True) es"
  by (cases a) (simp_all add: quiet rotate_user_route_def rotate_workspace_route_def)

section \<open>The throttle\<close>

definition turned_away :: "portal_reply \<Rightarrow> bool" where
  "turned_away reply \<longleftrightarrow> rp_status reply \<in> {429, 503}"

lemma turned_away_simps [simp]:
  "turned_away (sendRateLimited lockedUntil now)" "turned_away throttle_unavailable"
  by (simp_all add: turned_away_def sendRateLimited_def throttle_unavailable_def error_reply_def)

lemma obeys_find_lock:
  "obeys (portal_law e rq) (find_lock e' keys)
     (\<lambda>r fs. (r = None \<longrightarrow> Lock_Checked keys None \<in> set fs) \<and> (\<forall>reply. r = Some reply \<longrightarrow> turned_away reply)) es"
  unfolding find_lock_def
  by (rule obeys_bind [where P = "\<lambda>r fs. Lock_Checked keys r \<in> set fs"], rule obeys_noted)
    (auto intro!: obeys_pure steps(1) obeys_looked_up split: option.split)

lemma obeys_recordThrottleHits:
  "obeys (portal_law e rq) (recordThrottleHits e' hits audit) (\<lambda>_ fs. Hits_Counted hits \<in> set fs) es"
  unfolding recordThrottleHits_def
  by (rule steps(1), rule looked_up_quiet,
      rule obeys_bind [where P = "\<lambda>_ fs. Hits_Counted hits \<in> set fs"], rule obeys_noted)
    (auto intro: obeys_pure)

lemma obeys_throttled:
  assumes "obeys (portal_law e rq) check
      (\<lambda>r fs. (r = None \<longrightarrow> A fs) \<and> (\<forall>reply. r = Some reply \<longrightarrow> turned_away reply)) es"
    "\<And>fs. kept (portal_law e rq) es fs \<Longrightarrow> A fs \<Longrightarrow> obeys (portal_law e rq) k Q fs"
    "\<And>reply fs. turned_away reply \<Longrightarrow> Q reply fs"
  shows "obeys (portal_law e rq) (throttled check k) Q es"
  unfolding throttled_def
  by (rule obeys_bind [OF obeys_try_catch [OF assms(1)]])
    (auto intro!: obeys_pure assms(2,3) split: option.split)

lemma obeys_counted:
  "obeys (portal_law e rq) (andThen (recordThrottleHits e' hits audit) (pure None))
     (\<lambda>r fs. (r = None \<longrightarrow> Hits_Counted hits \<in> set fs) \<and> (\<forall>reply. r = Some reply \<longrightarrow> turned_away reply)) es"
  by (rule obeys_andThen [OF obeys_recordThrottleHits]) (auto intro: obeys_pure)

lemma record_failure_quiet [quiet]:
  "obeys (portal_law e rq) (record_failure e' rq' p providerId category) (\<lambda>_ _. True) es"
  unfolding record_failure_def by (rule obeys_noted) auto

lemma obeys_failed:
  assumes "\<And>fs. kept (portal_law e rq) es fs \<Longrightarrow> Q reply fs"
  shows "obeys (portal_law e rq) (andThen (record_failure e' rq' p providerId category) (pure reply)) Q es"
  by (rule steps(2), rule record_failure_quiet) (auto intro: obeys_pure assms)

section \<open>Local login\<close>

text \<open>What the reply to a local login says about what happened.\<close>

definition opened ::
  "'n portal_env \<Rightarrow> portal_request \<Rightarrow> string \<Rightarrow> string \<Rightarrow> user_record \<Rightarrow> string \<Rightarrow> portal_action list \<Rightarrow> bool" where
  "opened e rq login password user rawToken fs \<longleftrightarrow>
     User_Found login (Some user) \<in> set fs \<and> ur_status user = Active \<and> locks_open e rq fs login (Some user) \<and>
     Password_Checked password (stored_hash (Some user)) True \<in> set fs \<and>
     Session_Created (ur_id user) (pe_hash e rawToken) True \<in> set fs"

definition failure_counted :: "'n portal_env \<Rightarrow> portal_request \<Rightarrow> string \<Rightarrow> portal_action list \<Rightarrow> bool" where
  "failure_counted e rq login fs \<longleftrightarrow>
     (\<exists>user. User_Found login user \<in> set fs \<and>
        Hits_Counted (localLoginFailureHits (pe_guard e) (accountKey login (user_id_of user))
          (clientAddress e rq) (user_id_of user)) \<in> set fs) \<or>
     (\<exists>userId hash. Session_Created userId hash False \<in> set fs)"

definition login_explained ::
  "'n portal_env \<Rightarrow> portal_request \<Rightarrow> string \<Rightarrow> string \<Rightarrow> portal_reply \<Rightarrow> portal_action list \<Rightarrow> bool" where
  "login_explained e rq login password reply fs \<longleftrightarrow>
     (rp_status reply = 200 \<longrightarrow>
        (\<exists>user rawToken. opened e rq login password user rawToken fs \<and> reply = session_reply e rawToken user)) \<and>
     (rp_status reply = 401 \<longrightarrow> failure_counted e rq login fs)"

lemma opened_kept: "kept J es fs \<Longrightarrow> opened e rq login password user rawToken es \<Longrightarrow> opened e rq login password user rawToken fs"
  by (auto simp: opened_def dest: kept_set locks_open_kept)

lemma failure_counted_kept: "kept J es fs \<Longrightarrow> failure_counted e rq login es \<Longrightarrow> failure_counted e rq login fs"
  by (auto simp: failure_counted_def dest: kept_set)

lemma explained_other:
  "turned_away reply \<Longrightarrow> login_explained e rq login password reply fs"
  "failure_counted e rq login fs \<Longrightarrow>
    login_explained e rq login password (error_reply 401 ''INVALID_CREDENTIALS'') fs"
  by (auto simp: login_explained_def turned_away_def error_reply_def)

lemma explained_success:
  "opened e rq login password user rawToken fs \<Longrightarrow>
    login_explained e rq login password (session_reply e rawToken user) fs"
  by (auto simp: login_explained_def session_reply_def ok_reply_def)

lemma obeys_open_session:
  assumes "User_Found login (Some user) \<in> set es" "ur_status user = Active" "locks_open e rq es login (Some user)"
    "Password_Checked password (stored_hash (Some user)) True \<in> set es"
  shows "obeys (portal_law e rq) (open_session e rq account user) (login_explained e rq login password) es"
  unfolding open_session_def
proof (rule steps(1), rule looked_up_quiet, goal_cases)
  case (1 made fs)
  obtain rawToken sid where made: "made = (rawToken, sid)" by (cases made)
  note known = kept_set [OF 1(1)]
  show ?case
    unfolding made prod.case
  proof (rule obeys_bind [where P = "\<lambda>created gs. Session_Created (ur_id user) (pe_hash e rawToken) created \<in> set gs"],
      goal_cases)
    case 1
    show ?case
      by (rule obeys_noted) (use assms(2) known [OF assms(1)] known [OF assms(4)] in auto)
  next
    case (2 created gs)
    have kept: "kept (portal_law e rq) es gs" by (rule kept_trans [OF 2(1) 1(1)])
    show ?case
    proof (cases created)
      case False
      with 2(2) have "failure_counted e rq login gs" by (auto simp: failure_counted_def)
      then show ?thesis
        using False
        by (auto simp: invalid_credentials_def intro!: obeys_failed explained_other(2) dest: failure_counted_kept)
    next
      case True
      with 2(2) have "opened e rq login password user rawToken gs"
        using assms kept_set [OF kept] locks_open_kept [OF kept] by (auto simp: opened_def)
      then show ?thesis
        using True by (auto intro!: steps(2) obeys_noted obeys_pure explained_success intro: opened_kept)
    qed
  qed
qed

lemma obeys_refused:
  assumes "User_Found login user \<in> set es"
  shows "obeys (portal_law e rq)
    (throttled
      (andThen (recordThrottleHits e
         (localLoginFailureHits (pe_guard e) (accountKey login (user_id_of user)) (clientAddress e rq) (user_id_of user))
         audit) (pure None))
      (invalid_credentials e rq)) (login_explained e rq login password) es"
  unfolding invalid_credentials_def
proof (rule obeys_throttled, rule obeys_counted, goal_cases)
  case (1 fs)
  then have "failure_counted e rq login fs"
    using kept_set [OF 1(1) assms] by (auto simp: failure_counted_def)
  then show ?case
    by (auto intro!: obeys_failed explained_other(2) intro: failure_counted_kept)
qed (rule explained_other(1))

lemma obeys_check_credentials:
  assumes "origin_allowed e rq" "User_Found login user \<in> set es" "locks_open e rq es login user"
  shows "obeys (portal_law e rq) (check_credentials e rq (accountKey login (user_id_of user)) user password)
    (login_explained e rq login password) es"
  unfolding check_credentials_def password_check_def
proof (rule obeys_bind [where P = "\<lambda>matches fs. Password_Checked password (stored_hash user) matches \<in> set fs"],
    goal_cases)
  case 1
  show ?case by (rule obeys_noted) (use assms in auto)
next
  case (2 matches fs)
  note now = kept_set [OF 2(1) assms(2)] locks_open_kept [OF 2(1) assms(3)]
  note refused = obeys_refused [OF now(1)]
  show ?case
  proof (cases "\<exists>u. user = Some u \<and> matches \<and> ur_status u = Active")
    case True
    then obtain u where "user = Some u" "matches" "ur_status u = Active" by blast
    then show ?thesis using now 2(2) by (auto intro!: obeys_open_session)
  next
    case False
    then show ?thesis using refused by (auto split: option.split bool.split)
  qed
qed

definition login_reply_explained ::
  "'n portal_env \<Rightarrow> portal_request \<Rightarrow> json \<Rightarrow> portal_reply \<Rightarrow> portal_action list \<Rightarrow> bool" where
  "login_reply_explained e rq body reply fs \<longleftrightarrow>
     (case parse_login body of
        None \<Rightarrow>
          rp_status reply \<notin> {200, 401} \<and>
          (rp_status reply = 400 \<longrightarrow> Hits_Counted [addressFailureHit (pe_guard e) (clientAddress e rq)] \<in> set fs)
      | Some (login, password) \<Rightarrow> login_explained e rq login password reply fs)"

lemma obeys_invalid_request_login:
  assumes "parse_login body = None"
  shows "obeys (portal_law e rq) (invalid_request_login e rq) (login_reply_explained e rq body) es"
  unfolding invalid_request_login_def
proof (rule obeys_throttled
    [where A = "\<lambda>fs. Hits_Counted [addressFailureHit (pe_guard e) (clientAddress e rq)] \<in> set fs"], goal_cases)
  case 1
  show ?case
    by (rule obeys_bind [OF obeys_find_lock]) (auto intro!: obeys_pure obeys_counted split: option.split)
next
  case (2 fs)
  then show ?case
    using assms by (auto intro!: obeys_failed simp: login_reply_explained_def error_reply_def dest: kept_set)
next
  case (3 reply fs)
  then show ?case using assms by (auto simp: login_reply_explained_def turned_away_def)
qed

lemma local_login_lawful: "obeys (portal_law e rq) (local_login e rq body) (login_reply_explained e rq body) es"
  unfolding local_login_def
proof (rule obeys_validateOrigin, goal_cases)
  case (1 fs)
  show ?case
    by (simp add: login_reply_explained_def login_explained_def error_reply_def split: option.split prod.split)
next
  case (2 fs)
  show ?case
  proof (cases "parse_login body")
    case None
    then show ?thesis by (simp add: obeys_invalid_request_login)
  next
    case (Some entry)
    obtain login password where entry: "entry = (login, password)" by (cases entry)
    have explained: "login_reply_explained e rq body = login_explained e rq login password"
      by (intro ext) (simp add: login_reply_explained_def Some entry)
    show ?thesis
      unfolding explained Some entry option.case prod.case
    proof (rule obeys_bind [where P = "\<lambda>user gs. User_Found login user \<in> set gs"], goal_cases)
      case 1
      show ?case by (rule obeys_noted) auto
    next
      case (2 user gs)
      show ?case
        unfolding Let_def
        by (rule obeys_throttled [OF obeys_find_lock])
          (use \<open>origin_allowed e rq\<close> 2 in \<open>auto intro!: obeys_check_credentials explained_other(1)
             simp: locks_open_def dest: kept_set\<close>)
    qed
  qed
qed

section \<open>Logout and the current session\<close>

lemma local_logout_lawful: "obeys (portal_law e rq) (local_logout e rq) (\<lambda>_ _. True) es"
  unfolding local_logout_def
proof (rule obeys_authenticate, simp, simp, goal_cases)
  case (1 rawToken s fs)
  show ?case
  proof (rule obeys_validateOrigin, simp, rule obeys_validateCsrf, simp, rule steps(2), goal_cases)
    case (1 gs hs)
    then have "own_change e rq hs rawToken s"
      using session_read_kept [OF kept_trans] \<open>session_read e rq fs rawToken s\<close> by (auto simp: own_change_def)
    then have "portal_law e rq hs (Session_Revoked (pe_hash e rawToken))" by (simp only: portal_law.simps) blast
    then show ?case by (intro obeys_noted) simp_all
  next
    case (2 gs hs later)
    show ?case by (rule steps(2), rule obeys_plain) (auto intro: quiet)
  qed
qed

section \<open>Login through a provider\<close>

lemma obeys_admitSsoStart:
  assumes "\<And>fs. obeys (portal_law e rq) k (\<lambda>_ _. True) fs"
  shows "obeys (portal_law e rq) (admitSsoStart e rq p providerId k) (\<lambda>_ _. True) es"
  unfolding admitSsoStart_def
  by (rule obeys_throttled [where A = "\<lambda>_. True"], rule obeys_bind [OF obeys_find_lock])
    (auto intro!: obeys_pure steps(2) assms obeys_weaken [OF obeys_recordThrottleHits] split: option.split)

lemma external_start_lawful: "obeys (portal_law e rq) (external_start e rq p provider) (\<lambda>_ _. True) es"
  unfolding external_start_def begin_transaction_def
  by (rule obeys_admitSsoStart, rule obeys_try_catch, rule steps(1))
    (auto intro!: quiet steps(1) steps(2) split: prod.split)

lemma obeys_callback_failed:
  "obeys (portal_law e rq) (callback_failed e' rq' p provider category reply) (\<lambda>_ _. True) es"
  unfolding callback_failed_def countCallbackFailure_def
  by (rule obeys_throttled [OF obeys_counted]) (auto intro: obeys_failed)

lemma provisioned_in_domains:
  "in_domains provider (external_login_of e rq p provider profile rawToken w)"
proof (cases "normalizedJitEmail (pe_email e) (xp_email profile) (pv_domains provider)")
  case (Some mail)
  then show ?thesis
    using jit_email_in_domain [OF Some]
    by (cases "pv_domains provider = []") (simp_all add: in_domains_def external_login_of_def)
qed (simp add: in_domains_def external_login_of_def)

lemma obeys_complete:
  assumes "pe_external e p = Some provider" "Code_Exchanged p (xp_subject profile) \<in> set es"
  shows "obeys (portal_law e rq) (completeExternalAuthentication e rq p provider profile) (\<lambda>_ _. True) es"
  unfolding completeExternalAuthentication_def
proof (rule obeys_bind [where P = "\<lambda>r _. \<exists>w rawToken. r = (rawToken, external_login_of e rq p provider profile rawToken w)"],
    goal_cases)
  case 1
  show ?case by (rule obeys_looked_up_value) blast
next
  case (2 r fs)
  then obtain w rawToken where r: "r = (rawToken, external_login_of e rq p provider profile rawToken w)" by blast
  have "portal_law e rq fs (External_Completed (external_login_of e rq p provider profile rawToken w) result)" for result
    using assms(1) kept_set [OF 2(1) assms(2)] provisioned_in_domains [of provider e rq p profile rawToken w]
    by (auto simp: external_login_of_def intro!: exI [of _ p] exI [of _ provider])
  then show ?case
    unfolding r prod.case by (intro steps(1) obeys_noted) (auto intro: quiet)
qed

lemma obeys_finish_callback:
  assumes "pe_external e p = Some provider" "Transaction_Consumed p handle True \<in> set es"
  shows "obeys (portal_law e rq) (finish_callback e rq p provider params transaction) (\<lambda>_ _. True) es"
  unfolding finish_callback_def
proof (rule obeys_bind [where P = "\<lambda>r fs. \<forall>profile. r = Some profile \<longrightarrow> Code_Exchanged p (xp_subject profile) \<in> set fs"],
    goal_cases)
  case 1
  show ?case
    unfolding exchange_code_def
    by (rule obeys_try_catch,
        rule obeys_bind [where P = "\<lambda>profile fs. Code_Exchanged p (xp_subject profile) \<in> set fs"], rule obeys_noted)
      (use assms(2) in \<open>auto intro: obeys_pure\<close>)
next
  case (2 r fs)
  then show ?case
    by (auto intro!: obeys_callback_failed obeys_complete assms(1) split: option.split)
qed

lemma obeys_transaction_taken:
  assumes "transaction_handle e rq p = Some handle"
    "Lock_Checked (addressKeys (pe_guard e) (clientAddress e rq)) None \<in> set es"
  shows "obeys (portal_law e rq) (take_transaction e p handle)
    (\<lambda>t fs. t \<noteq> None \<longrightarrow> Transaction_Consumed p handle True \<in> set fs) es"
  unfolding take_transaction_def by (rule obeys_noted) (use assms in auto)

lemma external_callback_lawful:
  assumes "pe_external e p = Some provider"
  shows "obeys (portal_law e rq) (external_callback e rq p provider params) (\<lambda>_ _. True) es"
  unfolding external_callback_def admitCallback_def
proof (rule obeys_throttled [OF obeys_find_lock], rule steps(1), goal_cases)
  case (1 fs)
  show ?case
  proof (rule obeys_bind
      [where P = "\<lambda>t gs. t \<noteq> None \<longrightarrow> (\<exists>handle. Transaction_Consumed p handle True \<in> set gs)"], goal_cases)
    case 1
    show ?case
      by (rule obeys_option, rule obeys_pure, simp, rule obeys_weaken, rule obeys_transaction_taken)
        (use \<open>Lock_Checked _ None \<in> set fs\<close> in \<open>auto simp: transaction_handle_def\<close>)
  next
    case (2 t gs)
    then show ?case
      by (auto intro!: obeys_callback_failed obeys_finish_callback assms split: option.split)
  qed
qed (auto intro: quiet)

lemma external_routes_lawful:
  "obeys (portal_law e rq) (oidc_login e rq) (\<lambda>_ _. True) es"
  "obeys (portal_law e rq) (oauth2_login e rq) (\<lambda>_ _. True) es"
  "obeys (portal_law e rq) (oidc_callback e rq params) (\<lambda>_ _. True) es"
  "obeys (portal_law e rq) (oauth2_callback e rq params) (\<lambda>_ _. True) es"
  unfolding oidc_login_def oauth2_login_def oidc_callback_def oauth2_callback_def when_enabled_def
  by (auto intro!: quiet external_start_lawful external_callback_lawful split: option.split)

lemma sso_route_lawful: "obeys (portal_law e rq) (sso_route e rq a) (\<lambda>_ _. True) es"
  by (cases a) (simp_all add: external_routes_lawful)

section \<open>What a run shows\<close>

text \<open>Every event of a run from the empty trace obeys the law after the events before it.\<close>

lemma lawful_at:
  assumes "obeys J m Q []" "m s = (r, t)" "trace s = []" "trace t = pre @ ev # post"
  shows "J pre ev"
  using obeys_at [where J = J and m = m and Q = Q and s = s and pre = pre and ev = ev and post = post] assms
  by simp

lemma lawful_before:
  assumes "obeys J m Q []" "m s = (r, t)" "trace s = []" "trace t = pre @ post" "ev \<in> set pre"
  obtains before where "J before ev" "set before \<subseteq> set pre"
proof -
  obtain before rest where pre: "pre = before @ ev # rest" using assms(5) by (auto simp: in_set_conv_decomp)
  have "J before ev" by (rule lawful_at [OF assms(1-3)]) (simp add: assms(4) pre)
  moreover have "set before \<subseteq> set pre" by (auto simp: pre)
  ultimately show thesis by (rule that)
qed

section \<open>The properties\<close>



text \<open>C11. A login through a provider is completed only for the subject that the provider returned in
exchange for the code, after the transaction named by the request's own cookie was used up, and that
only after the address was found free of locks; and it offers a new account only with an e-mail
address in an allowed domain, when domains are configured.\<close>

theorem external_login_is_earned:
  assumes "sso_route e rq a s = (r, t)" "trace s = []" "trace t = pre @ External_Completed x result # post"
  shows "\<exists>p provider handle. pe_external e p = Some provider \<and> xl_provider x = pv_id provider \<and>
    Code_Exchanged p (xl_subject x) \<in> set pre \<and>
    transaction_handle e rq p = Some handle \<and> Transaction_Consumed p handle True \<in> set pre \<and>
    Lock_Checked (addressKeys (pe_guard e) (clientAddress e rq)) None \<in> set pre \<and>
    in_domains provider x"
proof -
  note run = sso_route_lawful [where e = e and rq = rq and a = a and es = "[]"] assms(1,2)
  obtain p provider where p: "pe_external e p = Some provider" "xl_provider x = pv_id provider"
    "Code_Exchanged p (xl_subject x) \<in> set pre" "in_domains provider x"
    using lawful_at [OF run assms(3)] by auto
  obtain before handle where handle: "Transaction_Consumed p handle True \<in> set before" "set before \<subseteq> set pre"
    by (rule lawful_before [OF run assms(3) p(3)]) auto
  then have consumed: "Transaction_Consumed p handle True \<in> set pre" by blast
  obtain early where "transaction_handle e rq p = Some handle"
    "Lock_Checked (addressKeys (pe_guard e) (clientAddress e rq)) None \<in> set early" "set early \<subseteq> set pre"
    by (rule lawful_before [OF run assms(3) consumed]) auto
  with p consumed show ?thesis by blast
qed

section \<open>A small portal\<close>

definition demo_provider :: "unit provider" where
  "demo_provider =
     \<lparr>pv_id = ''idp'', pv_redirect = ''https://p/callback'', pv_auto = False, pv_domains = [''b''],
      pv_authorize = (\<lambda>_ w. (None, w)),
      pv_exchange = (\<lambda>_ _ _ w.
        (Some \<lparr>xp_subject = ''s1'', xp_username = None, xp_email = None, xp_display = None\<rparr>, w))\<rparr>"

definition demo_key :: string where "demo_key = replicate 64 CHR ''k''"

definition demo_salt :: string where "demo_salt = replicate 16 CHR ''s''"

definition demo_portal :: "unit portal_env" where
  "demo_portal =
     \<lparr>pe_statement = (\<lambda>w. (False, w)), pe_now = (\<lambda>_. 10), pe_id = (\<lambda>_ _. ''id''), pe_token = (\<lambda>_. ''tok''),
      pe_salt = (\<lambda>_. demo_salt), pe_scrypt = (\<lambda>p _. if p = ''open'' then Some demo_key else None),
      pe_encode = (\<lambda>s. s), pe_decode = (\<lambda>s. if s = ''salt'' then demo_salt else demo_key),
      pe_hash = (\<lambda>s. if s = ''tok'' then replicate 43 CHR ''n'' else replicate 43 CHR ''h''), pe_csrf = (\<lambda>_. ''csrf''), pe_uuid = (\<lambda>_. True),
      pe_email = (\<lambda>_. True), pe_isIP = (\<lambda>_. 4), pe_trusted = (\<lambda>_. False), pe_origin = ''https://p'',
      pe_origins = [], pe_secure = True, pe_session_ttl = 1000,
      pe_guard = \<lparr>lg_hash = (\<lambda>s. s), lg_policies = DEFAULT_LOGIN_GUARD_POLICIES, lg_trusted = (\<lambda>_. False)\<rparr>,
      pe_external = (\<lambda>p. if p = OIDC then Some demo_provider else None),
      pe_gateway = Some \<lparr>gp_apply = (\<lambda>_ w. (True, w)), gp_rotate = (\<lambda>_ _ _ _ w. (Some 1, w))\<rparr>,
      pe_disk_max = 0, pe_limit_disk = (\<lambda>_ _ _ w. (False, w))\<rparr>"

definition demo_cookies :: string where
  "demo_cookies = ''__Host-platform-session=raw; __Host-oidc-transaction=handle''"

definition demo_rq :: portal_request where
  "demo_rq =
     \<lparr>pq_headers = [(''cookie'', Some (Text demo_cookies)), (''origin'', Some (Text ''https://p'')),
                    (''x-csrf-token'', Some (Text ''csrf''))],
      pq_address = ''10.0.0.1'', pq_id = ''r1''\<rparr>"

definition demo_hashed_user :: user_row where
  "demo_hashed_user =
     new_user 0 ''u1'' (Some ''a@b'') (Some ''root'')
       (Some (join_with CHR ''$'' [''scrypt'', SCRYPT_PARAMETERS, ''salt'', ''key''])) Admin"

definition demo_portal_db :: db where
  "demo_portal_db =
     empty_db\<lparr>db_users := [demo_hashed_user],
       db_sessions := [\<lparr>se_id = ''se'', se_user = ''u1'', se_token = replicate 43 CHR ''h'',
                        se_expires = 20, se_revoked = None\<rparr>]\<rparr>"

definition demo_entry :: "string \<times> auth_transaction \<times> instant" where
  "demo_entry = (replicate 43 CHR ''h'', \<lparr>at_state = ''st'', at_nonce = None, at_verifier = ''v''\<rparr>, 20)"

definition demo_outside :: "(unit portal_world, portal_action) outside" where
  "demo_outside =
     \<lparr>world = \<lparr>pw_db = demo_portal_db, pw_oidc = [demo_entry], pw_oauth2 = [], pw_outside = ()\<rparr>, trace = []\<rparr>"

lemma demo_headers:
  "text_header ''origin'' (pq_headers demo_rq) = Some ''https://p''"
  "text_header ''x-csrf-token'' (pq_headers demo_rq) = Some ''csrf''"
  "text_header ''cookie'' (pq_headers demo_rq) = Some demo_cookies"
  "header ''x-forwarded-for'' (pq_headers demo_rq) = None"
  "text_header ''user-agent'' (pq_headers demo_rq) = None"
  by (simp_all add: demo_rq_def text_header_def header_def)

lemma demo_cookie_values:
  "parseCookie (Some demo_cookies) ''__Host-platform-session'' = Some ''raw''"
  "parseCookie (Some demo_cookies) ''__Host-oidc-transaction'' = Some ''handle''"
  by code_simp+

lemma demo_guards:
  "origin_allowed demo_portal demo_rq" "csrf_valid demo_portal demo_rq rawToken"
  "cookie_token demo_portal demo_rq = Some ''raw''"
  "transaction_handle demo_portal demo_rq OIDC = Some ''handle''"
  by (simp_all add: origin_allowed_def csrf_valid_def cookie_token_def transaction_handle_def demo_headers
      demo_cookie_values session_cookie_name_def transaction_cookie_name_def demo_portal_def constantTimeTextEqual_def)

lemma demo_fields [simp]:
  "pe_statement demo_portal = (\<lambda>w. (False, w))" "pe_now demo_portal = (\<lambda>_. 10)"
  "pe_hash demo_portal = (\<lambda>s. if s = ''tok'' then replicate 43 CHR ''n'' else replicate 43 CHR ''h'')"
  "pe_uuid demo_portal = (\<lambda>_. True)"
  "pe_token demo_portal = (\<lambda>_. ''tok'')" "pe_id demo_portal = (\<lambda>_ _. ''id'')"
  "pe_external demo_portal OIDC = Some demo_provider"
  "pe_gateway demo_portal = Some \<lparr>gp_apply = (\<lambda>_ w. (True, w)), gp_rotate = (\<lambda>_ _ _ _ w. (Some 1, w))\<rparr>"
  by (simp_all add: demo_portal_def)

definition demo_session :: authenticated_session where
  "demo_session =
     \<lparr>as_session = ''se'', as_expires = 20, as_user = session_user_of demo_hashed_user\<rparr>"

lemma demo_session_found: "findActiveSession (replicate 43 CHR ''h'') 10 demo_portal_db = Some demo_session"
  by (simp add: findActiveSession_def demo_portal_db_def demo_session_def demo_hashed_user_def new_user_def empty_db_def)

text \<open>The administrator rotates the keys of \<open>u2\<close>.\<close>

lemma demo_rotation:
  "trace (snd (admin_route demo_portal demo_rq (Post_Rotate_User ''u2'') demo_outside)) =
     [Session_Checked ''raw'' (Some demo_session), Origin_Checked True, Csrf_Checked ''raw'' True] @
     Change_Made ''u1'' (Rotate_Model_Keys (Some ''u2'') None) # []"
  using demo_guards(3)
  by (simp add: rotate_user_route_def rotate_route_def admin_change_def authenticateAdmin_def authenticate_def
      cookie_token_def [symmetric] bind_def andThen_def external_def pure_def noted_def statement_def called_def
      validateOrigin_def validateCsrf_def demo_guards demo_outside_def demo_session_found actor_of_def
      demo_session_def session_user_of_def demo_hashed_user_def new_user_def)


text \<open>A callback of an identity that nobody bound.\<close>

definition demo_external :: external_login where
  "demo_external =
     external_login_of demo_portal demo_rq OIDC demo_provider
       \<lparr>xp_subject = ''s1'', xp_username = None, xp_email = None, xp_display = None\<rparr> ''tok''
       \<lparr>pw_db = demo_portal_db, pw_oidc = [], pw_oauth2 = [], pw_outside = ()\<rparr>"

lemma demo_external_result:
  "\<exists>d. completeExternalLogin 10 demo_external demo_portal_db = Inr (Login_UNKNOWN_IDENTITY, d)"
  by (simp add: completeExternalLogin_def demo_external_def external_login_of_def demo_portal_db_def empty_db_def
      demo_provider_def)

lemma demo_lock_free: "findAuthLock keys 10 demo_portal_db = None"
  by (simp add: findAuthLock_def demo_portal_db_def empty_db_def)

lemma demo_callback:
  "trace (snd (sso_route demo_portal demo_rq (Oidc_Callback []) demo_outside)) =
     [Lock_Checked (addressKeys (pe_guard demo_portal) (clientAddress demo_portal demo_rq)) None,
      Transaction_Consumed OIDC ''handle'' True, Code_Exchanged OIDC ''s1''] @
     External_Completed demo_external Login_UNKNOWN_IDENTITY # []"
  using demo_guards(4) demo_external_result
  by (auto simp: oidc_callback_def when_enabled_def external_callback_def admitCallback_def throttled_def
      find_lock_def transaction_handle_def [symmetric] take_transaction_def finish_callback_def exchange_code_def
      completeExternalAuthentication_def looked_up_def observe_def try_catch_def bind_def external_def pure_def
      noted_def statement_def constrained_def called_def demo_outside_def demo_lock_free
      consume_transaction_def transactions_of_def with_transactions_def demo_entry_def demo_provider_def
      demo_external_def [symmetric, unfolded demo_provider_def])

lemma external_login_is_earned_witness:
  "\<exists>p provider. pe_external demo_portal p = Some provider \<and> xl_provider demo_external = pv_id provider \<and>
    in_domains provider demo_external"
proof -
  have "trace demo_outside = []" by (simp add: demo_outside_def)
  from external_login_is_earned [OF surjective_pairing this demo_callback] show ?thesis by blast
qed

text \<open>The administrator logs in.\<close>

definition demo_login :: json where
  "demo_login = JObj [(''login'', JStr ''root''), (''password'', JStr ''open'')]"

lemma demo_login_parsed: "parse_login demo_login = Some (''root'', ''open'')"
  by (simp add: parse_login_def demo_login_def only_keys_def trim_def js_space_def)

lemma demo_user_found: "findUserByLogin ''root'' demo_portal_db = Some (mapUser demo_hashed_user)"
  by (simp add: findUserByLogin_def demo_portal_db_def empty_db_def demo_hashed_user_def new_user_def trim_def
      js_space_def to_lower_def lower_char_def)

lemma demo_verified:
  "verifyPassword (pe_scrypt demo_portal) (pe_decode demo_portal) ''open''
     (stored_hash (Some (mapUser demo_hashed_user)))"
  by (simp add: verifyPassword_def demo_portal_def stored_hash_def mapUser_def demo_hashed_user_def new_user_def
      SCRYPT_PARAMETERS_def SCRYPT_SALT_LENGTH_def SCRYPT_KEY_LENGTH_def demo_salt_def demo_key_def)

lemma demo_session_stored:
  "\<exists>d. createSession 10 ''id'' ''u1'' (replicate 43 CHR ''n'') expires (Some a) demo_portal_db = Inr (True, d)"
  by (simp add: createSession_def insert_session_def new_session_def demo_portal_db_def empty_db_def
      demo_hashed_user_def new_user_def)

lemma demo_login_run:
  "fst (local_login demo_portal demo_rq demo_login demo_outside) =
     Inr (session_reply demo_portal ''tok'' (mapUser demo_hashed_user))"
proof -
  have user: "ur_status (mapUser demo_hashed_user) = Active" "ur_id (mapUser demo_hashed_user) = ''u1''"
    by (simp_all add: mapUser_def demo_hashed_user_def new_user_def)
  obtain d where d: "createSession 10 ''id'' ''u1'' (replicate 43 CHR ''n'') (10 + pe_session_ttl demo_portal)
      (Some (authenticationAudit demo_portal demo_rq LOCAL ''local'')) demo_portal_db = Inr (True, d)"
    using demo_session_stored by blast
  show ?thesis
    by (simp add: local_login_def demo_login_parsed demo_guards validateOrigin_def bind_def andThen_def external_def
        pure_def noted_def statement_def demo_outside_def demo_user_found throttled_def find_lock_def try_catch_def
        demo_lock_free check_credentials_def password_check_def demo_verified user open_session_def looked_up_def
        observe_def constrained_def d Let_def)
qed


end
