(* ===== verification/Spec2Isabelle.thy ===== *)
theory Spec2Isabelle
  imports Prelude Ipv4 Schema Workspaces Recovery Workers Scheduling EgressPolicy ModelKeys Users
    AuditTrail AuthThrottle Sessions WorkerChannel IdleStop Routes Frames Lifecycle Platform
    Preservation EgressSafety Invariant Demo
    Http Proxy GatewayChain GatewaySafety Ruleset PacketFilter EgressTable EgressControl
    Effects Quota Containers PiConfig Runtime Fleet
    Laws RuntimeLaws RelayKeys ModelRelay RelaySafety Daemon DaemonDemo RuntimeSafety Usage
    KeyManager KeySafety AdminClient WorkerControl ControlSafety
    Passwords ExternalAuth Portal Login SignOn AdminRoutes PortalSafety
begin

text \<open>
  A model of the Pi container platform.
\<close>

section \<open>Properties of the platform\<close>

text \<open>C1. In every reachable state the row of a Workspace is consistent: it is \<open>CREATED\<close> exactly
while it has no Worker, a starting or running Workspace is wanted running, a created, stopping,
stopped or changing one is wanted stopped, a deleting one is wanted deleted, \<open>SCHEDULING\<close> is never
stored, and an unfinished Runtime change knows the image it came from.\<close>

theorem workspace_rows_consistent:
  assumes "reachable d" "w \<in> set (db_workspaces d)"
  shows "(ws_worker w = None \<longleftrightarrow> ws_state w = CREATED) \<and> ws_state w \<noteq> SCHEDULING \<and>
    (ws_state w \<in> {STARTING, RUNNING} \<longrightarrow> ws_desired w = Want_RUNNING) \<and>
    (ws_state w \<in> {CREATED, STOPPING, STOPPED, UPGRADING} \<longrightarrow> ws_desired w = Want_STOPPED) \<and>
    (ws_state w = DELETING \<longrightarrow> ws_desired w = Want_DELETED) \<and>
    (ws_state w = UPGRADING \<longrightarrow> ws_previous_image w \<noteq> None \<and> ws_changed_at w = None)"
proof -
  have "lifecycle_ok (lifecycle_of w)"
    using reachable_ok [OF assms(1)] assms(2) by (simp add: platform_ok_def list_all_iff)
  then show ?thesis by (simp add: lifecycle_ok_def lifecycle_of_def)
qed

lemma workspace_rows_consistent_witness:
  "db_workspaces demo_running = [demo_workspace\<lparr>ws_worker := Some ''k1'', ws_state := RUNNING,
     ws_desired := Want_RUNNING, ws_updated := 5, ws_activity := 5\<rparr>] \<and>
   ws_desired (hd (db_workspaces demo_running)) = Want_RUNNING"
  using workspace_rows_consistent [OF reachable_running, of "hd (db_workspaces demo_running)"]
  by (simp add: demo_running_tables)

text \<open>C2. Every step of the platform refines the abstract life cycle: a Workspace of the new state
either is a row of the old state after at most one move of \<open>lifecycle_step\<close>, or has a fresh id and
is newborn; and a Workspace only disappears when it was never placed or its deletion was
requested.\<close>

theorem steps_refine_lifecycle:
  assumes "reachable d" "platform_step d d'"
  shows "(\<forall>w' \<in> set (db_workspaces d').
      (\<exists>w \<in> set (db_workspaces d). same_workspace w w' \<and>
         (lifecycle_of w' = lifecycle_of w \<or> lifecycle_step (lifecycle_of w) (lifecycle_of w'))) \<or>
      ws_id w' \<notin> ws_id ` set (db_workspaces d) \<and> lifecycle_of w' = newborn (ws_image w')) \<and>
    (\<forall>w \<in> set (db_workspaces d).
      removable w \<or> (\<exists>w' \<in> set (db_workspaces d'). same_workspace w w'))"
proof -
  have "ws_next (db_workspaces d) (db_workspaces d')"
    using reachable_ok [OF assms(1)] by (intro platform_ws_next assms(2)) (simp add: platform_ok_def)
  then show ?thesis unfolding ws_next_def row_next_def by blast
qed

lemma steps_refine_lifecycle_witness:
  "same_workspace (hd (db_workspaces demo_starting)) (hd (db_workspaces demo_running)) \<and>
   lifecycle_step (lifecycle_of (hd (db_workspaces demo_starting)))
     (lifecycle_of (hd (db_workspaces demo_running)))"
  using steps_refine_lifecycle [OF reachable_starting, of demo_running]
    workspace_step.finish_start [of demo_starting 5 "''w1''" "''k1''"]
  by (simp add: platform_step_def demo_running_def [symmetric] demo_running_tables demo_selection
      lifecycle_of_def)

text \<open>C3. A step changes the state of a Workspace only along the transition table, never changes
the Worker of a Workspace that has one, and changes its Runtime image only when a Runtime change
begins on a stopped or failed Workspace or is undone.\<close>

theorem workspace_transitions:
  assumes "reachable d" "platform_step d d'" "w \<in> set (db_workspaces d)"
    "w' \<in> set (db_workspaces d')" "ws_id w' = ws_id w"
  shows "(ws_state w' = ws_state w \<or> ws_state w' \<in> set (may_follow (ws_state w))) \<and>
    (ws_worker w \<noteq> None \<longrightarrow> ws_worker w' = ws_worker w) \<and>
    (ws_image w' \<noteq> ws_image w \<longrightarrow>
       ws_state w = UPGRADING \<or> ws_state w' = UPGRADING \<and> ws_state w \<in> {STOPPED, ERROR}) \<and>
    ws_user w' = ws_user w \<and> ws_name w' = ws_name w"
proof -
  have ok: "platform_ok d" by (rule reachable_ok [OF assms(1)])
  then have distinct: "distinct (map ws_id (db_workspaces d))" by (simp add: platform_ok_def)
  obtain x where x: "x \<in> set (db_workspaces d)" "row_next x w'"
    using platform_ws_next [OF assms(2) distinct] assms(3-5) unfolding ws_next_def by (metis imageI)
  then have "ws_id x = ws_id w" using row_next_id [OF x(2)] assms(5) by simp
  then have "x = w" using distinct_map_inj [OF distinct x(1) assms(3)] by simp
  moreover have "lifecycle_ok (lifecycle_of w)"
    using ok assms(3) by (simp add: platform_ok_def list_all_iff)
  ultimately show ?thesis
    using x(2) lifecycle_step_follows [of "lifecycle_of w" "lifecycle_of w'"]
      lifecycle_step_sticky [of "lifecycle_of w" "lifecycle_of w'"]
      lifecycle_step_image [of "lifecycle_of w" "lifecycle_of w'"]
    by (auto simp: row_next_def same_workspace_def lifecycle_of_def)
qed

lemma workspace_transitions_witness:
  "ws_worker (hd (db_workspaces demo_running)) = ws_worker (hd (db_workspaces demo_starting))"
  using workspace_transitions [OF reachable_starting, of demo_running
      "hd (db_workspaces demo_starting)" "hd (db_workspaces demo_running)"]
    workspace_step.finish_start [of demo_starting 5 "''w1''" "''k1''"]
  by (simp add: platform_step_def demo_running_def [symmetric] demo_running_tables demo_selection)

text \<open>C4. In every reachable state, also while issues interleave with disabling, deletion and other
issues, no Workspace has two live model keys, and every live key belongs to a Workspace that
exists, that is not being deleted, and whose owner is the key's owner and active.\<close>

theorem live_keys_are_owned:
  assumes "reachable d"
  shows "distinct (map mk_workspace (filter key_live (db_keys d))) \<and>
    (\<forall>k \<in> set (db_keys d). key_live k \<longrightarrow>
       (\<exists>w \<in> set (db_workspaces d). mk_workspace k = Some (ws_id w) \<and> mk_user k = ws_user w \<and>
          ws_state w \<noteq> DELETING) \<and>
       (\<exists>u \<in> set (db_users d). us_id u = mk_user k \<and> us_status u = Active))"
  using reachable_ok [OF assms] by (simp add: platform_ok_def keys_safe_def)

lemma live_keys_are_owned_witness:
  "key_live (hd (db_keys demo_keyed)) \<and>
   (\<exists>u \<in> set (db_users demo_keyed). us_id u = mk_user (hd (db_keys demo_keyed)) \<and> us_status u = Active)"
proof -
  have "key_live (hd (db_keys demo_keyed))"
    by (simp add: demo_keyed_keys issued_row_def key_live_def)
  then show ?thesis
    using live_keys_are_owned [OF reachable_keyed] by (simp add: demo_keyed_keys)
qed

text \<open>C5. No step takes the platform's last way in: as long as one active administrator can log in
with a local password, some active administrator can after every step.\<close>

theorem local_admin_remains:
  assumes "reachable d" "platform_step d d'" "\<exists>u \<in> set (db_users d). active_local_admin u"
  shows "\<exists>u \<in> set (db_users d'). active_local_admin u"
proof -
  have ok: "platform_ok d" by (rule reachable_ok [OF assms(1)])
  then have distinct: "distinct (map ws_id (db_workspaces d))" "distinct (map us_id (db_users d))"
    by (simp_all add: platform_ok_def)
  have users: "db_users d' = db_users d" if "key_step d d'"
    using that
    by cases (simp_all add: requestModelKeyRevoke_def expireStaleModelKeyIssues_def finish_issue_def
        activateModelKey_def recordModelKeyRevokeResult_def Let_def fold_frame
        split: option.split revoke_result.split)
  from assms(2) consider "calm d d'" | "db_users d' = db_users d"
    unfolding platform_step_def
    using workspace_step_calm [OF _ distinct(1)] worker_step_calm user_step_calm other_step_calm
      users policy_step_frame by blast
  then show ?thesis
    using assms(3) distinct(2) by cases (auto simp: calm_def accounts_hold_def list_ex_iff)
qed

lemma local_admin_remains_witness:
  "\<exists>u \<in> set (db_users (snd (updateManagedUser 7 ''u1'' (Some User) None None demo_created))).
     active_local_admin u"
proof (rule local_admin_remains [OF reachable_created])
  show "platform_step demo_created (snd (updateManagedUser 7 ''u1'' (Some User) None None demo_created))"
    by (simp add: platform_step_def user_step.manage_user)
  show "\<exists>u \<in> set (db_users demo_created). active_local_admin u"
    by (simp add: demo_defs audit_workspace_insert_def active_local_admin_def)
qed



text \<open>C7. In every reachable state a Worker is \<open>DISABLED\<close> exactly while it is revoked, and never holds
more Workspaces by its own report than the capacity it declared.\<close>

theorem workers_consistent:
  assumes "reachable d" "w \<in> set (db_workers d)"
  shows "(wk_enabled w \<longleftrightarrow> wk_status w \<noteq> DISABLED) \<and>
    (wk_max w = Some m \<longrightarrow> wk_allocated w \<le> m)"
  using reachable_ok [OF assms(1)] assms(2)
  by (auto simp: platform_ok_def list_all_iff worker_ok_def within_capacity_iff)

lemma workers_consistent_witness: "wk_enabled demo_worker \<longleftrightarrow> wk_status demo_worker \<noteq> DISABLED"
  using workers_consistent [OF reachable_online, of demo_worker] by (simp add: demo_online_tables)

text \<open>C6. In every reachable state the stored egress rules are safe: every allow rule opens only
addresses that are otherwise denied, the limits hold, and the policy message built from them, with
any valid list of protected networks, satisfies the schema the Workers check.\<close>

theorem stored_policy_is_safe:
  assumes "reachable d" "list_all Ipv4CidrSchema protectedCidrs"
    "length protectedCidrs \<le> EGRESS_MAX_ENTRIES" "db_egress_revision d \<le> 2 ^ 53 - 1"
  shows "policy_safe [] (listRules d) \<and> EgressPolicySchema (egress_policy_to_send protectedCidrs d)"
proof -
  have ok: "policy_ok d" using reachable_ok [OF assms(1)] by (simp add: platform_ok_def)
  have rows: "r \<in> set (listRules d) \<Longrightarrow> rule_entry_ok r" for r
    using ok by (auto simp: policy_ok_def listRules_def list_all_iff)
  have "length (networks_of Allow (listRules d)) \<le> EGRESS_MAX_ENTRIES"
    "length (networks_of Deny (listRules d)) \<le> EGRESS_MAX_ENTRIES"
    using ok by (simp_all add: policy_ok_def policy_safe_def)
  moreover have entry: "EgressAllowEntrySchema (allow_entry r)" if "r \<in> set (listRules d)" for r
    using rows [OF that] by (simp only: rule_entry_ok_def)
  moreover have "Ipv4CidrSchema (er_network r)" if "r \<in> set (listRules d)" for r
    using entry [OF that] by (simp add: EgressAllowEntrySchema_def allow_entry_def)
  moreover have "\<lparr>allow_network = er_network r, allow_protocol = er_protocol r,
      allow_port_min = (if er_port_min r \<noteq> None \<and> er_port_max r \<noteq> None then er_port_min r else None),
      allow_port_max = (if er_port_min r \<noteq> None \<and> er_port_max r \<noteq> None then er_port_max r else None)\<rparr> =
      allow_entry r" if "r \<in> set (listRules d)" for r
    using entry [OF that]
    by (cases "er_port_min r"; cases "er_port_max r")
      (simp_all add: EgressAllowEntrySchema_def allow_entry_def)
  ultimately show ?thesis
    using ok assms(2-4)
    by (simp add: policy_ok_def EgressPolicySchema_def egress_policy_to_send_def getEgressPolicy_def
        egressPolicyForWorkers_def networks_of_def list_all_iff Let_def)
qed

lemma stored_policy_is_safe_witness: "EgressPolicySchema (egress_policy_to_send [] demo_online)"
  using stored_policy_is_safe [OF reachable_online, of "[]"] by (simp add: demo_online_tables)

end
